(* ===== verification/Prelude.thy ===== *)
theory Prelude
  imports Main
begin

text \<open>
  Shared vocabulary of the development.

  The store of Whisperfish is an SQLite database that the code drives through Diesel.  A table
  is modelled as the list of its rows in rowid order, and the four SQL statements the code uses
  become the four list operations below: \<open>SELECT .. WHERE .. LIMIT 1\<close> is \<open>first_where\<close>,
  \<open>UPDATE .. WHERE\<close> is \<open>update_where\<close>, \<open>DELETE .. WHERE\<close> is \<open>delete_where\<close> (its complement
  kept), and \<open>INSERT\<close> into a table with an \<open>INTEGER PRIMARY KEY\<close> appends a row whose key
  is \<open>next_rowid\<close>, one more than the largest key.

  Every raise, panic and database error is a value of \<open>store_error\<close>; a fallible operation
  returns a value of \<open>'a res\<close>.
\<close>

named_theorems table_simps "rewriting of table operations"
named_theorems wf_intros "preservation of well-formedness invariants"

section \<open>Errors and results\<close>

datatype db_error =
    NotFound
  | UniqueViolation
  | ForeignKeyViolation
  | TriggerAbort

datatype store_error =
    DbError db_error
  | Panic string

type_synonym 'a res = "store_error + 'a"

definition rbind :: "'a res \<Rightarrow> ('a \<Rightarrow> 'b res) \<Rightarrow> 'b res" where
  "rbind m f = (case m of Inl e \<Rightarrow> Inl e | Inr x \<Rightarrow> f x)"

lemma rbind_Inl [simp]: "rbind (Inl e) f = Inl e"
  by (simp add: rbind_def)

lemma rbind_Inr [simp]: "rbind (Inr x) f = f x"
  by (simp add: rbind_def)

lemma rbind_eq_Inr: "rbind m f = Inr y \<longleftrightarrow> (\<exists>x. m = Inr x \<and> f x = Inr y)"
  by (cases m) auto

lemma rbind_InrE [elim]:
  assumes "rbind m f = Inr y"
  obtains x where "m = Inr x" and "f x = Inr y"
  using assms by (auto simp: rbind_eq_Inr)

definition opt_panic :: "string \<Rightarrow> 'a option \<Rightarrow> 'a res" where
  "opt_panic msg m = (case m of None \<Rightarrow> Inl (Panic msg) | Some x \<Rightarrow> Inr x)"

lemma opt_panic_simps [simp]:
  "opt_panic msg None = Inl (Panic msg)"
  "opt_panic msg (Some x) = Inr x"
  by (simp_all add: opt_panic_def)

lemma opt_panic_eq_Inr [simp]: "opt_panic msg m = Inr x \<longleftrightarrow> m = Some x"
  by (cases m) auto

text \<open>The same for errors of other types.\<close>

definition ebind :: "'e + 'a \<Rightarrow> ('a \<Rightarrow> 'e + 'b) \<Rightarrow> 'e + 'b" where
  "ebind m f = (case m of Inl e \<Rightarrow> Inl e | Inr x \<Rightarrow> f x)"

definition ok_or :: "'e \<Rightarrow> 'a option \<Rightarrow> 'e + 'a" where
  "ok_or e m = (case m of None \<Rightarrow> Inl e | Some x \<Rightarrow> Inr x)"

lemma ebind_simps [simp]: "ebind (Inl e) f = Inl e" "ebind (Inr x) f = f x"
  by (simp_all add: ebind_def)

lemma ok_or_simps [simp]: "ok_or e None = Inl e" "ok_or e (Some x) = Inr x"
  by (simp_all add: ok_or_def)

section \<open>32-bit integers\<close>

text \<open>The casts and the wrapped results of arithmetic on \<open>i32\<close>.\<close>

definition i32_wrap :: "int \<Rightarrow> int" where
  "i32_wrap n = (n + 2 ^ 31) mod 2 ^ 32 - 2 ^ 31"

definition i32_of_u32 :: "nat \<Rightarrow> int" where
  "i32_of_u32 n = i32_wrap (int n)"

definition u32_of_i32 :: "int \<Rightarrow> nat" where
  "u32_of_i32 i = nat (i mod 2 ^ 32)"

lemma u32_of_i32_of_u32: "n < 2 ^ 32 \<Longrightarrow> u32_of_i32 (i32_of_u32 n) = n"
proof -
  assume "n < 2 ^ 32"
  have "((int n + 2 ^ 31) mod 2 ^ 32 - 2 ^ 31) mod 2 ^ 32 = (int n + 2 ^ 31 - 2 ^ 31) mod (2 ^ 32 :: int)"
    by (rule mod_diff_left_eq)
  then show ?thesis
    using \<open>n < 2 ^ 32\<close> by (simp add: u32_of_i32_def i32_of_u32_def i32_wrap_def)
qed

section \<open>Tables as lists of rows\<close>

definition first_where :: "('r \<Rightarrow> bool) \<Rightarrow> 'r list \<Rightarrow> 'r option" where
  "first_where P tab = find P tab"

definition exists_where :: "('r \<Rightarrow> bool) \<Rightarrow> 'r list \<Rightarrow> bool" where
  "exists_where P tab = list_ex P tab"

definition update_where :: "('r \<Rightarrow> bool) \<Rightarrow> ('r \<Rightarrow> 'r) \<Rightarrow> 'r list \<Rightarrow> 'r list" where
  "update_where P f tab = map (\<lambda>r. if P r then f r else r) tab"

definition delete_where :: "('r \<Rightarrow> bool) \<Rightarrow> 'r list \<Rightarrow> 'r list" where
  "delete_where P tab = filter (\<lambda>r. \<not> P r) tab"

definition next_rowid :: "('r \<Rightarrow> int) \<Rightarrow> 'r list \<Rightarrow> int" where
  "next_rowid key tab = (if tab = [] then 1 else Max (set (map key tab)) + 1)"

definition count_where :: "('r \<Rightarrow> bool) \<Rightarrow> 'r list \<Rightarrow> nat" where
  "count_where P tab = length (filter P tab)"

definition last_option :: "'a list \<Rightarrow> 'a option" where
  "last_option xs = (case rev xs of [] \<Rightarrow> None | x # _ \<Rightarrow> Some x)"

lemma first_where_simps [simp]:
  "first_where P [] = None"
  "first_where P (r # tab) = (if P r then Some r else first_where P tab)"
  by (simp_all add: first_where_def)

lemma exists_where_simps [simp]:
  "exists_where P [] = False"
  "exists_where P (r # tab) = (P r \<or> exists_where P tab)"
  by (simp_all add: exists_where_def)

lemma update_where_simps [simp]:
  "update_where P f [] = []"
  "update_where P f (r # tab) = (if P r then f r else r) # update_where P f tab"
  by (simp_all add: update_where_def)

lemma delete_where_simps [simp]:
  "delete_where P [] = []"
  "delete_where P (r # tab) = (if P r then delete_where P tab else r # delete_where P tab)"
  by (simp_all add: delete_where_def)

lemma count_where_simps [simp]:
  "count_where P [] = 0"
  "count_where P (r # tab) = (if P r then Suc (count_where P tab) else count_where P tab)"
  by (simp_all add: count_where_def)

lemma exists_where_iff [table_simps]: "exists_where P tab \<longleftrightarrow> (\<exists>r\<in>set tab. P r)"
  by (induction tab) auto

lemma first_where_None [table_simps]: "first_where P tab = None \<longleftrightarrow> (\<forall>r\<in>set tab. \<not> P r)"
  by (induction tab) auto

lemma first_where_SomeD: "first_where P tab = Some r \<Longrightarrow> r \<in> set tab \<and> P r"
  by (induction tab) (auto split: if_splits)

lemma first_where_append:
  "first_where P (xs @ ys) = (case first_where P xs of None \<Rightarrow> first_where P ys | Some r \<Rightarrow> Some r)"
  by (induction xs) auto

lemma exists_where_append [simp]: "exists_where P (xs @ ys) \<longleftrightarrow> exists_where P xs \<or> exists_where P ys"
  by (induction xs) auto

lemma update_where_append [simp]:
  "update_where P f (xs @ ys) = update_where P f xs @ update_where P f ys"
  by (simp add: update_where_def)

lemma delete_where_append [simp]:
  "delete_where P (xs @ ys) = delete_where P xs @ delete_where P ys"
  by (simp add: delete_where_def)

lemma set_update_where [table_simps]:
  "set (update_where P f tab) = (\<lambda>r. if P r then f r else r) ` set tab"
  by (simp add: update_where_def)

lemma set_delete_where [table_simps]: "set (delete_where P tab) = {r \<in> set tab. \<not> P r}"
  by (auto simp: delete_where_def)

lemma length_update_where [simp]: "length (update_where P f tab) = length tab"
  by (simp add: update_where_def)

lemma map_update_where_frame:
  "(\<And>r. P r \<Longrightarrow> g (f r) = g r) \<Longrightarrow> map g (update_where P f tab) = map g tab"
  by (simp add: update_where_def)

lemma first_where_update:
  "(\<And>r. P r \<Longrightarrow> Q (f r) = Q r) \<Longrightarrow>
     first_where Q (update_where P f tab)
       = map_option (\<lambda>r. if P r then f r else r) (first_where Q tab)"
  by (induction tab) auto

lemma exists_where_updated:
  "exists_where K tab \<Longrightarrow> (\<And>r. K r \<Longrightarrow> Q (f r)) \<Longrightarrow> exists_where Q (update_where K f tab)"
  by (induction tab) auto

lemma exists_where_map:
  "exists_where (\<lambda>r. col r = k) tab \<longleftrightarrow> k \<in> set (map col tab)"
  by (auto simp: exists_where_iff)

lemma exists_where_cong_map:
  "map col tab = map col tab' \<Longrightarrow>
     exists_where (\<lambda>r. col r = k) tab = exists_where (\<lambda>r. col r = k) tab'"
  by (simp only: exists_where_map)

lemma update_where_False [simp]: "(\<And>r. r \<in> set tab \<Longrightarrow> \<not> P r) \<Longrightarrow> update_where P f tab = tab"
  by (induction tab) auto

lemma delete_where_False: "(\<And>r. r \<in> set tab \<Longrightarrow> \<not> P r) \<Longrightarrow> delete_where P tab = tab"
  by (induction tab) auto

lemma distinct_map_delete_where: "distinct (map g tab) \<Longrightarrow> distinct (map g (delete_where P tab))"
  by (simp add: delete_where_def distinct_map_filter)

lemma last_option_simps [simp]:
  "last_option [] = None"
  "last_option (xs @ [x]) = Some x"
  by (simp_all add: last_option_def)

lemma last_option_SomeD: "last_option xs = Some x \<Longrightarrow> x \<in> set xs"
  by (cases xs rule: rev_cases) auto

lemma last_option_None [simp]: "last_option xs = None \<longleftrightarrow> xs = []"
  by (cases xs rule: rev_cases) auto

lemma last_option_code: "last_option xs = (if xs = [] then None else Some (last xs))"
  by (cases xs rule: rev_cases) auto

section \<open>Tables with an integer primary key\<close>

text \<open>
  The interface the store's operations rely on: a row carries its key, and \<open>with_key\<close> is what
  the insertion uses to give a new row its number.  The lemmas are the facts about keys that
  every component needs: insertion is fresh, and neither insertion nor an update that leaves the
  key alone nor a deletion makes two rows share a key.
\<close>

definition insert_row :: "('r \<Rightarrow> int) \<Rightarrow> (int \<Rightarrow> 'r \<Rightarrow> 'r) \<Rightarrow> 'r \<Rightarrow> 'r list \<Rightarrow> 'r list" where
  "insert_row key with_key r tab = tab @ [with_key (next_rowid key tab) r]"

definition distinct_keys :: "('r \<Rightarrow> 'k) \<Rightarrow> 'r list \<Rightarrow> bool" where
  "distinct_keys key tab = distinct (map key tab)"

lemma next_rowid_fresh:
  assumes "r \<in> set tab"
  shows "key r < next_rowid key tab"
proof -
  have "key r \<le> Max (set (map key tab))"
    using assms by (intro Max_ge) auto
  moreover have "tab \<noteq> []"
    using assms by auto
  ultimately show ?thesis
    by (simp add: next_rowid_def)
qed

lemma next_rowid_not_in: "next_rowid key tab \<notin> key ` set tab"
proof
  assume "next_rowid key tab \<in> key ` set tab"
  then obtain r where "r \<in> set tab" and "next_rowid key tab = key r"
    by blast
  then show False
    using next_rowid_fresh[of r tab key] by simp
qed

lemma distinct_keys_update:
  "distinct_keys key tab \<Longrightarrow> (\<And>r. P r \<Longrightarrow> key (f r) = key r) \<Longrightarrow> distinct_keys key (update_where P f tab)"
  by (simp add: distinct_keys_def map_update_where_frame)

lemma distinct_keys_delete: "distinct_keys key tab \<Longrightarrow> distinct_keys key (delete_where P tab)"
  by (simp add: distinct_keys_def distinct_map_delete_where)

lemma distinct_keys_inj:
  "distinct_keys key tab \<Longrightarrow> r \<in> set tab \<Longrightarrow> s \<in> set tab \<Longrightarrow> key r = key s \<Longrightarrow> r = s"
  by (auto simp: distinct_keys_def distinct_map dest: inj_onD)

lemma first_where_key:
  assumes "distinct_keys key tab" and "r \<in> set tab"
  shows "first_where (\<lambda>s. key s = key r) tab = Some r"
  using assms by (induction tab) (auto simp: distinct_keys_def)

locale rowid_table =
  fixes key :: "'r \<Rightarrow> int"
    and with_key :: "int \<Rightarrow> 'r \<Rightarrow> 'r"
  assumes key_with_key: "key (with_key i r) = i"
begin

lemma distinct_insert:
  "distinct_keys key tab \<Longrightarrow> distinct_keys key (insert_row key with_key r tab)"
  using next_rowid_not_in[of key tab]
  by (auto simp: distinct_keys_def insert_row_def key_with_key)

lemma find_inserted:
  "first_where (\<lambda>s. key s = next_rowid key tab) (insert_row key with_key r tab)
     = Some (with_key (next_rowid key tab) r)"
  using next_rowid_not_in[of key tab]
  by (auto simp: insert_row_def first_where_append key_with_key first_where_None image_iff
      split: option.splits dest!: first_where_SomeD)

lemma find_other:
  "k \<noteq> next_rowid key tab \<Longrightarrow>
     first_where (\<lambda>s. key s = k) (insert_row key with_key r tab) = first_where (\<lambda>s. key s = k) tab"
  by (auto simp: insert_row_def first_where_append key_with_key split: option.splits)

lemma set_insert_row:
  "set (insert_row key with_key r tab) = insert (with_key (next_rowid key tab) r) (set tab)"
  by (auto simp: insert_row_def)

lemma keys_insert_row:
  "key ` set (insert_row key with_key r tab) = insert (next_rowid key tab) (key ` set tab)"
  by (simp add: set_insert_row key_with_key)

end

end
