(* ===== verification/Orm.thy ===== *)
theory Orm
  imports Prelude
begin

text \<open>
  The rows of the database and the enums stored in them
  (\<open>whisperfish-store/src/store/orm.rs\<close>), with the conversions and the predicates the rest of
  the store relies on.

  UUIDs are 128-bit numbers and stand for their own text (the code stores them through
  \<open>Uuid::to_string\<close>, which is injective); phone numbers, texts, file paths and group ids are
  strings; blobs are lists of byte values.  Row ids are \<open>i32\<close>, modelled as integers: SQLite
  allocates them upwards from 1.  A \<open>NaiveDateTime\<close> is a whole number of milliseconds since
  the epoch.
\<close>

type_synonym uuid = nat
type_synonym phone_number = string
type_synonym blob = "nat list"
type_synonym timestamp = int

section \<open>Enums and their conversions\<close>

datatype access_required = ARUnknown | ARAny | ARMember | ARAdministrator | ARUnsatisfiable

fun access_required_from_i32 :: "int \<Rightarrow> access_required" where
  "access_required_from_i32 value =
     (if value = 0 then ARUnknown
      else if value = 1 then ARAny
      else if value = 2 then ARMember
      else if value = 3 then ARAdministrator
      else if value = 4 then ARUnsatisfiable
      else ARUnknown)"

fun i32_from_access_required :: "access_required \<Rightarrow> int" where
  "i32_from_access_required ARUnknown = 0"
| "i32_from_access_required ARAny = 1"
| "i32_from_access_required ARMember = 2"
| "i32_from_access_required ARAdministrator = 3"
| "i32_from_access_required ARUnsatisfiable = 4"

datatype unidentified_access_mode = UAUnknown | UADisabled | UAEnabled | UAUnrestricted

fun unidentified_try_from :: "int \<Rightarrow> unit + unidentified_access_mode" where
  "unidentified_try_from value =
     (if value = 0 then Inr UAUnknown
      else if value = 1 then Inr UADisabled
      else if value = 2 then Inr UAEnabled
      else if value = 3 then Inr UAUnrestricted
      else Inl ())"

fun i32_from_unidentified :: "unidentified_access_mode \<Rightarrow> int" where
  "i32_from_unidentified UAUnknown = 0"
| "i32_from_unidentified UADisabled = 1"
| "i32_from_unidentified UAEnabled = 2"
| "i32_from_unidentified UAUnrestricted = 3"

datatype story_type =
    StoryNone
  | StoryWithReplies
  | StoryWithoutReplies
  | TextStoryWithReplies
  | TextStoryWithoutReplies

fun story_type_try_from :: "int \<Rightarrow> unit + story_type" where
  "story_type_try_from value =
     (if value = 0 then Inr StoryNone
      else if value = 1 then Inr StoryWithReplies
      else if value = 2 then Inr StoryWithoutReplies
      else if value = 3 then Inr TextStoryWithReplies
      else if value = 4 then Inr TextStoryWithoutReplies
      else Inl ())"

fun i32_from_story_type :: "story_type \<Rightarrow> int" where
  "i32_from_story_type StoryNone = 0"
| "i32_from_story_type StoryWithReplies = 1"
| "i32_from_story_type StoryWithoutReplies = 2"
| "i32_from_story_type TextStoryWithReplies = 3"
| "i32_from_story_type TextStoryWithoutReplies = 4"

fun story_type_from_params :: "bool \<Rightarrow> bool \<Rightarrow> story_type" where
  "story_type_from_params False False = StoryWithoutReplies"
| "story_type_from_params True False = StoryWithReplies"
| "story_type_from_params False True = TextStoryWithoutReplies"
| "story_type_from_params True True = TextStoryWithReplies"

datatype privacy_mode = OnlyWith | AllExcept | AllMembers

fun privacy_mode_try_from :: "int \<Rightarrow> unit + privacy_mode" where
  "privacy_mode_try_from value =
     (if value = 0 then Inr OnlyWith
      else if value = 1 then Inr AllExcept
      else if value = 2 then Inr AllMembers
      else Inl ())"

fun i32_from_privacy_mode :: "privacy_mode \<Rightarrow> int" where
  "i32_from_privacy_mode OnlyWith = 0"
| "i32_from_privacy_mode AllExcept = 1"
| "i32_from_privacy_mode AllMembers = 2"

datatype message_type =
    Unsupported | ProfileKeyUpdate | EndSession | IdentityKeyChange | GroupChange | Payment
  | GroupCallUpdate | ExpirationTimerUpdate | IdentityReset
  | IncomingAudioCall | OutgoingAudioCall | MissedAudioCall
  | IncomingVideoCall | OutgoingVideoCall | MissedVideoCall
  | GroupCall | ContactMessage | Sticker

datatype call_type = Audio | Video | Group | AdHoc

datatype call_event =
    Ongoing | Accepted | NotAccepted | Missed | GenericGroupCall | Joined | Ringing | Declined
  | OutgoingRing

definition is_missed_call :: "call_event \<Rightarrow> bool" where
  "is_missed_call e = (e = Missed)"

fun from_call_type :: "call_type \<Rightarrow> bool \<Rightarrow> call_event \<Rightarrow> message_type" where
  "from_call_type Group _ event = GroupCall"
| "from_call_type AdHoc _ event = GroupCall"
| "from_call_type Audio False event =
     (if is_missed_call event then MissedAudioCall else IncomingAudioCall)"
| "from_call_type Video False event =
     (if is_missed_call event then MissedVideoCall else IncomingVideoCall)"
| "from_call_type Audio True event = OutgoingAudioCall"
| "from_call_type Video True event = OutgoingVideoCall"

fun message_type_as_ref :: "message_type \<Rightarrow> string" where
  "message_type_as_ref Unsupported = ''unsupported''"
| "message_type_as_ref ProfileKeyUpdate = ''profile_key_update''"
| "message_type_as_ref EndSession = ''end_session''"
| "message_type_as_ref IdentityKeyChange = ''identity_reset''"
| "message_type_as_ref GroupChange = ''group_change''"
| "message_type_as_ref Payment = ''payment''"
| "message_type_as_ref GroupCallUpdate = ''group_call_update''"
| "message_type_as_ref ExpirationTimerUpdate = ''expiration_timer_update''"
| "message_type_as_ref IdentityReset = ''identity_reset''"
| "message_type_as_ref IncomingAudioCall = ''incoming_audio_call''"
| "message_type_as_ref OutgoingAudioCall = ''outgoing_audio_call''"
| "message_type_as_ref MissedAudioCall = ''missed_audio_call''"
| "message_type_as_ref IncomingVideoCall = ''incoming_video_call''"
| "message_type_as_ref OutgoingVideoCall = ''outgoing_video_call''"
| "message_type_as_ref MissedVideoCall = ''missed_video_call''"
| "message_type_as_ref GroupCall = ''group_call''"
| "message_type_as_ref ContactMessage = ''contact''"
| "message_type_as_ref Sticker = ''sticker''"

section \<open>Rows\<close>

record recipient =
  r_id :: int
  r_e164 :: "phone_number option"
  r_uuid :: "uuid option"
  r_username :: "string option"
  r_email :: "string option"
  r_is_blocked :: bool
  r_profile_key :: "blob option"
  r_profile_key_credential :: "blob option"
  r_profile_given_name :: "string option"
  r_profile_family_name :: "string option"
  r_profile_joined_name :: "string option"
  r_signal_profile_avatar :: "string option"
  r_profile_sharing :: bool
  r_last_profile_fetch :: "timestamp option"
  r_storage_service_id :: "blob option"
  r_storage_proto :: "blob option"
  r_capabilities :: int
  r_last_gv1_migrate_reminder :: "timestamp option"
  r_last_session_reset :: "timestamp option"
  r_about :: "string option"
  r_about_emoji :: "string option"
  r_is_registered :: bool
  r_unidentified_access_mode :: unidentified_access_mode
  r_pni :: "uuid option"
  r_needs_pni_signature :: bool
  r_external_id :: "string option"
  r_is_accepted :: bool

record db_session =
  s_id :: int
  s_direct_message_recipient_id :: "int option"
  s_group_v1_id :: "string option"
  s_group_v2_id :: "string option"
  s_is_archived :: bool
  s_is_pinned :: bool
  s_is_silent :: bool
  s_is_muted :: bool
  s_draft :: "string option"
  s_expiring_message_timeout :: "int option"
  s_expire_timer_version :: int

record message =
  m_id :: int
  m_session_id :: int
  m_text :: "string option"
  m_sender_recipient_id :: "int option"
  m_received_timestamp :: "timestamp option"
  m_sent_timestamp :: "timestamp option"
  m_server_timestamp :: timestamp
  m_is_read :: bool
  m_is_outbound :: bool
  m_flags :: int
  m_expires_in :: "int option"
  m_expiry_started :: "timestamp option"
  m_schedule_send_time :: "timestamp option"
  m_is_bookmarked :: bool
  m_use_unidentified :: bool
  m_is_remote_deleted :: bool
  m_sending_has_failed :: bool
  m_quote_id :: "int option"
  m_story_type :: story_type
  m_server_guid :: "uuid option"
  m_message_ranges :: "blob option"
  m_latest_revision_id :: "int option"
  m_original_message_id :: "int option"
  m_revision :: int
  m_message_type :: "message_type option"
  m_expire_timer_version :: int

definition default_message :: message where
  "default_message =
     \<lparr> m_id = 0, m_session_id = 0, m_text = None, m_sender_recipient_id = None,
       m_received_timestamp = None, m_sent_timestamp = None, m_server_timestamp = 0,
       m_is_read = False, m_is_outbound = False, m_flags = 0, m_expires_in = None,
       m_expiry_started = None, m_schedule_send_time = None, m_is_bookmarked = False,
       m_use_unidentified = False, m_is_remote_deleted = False, m_sending_has_failed = False,
       m_quote_id = None, m_story_type = StoryNone, m_server_guid = None,
       m_message_ranges = None, m_latest_revision_id = None, m_original_message_id = None,
       m_revision = 0, m_message_type = None, m_expire_timer_version = 1 \<rparr>"

record reaction =
  x_reaction_id :: int
  x_message_id :: int
  x_author :: int
  x_emoji :: string
  x_sent_time :: timestamp
  x_received_time :: timestamp

record receipt =
  t_message_id :: int
  t_recipient_id :: int
  t_delivered :: "timestamp option"
  t_read :: "timestamp option"
  t_viewed :: "timestamp option"

record attachment =
  a_id :: int
  a_json :: "string option"
  a_message_id :: int
  a_content_type :: string
  a_name :: "string option"
  a_content_disposition :: "string option"
  a_content_location :: "string option"
  a_attachment_path :: "string option"
  a_is_pending_upload :: bool
  a_transfer_file_path :: "string option"
  a_size :: "int option"
  a_file_name :: "string option"
  a_unique_id :: "string option"
  a_digest :: "string option"
  a_is_voice_note :: bool
  a_is_borderless :: bool
  a_is_quote :: bool
  a_width :: "int option"
  a_height :: "int option"
  a_sticker_pack_id :: "string option"
  a_sticker_pack_key :: "blob option"
  a_sticker_id :: "int option"
  a_sticker_emoji :: "string option"
  a_data_hash :: "blob option"
  a_visual_hash :: "string option"
  a_transform_properties :: "string option"
  a_transfer_file :: "string option"
  a_display_order :: int
  a_upload_timestamp :: timestamp
  a_cdn_number :: "int option"
  a_caption :: "string option"
  a_pointer :: "blob option"
  a_transcription :: "string option"
  a_download_length :: "int option"
  a_original_path :: "string option"

record group_v1 =
  g1_id :: string
  g1_name :: string
  g1_expected_v2_id :: "string option"

record group_v1_member =
  gm1_group_v1_id :: string
  gm1_recipient_id :: int
  gm1_member_since :: "timestamp option"

record group_v2 =
  g2_id :: string
  g2_name :: string
  g2_master_key :: string
  g2_revision :: int
  g2_invite_link_password :: "blob option"
  g2_access_required_for_attributes :: int
  g2_access_required_for_members :: int
  g2_access_required_for_add_from_invite_link :: int
  g2_avatar :: "string option"
  g2_description :: "string option"
  g2_announcement_only :: bool
  g2_access_required_for_member_labels :: int
  g2_terminated :: bool

record group_v2_member =
  gm2_group_v2_id :: string
  gm2_recipient_id :: int
  gm2_member_since :: timestamp
  gm2_joined_at_revision :: int
  gm2_role :: int
  gm2_label :: "string option"
  gm2_label_emoji :: "string option"

datatype service_id = AciId uuid | PniId uuid

record group_v2_pending_member =
  gp_group_v2_id :: string
  gp_service_id :: service_id
  gp_role :: int
  gp_added_by_aci :: uuid
  gp_timestamp :: timestamp

record group_v2_requesting_member =
  gr_group_v2_id :: string
  gr_aci :: uuid
  gr_profile_key :: blob
  gr_timestamp :: timestamp

record group_v2_banned_member =
  gb_group_v2_id :: string
  gb_service_id :: service_id
  gb_banned_at :: timestamp

record call =
  c_id :: int
  c_call_id :: int
  c_message_id :: "int option"
  c_session_id :: int
  c_type :: call_type
  c_is_outbound :: bool
  c_event :: call_event
  c_timestamp :: timestamp
  c_ringer :: int
  c_deletion_timestamp :: "timestamp option"
  c_is_read :: bool
  c_local_joined :: bool
  c_group_call_active :: bool

end
