(* ===== verification/Observer.thy ===== *)
theory Observer
  imports Orm
begin

text \<open>
  The change notifications of the store (\<open>whisperfish-store/src/store/observer.rs\<close>,
  \<open>observer/diesel.rs\<close>) and the observatory that routes them to the models of the user
  interface (\<open>whisperfish/src/store.rs\<close>).

  A \<open>Subject\<close> is the type id of a Diesel table or of a process marker: here a constructor per
  table and \<open>ProcessSubject\<close> for the rest.  An event's payload is a verb, a process value (kept
  by its type and a text) or nothing.  Delivery to a subscriber goes through an Actix mailbox,
  which is not part of the repository: whether an address is alive and what it answers are the
  parameters \<open>alive\<close> and \<open>send\<close>.
\<close>

section \<open>Subjects, keys, relations, events\<close>

datatype subject =
    SubRecipients | SubSessions | SubMessages | SubAttachments | SubReactions | SubReceipts
  | SubGroupV1s | SubGroupV1Members | SubGroupV2s | SubGroupV2Members
  | SubGroupV2PendingMembers | SubGroupV2RequestingMembers | SubGroupV2BannedMembers
  | ProcessSubject string

datatype primary_key = UnknownKey | RowId int | StringRowId string

datatype event_type = EvInsert | EvUpsert | EvUpdate | EvDelete

datatype payload = Verb event_type | ProcessPayload string string | NoPayload

record relation =
  rel_subject :: subject
  rel_key :: primary_key

record event =
  ev_subject :: subject
  ev_key :: primary_key
  ev_relations :: "relation list"
  ev_payload :: payload

datatype interest =
    Any subject
  | Keyed subject primary_key
  | Related subject relation

definition implies :: "primary_key \<Rightarrow> primary_key \<Rightarrow> bool" where
  "implies self rhs = (self = UnknownKey \<or> self = rhs)"

fun as_i32 :: "primary_key \<Rightarrow> int option" where
  "as_i32 UnknownKey = None"
| "as_i32 (RowId i) = Some i"
| "as_i32 (StringRowId _) = None"

definition event_verb :: "event \<Rightarrow> event_type option" where
  "event_verb ev = (case ev_payload ev of Verb v \<Rightarrow> Some v | _ \<Rightarrow> None)"

definition is_insert :: "event \<Rightarrow> bool" where
  "is_insert ev = (event_verb ev = Some EvInsert)"

definition is_update_or_insert :: "event \<Rightarrow> bool" where
  "is_update_or_insert ev =
     (event_verb ev = Some EvUpsert \<or> event_verb ev = Some EvInsert \<or> event_verb ev = Some EvUpdate)"

definition is_update :: "event \<Rightarrow> bool" where
  "is_update ev = (event_verb ev = Some EvUpdate)"

definition is_delete :: "event \<Rightarrow> bool" where
  "is_delete ev = (event_verb ev = Some EvDelete)"

definition for_table :: "event \<Rightarrow> subject \<Rightarrow> bool" where
  "for_table ev t = (ev_subject ev = t)"

definition for_row :: "event \<Rightarrow> subject \<Rightarrow> primary_key \<Rightarrow> bool" where
  "for_row ev t key_test = (if ev_subject ev \<noteq> t then False else implies (ev_key ev) key_test)"

definition relation_key_for :: "event \<Rightarrow> subject \<Rightarrow> primary_key option" where
  "relation_key_for ev t =
     (if ev_subject ev = t then Some (ev_key ev)
      else map_option rel_key (find (\<lambda>r. rel_subject r = t) (ev_relations ev)))"

fun is_interesting :: "interest \<Rightarrow> event \<Rightarrow> bool" where
  "is_interesting (Any sub) ev = (sub = ev_subject ev)"
| "is_interesting (Related sub rel) ev =
     (if sub \<noteq> ev_subject ev then False
      else ev_relations ev = []
           \<or> list_ex (\<lambda>er. rel_subject er = rel_subject rel \<and> rel_key er = rel_key rel)
                (ev_relations ev))"
| "is_interesting (Keyed sub key) ev =
     (if sub \<noteq> ev_subject ev then False
      else (case ev_key ev of UnknownKey \<Rightarrow> True | ke \<Rightarrow> key = ke))"

section \<open>Constructors\<close>

definition whole_table :: "subject \<Rightarrow> interest" where
  "whole_table t = Any t"

definition whole_table_with_relation :: "subject \<Rightarrow> subject \<Rightarrow> primary_key \<Rightarrow> interest" where
  "whole_table_with_relation t u k = Related t \<lparr> rel_subject = u, rel_key = k \<rparr>"

definition row_interest :: "subject \<Rightarrow> primary_key \<Rightarrow> interest" where
  "row_interest t k = Keyed t k"

definition observation :: "event_type \<Rightarrow> subject \<Rightarrow> primary_key \<Rightarrow> event" where
  "observation v t k =
     \<lparr> ev_subject = t, ev_key = k, ev_relations = [], ev_payload = Verb v \<rparr>"

definition observe_insert :: "subject \<Rightarrow> primary_key \<Rightarrow> event" where
  "observe_insert = observation EvInsert"

definition observe_upsert :: "subject \<Rightarrow> primary_key \<Rightarrow> event" where
  "observe_upsert = observation EvUpsert"

definition observe_update :: "subject \<Rightarrow> primary_key \<Rightarrow> event" where
  "observe_update = observation EvUpdate"

definition observe_delete :: "subject \<Rightarrow> primary_key \<Rightarrow> event" where
  "observe_delete = observation EvDelete"

definition with_relation :: "subject \<Rightarrow> primary_key \<Rightarrow> event \<Rightarrow> event" where
  "with_relation u k ev = ev\<lparr>ev_relations := ev_relations ev @ [\<lparr> rel_subject = u, rel_key = k \<rparr>]\<rparr>"

definition with_transitive_relation :: "subject \<Rightarrow> subject \<Rightarrow> primary_key \<Rightarrow> event \<Rightarrow> event" where
  "with_transitive_relation via target k ev =
     ev\<lparr>ev_relations := ev_relations ev @ [\<lparr> rel_subject = target, rel_key = k \<rparr>]\<rparr>"

definition process_event :: "string \<Rightarrow> string \<Rightarrow> primary_key \<Rightarrow> relation list \<Rightarrow> event" where
  "process_event ty val k rels =
     \<lparr> ev_subject = ProcessSubject ty, ev_key = k, ev_relations = rels,
       ev_payload = ProcessPayload ty val \<rparr>"

definition event_without_payload :: "subject \<Rightarrow> primary_key \<Rightarrow> relation list \<Rightarrow> event" where
  "event_without_payload t k rels =
     \<lparr> ev_subject = t, ev_key = k, ev_relations = rels, ev_payload = NoPayload \<rparr>"

lemmas observe_defs [table_simps] =
  observation_def observe_insert_def observe_upsert_def observe_update_def observe_delete_def
  with_relation_def with_transitive_relation_def

section \<open>The observatory\<close>

record subscription =
  sub_id :: uuid
  sub_interests :: "interest list"
  sub_subscriber :: nat

datatype send_result = Replied "interest list" | MailboxTimeout | MailboxClosed

definition register :: "uuid \<Rightarrow> interest list \<Rightarrow> nat \<Rightarrow> subscription list \<Rightarrow> subscription list" where
  "register i ints a subs =
     subs @ [\<lparr> sub_id = i, sub_interests = ints, sub_subscriber = a \<rparr>]"

fun update_interests :: "uuid \<Rightarrow> interest list \<Rightarrow> subscription list \<Rightarrow> subscription list" where
  "update_interests i ints [] = []"
| "update_interests i ints (s # subs) =
     (if sub_id s = i then s\<lparr>sub_interests := ints\<rparr> # subs
      else s # update_interests i ints subs)"

definition wants :: "event \<Rightarrow> subscription \<Rightarrow> bool" where
  "wants ev s = list_ex (\<lambda>i. is_interesting i ev) (sub_interests s)"

text \<open>
  One round of \<open>distribute_event\<close>: stale subscriptions are dropped first, then every
  subscription with a matching interest is sent the event, in order, and takes over the
  interests it answers with.  The addresses that were sent the event are returned beside the
  new subscriptions.
\<close>

fun deliver_all ::
  "(nat \<Rightarrow> bool) \<Rightarrow> (nat \<Rightarrow> event \<Rightarrow> send_result) \<Rightarrow> event \<Rightarrow> subscription list
     \<Rightarrow> subscription list \<times> nat list" where
  "deliver_all alive send ev [] = ([], [])"
| "deliver_all alive send ev (s # subs) =
     (let (rest, sent) = deliver_all alive send ev subs in
      if wants ev s \<and> alive (sub_subscriber s)
      then (case send (sub_subscriber s) ev of
              Replied ints \<Rightarrow> (s\<lparr>sub_interests := ints\<rparr> # rest, sub_subscriber s # sent)
            | MailboxTimeout \<Rightarrow> (s # rest, sub_subscriber s # sent)
            | MailboxClosed \<Rightarrow> (s # rest, sub_subscriber s # sent))
      else (s # rest, sent))"

definition distribute_event ::
  "(nat \<Rightarrow> bool) \<Rightarrow> (nat \<Rightarrow> event \<Rightarrow> send_result) \<Rightarrow> event \<Rightarrow> subscription list
     \<Rightarrow> subscription list \<times> nat list" where
  "distribute_event alive send ev subs =
     deliver_all alive send ev (filter (\<lambda>s. alive (sub_subscriber s)) subs)"

section \<open>Routing facts\<close>

lemma deliver_all_sent:
  "snd (deliver_all alive send ev subs)
     = map sub_subscriber (filter (\<lambda>s. wants ev s \<and> alive (sub_subscriber s)) subs)"
  by (induction subs) (auto simp: Let_def split: prod.splits send_result.splits)

lemma deliver_all_addresses:
  "map (\<lambda>s. (sub_id s, sub_subscriber s)) (fst (deliver_all alive send ev subs))
     = map (\<lambda>s. (sub_id s, sub_subscriber s)) subs"
  by (induction subs) (auto simp: Let_def split: prod.splits send_result.splits)

lemma wants_iff: "wants ev s \<longleftrightarrow> (\<exists>i\<in>set (sub_interests s). is_interesting i ev)"
  by (simp add: wants_def list_ex_iff)

lemma update_interests_ids: "map sub_id (update_interests i ints subs) = map sub_id subs"
  by (induction subs) auto

lemma row_interest_own_event:
  "is_interesting (row_interest t k) (observation v t k)"
  by (auto simp: row_interest_def observation_def split: primary_key.splits)

lemma related_interest_own_relation:
  "is_interesting (whole_table_with_relation t u k) (with_relation u k (observation v t k'))"
  by (simp add: whole_table_with_relation_def with_relation_def observation_def)

section \<open>Event sinks\<close>

text \<open>
  What an operation of the store relies on when it reports a change: emitting appends to the
  log of events and touches nothing else.
\<close>

locale event_sink =
  fixes emit :: "event \<Rightarrow> 's \<Rightarrow> 's"
    and log :: "'s \<Rightarrow> event list"
    and state :: "'s \<Rightarrow> 'd"
  assumes log_emit: "log (emit ev s) = log s @ [ev]"
    and state_emit: "state (emit ev s) = state s"
begin

lemma log_fold: "log (fold emit evs s) = log s @ evs"
  by (induction evs arbitrary: s) (simp_all add: log_emit)

lemma state_fold: "state (fold emit evs s) = state s"
  by (induction evs arbitrary: s) (simp_all add: state_emit)

end

end
