(* ===== verification/Database.thy ===== *)
theory Database
  imports Observer
begin

text \<open>
  The state every operation of the store works on: the tables, the configured identity of the
  user, the cached self recipient, the event log, the wall clock and the attachment files on
  disk (\<open>Storage\<close> in \<open>whisperfish-store/src/store.rs\<close>, the schema in
  \<open>whisperfish-store/src/schema.rs\<close>).

  The constraints the migrations declare are part of the model, because the code runs with
  \<open>PRAGMA foreign_keys = ON\<close> and relies on them: primary keys, the unique columns of
  \<open>recipients\<close> and \<open>reactions\<close>, the references to recipients, sessions and messages, and the
  \<open>ON DELETE CASCADE\<close> actions of a deleted session, message or recipient.
\<close>

section \<open>State\<close>

record database =
  recipients :: "recipient list"
  sessions :: "db_session list"
  messages :: "message list"
  attachments :: "attachment list"
  reactions :: "reaction list"
  receipts :: "receipt list"
  group_v1s :: "group_v1 list"
  group_v1_members :: "group_v1_member list"
  group_v2s :: "group_v2 list"
  group_v2_members :: "group_v2_member list"
  group_v2_pending_members :: "group_v2_pending_member list"
  group_v2_requesting_members :: "group_v2_requesting_member list"
  group_v2_banned_members :: "group_v2_banned_member list"
  calls :: "call list"
  settings :: "(string \<times> string) list"

record config =
  cfg_tel :: "phone_number option"
  cfg_aci :: "uuid option"
  cfg_pni :: "uuid option"
  cfg_home :: string

record storage =
  db :: database
  conf :: config
  self_recipient :: "recipient option"
  events :: "event list"
  now :: timestamp
  files :: "string list"

definition empty_database :: database where
  "empty_database =
     \<lparr> recipients = [], sessions = [], messages = [], attachments = [], reactions = [],
       receipts = [], group_v1s = [], group_v1_members = [], group_v2s = [],
       group_v2_members = [], group_v2_pending_members = [], group_v2_requesting_members = [],
       group_v2_banned_members = [], calls = [], settings = [] \<rparr>"

definition emit :: "event \<Rightarrow> storage \<Rightarrow> storage" where
  "emit ev st = st\<lparr>events := events st @ [ev]\<rparr>"

definition emit_all :: "event list \<Rightarrow> storage \<Rightarrow> storage" where
  "emit_all evs st = fold emit evs st"

definition emit_if :: "bool \<Rightarrow> event \<Rightarrow> storage \<Rightarrow> storage" where
  "emit_if c ev st = (if c then emit ev st else st)"

interpretation sink: event_sink emit events db
  by unfold_locales (simp_all add: emit_def)

lemma emit_frame [simp]:
  "db (emit ev st) = db st" "conf (emit ev st) = conf st"
  "self_recipient (emit ev st) = self_recipient st" "now (emit ev st) = now st"
  "files (emit ev st) = files st" "events (emit ev st) = events st @ [ev]"
  by (simp_all add: emit_def)

lemma emit_if_frame [simp]:
  "db (emit_if c ev st) = db st" "conf (emit_if c ev st) = conf st"
  "self_recipient (emit_if c ev st) = self_recipient st" "now (emit_if c ev st) = now st"
  "files (emit_if c ev st) = files st"
  "events (emit_if c ev st) = events st @ (if c then [ev] else [])"
  by (simp_all add: emit_if_def)

lemma emit_all_frame [simp]:
  "db (emit_all evs st) = db st"
  "events (emit_all evs st) = events st @ evs"
  by (simp_all add: emit_all_def sink.state_fold sink.log_fold)

lemma emit_all_frame2 [simp]:
  "conf (emit_all evs st) = conf st" "self_recipient (emit_all evs st) = self_recipient st"
  "now (emit_all evs st) = now st" "files (emit_all evs st) = files st"
  by (induction evs arbitrary: st) (simp_all add: emit_all_def)

section \<open>Row numbers\<close>

abbreviation with_r_id :: "int \<Rightarrow> recipient \<Rightarrow> recipient" where
  "with_r_id i r \<equiv> r\<lparr>r_id := i\<rparr>"

abbreviation with_s_id :: "int \<Rightarrow> db_session \<Rightarrow> db_session" where
  "with_s_id i s \<equiv> s\<lparr>s_id := i\<rparr>"

abbreviation with_m_id :: "int \<Rightarrow> message \<Rightarrow> message" where
  "with_m_id i m \<equiv> m\<lparr>m_id := i\<rparr>"

abbreviation with_x_id :: "int \<Rightarrow> reaction \<Rightarrow> reaction" where
  "with_x_id i x \<equiv> x\<lparr>x_reaction_id := i\<rparr>"

abbreviation with_a_id :: "int \<Rightarrow> attachment \<Rightarrow> attachment" where
  "with_a_id i a \<equiv> a\<lparr>a_id := i\<rparr>"

abbreviation with_c_id :: "int \<Rightarrow> call \<Rightarrow> call" where
  "with_c_id i c \<equiv> c\<lparr>c_id := i\<rparr>"

interpretation rcpt: rowid_table r_id with_r_id by unfold_locales simp
interpretation sess: rowid_table s_id with_s_id by unfold_locales simp
interpretation msg: rowid_table m_id with_m_id by unfold_locales simp
interpretation react: rowid_table x_reaction_id with_x_id by unfold_locales simp
interpretation att: rowid_table a_id with_a_id by unfold_locales simp
interpretation clog: rowid_table c_id with_c_id by unfold_locales simp

section \<open>Constraints of the schema\<close>

definition unique_values :: "('r \<Rightarrow> 'k option) \<Rightarrow> 'r list \<Rightarrow> bool" where
  "unique_values col tab = distinct (List.map_filter col tab)"

definition recipients_wf :: "recipient list \<Rightarrow> bool" where
  "recipients_wf tab =
     (distinct_keys r_id tab \<and> unique_values r_e164 tab \<and> unique_values r_uuid tab
      \<and> unique_values r_username tab)"

definition has_key :: "('r \<Rightarrow> 'k) \<Rightarrow> 'k \<Rightarrow> 'r list \<Rightarrow> bool" where
  "has_key key k tab = list_ex (\<lambda>r. key r = k) tab"

definition opt_has_key :: "('r \<Rightarrow> 'k) \<Rightarrow> 'k option \<Rightarrow> 'r list \<Rightarrow> bool" where
  "opt_has_key key ko tab = (case ko of None \<Rightarrow> True | Some k \<Rightarrow> has_key key k tab)"

text \<open>The references to \<open>recipients\<close>, and all the references of the modelled tables.\<close>

definition recipient_refs_ok :: "database \<Rightarrow> bool" where
  "recipient_refs_ok d =
     (list_all (\<lambda>s. opt_has_key r_id (s_direct_message_recipient_id s) (recipients d)) (sessions d)
      \<and> list_all (\<lambda>m. opt_has_key r_id (m_sender_recipient_id m) (recipients d)) (messages d)
      \<and> list_all (\<lambda>x. has_key r_id (x_author x) (recipients d)) (reactions d)
      \<and> list_all (\<lambda>t. has_key r_id (t_recipient_id t) (recipients d)) (receipts d)
      \<and> list_all (\<lambda>g. has_key r_id (gm1_recipient_id g) (recipients d)) (group_v1_members d)
      \<and> list_all (\<lambda>g. has_key r_id (gm2_recipient_id g) (recipients d)) (group_v2_members d)
      \<and> list_all (\<lambda>c. has_key r_id (c_ringer c) (recipients d)) (calls d))"

definition session_refs_ok :: "database \<Rightarrow> bool" where
  "session_refs_ok d =
     (list_all (\<lambda>m. has_key s_id (m_session_id m) (sessions d)) (messages d)
      \<and> list_all (\<lambda>c. has_key s_id (c_session_id c) (sessions d)) (calls d))"

definition message_refs_ok :: "database \<Rightarrow> bool" where
  "message_refs_ok d =
     (list_all (\<lambda>x. has_key m_id (x_message_id x) (messages d)) (reactions d)
      \<and> list_all (\<lambda>t. has_key m_id (t_message_id t) (messages d)) (receipts d)
      \<and> list_all (\<lambda>a. has_key m_id (a_message_id a) (messages d)) (attachments d)
      \<and> list_all (\<lambda>c. opt_has_key m_id (c_message_id c) (messages d)) (calls d)
      \<and> list_all (\<lambda>m. opt_has_key m_id (m_latest_revision_id m) (messages d)
                      \<and> opt_has_key m_id (m_original_message_id m) (messages d)) (messages d))"

definition group_refs_ok :: "database \<Rightarrow> bool" where
  "group_refs_ok d =
     (list_all (\<lambda>s. opt_has_key g1_id (s_group_v1_id s) (group_v1s d)
                    \<and> opt_has_key g2_id (s_group_v2_id s) (group_v2s d)) (sessions d)
      \<and> list_all (\<lambda>g. has_key g1_id (gm1_group_v1_id g) (group_v1s d)) (group_v1_members d)
      \<and> list_all (\<lambda>g. has_key g2_id (gm2_group_v2_id g) (group_v2s d)) (group_v2_members d)
      \<and> list_all (\<lambda>g. has_key g2_id (gp_group_v2_id g) (group_v2s d)) (group_v2_pending_members d)
      \<and> list_all (\<lambda>g. has_key g2_id (gr_group_v2_id g) (group_v2s d)) (group_v2_requesting_members d)
      \<and> list_all (\<lambda>g. has_key g2_id (gb_group_v2_id g) (group_v2s d)) (group_v2_banned_members d))"

definition foreign_keys_ok :: "database \<Rightarrow> bool" where
  "foreign_keys_ok d =
     (recipient_refs_ok d \<and> session_refs_ok d \<and> message_refs_ok d \<and> group_refs_ok d)"

text \<open>
  A transaction: an error rolls the database back, and the deferred foreign keys are checked at
  the commit.
\<close>

definition transaction :: "database \<Rightarrow> (database \<Rightarrow> ('a \<times> database) res) \<Rightarrow> ('a \<times> database) res" where
  "transaction d body =
     rbind (body d) (\<lambda>(x, d').
       if foreign_keys_ok d' then Inr (x, d') else Inl (DbError ForeignKeyViolation))"

section \<open>Facts about the constraints\<close>

lemma has_key_iff [table_simps]: "has_key key k tab \<longleftrightarrow> k \<in> key ` set tab"
  by (auto simp: has_key_def list_ex_iff)

lemma opt_has_key_simps [simp]:
  "opt_has_key key None tab"
  "opt_has_key key (Some k) tab = has_key key k tab"
  by (simp_all add: opt_has_key_def)

lemma opt_has_key_iff [table_simps]:
  "opt_has_key key ko tab \<longleftrightarrow> (\<forall>k. ko = Some k \<longrightarrow> k \<in> key ` set tab)"
  by (cases ko) (simp_all add: has_key_iff)

lemma set_map_filter_values: "k \<in> set (List.map_filter col tab) \<longleftrightarrow> (\<exists>s\<in>set tab. col s = Some k)"
  by (force simp: List.map_filter_def)

lemma unique_values_simps [simp]:
  "unique_values col []"
  "unique_values col (r # tab) =
     (case col r of None \<Rightarrow> unique_values col tab
      | Some k \<Rightarrow> (\<forall>s\<in>set tab. col s \<noteq> Some k) \<and> unique_values col tab)"
  by (auto simp: unique_values_def set_map_filter_values List.map_filter_simps split: option.splits)

lemma unique_values_cong: "map col tab = map col tab' \<Longrightarrow> unique_values col tab = unique_values col tab'"
proof (induction tab arbitrary: tab')
  case Nil
  then show ?case by simp
next
  case (Cons r tab)
  then obtain r' tab'' where "tab' = r' # tab''" and "col r = col r'"
    and eq: "map col tab = map col tab''"
    by (cases tab') auto
  moreover have "col ` set tab = col ` set tab''"
    using eq by (metis list.set_map)
  then have "(\<forall>s\<in>set tab. col s \<noteq> k) = (\<forall>s\<in>set tab''. col s \<noteq> k)" for k
    by (metis imageE imageI)
  ultimately show ?case
    using Cons.IH[OF eq] by (simp split: option.splits)
qed

lemma unique_values_inj:
  "unique_values col tab \<Longrightarrow> distinct_keys key tab \<Longrightarrow> r \<in> set tab \<Longrightarrow> s \<in> set tab \<Longrightarrow>
     col r = Some k \<Longrightarrow> col s = Some k \<Longrightarrow> r = s"
  by (induction tab) (auto simp: distinct_keys_def split: option.splits)

lemma unique_values_append:
  "unique_values col (xs @ [r]) =
     (unique_values col xs \<and> (\<forall>k. col r = Some k \<longrightarrow> (\<forall>s\<in>set xs. col s \<noteq> Some k)))"
  by (induction xs) (auto split: option.splits)

lemma unique_values_delete [wf_intros]:
  "unique_values col tab \<Longrightarrow> unique_values col (delete_where P tab)"
  by (induction tab) (auto simp: set_delete_where split: option.splits)

lemma unique_values_frame:
  "(\<And>r. P r \<Longrightarrow> col (f r) = col r) \<Longrightarrow> unique_values col (update_where P f tab) = unique_values col tab"
  by (intro unique_values_cong map_update_where_frame)

lemma unique_values_set:
  assumes "unique_values col tab" and "distinct_keys key tab"
    and "\<And>r. key r = k \<Longrightarrow> col (f r) = v"
    and "\<And>r x. v = Some x \<Longrightarrow> r \<in> set tab \<Longrightarrow> key r \<noteq> k \<Longrightarrow> col r \<noteq> Some x"
  shows "unique_values col (update_where (\<lambda>r. key r = k) f tab)"
  using assms
proof (induction tab)
  case Nil
  then show ?case by simp
next
  case (Cons r tab)
  have IH: "unique_values col (update_where (\<lambda>r. key r = k) f tab)"
    using Cons.prems by (intro Cons.IH) (auto simp: distinct_keys_def split: option.splits)
  show ?case
  proof (cases "key r = k")
    case True
    then have "\<forall>s\<in>set tab. key s \<noteq> k"
      using Cons.prems(2) by (fastforce simp: distinct_keys_def image_iff)
    then have "update_where (\<lambda>r. key r = k) f tab = tab"
      by (intro update_where_False) auto
    moreover have "\<And>x s. v = Some x \<Longrightarrow> s \<in> set tab \<Longrightarrow> col s \<noteq> Some x"
      using \<open>\<forall>s\<in>set tab. key s \<noteq> k\<close> Cons.prems(4) by auto
    ultimately show ?thesis
      using True Cons.prems(1,3) by (auto split: option.splits)
  next
    case False
    have "\<And>x. col r = Some x \<Longrightarrow> v \<noteq> Some x"
      using False Cons.prems(4)[of _ r] by auto
    then show ?thesis
      using False Cons.prems(1,3) IH by (auto simp: set_update_where split: option.splits)
  qed
qed

lemma recipients_wfD:
  assumes "recipients_wf tab"
  shows "distinct_keys r_id tab" "unique_values r_e164 tab" "unique_values r_uuid tab"
    "unique_values r_username tab"
  using assms by (simp_all add: recipients_wf_def)

lemma transaction_eq_Inr:
  "transaction d body = Inr (x, d') \<longleftrightarrow> body d = Inr (x, d') \<and> foreign_keys_ok d'"
  by (auto simp: transaction_def rbind_eq_Inr split: prod.splits)

end
