(* ===== verification/Cascade.thy ===== *)
theory Cascade
  imports Database
begin

text \<open>
  The \<open>ON DELETE\<close> actions of the schema, which every deletion in the store triggers.

  Deleting messages deletes their reactions, receipts and attachment rows, unlinks their calls,
  and deletes every message that names a deleted one as its latest revision or its original,
  and so on.  The rounds of that closure are bounded by the number of messages: each round that
  does not stop adds a message (\<open>cascade_ids_closed\<close>).  Deleting a session deletes its messages
  and its calls; deleting a recipient deletes the messages it sent and the calls it started.
\<close>

definition refers_to :: "int set \<Rightarrow> message \<Rightarrow> bool" where
  "refers_to gone m =
     ((case m_latest_revision_id m of None \<Rightarrow> False | Some i \<Rightarrow> i \<in> gone)
      \<or> (case m_original_message_id m of None \<Rightarrow> False | Some i \<Rightarrow> i \<in> gone))"

fun cascade_ids :: "nat \<Rightarrow> message list \<Rightarrow> int list \<Rightarrow> int list" where
  "cascade_ids 0 ms gone = gone"
| "cascade_ids (Suc fuel) ms gone =
     (let extra = map m_id (filter (\<lambda>m. m_id m \<notin> set gone \<and> refers_to (set gone) m) ms) in
      if extra = [] then gone else cascade_ids fuel ms (gone @ extra))"

definition cascade_messages :: "(message \<Rightarrow> bool) \<Rightarrow> database \<Rightarrow> database" where
  "cascade_messages P d =
     (let gone = cascade_ids (length (messages d)) (messages d)
                   (map m_id (filter P (messages d))) in
      d\<lparr>messages := delete_where (\<lambda>m. m_id m \<in> set gone) (messages d),
        reactions := delete_where (\<lambda>x. x_message_id x \<in> set gone) (reactions d),
        receipts := delete_where (\<lambda>t. t_message_id t \<in> set gone) (receipts d),
        attachments := delete_where (\<lambda>a. a_message_id a \<in> set gone) (attachments d),
        calls := update_where (\<lambda>c. case c_message_id c of None \<Rightarrow> False | Some i \<Rightarrow> i \<in> set gone)
                   (\<lambda>c. c\<lparr>c_message_id := None\<rparr>) (calls d)\<rparr>)"

definition drop_session :: "int \<Rightarrow> database \<Rightarrow> database" where
  "drop_session sid d =
     (let d1 = cascade_messages (\<lambda>m. m_session_id m = sid) d in
      d1\<lparr>sessions := delete_where (\<lambda>s. s_id s = sid) (sessions d1),
         calls := delete_where (\<lambda>c. c_session_id c = sid) (calls d1)\<rparr>)"

definition drop_recipient :: "int \<Rightarrow> database \<Rightarrow> database" where
  "drop_recipient rid d =
     (let d1 = cascade_messages (\<lambda>m. m_sender_recipient_id m = Some rid) d in
      d1\<lparr>recipients := delete_where (\<lambda>r. r_id r = rid) (recipients d1),
         calls := delete_where (\<lambda>c. c_ringer c = rid) (calls d1)\<rparr>)"

section \<open>The closure is closed\<close>

definition cascade_closed :: "message list \<Rightarrow> int set \<Rightarrow> bool" where
  "cascade_closed ms gone \<longleftrightarrow> (\<forall>m\<in>set ms. refers_to gone m \<longrightarrow> m_id m \<in> gone)"

definition pending :: "message list \<Rightarrow> int list \<Rightarrow> nat" where
  "pending ms gone = card (m_id ` set ms - set gone)"

lemma cascade_ids_subset: "set gone \<subseteq> set (cascade_ids fuel ms gone)"
  by (induction fuel ms gone rule: cascade_ids.induct) (auto simp: Let_def)

lemma pending_decreases:
  assumes "m \<in> set ms" and "m_id m \<notin> set gone" and "m_id m \<in> set extra"
  shows "pending ms (gone @ extra) < pending ms gone"
proof -
  have "m_id ` set ms - set (gone @ extra) \<subset> m_id ` set ms - set gone"
    using assms by auto
  then show ?thesis
    unfolding pending_def by (intro psubset_card_mono) auto
qed

lemma cascade_ids_closed:
  "pending ms gone \<le> fuel \<Longrightarrow> cascade_closed ms (set (cascade_ids fuel ms gone))"
proof (induction fuel arbitrary: gone)
  case 0
  then have "m_id ` set ms \<subseteq> set gone"
    by (simp add: pending_def)
  then show ?case by (auto simp: cascade_closed_def)
next
  case (Suc fuel)
  let ?new = "filter (\<lambda>m. m_id m \<notin> set gone \<and> refers_to (set gone) m) ms"
  show ?case
  proof (cases "?new = []")
    case True
    then show ?thesis
      by (auto simp: cascade_closed_def filter_empty_conv)
  next
    case False
    then obtain m where m: "m \<in> set ?new"
      by (metis list.set_sel(1))
    then have "pending ms (gone @ map m_id ?new) < pending ms gone"
      by (intro pending_decreases[of m]) auto
    then have "cascade_closed ms (set (cascade_ids fuel ms (gone @ map m_id ?new)))"
      using Suc.prems by (intro Suc.IH) simp
    then show ?thesis
      using False by (simp add: Let_def)
  qed
qed

lemma pending_le_length: "pending ms gone \<le> length ms"
proof -
  have "pending ms gone \<le> card (m_id ` set ms)"
    unfolding pending_def by (intro card_mono) auto
  also have "\<dots> \<le> length ms"
    using card_image_le[of "set ms" m_id] card_length[of ms] by simp
  finally show ?thesis .
qed

definition cascade_set :: "(message \<Rightarrow> bool) \<Rightarrow> database \<Rightarrow> int set" where
  "cascade_set P d =
     set (cascade_ids (length (messages d)) (messages d) (map m_id (filter P (messages d))))"

lemma cascade_set_closed: "cascade_closed (messages d) (cascade_set P d)"
  unfolding cascade_set_def by (intro cascade_ids_closed pending_le_length)

lemma cascade_set_contains: "m \<in> set (messages d) \<Longrightarrow> P m \<Longrightarrow> m_id m \<in> cascade_set P d"
  using cascade_ids_subset[of "map m_id (filter P (messages d))"] by (auto simp: cascade_set_def)

lemma cascade_ids_none:
  "(\<forall>m\<in>set ms. \<not> P m) \<Longrightarrow> cascade_ids fuel ms (map m_id (filter P ms)) = []"
proof -
  assume "\<forall>m\<in>set ms. \<not> P m"
  then have "filter P ms = []"
    by (simp add: filter_empty_conv)
  moreover have "filter (\<lambda>m. m_id m \<notin> set [] \<and> refers_to (set []) m) ms = []"
    by (auto simp: refers_to_def filter_empty_conv split: option.splits)
  ultimately show ?thesis
    by (cases fuel) simp_all
qed

lemma cascade_messages_fields:
  "recipients (cascade_messages P d) = recipients d"
  "sessions (cascade_messages P d) = sessions d"
  "messages (cascade_messages P d) = delete_where (\<lambda>m. m_id m \<in> cascade_set P d) (messages d)"
  "reactions (cascade_messages P d) = delete_where (\<lambda>x. x_message_id x \<in> cascade_set P d) (reactions d)"
  "receipts (cascade_messages P d) = delete_where (\<lambda>t. t_message_id t \<in> cascade_set P d) (receipts d)"
  "attachments (cascade_messages P d) = delete_where (\<lambda>a. a_message_id a \<in> cascade_set P d) (attachments d)"
  "calls (cascade_messages P d) =
     update_where (\<lambda>c. case c_message_id c of None \<Rightarrow> False | Some i \<Rightarrow> i \<in> cascade_set P d)
       (\<lambda>c. c\<lparr>c_message_id := None\<rparr>) (calls d)"
  "group_v1s (cascade_messages P d) = group_v1s d"
  "group_v1_members (cascade_messages P d) = group_v1_members d"
  "group_v2s (cascade_messages P d) = group_v2s d"
  "group_v2_members (cascade_messages P d) = group_v2_members d"
  "group_v2_pending_members (cascade_messages P d) = group_v2_pending_members d"
  "group_v2_requesting_members (cascade_messages P d) = group_v2_requesting_members d"
  "group_v2_banned_members (cascade_messages P d) = group_v2_banned_members d"
  "settings (cascade_messages P d) = settings d"
  by (simp_all add: cascade_messages_def cascade_set_def Let_def cong: option.case_cong)

lemma cascade_messages_none:
  assumes "\<forall>m\<in>set (messages d). \<not> P m"
  shows "cascade_messages P d = d"
proof -
  have "cascade_ids (length (messages d)) (messages d) (map m_id (filter P (messages d))) = []"
    using assms by (rule cascade_ids_none)
  moreover have "update_where (\<lambda>c. case c_message_id c of None \<Rightarrow> False | Some i \<Rightarrow> False)
                   (\<lambda>c. c\<lparr>c_message_id := None\<rparr>) (calls d) = calls d"
    by (intro update_where_False) (simp split: option.splits)
  ultimately show ?thesis
    by (simp add: cascade_messages_def delete_where_False Let_def cong: option.case_cong)
qed

section \<open>Deletions keep the references intact\<close>

lemma has_key_kept_messages:
  "has_key m_id k (messages d) \<Longrightarrow> k \<notin> gone \<Longrightarrow>
     has_key m_id k (delete_where (\<lambda>m. m_id m \<in> gone) (messages d))"
  by (auto simp: has_key_iff set_delete_where)

lemma not_refers_to:
  "\<not> refers_to gone m \<longleftrightarrow>
     (\<forall>i. m_latest_revision_id m = Some i \<longrightarrow> i \<notin> gone)
     \<and> (\<forall>i. m_original_message_id m = Some i \<longrightarrow> i \<notin> gone)"
  by (auto simp: refers_to_def split: option.splits)

lemma message_refs_ok_cascade:
  assumes "message_refs_ok d"
  shows "message_refs_ok (cascade_messages P d)"
proof -
  let ?gone = "cascade_set P d"
  have closed: "\<not> refers_to ?gone m" if "m \<in> set (messages d)" "m_id m \<notin> ?gone" for m
    using cascade_set_closed[of d P] that by (auto simp: cascade_closed_def)
  have kept: "opt_has_key m_id ko (delete_where (\<lambda>m. m_id m \<in> ?gone) (messages d))"
    if "opt_has_key m_id ko (messages d)" "\<And>i. ko = Some i \<Longrightarrow> i \<notin> ?gone" for ko
    using that by (cases ko) (auto intro: has_key_kept_messages)
  have revisions: "opt_has_key m_id (m_latest_revision_id m) (delete_where (\<lambda>m. m_id m \<in> ?gone) (messages d))
        \<and> opt_has_key m_id (m_original_message_id m) (delete_where (\<lambda>m. m_id m \<in> ?gone) (messages d))"
    if "m \<in> set (messages d)" "m_id m \<notin> ?gone" for m
    using assms that(1) closed[OF that]
    by (auto simp: message_refs_ok_def list_all_iff not_refers_to intro!: kept)
  have calls: "opt_has_key m_id (c_message_id c) (delete_where (\<lambda>m. m_id m \<in> ?gone) (messages d))"
    if c: "c \<in> set (calls (cascade_messages P d))" for c
  proof (rule kept)
    obtain c0 where "c0 \<in> set (calls d)"
      and "c = (if case c_message_id c0 of None \<Rightarrow> False | Some i \<Rightarrow> i \<in> ?gone
                then c0\<lparr>c_message_id := None\<rparr> else c0)"
      using c by (auto simp: cascade_messages_fields(7) set_update_where)
    then show "opt_has_key m_id (c_message_id c) (messages d)"
      and "\<And>i. c_message_id c = Some i \<Longrightarrow> i \<notin> ?gone"
      using assms by (auto simp: message_refs_ok_def list_all_iff split: option.splits if_splits)
  qed
  show ?thesis
    using assms revisions calls
    by (auto simp: message_refs_ok_def list_all_iff cascade_messages_fields(3-6) set_delete_where
        intro: has_key_kept_messages)
qed

lemma session_refs_ok_cascade: "session_refs_ok d \<Longrightarrow> session_refs_ok (cascade_messages P d)"
  by (auto simp: session_refs_ok_def list_all_iff cascade_messages_fields set_delete_where
      set_update_where)

lemma recipient_refs_ok_cascade: "recipient_refs_ok d \<Longrightarrow> recipient_refs_ok (cascade_messages P d)"
  by (auto simp: recipient_refs_ok_def list_all_iff cascade_messages_fields set_delete_where
      set_update_where)

lemma group_refs_ok_cascade: "group_refs_ok d \<Longrightarrow> group_refs_ok (cascade_messages P d)"
  by (auto simp: group_refs_ok_def list_all_iff cascade_messages_fields)

lemma foreign_keys_ok_cascade: "foreign_keys_ok d \<Longrightarrow> foreign_keys_ok (cascade_messages P d)"
  by (simp add: foreign_keys_ok_def message_refs_ok_cascade session_refs_ok_cascade
      recipient_refs_ok_cascade group_refs_ok_cascade)

lemma foreign_keys_ok_drop_session:
  assumes "foreign_keys_ok d"
  shows "foreign_keys_ok (drop_session sid d)"
proof -
  let ?d = "cascade_messages (\<lambda>m. m_session_id m = sid) d"
  have ok: "foreign_keys_ok ?d"
    using assms by (rule foreign_keys_ok_cascade)
  have none: "m_session_id m \<noteq> sid" if "m \<in> set (messages ?d)" for m
    using that cascade_set_contains[of m d "\<lambda>m. m_session_id m = sid"]
    by (auto simp: cascade_messages_fields set_delete_where)
  have "session_refs_ok (drop_session sid d)"
    using ok none
    by (fastforce simp: drop_session_def Let_def foreign_keys_ok_def session_refs_ok_def
        list_all_iff has_key_iff set_delete_where)
  then show ?thesis
    using ok
    by (auto simp: drop_session_def Let_def foreign_keys_ok_def recipient_refs_ok_def
        message_refs_ok_def group_refs_ok_def list_all_iff set_delete_where)
qed

end
