(* ===== verification/RecipientMerge.thy ===== *)
theory RecipientMerge
  imports Cascade
begin

text \<open>
  Finding the recipient for an ACI, a PNI and a phone number, and merging recipients that turn
  out to be the same person (\<open>whisperfish-store/src/store/recipient_merge.rs\<close>).

  The queue of operations is computed first, as in the code, by one definition per block of
  \<open>merge_and_fetch_recipient_inner\<close>; it is then run operation by operation on the database,
  where a violated constraint is an error.
\<close>

section \<open>Elementary updates\<close>

datatype trust_level = Certain | Uncertain

datatype recipient_operation =
    SetPni int "uuid option"
  | SetAci int "uuid option"
  | SetE164 int "phone_number option"
  | Merge int int
  | Create "uuid option" "uuid option" "phone_number option"

record merge_recipients =
  by_aci :: "recipient option"
  by_e164 :: "recipient option"
  by_pni :: "recipient option"

definition new_recipient :: "uuid option \<Rightarrow> uuid option \<Rightarrow> phone_number option \<Rightarrow> recipient" where
  "new_recipient aci pni e164 =
     \<lparr> r_id = 0, r_e164 = e164, r_uuid = aci, r_username = None, r_email = None,
       r_is_blocked = False, r_profile_key = None, r_profile_key_credential = None,
       r_profile_given_name = None, r_profile_family_name = None, r_profile_joined_name = None,
       r_signal_profile_avatar = None, r_profile_sharing = False, r_last_profile_fetch = None,
       r_storage_service_id = None, r_storage_proto = None, r_capabilities = 0,
       r_last_gv1_migrate_reminder = None, r_last_session_reset = None, r_about = None,
       r_about_emoji = None, r_is_registered = True, r_unidentified_access_mode = UAUnknown,
       r_pni = pni, r_needs_pni_signature = False, r_external_id = None, r_is_accepted = False \<rparr>"

definition find_by :: "(recipient \<Rightarrow> 'k option) \<Rightarrow> 'k option \<Rightarrow> database \<Rightarrow> recipient option" where
  "find_by col ko d =
     (case ko of None \<Rightarrow> None | Some k \<Rightarrow> first_where (\<lambda>r. col r = Some k) (recipients d))"

definition fetch_separate_recipients ::
  "database \<Rightarrow> uuid option \<Rightarrow> uuid option \<Rightarrow> phone_number option \<Rightarrow> merge_recipients" where
  "fetch_separate_recipients d aci pni e164 =
     \<lparr> by_aci = find_by r_uuid aci d, by_e164 = find_by r_e164 e164 d, by_pni = find_by r_pni pni d \<rparr>"

text \<open>
  \<open>UPDATE recipients SET .. WHERE id = .. RETURNING id\<close>: no such row is \<open>NotFound\<close>, and a
  value another row has in a unique column is a \<open>UniqueViolation\<close>.
\<close>

definition set_pni_inner :: "database \<Rightarrow> int \<Rightarrow> uuid option \<Rightarrow> (int \<times> database) res" where
  "set_pni_inner d rcpt_id rcpt_pni =
     (if \<not> exists_where (\<lambda>r. r_id r = rcpt_id) (recipients d) then Inl (DbError NotFound)
      else Inr (rcpt_id, d\<lparr>recipients :=
             update_where (\<lambda>r. r_id r = rcpt_id) (\<lambda>r. r\<lparr>r_pni := rcpt_pni\<rparr>) (recipients d)\<rparr>))"

definition set_aci_inner :: "database \<Rightarrow> int \<Rightarrow> uuid option \<Rightarrow> (int \<times> database) res" where
  "set_aci_inner d rcpt_id rcpt_aci =
     (if \<not> exists_where (\<lambda>r. r_id r = rcpt_id) (recipients d) then Inl (DbError NotFound)
      else if rcpt_aci \<noteq> None
              \<and> exists_where (\<lambda>r. r_id r \<noteq> rcpt_id \<and> r_uuid r = rcpt_aci) (recipients d)
      then Inl (DbError UniqueViolation)
      else Inr (rcpt_id, d\<lparr>recipients :=
             update_where (\<lambda>r. r_id r = rcpt_id) (\<lambda>r. r\<lparr>r_uuid := rcpt_aci\<rparr>) (recipients d)\<rparr>))"

definition set_e164_inner :: "database \<Rightarrow> int \<Rightarrow> phone_number option \<Rightarrow> (int \<times> database) res" where
  "set_e164_inner d rcpt_id rcpt_e164 =
     (if \<not> exists_where (\<lambda>r. r_id r = rcpt_id) (recipients d) then Inl (DbError NotFound)
      else if rcpt_e164 \<noteq> None
              \<and> exists_where (\<lambda>r. r_id r \<noteq> rcpt_id \<and> r_e164 r = rcpt_e164) (recipients d)
      then Inl (DbError UniqueViolation)
      else Inr (rcpt_id, d\<lparr>recipients :=
             update_where (\<lambda>r. r_id r = rcpt_id) (\<lambda>r. r\<lparr>r_e164 := rcpt_e164\<rparr>) (recipients d)\<rparr>))"

definition insert_recipient_inner ::
  "database \<Rightarrow> uuid option \<Rightarrow> uuid option \<Rightarrow> phone_number option \<Rightarrow> (int \<times> database) res" where
  "insert_recipient_inner d rcpt_aci rcpt_pni rcpt_e164 =
     (if (rcpt_aci \<noteq> None \<and> exists_where (\<lambda>r. r_uuid r = rcpt_aci) (recipients d))
         \<or> (rcpt_e164 \<noteq> None \<and> exists_where (\<lambda>r. r_e164 r = rcpt_e164) (recipients d))
      then Inl (DbError UniqueViolation)
      else Inr (next_rowid r_id (recipients d),
                d\<lparr>recipients := insert_row r_id with_r_id
                     (new_recipient rcpt_aci rcpt_pni rcpt_e164) (recipients d)\<rparr>))"

section \<open>Merging two recipients\<close>

definition merge_messages :: "int \<Rightarrow> int \<Rightarrow> database \<Rightarrow> database" where
  "merge_messages source_id dest_id d =
     d\<lparr>messages := update_where (\<lambda>m. m_sender_recipient_id m = Some source_id)
        (\<lambda>m. m\<lparr>m_sender_recipient_id := Some dest_id\<rparr>) (messages d)\<rparr>"

definition merge_group_v1 :: "int \<Rightarrow> int \<Rightarrow> database \<Rightarrow> database res" where
  "merge_group_v1 source_id dest_id d =
     (let target_memberships_v1 =
            map gm1_group_v1_id (filter (\<lambda>g. gm1_recipient_id g = dest_id) (group_v1_members d));
          kept = delete_where
            (\<lambda>g. gm1_group_v1_id g \<in> set target_memberships_v1 \<and> gm1_recipient_id g = source_id)
            (group_v1_members d);
          moved = update_where (\<lambda>g. gm1_recipient_id g = source_id)
            (\<lambda>g. g\<lparr>gm1_recipient_id := dest_id\<rparr>) kept
      in if distinct_keys (\<lambda>g. (gm1_group_v1_id g, gm1_recipient_id g)) moved
         then Inr (d\<lparr>group_v1_members := moved\<rparr>)
         else Inl (DbError UniqueViolation))"

definition merge_sessions :: "int \<Rightarrow> int \<Rightarrow> database \<Rightarrow> database" where
  "merge_sessions source_id dest_id d =
     (case (first_where (\<lambda>s. s_direct_message_recipient_id s = Some source_id) (sessions d),
            first_where (\<lambda>s. s_direct_message_recipient_id s = Some dest_id) (sessions d)) of
        (Some source_session, Some target_session) \<Rightarrow>
          drop_session (s_id source_session)
            (d\<lparr>messages := update_where (\<lambda>m. m_session_id m = s_id source_session)
                 (\<lambda>m. m\<lparr>m_session_id := s_id target_session\<rparr>) (messages d)\<rparr>)
      | (Some source_session, None) \<Rightarrow>
          d\<lparr>sessions := update_where (\<lambda>s. s_id s = s_id source_session)
              (\<lambda>s. s\<lparr>s_direct_message_recipient_id := Some dest_id\<rparr>) (sessions d)\<rparr>
      | (None, Some _) \<Rightarrow> d
      | (None, None) \<Rightarrow> d)"

text \<open>
  The list of duplicates is built from the \<^emph>\<open>reaction ids\<close> of the destination's reactions and
  compared with the \<^emph>\<open>message ids\<close> of the source's, as in the code.
\<close>

definition merge_reactions :: "int \<Rightarrow> int \<Rightarrow> database \<Rightarrow> database res" where
  "merge_reactions source_id dest_id d =
     (let target_reactions =
            map x_reaction_id (filter (\<lambda>x. x_author x = dest_id) (reactions d));
          kept = delete_where
            (\<lambda>x. x_author x = source_id \<and> x_message_id x \<in> set target_reactions) (reactions d);
          moved = update_where (\<lambda>x. x_author x = source_id) (\<lambda>x. x\<lparr>x_author := dest_id\<rparr>) kept
      in if distinct_keys (\<lambda>x. (x_author x, x_message_id x)) moved
         then Inr (d\<lparr>reactions := moved\<rparr>)
         else Inl (DbError UniqueViolation))"

definition merge_receipts :: "int \<Rightarrow> int \<Rightarrow> database \<Rightarrow> database res" where
  "merge_receipts source_id dest_id d =
     (let target_receipts =
            map t_message_id (filter (\<lambda>t. t_recipient_id t = dest_id) (receipts d));
          kept = delete_where
            (\<lambda>t. t_recipient_id t = source_id \<and> t_message_id t \<in> set target_receipts) (receipts d);
          moved = update_where (\<lambda>t. t_recipient_id t = source_id)
            (\<lambda>t. t\<lparr>t_recipient_id := dest_id\<rparr>) kept
      in if distinct_keys (\<lambda>t. (t_message_id t, t_recipient_id t)) moved
         then Inr (d\<lparr>receipts := moved\<rparr>)
         else Inl (DbError UniqueViolation))"

definition delete_if_empty :: "int \<Rightarrow> database \<Rightarrow> database res" where
  "delete_if_empty source_id d =
     (case first_where (\<lambda>r. r_id r = source_id) (recipients d) of
        None \<Rightarrow> Inl (DbError NotFound)
      | Some src \<Rightarrow>
          if r_uuid src = None \<and> r_e164 src = None \<and> r_pni src = None
          then Inr (drop_recipient source_id d)
          else Inr d)"

definition merge_recipients_inner :: "database \<Rightarrow> int \<Rightarrow> int \<Rightarrow> (int \<times> database) res" where
  "merge_recipients_inner d source_id dest_id =
     rbind (merge_group_v1 source_id dest_id (merge_messages source_id dest_id d)) (\<lambda>d2.
     rbind (merge_reactions source_id dest_id (merge_sessions source_id dest_id d2)) (\<lambda>d4.
     rbind (merge_receipts source_id dest_id d4) (\<lambda>d5.
     rbind (delete_if_empty source_id d5) (\<lambda>d6.
     Inr (dest_id, d6)))))"

section \<open>The queue of operations\<close>

definition is_some :: "'a option \<Rightarrow> bool" where
  "is_some o1 = (o1 \<noteq> None)"

lemma is_some_simps [simp]: "is_some (Some x)" "\<not> is_some None"
  by (simp_all add: is_some_def)

text \<open>
  \<open>by_all\<close> is the list of the recipients found, by descending id and without repetitions; the
  common recipient is its only element, if it has just one.
\<close>

definition found_recipients :: "merge_recipients \<Rightarrow> recipient list" where
  "found_recipients mr = List.map_filter id [by_aci mr, by_pni mr, by_e164 mr]"

fun dedup_by_id :: "recipient list \<Rightarrow> recipient list" where
  "dedup_by_id [] = []"
| "dedup_by_id [r] = [r]"
| "dedup_by_id (r # s # rs) =
     (if r_id s = r_id r then dedup_by_id (r # rs) else r # dedup_by_id (s # rs))"

definition by_all :: "merge_recipients \<Rightarrow> recipient list" where
  "by_all mr = dedup_by_id (sort_key (\<lambda>r. - r_id r) (found_recipients mr))"

definition common_recipient :: "merge_recipients \<Rightarrow> recipient option" where
  "common_recipient mr = (case by_all mr of [r] \<Rightarrow> Some r | _ \<Rightarrow> None)"

definition criteria_count :: "phone_number option \<Rightarrow> uuid option \<Rightarrow> uuid option \<Rightarrow> nat" where
  "criteria_count e164 aci pni = length (filter id [is_some e164, is_some aci, is_some pni])"

definition create_ops ::
  "merge_recipients \<Rightarrow> phone_number option \<Rightarrow> uuid option \<Rightarrow> uuid option \<Rightarrow> trust_level
     \<Rightarrow> recipient_operation list" where
  "create_ops mr e164 aci pni trust =
     (if by_all mr = []
      then [Create aci pni (if trust = Certain \<or> aci = None then e164 else None)]
      else [])"

definition update_ops ::
  "recipient \<Rightarrow> phone_number option \<Rightarrow> uuid option \<Rightarrow> uuid option \<Rightarrow> trust_level
     \<Rightarrow> recipient_operation list" where
  "update_ops common e164 aci pni trust =
     (if is_some aci \<and> is_some (r_uuid common) \<and> aci \<noteq> r_uuid common
      then (if is_some e164 \<and> e164 = r_e164 common
            then [SetE164 (r_id common) None, SetPni (r_id common) None]
            else if is_some pni \<and> pni = r_pni common then [SetPni (r_id common) None]
            else [])
           @ [Create None pni e164]
      else (if is_some e164 \<and> e164 \<noteq> r_e164 common \<and> trust = Certain
            then [SetE164 (r_id common) e164] else [])
           @ (if is_some pni \<and> pni \<noteq> r_pni common then [SetPni (r_id common) pni] else [])
           @ (if is_some aci \<and> r_uuid common = None then [SetAci (r_id common) aci] else []))"

definition pni_e164_ops ::
  "merge_recipients \<Rightarrow> phone_number option \<Rightarrow> uuid option \<Rightarrow> recipient_operation list" where
  "pni_e164_ops mr e164 pni =
     (case (e164, pni, by_e164 mr, by_pni mr) of
        (Some _, Some p, Some be, Some bp) \<Rightarrow>
          if r_id be = r_id bp then []
          else if r_uuid bp = None \<and> r_e164 bp = None
          then [SetPni (r_id be) None, Merge (r_id bp) (r_id be)]
          else [SetPni (r_id bp) None, SetPni (r_id be) (Some p)]
      | _ \<Rightarrow> [])"

definition pni_aci_ops ::
  "merge_recipients \<Rightarrow> phone_number option \<Rightarrow> uuid option \<Rightarrow> uuid option
     \<Rightarrow> recipient_operation list" where
  "pni_aci_ops mr e164 aci pni =
     (case (aci, pni, by_aci mr, by_pni mr) of
        (Some _, Some p, Some ba, Some bp) \<Rightarrow>
          if r_id ba = r_id bp then []
          else if r_uuid bp = None \<and> r_e164 bp = None
          then (if is_some (r_pni ba) then [SetPni (r_id ba) None] else [])
               @ [Merge (r_id bp) (r_id ba)]
          else if r_uuid bp = None \<and> (e164 = None \<or> r_e164 bp = e164)
          then (let new_e164 = (case r_e164 bp of Some n \<Rightarrow> Some n | None \<Rightarrow> e164) in
                [SetPni (r_id ba) None]
                @ (if is_some new_e164 \<and> r_e164 ba = None \<and> r_e164 ba \<noteq> new_e164
                   then [SetE164 (r_id ba) None] else [])
                @ [Merge (r_id bp) (r_id ba)])
          else [SetPni (r_id bp) None, SetPni (r_id ba) (Some p)]
               @ (if is_some e164 \<and> r_e164 ba \<noteq> e164
                  then (if r_e164 bp = e164 then [SetE164 (r_id bp) None] else [])
                       @ [SetE164 (r_id ba) e164]
                  else [])
      | _ \<Rightarrow> [])"

text \<open>
  The middle branch unwraps the phone number of the recipient found by ACI, which panics when
  that recipient has none.
\<close>

definition e164_aci_ops ::
  "merge_recipients \<Rightarrow> phone_number option \<Rightarrow> uuid option \<Rightarrow> uuid option \<Rightarrow> trust_level
     \<Rightarrow> recipient_operation list res" where
  "e164_aci_ops mr e164 aci pni trust =
     (case (e164, aci, by_e164 mr, by_aci mr) of
        (Some n, Some _, Some be, Some ba) \<Rightarrow>
          if r_id be = r_id ba then Inr []
          else if r_uuid be = None \<and> r_pni be = None
          then Inr ((if is_some (r_e164 ba) then [SetE164 (r_id ba) None] else [])
                    @ [SetE164 (r_id be) None, SetE164 (r_id ba) (Some n),
                       Merge (r_id be) (r_id ba)])
          else if is_some pni \<and> r_pni be \<noteq> pni
          then rbind (opt_panic ''called `Option::unwrap()` on a `None` value'' (r_e164 ba))
                 (\<lambda>ba_e164.
                 Inr ((if is_some (r_pni ba) then [SetPni (r_id ba) None] else [])
                      @ (if ba_e164 \<noteq> n then [SetE164 (r_id ba) None] else [])
                      @ [Merge (r_id be) (r_id ba)]))
          else if (is_some pni \<and> r_pni be \<noteq> pni) \<or> trust = Certain
          then Inr [SetE164 (r_id be) None, SetE164 (r_id ba) (Some n)]
          else Inr []
      | _ \<Rightarrow> Inr [])"

definition merge_ops ::
  "merge_recipients \<Rightarrow> phone_number option \<Rightarrow> uuid option \<Rightarrow> uuid option \<Rightarrow> trust_level
     \<Rightarrow> recipient_operation list res" where
  "merge_ops mr e164 aci pni trust =
     rbind (e164_aci_ops mr e164 aci pni trust) (\<lambda>ops3.
       Inr (create_ops mr e164 aci pni trust
            @ (case common_recipient mr of
                 None \<Rightarrow> []
               | Some common \<Rightarrow> update_ops common e164 aci pni trust)
            @ pni_e164_ops mr e164 pni
            @ pni_aci_ops mr e164 aci pni
            @ ops3))"

section \<open>Running the queue\<close>

fun run_op :: "database \<Rightarrow> recipient_operation \<Rightarrow> (int \<times> database) res" where
  "run_op d (Merge rid into_id) = merge_recipients_inner d rid into_id"
| "run_op d (SetPni rid pni) = set_pni_inner d rid pni"
| "run_op d (SetAci rid aci) = set_aci_inner d rid aci"
| "run_op d (SetE164 rid e164) = set_e164_inner d rid e164"
| "run_op d (Create aci pni e164) = insert_recipient_inner d aci pni e164"

fun run_ops :: "database \<Rightarrow> recipient_operation list \<Rightarrow> database res" where
  "run_ops d [] = Inr d"
| "run_ops d (op # ops) = rbind (run_op d op) (\<lambda>(_, d'). run_ops d' ops)"

definition set_if ::
  "bool \<Rightarrow> (database \<Rightarrow> (int \<times> database) res) \<Rightarrow> database \<Rightarrow> database res" where
  "set_if c f d = (if c then rbind (f d) (\<lambda>(_, d'). Inr d') else Inr d)"

definition fetch_after_merge ::
  "database \<Rightarrow> phone_number option \<Rightarrow> uuid option \<Rightarrow> uuid option \<Rightarrow> ((int \<times> bool) \<times> database) res" where
  "fetch_after_merge d e164 aci pni =
     (let mr = fetch_separate_recipients d aci pni e164 in
      case List.map_filter id [by_aci mr, by_e164 mr, by_pni mr] of
        [] \<Rightarrow> Inl (Panic ''recipient merge without result'')
      | rcpt # _ \<Rightarrow>
          rbind (set_if (is_some aci \<and> by_aci mr = None)
                   (\<lambda>d. set_aci_inner d (r_id rcpt) aci) d) (\<lambda>d1.
          rbind (set_if (is_some e164 \<and> by_e164 mr = None)
                   (\<lambda>d. set_e164_inner d (r_id rcpt) e164) d1) (\<lambda>d2.
          rbind (set_if (is_some pni \<and> by_pni mr = None)
                   (\<lambda>d. set_pni_inner d (r_id rcpt) pni) d2) (\<lambda>d3.
          Inr ((r_id rcpt, True), d3)))))"

definition merge_and_fetch_recipient_inner ::
  "database \<Rightarrow> phone_number option \<Rightarrow> uuid option \<Rightarrow> uuid option \<Rightarrow> trust_level \<Rightarrow> bool
     \<Rightarrow> ((int \<times> bool) \<times> database) res" where
  "merge_and_fetch_recipient_inner d e164 aci pni trust change_self =
     (if e164 = None \<and> aci = None \<and> pni = None
      then Inl (Panic ''merge_and_fetch_recipient requires at least one of e164 or uuid'')
      else
        (let mr = fetch_separate_recipients d aci pni e164;
             matches = length (found_recipients mr);
             proceed = rbind (merge_ops mr e164 aci pni trust) (\<lambda>ops.
                       rbind (run_ops d ops) (\<lambda>d'. fetch_after_merge d' e164 aci pni))
         in case common_recipient mr of
              Some common \<Rightarrow>
                if matches = criteria_count e164 aci pni then Inr ((r_id common, False), d)
                else proceed
            | None \<Rightarrow> proceed))"

section \<open>Every operation keeps the recipient table well formed\<close>

lemma recipients_wf_set_pni:
  assumes "recipients_wf (recipients d)" and "set_pni_inner d i p = Inr (j, d')"
  shows "recipients_wf (recipients d')"
  using assms
  by (auto simp: set_pni_inner_def recipients_wf_def unique_values_frame distinct_keys_update
      split: if_splits)

lemma exists_other_unique:
  assumes "\<not> (v \<noteq> None \<and> exists_where (\<lambda>r. key r \<noteq> k \<and> col r = v) tab)"
  shows "v = Some x \<Longrightarrow> r \<in> set tab \<Longrightarrow> key r \<noteq> k \<Longrightarrow> col r \<noteq> Some x"
  using assms by (auto simp: exists_where_iff)

lemma recipients_wf_set_aci:
  assumes wf: "recipients_wf (recipients d)" and run: "set_aci_inner d i a = Inr (j, d')"
  shows "recipients_wf (recipients d')"
proof -
  have free: "\<not> (a \<noteq> None \<and> exists_where (\<lambda>r. r_id r \<noteq> i \<and> r_uuid r = a) (recipients d))"
    and d': "d' = d\<lparr>recipients :=
             update_where (\<lambda>r. r_id r = i) (\<lambda>r. r\<lparr>r_uuid := a\<rparr>) (recipients d)\<rparr>"
    using run by (auto simp: set_aci_inner_def split: if_splits)
  have "unique_values r_uuid (update_where (\<lambda>r. r_id r = i) (\<lambda>r. r\<lparr>r_uuid := a\<rparr>) (recipients d))"
    by (rule unique_values_set[where v = a])
      (use wf exists_other_unique[OF free] in \<open>auto dest: recipients_wfD\<close>)
  then show ?thesis
    using wf by (simp add: d' recipients_wf_def unique_values_frame distinct_keys_update)
qed

lemma recipients_wf_set_e164:
  assumes wf: "recipients_wf (recipients d)" and run: "set_e164_inner d i a = Inr (j, d')"
  shows "recipients_wf (recipients d')"
proof -
  have free: "\<not> (a \<noteq> None \<and> exists_where (\<lambda>r. r_id r \<noteq> i \<and> r_e164 r = a) (recipients d))"
    and d': "d' = d\<lparr>recipients :=
             update_where (\<lambda>r. r_id r = i) (\<lambda>r. r\<lparr>r_e164 := a\<rparr>) (recipients d)\<rparr>"
    using run by (auto simp: set_e164_inner_def split: if_splits)
  have "unique_values r_e164 (update_where (\<lambda>r. r_id r = i) (\<lambda>r. r\<lparr>r_e164 := a\<rparr>) (recipients d))"
    by (rule unique_values_set[where v = a])
      (use wf exists_other_unique[OF free] in \<open>auto dest: recipients_wfD\<close>)
  then show ?thesis
    using wf by (simp add: d' recipients_wf_def unique_values_frame distinct_keys_update)
qed

lemma new_recipient_fields [simp]:
  "r_id (new_recipient a p e) = 0" "r_uuid (new_recipient a p e) = a"
  "r_pni (new_recipient a p e) = p" "r_e164 (new_recipient a p e) = e"
  "r_username (new_recipient a p e) = None"
  by (simp_all add: new_recipient_def)

lemma recipients_wf_insert:
  assumes "recipients_wf (recipients d)" and "insert_recipient_inner d a p e = Inr (j, d')"
  shows "recipients_wf (recipients d')"
  using assms rcpt.distinct_insert[of "recipients d"]
  by (auto simp: insert_recipient_inner_def recipients_wf_def unique_values_append insert_row_def
      exists_where_iff split: if_splits)

lemma recipients_merge_sessions [simp]: "recipients (merge_sessions s t d) = recipients d"
  by (simp add: merge_sessions_def drop_session_def Let_def cascade_messages_fields
      split: option.splits)

lemma recipients_merge_inner:
  assumes "merge_recipients_inner d s t = Inr (j, d')"
  shows "recipients d' = recipients d \<or> recipients d' = delete_where (\<lambda>r. r_id r = s) (recipients d)"
  using assms
  by (auto simp: merge_recipients_inner_def rbind_eq_Inr merge_group_v1_def merge_messages_def
      merge_reactions_def merge_receipts_def delete_if_empty_def drop_recipient_def Let_def
      cascade_messages_fields split: if_splits option.splits)

lemma recipients_wf_delete: "recipients_wf tab \<Longrightarrow> recipients_wf (delete_where P tab)"
  by (simp add: recipients_wf_def distinct_keys_delete unique_values_delete)

lemma recipients_wf_merge_inner:
  "recipients_wf (recipients d) \<Longrightarrow> merge_recipients_inner d s t = Inr (j, d') \<Longrightarrow>
     recipients_wf (recipients d')"
  using recipients_merge_inner[of d s t j d'] recipients_wf_delete[of "recipients d"] by auto

lemmas recipients_wf_ops =
  recipients_wf_set_pni recipients_wf_set_aci recipients_wf_set_e164 recipients_wf_insert
  recipients_wf_merge_inner

lemma recipients_wf_run_op:
  "recipients_wf (recipients d) \<Longrightarrow> run_op d op = Inr (j, d') \<Longrightarrow> recipients_wf (recipients d')"
  by (cases op) (auto dest: recipients_wf_ops)

lemma recipients_wf_run_ops:
  "recipients_wf (recipients d) \<Longrightarrow> run_ops d ops = Inr d' \<Longrightarrow> recipients_wf (recipients d')"
  by (induction ops arbitrary: d)
    (auto simp: rbind_eq_Inr split: prod.splits dest: recipients_wf_run_op)

text \<open>
  What the last step leaves: the recipient it returns, chosen by ACI first, then by phone
  number, then by PNI, and each identifier it had to add.
\<close>

lemma fetch_after_mergeE:
  assumes "fetch_after_merge d e a p = Inr ((i, changed), d')"
  obtains mr rcpt rest d1 d2 where
    "mr = fetch_separate_recipients d a p e"
    and "List.map_filter id [by_aci mr, by_e164 mr, by_pni mr] = rcpt # rest"
    and "set_if (is_some a \<and> by_aci mr = None) (\<lambda>d. set_aci_inner d (r_id rcpt) a) d = Inr d1"
    and "set_if (is_some e \<and> by_e164 mr = None) (\<lambda>d. set_e164_inner d (r_id rcpt) e) d1 = Inr d2"
    and "set_if (is_some p \<and> by_pni mr = None) (\<lambda>d. set_pni_inner d (r_id rcpt) p) d2 = Inr d'"
    and "i = r_id rcpt" and "changed"
  using assms by (auto simp: fetch_after_merge_def Let_def rbind_eq_Inr split: list.splits)

lemma recipients_wf_set_if:
  assumes "recipients_wf (recipients d)" and "set_if c f d = Inr d'"
    and "\<And>j. f d = Inr (j, d') \<Longrightarrow> recipients_wf (recipients d')"
  shows "recipients_wf (recipients d')"
  using assms by (auto simp: set_if_def rbind_eq_Inr split: if_splits prod.splits)

lemma recipients_wf_fetch_after_merge:
  assumes wf: "recipients_wf (recipients d)" and run: "fetch_after_merge d e a p = Inr ((i, c), d')"
  shows "recipients_wf (recipients d')"
  using run
proof (cases rule: fetch_after_mergeE)
  case (1 mr rcpt rest d1 d2)
  have "recipients_wf (recipients d1)"
    using wf 1(3) recipients_wf_set_aci[OF wf] by (rule recipients_wf_set_if)
  then have "recipients_wf (recipients d2)"
    using 1(4) recipients_wf_set_e164 by (blast intro: recipients_wf_set_if)
  then show ?thesis
    using 1(5) recipients_wf_set_pni by (blast intro: recipients_wf_set_if)
qed

section \<open>What the merge returns\<close>

lemma find_by_Some [simp]: "find_by col (Some k) d = first_where (\<lambda>r. col r = Some k) (recipients d)"
  by (simp add: find_by_def)

lemma find_by_None [simp]: "find_by col None d = None"
  by (simp add: find_by_def)

lemma find_byD: "find_by col ko d = Some r \<Longrightarrow> r \<in> set (recipients d) \<and> ko \<noteq> None \<and> col r = ko"
  by (cases ko) (auto dest!: first_where_SomeD)

lemma find_by_eq_None: "find_by col (Some k) d = None \<longleftrightarrow> \<not> exists_where (\<lambda>r. col r = Some k) (recipients d)"
  by (simp add: first_where_None exists_where_iff)

definition recipient_row :: "database \<Rightarrow> int \<Rightarrow> recipient option" where
  "recipient_row d i = first_where (\<lambda>r. r_id r = i) (recipients d)"

lemma recipient_row_in:
  "recipients_wf (recipients d) \<Longrightarrow> r \<in> set (recipients d) \<Longrightarrow> recipient_row d (r_id r) = Some r"
  by (simp add: recipient_row_def first_where_key recipients_wfD)

lemma set_aci_result:
  assumes "set_aci_inner d i a = Inr (j, d')"
  shows "recipient_row d' k = map_option (\<lambda>r. if r_id r = i then r\<lparr>r_uuid := a\<rparr> else r) (recipient_row d k)"
    and "map r_e164 (recipients d') = map r_e164 (recipients d)"
    and "map r_pni (recipients d') = map r_pni (recipients d)"
  using assms
  by (auto simp: set_aci_inner_def recipient_row_def first_where_update map_update_where_frame
      split: if_splits)

lemma set_e164_result:
  assumes "set_e164_inner d i a = Inr (j, d')"
  shows "recipient_row d' k = map_option (\<lambda>r. if r_id r = i then r\<lparr>r_e164 := a\<rparr> else r) (recipient_row d k)"
    and "map r_pni (recipients d') = map r_pni (recipients d)"
    and "exists_where (\<lambda>r. r_e164 r = a) (recipients d')"
  using assms
  by (auto simp: set_e164_inner_def recipient_row_def first_where_update map_update_where_frame
      split: if_splits intro!: exists_where_updated)

lemma set_pni_result:
  assumes "set_pni_inner d i a = Inr (j, d')"
  shows "recipient_row d' k = map_option (\<lambda>r. if r_id r = i then r\<lparr>r_pni := a\<rparr> else r) (recipient_row d k)"
    and "map r_e164 (recipients d') = map r_e164 (recipients d)"
    and "exists_where (\<lambda>r. r_pni r = a) (recipients d')"
  using assms
  by (auto simp: set_pni_inner_def recipient_row_def first_where_update map_update_where_frame
      split: if_splits intro!: exists_where_updated)

lemma set_ifE:
  assumes "set_if c f d = Inr d'"
  obtains (run) j where "c" and "f d = Inr (j, d')" | (skip) "\<not> c" and "d' = d"
  using assms by (auto simp: set_if_def rbind_eq_Inr split: if_splits)

definition identified :: "database \<Rightarrow> int \<Rightarrow> phone_number option \<Rightarrow> uuid option \<Rightarrow> uuid option \<Rightarrow> bool" where
  "identified d i e a p =
     ((case recipient_row d i of None \<Rightarrow> False | Some r \<Rightarrow> a = None \<or> r_uuid r = a)
      \<and> (e = None \<or> exists_where (\<lambda>r. r_e164 r = e) (recipients d))
      \<and> (p = None \<or> exists_where (\<lambda>r. r_pni r = p) (recipients d)))"

lemma row_uuid_set_e164:
  "set_e164_inner d i x = Inr (j, d') \<Longrightarrow>
     (case recipient_row d' k of None \<Rightarrow> False | Some r \<Rightarrow> a = None \<or> r_uuid r = a)
     = (case recipient_row d k of None \<Rightarrow> False | Some r \<Rightarrow> a = None \<or> r_uuid r = a)"
  by (auto simp: set_e164_result(1)[of d i x j d' k] split: option.splits)

lemma row_uuid_set_pni:
  "set_pni_inner d i x = Inr (j, d') \<Longrightarrow>
     (case recipient_row d' k of None \<Rightarrow> False | Some r \<Rightarrow> a = None \<or> r_uuid r = a)
     = (case recipient_row d k of None \<Rightarrow> False | Some r \<Rightarrow> a = None \<or> r_uuid r = a)"
  by (auto simp: set_pni_result(1)[of d i x j d' k] split: option.splits)

lemma fetch_after_merge_identified:
  assumes wf: "recipients_wf (recipients d)" and run: "fetch_after_merge d e a p = Inr ((i, c), d')"
  shows "identified d' i e a p"
  using run
proof (cases rule: fetch_after_mergeE)
  case (1 mr rcpt rest d1 d2)
  have mr: "by_aci mr = find_by r_uuid a d" "by_e164 mr = find_by r_e164 e d" "by_pni mr = find_by r_pni p d"
    by (simp_all add: 1(1) fetch_separate_recipients_def)
  have "rcpt \<in> set (List.map_filter id [by_aci mr, by_e164 mr, by_pni mr])"
    using 1(2) by simp
  then have "rcpt \<in> set (recipients d)"
    by (auto simp: List.map_filter_def mr dest: find_byD split: if_splits)
  then have row: "recipient_row d i = Some rcpt"
    using wf 1(6) by (simp add: recipient_row_in)
  let ?U = "\<lambda>d. case recipient_row d i of None \<Rightarrow> False | Some r \<Rightarrow> a = None \<or> r_uuid r = a"
  let ?E = "\<lambda>d. e = None \<or> exists_where (\<lambda>r. r_e164 r = e) (recipients d)"
  let ?P = "\<lambda>d. p = None \<or> exists_where (\<lambda>r. r_pni r = p) (recipients d)"
  have E: "by_e164 mr \<noteq> None \<Longrightarrow> ?E d" and P: "by_pni mr \<noteq> None \<Longrightarrow> ?P d"
    using mr by (auto simp: exists_where_iff dest!: find_byD)
  have U1: "?U d1 \<and> map r_e164 (recipients d1) = map r_e164 (recipients d)
            \<and> map r_pni (recipients d1) = map r_pni (recipients d)"
    using 1(3)
  proof (cases rule: set_ifE)
    case (run j)
    then show ?thesis
      using row 1(6) by (simp add: set_aci_result[OF run(2)])
  next
    case skip
    then have "a = None \<or> by_aci mr = Some rcpt"
      using 1(2) by (cases a) (auto simp: List.map_filter_simps)
    then show ?thesis
      using skip row mr by (auto dest: find_byD)
  qed
  then have E1: "by_e164 mr \<noteq> None \<Longrightarrow> ?E d1" and P1: "by_pni mr \<noteq> None \<Longrightarrow> ?P d1"
    using E P exists_where_cong_map[of r_e164 "recipients d1" "recipients d" e]
      exists_where_cong_map[of r_pni "recipients d1" "recipients d" p] by auto
  have 2: "?U d2 \<and> ?E d2 \<and> (by_pni mr \<noteq> None \<longrightarrow> ?P d2)"
    using 1(4)
  proof (cases rule: set_ifE)
    case (run j)
    then show ?thesis
      using U1 P1 row_uuid_set_e164[OF run(2)] set_e164_result(3)[OF run(2)]
        exists_where_cong_map[OF set_e164_result(2)[OF run(2)], of p] by auto
  next
    case skip
    then show ?thesis
      using U1 E1 P1 by (auto simp: is_some_def)
  qed
  have "?U d' \<and> ?E d' \<and> ?P d'"
    using 1(5)
  proof (cases rule: set_ifE)
    case (run j)
    then show ?thesis
      using 2 row_uuid_set_pni[OF run(2)] set_pni_result(3)[OF run(2)]
        exists_where_cong_map[OF set_pni_result(2)[OF run(2)], of e] by auto
  next
    case skip
    then show ?thesis
      using 2 by (auto simp: is_some_def)
  qed
  then show ?thesis
    by (simp add: identified_def)
qed

lemma set_dedup_by_id: "r_id ` set (dedup_by_id rs) = r_id ` set rs"
  by (induction rs rule: dedup_by_id.induct) auto

lemma common_recipient_id:
  assumes "common_recipient mr = Some c" and "r \<in> set (found_recipients mr)"
  shows "r_id r = r_id c"
proof -
  have "by_all mr = [c]"
    using assms(1) by (auto simp: common_recipient_def split: list.splits)
  then have "r_id ` set (found_recipients mr) = {r_id c}"
    using set_dedup_by_id[of "sort_key (\<lambda>r. - r_id r) (found_recipients mr)"]
    by (simp add: by_all_def)
  then show ?thesis
    using assms(2) by auto
qed

lemma common_recipient_found:
  assumes "common_recipient mr = Some c"
  shows "\<exists>r\<in>set (found_recipients mr). r_id r = r_id c"
proof -
  have "by_all mr = [c]"
    using assms by (auto simp: common_recipient_def split: list.splits)
  then have "r_id ` set (found_recipients mr) = {r_id c}"
    using set_dedup_by_id[of "sort_key (\<lambda>r. - r_id r) (found_recipients mr)"]
    by (simp add: by_all_def)
  then show ?thesis
    by (metis imageE insertI1)
qed

lemma all_criteria_matched:
  assumes "mr = fetch_separate_recipients d a p e"
    and "length (found_recipients mr) = criteria_count e a p"
  shows "(a \<noteq> None \<longrightarrow> by_aci mr \<noteq> None) \<and> (e \<noteq> None \<longrightarrow> by_e164 mr \<noteq> None)
         \<and> (p \<noteq> None \<longrightarrow> by_pni mr \<noteq> None)"
  using assms
  by (cases a; cases p; cases e)
    (auto simp: fetch_separate_recipients_def found_recipients_def criteria_count_def
      List.map_filter_simps split: option.splits)

lemma full_match_identified:
  assumes wf: "recipients_wf (recipients d)" and mr: "mr = fetch_separate_recipients d a p e"
    and common: "common_recipient mr = Some c"
    and full: "length (found_recipients mr) = criteria_count e a p"
  shows "identified d (r_id c) e a p"
proof -
  note found = all_criteria_matched[OF mr full]
  have cols: "by_aci mr = find_by r_uuid a d" "by_e164 mr = find_by r_e164 e d"
    "by_pni mr = find_by r_pni p d"
    by (simp_all add: mr fetch_separate_recipients_def)
  have in_found: "by_aci mr = Some r \<or> by_e164 mr = Some r \<or> by_pni mr = Some r \<longleftrightarrow> r \<in> set (found_recipients mr)" for r
    by (auto simp: found_recipients_def List.map_filter_simps split: option.splits)
  obtain r where r: "r \<in> set (found_recipients mr)" "r_id r = r_id c"
    using common_recipient_found[OF common] by blast
  then have "r \<in> set (recipients d)"
    using in_found[of r] cols by (auto dest: find_byD)
  then have row: "recipient_row d (r_id c) = Some r"
    using recipient_row_in[OF wf] r(2) by metis
  have "a = None \<or> r_uuid r = a"
  proof (cases a)
    case (Some x)
    then obtain ra where ra: "by_aci mr = Some ra"
      using found by auto
    then have "ra \<in> set (recipients d)" "r_uuid ra = a" "r_id ra = r_id c"
      using cols in_found[of ra] common_recipient_id[OF common] by (auto dest: find_byD)
    then have "ra = r"
      using recipient_row_in[OF wf, of ra] row by simp
    then show ?thesis
      using \<open>r_uuid ra = a\<close> by simp
  qed simp
  moreover have "e = None \<or> exists_where (\<lambda>r. r_e164 r = e) (recipients d)"
    using found cols by (auto simp: exists_where_iff dest!: find_byD)
  moreover have "p = None \<or> exists_where (\<lambda>r. r_pni r = p) (recipients d)"
    using found cols by (auto simp: exists_where_iff dest!: find_byD)
  ultimately show ?thesis
    using row by (simp add: identified_def)
qed

text \<open>The two ways the function returns.\<close>

lemma merge_and_fetch_cases:
  assumes "merge_and_fetch_recipient_inner d e a p trust cs = Inr ((i, changed), d')"
  obtains (full) c where "common_recipient (fetch_separate_recipients d a p e) = Some c"
      and "length (found_recipients (fetch_separate_recipients d a p e)) = criteria_count e a p"
      and "i = r_id c" and "\<not> changed" and "d' = d"
  | (queue) ops d1 where "merge_ops (fetch_separate_recipients d a p e) e a p trust = Inr ops"
      and "run_ops d ops = Inr d1" and "fetch_after_merge d1 e a p = Inr ((i, changed), d')"
  using assms
  by (auto simp: merge_and_fetch_recipient_inner_def Let_def rbind_eq_Inr
      split: if_splits option.splits)

lemma merge_and_fetch_identified:
  assumes wf: "recipients_wf (recipients d)"
    and run: "merge_and_fetch_recipient_inner d e a p trust cs = Inr ((i, changed), d')"
  shows "recipients_wf (recipients d') \<and> identified d' i e a p \<and> (\<not> changed \<longrightarrow> d' = d)"
  using run
proof (cases rule: merge_and_fetch_cases)
  case (full c)
  then show ?thesis
    using wf full_match_identified[OF wf refl full(1,2)] by simp
next
  case (queue ops d1)
  have "recipients_wf (recipients d1)"
    using wf queue(2) by (rule recipients_wf_run_ops)
  then have "recipients_wf (recipients d')" "identified d' i e a p"
    using queue(3) by (rule recipients_wf_fetch_after_merge, rule fetch_after_merge_identified)
  moreover have "changed"
    using queue(3) by (auto elim: fetch_after_mergeE)
  ultimately show ?thesis
    by simp
qed

end
