(* ===== verification/MergeMoves.thy ===== *)
theory MergeMoves
  imports RecipientMerge
begin

text \<open>
  What merging two recipients does to their data: no message is lost and each is handed over,
  receipts and reactions move, and the queue that the search computes never merges a recipient
  with itself.
\<close>

section \<open>Messages\<close>

definition merged_session :: "database \<Rightarrow> int \<Rightarrow> int \<Rightarrow> int \<Rightarrow> int" where
  "merged_session d s t sid =
     (case (first_where (\<lambda>x. s_direct_message_recipient_id x = Some s) (sessions d),
            first_where (\<lambda>x. s_direct_message_recipient_id x = Some t) (sessions d)) of
        (Some source, Some target) \<Rightarrow> if sid = s_id source then s_id target else sid
      | _ \<Rightarrow> sid)"

definition handed_over :: "database \<Rightarrow> int \<Rightarrow> int \<Rightarrow> message \<Rightarrow> message" where
  "handed_over d s t m =
     m\<lparr>m_sender_recipient_id :=
         (if m_sender_recipient_id m = Some s then Some t else m_sender_recipient_id m),
       m_session_id := merged_session d s t (m_session_id m)\<rparr>"

lemma direct_sessions_differ:
  assumes "distinct_keys s_id tab" and "s \<noteq> t"
    and "first_where (\<lambda>x. s_direct_message_recipient_id x = Some s) tab = Some x"
    and "first_where (\<lambda>x. s_direct_message_recipient_id x = Some t) tab = Some y"
  shows "s_id x \<noteq> s_id y"
proof
  assume eq: "s_id x = s_id y"
  have "x \<in> set tab" "y \<in> set tab"
    using assms(3,4) by (auto dest: first_where_SomeD)
  then have "x = y"
    using distinct_keys_inj[OF assms(1)] eq by blast
  then show False
    using first_where_SomeD[OF assms(3)] first_where_SomeD[OF assms(4)] assms(2) by simp
qed

lemma messages_merge_sessions:
  assumes "distinct_keys s_id (sessions d)" and "s \<noteq> t"
  shows "messages (merge_sessions s t d)
           = map (\<lambda>m. m\<lparr>m_session_id := merged_session d s t (m_session_id m)\<rparr>) (messages d)"
proof (cases "first_where (\<lambda>x. s_direct_message_recipient_id x = Some s) (sessions d)")
  case None
  then show ?thesis
    by (simp add: merge_sessions_def merged_session_def split: option.splits)
next
  case source: (Some x)
  show ?thesis
  proof (cases "first_where (\<lambda>x. s_direct_message_recipient_id x = Some t) (sessions d)")
    case None
    then show ?thesis
      using source by (simp add: merge_sessions_def merged_session_def)
  next
    case target: (Some y)
    let ?d = "d\<lparr>messages := update_where (\<lambda>m. m_session_id m = s_id x)
                 (\<lambda>m. m\<lparr>m_session_id := s_id y\<rparr>) (messages d)\<rparr>"
    have differ: "s_id x \<noteq> s_id y"
      using assms source target by (rule direct_sessions_differ)
    have "cascade_messages (\<lambda>m. m_session_id m = s_id x) ?d = ?d"
      using differ by (intro cascade_messages_none) (auto simp: set_update_where)
    then have "messages (drop_session (s_id x) ?d) = messages ?d"
      by (simp add: drop_session_def Let_def)
    moreover have "messages ?d
        = map (\<lambda>m. m\<lparr>m_session_id := merged_session d s t (m_session_id m)\<rparr>) (messages d)"
      using source target by (simp add: update_where_def merged_session_def)
    ultimately show ?thesis
      using source target by (simp add: merge_sessions_def)
  qed
qed

lemma merge_recipients_innerE:
  assumes "merge_recipients_inner d s t = Inr (j, d')"
  obtains d2 d4 d5 where "merge_group_v1 s t (merge_messages s t d) = Inr d2"
    and "merge_reactions s t (merge_sessions s t d2) = Inr d4"
    and "merge_receipts s t d4 = Inr d5" and "delete_if_empty s d5 = Inr d'" and "j = t"
  using assms by (auto simp: merge_recipients_inner_def rbind_eq_Inr)

lemma merge_group_v1_frame:
  "merge_group_v1 s t d = Inr d' \<Longrightarrow>
     messages d' = messages d \<and> sessions d' = sessions d \<and> recipients d' = recipients d
     \<and> reactions d' = reactions d \<and> receipts d' = receipts d"
  by (auto simp: merge_group_v1_def Let_def split: if_splits)

lemma merge_reactions_frame:
  "merge_reactions s t d = Inr d' \<Longrightarrow>
     messages d' = messages d \<and> sessions d' = sessions d \<and> recipients d' = recipients d
     \<and> receipts d' = receipts d"
  by (auto simp: merge_reactions_def Let_def split: if_splits)

lemma merge_receipts_frame:
  "merge_receipts s t d = Inr d' \<Longrightarrow>
     messages d' = messages d \<and> sessions d' = sessions d \<and> recipients d' = recipients d
     \<and> reactions d' = reactions d"
  by (auto simp: merge_receipts_def Let_def split: if_splits)

lemma delete_if_empty_unsent:
  assumes "delete_if_empty s d = Inr d'"
    and "\<forall>m\<in>set (messages d). m_sender_recipient_id m \<noteq> Some s"
  shows "messages d' = messages d \<and> sessions d' = sessions d \<and> reactions d' = reactions d
         \<and> receipts d' = receipts d"
  using assms cascade_messages_none[of d "\<lambda>m. m_sender_recipient_id m = Some s"]
  by (auto simp: delete_if_empty_def drop_recipient_def Let_def split: option.splits if_splits)

lemma merged_session_cong:
  "sessions d = sessions d' \<Longrightarrow> merged_session d s t = merged_session d' s t"
  by (simp add: merged_session_def fun_eq_iff)

lemma merge_recipients_hands_over:
  assumes sess: "distinct_keys s_id (sessions d)" and "s \<noteq> t"
    and run: "merge_recipients_inner d s t = Inr (j, d')"
  shows "messages d' = map (handed_over d s t) (messages d)"
  using run
proof (cases rule: merge_recipients_innerE)
  case (1 d2 d4 d5)
  have d2: "messages d2 = messages (merge_messages s t d)" "sessions d2 = sessions d"
    using merge_group_v1_frame[OF 1(1)] by (simp_all add: merge_messages_def)
  have "messages d5 = messages (merge_sessions s t d2)"
    using merge_reactions_frame[OF 1(2)] merge_receipts_frame[OF 1(3)] by simp
  also have "\<dots> = map (\<lambda>m. m\<lparr>m_session_id := merged_session d s t (m_session_id m)\<rparr>) (messages d2)"
    using messages_merge_sessions[of d2 s t] sess \<open>s \<noteq> t\<close> d2(2) merged_session_cong[OF d2(2)]
    by simp
  also have "\<dots> = map (handed_over d s t) (messages d)"
    by (simp add: d2(1) merge_messages_def update_where_def handed_over_def)
  finally have d5: "messages d5 = map (handed_over d s t) (messages d)" .
  then have "\<forall>m\<in>set (messages d5). m_sender_recipient_id m \<noteq> Some s"
    using \<open>s \<noteq> t\<close> by (auto simp: handed_over_def)
  then show ?thesis
    using delete_if_empty_unsent[OF 1(4)] d5 by simp
qed

section \<open>The queue\<close>

fun proper_merge :: "recipient_operation \<Rightarrow> bool" where
  "proper_merge (Merge s t) = (s \<noteq> t)"
| "proper_merge _ = True"

lemma proper_create: "list_all proper_merge (create_ops mr e a p trust)"
  by (simp add: create_ops_def)

lemma proper_update: "list_all proper_merge (update_ops c e a p trust)"
  by (simp add: update_ops_def)

lemma proper_pni_e164: "list_all proper_merge (pni_e164_ops mr e p)"
  by (auto simp: pni_e164_ops_def split: option.splits)

lemma proper_pni_aci: "list_all proper_merge (pni_aci_ops mr e a p)"
  by (auto simp: pni_aci_ops_def Let_def split: option.splits)

lemma proper_e164_aci: "e164_aci_ops mr e a p trust = Inr ops \<Longrightarrow> list_all proper_merge ops"
  by (auto simp: e164_aci_ops_def rbind_eq_Inr split: option.splits if_splits)

lemma proper_merge_ops: "merge_ops mr e a p trust = Inr ops \<Longrightarrow> list_all proper_merge ops"
  by (auto simp: merge_ops_def rbind_eq_Inr proper_create proper_update proper_pni_e164 proper_pni_aci
      dest: proper_e164_aci split: option.splits)

text \<open>
  The content of a message is everything but its sender and its session; identifying a
  recipient changes nothing else of any message.
\<close>

definition message_content :: "message \<Rightarrow> message" where
  "message_content m = m\<lparr>m_sender_recipient_id := None, m_session_id := 0\<rparr>"

definition contents_kept :: "database \<Rightarrow> database \<Rightarrow> bool" where
  "contents_kept d d' =
     (map message_content (messages d') = map message_content (messages d)
      \<and> distinct_keys s_id (sessions d'))"

lemma sessions_merge_distinct:
  assumes "distinct_keys s_id (sessions d)"
  shows "distinct_keys s_id (sessions (merge_sessions s t d))"
  using assms
  by (auto simp: merge_sessions_def drop_session_def Let_def cascade_messages_fields
      intro!: distinct_keys_delete distinct_keys_update split: option.splits)

lemma sessions_delete_if_empty: "delete_if_empty s d = Inr d' \<Longrightarrow> sessions d' = sessions d"
  by (auto simp: delete_if_empty_def drop_recipient_def Let_def cascade_messages_fields
      split: option.splits if_splits)

lemma contents_kept_merge:
  assumes sess: "distinct_keys s_id (sessions d)" and "s \<noteq> t"
    and run: "merge_recipients_inner d s t = Inr (j, d')"
  shows "contents_kept d d'"
proof -
  have "map message_content (messages d') = map message_content (messages d)"
    using merge_recipients_hands_over[OF assms]
    by (simp add: handed_over_def message_content_def)
  moreover have "distinct_keys s_id (sessions d')"
    using run
  proof (cases rule: merge_recipients_innerE)
    case (1 d2 d4 d5)
    have "distinct_keys s_id (sessions d2)"
      using merge_group_v1_frame[OF 1(1)] sess by (simp add: merge_messages_def)
    then have "distinct_keys s_id (sessions (merge_sessions s t d2))"
      by (rule sessions_merge_distinct)
    then show ?thesis
      using merge_reactions_frame[OF 1(2)] merge_receipts_frame[OF 1(3)]
        sessions_delete_if_empty[OF 1(4)] by simp
  qed
  ultimately show ?thesis
    by (simp add: contents_kept_def)
qed

lemma only_recipients_changed:
  "set_pni_inner d i x = Inr (j, d') \<Longrightarrow> messages d' = messages d \<and> sessions d' = sessions d"
  "set_aci_inner d i x = Inr (j, d') \<Longrightarrow> messages d' = messages d \<and> sessions d' = sessions d"
  "set_e164_inner d i y = Inr (j, d') \<Longrightarrow> messages d' = messages d \<and> sessions d' = sessions d"
  "insert_recipient_inner d x p y = Inr (j, d') \<Longrightarrow> messages d' = messages d \<and> sessions d' = sessions d"
  by (auto simp: set_pni_inner_def set_aci_inner_def set_e164_inner_def insert_recipient_inner_def
      split: if_splits)

lemma contents_kept_frame:
  "distinct_keys s_id (sessions d) \<Longrightarrow> messages d' = messages d \<and> sessions d' = sessions d \<Longrightarrow>
     contents_kept d d'"
  by (simp add: contents_kept_def)

lemma contents_kept_run_op:
  assumes "distinct_keys s_id (sessions d)" and "proper_merge op" and "run_op d op = Inr (j, d')"
  shows "contents_kept d d'"
proof (cases op)
  case (Merge s t)
  then show ?thesis
    using assms contents_kept_merge[of d s t j d'] by simp
qed (use assms in \<open>auto intro!: contents_kept_frame dest!: only_recipients_changed\<close>)

lemma contents_kept_trans: "contents_kept d d' \<Longrightarrow> contents_kept d' d'' \<Longrightarrow> contents_kept d d''"
  by (simp add: contents_kept_def)

lemma contents_kept_run_ops:
  "distinct_keys s_id (sessions d) \<Longrightarrow> list_all proper_merge ops \<Longrightarrow> run_ops d ops = Inr d' \<Longrightarrow>
     contents_kept d d'"
proof (induction ops arbitrary: d)
  case Nil
  then show ?case by (simp add: contents_kept_def)
next
  case (Cons op ops)
  then obtain j d1 where op: "run_op d op = Inr (j, d1)" and rest: "run_ops d1 ops = Inr d'"
    by (auto simp: rbind_eq_Inr)
  have "contents_kept d d1"
    using Cons.prems op by (intro contents_kept_run_op) auto
  moreover have "contents_kept d1 d'"
    using \<open>contents_kept d d1\<close> Cons.prems rest by (intro Cons.IH) (auto simp: contents_kept_def)
  ultimately show ?case
    by (rule contents_kept_trans)
qed

lemma contents_kept_fetch_after_merge:
  assumes "fetch_after_merge d e a p = Inr ((i, c), d')"
  shows "messages d' = messages d \<and> sessions d' = sessions d"
  using assms
proof (cases rule: fetch_after_mergeE)
  case (1 mr rcpt rest d1 d2)
  then show ?thesis
    by (auto elim!: set_ifE dest!: only_recipients_changed)
qed

lemma merge_and_fetch_keeps_contents:
  assumes sess: "distinct_keys s_id (sessions d)"
    and run: "merge_and_fetch_recipient_inner d e a p trust cs = Inr ((i, changed), d')"
  shows "contents_kept d d'"
  using run
proof (cases rule: merge_and_fetch_cases)
  case (full c)
  then show ?thesis
    using sess by (simp add: contents_kept_def)
next
  case (queue ops d1)
  have "contents_kept d d1"
    using sess proper_merge_ops[OF queue(1)] queue(2) by (rule contents_kept_run_ops)
  then show ?thesis
    using contents_kept_fetch_after_merge[OF queue(3)] by (simp add: contents_kept_def)
qed

section \<open>No match\<close>

lemma fetch_nothing:
  assumes "by_all (fetch_separate_recipients d a p e) = []"
  shows "find_by r_uuid a d = None" "find_by r_pni p d = None" "find_by r_e164 e d = None"
proof -
  let ?mr = "fetch_separate_recipients d a p e"
  have "r_id ` set (found_recipients ?mr) = {}"
    using assms set_dedup_by_id[of "sort_key (\<lambda>r. - r_id r) (found_recipients ?mr)"]
    by (simp add: by_all_def)
  then have "found_recipients ?mr = []"
    by simp
  then show "find_by r_uuid a d = None" "find_by r_pni p d = None" "find_by r_e164 e d = None"
    by (auto simp: found_recipients_def fetch_separate_recipients_def List.map_filter_simps
        split: option.splits)
qed

definition with_new_recipient :: "database \<Rightarrow> uuid option \<Rightarrow> uuid option \<Rightarrow> phone_number option \<Rightarrow> database" where
  "with_new_recipient d a p e =
     d\<lparr>recipients := recipients d @ [with_r_id (next_rowid r_id (recipients d)) (new_recipient a p e)]\<rparr>"

lemma find_by_new:
  assumes "find_by col ko d = None" and "\<And>i r. col (with_r_id i r) = col r"
  shows "find_by col ko (with_new_recipient d a p e)
           = (if ko \<noteq> None \<and> col (new_recipient a p e) = ko
              then Some (with_r_id (next_rowid r_id (recipients d)) (new_recipient a p e)) else None)"
  using assms by (cases ko) (auto simp: with_new_recipient_def first_where_append)

lemma insert_new:
  assumes "find_by r_uuid a d = None" and "find_by r_e164 e d = None"
  shows "insert_recipient_inner d a p e = Inr (next_rowid r_id (recipients d), with_new_recipient d a p e)"
  using assms
  by (cases a; cases e)
    (simp_all add: insert_recipient_inner_def insert_row_def with_new_recipient_def find_by_eq_None
      first_where_None exists_where_iff)

lemma set_e164_new:
  assumes "find_by r_e164 e d = None" and "e = Some n"
  shows "set_e164_inner (with_new_recipient d a p None) (next_rowid r_id (recipients d)) e
           = Inr (next_rowid r_id (recipients d), with_new_recipient d a p e)"
proof -
  have old: "r_id r \<noteq> next_rowid r_id (recipients d)" if "r \<in> set (recipients d)" for r
    using next_rowid_fresh[OF that, of r_id] by simp
  have "update_where (\<lambda>r. r_id r = next_rowid r_id (recipients d)) (\<lambda>r. r\<lparr>r_e164 := e\<rparr>) (recipients d)
          = recipients d"
    using old by (intro update_where_False) auto
  then show ?thesis
    using assms old
    by (auto simp: set_e164_inner_def with_new_recipient_def first_where_None exists_where_iff
        new_recipient_def)
qed

lemma merge_ops_nothing:
  assumes none: "by_all (fetch_separate_recipients d a p e) = []"
  shows "merge_ops (fetch_separate_recipients d a p e) e a p trust
           = Inr [Create a p (if trust = Certain \<or> a = None then e else None)]"
proof -
  have "common_recipient (fetch_separate_recipients d a p e) = None"
    using none by (simp add: common_recipient_def)
  moreover have "by_e164 (fetch_separate_recipients d a p e) = None"
    "by_aci (fetch_separate_recipients d a p e) = None"
    using fetch_nothing[OF none] by (simp_all add: fetch_separate_recipients_def)
  ultimately show ?thesis
    using none
    by (simp add: merge_ops_def e164_aci_ops_def pni_e164_ops_def pni_aci_ops_def create_ops_def
        split: option.splits)
qed

lemma fetch_after_new:
  assumes none: "find_by r_uuid a d = None" "find_by r_pni p d = None" "find_by r_e164 e d = None"
    and some: "e \<noteq> None \<or> a \<noteq> None \<or> p \<noteq> None" and n: "n = next_rowid r_id (recipients d)"
  shows "fetch_after_merge (with_new_recipient d a p e) e a p
           = Inr ((n, True), with_new_recipient d a p e)"
proof -
  have "fetch_separate_recipients (with_new_recipient d a p e) a p e
      = (let r = with_r_id n (new_recipient a p e) in
         \<lparr> by_aci = (if a \<noteq> None then Some r else None), by_e164 = (if e \<noteq> None then Some r else None),
           by_pni = (if p \<noteq> None then Some r else None) \<rparr>)"
    using none by (simp add: fetch_separate_recipients_def find_by_new n Let_def)
  then show ?thesis
    using some
    by (cases a; cases p; cases e)
      (simp_all add: fetch_after_merge_def Let_def List.map_filter_simps set_if_def)
qed

lemma fetch_after_new_without_e164:
  assumes none: "find_by r_uuid a d = None" "find_by r_pni p d = None" "find_by r_e164 e d = None"
    and aci: "a \<noteq> None" and e: "e = Some x" and n: "n = next_rowid r_id (recipients d)"
  shows "fetch_after_merge (with_new_recipient d a p None) e a p
           = Inr ((n, True), with_new_recipient d a p e)"
proof -
  have "fetch_separate_recipients (with_new_recipient d a p None) a p e
      = (let r = with_r_id n (new_recipient a p None) in
         \<lparr> by_aci = Some r, by_e164 = None, by_pni = (if p \<noteq> None then Some r else None) \<rparr>)"
    using none aci find_by_new[OF none(3), of a p None] e
    by (simp add: fetch_separate_recipients_def find_by_new[of r_uuid] find_by_new[of r_pni] n Let_def
        del: find_by_Some)
  then show ?thesis
    using aci set_e164_new[OF none(3) e]
    by (cases p)
      (simp_all add: fetch_after_merge_def Let_def List.map_filter_simps set_if_def e n)
qed

lemma no_match_creates:
  assumes some: "e \<noteq> None \<or> a \<noteq> None \<or> p \<noteq> None"
    and none: "by_all (fetch_separate_recipients d a p e) = []"
  shows "merge_and_fetch_recipient_inner d e a p trust cs
           = Inr ((next_rowid r_id (recipients d), True), with_new_recipient d a p e)"
proof -
  let ?e = "if trust = Certain \<or> a = None then e else None"
  have unfound: "find_by r_uuid a d = None" "find_by r_pni p d = None" "find_by r_e164 e d = None"
    using fetch_nothing[OF none] by auto
  have "find_by r_e164 ?e d = None"
    using unfound(3) by (cases "trust = Certain \<or> a = None") simp_all
  then have "run_ops d [Create a p ?e] = Inr (with_new_recipient d a p ?e)"
    using insert_new[OF unfound(1)] by simp
  moreover have "fetch_after_merge (with_new_recipient d a p ?e) e a p
      = Inr ((next_rowid r_id (recipients d), True), with_new_recipient d a p e)"
    using fetch_after_new[OF unfound some refl] fetch_after_new_without_e164[OF unfound _ _ refl]
    by (cases e) auto
  moreover have "common_recipient (fetch_separate_recipients d a p e) = None"
    using none by (simp add: common_recipient_def)
  ultimately show ?thesis
    using some merge_ops_nothing[OF none]
    by (simp add: merge_and_fetch_recipient_inner_def Let_def)
qed

section \<open>Receipts and reactions\<close>

lemma merge_receipts_succeeds:
  assumes keys: "distinct_keys (\<lambda>t. (t_message_id t, t_recipient_id t)) (receipts d)"
  shows "\<exists>d'. merge_receipts s t d = Inr d'"
proof -
  let ?dup = "set (map t_message_id (filter (\<lambda>x. t_recipient_id x = t) (receipts d)))"
  let ?kept = "delete_where (\<lambda>x. t_recipient_id x = s \<and> t_message_id x \<in> ?dup) (receipts d)"
  let ?f = "\<lambda>x. if t_recipient_id x = s then x\<lparr>t_recipient_id := t\<rparr> else x"
  let ?key = "\<lambda>x. (t_message_id x, t_recipient_id x)"
  have kept: "distinct_keys ?key ?kept"
    using keys by (rule distinct_keys_delete)
  have "inj_on (?key \<circ> ?f) (set ?kept)"
  proof (rule inj_onI)
    fix x y assume x: "x \<in> set ?kept" and y: "y \<in> set ?kept" and eq: "(?key \<circ> ?f) x = (?key \<circ> ?f) y"
    have free: "t_message_id v \<noteq> t_message_id w"
      if "v \<in> set ?kept" "w \<in> set (receipts d)" "t_recipient_id v = s" "t_recipient_id w = t" for v w
      using that by (auto simp: set_delete_where)
    have "?key x = ?key y"
      using x y eq free[of x y] free[of y x] by (auto simp: set_delete_where split: if_splits)
    then show "x = y"
      using distinct_keys_inj[OF kept x y] by simp
  qed
  moreover have "distinct ?kept"
    using kept by (simp add: distinct_keys_def distinct_map)
  ultimately have "distinct_keys ?key (update_where (\<lambda>x. t_recipient_id x = s)
      (\<lambda>x. x\<lparr>t_recipient_id := t\<rparr>) ?kept)"
    by (simp add: distinct_keys_def update_where_def distinct_map)
  then show ?thesis
    by (simp add: merge_receipts_def Let_def)
qed

lemma merge_receipts_covers:
  assumes run: "merge_receipts s t d = Inr d'" and x: "x \<in> set (receipts d)"
    and who: "t_recipient_id x = s \<or> t_recipient_id x = t" and "s \<noteq> t"
  shows "\<exists>y\<in>set (receipts d'). t_recipient_id y = t \<and> t_message_id y = t_message_id x"
proof -
  let ?dup = "set (map t_message_id (filter (\<lambda>x. t_recipient_id x = t) (receipts d)))"
  let ?kept = "delete_where (\<lambda>x. t_recipient_id x = s \<and> t_message_id x \<in> ?dup) (receipts d)"
  let ?f = "\<lambda>x. if t_recipient_id x = s then x\<lparr>t_recipient_id := t\<rparr> else x"
  have d': "set (receipts d') = ?f ` set ?kept"
    using run by (auto simp: merge_receipts_def Let_def set_update_where split: if_splits)
  show ?thesis
  proof (cases "x \<in> set ?kept")
    case True
    then have "?f x \<in> set (receipts d')"
      unfolding d' by (rule imageI)
    then show ?thesis
      using who by (intro bexI[of _ "?f x"]) auto
  next
    case False
    then have "t_recipient_id x = s" "t_message_id x \<in> ?dup"
      using x by (auto simp: set_delete_where)
    then obtain y where y: "y \<in> set (receipts d)" "t_recipient_id y = t" "t_message_id y = t_message_id x"
      by auto
    then have "y \<in> set ?kept" "?f y = y"
      using \<open>s \<noteq> t\<close> by (auto simp: set_delete_where)
    then have "y \<in> set (receipts d')"
      unfolding d' by force
    then show ?thesis
      using y by blast
  qed
qed

lemma merge_reactions_conflicting:
  assumes x: "x \<in> set (reactions d)" "x_author x = s"
    and y: "y \<in> set (reactions d)" "x_author y = t" "s \<noteq> t"
    and same: "x_message_id y = x_message_id x"
    and ids: "\<forall>z\<in>set (reactions d). x_author z = t \<longrightarrow> x_reaction_id z \<noteq> x_message_id x"
  shows "merge_reactions s t d = Inl (DbError UniqueViolation)"
proof -
  let ?dup = "set (map x_reaction_id (filter (\<lambda>x. x_author x = t) (reactions d)))"
  let ?kept = "delete_where (\<lambda>x. x_author x = s \<and> x_message_id x \<in> ?dup) (reactions d)"
  let ?f = "\<lambda>x. if x_author x = s then x\<lparr>x_author := t\<rparr> else x"
  let ?key = "\<lambda>x. (x_author x, x_message_id x)"
  have "x_message_id x \<notin> ?dup"
    using ids by auto
  then have kept: "x \<in> set ?kept" "y \<in> set ?kept"
    using x y by (auto simp: set_delete_where)
  moreover have "x \<noteq> y"
    using x y by auto
  moreover have "?key (?f x) = ?key (?f y)"
    using x y same by simp
  ultimately have "\<not> inj_on (?key \<circ> ?f) (set ?kept)"
    unfolding inj_on_def comp_def by blast
  then have "\<not> distinct_keys ?key (update_where (\<lambda>x. x_author x = s) (\<lambda>x. x\<lparr>x_author := t\<rparr>) ?kept)"
    by (simp add: distinct_keys_def update_where_def distinct_map)
  then show ?thesis
    by (simp add: merge_reactions_def Let_def)
qed

text \<open>Looking for one service id alone never merges: the recipient is found, or created.\<close>

lemma single_criterion:
  assumes run: "merge_and_fetch_recipient_inner d None a p trust False = Inr ((i, changed), d')"
    and one: "(a = None) \<noteq> (p = None)"
  obtains (found) x where "x \<in> set (recipients d)" and "a \<noteq> None \<and> r_uuid x = a \<or> p \<noteq> None \<and> r_pni x = p"
      and "i = r_id x" and "\<not> changed" and "d' = d"
  | (new) "i = next_rowid r_id (recipients d)" and changed and "d' = with_new_recipient d a p None"
proof (cases "found_recipients (fetch_separate_recipients d a p None)")
  case Nil
  then have "by_all (fetch_separate_recipients d a p None) = []"
    by (simp add: by_all_def)
  then show ?thesis
    using no_match_creates[of None a p d trust False] one run new by auto
next
  case (Cons x xs)
  have x: "x \<in> set (recipients d)" "a \<noteq> None \<and> r_uuid x = a \<or> p \<noteq> None \<and> r_pni x = p" and "xs = []"
    using Cons one by (auto simp: found_recipients_def fetch_separate_recipients_def List.map_filter_simps
        find_by_def split: option.splits if_splits dest: first_where_SomeD)
  then have "by_all (fetch_separate_recipients d a p None) = [x]"
    "length (found_recipients (fetch_separate_recipients d a p None)) = 1"
    using Cons by (simp_all add: by_all_def)
  moreover have "criteria_count None a p = 1" "a \<noteq> None \<or> p \<noteq> None"
    using one by (auto simp: criteria_count_def)
  ultimately have "i = r_id x" "\<not> changed" "d' = d"
    using run by (auto simp: merge_and_fetch_recipient_inner_def common_recipient_def Let_def)
  then show ?thesis
    using found[OF x] by blast
qed

section \<open>Properties\<close>

text \<open>
  The example database of this theory: a contact known by phone number, with a direct session
  and a message, and the same person known by ACI; both reacted to the message.
\<close>

definition merge_demo :: database where
  "merge_demo = empty_database\<lparr>
     recipients := [with_r_id 1 (new_recipient None None (Some ''+1'')),
                    with_r_id 2 (new_recipient (Some 7) None None)],
     sessions := [\<lparr> s_id = 1, s_direct_message_recipient_id = Some 1, s_group_v1_id = None,
       s_group_v2_id = None, s_is_archived = False, s_is_pinned = False, s_is_silent = False,
       s_is_muted = False, s_draft = None, s_expiring_message_timeout = None,
       s_expire_timer_version = 1 \<rparr>],
     messages := [default_message\<lparr>m_id := 1, m_session_id := 1, m_sender_recipient_id := Some 1\<rparr>],
     receipts := [\<lparr> t_message_id = 1, t_recipient_id = 1, t_delivered = Some 5, t_read = None,
                    t_viewed = None \<rparr>]\<rparr>"

definition merged_demo :: database where
  "merged_demo = merge_demo\<lparr>
     recipients := [with_r_id 2 (new_recipient (Some 7) None (Some ''+1''))],
     sessions := map (\<lambda>s. s\<lparr>s_direct_message_recipient_id := Some 2\<rparr>) (sessions merge_demo),
     messages := [default_message\<lparr>m_id := 1, m_session_id := 1, m_sender_recipient_id := Some 2\<rparr>],
     receipts := map (\<lambda>t. t\<lparr>t_recipient_id := 2\<rparr>) (receipts merge_demo)\<rparr>"

lemma merge_demo_runs:
  "merge_and_fetch_recipient_inner merge_demo (Some ''+1'') (Some 7) None Certain False
     = Inr ((2, True), merged_demo)"
  by code_simp

text \<open>
  C1. Identification.  Whenever \<open>merge_and_fetch_recipient_inner\<close> returns, whatever was merged
  on the way: the recipient table keeps its unique ids, phone numbers, ACIs and usernames; the
  returned id names a row, which carries the ACI that was asked for; a row holds the phone number
  and a row holds the PNI that were asked for; and when the answer says that nothing changed, the
  database is the one before.
\<close>

theorem merge_and_fetch_identifies:
  assumes "recipients_wf (recipients d)"
    and "merge_and_fetch_recipient_inner d e164 aci pni trust change_self = Inr ((i, changed), d')"
  shows "recipients_wf (recipients d') \<and> identified d' i e164 aci pni \<and> (changed \<or> d' = d)"
  using merge_and_fetch_identified[OF assms] by auto

theorem merge_and_fetch_identifies_witness:
  "recipients_wf (recipients merged_demo) \<and> identified merged_demo 2 (Some ''+1'') (Some 7) None"
proof -
  have "recipients_wf (recipients merge_demo)"
    by code_simp
  then show ?thesis
    using merge_and_fetch_identifies[OF _ merge_demo_runs] by blast
qed

text \<open>
  C2. Content of messages.  Identifying a recipient never loses, adds or reorders a message, and
  changes nothing of any message but its sender and its session, however many merges the queue
  contains; the sessions keep their unique ids.
\<close>

theorem merge_and_fetch_contents:
  assumes "distinct_keys s_id (sessions d)"
    and "merge_and_fetch_recipient_inner d e164 aci pni trust change_self = Inr ((i, changed), d')"
  shows "contents_kept d d'"
  using assms by (rule merge_and_fetch_keeps_contents)

theorem merge_and_fetch_contents_witness: "contents_kept merge_demo merged_demo"
proof -
  have "distinct_keys s_id (sessions merge_demo)"
    by code_simp
  then show ?thesis
    using merge_and_fetch_contents[OF _ merge_demo_runs] by blast
qed

text \<open>
  New recipients.  When none of the identifiers is known, exactly one recipient is created,
  with the next row number and all the identifiers, whatever the trust level; nothing else of the
  database changes.
\<close>

theorem merge_and_fetch_creates:
  assumes "e164 \<noteq> None \<or> aci \<noteq> None \<or> pni \<noteq> None"
    and "by_all (fetch_separate_recipients d aci pni e164) = []"
  shows "merge_and_fetch_recipient_inner d e164 aci pni trust change_self
           = Inr ((next_rowid r_id (recipients d), True), with_new_recipient d aci pni e164)"
  using assms by (rule no_match_creates)

theorem merge_and_fetch_creates_witness:
  "merge_and_fetch_recipient_inner merge_demo (Some ''+2'') (Some 9) (Some 9) Uncertain False
     = Inr ((3, True), with_new_recipient merge_demo (Some 9) (Some 9) (Some ''+2''))"
proof -
  have "by_all (fetch_separate_recipients merge_demo (Some 9) (Some 9) (Some ''+2'')) = []"
    by code_simp
  moreover have "next_rowid r_id (recipients merge_demo) = 3"
    by code_simp
  ultimately show ?thesis
    using merge_and_fetch_creates[of "Some ''+2''" "Some 9" "Some 9" merge_demo] by simp
qed

text \<open>
  Handing over.  Merging a recipient into another leaves exactly the same messages, where
  each message the source had sent is now sent by the destination and each message of the
  source's direct session is now in the destination's direct session, if it has one; deleting the
  emptied session and the emptied recipient takes no message along.
\<close>

theorem merge_recipients_moves_messages:
  assumes "distinct_keys s_id (sessions d)" and "source_id \<noteq> dest_id"
    and "merge_recipients_inner d source_id dest_id = Inr (i, d')"
  shows "messages d' = map (handed_over d source_id dest_id) (messages d)"
  using assms by (rule merge_recipients_hands_over)

theorem merge_recipients_moves_messages_witness:
  "\<exists>d'. merge_recipients_inner merge_demo 1 2 = Inr (2, d')
        \<and> messages d' = map (handed_over merge_demo 1 2) (messages merge_demo)"
proof -
  have "distinct_keys s_id (sessions merge_demo)"
    by code_simp
  moreover have "merge_recipients_inner merge_demo 1 2
      = Inr (2, merged_demo\<lparr>recipients := recipients merge_demo\<rparr>)"
    by code_simp
  ultimately show ?thesis
    using merge_recipients_moves_messages[of merge_demo 1 2] by auto
qed

text \<open>
  Receipts.  Merging the receipts of two recipients cannot run into the primary key of
  the table, and whoever of the two had received a message, the destination has a receipt for it
  afterwards.
\<close>

theorem merge_receipts_complete:
  assumes "distinct_keys (\<lambda>t. (t_message_id t, t_recipient_id t)) (receipts d)"
    and "source_id \<noteq> dest_id"
  shows "\<exists>d'. merge_receipts source_id dest_id d = Inr d'
           \<and> (\<forall>t\<in>set (receipts d). t_recipient_id t = source_id \<or> t_recipient_id t = dest_id \<longrightarrow>
                (\<exists>u\<in>set (receipts d'). t_recipient_id u = dest_id \<and> t_message_id u = t_message_id t))"
  using merge_receipts_succeeds[OF assms(1), of source_id dest_id] assms(2)
  by (blast intro: merge_receipts_covers)

theorem merge_receipts_complete_witness:
  "\<exists>d'. merge_receipts 1 2 merge_demo = Inr d'
     \<and> (\<exists>u\<in>set (receipts d'). t_recipient_id u = 2 \<and> t_message_id u = 1)"
proof -
  have "distinct_keys (\<lambda>t. (t_message_id t, t_recipient_id t)) (receipts merge_demo)"
    by code_simp
  moreover have "\<exists>t\<in>set (receipts merge_demo). t_recipient_id t = 1 \<and> t_message_id t = 1"
    by code_simp
  ultimately show ?thesis
    using merge_receipts_complete[of merge_demo 1 2] by fastforce
qed

text \<open>
  C29. Reactions.  The duplicates to delete are looked up under the ids of the reactions
  instead of the ids of the messages they belong to.  So when both recipients reacted to the same
  message, and no reaction of the destination happens to carry that message's number, the merge
  fails on the unique constraint of the table.
\<close>

theorem merge_reactions_conflict:
  assumes "x \<in> set (reactions d)" "x_author x = source_id"
    and "y \<in> set (reactions d)" "x_author y = dest_id" "source_id \<noteq> dest_id"
    and "x_message_id y = x_message_id x"
    and "\<forall>z\<in>set (reactions d). x_author z = dest_id \<longrightarrow> x_reaction_id z \<noteq> x_message_id x"
  shows "merge_reactions source_id dest_id d = Inl (DbError UniqueViolation)"
  using assms by (rule merge_reactions_conflicting)

definition reactions_demo :: database where
  "reactions_demo = merge_demo\<lparr>reactions :=
     [\<lparr> x_reaction_id = 5, x_message_id = 1, x_author = 1, x_emoji = ''a'', x_sent_time = 0,
        x_received_time = 0 \<rparr>,
      \<lparr> x_reaction_id = 6, x_message_id = 1, x_author = 2, x_emoji = ''b'', x_sent_time = 0,
        x_received_time = 0 \<rparr>]\<rparr>"

theorem merge_reactions_conflict_witness:
  "merge_reactions 1 2 reactions_demo = Inl (DbError UniqueViolation)"
  using merge_reactions_conflict[of "reactions reactions_demo ! 0" reactions_demo 1
      "reactions reactions_demo ! 1" 2]
  by (simp add: reactions_demo_def)

end
