(* ===== verification/RecipientStore.thy ===== *)
theory RecipientStore
  imports RecipientMerge
begin

text \<open>
  The recipient operations of \<open>Storage\<close> (\<open>whisperfish-store/src/store.rs\<close>): looking recipients
  up, merging inside a transaction, the cached self recipient, profiles, profile keys, and the
  registered, accepted and blocked flags.

  An operation that can panic returns a result; the panics of \<open>expect("db")\<close> on a broken
  connection are not modelled, those a constraint or a missing row can cause are.
\<close>

section \<open>Lookup\<close>

definition expect_db :: "string \<Rightarrow> 'a res \<Rightarrow> 'a res" where
  "expect_db msg r =
     (case r of Inr x \<Rightarrow> Inr x | Inl (DbError _) \<Rightarrow> Inl (Panic msg) | Inl (Panic m) \<Rightarrow> Inl (Panic m))"

lemma expect_db_eq_Inr [simp]: "expect_db msg r = Inr x \<longleftrightarrow> r = Inr x"
  by (auto simp: expect_db_def split: sum.splits store_error.splits)

definition fetch_recipient_by_id :: "int \<Rightarrow> storage \<Rightarrow> recipient option" where
  "fetch_recipient_by_id i st = first_where (\<lambda>r. r_id r = i) (recipients (db st))"

definition fetch_recipient_by_e164 :: "phone_number \<Rightarrow> storage \<Rightarrow> recipient option" where
  "fetch_recipient_by_e164 n st = first_where (\<lambda>r. r_e164 r = Some n) (recipients (db st))"

definition has_service_id :: "service_id \<Rightarrow> recipient \<Rightarrow> bool" where
  "has_service_id addr r =
     (case addr of AciId u \<Rightarrow> r_uuid r = Some u | PniId u \<Rightarrow> r_pni r = Some u)"

definition fetch_recipient :: "service_id \<Rightarrow> storage \<Rightarrow> recipient option" where
  "fetch_recipient addr st = first_where (has_service_id addr) (recipients (db st))"

definition fetch_recipients :: "storage \<Rightarrow> recipient list" where
  "fetch_recipients st = recipients (db st)"

text \<open>\<open>parse\<close> is \<open>PhoneNumber::from_str\<close> of the phonenumber crate.\<close>

definition fetch_blocked_numbers :: "(string \<Rightarrow> phone_number option) \<Rightarrow> storage \<Rightarrow> phone_number list" where
  "fetch_blocked_numbers parse st =
     List.map_filter parse
       (List.map_filter r_e164 (filter (\<lambda>r. r_is_blocked r \<and> r_e164 r \<noteq> None) (recipients (db st))))"

definition fetch_blocked_acis :: "storage \<Rightarrow> uuid list" where
  "fetch_blocked_acis st =
     List.map_filter r_uuid (filter (\<lambda>r. r_is_blocked r \<and> r_uuid r \<noteq> None) (recipients (db st)))"

section \<open>Merging in a transaction\<close>

definition merge_in_transaction ::
  "string \<Rightarrow> phone_number option \<Rightarrow> uuid option \<Rightarrow> uuid option \<Rightarrow> trust_level \<Rightarrow> bool \<Rightarrow> storage
     \<Rightarrow> (recipient \<times> storage) res" where
  "merge_in_transaction missing e164 aci pni trust change_self st =
     rbind (expect_db ''database''
              (transaction (db st) (\<lambda>d. merge_and_fetch_recipient_inner d e164 aci pni trust change_self)))
       (\<lambda>((i, changed), d').
     rbind (opt_panic missing (fetch_recipient_by_id i (st\<lparr>db := d'\<rparr>))) (\<lambda>r.
       Inr (r, emit_if changed (observe_update SubRecipients (RowId i)) (st\<lparr>db := d'\<rparr>))))"

definition merge_and_fetch_self_recipient ::
  "phone_number option \<Rightarrow> uuid option \<Rightarrow> uuid option \<Rightarrow> storage \<Rightarrow> (recipient \<times> storage) res" where
  "merge_and_fetch_self_recipient e164 aci pni st =
     merge_in_transaction ''existing updated recipient'' e164 aci pni Certain True st"

definition merge_and_fetch_recipient ::
  "phone_number option \<Rightarrow> uuid option \<Rightarrow> uuid option \<Rightarrow> trust_level \<Rightarrow> storage
     \<Rightarrow> (recipient \<times> storage) res" where
  "merge_and_fetch_recipient e164 aci pni trust st =
     merge_in_transaction ''existing updated recipient by id'' e164 aci pni trust False st"

definition merge_and_fetch_recipient_by_address ::
  "phone_number option \<Rightarrow> service_id \<Rightarrow> trust_level \<Rightarrow> storage \<Rightarrow> (recipient \<times> storage) res" where
  "merge_and_fetch_recipient_by_address e164 addr trust st =
     merge_and_fetch_recipient e164
       (case addr of AciId u \<Rightarrow> Some u | PniId _ \<Rightarrow> None)
       (case addr of PniId u \<Rightarrow> Some u | AciId _ \<Rightarrow> None) trust st"

definition merge_recipients :: "int \<Rightarrow> int \<Rightarrow> storage \<Rightarrow> (recipient \<times> storage) res" where
  "merge_recipients source_id dest_id st =
     rbind (expect_db ''consistent migration''
              (transaction (db st) (\<lambda>d. merge_recipients_inner d source_id dest_id))) (\<lambda>(merged_id, d').
     let st' = emit_all [observe_delete SubRecipients (RowId source_id),
                         observe_update SubRecipients (RowId dest_id)] (st\<lparr>db := d'\<rparr>) in
     rbind (opt_panic ''existing contact'' (fetch_recipient_by_id merged_id st')) (\<lambda>r. Inr (r, st')))"

section \<open>The self recipient\<close>

definition invalidate_self_recipient :: "storage \<Rightarrow> storage" where
  "invalidate_self_recipient st = st\<lparr>self_recipient := None\<rparr>"

definition fetch_self_recipient :: "storage \<Rightarrow> (recipient option \<times> storage) res" where
  "fetch_self_recipient st =
     (case self_recipient st of
        Some r \<Rightarrow> Inr (Some r, st)
      | None \<Rightarrow>
          if cfg_tel (conf st) = None then Inr (None, st)
          else rbind (merge_and_fetch_self_recipient (cfg_tel (conf st)) (cfg_aci (conf st))
                        (cfg_pni (conf st)) st) (\<lambda>(r, st').
               Inr (Some r, st'\<lparr>self_recipient := Some r\<rparr>)))"

definition fetch_self_recipient_profile_key :: "storage \<Rightarrow> (blob option \<times> storage) res" where
  "fetch_self_recipient_profile_key st =
     (case self_recipient st of
        Some r \<Rightarrow> Inr (r_profile_key r, st)
      | None \<Rightarrow> rbind (fetch_self_recipient st) (\<lambda>(ro, st').
          rbind (opt_panic ''no self recipient to retreive profile key from'' ro) (\<lambda>r.
          Inr (r_profile_key r, st'))))"

definition fetch_self_recipient_id :: "storage \<Rightarrow> (int \<times> storage) res" where
  "fetch_self_recipient_id st =
     (case self_recipient st of
        Some r \<Rightarrow> Inr (r_id r, st)
      | None \<Rightarrow> rbind (fetch_self_recipient st) (\<lambda>(ro, st').
          rbind (opt_panic ''no self recipient to retrieve db id from'' ro) (\<lambda>r.
          Inr (r_id r, st'))))"

definition fetch_self_service_address_aci :: "storage \<Rightarrow> service_id option" where
  "fetch_self_service_address_aci st = map_option AciId (cfg_aci (conf st))"

section \<open>Updating rows\<close>

definition update_recipients :: "(recipient \<Rightarrow> bool) \<Rightarrow> (recipient \<Rightarrow> recipient) \<Rightarrow> storage \<Rightarrow> storage" where
  "update_recipients P f st =
     st\<lparr>db := (db st)\<lparr>recipients := update_where P f (recipients (db st))\<rparr>\<rparr>"

definition affected_ids :: "(recipient \<Rightarrow> bool) \<Rightarrow> storage \<Rightarrow> int list" where
  "affected_ids P st = map r_id (filter P (recipients (db st)))"

definition observe_recipient :: "int \<Rightarrow> storage \<Rightarrow> storage" where
  "observe_recipient i st = emit (observe_update SubRecipients (RowId i)) st"

definition invalidate_if :: "bool \<Rightarrow> storage \<Rightarrow> storage" where
  "invalidate_if c st = (if c then invalidate_self_recipient st else st)"

definition mark_recipient_needs_pni_signature :: "recipient \<Rightarrow> bool \<Rightarrow> storage \<Rightarrow> storage" where
  "mark_recipient_needs_pni_signature rcpt val st =
     (if r_uuid rcpt = cfg_aci (conf st) then st
      else
        (let P = (\<lambda>r. r_id r = r_id rcpt \<and> r_needs_pni_signature r \<noteq> val);
             st' = update_recipients P (\<lambda>r. r\<lparr>r_needs_pni_signature := val\<rparr>) st
         in if affected_ids P st \<noteq> [] then observe_recipient (r_id rcpt) st' else st'))"

definition set_recipient_unidentified :: "recipient \<Rightarrow> unidentified_access_mode \<Rightarrow> storage \<Rightarrow> storage" where
  "set_recipient_unidentified rcpt mode st =
     (let P = (\<lambda>r. r_id r = r_id rcpt \<and> r_unidentified_access_mode r \<noteq> mode);
          st1 = update_recipients P (\<lambda>r. r\<lparr>r_unidentified_access_mode := mode\<rparr>) st;
          st2 = (if affected_ids P st \<noteq> [] then observe_recipient (r_id rcpt) st1 else st1)
      in invalidate_if (r_uuid rcpt = cfg_aci (conf st)) st2)"

text \<open>
  \<open>username\<close> is a unique column, so a name another row has makes the \<open>expect\<close> panic.  Unlike
  the other operations, the rows are selected by id alone: an unchanged name is written and
  reported as well.
\<close>

definition set_recipient_username :: "int \<Rightarrow> string \<Rightarrow> storage \<Rightarrow> storage res" where
  "set_recipient_username recipient_id new_username st =
     (let P = (\<lambda>r. r_id r = recipient_id) in
      if affected_ids P st \<noteq> []
         \<and> exists_where (\<lambda>r. r_id r \<noteq> recipient_id \<and> r_username r = Some new_username) (recipients (db st))
      then Inl (Panic ''existing record updated'')
      else
        (let st' = update_recipients P (\<lambda>r. r\<lparr>r_username := Some new_username\<rparr>) st
         in Inr (if affected_ids P st \<noteq> [] then observe_recipient recipient_id st' else st')))"

definition mark_profile_outdated :: "recipient \<Rightarrow> storage \<Rightarrow> storage" where
  "mark_profile_outdated rcpt st =
     (case r_uuid rcpt of
        None \<Rightarrow> st
      | Some aci \<Rightarrow>
          (let P = (\<lambda>r. r_uuid r = Some aci \<and> r_last_profile_fetch r \<noteq> None);
               st1 = update_recipients P (\<lambda>r. r\<lparr>r_last_profile_fetch := None\<rparr>) st
           in case affected_ids P st of
                [] \<Rightarrow> st1
              | i # _ \<Rightarrow> observe_recipient i (invalidate_if (r_uuid rcpt = cfg_aci (conf st)) st1)))"

definition joined_name :: "string option \<Rightarrow> string option \<Rightarrow> string option" where
  "joined_name given family =
     (case (given, family) of
        (Some g, Some f) \<Rightarrow> Some (g @ '' '' @ f)
      | (Some g, None) \<Rightarrow> Some g
      | (None, Some f) \<Rightarrow> Some f
      | (None, None) \<Rightarrow> None)"

definition update_profile_details ::
  "uuid \<Rightarrow> string option \<Rightarrow> string option \<Rightarrow> string option \<Rightarrow> string option \<Rightarrow> storage \<Rightarrow> storage res" where
  "update_profile_details profile_uuid given family about emoji st =
     rbind (opt_panic ''called `Option::unwrap()` on a `None` value''
              (fetch_recipient (AciId profile_uuid) st)) (\<lambda>rcpt.
     let st1 = update_recipients (\<lambda>r. r_id r = r_id rcpt)
                 (\<lambda>r. r\<lparr>r_profile_family_name := family, r_profile_given_name := given,
                        r_profile_joined_name := joined_name given family,
                        r_about := about, r_about_emoji := emoji\<rparr>) st
     in Inr (observe_recipient (r_id rcpt)
               (invalidate_if (r_uuid rcpt = cfg_aci (conf st)) st1)))"

definition mark_profile_updated :: "uuid \<Rightarrow> storage \<Rightarrow> storage" where
  "mark_profile_updated recipient_uuid st =
     (let P = (\<lambda>r. r_uuid r = Some recipient_uuid);
          st1 = update_recipients P (\<lambda>r. r\<lparr>r_last_profile_fetch := Some (now st)\<rparr>) st
      in case affected_ids P st of
           [] \<Rightarrow> st1
         | i # _ \<Rightarrow> observe_recipient i (invalidate_if (Some recipient_uuid = cfg_aci (conf st)) st1))"

definition remove_profile :: "uuid \<Rightarrow> storage \<Rightarrow> storage" where
  "remove_profile recipient_uuid st =
     (let P = (\<lambda>r. r_uuid r = Some recipient_uuid);
          st1 = update_recipients P
                  (\<lambda>r. r\<lparr>r_profile_given_name := None, r_profile_family_name := None,
                         r_profile_joined_name := None, r_about := None, r_about_emoji := None,
                         r_unidentified_access_mode := UAUnknown, r_signal_profile_avatar := None,
                         r_last_profile_fetch := Some (now st)\<rparr>) st
      in case affected_ids P st of
           [] \<Rightarrow> st1
         | i # _ \<Rightarrow> observe_recipient i (invalidate_if (Some recipient_uuid = cfg_aci (conf st)) st1))"

record store_profile =
  sp_given_name :: "string option"
  sp_family_name :: "string option"
  sp_joined_name :: "string option"
  sp_about_text :: "string option"
  sp_emoji :: "string option"
  sp_avatar :: "string option"
  sp_unidentified :: unidentified_access_mode
  sp_last_fetch :: timestamp
  sp_r_uuid :: uuid
  sp_r_id :: int
  sp_r_key :: "blob option"

definition stored_profile :: "store_profile \<Rightarrow> recipient \<Rightarrow> store_profile" where
  "stored_profile profile r =
     profile\<lparr>sp_given_name := r_profile_given_name r, sp_family_name := r_profile_family_name r,
       sp_joined_name := r_profile_joined_name r, sp_about_text := r_about r,
       sp_emoji := r_about_emoji r, sp_avatar := r_signal_profile_avatar r,
       sp_unidentified := r_unidentified_access_mode r\<rparr>"

definition write_profile :: "store_profile \<Rightarrow> recipient \<Rightarrow> recipient" where
  "write_profile profile r =
     r\<lparr>r_profile_given_name := sp_given_name profile, r_profile_family_name := sp_family_name profile,
       r_profile_joined_name := sp_joined_name profile, r_about := sp_about_text profile,
       r_about_emoji := sp_emoji profile, r_unidentified_access_mode := sp_unidentified profile,
       r_signal_profile_avatar := sp_avatar profile\<rparr>"

text \<open>
  The time of the fetch is written first, and only if it differs the profile is compared and
  written.  The row that was just updated is found again by its id.
\<close>

definition save_profile :: "store_profile \<Rightarrow> storage \<Rightarrow> storage res" where
  "save_profile profile st =
     (let P = (\<lambda>r. r_uuid r = Some (sp_r_uuid profile)
                  \<and> r_last_profile_fetch r \<noteq> Some (sp_last_fetch profile));
          st1 = update_recipients P (\<lambda>r. r\<lparr>r_last_profile_fetch := Some (sp_last_fetch profile)\<rparr>) st
      in case affected_ids P st of
           [] \<Rightarrow> Inr st1
         | changed_id # _ \<Rightarrow>
             rbind (opt_panic ''called `Option::unwrap()` on a `None` value''
                      (fetch_recipient_by_id changed_id st1)) (\<lambda>old.
             if stored_profile profile old = profile then Inr st1
             else
               (let Q = (\<lambda>r. r_uuid r = Some (sp_r_uuid profile));
                    st2 = update_recipients Q (write_profile profile) st1
                in case affected_ids Q st1 of
                     [] \<Rightarrow> Inr st2
                   | i # _ \<Rightarrow> Inr (observe_recipient i
                       (invalidate_if (Some (sp_r_uuid profile) = cfg_aci (conf st)) st2)))))"

section \<open>Profile keys\<close>

text \<open>
  \<open>key_len\<close> is \<open>PROFILE_KEY_LEN\<close> of the zkgroup crate.  When the key is the one stored, only the
  access mode is reset, and that is not reported.
\<close>

definition refresh_access_mode :: "recipient \<Rightarrow> storage \<Rightarrow> storage" where
  "refresh_access_mode rcpt st =
     (if r_unidentified_access_mode rcpt = UADisabled
      then update_recipients
             (\<lambda>r. r_id r = r_id rcpt \<and> r_unidentified_access_mode r \<noteq> UAUnknown)
             (\<lambda>r. r\<lparr>r_unidentified_access_mode := UAUnknown\<rparr>) st
      else st)"

definition write_profile_key :: "recipient \<Rightarrow> blob \<Rightarrow> storage \<Rightarrow> storage" where
  "write_profile_key rcpt new_key st =
     (let P = (\<lambda>r. r_id r = r_id rcpt
                  \<and> (r_profile_key r \<noteq> Some new_key \<or> r_unidentified_access_mode r \<noteq> UAUnknown));
          st1 = update_recipients P
                  (\<lambda>r. r\<lparr>r_profile_key := Some new_key, r_unidentified_access_mode := UAUnknown\<rparr>) st
      in if affected_ids P st \<noteq> []
         then observe_recipient (r_id rcpt) (invalidate_if (r_uuid rcpt = cfg_aci (conf st)) st1)
         else st1)"

definition update_profile_key ::
  "nat \<Rightarrow> phone_number option \<Rightarrow> service_id option \<Rightarrow> blob \<Rightarrow> trust_level \<Rightarrow> storage
     \<Rightarrow> ((recipient \<times> bool) \<times> storage) res" where
  "update_profile_key key_len e164 addr new_key trust st =
     rbind (opt_panic ''called `Option::unwrap()` on a `None` value'' addr) (\<lambda>address.
     rbind (merge_and_fetch_recipient_by_address e164 address trust st) (\<lambda>(rcpt, st1).
     rbind (fetch_self_recipient st1) (\<lambda>(self_opt, st2).
     rbind (opt_panic ''self recipient'' self_opt) (\<lambda>self.
       if r_uuid self = r_uuid rcpt \<and> trust \<noteq> Certain then Inr ((rcpt, False), st2)
       else if length new_key \<noteq> key_len then Inr ((rcpt, False), st2)
       else if (case address of AciId _ \<Rightarrow> False | PniId _ \<Rightarrow> True) then Inr ((rcpt, False), st2)
       else
         (let is_unset = (r_profile_key rcpt = None \<or> r_profile_key rcpt = Some [])
          in if (is_unset \<or> trust = Certain) \<and> r_profile_key rcpt = Some new_key
             then Inr ((rcpt, False),
                    invalidate_if (r_uuid rcpt = cfg_aci (conf st2)) (refresh_access_mode rcpt st2))
             else
               (let st3 = (if is_unset \<or> trust = Certain then write_profile_key rcpt new_key st2 else st2)
                in rbind (opt_panic ''fetch existing record'' (fetch_recipient_by_id (r_id rcpt) st3))
                     (\<lambda>r. Inr ((r, True), st3))))))))"

section \<open>Inserting and flagging recipients\<close>

definition insert_recipient :: "uuid option \<Rightarrow> uuid option \<Rightarrow> phone_number option \<Rightarrow> storage
     \<Rightarrow> (recipient \<times> storage)" where
  "insert_recipient aci pni e164 st =
     (let i = next_rowid r_id (recipients (db st));
          r = with_r_id i (new_recipient aci pni e164);
          st' = st\<lparr>db := (db st)\<lparr>recipients :=
                  insert_row r_id with_r_id (new_recipient aci pni e164) (recipients (db st))\<rparr>\<rparr>
      in (r, emit (observe_insert SubRecipients (RowId i)) st'))"

definition fetch_or_insert_recipient_by_address :: "service_id \<Rightarrow> storage \<Rightarrow> recipient \<times> storage" where
  "fetch_or_insert_recipient_by_address addr st =
     (case fetch_recipient addr st of
        Some r \<Rightarrow> (r, st)
      | None \<Rightarrow>
          (case addr of
             AciId u \<Rightarrow> insert_recipient (Some u) None None st
           | PniId u \<Rightarrow> insert_recipient None (Some u) None st))"

definition fetch_or_insert_recipient_by_phonenumber :: "phone_number \<Rightarrow> storage \<Rightarrow> recipient \<times> storage" where
  "fetch_or_insert_recipient_by_phonenumber n st =
     (case fetch_recipient_by_e164 n st of
        Some r \<Rightarrow> (r, st)
      | None \<Rightarrow> insert_recipient None None (Some n) st)"

definition mark_recipient_registered :: "service_id \<Rightarrow> bool \<Rightarrow> storage \<Rightarrow> storage" where
  "mark_recipient_registered addr registered st =
     (let P = (\<lambda>r. has_service_id addr r \<and> r_is_registered r \<noteq> registered);
          st1 = update_recipients P (\<lambda>r. r\<lparr>r_is_registered := registered\<rparr>) st
      in case affected_ids P st of [] \<Rightarrow> st1 | i # _ \<Rightarrow> observe_recipient i st1)"

definition mark_recipient_accepted :: "service_id \<Rightarrow> storage \<Rightarrow> storage" where
  "mark_recipient_accepted addr st =
     (let (rcpt, st1) = fetch_or_insert_recipient_by_address addr st;
          P = (\<lambda>r. r_id r = r_id rcpt \<and> (\<not> r_is_accepted r \<or> r_is_blocked r));
          st2 = update_recipients P (\<lambda>r. r\<lparr>r_is_accepted := True, r_is_blocked := False\<rparr>) st1
      in if affected_ids P st1 \<noteq> [] then observe_recipient (r_id rcpt) st2 else st2)"

definition mark_recipient_blocked_by_id :: "int \<Rightarrow> storage \<Rightarrow> storage" where
  "mark_recipient_blocked_by_id recipient_id st =
     (let P = (\<lambda>r. r_id r = recipient_id \<and> (r_is_accepted r \<or> \<not> r_is_blocked r));
          st1 = update_recipients P (\<lambda>r. r\<lparr>r_is_accepted := False, r_is_blocked := True\<rparr>) st
      in if affected_ids P st \<noteq> [] then observe_recipient recipient_id st1 else st1)"

definition mark_recipient_blocked_by_address :: "service_id \<Rightarrow> storage \<Rightarrow> storage" where
  "mark_recipient_blocked_by_address addr st =
     (let (rcpt, st1) = fetch_or_insert_recipient_by_address addr st
      in mark_recipient_blocked_by_id (r_id rcpt) st1)"

definition mark_recipient_blocked_by_e164 :: "phone_number \<Rightarrow> storage \<Rightarrow> storage" where
  "mark_recipient_blocked_by_e164 n st =
     (let (rcpt, st1) = fetch_or_insert_recipient_by_phonenumber n st
      in mark_recipient_blocked_by_id (r_id rcpt) st1)"

definition set_recipient_external_id :: "int \<Rightarrow> string option \<Rightarrow> storage \<Rightarrow> storage res" where
  "set_recipient_external_id rcpt_id ext_id st =
     (let P = (\<lambda>r. r_id r = rcpt_id);
          st1 = update_recipients P (\<lambda>r. r\<lparr>r_external_id := ext_id\<rparr>) st
      in if affected_ids P st = [] then Inr st1
         else rbind (fetch_self_recipient_id st1) (\<lambda>(self_id, st2).
              Inr (observe_recipient rcpt_id (invalidate_if (rcpt_id = self_id) st2))))"

definition update_last_session_reset :: "int \<Rightarrow> timestamp \<Rightarrow> storage \<Rightarrow> storage" where
  "update_last_session_reset recipient_id ts st =
     update_recipients (\<lambda>r. r_id r = recipient_id) (\<lambda>r. r\<lparr>r_last_session_reset := Some ts\<rparr>) st"

section \<open>Frames\<close>

lemma update_recipients_frame [simp]:
  "self_recipient (update_recipients P f st) = self_recipient st"
  "conf (update_recipients P f st) = conf st" "events (update_recipients P f st) = events st"
  "now (update_recipients P f st) = now st"
  "recipients (db (update_recipients P f st)) = update_where P f (recipients (db st))"
  by (simp_all add: update_recipients_def)

lemma observe_recipient_frame [simp]:
  "self_recipient (observe_recipient i st) = self_recipient st"
  "conf (observe_recipient i st) = conf st" "db (observe_recipient i st) = db st"
  "events (observe_recipient i st) = events st @ [observe_update SubRecipients (RowId i)]"
  by (simp_all add: observe_recipient_def)

lemma invalidate_if_frame [simp]:
  "conf (invalidate_if c st) = conf st" "db (invalidate_if c st) = db st"
  "events (invalidate_if c st) = events st"
  "self_recipient (invalidate_if c st) = (if c then None else self_recipient st)"
  by (simp_all add: invalidate_if_def invalidate_self_recipient_def)

lemma fetch_by_id_row: "fetch_recipient_by_id i st = recipient_row (db st) i"
  by (simp add: fetch_recipient_by_id_def recipient_row_def)

lemma affected_ids_Nil: "affected_ids P st = [] \<longleftrightarrow> (\<forall>r\<in>set (recipients (db st)). \<not> P r)"
  by (simp add: affected_ids_def filter_empty_conv)

lemma update_recipients_none:
  assumes "affected_ids P st = []"
  shows "update_recipients P f st = st"
proof -
  have "update_where P f (recipients (db st)) = recipients (db st)"
    using assms by (intro update_where_False) (simp add: affected_ids_Nil)
  then show ?thesis
    by (simp add: update_recipients_def)
qed

section \<open>The cached self recipient stays current\<close>

text \<open>
  The cached copy is the row of the account, apart from the time its profile was last fetched,
  which \<open>save_profile\<close> writes without invalidating the cache when the contents are the same.
\<close>

definition same_but_fetched :: "recipient \<Rightarrow> recipient \<Rightarrow> bool" where
  "same_but_fetched r x \<longleftrightarrow> x\<lparr>r_last_profile_fetch := r_last_profile_fetch r\<rparr> = r"

definition cache_current :: "storage \<Rightarrow> bool" where
  "cache_current st =
     (cfg_aci (conf st) \<noteq> None
      \<and> (case self_recipient st of
           None \<Rightarrow> True
         | Some r \<Rightarrow> r_uuid r = cfg_aci (conf st)
             \<and> (case fetch_recipient_by_id (r_id r) st of None \<Rightarrow> False | Some x \<Rightarrow> same_but_fetched r x)))"

definition self_ok :: "storage \<Rightarrow> bool" where
  "self_ok st = (recipients_wf (recipients (db st)) \<and> cache_current st)"

definition uniques_kept :: "(recipient \<Rightarrow> recipient) \<Rightarrow> bool" where
  "uniques_kept f \<longleftrightarrow> (\<forall>r. r_id (f r) = r_id r \<and> r_uuid (f r) = r_uuid r \<and> r_e164 (f r) = r_e164 r
                         \<and> r_username (f r) = r_username r)"

lemma recipients_wf_update:
  "uniques_kept f \<Longrightarrow> recipients_wf tab \<Longrightarrow> recipients_wf (update_where P f tab)"
  by (simp add: recipients_wf_def uniques_kept_def distinct_keys_update unique_values_frame)

lemma same_but_fetched_fields:
  assumes "same_but_fetched r x"
  shows "r_id x = r_id r \<and> r_uuid x = r_uuid r"
  using arg_cong[OF assms[unfolded same_but_fetched_def], of r_id]
    arg_cong[OF assms[unfolded same_but_fetched_def], of r_uuid] by simp

lemma same_but_fetched_refl [simp]: "same_but_fetched r r"
  by (simp add: same_but_fetched_def)

text \<open>The cached row and the row of the table.\<close>

lemma cached_row:
  assumes "self_ok st" and "self_recipient st = Some r"
  obtains x where "x \<in> set (recipients (db st))" and "recipient_row (db st) (r_id r) = Some x"
    and "same_but_fetched r x" and "r_uuid x = cfg_aci (conf st)" and "r_uuid r = cfg_aci (conf st)"
  using assms that same_but_fetched_fields
  by (auto simp: self_ok_def cache_current_def fetch_by_id_row recipient_row_def split: option.splits dest!: first_where_SomeD)

lemma self_ok_update:
  assumes ok: "self_ok st" and f: "uniques_kept f"
    and other: "\<And>r. r \<in> set (recipients (db st)) \<Longrightarrow> P r \<Longrightarrow> r_uuid r = cfg_aci (conf st) \<Longrightarrow>
      c \<or> (\<forall>x. same_but_fetched x r \<longrightarrow> same_but_fetched x (f r))"
  shows "self_ok (invalidate_if c (update_recipients P f st))"
proof (cases "c \<or> self_recipient st = None")
  case True
  then show ?thesis
    using ok recipients_wf_update[OF f] by (auto simp: self_ok_def cache_current_def)
next
  case False
  then obtain r where r: "self_recipient st = Some r" and "\<not> c"
    by auto
  obtain x where x: "x \<in> set (recipients (db st))" "recipient_row (db st) (r_id r) = Some x"
    "same_but_fetched r x" "r_uuid x = cfg_aci (conf st)" "r_uuid r = cfg_aci (conf st)"
    using cached_row[OF ok r] by metis
  have "same_but_fetched r (if P x then f x else x)"
    using other[OF x(1) _ x(4)] x(3) \<open>\<not> c\<close> by simp
  moreover have "recipient_row (db (update_recipients P f st)) (r_id r) = Some (if P x then f x else x)"
    using x(2) f by (simp add: recipient_row_def first_where_update uniques_kept_def)
  ultimately show ?thesis
    using ok r x(5) \<open>\<not> c\<close> recipients_wf_update[OF f]
    by (simp add: self_ok_def cache_current_def fetch_by_id_row)
qed

lemma self_ok_fetched:
  assumes "self_ok st"
  shows "self_ok (update_recipients P (\<lambda>r. r\<lparr>r_last_profile_fetch := t\<rparr>) st)"
  using self_ok_update[of st "\<lambda>r. r\<lparr>r_last_profile_fetch := t\<rparr>" P False] assms
  by (simp add: uniques_kept_def invalidate_if_def same_but_fetched_def)

lemma self_ok_observe [simp]: "self_ok (observe_recipient i st) = self_ok st"
  by (simp add: self_ok_def cache_current_def fetch_by_id_row cong: option.case_cong)

lemma self_ok_emit_if [simp]: "self_ok (emit_if c ev st) = self_ok st"
  by (simp add: self_ok_def cache_current_def fetch_by_id_row cong: option.case_cong)

lemma self_ok_invalidate: "self_ok st \<Longrightarrow> self_ok (invalidate_if c st)"
  by (auto simp: self_ok_def cache_current_def fetch_by_id_row cong: option.case_cong)

lemma self_ok_invalidate_observe:
  "self_ok (invalidate_if c (observe_recipient i st)) = self_ok (invalidate_if c st)"
  by (simp add: self_ok_def cache_current_def fetch_by_id_row cong: option.case_cong)

lemma self_ok_unaffected:
  "self_ok st \<Longrightarrow> affected_ids P st = [] \<Longrightarrow> self_ok (update_recipients P f st)"
  by (simp add: update_recipients_none)

lemma current_row_uuid:
  assumes "self_ok st" and "fetch_recipient_by_id (r_id rcpt) st = Some rcpt"
    and "r \<in> set (recipients (db st))" and "r_id r = r_id rcpt"
  shows "r_uuid r = r_uuid rcpt"
proof -
  have "recipient_row (db st) (r_id r) = Some r"
    using assms(1,3) by (simp add: self_ok_def recipient_row_in)
  then have "Some r = Some rcpt"
    using assms(2,4) by (simp only: fetch_by_id_row)
  then show ?thesis
    by simp
qed

lemma self_ok_unidentified:
  assumes "self_ok st" and "fetch_recipient_by_id (r_id rcpt) st = Some rcpt"
  shows "self_ok (set_recipient_unidentified rcpt mode st)"
proof -
  let ?P = "\<lambda>r. r_id r = r_id rcpt \<and> r_unidentified_access_mode r \<noteq> mode"
  let ?st = "update_recipients ?P (\<lambda>r. r\<lparr>r_unidentified_access_mode := mode\<rparr>) st"
  have "self_ok (invalidate_if (r_uuid rcpt = cfg_aci (conf st)) ?st)"
    using assms(1) current_row_uuid[OF assms]
    by (intro self_ok_update) (auto simp: uniques_kept_def)
  then show ?thesis
    by (simp add: set_recipient_unidentified_def Let_def self_ok_invalidate_observe)
qed

lemma self_ok_pni_signature:
  assumes "self_ok st" and "fetch_recipient_by_id (r_id rcpt) st = Some rcpt"
  shows "self_ok (mark_recipient_needs_pni_signature rcpt val st)"
proof (cases "r_uuid rcpt = cfg_aci (conf st)")
  case False
  let ?P = "\<lambda>r. r_id r = r_id rcpt \<and> r_needs_pni_signature r \<noteq> val"
  let ?st = "update_recipients ?P (\<lambda>r. r\<lparr>r_needs_pni_signature := val\<rparr>) st"
  have "self_ok (invalidate_if False ?st)"
    using assms(1) current_row_uuid[OF assms] False
    by (intro self_ok_update) (auto simp: uniques_kept_def)
  then show ?thesis
    using False by (simp add: mark_recipient_needs_pni_signature_def Let_def invalidate_if_def)
qed (use assms in \<open>simp add: mark_recipient_needs_pni_signature_def\<close>)

lemma self_ok_by_aci:
  assumes "self_ok st" and "uniques_kept f" and "\<And>r. P r \<Longrightarrow> r_uuid r = Some u"
  shows "self_ok (case affected_ids P st of [] \<Rightarrow> update_recipients P f st
           | i # _ \<Rightarrow> observe_recipient i
               (invalidate_if (Some u = cfg_aci (conf st)) (update_recipients P f st)))"
proof (cases "affected_ids P st")
  case Nil
  then show ?thesis
    using assms(1) by (simp add: self_ok_unaffected)
next
  case (Cons i others)
  have "self_ok (invalidate_if (Some u = cfg_aci (conf st)) (update_recipients P f st))"
    using assms by (intro self_ok_update) auto
  then show ?thesis
    using Cons by simp
qed

lemma self_ok_outdated: "self_ok st \<Longrightarrow> self_ok (mark_profile_outdated rcpt st)"
proof (cases "r_uuid rcpt")
  case (Some u)
  assume ok: "self_ok st"
  show ?thesis
    unfolding mark_profile_outdated_def Let_def Some option.case
    by (rule self_ok_by_aci[OF ok]) (simp_all add: uniques_kept_def)
qed (simp add: mark_profile_outdated_def)

lemma self_ok_updated: "self_ok st \<Longrightarrow> self_ok (mark_profile_updated u st)"
  unfolding mark_profile_updated_def Let_def
  by (rule self_ok_by_aci) (simp_all add: uniques_kept_def)

lemma self_ok_removed: "self_ok st \<Longrightarrow> self_ok (remove_profile u st)"
  unfolding remove_profile_def Let_def
  by (rule self_ok_by_aci) (simp_all add: uniques_kept_def)

lemma update_profile_detailsE:
  assumes "update_profile_details u given family about emoji st = Inr st'"
  obtains rcpt where "fetch_recipient (AciId u) st = Some rcpt"
    and "st' = observe_recipient (r_id rcpt)
               (invalidate_if (r_uuid rcpt = cfg_aci (conf st))
                 (update_recipients (\<lambda>r. r_id r = r_id rcpt)
                   (\<lambda>r. r\<lparr>r_profile_family_name := family, r_profile_given_name := given,
                        r_profile_joined_name := joined_name given family,
                        r_about := about, r_about_emoji := emoji\<rparr>) st))"
  using assms by (auto simp: update_profile_details_def rbind_eq_Inr Let_def)

lemma self_ok_details:
  assumes ok: "self_ok st" and run: "update_profile_details u given family about emoji st = Inr st'"
  shows "self_ok st'"
  using run
proof (cases rule: update_profile_detailsE)
  case (1 rcpt)
  have "rcpt \<in> set (recipients (db st))"
    using 1(1) by (auto simp: fetch_recipient_def dest: first_where_SomeD)
  then have "fetch_recipient_by_id (r_id rcpt) st = Some rcpt"
    using ok by (simp add: self_ok_def fetch_by_id_row recipient_row_in)
  then show ?thesis
    unfolding 1(2) self_ok_observe using ok current_row_uuid[OF ok]
    by (intro self_ok_update) (auto simp: uniques_kept_def)
qed

lemma merge_in_transaction_row:
  assumes wf: "recipients_wf (recipients (db st))"
    and run: "merge_in_transaction msg e164 aci pni trust cs st = Inr (r, st')"
  shows "recipients_wf (recipients (db st')) \<and> fetch_recipient_by_id (r_id r) st' = Some r
         \<and> (aci = None \<or> r_uuid r = aci) \<and> conf st' = conf st \<and> self_recipient st' = self_recipient st"
proof -
  obtain i changed d' where
    inner: "merge_and_fetch_recipient_inner (db st) e164 aci pni trust cs = Inr ((i, changed), d')"
    and r: "recipient_row d' i = Some r"
    and st': "st' = emit_if changed (observe_update SubRecipients (RowId i)) (st\<lparr>db := d'\<rparr>)"
    using run
    by (auto simp: merge_in_transaction_def rbind_eq_Inr transaction_eq_Inr fetch_by_id_row)
  have "r_id r = i"
    using r by (auto simp: recipient_row_def dest: first_where_SomeD)
  then show ?thesis
    using merge_and_fetch_identified[OF wf inner] r
    by (simp add: st' fetch_by_id_row identified_def)
qed

lemma self_ok_fetch:
  assumes ok: "self_ok st" and run: "fetch_self_recipient st = Inr (ro, st')"
  shows "self_ok st'"
  using assms merge_in_transaction_row[of st]
  by (fastforce simp: fetch_self_recipient_def merge_and_fetch_self_recipient_def rbind_eq_Inr
      self_ok_def cache_current_def fetch_recipient_by_id_def split: option.splits if_splits)

lemma self_ok_insert:
  assumes "self_ok st" and "recipients_wf (recipients (db st'))"
    and "recipients (db st') = recipients (db st) @ [x]" and "conf st' = conf st"
    and "self_recipient st' = self_recipient st"
  shows "self_ok st'"
proof (cases "self_recipient st")
  case None
  then show ?thesis
    using assms by (simp add: self_ok_def cache_current_def)
next
  case (Some r)
  obtain y where "recipient_row (db st) (r_id r) = Some y" "same_but_fetched r y" "r_uuid r = cfg_aci (conf st)"
    using cached_row[OF assms(1) Some] by metis
  moreover from this have "recipient_row (db st') (r_id r) = Some y"
    using assms(3) by (simp add: recipient_row_def first_where_append)
  ultimately show ?thesis
    using assms Some by (simp add: self_ok_def cache_current_def fetch_by_id_row)
qed

end
