(* ===== verification/RecipientEvents.thy ===== *)
theory RecipientEvents
  imports RecipientStore MergeMoves
begin

text \<open>
  Which changes of a recipient reach the user interface, and what the flags and the profile key
  of a recipient can become.
\<close>

section \<open>Reported changes\<close>

text \<open>
  Three columns are written without an event, by \<open>save_profile\<close> when the contents of the profile are
  the same, by \<open>update_profile_key\<close> when the key is the same, and when a session is reset: the time
  of the last fetch, the access mode and the time of the reset.
\<close>

definition shown :: "recipient \<Rightarrow> recipient" where
  "shown r = r\<lparr>r_last_profile_fetch := None, r_unidentified_access_mode := UAUnknown, r_last_session_reset := None\<rparr>"

definition shown_row :: "storage \<Rightarrow> int \<Rightarrow> recipient option" where
  "shown_row st i = map_option shown (recipient_row (db st) i)"

definition reported :: "storage \<Rightarrow> storage \<Rightarrow> bool" where
  "reported st st' \<longleftrightarrow>
     (\<exists>evs. events st' = events st @ evs
        \<and> (\<forall>i. shown_row st' i \<noteq> shown_row st i \<longrightarrow>
              (\<exists>ev\<in>set evs. is_interesting (row_interest SubRecipients (RowId i)) ev)))"

text \<open>
  The operations that change profiles, keys, names and flags of recipients.
  \<open>mark_recipient_registered\<close> is listed for ACIs, since a PNI is not unique among the rows, and
  \<open>update_profile_key\<close> without a phone number and with the own recipient in the cache: otherwise it
  first merges recipients, as do the operations on external contacts.
\<close>

inductive recipient_step :: "storage \<Rightarrow> storage \<Rightarrow> bool" where
  rs_unidentified: "recipient_step st (set_recipient_unidentified rcpt mode st)"
| rs_pni_signature: "recipient_step st (mark_recipient_needs_pni_signature rcpt val st)"
| rs_username: "set_recipient_username i name st = Inr st' \<Longrightarrow> recipient_step st st'"
| rs_outdated: "recipient_step st (mark_profile_outdated rcpt st)"
| rs_details: "update_profile_details u given family about emoji st = Inr st' \<Longrightarrow> recipient_step st st'"
| rs_updated: "recipient_step st (mark_profile_updated u st)"
| rs_removed: "recipient_step st (remove_profile u st)"
| rs_saved: "save_profile profile st = Inr st' \<Longrightarrow> recipient_step st st'"
| rs_key: "self_recipient st \<noteq> None \<Longrightarrow> update_profile_key n None (Some addr) k trust st = Inr (x, st') \<Longrightarrow>
    recipient_step st st'"
| rs_registered: "recipient_step st (mark_recipient_registered (AciId u) b st)"
| rs_accepted: "recipient_step st (mark_recipient_accepted addr st)"
| rs_blocked: "recipient_step st (mark_recipient_blocked_by_id i st)"
| rs_blocked_address: "recipient_step st (mark_recipient_blocked_by_address addr st)"
| rs_blocked_e164: "recipient_step st (mark_recipient_blocked_by_e164 n st)"
| rs_reset: "recipient_step st (update_last_session_reset i ts st)"

lemma reported_refl: "events st' = events st \<Longrightarrow> db st' = db st \<Longrightarrow> reported st st'"
  by (simp add: reported_def shown_row_def)

lemma reported_trans: "reported st st' \<Longrightarrow> reported st' st'' \<Longrightarrow> reported st st''"
  unfolding reported_def by (metis (no_types, lifting) UnCI append_assoc set_append)

lemma reported_cong:
  "reported st st' \<Longrightarrow> events st'' = events st' \<Longrightarrow> db st'' = db st' \<Longrightarrow> reported st st''"
  by (simp add: reported_def shown_row_def)

lemma reportedI:
  assumes "events st' = events st @ [ev]"
    and "is_interesting (row_interest SubRecipients (RowId i)) ev"
    and "\<And>j. j \<noteq> i \<Longrightarrow> recipient_row (db st') j = recipient_row (db st) j"
  shows "reported st st'"
proof -
  have "\<exists>e\<in>set [ev]. is_interesting (row_interest SubRecipients (RowId j)) e"
    if "shown_row st' j \<noteq> shown_row st j" for j
    using assms(2,3) that by (cases "j = i") (auto simp: shown_row_def)
  then show ?thesis
    using assms(1) unfolding reported_def by blast
qed

lemma row_update:
  assumes f: "\<And>r. r_id (f r) = r_id r"
    and only: "\<And>r. r \<in> set tab \<Longrightarrow> P r \<Longrightarrow> r_id r = i" and "j \<noteq> i"
  shows "first_where (\<lambda>r. r_id r = j) (update_where P f tab) = first_where (\<lambda>r. r_id r = j) tab"
  using only f \<open>j \<noteq> i\<close> by (induction tab) auto

lemma reported_update:
  assumes "\<And>r. r_id (f r) = r_id r"
    and "\<And>r. r \<in> set (recipients (db st)) \<Longrightarrow> P r \<Longrightarrow> r_id r = i"
  shows "reported st (observe_recipient i (update_recipients P f st))"
proof (rule reportedI[where i = i])
  show "is_interesting (row_interest SubRecipients (RowId i)) (observe_update SubRecipients (RowId i))"
    by (simp add: observe_update_def row_interest_own_event)
  show "recipient_row (db (observe_recipient i (update_recipients P f st))) j = recipient_row (db st) j"
    if "j \<noteq> i" for j
    using row_update[of f "recipients (db st)" P i j] assms that by (simp add: recipient_row_def)
qed simp

lemma reported_if_affected:
  assumes f: "\<And>r. r_id (f r) = r_id r" and P: "\<And>r. P r \<Longrightarrow> r_id r = i"
  shows "reported st (if affected_ids P st \<noteq> [] then observe_recipient i (update_recipients P f st)
                      else update_recipients P f st)"
proof (cases "affected_ids P st = []")
  case True
  then show ?thesis
    by (simp add: update_recipients_none reported_refl)
next
  case False
  then show ?thesis
    using reported_update[of f st P i] f P by simp
qed

lemma reported_by_aci:
  assumes wf: "recipients_wf (recipients (db st))" and f: "\<And>r. r_id (f r) = r_id r"
    and P: "\<And>r. P r \<Longrightarrow> r_uuid r = Some u"
  shows "reported st (case affected_ids P st of [] \<Rightarrow> update_recipients P f st
           | i # _ \<Rightarrow> observe_recipient i (invalidate_if c (update_recipients P f st)))"
proof (cases "affected_ids P st")
  case Nil
  then show ?thesis
    by (simp add: update_recipients_none reported_refl)
next
  case (Cons i others)
  then obtain r where r: "r \<in> set (recipients (db st))" "P r" "r_id r = i"
    by (fastforce simp: affected_ids_def filter_eq_Cons_iff)
  have "r_id s = i" if "s \<in> set (recipients (db st))" "P s" for s
    using unique_values_inj[OF recipients_wfD(3,1)[OF wf] r(1) that(1)] P[OF r(2)] P[OF that(2)] r(3)
    by simp
  then have "reported st (observe_recipient i (update_recipients P f st))"
    using f by (intro reported_update)
  then show ?thesis
    using Cons by (simp add: reported_cong)
qed

lemma reported_insert:
  assumes "insert_recipient a p e st = (r, st')"
  shows "reported st st'"
proof -
  let ?n = "next_rowid r_id (recipients (db st))"
  have st': "events st' = events st @ [observe_insert SubRecipients (RowId ?n)]"
    "recipients (db st') = insert_row r_id with_r_id (new_recipient a p e) (recipients (db st))"
    using assms by (auto simp: insert_recipient_def Let_def)
  show ?thesis
  proof (rule reportedI[where i = ?n])
    show "is_interesting (row_interest SubRecipients (RowId ?n)) (observe_insert SubRecipients (RowId ?n))"
      by (simp add: observe_insert_def row_interest_own_event)
    show "recipient_row (db st') j = recipient_row (db st) j" if "j \<noteq> ?n" for j
      using rcpt.find_other[of j "recipients (db st)" "new_recipient a p e"] that st'(2)
      by (simp add: recipient_row_def)
  qed (rule st'(1))
qed

lemma reported_fetch_or_insert:
  "fetch_or_insert_recipient_by_address addr st = (r, st') \<Longrightarrow> reported st st'"
  "fetch_or_insert_recipient_by_phonenumber n st = (r, st') \<Longrightarrow> reported st st'"
  by (auto simp: fetch_or_insert_recipient_by_address_def fetch_or_insert_recipient_by_phonenumber_def
      intro: reported_insert reported_refl split: option.splits service_id.splits)

lemma reported_blocked: "reported st (mark_recipient_blocked_by_id i st)"
  unfolding mark_recipient_blocked_by_id_def Let_def by (rule reported_if_affected) simp_all

lemma reported_blocked_fetched:
  "reported st (mark_recipient_blocked_by_address addr st)"
  "reported st (mark_recipient_blocked_by_e164 n st)"
  by (auto simp: mark_recipient_blocked_by_address_def mark_recipient_blocked_by_e164_def Let_def
      intro: reported_trans[OF _ reported_blocked] reported_fetch_or_insert split: prod.splits)

lemma reported_accepted: "reported st (mark_recipient_accepted addr st)"
proof -
  obtain r st1 where fetch: "fetch_or_insert_recipient_by_address addr st = (r, st1)"
    by fastforce
  show ?thesis
    unfolding mark_recipient_accepted_def Let_def fetch prod.case
    by (rule reported_trans[OF reported_fetch_or_insert(1)[OF fetch]], rule reported_if_affected)
      simp_all
qed

lemma reported_username:
  assumes "set_recipient_username i name st = Inr st'"
  shows "reported st st'"
  using assms
  by (auto simp: set_recipient_username_def Let_def update_recipients_none reported_refl
      split: if_splits intro!: reported_update)

lemma reported_unidentified: "reported st (set_recipient_unidentified rcpt mode st)"
  unfolding set_recipient_unidentified_def Let_def
  by (rule reported_cong[OF reported_if_affected]) simp_all

lemma reported_pni_signature: "reported st (mark_recipient_needs_pni_signature rcpt val st)"
  unfolding mark_recipient_needs_pni_signature_def Let_def
  by (auto intro: reported_refl reported_update simp: update_recipients_none)

lemma reported_outdated:
  assumes "recipients_wf (recipients (db st))"
  shows "reported st (mark_profile_outdated rcpt st)"
proof (cases "r_uuid rcpt")
  case None
  then show ?thesis
    by (simp add: mark_profile_outdated_def reported_refl)
next
  case (Some u)
  show ?thesis
    unfolding mark_profile_outdated_def Let_def Some option.case
    by (rule reported_by_aci[OF assms, where u = u]) simp_all
qed

lemma reported_updated:
  "recipients_wf (recipients (db st)) \<Longrightarrow> reported st (mark_profile_updated u st)"
  unfolding mark_profile_updated_def Let_def by (rule reported_by_aci[where u = u]) simp_all

lemma reported_removed:
  "recipients_wf (recipients (db st)) \<Longrightarrow> reported st (remove_profile u st)"
  unfolding remove_profile_def Let_def by (rule reported_by_aci[where u = u]) simp_all

lemma reported_registered:
  assumes "recipients_wf (recipients (db st))"
  shows "reported st (mark_recipient_registered (AciId u) b st)"
  using reported_by_aci[OF assms, where u = u and c = False and f = "\<lambda>r. r\<lparr>r_is_registered := b\<rparr>"
      and P = "\<lambda>r. has_service_id (AciId u) r \<and> r_is_registered r \<noteq> b"]
  by (simp add: mark_recipient_registered_def Let_def has_service_id_def invalidate_if_def
      cong: list.case_cong)

lemma reported_details:
  assumes "update_profile_details u given family about emoji st = Inr st'"
  shows "reported st st'"
  using assms
proof (cases rule: update_profile_detailsE)
  case (1 rcpt)
  show ?thesis
    by (rule reported_cong[OF reported_update[where i = "r_id rcpt"]]) (simp_all add: 1(2))
qed

lemma reported_write_key: "reported st (write_profile_key rcpt k st)"
proof -
  let ?P = "\<lambda>r. r_id r = r_id rcpt \<and> (r_profile_key r \<noteq> Some k \<or> r_unidentified_access_mode r \<noteq> UAUnknown)"
  let ?f = "\<lambda>r. r\<lparr>r_profile_key := Some k, r_unidentified_access_mode := UAUnknown\<rparr>"
  have "reported st (if affected_ids ?P st \<noteq> [] then observe_recipient (r_id rcpt) (update_recipients ?P ?f st)
                     else update_recipients ?P ?f st)"
    by (rule reported_if_affected) simp_all
  then show ?thesis
    by (rule reported_cong) (simp_all add: write_profile_key_def Let_def)
qed

text \<open>The updates that send no event change nothing that is shown.\<close>

lemma reported_silent:
  assumes "\<And>r. r_id (f r) = r_id r" and "\<And>r. shown (f r) = shown r"
  shows "reported st (update_recipients P f st)"
proof -
  have "shown_row (update_recipients P f st) i = shown_row st i" for i
    using assms by (simp add: shown_row_def recipient_row_def first_where_update option.map_comp comp_def if_distrib cong: if_cong)
  then show ?thesis
    by (simp add: reported_def)
qed

lemma save_profileE:
  assumes "save_profile profile st = Inr st'"
  obtains (fetched) "st' = update_recipients (\<lambda>r. r_uuid r = Some (sp_r_uuid profile) \<and> r_last_profile_fetch r \<noteq> Some (sp_last_fetch profile))
        (\<lambda>r. r\<lparr>r_last_profile_fetch := Some (sp_last_fetch profile)\<rparr>) st"
  | (saved) st1 where "st1 = update_recipients (\<lambda>r. r_uuid r = Some (sp_r_uuid profile) \<and> r_last_profile_fetch r \<noteq> Some (sp_last_fetch profile))
        (\<lambda>r. r\<lparr>r_last_profile_fetch := Some (sp_last_fetch profile)\<rparr>) st"
      and "st' = (case affected_ids (\<lambda>r. r_uuid r = Some (sp_r_uuid profile)) st1 of
            [] \<Rightarrow> update_recipients (\<lambda>r. r_uuid r = Some (sp_r_uuid profile)) (write_profile profile) st1
          | i # _ \<Rightarrow> observe_recipient i (invalidate_if (Some (sp_r_uuid profile) = cfg_aci (conf st1))
              (update_recipients (\<lambda>r. r_uuid r = Some (sp_r_uuid profile)) (write_profile profile) st1)))"
  using assms
  by (auto simp: save_profile_def Let_def rbind_eq_Inr split: list.splits if_splits)

lemma write_profile_kept: "r_id (write_profile profile r) = r_id r" "uniques_kept (write_profile profile)"
  by (simp_all add: write_profile_def uniques_kept_def)

lemma reported_saved:
  assumes wf: "recipients_wf (recipients (db st))" and run: "save_profile profile st = Inr st'"
  shows "reported st st'"
  using run
proof (cases rule: save_profileE)
  case fetched
  then show ?thesis
    by (simp add: reported_silent shown_def)
next
  case (saved st1)
  have "reported st st1"
    unfolding saved(1) by (rule reported_silent) (simp_all add: shown_def)
  moreover have "recipients_wf (recipients (db st1))"
    using wf recipients_wf_update by (simp add: saved(1) uniques_kept_def)
  then have "reported st1 st'"
    unfolding saved(2) by (rule reported_by_aci) (simp_all add: write_profile_kept)
  ultimately show ?thesis
    by (rule reported_trans)
qed

text \<open>Without a phone number, updating a key finds or creates the recipient and then writes to it.\<close>

lemma profile_key_writtenE:
  assumes self: "self_recipient st \<noteq> None" and run: "update_profile_key n None (Some addr) k trust st = Inr (x, st')"
  obtains rcpt st1 where "merge_and_fetch_recipient_by_address None addr trust st = Inr (rcpt, st1)"
    and "self_recipient st1 = self_recipient st" and "conf st1 = conf st"
    and "fetch_recipient_by_id (r_id rcpt) st1 = Some rcpt"
    and "st' = st1 \<or> st' = invalidate_if (r_uuid rcpt = cfg_aci (conf st1)) (refresh_access_mode rcpt st1)
      \<or> st' = write_profile_key rcpt k st1"
proof -
  obtain rcpt st1 where merged: "merge_and_fetch_recipient_by_address None addr trust st = Inr (rcpt, st1)"
    using run by (auto simp: update_profile_key_def rbind_eq_Inr)
  then obtain i changed d' where row: "fetch_recipient_by_id i (st\<lparr>db := d'\<rparr>) = Some rcpt"
    and st1: "st1 = emit_if changed (observe_update SubRecipients (RowId i)) (st\<lparr>db := d'\<rparr>)"
    by (auto simp: merge_and_fetch_recipient_by_address_def merge_and_fetch_recipient_def
        merge_in_transaction_def rbind_eq_Inr)
  then have kept: "self_recipient st1 = self_recipient st" "conf st1 = conf st"
    "fetch_recipient_by_id (r_id rcpt) st1 = Some rcpt"
    by (auto simp: fetch_recipient_by_id_def dest: first_where_SomeD)
  then have fetched: "fetch_self_recipient st1 = Inr (self_recipient st, st1)"
    using self by (auto simp: fetch_self_recipient_def)
  have "st' = st1 \<or> st' = invalidate_if (r_uuid rcpt = cfg_aci (conf st1)) (refresh_access_mode rcpt st1)
      \<or> st' = write_profile_key rcpt k st1"
    using run merged fetched self
    by (auto simp: update_profile_key_def rbind_eq_Inr Let_def split: if_splits)
  then show thesis
    using that merged kept by blast
qed

lemma found_or_created:
  assumes run: "merge_and_fetch_recipient_by_address None addr trust st = Inr (r, st')"
  obtains (found) "st' = st"
  | (new) a p where "(a = None) \<noteq> (p = None)"
      and "st' = emit (observe_update SubRecipients (RowId (next_rowid r_id (recipients (db st)))))
                   (st\<lparr>db := with_new_recipient (db st) a p None\<rparr>)"
proof -
  define a where "a = (case addr of AciId u \<Rightarrow> Some u | PniId _ \<Rightarrow> None)"
  define p where "p = (case addr of PniId u \<Rightarrow> Some u | AciId _ \<Rightarrow> None)"
  obtain i changed d' where
    inner: "merge_and_fetch_recipient_inner (db st) None a p trust False = Inr ((i, changed), d')"
    and st': "st' = emit_if changed (observe_update SubRecipients (RowId i)) (st\<lparr>db := d'\<rparr>)"
    using run
    by (auto simp: merge_and_fetch_recipient_by_address_def merge_and_fetch_recipient_def
        merge_in_transaction_def rbind_eq_Inr transaction_eq_Inr a_def p_def)
  have one: "(a = None) \<noteq> (p = None)"
    by (cases addr) (simp_all add: a_def p_def)
  show thesis
    using inner one
  proof (cases rule: single_criterion)
    case (found x)
    then show ?thesis
      using that(1) by (simp add: st' emit_if_def)
  next
    case n: new
    then show ?thesis
      using that(2)[of a p] one by (simp add: st' emit_if_def)
  qed
qed

lemma reported_found_or_created:
  assumes "merge_and_fetch_recipient_by_address None addr trust st = Inr (r, st')"
  shows "reported st st'"
  using assms
proof (cases rule: found_or_created)
  case found
  then show ?thesis by (simp add: reported_refl)
next
  case (new a p)
  let ?n = "next_rowid r_id (recipients (db st))"
  show ?thesis
  proof (rule reportedI[where i = ?n])
    show "is_interesting (row_interest SubRecipients (RowId ?n)) (observe_update SubRecipients (RowId ?n))"
      by (simp add: observe_update_def row_interest_own_event)
    show "recipient_row (db st') j = recipient_row (db st) j" if "j \<noteq> ?n" for j
      using rcpt.find_other[of j "recipients (db st)" "new_recipient a p None"] that
      by (simp add: new(2) recipient_row_def with_new_recipient_def insert_row_def)
  qed (simp add: new(2))
qed

lemma reported_key:
  assumes "self_recipient st \<noteq> None" and "update_profile_key n None (Some addr) k trust st = Inr (x, st')"
  shows "reported st st'"
proof (rule profile_key_writtenE[OF assms])
  fix rcpt st1
  assume "merge_and_fetch_recipient_by_address None addr trust st = Inr (rcpt, st1)"
  then have "reported st st1"
    by (rule reported_found_or_created)
  moreover assume "st' = st1 \<or> st' = invalidate_if (r_uuid rcpt = cfg_aci (conf st1)) (refresh_access_mode rcpt st1)
      \<or> st' = write_profile_key rcpt k st1"
  moreover have "reported st1 (refresh_access_mode rcpt st1)"
    by (simp add: refresh_access_mode_def reported_refl reported_silent shown_def)
  then have "reported st1 (invalidate_if c (refresh_access_mode rcpt st1))" for c
    by (rule reported_cong) simp_all
  ultimately show ?thesis
    using reported_refl reported_write_key reported_trans by metis
qed

section \<open>Sequences of operations\<close>

definition flags_exclusive :: "recipient list \<Rightarrow> bool" where
  "flags_exclusive tab = list_all (\<lambda>r. \<not> (r_is_accepted r \<and> r_is_blocked r)) tab"

definition table_ok :: "storage \<Rightarrow> bool" where
  "table_ok st = (recipients_wf (recipients (db st)) \<and> flags_exclusive (recipients (db st)))"

definition flags_kept :: "(recipient \<Rightarrow> recipient) \<Rightarrow> bool" where
  "flags_kept f \<longleftrightarrow>
     (\<forall>r. (r_is_accepted (f r) \<and> r_is_blocked (f r)) \<longrightarrow> r_is_accepted r \<and> r_is_blocked r)"

lemma flags_exclusive_update:
  assumes "flags_kept f"
  shows "flags_exclusive tab \<Longrightarrow> flags_exclusive (update_where P f tab)"
proof (induction tab)
  case (Cons r tab)
  then show ?case
    using assms[unfolded flags_kept_def, rule_format, of r] by (simp add: flags_exclusive_def) blast
qed simp

lemma table_ok_update:
  "table_ok st \<Longrightarrow> uniques_kept f \<Longrightarrow> flags_kept f \<Longrightarrow> table_ok (update_recipients P f st)"
  by (simp add: table_ok_def recipients_wf_update flags_exclusive_update)

lemma table_ok_cong: "db st' = db st \<Longrightarrow> table_ok st' = table_ok st"
  by (simp add: table_ok_def)

lemma table_ok_frame [simp]:
  "table_ok (observe_recipient i st) = table_ok st"
  "table_ok (invalidate_if c st) = table_ok st"
  by (simp_all add: table_ok_def)

lemma table_ok_username:
  assumes ok: "table_ok st" and run: "set_recipient_username i name st = Inr st'"
  shows "table_ok st'"
proof (cases "affected_ids (\<lambda>r. r_id r = i) st = []")
  case True
  then show ?thesis
    using ok run by (simp add: set_recipient_username_def Let_def update_recipients_none)
next
  case False
  let ?f = "\<lambda>r. r\<lparr>r_username := Some name\<rparr>"
  let ?tab = "recipients (db st)"
  have free: "\<not> exists_where (\<lambda>r. r_id r \<noteq> i \<and> r_username r = Some name) ?tab"
    and st': "db st' = db (update_recipients (\<lambda>r. r_id r = i) ?f st)"
    using run False by (auto simp: set_recipient_username_def Let_def split: if_splits)
  have "unique_values r_username (update_where (\<lambda>r. r_id r = i) ?f ?tab)"
    by (rule unique_values_set[where v = "Some name"])
      (use ok free in \<open>auto simp: table_ok_def exists_where_iff dest: recipients_wfD\<close>)
  then have "recipients_wf (update_where (\<lambda>r. r_id r = i) ?f ?tab)"
    using ok by (simp add: table_ok_def recipients_wf_def unique_values_frame distinct_keys_update)
  then show ?thesis
    using ok st' by (auto simp: table_ok_def flags_exclusive_def list_all_iff set_update_where)
qed

lemma fetch_recipient_None:
  "fetch_recipient (AciId u) st = None \<Longrightarrow> find_by r_uuid (Some u) (db st) = None"
  "fetch_recipient_by_e164 n st = None \<Longrightarrow> find_by r_e164 (Some n) (db st) = None"
  by (auto simp: fetch_recipient_def fetch_recipient_by_e164_def has_service_id_def first_where_None)

lemma table_ok_insert:
  assumes "table_ok st" and "insert_recipient a p e st = (r, st')"
    and "find_by r_uuid a (db st) = None" and "find_by r_e164 e (db st) = None"
  shows "table_ok st'"
proof -
  have ins: "insert_recipient_inner (db st) a p e
      = Inr (next_rowid r_id (recipients (db st)),
          (db st)\<lparr>recipients := insert_row r_id with_r_id (new_recipient a p e) (recipients (db st))\<rparr>)"
    using assms(3,4) by (cases a; cases e)
      (simp_all add: insert_recipient_inner_def first_where_None exists_where_iff)
  have st': "db st' = (db st)\<lparr>recipients := insert_row r_id with_r_id (new_recipient a p e) (recipients (db st))\<rparr>"
    using assms(2) by (auto simp: insert_recipient_def Let_def)
  then show ?thesis
    using assms(1) recipients_wf_insert[OF _ ins]
    by (simp add: table_ok_def flags_exclusive_def list_all_iff rcpt.set_insert_row new_recipient_def)
qed

lemma table_ok_fetch_or_insert:
  "table_ok st \<Longrightarrow> fetch_or_insert_recipient_by_address addr st = (r, st') \<Longrightarrow> table_ok st'"
  "table_ok st \<Longrightarrow> fetch_or_insert_recipient_by_phonenumber n st = (r, st') \<Longrightarrow> table_ok st'"
  by (auto simp: fetch_or_insert_recipient_by_address_def fetch_or_insert_recipient_by_phonenumber_def
      intro: table_ok_insert dest: fetch_recipient_None split: option.splits service_id.splits)

lemma table_ok_blocked: "table_ok st \<Longrightarrow> table_ok (mark_recipient_blocked_by_id i st)"
  by (auto simp: mark_recipient_blocked_by_id_def Let_def uniques_kept_def flags_kept_def
      intro!: table_ok_update)

lemma table_ok_case:
  assumes "table_ok (update_recipients P f st)"
  shows "table_ok (case is of [] \<Rightarrow> update_recipients P f st
           | i # _ \<Rightarrow> observe_recipient i (invalidate_if c (update_recipients P f st)))"
    and "table_ok (case is of [] \<Rightarrow> update_recipients P f st
           | i # _ \<Rightarrow> observe_recipient i (update_recipients P f st))"
  using assms by (simp_all split: list.split)

lemma table_ok_profile_ops:
  assumes ok: "table_ok st"
  shows "table_ok (set_recipient_unidentified rcpt mode st)"
    and "table_ok (mark_recipient_needs_pni_signature rcpt val st)"
    and "table_ok (mark_profile_outdated rcpt st)"
    and "table_ok (mark_profile_updated u st)"
    and "table_ok (remove_profile u st)"
    and "table_ok (mark_recipient_registered (AciId u) b st)"
    and "table_ok (write_profile_key rcpt k st)"
proof -
  note up = table_ok_update[OF ok]
  show "table_ok (set_recipient_unidentified rcpt mode st)"
    using ok by (simp add: set_recipient_unidentified_def Let_def up uniques_kept_def flags_kept_def)
  show "table_ok (mark_recipient_needs_pni_signature rcpt val st)"
    using ok
    by (simp add: mark_recipient_needs_pni_signature_def Let_def up uniques_kept_def flags_kept_def)
  show "table_ok (mark_profile_outdated rcpt st)"
  proof (cases "r_uuid rcpt")
    case None
    then show ?thesis
      using ok by (simp add: mark_profile_outdated_def)
  next
    case (Some u)
    show ?thesis
      unfolding mark_profile_outdated_def Let_def Some option.case
      by (rule table_ok_case(1), rule up) (simp_all add: uniques_kept_def flags_kept_def)
  qed
  show "table_ok (mark_profile_updated u st)"
    unfolding mark_profile_updated_def Let_def
    by (rule table_ok_case(1), rule up) (simp_all add: uniques_kept_def flags_kept_def)
  show "table_ok (remove_profile u st)"
    unfolding remove_profile_def Let_def
    by (rule table_ok_case(1), rule up) (simp_all add: uniques_kept_def flags_kept_def)
  show "table_ok (mark_recipient_registered (AciId u) b st)"
    unfolding mark_recipient_registered_def Let_def
    by (rule table_ok_case(2), rule up) (simp_all add: uniques_kept_def flags_kept_def)
  show "table_ok (write_profile_key rcpt k st)"
    using ok by (simp add: write_profile_key_def Let_def up uniques_kept_def flags_kept_def)
qed

lemma table_ok_details:
  assumes ok: "table_ok st" and run: "update_profile_details u given family about emoji st = Inr st'"
  shows "table_ok st'"
  using run
proof (cases rule: update_profile_detailsE)
  case (1 rcpt)
  show ?thesis
    unfolding 1(2) table_ok_frame
    by (rule table_ok_update[OF ok]) (simp_all add: uniques_kept_def flags_kept_def)
qed

lemma table_ok_saved:
  assumes ok: "table_ok st" and run: "save_profile profile st = Inr st'"
  shows "table_ok st'"
  using run
proof (cases rule: save_profileE)
  case fetched
  then show ?thesis
    using ok by (simp add: table_ok_update uniques_kept_def flags_kept_def)
next
  case (saved st1)
  have "table_ok st1"
    using ok by (simp add: saved(1) table_ok_update uniques_kept_def flags_kept_def)
  then show ?thesis
    unfolding saved(2)
    by (intro table_ok_case(1) table_ok_update) (simp_all add: write_profile_kept write_profile_def flags_kept_def)
qed

lemma table_ok_found_or_created:
  assumes ok: "table_ok st" and run: "merge_and_fetch_recipient_by_address None addr trust st = Inr (r, st')"
  shows "table_ok st'"
proof -
  have "recipients_wf (recipients (db st'))"
    using merge_in_transaction_row[of st] ok run
    by (auto simp: table_ok_def merge_and_fetch_recipient_by_address_def merge_and_fetch_recipient_def)
  moreover have "flags_exclusive (recipients (db st'))"
    using run ok
    by (cases rule: found_or_created)
      (auto simp: table_ok_def flags_exclusive_def with_new_recipient_def new_recipient_def)
  ultimately show ?thesis
    by (simp add: table_ok_def)
qed

lemma table_ok_key:
  assumes ok: "table_ok st" and run: "self_recipient st \<noteq> None" "update_profile_key n None (Some addr) k trust st = Inr (x, st')"
  shows "table_ok st'"
proof (rule profile_key_writtenE[OF run])
  fix rcpt st1
  assume "merge_and_fetch_recipient_by_address None addr trust st = Inr (rcpt, st1)"
  then have ok1: "table_ok st1"
    using table_ok_found_or_created[OF ok] by blast
  assume "st' = st1 \<or> st' = invalidate_if (r_uuid rcpt = cfg_aci (conf st1)) (refresh_access_mode rcpt st1)
      \<or> st' = write_profile_key rcpt k st1"
  moreover have "table_ok (refresh_access_mode rcpt st1)"
    using ok1 by (simp add: refresh_access_mode_def table_ok_update uniques_kept_def flags_kept_def)
  ultimately show ?thesis
    using ok1 table_ok_profile_ops(7)[OF ok1] by auto
qed

lemma table_ok_flag_ops:
  assumes ok: "table_ok st"
  shows "table_ok (mark_recipient_accepted addr st)"
    and "table_ok (mark_recipient_blocked_by_address addr st)"
    and "table_ok (mark_recipient_blocked_by_e164 n st)"
proof -
  obtain r st1 where fetch: "fetch_or_insert_recipient_by_address addr st = (r, st1)"
    by fastforce
  obtain r2 st2 where fetch2: "fetch_or_insert_recipient_by_phonenumber n st = (r2, st2)"
    by fastforce
  have st1: "table_ok st1" and st2: "table_ok st2"
    using table_ok_fetch_or_insert ok fetch fetch2 by blast+
  show "table_ok (mark_recipient_accepted addr st)"
    by (simp add: mark_recipient_accepted_def Let_def fetch table_ok_update[OF st1]
        uniques_kept_def flags_kept_def)
  show "table_ok (mark_recipient_blocked_by_address addr st)"
    by (simp add: mark_recipient_blocked_by_address_def fetch table_ok_blocked[OF st1])
  show "table_ok (mark_recipient_blocked_by_e164 n st)"
    by (simp add: mark_recipient_blocked_by_e164_def fetch2 table_ok_blocked[OF st2])
qed

lemma table_ok_step: "recipient_step st st' \<Longrightarrow> table_ok st \<Longrightarrow> table_ok st'"
proof (induction rule: recipient_step.induct)
  case (rs_username i name st st')
  then show ?case by (rule table_ok_username[rotated])
next
  case (rs_details u given family about emoji st st')
  then show ?case by (rule table_ok_details[rotated])
next
  case (rs_saved profile st st')
  then show ?case by (rule table_ok_saved[rotated])
next
  case (rs_key st n addr k trust x st')
  then show ?case using table_ok_key by blast
next
  case (rs_reset st i ts)
  then show ?case
    by (simp add: update_last_session_reset_def table_ok_update uniques_kept_def flags_kept_def)
qed (simp_all add: table_ok_profile_ops table_ok_flag_ops table_ok_blocked)

lemma reported_reset: "reported st (update_last_session_reset i ts st)"
  unfolding update_last_session_reset_def by (rule reported_silent) (simp_all add: shown_def)

lemma reported_step: "recipient_step st st' \<Longrightarrow> table_ok st \<Longrightarrow> reported st st'"
  by (induction rule: recipient_step.induct)
    (auto simp: table_ok_def intro: reported_unidentified reported_pni_signature reported_username
      reported_outdated reported_details reported_updated reported_removed reported_registered
      reported_accepted reported_blocked reported_blocked_fetched reported_saved reported_key reported_reset)

lemma recipient_steps_ok:
  "recipient_step\<^sup>*\<^sup>* st st' \<Longrightarrow> table_ok st \<Longrightarrow> table_ok st' \<and> reported st st'"
proof (induction rule: rtranclp_induct)
  case base
  then show ?case by (simp add: reported_refl)
next
  case (step st' st'')
  then show ?case
    by (blast intro: table_ok_step reported_trans reported_step)
qed

section \<open>The cached self recipient\<close>

text \<open>
  The operations on profiles, keys and access modes.  The ones that take a recipient are called
  with a row of the table; \<open>update_profile_key\<close> with a phone number may merge recipients, and is left out.
\<close>

inductive profile_step :: "storage \<Rightarrow> storage \<Rightarrow> bool" where
  ps_fetch: "fetch_self_recipient st = Inr (ro, st') \<Longrightarrow> profile_step st st'"
| ps_unidentified: "fetch_recipient_by_id (r_id rcpt) st = Some rcpt \<Longrightarrow>
    profile_step st (set_recipient_unidentified rcpt mode st)"
| ps_pni_signature: "fetch_recipient_by_id (r_id rcpt) st = Some rcpt \<Longrightarrow>
    profile_step st (mark_recipient_needs_pni_signature rcpt val st)"
| ps_outdated: "profile_step st (mark_profile_outdated rcpt st)"
| ps_details: "update_profile_details u given family about emoji st = Inr st' \<Longrightarrow> profile_step st st'"
| ps_updated: "profile_step st (mark_profile_updated u st)"
| ps_removed: "profile_step st (remove_profile u st)"
| ps_saved: "save_profile profile st = Inr st' \<Longrightarrow> profile_step st st'"
| ps_key: "self_recipient st \<noteq> None \<Longrightarrow> update_profile_key n None (Some addr) k trust st = Inr (x, st') \<Longrightarrow>
    profile_step st st'"

lemma self_ok_saved:
  assumes ok: "self_ok st" and run: "save_profile profile st = Inr st'"
  shows "self_ok st'"
  using run
proof (cases rule: save_profileE)
  case fetched
  then show ?thesis
    using ok by (simp add: self_ok_fetched)
next
  case (saved st1)
  have "self_ok st1"
    using ok by (simp add: saved(1) self_ok_fetched)
  then show ?thesis
    unfolding saved(2) by (rule self_ok_by_aci) (simp_all add: write_profile_kept)
qed

lemma self_ok_found_or_created:
  assumes ok: "self_ok st" and run: "merge_and_fetch_recipient_by_address None addr trust st = Inr (r, st')"
  shows "self_ok st'"
proof -
  have wf: "recipients_wf (recipients (db st'))"
    using merge_in_transaction_row[of st] ok run
    by (auto simp: self_ok_def merge_and_fetch_recipient_by_address_def merge_and_fetch_recipient_def)
  show ?thesis
    using run
  proof (cases rule: found_or_created)
    case found
    then show ?thesis using ok by simp
  next
    case (new a p)
    then show ?thesis
      using self_ok_insert[OF ok wf] by (simp add: with_new_recipient_def)
  qed
qed

lemma self_ok_key:
  assumes ok: "self_ok st" and run: "self_recipient st \<noteq> None" "update_profile_key n None (Some addr) k trust st = Inr (x, st')"
  shows "self_ok st'"
proof (rule profile_key_writtenE[OF run])
  fix rcpt st1
  assume merged: "merge_and_fetch_recipient_by_address None addr trust st = Inr (rcpt, st1)"
    and row: "fetch_recipient_by_id (r_id rcpt) st1 = Some rcpt"
  have ok1: "self_ok st1"
    using self_ok_found_or_created[OF ok merged] .
  have upd: "self_ok (invalidate_if (r_uuid rcpt = cfg_aci (conf st1)) (update_recipients (\<lambda>r. r_id r = r_id rcpt \<and> P r) f st1))"
    if "uniques_kept f" for P f
    using current_row_uuid[OF ok1 row] that by (intro self_ok_update[OF ok1]) auto
  have mode: "uniques_kept (\<lambda>r. r\<lparr>r_unidentified_access_mode := UAUnknown\<rparr>)"
    and key: "uniques_kept (\<lambda>r. r\<lparr>r_profile_key := Some k, r_unidentified_access_mode := UAUnknown\<rparr>)"
    by (simp_all add: uniques_kept_def)
  have "self_ok (invalidate_if (r_uuid rcpt = cfg_aci (conf st1)) (refresh_access_mode rcpt st1))"
    using self_ok_invalidate[OF ok1] upd[OF mode] by (simp add: refresh_access_mode_def)
  moreover have "self_ok (write_profile_key rcpt k st1)"
    using ok1 upd[OF key] by (simp add: write_profile_key_def Let_def update_recipients_none)
  moreover assume "st' = st1 \<or> st' = invalidate_if (r_uuid rcpt = cfg_aci (conf st1)) (refresh_access_mode rcpt st1)
      \<or> st' = write_profile_key rcpt k st1"
  ultimately show ?thesis
    using ok1 by blast
qed

lemma self_ok_step: "profile_step st st' \<Longrightarrow> self_ok st \<Longrightarrow> self_ok st'"
  by (induction rule: profile_step.induct)
    (auto intro: self_ok_fetch self_ok_unidentified self_ok_pni_signature self_ok_outdated
      self_ok_details self_ok_updated self_ok_removed self_ok_saved self_ok_key)

lemma self_ok_steps: "profile_step\<^sup>*\<^sup>* st st' \<Longrightarrow> self_ok st \<Longrightarrow> self_ok st'"
  by (induction rule: rtranclp_induct) (auto intro: self_ok_step)

section \<open>Profile keys\<close>

definition row_key :: "storage \<Rightarrow> int \<Rightarrow> blob option option" where
  "row_key st i = map_option r_profile_key (fetch_recipient_by_id i st)"

lemma row_key_update:
  assumes "\<And>r. r_id (f r) = r_id r"
  shows "row_key (update_recipients P f st) i
           = map_option (\<lambda>r. r_profile_key (if P r then f r else r)) (fetch_recipient_by_id i st)"
  using assms
  by (simp add: row_key_def fetch_recipient_by_id_def first_where_update option.map_comp comp_def)

lemma row_key_frame [simp]:
  "row_key (invalidate_if c st) i = row_key st i"
  "row_key (observe_recipient j st) i = row_key st i"
  by (simp_all add: row_key_def fetch_recipient_by_id_def)

lemma row_key_refresh: "row_key (refresh_access_mode rcpt st) i = row_key st i"
proof -
  let ?P = "\<lambda>r. r_id r = r_id rcpt \<and> r_unidentified_access_mode r \<noteq> UAUnknown"
  let ?f = "\<lambda>r. r\<lparr>r_unidentified_access_mode := UAUnknown\<rparr>"
  have "row_key (update_recipients ?P ?f st) i = row_key st i"
    using row_key_update[of ?f ?P st i]
    by (cases "fetch_recipient_by_id i st") (simp_all add: row_key_def[of st])
  then show ?thesis
    by (simp add: refresh_access_mode_def)
qed

lemma row_key_write:
  "row_key (write_profile_key rcpt k st) i = row_key st i
   \<or> (i = r_id rcpt \<and> row_key (write_profile_key rcpt k st) i = Some (Some k))"
proof -
  let ?P = "\<lambda>r. r_id r = r_id rcpt \<and> (r_profile_key r \<noteq> Some k \<or> r_unidentified_access_mode r \<noteq> UAUnknown)"
  let ?f = "\<lambda>r. r\<lparr>r_profile_key := Some k, r_unidentified_access_mode := UAUnknown\<rparr>"
  have written: "row_key (write_profile_key rcpt k st) i = row_key (update_recipients ?P ?f st) i"
    by (simp add: write_profile_key_def Let_def)
  have up: "row_key (update_recipients ?P ?f st) i
      = map_option (\<lambda>r. r_profile_key (if ?P r then ?f r else r)) (fetch_recipient_by_id i st)"
    by (rule row_key_update) simp
  show ?thesis
  proof (cases "fetch_recipient_by_id i st")
    case (Some r)
    then have "r_id r = i"
      by (auto simp: fetch_recipient_by_id_def dest: first_where_SomeD)
    then show ?thesis
      unfolding written up using Some by (simp add: row_key_def)
  qed (simp only: written up, simp add: row_key_def)
qed

lemma profile_key_protected:
  assumes cached: "self_recipient st = Some self"
    and merged: "merge_and_fetch_recipient_by_address e164 addr trust st = Inr (rcpt, st1)"
    and keep: "self_recipient st1 = Some self"
    and run: "update_profile_key key_len e164 (Some addr) new_key trust st = Inr ((r, b), st')"
  shows "row_key st' i = row_key st1 i
         \<or> (i = r_id rcpt \<and> row_key st' i = Some (Some new_key) \<and> length new_key = key_len
            \<and> (\<exists>u. addr = AciId u)
            \<and> (trust = Certain \<or> ((r_profile_key rcpt = None \<or> r_profile_key rcpt = Some [])
                                   \<and> r_uuid rcpt \<noteq> r_uuid self)))"
proof -
  have self: "fetch_self_recipient st1 = Inr (Some self, st1)"
    using keep by (simp add: fetch_self_recipient_def)
  let ?unset = "r_profile_key rcpt = None \<or> r_profile_key rcpt = Some []"
  show ?thesis
  proof (cases "(r_uuid self = r_uuid rcpt \<and> trust \<noteq> Certain) \<or> length new_key \<noteq> key_len
                \<or> (\<exists>u. addr = PniId u) \<or> \<not> (?unset \<or> trust = Certain)")
    case True
    then have "st' = st1"
      using run self
      by (auto simp: update_profile_key_def merged Let_def rbind_eq_Inr split: if_splits service_id.splits)
    then show ?thesis
      by simp
  next
    case False
    then obtain u where addr: "addr = AciId u"
      by (cases addr) auto
    show ?thesis
    proof (cases "r_profile_key rcpt = Some new_key")
      case True
      have "st' = invalidate_if (r_uuid rcpt = cfg_aci (conf st1)) (refresh_access_mode rcpt st1)"
        using False True run self addr merged[unfolded addr]
        by (auto simp: update_profile_key_def split: if_splits)
      then show ?thesis
        by (simp add: row_key_refresh)
    next
      case new: False
      have "st' = write_profile_key rcpt new_key st1"
        using False new run self addr merged[unfolded addr]
        by (auto simp: update_profile_key_def rbind_eq_Inr Let_def split: if_splits)
      then show ?thesis
        using False addr row_key_write[of rcpt new_key st1 i] by auto
    qed
  qed
qed

section \<open>Finding or inserting\<close>

lemma fetch_inserted:
  assumes "fetch_recipient addr st = None" and "insert_recipient a p e st = (r, st')"
    and "has_service_id addr (new_recipient a p e)"
  shows "fetch_recipient addr st' = Some r \<and> has_service_id addr r"
  using assms
  by (auto simp: insert_recipient_def Let_def fetch_recipient_def insert_row_def first_where_append
      has_service_id_def split: option.splits service_id.splits dest: first_where_SomeD)

section \<open>Properties\<close>

definition store_demo :: storage where
  "store_demo = \<lparr> db = empty_database\<lparr>recipients :=
        [with_r_id 1 (new_recipient (Some 7) None (Some ''+1'')),
         with_r_id 2 ((new_recipient (Some 8) None None)\<lparr>r_username := Some ''jo.01''\<rparr>)]\<rparr>,
     conf = \<lparr> cfg_tel = Some ''+1'', cfg_aci = Some 7, cfg_pni = None, cfg_home = ''/h'' \<rparr>,
     self_recipient = Some (with_r_id 1 (new_recipient (Some 7) None (Some ''+1''))),
     events = [], now = 1000, files = [] \<rparr>"




text \<open>A profile with the stored contents: the time is written and the cached copy keeps the old one.\<close>

definition fetched_demo :: storage where
  "fetched_demo = (case save_profile (stored_profile
       \<lparr> sp_given_name = None, sp_family_name = None, sp_joined_name = None, sp_about_text = None, sp_emoji = None,
         sp_avatar = None, sp_unidentified = UAUnknown, sp_last_fetch = 900, sp_r_uuid = 7, sp_r_id = 1, sp_r_key = None \<rparr>
       (hd (recipients (db store_demo)))) store_demo of Inr st \<Rightarrow> st | Inl _ \<Rightarrow> store_demo)"


text \<open>
  Profile keys.  \<open>update_profile_key\<close> changes the key of no recipient but the one the
  address resolves to, and that one only to the given key, of the right length and given for an
  ACI; without a certain assertion it neither replaces a key that is set nor touches one's own.
\<close>

theorem profile_key_overwrites:
  assumes "self_recipient st = Some self"
    and "merge_and_fetch_recipient_by_address e164 addr trust st = Inr (rcpt, st1)"
    and "recipients_wf (recipients (db st))"
    and "update_profile_key key_len e164 (Some addr) new_key trust st = Inr ((r, b), st')"
  shows "row_key st' i = row_key st1 i
         \<or> (i = r_id rcpt \<and> row_key st' i = Some (Some new_key) \<and> length new_key = key_len
            \<and> (\<exists>u. addr = AciId u)
            \<and> (trust = Certain \<or> ((r_profile_key rcpt = None \<or> r_profile_key rcpt = Some [])
                                   \<and> r_uuid rcpt \<noteq> r_uuid self)))"
proof -
  have "self_recipient st1 = self_recipient st"
    using assms(2) merge_in_transaction_row[OF assms(3)]
    by (auto simp: merge_and_fetch_recipient_by_address_def merge_and_fetch_recipient_def)
  then show ?thesis
    using assms by (intro profile_key_protected) simp_all
qed

definition key_demo :: storage where
  "key_demo = (case update_profile_key 2 None (Some (AciId 8)) [1, 2] Uncertain store_demo of
                 Inr (_, st) \<Rightarrow> st | Inl _ \<Rightarrow> store_demo)"

theorem profile_key_overwrites_witness:
  "row_key key_demo 1 = row_key store_demo 1 \<and> row_key key_demo 2 = Some (Some [1, 2])"
proof -
  let ?rcpt = "with_r_id 2 ((new_recipient (Some 8) None None)\<lparr>r_username := Some ''jo.01''\<rparr>)"
  have merged: "merge_and_fetch_recipient_by_address None (AciId 8) Uncertain store_demo
      = Inr (?rcpt, store_demo)"
    by code_simp
  have run: "update_profile_key 2 None (Some (AciId 8)) [1, 2] Uncertain store_demo
      = Inr ((?rcpt\<lparr>r_profile_key := Some [1, 2]\<rparr>, True), key_demo)"
    by code_simp
  have wf: "recipients_wf (recipients (db store_demo))"
    by code_simp
  have self: "self_recipient store_demo = Some (with_r_id 1 (new_recipient (Some 7) None (Some ''+1'')))"
    by (simp add: store_demo_def)
  have "row_key key_demo 1 = row_key store_demo 1"
    using profile_key_overwrites[OF self merged wf run, of 1] by simp
  moreover have "row_key key_demo 2 = Some (Some [1, 2])"
    by code_simp
  ultimately show ?thesis ..
qed

text \<open>
  Finding or inserting.  \<open>fetch_or_insert_recipient_by_address\<close> returns a recipient with
  the address that was asked for, and asking again returns the same recipient and changes nothing.
\<close>

theorem fetch_or_insert_idempotent:
  assumes "fetch_or_insert_recipient_by_address addr st = (r, st')"
  shows "has_service_id addr r \<and> fetch_or_insert_recipient_by_address addr st' = (r, st')"
proof (cases "fetch_recipient addr st")
  case None
  have "fetch_recipient addr st' = Some r \<and> has_service_id addr r"
  proof (cases addr)
    case (AciId u)
    then have "insert_recipient (Some u) None None st = (r, st')"
      using assms None by (simp add: fetch_or_insert_recipient_by_address_def)
    then show ?thesis
      using None AciId by (intro fetch_inserted) (simp_all add: has_service_id_def)
  next
    case (PniId u)
    then have "insert_recipient None (Some u) None st = (r, st')"
      using assms None by (simp add: fetch_or_insert_recipient_by_address_def)
    then show ?thesis
      using None PniId by (intro fetch_inserted) (simp_all add: has_service_id_def)
  qed
  then show ?thesis
    by (simp add: fetch_or_insert_recipient_by_address_def)
next
  case (Some x)
  then show ?thesis
    using assms
    by (auto simp: fetch_or_insert_recipient_by_address_def fetch_recipient_def
        dest: first_where_SomeD)
qed

theorem fetch_or_insert_idempotent_witness:
  "has_service_id (AciId 9) (fst (fetch_or_insert_recipient_by_address (AciId 9) store_demo))"
  using fetch_or_insert_idempotent[of "AciId 9" store_demo] by (metis prod.collapse)

text \<open>
  User names.  Setting the name a recipient already has leaves the database alone but still
  emits an update event for it.
\<close>

theorem username_unchanged_reported:
  assumes "recipients_wf (recipients (db st))"
    and "fetch_recipient_by_id i st = Some r" and "r_username r = Some name"
  shows "set_recipient_username i name st = Inr (observe_recipient i st)"
proof -
  let ?f = "\<lambda>r. r\<lparr>r_username := Some name\<rparr>"
  have r: "r \<in> set (recipients (db st))" "r_id r = i"
    using assms(2) by (auto simp: fetch_recipient_by_id_def dest: first_where_SomeD)
  have same: "s = r" if "s \<in> set (recipients (db st))" "r_id s = i \<or> r_username s = Some name" for s
    using distinct_keys_inj[OF recipients_wfD(1)[OF assms(1)] that(1) r(1)]
      unique_values_inj[OF recipients_wfD(4,1)[OF assms(1)] that(1) r(1)] that(2) r(2) assms(3) by auto
  have "update_where (\<lambda>r. r_id r = i) ?f (recipients (db st)) = recipients (db st)"
    unfolding update_where_def using same assms(3) by (intro map_idI) auto
  then have "update_recipients (\<lambda>r. r_id r = i) ?f st = st"
    by (simp add: update_recipients_def)
  moreover have "\<not> exists_where (\<lambda>s. r_id s \<noteq> i \<and> r_username s = Some name) (recipients (db st))"
    using same r(2) by (auto simp: exists_where_iff)
  moreover have "affected_ids (\<lambda>r. r_id r = i) st \<noteq> []"
    using r by (auto simp: affected_ids_Nil)
  ultimately show ?thesis
    by (simp add: set_recipient_username_def)
qed

theorem username_unchanged_reported_witness:
  "set_recipient_username 2 ''jo.01'' store_demo = Inr (observe_recipient 2 store_demo)"
proof (rule username_unchanged_reported)
  show "recipients_wf (recipients (db store_demo))"
    by code_simp
  show "fetch_recipient_by_id 2 store_demo
      = Some (with_r_id 2 ((new_recipient (Some 8) None None)\<lparr>r_username := Some ''jo.01''\<rparr>))"
    by code_simp
qed simp

end
