(* ===== verification/SessionStore.thy ===== *)
theory SessionStore
  imports RecipientStore Cascade
begin

text \<open>
  Sessions: the joined view of a session row (\<open>Session\<close> in \<open>orm.rs\<close>), the lookups built by
  the \<open>fetch_session!\<close> macros, finding or creating the session of a recipient or of a group, and
  the operations on one session (\<open>whisperfish-store/src/store.rs\<close>).

  Group identifiers and master keys come from the zkgroup crate and are hex-encoded by the hex
  crate: they are arguments.
\<close>

section \<open>The joined view\<close>

datatype session_type =
    DirectMessage recipient
  | GroupV1Type group_v1
  | GroupV2Type group_v2

record session =
  e_id :: int
  e_is_archived :: bool
  e_is_pinned :: bool
  e_is_silent :: bool
  e_is_muted :: bool
  e_expiring_message_timeout :: "int option"
  e_expire_timer_version :: int
  e_draft :: "string option"
  e_type :: session_type

fun is_dm :: "session_type \<Rightarrow> bool" where
  "is_dm (DirectMessage _) = True"
| "is_dm _ = False"

fun is_group_v1 :: "session_type \<Rightarrow> bool" where
  "is_group_v1 (GroupV1Type _) = True"
| "is_group_v1 _ = False"

fun is_group_v2 :: "session_type \<Rightarrow> bool" where
  "is_group_v2 (GroupV2Type _) = True"
| "is_group_v2 _ = False"

definition is_group :: "session \<Rightarrow> bool" where
  "is_group s = (is_group_v1 (e_type s) \<or> is_group_v2 (e_type s))"

definition unwrap_dm :: "session_type \<Rightarrow> recipient res" where
  "unwrap_dm t = (case t of DirectMessage r \<Rightarrow> Inr r | _ \<Rightarrow> Inl (Panic ''unwrap panicked at unwrap_dm()''))"

definition unwrap_group_v1 :: "session_type \<Rightarrow> group_v1 res" where
  "unwrap_group_v1 t =
     (case t of GroupV1Type g \<Rightarrow> Inr g | _ \<Rightarrow> Inl (Panic ''unwrap panicked at unwrap_group_v1()''))"

definition unwrap_group_v2 :: "session_type \<Rightarrow> group_v2 res" where
  "unwrap_group_v2 t =
     (case t of GroupV2Type g \<Rightarrow> Inr g | _ \<Rightarrow> Inl (Panic ''unwrap panicked at unwrap_group_v2()''))"

text \<open>\<open>i as u64\<close> of a negative number of seconds wraps around.\<close>

definition timeout_duration :: "int option \<Rightarrow> int option" where
  "timeout_duration t = (case t of None \<Rightarrow> None | Some i \<Rightarrow> if i = 0 then None else Some (i mod 2 ^ 64))"

definition session_from ::
  "db_session \<Rightarrow> recipient option \<Rightarrow> group_v1 option \<Rightarrow> group_v2 option \<Rightarrow> session res" where
  "session_from s rcpt gv1 gv2 =
     (if (s_direct_message_recipient_id s \<noteq> None) \<noteq> (rcpt \<noteq> None)
      then Inl (Panic ''direct session requires recipient'')
      else if (s_group_v1_id s \<noteq> None) \<noteq> (gv1 \<noteq> None)
      then Inl (Panic ''groupv1 session requires groupv1'')
      else if (s_group_v2_id s \<noteq> None) \<noteq> (gv2 \<noteq> None)
      then Inl (Panic ''groupv2 session requires groupv2'')
      else
        rbind (case (rcpt, gv1, gv2) of
                 (Some r, None, None) \<Rightarrow> Inr (DirectMessage r)
               | (None, Some g, None) \<Rightarrow> Inr (GroupV1Type g)
               | (None, None, Some g) \<Rightarrow> Inr (GroupV2Type g)
               | _ \<Rightarrow> Inl (Panic ''case handled above'')) (\<lambda>t.
        Inr \<lparr> e_id = s_id s, e_is_archived = s_is_archived s, e_is_pinned = s_is_pinned s,
              e_is_silent = s_is_silent s, e_is_muted = s_is_muted s,
              e_expiring_message_timeout = timeout_duration (s_expiring_message_timeout s),
              e_expire_timer_version = s_expire_timer_version s,
              e_draft = s_draft s, e_type = t \<rparr>))"

definition find_opt :: "('r \<Rightarrow> 'k) \<Rightarrow> 'k option \<Rightarrow> 'r list \<Rightarrow> 'r option" where
  "find_opt key ko tab = (case ko of None \<Rightarrow> None | Some k \<Rightarrow> first_where (\<lambda>r. key r = k) tab)"

definition joined_recipient :: "database \<Rightarrow> db_session \<Rightarrow> recipient option" where
  "joined_recipient d s = find_opt r_id (s_direct_message_recipient_id s) (recipients d)"

definition join_session :: "database \<Rightarrow> db_session \<Rightarrow> session res" where
  "join_session d s =
     session_from s (joined_recipient d s) (find_opt g1_id (s_group_v1_id s) (group_v1s d))
       (find_opt g2_id (s_group_v2_id s) (group_v2s d))"

text \<open>
  \<open>fetch_session!\<close> takes the first joined row the filter accepts; a filter on a column of the
  recipient is false for a row without one.
\<close>

definition fetch_session_where :: "(db_session \<Rightarrow> bool) \<Rightarrow> storage \<Rightarrow> session option res" where
  "fetch_session_where P st =
     (case first_where P (sessions (db st)) of
        None \<Rightarrow> Inr None
      | Some s \<Rightarrow> rbind (join_session (db st) s) (\<lambda>x. Inr (Some x)))"

fun fetch_all_sessions :: "database \<Rightarrow> db_session list \<Rightarrow> session list res" where
  "fetch_all_sessions d [] = Inr []"
| "fetch_all_sessions d (s # ss) =
     rbind (join_session d s) (\<lambda>x. rbind (fetch_all_sessions d ss) (\<lambda>xs. Inr (x # xs)))"

definition fetch_sessions :: "storage \<Rightarrow> session list res" where
  "fetch_sessions st = fetch_all_sessions (db st) (sessions (db st))"

definition fetch_group_sessions :: "storage \<Rightarrow> session list res" where
  "fetch_group_sessions st =
     fetch_all_sessions (db st) (filter (\<lambda>s. s_group_v1_id s \<noteq> None) (sessions (db st)))"

definition fetch_session_by_id :: "int \<Rightarrow> storage \<Rightarrow> session option res" where
  "fetch_session_by_id sid st = fetch_session_where (\<lambda>s. s_id s = sid) st"

definition recipient_filter :: "database \<Rightarrow> (recipient \<Rightarrow> bool) \<Rightarrow> db_session \<Rightarrow> bool" where
  "recipient_filter d P s = (case joined_recipient d s of None \<Rightarrow> False | Some r \<Rightarrow> P r)"

definition fetch_session_by_phonenumber :: "phone_number \<Rightarrow> storage \<Rightarrow> session option res" where
  "fetch_session_by_phonenumber n st =
     fetch_session_where (recipient_filter (db st) (\<lambda>r. r_e164 r = Some n)) st"

definition fetch_session_by_address :: "service_id \<Rightarrow> storage \<Rightarrow> session option res" where
  "fetch_session_by_address addr st =
     fetch_session_where (recipient_filter (db st) (has_service_id addr)) st"

definition fetch_session_by_recipient_id :: "int \<Rightarrow> storage \<Rightarrow> session option res" where
  "fetch_session_by_recipient_id i st =
     fetch_session_where (recipient_filter (db st) (\<lambda>r. r_id r = i)) st"

definition fetch_session_by_group_v1_id :: "string \<Rightarrow> storage \<Rightarrow> session option res" where
  "fetch_session_by_group_v1_id group_id_hex st =
     (if length group_id_hex \<noteq> 32 then Inr None
      else fetch_session_where (\<lambda>s. s_group_v1_id s = Some group_id_hex) st)"

definition fetch_session_by_group_v2_id :: "string \<Rightarrow> storage \<Rightarrow> session option res" where
  "fetch_session_by_group_v2_id group_id_hex st =
     (if length group_id_hex \<noteq> 64 then Inr None
      else fetch_session_where (\<lambda>s. s_group_v2_id s = Some group_id_hex) st)"

section \<open>Finding or creating\<close>

definition blank_session :: db_session where
  "blank_session =
     \<lparr> s_id = 0, s_direct_message_recipient_id = None, s_group_v1_id = None, s_group_v2_id = None,
       s_is_archived = False, s_is_pinned = False, s_is_silent = False, s_is_muted = False,
       s_draft = None, s_expiring_message_timeout = None, s_expire_timer_version = 1 \<rparr>"

text \<open>
  The references of the new row are checked at once; the error becomes the panic of the
  \<open>expect\<close> or \<open>unwrap\<close> after the insertion.
\<close>

definition insert_session :: "string \<Rightarrow> db_session \<Rightarrow> storage \<Rightarrow> (int \<times> storage) res" where
  "insert_session msg s st =
     (let d = db st in
      if opt_has_key r_id (s_direct_message_recipient_id s) (recipients d)
         \<and> opt_has_key g1_id (s_group_v1_id s) (group_v1s d)
         \<and> opt_has_key g2_id (s_group_v2_id s) (group_v2s d)
      then Inr (next_rowid s_id (sessions d),
                st\<lparr>db := d\<lparr>sessions := insert_row s_id with_s_id s (sessions d)\<rparr>\<rparr>)
      else Inl (Panic msg))"

definition expect_session :: "string \<Rightarrow> int \<Rightarrow> storage \<Rightarrow> (session \<times> storage) res" where
  "expect_session msg sid st =
     rbind (fetch_session_by_id sid st) (\<lambda>so. rbind (opt_panic msg so) (\<lambda>s. Inr (s, st)))"

definition insert_dm_session :: "string \<Rightarrow> string \<Rightarrow> int \<Rightarrow> storage \<Rightarrow> (session \<times> storage) res" where
  "insert_dm_session msg1 msg2 rid st =
     rbind (insert_session msg1 (blank_session\<lparr>s_direct_message_recipient_id := Some rid\<rparr>) st)
       (\<lambda>(sid, st').
     expect_session msg2 sid
       (emit (with_relation SubRecipients (RowId rid) (observe_insert SubSessions (RowId sid))) st'))"

definition fetch_or_insert_session_by_phonenumber :: "phone_number \<Rightarrow> storage \<Rightarrow> (session \<times> storage) res" where
  "fetch_or_insert_session_by_phonenumber n st =
     rbind (fetch_session_by_phonenumber n st) (\<lambda>so.
       case so of
         Some s \<Rightarrow> Inr (s, st)
       | None \<Rightarrow>
           (let (rcpt, st1) = fetch_or_insert_recipient_by_phonenumber n st
            in insert_dm_session ''insert session by e164'' ''session by id (via e164 insert)''
                 (r_id rcpt) st1))"

definition fetch_or_insert_session_by_address :: "service_id \<Rightarrow> storage \<Rightarrow> (session \<times> storage) res" where
  "fetch_or_insert_session_by_address addr st =
     rbind (fetch_session_by_address addr st) (\<lambda>so.
       case so of
         Some s \<Rightarrow> Inr (s, st)
       | None \<Rightarrow>
           (let (rcpt, st1) = fetch_or_insert_recipient_by_address addr st
            in insert_dm_session ''insert session by service address''
                 ''session by id (via service address insert)'' (r_id rcpt) st1))"

definition fetch_or_insert_session_by_recipient_id :: "int \<Rightarrow> storage \<Rightarrow> (session \<times> storage) res" where
  "fetch_or_insert_session_by_recipient_id rid st =
     rbind (fetch_session_by_recipient_id rid st) (\<lambda>so.
       case so of
         Some s \<Rightarrow> Inr (s, st)
       | None \<Rightarrow> insert_dm_session ''insert session by id'' ''session by id (via recipient id insert)''
                   rid st)"

text \<open>A group of the old kind: its id (hex), its name and the phone numbers of its members.\<close>

record gv1_context =
  gc1_id_hex :: string
  gc1_name :: string
  gc1_members :: "phone_number list"

fun insert_group_v1_members :: "string \<Rightarrow> phone_number list \<Rightarrow> storage \<Rightarrow> storage res" where
  "insert_group_v1_members gid [] st = Inr st"
| "insert_group_v1_members gid (n # ns) st =
     (let (rcpt, st1) = fetch_or_insert_recipient_by_phonenumber n st;
          d = db st1 in
      if exists_where (\<lambda>m. gm1_group_v1_id m = gid \<and> gm1_recipient_id m = r_id rcpt) (group_v1_members d)
      then Inl (Panic ''called `Result::unwrap()` on an `Err` value'')
      else
        (let st2 = st1\<lparr>db := d\<lparr>group_v1_members := group_v1_members d @
                     [\<lparr> gm1_group_v1_id = gid, gm1_recipient_id = r_id rcpt,
                        gm1_member_since = Some (now st) \<rparr>]\<rparr>\<rparr>;
             ev = with_relation SubGroupV1s (StringRowId gid)
                    (with_relation SubRecipients (RowId (r_id rcpt))
                      (observe_insert SubGroupV1Members UnknownKey))
         in insert_group_v1_members gid ns (emit ev st2)))"

definition fetch_or_insert_session_by_group_v1 :: "gv1_context \<Rightarrow> storage \<Rightarrow> (session \<times> storage) res" where
  "fetch_or_insert_session_by_group_v1 g st =
     (let gid = gc1_id_hex g in
      rbind (fetch_session_where (\<lambda>s. s_group_v1_id s = Some gid) st) (\<lambda>so.
      case so of
        Some s \<Rightarrow> Inr (s, st)
      | None \<Rightarrow>
          if has_key g1_id gid (group_v1s (db st))
          then Inl (Panic ''called `Result::unwrap()` on an `Err` value'')
          else
            (let st1 = st\<lparr>db := (db st)\<lparr>group_v1s := group_v1s (db st) @
                         [\<lparr> g1_id = gid, g1_name = gc1_name g, g1_expected_v2_id = None \<rparr>]\<rparr>\<rparr>;
                 st2 = emit (observe_insert SubGroupV1s (StringRowId gid)) st1
             in rbind (insert_group_v1_members gid (gc1_members g) st2) (\<lambda>st3.
                rbind (insert_session ''called `Result::unwrap()` on an `Err` value''
                         (blank_session\<lparr>s_group_v1_id := Some gid\<rparr>) st3) (\<lambda>(sid, st4).
                rbind (expect_session ''a session has been inserted'' sid st4) (\<lambda>(s, st5).
                Inr (s, emit (with_relation SubGroupV1s (StringRowId gid)
                           (observe_insert SubSessions (RowId (e_id s)))) st5)))))))"

text \<open>
  A group of the new kind: its id and its serialized master key, hex-encoded.  When neither the
  group nor a session is known, a session of the group's old incarnation is taken over.
\<close>

record gv2_context =
  gc2_id_hex :: string
  gc2_master_key_hex :: string

definition new_group_v2 :: "gv2_context \<Rightarrow> group_v2" where
  "new_group_v2 g =
     \<lparr> g2_id = gc2_id_hex g, g2_name = ''New V2 group (updating)'', g2_master_key = gc2_master_key_hex g,
       g2_revision = 0, g2_invite_link_password = None, g2_access_required_for_attributes = 0,
       g2_access_required_for_members = 0, g2_access_required_for_add_from_invite_link = 0,
       g2_avatar = None, g2_description = Some ''Group is being updated'',
       g2_announcement_only = False, g2_access_required_for_member_labels = 0,
       g2_terminated = False \<rparr>"

definition group_v2_exists :: "gv2_context \<Rightarrow> storage \<Rightarrow> bool" where
  "group_v2_exists g st = (first_where (\<lambda>x. g2_id x = gc2_id_hex g) (group_v2s (db st)) \<noteq> None)"

definition migrate_session_to_v2 :: "string \<Rightarrow> db_session \<Rightarrow> storage \<Rightarrow> (session \<times> storage) res" where
  "migrate_session_to_v2 gid s st =
     (let st1 = st\<lparr>db := (db st)\<lparr>sessions := update_where (\<lambda>x. s_id x = s_id s)
                  (\<lambda>x. x\<lparr>s_group_v1_id := None, s_group_v2_id := Some gid\<rparr>) (sessions (db st))\<rparr>\<rparr>
      in rbind (opt_panic ''group_v1_id from migration'' (s_group_v1_id s)) (\<lambda>gv1.
         expect_session ''existing session'' (s_id s)
           (emit (with_relation SubGroupV2s (StringRowId gid)
                   (with_relation SubGroupV1s (StringRowId gv1)
                     (observe_update SubSessions (RowId (s_id s))))) st1)))"

definition insert_v2_session :: "string \<Rightarrow> storage \<Rightarrow> (session \<times> storage) res" where
  "insert_v2_session gid st =
     rbind (insert_session ''called `Result::unwrap()` on an `Err` value''
              (blank_session\<lparr>s_group_v2_id := Some gid\<rparr>) st) (\<lambda>(sid, st').
       expect_session ''a session has been inserted'' sid st')"

definition fetch_or_insert_session_by_group_v2 :: "gv2_context \<Rightarrow> storage \<Rightarrow> (session \<times> storage) res" where
  "fetch_or_insert_session_by_group_v2 g st =
     (let gid = gc2_id_hex g in
      rbind (fetch_session_where (\<lambda>s. s_group_v2_id s = Some gid) st) (\<lambda>so.
      case so of
        Some s \<Rightarrow> Inr (s, st)
      | None \<Rightarrow>
          if has_key g2_id gid (group_v2s (db st)) then insert_v2_session gid st
          else
            (let st1 = st\<lparr>db := (db st)\<lparr>group_v2s := group_v2s (db st) @ [new_group_v2 g]\<rparr>\<rparr>;
                 st2 = emit (observe_insert SubGroupV2s (StringRowId gid)) st1
             in case first_where (\<lambda>x. g1_expected_v2_id x = Some gid) (group_v1s (db st2)) of
                  Some g1 \<Rightarrow>
                    (case first_where (\<lambda>s. s_group_v1_id s = Some (g1_id g1)) (sessions (db st2)) of
                       Some s \<Rightarrow> migrate_session_to_v2 gid s st2
                     | None \<Rightarrow> Inl (Panic ''internal error: entered unreachable code''))
                | None \<Rightarrow>
                    rbind (insert_v2_session gid st2) (\<lambda>(s, st3).
                    Inr (s, emit (with_relation SubGroupV2s (StringRowId gid)
                               (observe_insert SubSessions (RowId (e_id s)))) st3)))))"

section \<open>Operations on a session\<close>

definition delete_session :: "int \<Rightarrow> storage \<Rightarrow> storage" where
  "delete_session session_id st =
     emit (observe_delete SubSessions (RowId session_id)) (st\<lparr>db := drop_session session_id (db st)\<rparr>)"

definition update_sessions ::
  "(db_session \<Rightarrow> bool) \<Rightarrow> (db_session \<Rightarrow> db_session) \<Rightarrow> storage \<Rightarrow> storage" where
  "update_sessions P f st = st\<lparr>db := (db st)\<lparr>sessions := update_where P f (sessions (db st))\<rparr>\<rparr>"

definition update_session_if ::
  "int \<Rightarrow> (db_session \<Rightarrow> bool) \<Rightarrow> (db_session \<Rightarrow> db_session) \<Rightarrow> storage \<Rightarrow> storage" where
  "update_session_if session_id P f st =
     (let Q = (\<lambda>s. s_id s = session_id \<and> P s) in
      emit_if (exists_where Q (sessions (db st))) (observe_update SubSessions (RowId session_id))
        (update_sessions Q f st))"

definition save_draft :: "int \<Rightarrow> string \<Rightarrow> storage \<Rightarrow> storage" where
  "save_draft session_id draft st =
     update_session_if session_id (\<lambda>_. True)
       (\<lambda>s. s\<lparr>s_draft := (if draft = [] then None else Some draft)\<rparr>) st"

definition mark_session_muted :: "int \<Rightarrow> bool \<Rightarrow> storage \<Rightarrow> storage" where
  "mark_session_muted session_id muted st =
     update_session_if session_id (\<lambda>s. s_is_muted s \<noteq> muted) (\<lambda>s. s\<lparr>s_is_muted := muted\<rparr>) st"

definition mark_session_archived :: "int \<Rightarrow> bool \<Rightarrow> storage \<Rightarrow> storage" where
  "mark_session_archived session_id archived st =
     update_session_if session_id (\<lambda>s. s_is_archived s \<noteq> archived)
       (\<lambda>s. s\<lparr>s_is_archived := archived\<rparr>) st"

definition mark_session_pinned :: "int \<Rightarrow> bool \<Rightarrow> storage \<Rightarrow> storage" where
  "mark_session_pinned session_id pinned st =
     update_session_if session_id (\<lambda>s. s_is_pinned s \<noteq> pinned) (\<lambda>s. s\<lparr>s_is_pinned := pinned\<rparr>) st"

definition mark_session_read :: "int \<Rightarrow> storage \<Rightarrow> storage" where
  "mark_session_read session_id st =
     (let P = (\<lambda>m. m_session_id m = session_id \<and> \<not> m_is_read m);
          ids = map m_id (filter P (messages (db st)))
      in emit_all
           (map (\<lambda>i. with_relation SubSessions (RowId session_id) (observe_update SubMessages (RowId i))) ids)
           (st\<lparr>db := (db st)\<lparr>messages := update_where P (\<lambda>m. m\<lparr>m_is_read := True\<rparr>) (messages (db st))\<rparr>\<rparr>))"

text \<open>\<open>as i32\<close> of an unsigned number, and \<open>+ 1\<close> at 32 bits, wrap around.\<close>

definition new_timer_version :: "session \<Rightarrow> int option \<Rightarrow> int" where
  "new_timer_version s version =
     (let v = (case version of None \<Rightarrow> 1 | Some n \<Rightarrow> i32_wrap n) in
      if is_group s then 1
      else if v > e_expire_timer_version s then v
      else i32_wrap (e_expire_timer_version s + 1))"

definition update_expiration_timer ::
  "session \<Rightarrow> int option \<Rightarrow> int option \<Rightarrow> storage \<Rightarrow> int \<times> storage" where
  "update_expiration_timer s timer version st =
     (let v = (case version of None \<Rightarrow> 1 | Some n \<Rightarrow> i32_wrap n);
          t = (case timer of None \<Rightarrow> None | Some n \<Rightarrow> if n > 0 then Some n else None);
          new_version = new_timer_version s version
      in if e_expire_timer_version s = v \<and> e_expiring_message_timeout s = t then (new_version, st)
         else (new_version,
               emit (observe_update SubSessions (RowId (e_id s)))
                 (update_sessions (\<lambda>x. s_id x = e_id s)
                   (\<lambda>x. x\<lparr>s_expiring_message_timeout := map_option i32_wrap t,
                          s_expire_timer_version := new_version\<rparr>) st)))"

end
