(* ===== verification/SessionFacts.thy ===== *)
theory SessionFacts
  imports SessionStore
begin

text \<open>
  Facts about sessions: the joined view exists for every row, the operations keep it so, finding
  or creating a direct session always succeeds and is idempotent, and what the expiration timer
  and the group lookups do in the cases that are easy to get wrong.
\<close>

section \<open>Well-formed sessions\<close>

definition one_kind :: "db_session \<Rightarrow> bool" where
  "one_kind s =
     (length (filter id [s_direct_message_recipient_id s \<noteq> None, s_group_v1_id s \<noteq> None,
                         s_group_v2_id s \<noteq> None]) = 1)"

definition session_refs :: "database \<Rightarrow> db_session \<Rightarrow> bool" where
  "session_refs d s =
     (opt_has_key r_id (s_direct_message_recipient_id s) (recipients d)
      \<and> opt_has_key g1_id (s_group_v1_id s) (group_v1s d)
      \<and> opt_has_key g2_id (s_group_v2_id s) (group_v2s d))"

definition sessions_wf :: "database \<Rightarrow> bool" where
  "sessions_wf d =
     (distinct_keys s_id (sessions d) \<and> list_all one_kind (sessions d)
      \<and> list_all (session_refs d) (sessions d))"

lemma sessions_wfD:
  assumes "sessions_wf d"
  shows "distinct_keys s_id (sessions d)"
    and "s \<in> set (sessions d) \<Longrightarrow> one_kind s" and "s \<in> set (sessions d) \<Longrightarrow> session_refs d s"
  using assms by (simp_all add: sessions_wf_def list_all_iff)

lemma find_opt_simps [simp]:
  "find_opt key None tab = None"
  "find_opt key (Some k) tab = first_where (\<lambda>r. key r = k) tab"
  by (simp_all add: find_opt_def)

lemma find_opt_exists:
  "opt_has_key key ko tab \<Longrightarrow> (find_opt key ko tab \<noteq> None) = (ko \<noteq> None)"
  by (cases ko) (auto simp: has_key_iff first_where_None)

lemma one_kind_cases:
  assumes "one_kind s"
  obtains (dm) r where "s_direct_message_recipient_id s = Some r" "s_group_v1_id s = None" "s_group_v2_id s = None"
  | (gv1) g where "s_direct_message_recipient_id s = None" "s_group_v1_id s = Some g" "s_group_v2_id s = None"
  | (gv2) g where "s_direct_message_recipient_id s = None" "s_group_v1_id s = None" "s_group_v2_id s = Some g"
  using assms
  by (cases "s_direct_message_recipient_id s"; cases "s_group_v1_id s"; cases "s_group_v2_id s")
    (auto simp: one_kind_def)

lemma join_session_total:
  assumes "one_kind s" and "session_refs d s"
  shows "\<exists>x. join_session d s = Inr x \<and> e_id x = s_id s
           \<and> (\<forall>r. joined_recipient d s = Some r \<longrightarrow> e_type x = DirectMessage r)"
  using assms(1)
proof (cases rule: one_kind_cases)
  case (dm r)
  then obtain x where "first_where (\<lambda>y. r_id y = r) (recipients d) = Some x"
    using assms(2) find_opt_exists[of r_id "Some r" "recipients d"]
    by (fastforce simp: session_refs_def)
  then show ?thesis
    using dm by (simp add: join_session_def joined_recipient_def session_from_def)
next
  case (gv1 g)
  then obtain x where "first_where (\<lambda>y. g1_id y = g) (group_v1s d) = Some x"
    using assms(2) find_opt_exists[of g1_id "Some g" "group_v1s d"]
    by (fastforce simp: session_refs_def)
  then show ?thesis
    using gv1 by (simp add: join_session_def joined_recipient_def session_from_def)
next
  case (gv2 g)
  then obtain x where "first_where (\<lambda>y. g2_id y = g) (group_v2s d) = Some x"
    using assms(2) find_opt_exists[of g2_id "Some g" "group_v2s d"]
    by (fastforce simp: session_refs_def)
  then show ?thesis
    using gv2 by (simp add: join_session_def joined_recipient_def session_from_def)
qed

lemma fetch_session_where_total:
  assumes "sessions_wf (db st)"
  shows "\<exists>so. fetch_session_where P st = Inr so
           \<and> (so = None \<longleftrightarrow> first_where P (sessions (db st)) = None)"
proof (cases "first_where P (sessions (db st))")
  case None
  then show ?thesis by (simp add: fetch_session_where_def)
next
  case (Some s)
  then have "s \<in> set (sessions (db st))"
    by (auto dest: first_where_SomeD)
  then obtain x where "join_session (db st) s = Inr x"
    using join_session_total sessions_wfD[OF assms] by blast
  then show ?thesis
    using Some by (simp add: fetch_session_where_def)
qed

lemma fetch_all_sessions_total:
  "\<forall>s\<in>set ss. one_kind s \<and> session_refs d s \<Longrightarrow>
     \<exists>xs. fetch_all_sessions d ss = Inr xs \<and> map e_id xs = map s_id ss"
proof (induction ss)
  case (Cons s ss)
  then obtain x where "join_session d s = Inr x" "e_id x = s_id s"
    using join_session_total[of s d] by auto
  moreover obtain xs where "fetch_all_sessions d ss = Inr xs" "map e_id xs = map s_id ss"
    using Cons by auto
  ultimately show ?case by simp
qed simp

section \<open>The operations keep the sessions well formed\<close>

lemma opt_has_key_append: "opt_has_key key ko tab \<Longrightarrow> opt_has_key key ko (tab @ tab')"
  by (auto simp: opt_has_key_iff)

lemma sessions_wf_tables:
  assumes "sessions_wf d" and "sessions d' = sessions d"
    and "\<And>ko. opt_has_key r_id ko (recipients d) \<Longrightarrow> opt_has_key r_id ko (recipients d')"
    and "\<And>ko. opt_has_key g1_id ko (group_v1s d) \<Longrightarrow> opt_has_key g1_id ko (group_v1s d')"
    and "\<And>ko. opt_has_key g2_id ko (group_v2s d) \<Longrightarrow> opt_has_key g2_id ko (group_v2s d')"
  shows "sessions_wf d'"
  using assms by (auto simp: sessions_wf_def session_refs_def list_all_iff)

lemma sessions_wf_insert:
  assumes wf: "sessions_wf (db st)" and "one_kind s" and run: "insert_session msg s st = Inr (sid, st')"
  shows "sessions_wf (db st') \<and> recipients (db st') = recipients (db st)"
proof -
  have refs: "session_refs (db st) s"
    and st': "st' = st\<lparr>db := (db st)\<lparr>sessions := insert_row s_id with_s_id s (sessions (db st))\<rparr>\<rparr>"
    using run by (auto simp: insert_session_def Let_def session_refs_def split: if_splits)
  have "one_kind (with_s_id i s)" "session_refs (db st') (with_s_id i s)" for i
    using \<open>one_kind s\<close> refs by (auto simp: one_kind_def session_refs_def st')
  moreover have "session_refs (db st') x" if "session_refs (db st) x" for x
    using that by (simp add: session_refs_def st')
  ultimately show ?thesis
    using wf sess.distinct_insert[of "sessions (db st)" s]
    by (auto simp: sessions_wf_def st' list_all_iff sess.set_insert_row)
qed

lemma expect_session_state: "expect_session msg sid st = Inr (x, st') \<Longrightarrow> st' = st"
  by (auto simp: expect_session_def rbind_eq_Inr)

lemma recipient_insert_sessions:
  "fetch_or_insert_recipient_by_address addr st = (r, st') \<Longrightarrow> sessions_wf (db st) \<Longrightarrow> sessions_wf (db st')"
  "fetch_or_insert_recipient_by_phonenumber n st = (r, st') \<Longrightarrow> sessions_wf (db st) \<Longrightarrow> sessions_wf (db st')"
  by (auto simp: fetch_or_insert_recipient_by_address_def fetch_or_insert_recipient_by_phonenumber_def
      insert_recipient_def Let_def insert_row_def split: option.splits service_id.splits
      intro!: sessions_wf_tables[of "db st"] opt_has_key_append)

lemma one_kind_blank:
  "one_kind (blank_session\<lparr>s_direct_message_recipient_id := Some r\<rparr>)"
  "one_kind (blank_session\<lparr>s_group_v1_id := Some g\<rparr>)"
  "one_kind (blank_session\<lparr>s_group_v2_id := Some g\<rparr>)"
  by (simp_all add: one_kind_def blank_session_def)

lemma insert_dm_session_wf:
  assumes "sessions_wf (db st)" and "insert_dm_session m1 m2 rid st = Inr (x, st')"
  shows "sessions_wf (db st')"
proof -
  obtain sid st1 where "insert_session m1 (blank_session\<lparr>s_direct_message_recipient_id := Some rid\<rparr>) st = Inr (sid, st1)"
    and "db st' = db st1"
    using assms(2) by (auto simp: insert_dm_session_def rbind_eq_Inr dest!: expect_session_state)
  then show ?thesis
    using sessions_wf_insert[OF assms(1) one_kind_blank(1)] by simp
qed

lemma sessions_wf_update:
  assumes "sessions_wf (db st)"
    and "\<And>s. s_id (f s) = s_id s \<and> s_direct_message_recipient_id (f s) = s_direct_message_recipient_id s
              \<and> s_group_v1_id (f s) = s_group_v1_id s \<and> s_group_v2_id (f s) = s_group_v2_id s"
  shows "sessions_wf (db (update_sessions P f st))"
proof -
  have "one_kind (f s) = one_kind s" "session_refs d (f s) = session_refs d s" for s d
    using assms(2)[of s] by (simp_all add: one_kind_def session_refs_def)
  moreover have "session_refs (db (update_sessions P f st)) = session_refs (db st)"
    by (simp add: session_refs_def update_sessions_def fun_eq_iff)
  ultimately show ?thesis
    using assms
    by (auto simp: sessions_wf_def list_all_iff update_sessions_def set_update_where
        intro: distinct_keys_update)
qed

lemma update_session_if_db [simp]:
  "db (update_session_if sid P f st) = db (update_sessions (\<lambda>s. s_id s = sid \<and> P s) f st)"
  by (simp add: update_session_if_def Let_def)

lemma sessions_wf_delete: "sessions_wf (db st) \<Longrightarrow> sessions_wf (db (delete_session sid st))"
  by (auto simp: delete_session_def sessions_wf_def session_refs_def list_all_iff drop_session_def Let_def
      cascade_messages_fields set_delete_where intro: distinct_keys_delete)

lemma sessions_wf_members [simp]: "sessions_wf (d\<lparr>group_v1_members := ms\<rparr>) = sessions_wf d"
proof -
  have "session_refs (d\<lparr>group_v1_members := ms\<rparr>) = session_refs d"
    by (simp add: session_refs_def fun_eq_iff)
  then show ?thesis
    by (simp add: sessions_wf_def)
qed

lemma insert_members_sessions:
  "insert_group_v1_members gid ns st = Inr st' \<Longrightarrow> sessions_wf (db st) \<Longrightarrow> sessions_wf (db st')"
proof (induction ns arbitrary: st)
  case (Cons n ns)
  obtain r st1 where fetch: "fetch_or_insert_recipient_by_phonenumber n st = (r, st1)"
    by fastforce
  have "sessions_wf (db st1)"
    using recipient_insert_sessions(2)[OF fetch] Cons.prems by blast
  then show ?case
    using Cons.prems(1) fetch by (auto simp: Let_def split: if_splits elim!: Cons.IH)
qed simp

lemma sessions_wf_add_group:
  "sessions_wf d \<Longrightarrow> sessions_wf (d\<lparr>group_v1s := group_v1s d @ gs\<rparr>)"
  "sessions_wf d \<Longrightarrow> sessions_wf (d\<lparr>group_v2s := group_v2s d @ hs\<rparr>)"
  by (erule sessions_wf_tables; simp add: opt_has_key_append)+

text \<open>The operations of this component, as steps.\<close>

inductive session_step :: "storage \<Rightarrow> storage \<Rightarrow> bool" where
  ss_phonenumber: "fetch_or_insert_session_by_phonenumber n st = Inr (x, st') \<Longrightarrow> session_step st st'"
| ss_address: "fetch_or_insert_session_by_address addr st = Inr (x, st') \<Longrightarrow> session_step st st'"
| ss_recipient: "fetch_or_insert_session_by_recipient_id i st = Inr (x, st') \<Longrightarrow> session_step st st'"
| ss_group_v1: "fetch_or_insert_session_by_group_v1 g st = Inr (x, st') \<Longrightarrow> session_step st st'"
| ss_group_v2: "fetch_or_insert_session_by_group_v2 h st = Inr (x, st') \<Longrightarrow> session_step st st'"
| ss_delete: "session_step st (delete_session i st)"
| ss_draft: "session_step st (save_draft i t st)"
| ss_muted: "session_step st (mark_session_muted i b st)"
| ss_archived: "session_step st (mark_session_archived i b st)"
| ss_pinned: "session_step st (mark_session_pinned i b st)"
| ss_read: "session_step st (mark_session_read i st)"
| ss_timer: "session_step st (snd (update_expiration_timer s t v st))"

lemma sessions_wf_by_phonenumber:
  assumes "fetch_or_insert_session_by_phonenumber n st = Inr (x, st')" and "sessions_wf (db st)"
  shows "sessions_wf (db st')"
proof -
  obtain r st1 where fetch: "fetch_or_insert_recipient_by_phonenumber n st = (r, st1)"
    by fastforce
  then show ?thesis
    using assms insert_dm_session_wf recipient_insert_sessions(2)[OF fetch assms(2)]
    by (auto simp: fetch_or_insert_session_by_phonenumber_def rbind_eq_Inr split: option.splits)
qed

lemma sessions_wf_by_address:
  assumes "fetch_or_insert_session_by_address n st = Inr (x, st')" and "sessions_wf (db st)"
  shows "sessions_wf (db st')"
proof -
  obtain r st1 where fetch: "fetch_or_insert_recipient_by_address n st = (r, st1)"
    by fastforce
  then show ?thesis
    using assms insert_dm_session_wf recipient_insert_sessions(1)[OF fetch assms(2)]
    by (auto simp: fetch_or_insert_session_by_address_def rbind_eq_Inr split: option.splits)
qed

lemma sessions_wf_by_recipient:
  "fetch_or_insert_session_by_recipient_id i st = Inr (x, st') \<Longrightarrow> sessions_wf (db st) \<Longrightarrow>
     sessions_wf (db st')"
  using insert_dm_session_wf
  by (auto simp: fetch_or_insert_session_by_recipient_id_def rbind_eq_Inr split: option.splits)

lemma sessions_wf_by_group_v1:
  assumes run: "fetch_or_insert_session_by_group_v1 g st = Inr (x, st')" and wf: "sessions_wf (db st)"
  shows "sessions_wf (db st')"
proof (cases "st' = st")
  case False
  let ?st = "emit (observe_insert SubGroupV1s (StringRowId (gc1_id_hex g)))
    (st\<lparr>db := (db st)\<lparr>group_v1s := group_v1s (db st) @
       [\<lparr> g1_id = gc1_id_hex g, g1_name = gc1_name g, g1_expected_v2_id = None \<rparr>]\<rparr>\<rparr>)"
  obtain st3 sid st4 s where members: "insert_group_v1_members (gc1_id_hex g) (gc1_members g) ?st = Inr st3"
    and session: "insert_session ''called `Result::unwrap()` on an `Err` value''
                    (blank_session\<lparr>s_group_v1_id := Some (gc1_id_hex g)\<rparr>) st3 = Inr (sid, st4)"
    and last: "expect_session ''a session has been inserted'' sid st4 = Inr s" "db st' = db (snd s)"
    using run False
    by (auto simp: fetch_or_insert_session_by_group_v1_def Let_def rbind_eq_Inr
        split: option.splits if_splits)
  have "sessions_wf (db ?st)"
    using wf by (simp add: sessions_wf_add_group)
  then have "sessions_wf (db st3)"
    using members by (rule insert_members_sessions[rotated])
  then have "sessions_wf (db st4)"
    using sessions_wf_insert[OF _ one_kind_blank(2) session] by blast
  then show ?thesis
    using last expect_session_state[of _ sid st4 "fst s" "snd s"] by simp
qed (simp add: wf)

lemma sessions_wf_insert_v2:
  "insert_v2_session gid st = Inr (x, st') \<Longrightarrow> sessions_wf (db st) \<Longrightarrow> sessions_wf (db st')"
  using sessions_wf_insert[OF _ one_kind_blank(3)]
  by (fastforce simp: insert_v2_session_def rbind_eq_Inr dest: expect_session_state)

lemma sessions_wf_migrate:
  assumes run: "migrate_session_to_v2 gid s st = Inr (x, st')" and wf: "sessions_wf (db st)"
    and s: "s \<in> set (sessions (db st))" and g: "has_key g2_id gid (group_v2s (db st))"
  shows "sessions_wf (db st')"
proof -
  let ?f = "\<lambda>x. x\<lparr>s_group_v1_id := None, s_group_v2_id := Some gid\<rparr>"
  let ?P = "\<lambda>x. s_id x = s_id s"
  let ?ss = "update_where ?P ?f (sessions (db st))"
  have v1: "s_group_v1_id s \<noteq> None" and st': "db st' = (db st)\<lparr>sessions := ?ss\<rparr>"
    using run by (auto simp: migrate_session_to_v2_def rbind_eq_Inr Let_def dest: expect_session_state)
  have only: "y = s" if "y \<in> set (sessions (db st))" "s_id y = s_id s" for y
    using distinct_keys_inj[OF sessions_wfD(1)[OF wf] that(1) s that(2)] .
  have "s_direct_message_recipient_id s = None"
    using sessions_wfD(2)[OF wf s] v1 by (cases rule: one_kind_cases) auto
  then have new: "one_kind (?f s)" "session_refs (db st') (?f s)"
    using g by (auto simp: one_kind_def session_refs_def st')
  have refs: "session_refs (db st') y = session_refs (db st) y" for y
    by (simp add: session_refs_def st')
  have "one_kind y \<and> session_refs (db st') y" if y: "y \<in> set ?ss" for y
  proof -
    obtain z where z: "z \<in> set (sessions (db st))" "y = (if ?P z then ?f z else z)"
      using y by (auto simp: set_update_where)
    show ?thesis
    proof (cases "?P z")
      case True
      then show ?thesis
        using z only[OF z(1)] new by simp
    next
      case False
      then show ?thesis
        using z sessions_wfD(2,3)[OF wf] refs by simp
    qed
  qed
  moreover have "distinct_keys s_id ?ss"
    by (rule distinct_keys_update) (simp_all add: sessions_wfD(1)[OF wf])
  ultimately show ?thesis
    by (simp add: sessions_wf_def st' list_all_iff)
qed

lemma sessions_wf_by_group_v2:
  assumes run: "fetch_or_insert_session_by_group_v2 g st = Inr (x, st')" and wf: "sessions_wf (db st)"
  shows "sessions_wf (db st')"
proof (cases "st' = st \<or> has_key g2_id (gc2_id_hex g) (group_v2s (db st))")
  case True
  then show ?thesis
    using run wf sessions_wf_insert_v2
    by (auto simp: fetch_or_insert_session_by_group_v2_def Let_def rbind_eq_Inr
        split: option.splits if_splits)
next
  case False
  let ?gid = "gc2_id_hex g"
  let ?st = "emit (observe_insert SubGroupV2s (StringRowId ?gid))
    (st\<lparr>db := (db st)\<lparr>group_v2s := group_v2s (db st) @ [new_group_v2 g]\<rparr>\<rparr>)"
  have wf': "sessions_wf (db ?st)"
    using wf by (simp add: sessions_wf_add_group)
  have g: "has_key g2_id ?gid (group_v2s (db ?st))"
    by (simp add: has_key_iff new_group_v2_def)
  consider (migrate) s where "s \<in> set (sessions (db ?st))" "migrate_session_to_v2 ?gid s ?st = Inr (x, st')"
    | (insert) s st3 where "insert_v2_session ?gid ?st = Inr (s, st3)" "db st' = db st3"
    using run False
    by (auto simp: fetch_or_insert_session_by_group_v2_def Let_def rbind_eq_Inr
        split: option.splits if_splits dest: first_where_SomeD)
  then show ?thesis
  proof cases
    case (migrate s)
    then show ?thesis
      using sessions_wf_migrate[OF migrate(2) wf' _ g] by blast
  next
    case (insert s st3)
    then show ?thesis
      using sessions_wf_insert_v2[OF insert(1) wf'] by simp
  qed
qed

lemma sessions_wf_mark_read: "sessions_wf (db st) \<Longrightarrow> sessions_wf (db (mark_session_read i st))"
  by (erule sessions_wf_tables) (simp_all add: mark_session_read_def Let_def)

lemma sessions_wf_timer:
  "sessions_wf (db st) \<Longrightarrow> sessions_wf (db (snd (update_expiration_timer s t v st)))"
  by (simp add: update_expiration_timer_def Let_def sessions_wf_update)

lemma sessions_wf_step: "session_step st st' \<Longrightarrow> sessions_wf (db st) \<Longrightarrow> sessions_wf (db st')"
proof (induction rule: session_step.induct)
  case (ss_phonenumber n st x st')
  then show ?case by (rule sessions_wf_by_phonenumber)
next
  case (ss_address addr st x st')
  then show ?case by (rule sessions_wf_by_address)
next
  case (ss_recipient i st x st')
  then show ?case by (rule sessions_wf_by_recipient)
next
  case (ss_group_v1 g st x st')
  then show ?case by (rule sessions_wf_by_group_v1)
next
  case (ss_group_v2 h st x st')
  then show ?case by (rule sessions_wf_by_group_v2)
qed (simp_all add: sessions_wf_delete sessions_wf_mark_read sessions_wf_timer save_draft_def
      mark_session_muted_def mark_session_archived_def mark_session_pinned_def sessions_wf_update)

lemma sessions_wf_steps: "session_step\<^sup>*\<^sup>* st st' \<Longrightarrow> sessions_wf (db st) \<Longrightarrow> sessions_wf (db st')"
  by (induction rule: rtranclp_induct) (auto intro: sessions_wf_step)

section \<open>Finding or creating a direct session\<close>

definition store_wf :: "storage \<Rightarrow> bool" where
  "store_wf st = (recipients_wf (recipients (db st)) \<and> sessions_wf (db st))"

lemma fetch_session_where_Some:
  assumes wf: "sessions_wf (db st)" and found: "first_where P (sessions (db st)) = Some s"
  obtains x where "fetch_session_where P st = Inr (Some x)" and "e_id x = s_id s"
    and "\<And>r. joined_recipient (db st) s = Some r \<Longrightarrow> e_type x = DirectMessage r"
proof -
  have "s \<in> set (sessions (db st))"
    using found by (auto dest: first_where_SomeD)
  then show thesis
    using that join_session_total[of s "db st"] sessions_wfD[OF wf] found
    by (auto simp: fetch_session_where_def)
qed

text \<open>
  The session created for a row of the recipient table: it is found again by its id and by any
  filter that its recipient and no other session's recipient passes.
\<close>

lemma insert_dm_session_result:
  assumes wf: "store_wf st" and r: "r \<in> set (recipients (db st))"
  obtains x st' where "insert_dm_session m1 m2 (r_id r) st = Inr (x, st')"
    and "e_type x = DirectMessage r" and "recipients (db st') = recipients (db st)"
    and "\<And>P. P r \<Longrightarrow> \<forall>s\<in>set (sessions (db st)). \<not> recipient_filter (db st) P s \<Longrightarrow>
           fetch_session_where (recipient_filter (db st') P) st' = Inr (Some x)"
proof -
  let ?s = "blank_session\<lparr>s_direct_message_recipient_id := Some (r_id r)\<rparr>"
  let ?n = "next_rowid s_id (sessions (db st))"
  let ?st1 = "st\<lparr>db := (db st)\<lparr>sessions := insert_row s_id with_s_id ?s (sessions (db st))\<rparr>\<rparr>"
  let ?st2 = "emit (with_relation SubRecipients (RowId (r_id r)) (observe_insert SubSessions (RowId ?n))) ?st1"
  have ins: "insert_session m1 ?s st = Inr (?n, ?st1)"
    using r by (auto simp: insert_session_def Let_def has_key_iff blank_session_def)
  have wf2: "sessions_wf (db ?st2)"
    using sessions_wf_insert[OF _ one_kind_blank(1) ins] wf by (simp add: store_wf_def)
  have row: "first_where (\<lambda>s. s_id s = ?n) (sessions (db ?st2)) = Some (with_s_id ?n ?s)"
    using sess.find_inserted by simp
  have joined: "joined_recipient (db ?st2) (with_s_id ?n ?s) = Some r"
    using wf r by (simp add: joined_recipient_def store_wf_def first_where_key recipients_wfD(1))
  obtain x where x: "fetch_session_by_id ?n ?st2 = Inr (Some x)" "e_type x = DirectMessage r"
    using fetch_session_where_Some[OF wf2 row] joined unfolding fetch_session_by_id_def by blast
  then have join: "join_session (db ?st2) (with_s_id ?n ?s) = Inr x"
    using row by (simp add: fetch_session_by_id_def fetch_session_where_def rbind_eq_Inr)
  have "fetch_session_where (recipient_filter (db ?st2) P) ?st2 = Inr (Some x)"
    if P: "P r" "\<forall>s\<in>set (sessions (db st)). \<not> recipient_filter (db st) P s" for P
  proof -
    have same: "recipient_filter (db ?st2) P = recipient_filter (db st) P"
      by (simp add: recipient_filter_def joined_recipient_def fun_eq_iff)
    have "first_where (recipient_filter (db ?st2) P) (sessions (db st)) = None"
      using P(2) by (simp only: same first_where_None)
    moreover have "recipient_filter (db ?st2) P (with_s_id ?n ?s)"
      using P(1) joined by (simp add: recipient_filter_def)
    ultimately have "first_where (recipient_filter (db ?st2) P) (sessions (db ?st2)) = Some (with_s_id ?n ?s)"
      by (simp add: first_where_append insert_row_def)
    then show ?thesis
      using join by (simp add: fetch_session_where_def)
  qed
  then show thesis
    using that[of x ?st2] ins x by (simp add: insert_dm_session_def expect_session_def)
qed

lemma filter_after_insert:
  assumes "sessions_wf (db st)" and "recipients d' = recipients (db st) @ rs"
    and "s \<in> set (sessions (db st))"
  shows "recipient_filter d' P s = recipient_filter (db st) P s"
proof -
  have refs: "session_refs (db st) s"
    using assms(1,3) by (rule sessions_wfD(3))
  have "joined_recipient d' s = joined_recipient (db st) s"
  proof (cases "s_direct_message_recipient_id s")
    case (Some i)
    then have "first_where (\<lambda>r. r_id r = i) (recipients (db st)) \<noteq> None"
      using refs by (auto simp: session_refs_def has_key_iff first_where_None)
    then show ?thesis
      using Some by (auto simp: joined_recipient_def assms(2) first_where_append)
  qed (simp add: joined_recipient_def)
  then show ?thesis
    by (simp add: recipient_filter_def)
qed

lemma fetch_or_insert_recipient_by_address_result:
  assumes "store_wf st" and fetch: "fetch_or_insert_recipient_by_address addr st = (r, st')"
  shows "store_wf st' \<and> r \<in> set (recipients (db st')) \<and> has_service_id addr r
         \<and> sessions (db st') = sessions (db st)
         \<and> (\<exists>rs. recipients (db st') = recipients (db st) @ rs)"
proof (cases "fetch_recipient addr st")
  case (Some x)
  then show ?thesis
    using assms by (auto simp: fetch_or_insert_recipient_by_address_def fetch_recipient_def
        dest: first_where_SomeD)
next
  case None
  define a where "a = (case addr of AciId u \<Rightarrow> Some u | PniId _ \<Rightarrow> None)"
  define p where "p = (case addr of PniId u \<Rightarrow> Some u | AciId _ \<Rightarrow> None)"
  have ins: "insert_recipient a p None st = (r, st')"
    using fetch None by (cases addr) (simp_all add: fetch_or_insert_recipient_by_address_def a_def p_def)
  have rows: "recipients (db st') = recipients (db st) @ [r]" "sessions (db st') = sessions (db st)"
    "r = with_r_id (next_rowid r_id (recipients (db st))) (new_recipient a p None)"
    using ins by (auto simp: insert_recipient_def Let_def insert_row_def)
  have "\<not> (a \<noteq> None \<and> exists_where (\<lambda>r. r_uuid r = a) (recipients (db st)))"
    using None by (cases addr)
      (auto simp: a_def fetch_recipient_def has_service_id_def first_where_None exists_where_iff)
  then have "insert_recipient_inner (db st) a p None
      = Inr (r_id r, (db st)\<lparr>recipients := recipients (db st) @ [r]\<rparr>)"
    by (simp add: insert_recipient_inner_def rows(3) insert_row_def)
  then have "recipients_wf (recipients (db st'))"
    using recipients_wf_insert[of "db st"] assms(1) rows(1) by (fastforce simp: store_wf_def)
  moreover have "sessions_wf (db st')"
    using assms recipient_insert_sessions(1) by (auto simp: store_wf_def)
  moreover have "has_service_id addr r"
    by (cases addr) (simp_all add: rows(3) a_def p_def has_service_id_def)
  ultimately show ?thesis
    using rows by (auto simp: store_wf_def)
qed

lemma fetch_or_insert_session_by_address_total:
  assumes wf: "store_wf st"
  shows "\<exists>x r st'. fetch_or_insert_session_by_address addr st = Inr (x, st')
           \<and> e_type x = DirectMessage r \<and> has_service_id addr r
           \<and> fetch_or_insert_session_by_address addr st' = Inr (x, st')"
proof (cases "first_where (recipient_filter (db st) (has_service_id addr)) (sessions (db st))")
  case (Some s)
  have swf: "sessions_wf (db st)"
    using wf by (simp add: store_wf_def)
  obtain r where r: "joined_recipient (db st) s = Some r" "has_service_id addr r"
    using Some by (auto simp: recipient_filter_def dest!: first_where_SomeD split: option.splits)
  obtain x where "fetch_session_by_address addr st = Inr (Some x)" "e_type x = DirectMessage r"
    using fetch_session_where_Some[OF swf Some] r unfolding fetch_session_by_address_def by blast
  then show ?thesis
    using r by (auto simp: fetch_or_insert_session_by_address_def)
next
  case None
  obtain r st1 where fetch: "fetch_or_insert_recipient_by_address addr st = (r, st1)"
    by fastforce
  note res = fetch_or_insert_recipient_by_address_result[OF wf fetch]
  then obtain rs where rs: "recipients (db st1) = recipients (db st) @ rs"
    by blast
  have unmatched: "\<forall>s\<in>set (sessions (db st1)). \<not> recipient_filter (db st1) (has_service_id addr) s"
    using None res filter_after_insert[OF _ rs] wf
    by (auto simp: store_wf_def first_where_None)
  have r: "r \<in> set (recipients (db st1))" and wf1: "store_wf st1"
    and matches: "has_service_id addr r"
    using res by blast+
  have first: "fetch_session_by_address addr st = Inr None"
    using None by (simp add: fetch_session_by_address_def fetch_session_where_def)
  obtain x st' where ins: "insert_dm_session ''insert session by service address''
        ''session by id (via service address insert)'' (r_id r) st1 = Inr (x, st')"
    and x: "e_type x = DirectMessage r" and "recipients (db st') = recipients (db st1)"
    and again: "\<And>P. P r \<Longrightarrow> \<forall>s\<in>set (sessions (db st1)). \<not> recipient_filter (db st1) P s \<Longrightarrow>
           fetch_session_where (recipient_filter (db st') P) st' = Inr (Some x)"
    by (rule insert_dm_session_result[OF wf1 r]) (assumption | rule that)+
  have "fetch_session_by_address addr st' = Inr (Some x)"
    using again[OF matches unmatched] by (simp only: fetch_session_by_address_def)
  then have "fetch_or_insert_session_by_address addr st' = Inr (x, st')"
    by (simp add: fetch_or_insert_session_by_address_def)
  moreover have "fetch_or_insert_session_by_address addr st = Inr (x, st')"
    using first fetch ins by (simp add: fetch_or_insert_session_by_address_def)
  ultimately show ?thesis
    using x res by blast
qed

section \<open>Properties\<close>

definition session_demo :: storage where
  "session_demo = \<lparr> db = empty_database\<lparr>
        recipients := [with_r_id 1 (new_recipient (Some 7) None (Some ''+1''))],
        group_v1s := [\<lparr> g1_id = ''aa'', g1_name = ''old'', g1_expected_v2_id = Some ''bb'' \<rparr>],
        sessions := [blank_session\<lparr>s_id := 1, s_group_v1_id := Some ''aa''\<rparr>]\<rparr>,
     conf = \<lparr> cfg_tel = Some ''+1'', cfg_aci = Some 7, cfg_pni = None, cfg_home = ''/h'' \<rparr>,
     self_recipient = None, events = [], now = 1000, files = [] \<rparr>"

text \<open>
  C3. Sessions can be read.  Through any sequence of the session operations that return, every
  session keeps its own id, exactly one of its three kinds and valid references; so reading all
  the sessions never runs into the assertions of \<open>Session::from\<close>, and yields them in order.
\<close>

theorem sessions_readable:
  assumes "session_step\<^sup>*\<^sup>* st st'" and "sessions_wf (db st)"
  shows "sessions_wf (db st')
         \<and> (\<exists>xs. fetch_sessions st' = Inr xs \<and> map e_id xs = map s_id (sessions (db st')))"
proof -
  have wf: "sessions_wf (db st')"
    using assms by (rule sessions_wf_steps)
  then have "\<forall>s\<in>set (sessions (db st')). one_kind s \<and> session_refs (db st') s"
    by (auto dest: sessions_wfD)
  then show ?thesis
    using wf fetch_all_sessions_total unfolding fetch_sessions_def by blast
qed

theorem sessions_readable_witness:
  "\<exists>xs. fetch_sessions (mark_session_pinned 1 True session_demo) = Inr xs \<and> map e_id xs = [1]"
proof -
  have "session_step\<^sup>*\<^sup>* session_demo (mark_session_pinned 1 True session_demo)"
    by (blast intro: ss_pinned)
  moreover have "sessions_wf (db session_demo)"
    by code_simp
  moreover have "map s_id (sessions (db (mark_session_pinned 1 True session_demo))) = [1]"
    by code_simp
  ultimately show ?thesis
    using sessions_readable by fastforce
qed

lemma session_by_address_frame:
  assumes "fetch_or_insert_session_by_address addr st = Inr (x, st')"
  shows "st' = st \<or> fetch_session_by_address addr st = Inr None
    \<and> messages (db st') = messages (db st)
    \<and> (\<exists>s. sessions (db st') = sessions (db st) @ [s]) \<and> (recipients (db st') = recipients (db st) \<or> (\<exists>r. recipients (db st') = recipients (db st) @ [r]))"
proof -
  have "\<exists>s. insert_row s_id with_s_id t tab = tab @ [s]" for t tab
    by (simp add: insert_row_def)
  then show ?thesis
    using assms
    by (auto simp: fetch_or_insert_session_by_address_def fetch_or_insert_recipient_by_address_def
        insert_recipient_def insert_dm_session_def insert_session_def expect_session_def insert_row_def
        rbind_eq_Inr Let_def split: option.splits prod.splits service_id.splits if_splits)
qed



text \<open>
  Groups without a session.  Deleting a session keeps its group.  A later message for a
  group of the old kind then fails on inserting the group again, and one for its new incarnation
  reaches the branch marked unreachable.
\<close>

theorem group_without_session_panics:
  assumes "first_where (\<lambda>s. s_group_v1_id s = Some (gc1_id_hex g)) (sessions (db st)) = None"
    and "has_key g1_id (gc1_id_hex g) (group_v1s (db st))"
    and "first_where (\<lambda>s. s_group_v2_id s = Some (gc2_id_hex h)) (sessions (db st)) = None"
    and "\<not> has_key g2_id (gc2_id_hex h) (group_v2s (db st))"
    and "first_where (\<lambda>x. g1_expected_v2_id x = Some (gc2_id_hex h)) (group_v1s (db st)) = Some g1"
    and "g1_id g1 = gc1_id_hex g"
  shows "(\<exists>msg. fetch_or_insert_session_by_group_v1 g st = Inl (Panic msg))
         \<and> fetch_or_insert_session_by_group_v2 h st
             = Inl (Panic ''internal error: entered unreachable code'')"
  using assms
  by (simp add: fetch_or_insert_session_by_group_v1_def fetch_or_insert_session_by_group_v2_def
      fetch_session_where_def Let_def)

theorem group_without_session_panics_witness:
  "fetch_or_insert_session_by_group_v2 \<lparr> gc2_id_hex = ''bb'', gc2_master_key_hex = [] \<rparr>
     (delete_session 1 session_demo)
   = Inl (Panic ''internal error: entered unreachable code'')"
proof -
  let ?st = "delete_session 1 session_demo"
  let ?g = "\<lparr> gc1_id_hex = ''aa'', gc1_name = [], gc1_members = [] \<rparr>"
  let ?h = "\<lparr> gc2_id_hex = ''bb'', gc2_master_key_hex = [] \<rparr>"
  have "first_where (\<lambda>s. s_group_v1_id s = Some (gc1_id_hex ?g)) (sessions (db ?st)) = None"
    by code_simp
  moreover have "has_key g1_id (gc1_id_hex ?g) (group_v1s (db ?st))"
    by code_simp
  moreover have "first_where (\<lambda>s. s_group_v2_id s = Some (gc2_id_hex ?h)) (sessions (db ?st)) = None"
    by code_simp
  moreover have "\<not> has_key g2_id (gc2_id_hex ?h) (group_v2s (db ?st))"
    by code_simp
  moreover have "first_where (\<lambda>x. g1_expected_v2_id x = Some (gc2_id_hex ?h)) (group_v1s (db ?st))
      = Some \<lparr> g1_id = ''aa'', g1_name = ''old'', g1_expected_v2_id = Some ''bb'' \<rparr>"
    by code_simp
  ultimately show ?thesis
    using group_without_session_panics[of ?g ?st ?h] by simp
qed

lemma join_session_timer:
  assumes "join_session d s = Inr x" and "recipients d' = recipients d" "group_v1s d' = group_v1s d" "group_v2s d' = group_v2s d"
  shows "join_session d' (s\<lparr>s_expiring_message_timeout := t, s_expire_timer_version := v\<rparr>)
    = Inr (x\<lparr>e_expiring_message_timeout := timeout_duration t, e_expire_timer_version := v\<rparr>)"
  using assms
  by (auto simp: join_session_def joined_recipient_def session_from_def rbind_eq_Inr Let_def split: if_splits option.splits)


definition timer_demo :: session where
  "timer_demo = \<lparr> e_id = 1, e_is_archived = False, e_is_pinned = False, e_is_silent = False,
     e_is_muted = False, e_expiring_message_timeout = Some 60, e_expire_timer_version = 3,
     e_draft = None, e_type = DirectMessage (new_recipient None None None) \<rparr>"

definition timer_state :: storage where
  "timer_state = session_demo\<lparr>db := (db session_demo)\<lparr>
     recipients := [new_recipient None None None],
     sessions := [blank_session\<lparr>s_id := 1, s_direct_message_recipient_id := Some (r_id (new_recipient None None None)),
       s_expiring_message_timeout := Some 60, s_expire_timer_version := 3\<rparr>]\<rparr>\<rparr>"


end
