(* ===== verification/Paths.thy ===== *)
theory Paths
  imports Prelude
begin

text \<open>
  Paths stored relative to the home directory (\<open>whisperfish-store/src/lib.rs\<close>): a path under
  \<open>$HOME\<close> is stored with a leading tilde and expanded when it is used.
\<close>

fun single_slashes :: "string \<Rightarrow> string" where
  "single_slashes [] = []"
| "single_slashes [c] = [c]"
| "single_slashes (c # d # cs) =
     (if c = CHR ''/'' \<and> d = CHR ''/'' then CHR ''/'' # single_slashes cs
      else c # single_slashes (d # cs))"

fun strip_prefix :: "string \<Rightarrow> string \<Rightarrow> string option" where
  "strip_prefix [] s = Some s"
| "strip_prefix (p # ps) [] = None"
| "strip_prefix (p # ps) (c # cs) = (if p = c then strip_prefix ps cs else None)"

definition replace_tilde_with_home :: "string \<Rightarrow> string \<Rightarrow> string" where
  "replace_tilde_with_home home path =
     (case strip_prefix ''~/'' path of
        Some rest \<Rightarrow> single_slashes (home @ ''/'' @ rest)
      | None \<Rightarrow> path)"

definition replace_home_with_tilde :: "string \<Rightarrow> string \<Rightarrow> string" where
  "replace_home_with_tilde home path =
     (case strip_prefix home path of
        Some rest \<Rightarrow> single_slashes (''~/'' @ rest)
      | None \<Rightarrow> path)"

fun no_double_slash :: "string \<Rightarrow> bool" where
  "no_double_slash (c # d # cs) = (\<not> (c = CHR ''/'' \<and> d = CHR ''/'') \<and> no_double_slash (d # cs))"
| "no_double_slash _ = True"

lemma single_slashes_id: "no_double_slash s \<Longrightarrow> single_slashes s = s"
  by (induction s rule: single_slashes.induct) auto

lemma strip_prefix_append [simp]: "strip_prefix p (p @ s) = Some s"
  by (induction p) auto

lemma strip_prefix_Some: "strip_prefix p s = Some r \<Longrightarrow> s = p @ r"
  by (induction p s rule: strip_prefix.induct) (auto split: if_splits)

lemma no_double_slash_append: "no_double_slash (s @ t) \<Longrightarrow> no_double_slash t"
proof (induction s)
  case (Cons c s)
  then show ?case
    by (cases "s @ t") (auto elim: no_double_slash.elims)
qed simp

lemma tilde_slash_slash: "no_double_slash (CHR ''/'' # s) \<Longrightarrow> single_slashes (''~/'' @ CHR ''/'' # s) = ''~/'' @ s"
  using single_slashes_id[OF no_double_slash_append[of "''/''" s]] by simp

text \<open>
  The round trip for a path under the home directory: it is stored under the tilde and expands
  to itself again.
\<close>

lemma tilde_round_trip:
  assumes "no_double_slash (home @ ''/'' @ rest)"
  shows "replace_home_with_tilde home (home @ ''/'' @ rest) = ''~/'' @ rest
         \<and> replace_tilde_with_home home (''~/'' @ rest) = home @ ''/'' @ rest"
proof -
  have "no_double_slash (''/'' @ rest)"
    using assms no_double_slash_append[of home "''/'' @ rest"] by simp
  then have "replace_home_with_tilde home (home @ ''/'' @ rest) = ''~/'' @ rest"
    using tilde_slash_slash[of rest] by (simp add: replace_home_with_tilde_def)
  moreover have "replace_tilde_with_home home (''~/'' @ rest) = home @ ''/'' @ rest"
    using single_slashes_id[OF assms] by (simp add: replace_tilde_with_home_def)
  ultimately show ?thesis ..
qed

section \<open>Properties\<close>

text \<open>
  Home and tilde.  A path below the home directory, without doubled slashes, is stored
  under the tilde and expands to the same path when it is used.
\<close>

theorem home_tilde_round_trip:
  assumes "no_double_slash (home @ ''/'' @ rest)"
  shows "replace_home_with_tilde home (home @ ''/'' @ rest) = ''~/'' @ rest
         \<and> replace_tilde_with_home home (replace_home_with_tilde home (home @ ''/'' @ rest))
             = home @ ''/'' @ rest"
  using tilde_round_trip[OF assms] by simp

theorem home_tilde_round_trip_witness:
  "replace_tilde_with_home ''/home/n'' (replace_home_with_tilde ''/home/n'' (''/home/n'' @ ''/'' @ ''a/b''))
     = ''/home/n'' @ ''/'' @ ''a/b''"
proof -
  have "no_double_slash (''/home/n'' @ ''/'' @ ''a/b'')"
    by simp
  then show ?thesis
    using home_tilde_round_trip by blast
qed

text \<open>
  Neighbouring directories.  The prefix is compared as text, not component by component:
  a path in a directory whose name only begins like the home directory is stored as if it were
  inside it, and expands to another path.
\<close>

theorem home_tilde_sibling:
  assumes "c \<noteq> CHR ''/''" and "no_double_slash (c # rest)" and "no_double_slash (home @ ''/'' @ c # rest)"
  shows "replace_home_with_tilde home (home @ c # rest) = ''~/'' @ c # rest
         \<and> replace_tilde_with_home home (''~/'' @ c # rest) = home @ ''/'' @ c # rest"
proof -
  have "single_slashes (''~/'' @ c # rest) = ''~/'' @ c # rest"
    using assms(1,2) by (intro single_slashes_id) simp
  then show ?thesis
    using single_slashes_id[OF assms(3)]
    by (simp add: replace_home_with_tilde_def replace_tilde_with_home_def)
qed

theorem home_tilde_sibling_witness:
  "replace_tilde_with_home ''/home/n'' (replace_home_with_tilde ''/home/n'' ''/home/n2/x'')
     = ''/home/n/2/x''"
  using home_tilde_sibling[of "CHR ''2''" "''/x''" "''/home/n''"] by simp

end
