(* ===== verification/MessageStore.thy ===== *)
theory MessageStore
  imports SessionStore
begin

text \<open>
  Messages: lookups, creation and editing, reactions, receipts, the read and failed flags, the
  expiry timer and the search (\<open>whisperfish-store/src/store.rs\<close>, \<open>Message\<close> in \<open>orm.rs\<close>).

  SQLite's \<open>DATETIME\<close> works on whole seconds: the moment a message is deleted after is the
  second its expiry started plus its timeout in seconds, compared with the current second.
\<close>

section \<open>Messages and their lookup\<close>

definition original_message_id :: "message \<Rightarrow> int" where
  "original_message_id m = (case m_original_message_id m of None \<Rightarrow> m_id m | Some i \<Rightarrow> i)"

definition latest_revision_id :: "message \<Rightarrow> int" where
  "latest_revision_id m = (case m_latest_revision_id m of None \<Rightarrow> m_id m | Some i \<Rightarrow> i)"

definition is_latest_revision :: "message \<Rightarrow> bool" where
  "is_latest_revision m = (m_id m = latest_revision_id m)"

definition is_original_message :: "message \<Rightarrow> bool" where
  "is_original_message m = (m_id m = original_message_id m)"

definition is_edited :: "message \<Rightarrow> bool" where
  "is_edited m = (\<not> is_latest_revision m \<and> \<not> is_original_message m)"

definition fetch_message_by_timestamp :: "timestamp \<Rightarrow> storage \<Rightarrow> message option" where
  "fetch_message_by_timestamp ts st = first_where (\<lambda>m. m_server_timestamp m = ts) (messages (db st))"

definition fetch_message_by_id :: "int \<Rightarrow> storage \<Rightarrow> message option" where
  "fetch_message_by_id i st = first_where (\<lambda>m. m_id m = i) (messages (db st))"

definition fetch_messages_by_ids :: "int list \<Rightarrow> storage \<Rightarrow> message list" where
  "fetch_messages_by_ids ids st = filter (\<lambda>m. m_id m \<in> set ids) (messages (db st))"

text \<open>Rows with equal timestamps come in rowid order; SQLite leaves that order open.\<close>

definition by_timestamp_desc :: "message list \<Rightarrow> message list" where
  "by_timestamp_desc ms = sort_key (\<lambda>m. - m_server_timestamp m) ms"

definition most_recent :: "message \<Rightarrow> bool" where
  "most_recent m = (m_latest_revision_id m = None \<or> m_latest_revision_id m = Some (m_id m))"

definition fetch_all_messages :: "int \<Rightarrow> bool \<Rightarrow> storage \<Rightarrow> message list" where
  "fetch_all_messages session_id only_most_recent st =
     by_timestamp_desc
       (filter (\<lambda>m. m_session_id m = session_id \<and> (only_most_recent \<longrightarrow> most_recent m)) (messages (db st)))"

definition fetch_last_message_by_session_id :: "int \<Rightarrow> storage \<Rightarrow> message option" where
  "fetch_last_message_by_session_id session_id st =
     (case by_timestamp_desc (filter (\<lambda>m. m_session_id m = session_id) (messages (db st))) of
        [] \<Rightarrow> None | m # _ \<Rightarrow> Some m)"

definition message_count :: "storage \<Rightarrow> nat" where
  "message_count st = length (messages (db st))"

definition session_count :: "storage \<Rightarrow> nat" where
  "session_count st = length (sessions (db st))"

definition recipient_count :: "storage \<Rightarrow> nat" where
  "recipient_count st = count_where (\<lambda>r. r_uuid r \<noteq> None) (recipients (db st))"

definition unsent_count :: "storage \<Rightarrow> nat" where
  "unsent_count st = count_where (\<lambda>m. m_is_outbound m \<and> m_sending_has_failed m) (messages (db st))"

section \<open>Updating messages\<close>

definition update_messages :: "(message \<Rightarrow> bool) \<Rightarrow> (message \<Rightarrow> message) \<Rightarrow> storage \<Rightarrow> storage" where
  "update_messages P f st = st\<lparr>db := (db st)\<lparr>messages := update_where P f (messages (db st))\<rparr>\<rparr>"

definition message_event :: "int \<Rightarrow> int \<Rightarrow> event" where
  "message_event mid sid = with_relation SubSessions (RowId sid) (observe_update SubMessages (RowId mid))"

section \<open>Creating and editing\<close>

record new_message =
  nm_session_id :: int
  nm_source_addr :: "service_id option"
  nm_server_guid :: "uuid option"
  nm_text :: string
  nm_timestamp :: timestamp
  nm_sent :: bool
  nm_received :: bool
  nm_is_read :: bool
  nm_flags :: int
  nm_outgoing :: bool
  nm_is_unidentified :: bool
  nm_quote_timestamp :: "timestamp option"
  nm_expires_in :: "int option"
  nm_expire_timer_version :: int
  nm_expiry_started :: "timestamp option"
  nm_story_type :: story_type
  nm_body_ranges :: "blob option"
  nm_message_type :: "message_type option"
  nm_edit :: "message option"

definition new_incoming :: "timestamp \<Rightarrow> new_message" where
  "new_incoming utc_now =
     \<lparr> nm_session_id = 0, nm_source_addr = None, nm_server_guid = None, nm_text = [],
       nm_timestamp = utc_now, nm_sent = False, nm_received = True, nm_is_read = False,
       nm_flags = 0, nm_outgoing = False, nm_is_unidentified = False, nm_quote_timestamp = None,
       nm_expires_in = None, nm_expire_timer_version = 1, nm_expiry_started = None,
       nm_story_type = StoryNone, nm_body_ranges = None, nm_message_type = None, nm_edit = None \<rparr>"

definition new_outgoing :: "timestamp \<Rightarrow> new_message" where
  "new_outgoing utc_now =
     \<lparr> nm_session_id = 0, nm_source_addr = None, nm_server_guid = None, nm_text = [],
       nm_timestamp = utc_now, nm_sent = False, nm_received = False, nm_is_read = True,
       nm_flags = 0, nm_outgoing = True, nm_is_unidentified = False, nm_quote_timestamp = None,
       nm_expires_in = None, nm_expire_timer_version = 1, nm_expiry_started = None,
       nm_story_type = StoryNone, nm_body_ranges = None, nm_message_type = None, nm_edit = None \<rparr>"

text \<open>The messages an edit belongs with: the original and every row that names it.\<close>

definition in_edit_series :: "message \<Rightarrow> message \<Rightarrow> bool" where
  "in_edit_series edit m =
     (m_id m = original_message_id edit \<or> m_original_message_id m = Some (original_message_id edit))"

definition computed_revision :: "message option \<Rightarrow> message list \<Rightarrow> int" where
  "computed_revision edit ms =
     (case edit of
        None \<Rightarrow> 0
      | Some e \<Rightarrow>
          (case map m_revision (filter (in_edit_series e) ms) of
             [] \<Rightarrow> 0
           | r # rs \<Rightarrow> fold max rs r + 1))"

definition new_row :: "new_message \<Rightarrow> storage \<Rightarrow> message" where
  "new_row nm st =
     default_message\<lparr>
       m_session_id := nm_session_id nm,
       m_server_guid := nm_server_guid nm,
       m_text := Some (nm_text nm),
       m_sender_recipient_id := (case nm_source_addr nm of None \<Rightarrow> None
          | Some sender \<Rightarrow> map_option r_id (fetch_recipient sender st)),
       m_received_timestamp := (if \<not> nm_outgoing nm then Some (now st) else None),
       m_sent_timestamp := (if nm_outgoing nm \<and> nm_sent nm then Some (nm_timestamp nm) else None),
       m_server_timestamp := nm_timestamp nm,
       m_is_read := nm_is_read nm,
       m_is_outbound := nm_outgoing nm,
       m_use_unidentified := nm_is_unidentified nm,
       m_flags := nm_flags nm,
       m_message_type := nm_message_type nm,
       m_quote_id := (case nm_quote_timestamp nm of None \<Rightarrow> None
          | Some ts \<Rightarrow> map_option m_id (fetch_message_by_timestamp ts st)),
       m_expires_in := map_option i32_wrap (nm_expires_in nm),
       m_expire_timer_version := nm_expire_timer_version nm,
       m_expiry_started := nm_expiry_started nm,
       m_story_type := nm_story_type nm,
       m_message_ranges := nm_body_ranges nm,
       m_original_message_id := map_option m_id (nm_edit nm),
       m_revision := computed_revision (nm_edit nm) (messages (db st))\<rparr>"

text \<open>
  The insertion fails, and the \<open>expect\<close> panics, on a dangling reference or when the trigger of
  the schema finds an inbound message of an old group without a sender.
\<close>

definition insert_message :: "message \<Rightarrow> storage \<Rightarrow> (message \<times> storage) res" where
  "insert_message m st =
     (let d = db st in
      if \<not> has_key s_id (m_session_id m) (sessions d)
         \<or> \<not> opt_has_key r_id (m_sender_recipient_id m) (recipients d)
         \<or> \<not> opt_has_key m_id (m_original_message_id m) (messages d)
         \<or> (exists_where (\<lambda>s. s_id s = m_session_id m \<and> s_group_v1_id s \<noteq> None) (sessions d)
            \<and> \<not> m_is_outbound m \<and> m_sender_recipient_id m = None)
      then Inl (Panic ''inserting a message'')
      else Inr (with_m_id (next_rowid m_id (messages d)) m,
                st\<lparr>db := d\<lparr>messages := insert_row m_id with_m_id m (messages d)\<rparr>\<rparr>))"

definition link_edits :: "message \<Rightarrow> message \<Rightarrow> int \<Rightarrow> storage \<Rightarrow> storage res" where
  "link_edits edit latest session st =
     (let P = in_edit_series edit;
          ids = map m_id (filter P (messages (db st)));
          st' = update_messages P
                  (\<lambda>m. m\<lparr>m_original_message_id := Some (original_message_id edit),
                         m_latest_revision_id := Some (m_id latest)\<rparr>) st
      in if ids = [] then Inl (Panic ''Did not update any message. Dazed and confused.'')
         else Inr (emit_all (map (\<lambda>i. message_event i session) ids) st'))"

definition create_message :: "new_message \<Rightarrow> storage \<Rightarrow> (message \<times> storage) res" where
  "create_message nm st =
     (let session = nm_session_id nm in
      rbind (insert_message (new_row nm st) st) (\<lambda>(latest, st1).
      let st2 = emit (with_relation SubSessions (RowId session)
                       (observe_insert SubMessages (RowId (m_id latest)))) st1 in
      rbind (case nm_edit nm of None \<Rightarrow> Inr st2 | Some e \<Rightarrow> link_edits e latest session st2) (\<lambda>st3.
      rbind (fetch_session_by_id session st3) (\<lambda>so.
      Inr (latest,
           (case so of
              None \<Rightarrow> st3
            | Some s \<Rightarrow> if e_is_muted s \<and> \<not> e_is_archived s
                        then mark_session_archived (e_id s) False st3 else st3))))))"

section \<open>Reactions\<close>

definition fetch_reaction :: "int \<Rightarrow> int \<Rightarrow> storage \<Rightarrow> reaction option" where
  "fetch_reaction msg_id rcpt_id st =
     first_where (\<lambda>x. x_message_id x = msg_id \<and> x_author x = rcpt_id) (reactions (db st))"

definition reactions_event :: "event \<Rightarrow> int \<Rightarrow> event" where
  "reactions_event ev msg_id = with_relation SubMessages (RowId msg_id) ev"

definition save_reaction :: "int \<Rightarrow> int \<Rightarrow> string \<Rightarrow> timestamp \<Rightarrow> storage \<Rightarrow> (bool \<times> storage) res" where
  "save_reaction msg_id sender_id new_emoji sent_ts st =
     (let d = db st;
          key = (\<lambda>x. x_author x = sender_id \<and> x_message_id x = msg_id);
          ev = reactions_event (observe_upsert SubReactions UnknownKey) msg_id
      in if \<not> has_key m_id msg_id (messages d) \<or> \<not> has_key r_id sender_id (recipients d)
         then Inl (DbError ForeignKeyViolation)
         else if exists_where key (reactions d)
         then Inr (True, emit ev (st\<lparr>db := d\<lparr>reactions := update_where key
                (\<lambda>x. x\<lparr>x_emoji := new_emoji, x_sent_time := sent_ts, x_received_time := now st\<rparr>)
                (reactions d)\<rparr>\<rparr>))
         else Inr (True, emit ev (st\<lparr>db := d\<lparr>reactions := insert_row x_reaction_id with_x_id
                \<lparr> x_reaction_id = 0, x_message_id = msg_id, x_author = sender_id, x_emoji = new_emoji,
                  x_sent_time = sent_ts, x_received_time = now st \<rparr> (reactions d)\<rparr>\<rparr>)))"

definition remove_reaction :: "int \<Rightarrow> int \<Rightarrow> storage \<Rightarrow> bool \<times> storage" where
  "remove_reaction msg_id sender_id st =
     (let d = db st;
          key = (\<lambda>x. x_author x = sender_id \<and> x_message_id x = msg_id)
      in if exists_where key (reactions d)
         then (True, emit (reactions_event (observe_delete SubReactions UnknownKey) msg_id)
                       (st\<lparr>db := d\<lparr>reactions := delete_where key (reactions d)\<rparr>\<rparr>))
         else (False, st))"

text \<open>
  A \<open>Reaction\<close> of the protocol: the timestamp and the author of its target, already parsed by
  the protocol library, whether it is a removal, and the emoji.
\<close>

record reaction_proto =
  rp_target_sent_timestamp :: "timestamp option"
  rp_target_author :: "uuid option"
  rp_remove :: bool
  rp_emoji :: "string option"

datatype reaction_error =
    InvalidTimestamp
  | InvalidAci
  | NoSuchMessage
  | NoSuchSession
  | NoSender
  | NoTargetRecipient
  | Failed store_error

definition lift_error :: "'a res \<Rightarrow> reaction_error + 'a" where
  "lift_error r = (case r of Inl e \<Rightarrow> Inl (Failed e) | Inr x \<Rightarrow> Inr x)"

definition reaction_author_id :: "message \<Rightarrow> storage \<Rightarrow> reaction_error + (int \<times> storage)" where
  "reaction_author_id m st =
     (if \<not> m_is_outbound m
      then ebind (ok_or NoSender (m_sender_recipient_id m)) (\<lambda>i. Inr (i, st))
      else lift_error (fetch_self_recipient_id st))"

definition process_reaction ::
  "recipient \<Rightarrow> timestamp \<Rightarrow> reaction_proto \<Rightarrow> storage
     \<Rightarrow> reaction_error + ((message \<times> session) option \<times> storage)" where
  "process_reaction sender data_timestamp rp st =
     ebind (ok_or InvalidTimestamp (rp_target_sent_timestamp rp)) (\<lambda>ts.
     ebind (ok_or InvalidAci (rp_target_author rp)) (\<lambda>author.
     ebind (ok_or NoSuchMessage (fetch_message_by_timestamp ts st)) (\<lambda>m.
     ebind (lift_error (fetch_session_by_id (m_session_id m) st)) (\<lambda>so.
     ebind (ok_or NoSuchSession so) (\<lambda>s.
     ebind (reaction_author_id m st) (\<lambda>(i, st1).
     ebind (ok_or NoTargetRecipient (fetch_recipient_by_id i st1)) (\<lambda>target.
     ebind (if rp_remove rp then Inr (remove_reaction (m_id m) (r_id sender) st1)
            else ebind (lift_error (opt_panic ''called `Option::unwrap()` on a `None` value''
                                      (rp_emoji rp))) (\<lambda>emoji.
                 lift_error (save_reaction (m_id m) (r_id sender) emoji data_timestamp st1)))
       (\<lambda>(changed, st2). Inr (if changed then Some (m, s) else None, st2)))))))))"

definition fetch_reactions_for_message :: "int \<Rightarrow> storage \<Rightarrow> (reaction \<times> recipient) list" where
  "fetch_reactions_for_message mid st =
     List.map_filter (\<lambda>x. map_option (Pair x) (fetch_recipient_by_id (x_author x) st))
       (filter (\<lambda>x. x_message_id x = mid) (reactions (db st)))"

end
