(* ===== verification/ReceiptStore.thy ===== *)
theory ReceiptStore
  imports MessageStore
begin

text \<open>
  Receipts, the read flag, the expiry timer, the sending state and the search
  (\<open>whisperfish-store/src/store.rs\<close>).
\<close>

section \<open>Receipts\<close>

record message_pointer =
  mp_message_id :: int
  mp_session_id :: int
  mp_timestamp :: timestamp

definition pointer_of :: "message \<Rightarrow> message_pointer" where
  "pointer_of m = \<lparr> mp_message_id = m_id m, mp_session_id = m_session_id m,
                    mp_timestamp = m_server_timestamp m \<rparr>"

record receipt_counts =
  rc_read :: nat
  rc_delivered :: nat
  rc_viewed :: nat

definition fetch_message_receipts :: "int \<Rightarrow> storage \<Rightarrow> (receipt \<times> recipient) list" where
  "fetch_message_receipts message_id st =
     List.map_filter (\<lambda>t. map_option (Pair t) (fetch_recipient_by_id (t_recipient_id t) st))
       (filter (\<lambda>t. t_message_id t = message_id) (receipts (db st)))"

definition from_receipts :: "(receipt \<times> recipient) list \<Rightarrow> receipt_counts" where
  "from_receipts rs =
     \<lparr> rc_read = count_where (\<lambda>(t, _). t_read t \<noteq> None) rs,
       rc_delivered = count_where (\<lambda>(t, _). t_delivered t \<noteq> None) rs,
       rc_viewed = count_where (\<lambda>(t, _). t_viewed t \<noteq> None) rs \<rparr>"

definition count_message_receipts :: "int \<Rightarrow> storage \<Rightarrow> receipt_counts" where
  "count_message_receipts message_id st =
     \<lparr> rc_read = count_where (\<lambda>t. t_message_id t = message_id \<and> t_read t \<noteq> None) (receipts (db st)),
       rc_delivered = count_where (\<lambda>t. t_message_id t = message_id \<and> t_delivered t \<noteq> None) (receipts (db st)),
       rc_viewed = count_where (\<lambda>t. t_message_id t = message_id \<and> t_viewed t \<noteq> None) (receipts (db st)) \<rparr>"

definition receipt_event :: "message_pointer \<Rightarrow> int \<Rightarrow> event" where
  "receipt_event p rid =
     with_relation SubRecipients (RowId rid)
       (with_transitive_relation SubMessages SubSessions (RowId (mp_session_id p))
         (with_relation SubMessages (RowId (mp_message_id p)) (observe_upsert SubReceipts UnknownKey)))"

definition receipt_key :: "int \<Rightarrow> int \<Rightarrow> receipt \<Rightarrow> bool" where
  "receipt_key mid rid t = (t_message_id t = mid \<and> t_recipient_id t = rid)"

definition new_receipt :: "int \<Rightarrow> int \<Rightarrow> receipt" where
  "new_receipt mid rid =
     \<lparr> t_message_id = mid, t_recipient_id = rid, t_delivered = None, t_read = None, t_viewed = None \<rparr>"

text \<open>
  Update first, then insert if nothing was updated, with a conflict ignored; the number of rows
  touched decides whether an event is sent.
\<close>

definition save_read_receipt :: "int \<Rightarrow> timestamp \<Rightarrow> message_pointer \<Rightarrow> storage \<Rightarrow> storage" where
  "save_read_receipt rid read_at p st =
     (let d = db st; mid = mp_message_id p;
          unread = (\<lambda>t. receipt_key mid rid t \<and> t_read t = None);
          updated = count_where unread (receipts d);
          d1 = d\<lparr>receipts := update_where unread (\<lambda>t. t\<lparr>t_read := Some read_at\<rparr>) (receipts d)\<rparr>;
          insert_it = (updated = 0 \<and> \<not> exists_where (receipt_key mid rid) (receipts d1)
                       \<and> has_key r_id rid (recipients d));
          d2 = (if insert_it
                then d1\<lparr>receipts := receipts d1 @ [(new_receipt mid rid)\<lparr>t_read := Some read_at\<rparr>]\<rparr>
                else d1)
      in emit_if (updated > 0 \<or> insert_it) (receipt_event p rid) (st\<lparr>db := d2\<rparr>))"

definition save_delivery_receipt :: "int \<Rightarrow> timestamp \<Rightarrow> message_pointer \<Rightarrow> storage \<Rightarrow> storage" where
  "save_delivery_receipt rid delivered_at p st =
     (let d = db st; mid = mp_message_id p;
          insert_it = (\<not> exists_where (receipt_key mid rid) (receipts d) \<and> has_key r_id rid (recipients d));
          d1 = (if insert_it
                then d\<lparr>receipts := receipts d @ [(new_receipt mid rid)\<lparr>t_delivered := Some delivered_at\<rparr>]\<rparr>
                else d);
          undelivered = (\<lambda>t. receipt_key mid rid t \<and> t_delivered t = None);
          updated = (if insert_it then 0 else count_where undelivered (receipts d1));
          d2 = (if insert_it then d1
                else d1\<lparr>receipts := update_where undelivered
                       (\<lambda>t. t\<lparr>t_delivered := Some delivered_at\<rparr>) (receipts d1)\<rparr>)
      in emit_if (insert_it \<or> updated > 0) (receipt_event p rid) (st\<lparr>db := d2\<rparr>))"

definition mark_message_read :: "timestamp \<Rightarrow> storage \<Rightarrow> message_pointer option \<times> storage" where
  "mark_message_read ts st =
     (let P = (\<lambda>m. m_server_timestamp m = ts \<and> \<not> m_is_read m);
          st' = update_messages P (\<lambda>m. m\<lparr>m_is_read := True\<rparr>) st
      in case last_option (filter P (messages (db st))) of
           None \<Rightarrow> (None, st')
         | Some m \<Rightarrow> (Some (pointer_of m), emit (message_event (m_id m) (m_session_id m)) st'))"

definition mark_messages_read ::
  "service_id \<Rightarrow> timestamp list \<Rightarrow> timestamp \<Rightarrow> storage \<Rightarrow> (message_pointer list \<times> storage) res" where
  "mark_messages_read sender timestamps read_at st =
     rbind (merge_and_fetch_recipient_by_address None sender Certain st) (\<lambda>(rcpt, st1).
     let P = (\<lambda>m. m_server_timestamp m \<in> set timestamps \<and> \<not> m_is_read m);
         changed = filter P (messages (db st1));
         st2 = emit_all (map (\<lambda>m. message_event (m_id m) (m_session_id m)) changed)
                 (update_messages P (\<lambda>m. m\<lparr>m_is_read := True\<rparr>) st1);
         pointers = map pointer_of
                      (filter (\<lambda>m. m_server_timestamp m \<in> set timestamps) (messages (db st2)))
     in Inr (pointers, fold (save_read_receipt (r_id rcpt) read_at) pointers st2))"

definition mark_messages_delivered ::
  "service_id \<Rightarrow> timestamp list \<Rightarrow> timestamp \<Rightarrow> storage \<Rightarrow> (message_pointer list \<times> storage) res" where
  "mark_messages_delivered receiver_addr timestamps delivered_at st =
     rbind (merge_and_fetch_recipient_by_address None receiver_addr Certain st) (\<lambda>(rcpt, st1).
     let pointers = map pointer_of
                      (filter (\<lambda>m. m_server_timestamp m \<in> set timestamps) (messages (db st1)))
     in if pointers = [] then Inr ([], st1)
        else Inr (pointers, fold (save_delivery_receipt (r_id rcpt) delivered_at) pointers st1))"

section \<open>Reading in the user interface\<close>

definition expiry_pending :: "message \<Rightarrow> bool" where
  "expiry_pending m =
     ((case m_expires_in m of None \<Rightarrow> False | Some s \<Rightarrow> s > 0)
      \<and> m_expiry_started m = None \<and> m_message_type m = None)"

fun dedup :: "'a list \<Rightarrow> 'a list" where
  "dedup [] = []"
| "dedup [x] = [x]"
| "dedup (x # y # ys) = (if x = y then dedup (y # ys) else x # dedup (y # ys))"

definition mark_messages_read_in_ui :: "int list \<Rightarrow> storage \<Rightarrow> storage" where
  "mark_messages_read_in_ui msg_ids st =
     (let P = (\<lambda>m. m_id m \<in> set msg_ids \<and> \<not> m_is_read m);
          unread = map (\<lambda>m. (m_id m, m_session_id m)) (filter P (messages (db st)));
          st1 = update_messages P (\<lambda>m. m\<lparr>m_is_read := True\<rparr>) st;
          Q = (\<lambda>m. m_id m \<in> set msg_ids \<and> expiry_pending m);
          expiring = map (\<lambda>m. (m_id m, m_session_id m)) (filter Q (messages (db st1)));
          st2 = update_messages Q (\<lambda>m. m\<lparr>m_expiry_started := Some (now st)\<rparr>) st1;
          changed = dedup (sort_key fst (sort_key snd (unread @ expiring)))
      in emit_all (map (\<lambda>(m, s). message_event m s) changed) st2)"

section \<open>Expiring messages\<close>

definition start_message_expiry :: "int \<Rightarrow> storage \<Rightarrow> storage" where
  "start_message_expiry message_id st =
     (let P = (\<lambda>m. m_id m = message_id \<and> m_expiry_started m = None \<and> m_message_type m = None) in
      emit_if (exists_where P (messages (db st))) (observe_update SubMessages (RowId message_id))
        (update_messages P (\<lambda>m. m\<lparr>m_expiry_started := Some (now st)\<rparr>) st))"

definition update_message_expiry :: "timestamp \<Rightarrow> timestamp \<Rightarrow> storage \<Rightarrow> storage res" where
  "update_message_expiry message_ts started st =
     (let P = (\<lambda>m. m_server_timestamp m = message_ts
                  \<and> (case m_expiry_started m of None \<Rightarrow> False | Some s \<Rightarrow> s > started)
                  \<and> m_message_type m = None);
          st' = update_messages P (\<lambda>m. m\<lparr>m_expiry_started := Some started\<rparr>) st
      in if exists_where P (messages (db st))
         then rbind (opt_panic ''the message which was just updated''
                       (fetch_message_by_timestamp message_ts st')) (\<lambda>m.
              Inr (emit (observe_update SubMessages (RowId (m_id m))) st'))
         else Inr st')"

text \<open>
  The deadline is computed by \<open>DATETIME(expiry_started, '+' || expires_in || ' seconds')\<close>, to the
  second.  A negative number makes that modifier read \<open>+-5 seconds\<close>, which is none, and the value is
  \<open>NULL\<close>.  A comparison with \<open>NULL\<close> is \<open>NULL\<close>, which a filter does not let pass.
\<close>

definition delete_after :: "message \<Rightarrow> int option" where
  "delete_after m =
     (case (m_expiry_started m, m_expires_in m) of
        (Some t, Some s) \<Rightarrow> if s < 0 then None else Some (t div 1000 + s)
      | _ \<Rightarrow> None)"

definition expires :: "message \<Rightarrow> bool" where
  "expires m = (m_expiry_started m \<noteq> None \<and> m_expires_in m \<noteq> None \<and> m_message_type m = None)"

definition past_deadline :: "timestamp \<Rightarrow> message \<Rightarrow> bool option" where
  "past_deadline utc_now m = map_option (\<lambda>t. t \<le> utc_now div 1000) (delete_after m)"

definition expired :: "timestamp \<Rightarrow> message \<Rightarrow> bool" where
  "expired utc_now m = (past_deadline utc_now m = Some True \<and> expires m)"

definition with_deadline :: "message list \<Rightarrow> (int \<times> int) list" where
  "with_deadline ms =
     sort_key snd (List.map_filter (\<lambda>m. map_option (\<lambda>t. (m_id m, t)) (delete_after m)) ms)"

definition fetch_message_ids_by_expiry :: "bool \<Rightarrow> storage \<Rightarrow> (int \<times> int) list" where
  "fetch_message_ids_by_expiry already_expired st =
     with_deadline (filter (\<lambda>m. expires m \<and> past_deadline (now st) m = Some already_expired) (messages (db st)))"

definition fetch_expired_message_ids :: "storage \<Rightarrow> (int \<times> int) list" where
  "fetch_expired_message_ids st = fetch_message_ids_by_expiry True st"

definition fetch_expiring_message_ids :: "storage \<Rightarrow> (int \<times> int) list" where
  "fetch_expiring_message_ids st = fetch_message_ids_by_expiry False st"

text \<open>
  The next message is fetched without a comparison: a row without a deadline passes the filter and,
  as \<open>NULL\<close> is the least value, comes first; reading the \<open>NULL\<close> as a time fails.
\<close>

definition fetch_next_expiring_message_id :: "storage \<Rightarrow> (int \<times> int) option res" where
  "fetch_next_expiring_message_id st =
     (let rows = filter expires (messages (db st)) in
      if exists_where (\<lambda>m. delete_after m = None) rows then Inl (Panic ''messages by expiry timestamp'')
      else Inr (case with_deadline rows of [] \<Rightarrow> None | x # _ \<Rightarrow> Some x))"

section \<open>The sending state\<close>

definition mark_pending_messages_failed :: "storage \<Rightarrow> nat \<times> storage" where
  "mark_pending_messages_failed st =
     (let P = (\<lambda>m. m_sent_timestamp m = None \<and> m_is_outbound m \<and> \<not> m_sending_has_failed m);
          ids = map m_id (filter P (messages (db st)))
      in (length ids,
          emit_all (map (\<lambda>i. observe_update SubMessages (RowId i)) ids)
            (update_messages P (\<lambda>m. m\<lparr>m_sending_has_failed := True\<rparr>) st)))"

definition fail_message :: "int \<Rightarrow> storage \<Rightarrow> storage" where
  "fail_message message_id st =
     emit (observe_update SubMessages (RowId message_id))
       (update_messages (\<lambda>m. m_id m = message_id \<and> \<not> m_sending_has_failed m)
         (\<lambda>m. m\<lparr>m_sending_has_failed := True\<rparr>) st)"

definition dequeue_message :: "int \<Rightarrow> timestamp \<Rightarrow> bool \<Rightarrow> storage \<Rightarrow> storage" where
  "dequeue_message message_id sent_time unidentified st =
     emit (observe_update SubMessages (RowId message_id))
       (update_messages (\<lambda>m. m_id m = message_id)
         (\<lambda>m. m\<lparr>m_sent_timestamp := Some sent_time, m_sending_has_failed := False,
                m_use_unidentified := unidentified\<rparr>) st)"

section \<open>Search\<close>

text \<open>
  The \<open>LIKE\<close> operator of SQLite with an escape character: \<open>%\<close> matches any text, \<open>_\<close> any one
  character, the escape character makes the next one literal, and letters of the ASCII alphabet
  match in either case.  Texts are their UTF-8 bytes, so \<open>_\<close> takes the continuation bytes of a
  character along.
\<close>

definition lower_char :: "char \<Rightarrow> char" where
  "lower_char c = (if 65 \<le> (of_char c :: nat) \<and> (of_char c :: nat) \<le> 90
                   then char_of (of_char c + (32 :: nat)) else c)"

definition continuation :: "char \<Rightarrow> bool" where
  "continuation c = (128 \<le> (of_char c :: nat) \<and> (of_char c :: nat) < 192)"

datatype like_item = Any_text | Any_char | Lit char | Dangling_escape

definition like_item_of :: "char \<Rightarrow> like_item" where
  "like_item_of c = (if c = CHR ''%'' then Any_text else if c = CHR ''_'' then Any_char
                     else Lit (lower_char c))"

fun like_items :: "char \<Rightarrow> string \<Rightarrow> like_item list" where
  "like_items e [] = []"
| "like_items e [c] = (if c = e then [Dangling_escape] else [like_item_of c])"
| "like_items e (c # c' # cs) =
     (if c = e then Lit (lower_char c') # like_items e cs
      else like_item_of c # like_items e (c' # cs))"

function like_match :: "like_item list \<Rightarrow> string \<Rightarrow> bool" where
  "like_match [] [] = True"
| "like_match [] (d # ds) = False"
| "like_match (Lit c # ps) [] = False"
| "like_match (Lit c # ps) (d # ds) = (c = lower_char d \<and> like_match ps ds)"
| "like_match (Any_char # ps) [] = False"
| "like_match (Any_char # ps) (d # ds) = like_match ps (dropWhile continuation ds)"
| "like_match (Any_text # ps) [] = like_match ps []"
| "like_match (Any_text # ps) (d # ds) = (like_match ps (d # ds) \<or> like_match (Any_text # ps) ds)"
| "like_match (Dangling_escape # ps) ds = False"
  by pat_completeness auto

termination
  by (relation "measure (\<lambda>(ps, ds). length ps + length ds)")
    (auto simp: less_Suc_eq_le le_SucI length_dropWhile_le add_mono)

definition like_escaped :: "string \<Rightarrow> string" where
  "like_escaped search_text =
     concat (map (\<lambda>c. if c = CHR 0x27 then [CHR 0x27, CHR 0x27]
                      else if c = CHR ''%'' then [CHR 0x27, CHR ''%''] else [c]) search_text)"

definition text_like :: "string \<Rightarrow> message \<Rightarrow> bool" where
  "text_like search_text m =
     (case m_text m of None \<Rightarrow> False
      | Some t \<Rightarrow> like_match (like_items (CHR 0x27) (''%'' @ like_escaped search_text @ ''%'')) t)"

definition search_messages :: "string \<Rightarrow> int option \<Rightarrow> storage \<Rightarrow> message list" where
  "search_messages search_text search_session_id st =
     (if length search_text < 3 then []
      else
        sort_key (\<lambda>m. - m_server_timestamp m)
          (rev (sort_key m_id
            (filter (\<lambda>m. m_message_type m = None \<and> text_like search_text m
                \<and> (case search_session_id of None \<Rightarrow> True
                   | Some sid \<Rightarrow> m_session_id m = sid \<and> most_recent m)) (messages (db st))))))"

end
