(* ===== verification/MessageFacts.thy ===== *)
theory MessageFacts
  imports ReceiptStore MergeMoves
begin

text \<open>
  What the operations on messages guarantee: one reaction per author and message, receipts that
  are never taken back, the rows an insertion or an edit leaves, the expiry queues, and what the
  search finds.
\<close>

section \<open>Reactions\<close>

definition reactions_wf :: "reaction list \<Rightarrow> bool" where
  "reactions_wf tab = distinct_keys (\<lambda>x. (x_author x, x_message_id x)) tab"

lemma first_where_unique:
  assumes "distinct_keys key tab" and "r \<in> set tab" and "key r = k"
    and "\<And>s. P s \<longleftrightarrow> key s = k"
  shows "first_where P tab = Some r"
  using assms by (induction tab) (auto simp: distinct_keys_def)

lemma fetch_reaction_other:
  assumes "(author, mid) \<noteq> (sender_id, msg_id)"
    and "\<And>x. x_author (f x) = x_author x \<and> x_message_id (f x) = x_message_id x"
  shows "first_where (\<lambda>x. x_message_id x = mid \<and> x_author x = author)
           (update_where (\<lambda>x. x_author x = sender_id \<and> x_message_id x = msg_id) f tab)
         = first_where (\<lambda>x. x_message_id x = mid \<and> x_author x = author) tab"
  using assms by (induction tab) auto

lemma save_reaction_result:
  assumes wf: "reactions_wf (reactions (db st))"
    and run: "save_reaction msg_id sender_id emoji ts st = Inr (b, st')"
  shows "b \<and> reactions_wf (reactions (db st'))
         \<and> (\<exists>x. fetch_reaction msg_id sender_id st' = Some x \<and> x_emoji x = emoji \<and> x_sent_time x = ts)
         \<and> (\<forall>mid author. (author, mid) \<noteq> (sender_id, msg_id) \<longrightarrow>
              fetch_reaction mid author st' = fetch_reaction mid author st)"
proof -
  let ?key = "\<lambda>x. x_author x = sender_id \<and> x_message_id x = msg_id"
  let ?tab = "reactions (db st)"
  let ?f = "\<lambda>x. x\<lparr>x_emoji := emoji, x_sent_time := ts, x_received_time := now st\<rparr>"
  let ?new = "\<lparr> x_reaction_id = 0, x_message_id = msg_id, x_author = sender_id, x_emoji = emoji,
                x_sent_time = ts, x_received_time = now st \<rparr>"
  show ?thesis
  proof (cases "exists_where ?key ?tab")
    case True
    have rows: "reactions (db st') = update_where ?key ?f ?tab" and b: "b"
      using run True by (auto simp: save_reaction_def Let_def split: if_splits)
    have wf': "reactions_wf (reactions (db st'))"
      using wf unfolding reactions_wf_def rows by (rule distinct_keys_update) simp
    obtain x where x: "x \<in> set ?tab" "?key x"
      using True by (auto simp: exists_where_iff)
    have "first_where (\<lambda>y. x_message_id y = msg_id \<and> x_author y = sender_id) (reactions (db st')) = Some (?f x)"
      using wf' x by (intro first_where_unique[where key = "\<lambda>x. (x_author x, x_message_id x)"
            and k = "(sender_id, msg_id)"])
        (auto simp: reactions_wf_def rows set_update_where)
    moreover have "fetch_reaction mid author st' = fetch_reaction mid author st"
      if "(author, mid) \<noteq> (sender_id, msg_id)" for mid author
      unfolding fetch_reaction_def rows using that by (rule fetch_reaction_other) simp
    ultimately show ?thesis
      using b wf' by (simp add: fetch_reaction_def)
  next
    case False
    have rows: "reactions (db st') = insert_row x_reaction_id with_x_id ?new ?tab" and b: "b"
      using run False by (auto simp: save_reaction_def Let_def split: if_splits)
    have wf': "reactions_wf (reactions (db st'))"
      using wf False unfolding reactions_wf_def rows insert_row_def
      by (auto simp: distinct_keys_def exists_where_iff)
    have "first_where (\<lambda>y. x_message_id y = msg_id \<and> x_author y = sender_id) ?tab = None"
      using False by (auto simp: first_where_None exists_where_iff)
    then have "\<exists>x. fetch_reaction msg_id sender_id st' = Some x \<and> x_emoji x = emoji \<and> x_sent_time x = ts"
      by (simp add: fetch_reaction_def rows insert_row_def first_where_append)
    moreover have "fetch_reaction mid author st' = fetch_reaction mid author st"
      if "(author, mid) \<noteq> (sender_id, msg_id)" for mid author
      using that by (auto simp: fetch_reaction_def rows insert_row_def first_where_append split: option.splits)
    ultimately show ?thesis
      using b wf' by blast
  qed
qed

lemma remove_reaction_result:
  assumes "remove_reaction msg_id sender_id st = (b, st')"
  shows "fetch_reaction msg_id sender_id st' = None
         \<and> b = (fetch_reaction msg_id sender_id st \<noteq> None)
         \<and> (\<forall>mid author. (author, mid) \<noteq> (sender_id, msg_id) \<longrightarrow>
              fetch_reaction mid author st' = fetch_reaction mid author st)"
proof -
  let ?key = "\<lambda>x. x_author x = sender_id \<and> x_message_id x = msg_id"
  have rows: "reactions (db st') = delete_where ?key (reactions (db st))"
    using assms by (auto simp: remove_reaction_def Let_def exists_where_iff delete_where_False split: if_splits)
  have other: "first_where (\<lambda>x. x_message_id x = mid \<and> x_author x = author) (delete_where ?key tab)
      = first_where (\<lambda>x. x_message_id x = mid \<and> x_author x = author) tab"
    if "(author, mid) \<noteq> (sender_id, msg_id)" for mid author tab
    using that by (induction tab) auto
  have "b = (fetch_reaction msg_id sender_id st \<noteq> None)"
    using assms by (auto simp: remove_reaction_def Let_def fetch_reaction_def exists_where_iff
        first_where_None split: if_splits)
  moreover have "fetch_reaction msg_id sender_id st' = None"
    by (auto simp: fetch_reaction_def rows first_where_None set_delete_where)
  ultimately show ?thesis
    using other unfolding fetch_reaction_def rows by blast
qed

section \<open>Receipts\<close>

definition receipts_wf :: "receipt list \<Rightarrow> bool" where
  "receipts_wf tab = distinct_keys (\<lambda>t. (t_message_id t, t_recipient_id t)) tab"

text \<open>A later state of the receipts keeps every receipt with every time it has.\<close>

definition opt_kept :: "'a option \<Rightarrow> 'a option \<Rightarrow> bool" where
  "opt_kept old new = (old = None \<or> new = old)"

definition receipts_grow :: "receipt list \<Rightarrow> receipt list \<Rightarrow> bool" where
  "receipts_grow tab tab' \<longleftrightarrow>
     (\<forall>t\<in>set tab. \<exists>u\<in>set tab'. t_message_id u = t_message_id t \<and> t_recipient_id u = t_recipient_id t
        \<and> opt_kept (t_delivered t) (t_delivered u) \<and> opt_kept (t_read t) (t_read u)
        \<and> opt_kept (t_viewed t) (t_viewed u))"

lemma receipts_grow_refl: "receipts_grow tab tab"
  by (auto simp: receipts_grow_def opt_kept_def)

lemma opt_kept_trans: "opt_kept a b \<Longrightarrow> opt_kept b c \<Longrightarrow> opt_kept a c"
  by (auto simp: opt_kept_def)

lemma receipts_grow_trans:
  assumes "receipts_grow a b" and "receipts_grow b c"
  shows "receipts_grow a c"
  unfolding receipts_grow_def
proof
  fix t assume "t \<in> set a"
  then obtain u where u: "u \<in> set b" "t_message_id u = t_message_id t" "t_recipient_id u = t_recipient_id t"
    "opt_kept (t_delivered t) (t_delivered u)" "opt_kept (t_read t) (t_read u)" "opt_kept (t_viewed t) (t_viewed u)"
    using assms(1) unfolding receipts_grow_def by blast
  obtain v where "v \<in> set c" "t_message_id v = t_message_id u" "t_recipient_id v = t_recipient_id u"
    "opt_kept (t_delivered u) (t_delivered v)" "opt_kept (t_read u) (t_read v)" "opt_kept (t_viewed u) (t_viewed v)"
    using assms(2) u(1) unfolding receipts_grow_def by blast
  then show "\<exists>u\<in>set c. t_message_id u = t_message_id t \<and> t_recipient_id u = t_recipient_id t
        \<and> opt_kept (t_delivered t) (t_delivered u) \<and> opt_kept (t_read t) (t_read u)
        \<and> opt_kept (t_viewed t) (t_viewed u)"
    using u by (intro bexI[of _ v]) (auto intro: opt_kept_trans)
qed

lemma receipts_grow_update:
  assumes "\<And>t. P t \<Longrightarrow> t_message_id (f t) = t_message_id t \<and> t_recipient_id (f t) = t_recipient_id t
             \<and> opt_kept (t_delivered t) (t_delivered (f t)) \<and> opt_kept (t_read t) (t_read (f t))
             \<and> opt_kept (t_viewed t) (t_viewed (f t))"
  shows "receipts_grow tab (update_where P f tab)"
  unfolding receipts_grow_def
proof
  fix t assume "t \<in> set tab"
  then have "(if P t then f t else t) \<in> set (update_where P f tab)"
    unfolding set_update_where by (rule imageI)
  then show "\<exists>u\<in>set (update_where P f tab). t_message_id u = t_message_id t
        \<and> t_recipient_id u = t_recipient_id t
        \<and> opt_kept (t_delivered t) (t_delivered u) \<and> opt_kept (t_read t) (t_read u)
        \<and> opt_kept (t_viewed t) (t_viewed u)"
    using assms[of t] by (intro bexI[of _ "if P t then f t else t"]) (auto simp: opt_kept_def)
qed

lemma receipts_grow_append: "receipts_grow tab (tab @ ts)"
  by (auto simp: receipts_grow_def opt_kept_def)

lemma receipts_wf_append:
  "receipts_wf tab \<Longrightarrow> \<not> exists_where (receipt_key (t_message_id t) (t_recipient_id t)) tab \<Longrightarrow>
     receipts_wf (tab @ [t])"
  by (auto simp: receipts_wf_def distinct_keys_def exists_where_iff receipt_key_def)

definition receipt_with :: "(receipt \<Rightarrow> timestamp option) \<Rightarrow> int \<Rightarrow> int \<Rightarrow> receipt list \<Rightarrow> bool" where
  "receipt_with col mid rid tab = exists_where (\<lambda>t. receipt_key mid rid t \<and> col t \<noteq> None) tab"

lemma receipt_with_grow:
  assumes "receipt_with col mid rid tab" and "receipts_grow tab tab'" and "col = t_read \<or> col = t_delivered"
  shows "receipt_with col mid rid tab'"
proof -
  obtain t where t: "t \<in> set tab" "receipt_key mid rid t" "col t \<noteq> None"
    using assms(1) by (auto simp: receipt_with_def exists_where_iff)
  then obtain u where "u \<in> set tab'" "t_message_id u = t_message_id t" "t_recipient_id u = t_recipient_id t"
    "opt_kept (t_delivered t) (t_delivered u)" "opt_kept (t_read t) (t_read u)"
    using assms(2) unfolding receipts_grow_def by blast
  then show ?thesis
    using t assms(3) unfolding receipt_with_def exists_where_iff
    by (intro bexI[of _ u]) (auto simp: receipt_key_def opt_kept_def)
qed

lemma count_where_pos: "0 < count_where P tab \<longleftrightarrow> exists_where P tab"
  by (induction tab) auto

lemma save_read_receipt_result:
  fixes p :: message_pointer and read_at :: timestamp
  assumes wf: "receipts_wf (receipts (db st))" and rid: "has_key r_id rid (recipients (db st))"
  defines "st' \<equiv> save_read_receipt rid read_at p st"
  shows "receipts_wf (receipts (db st')) \<and> receipts_grow (receipts (db st)) (receipts (db st'))
         \<and> receipt_with t_read (mp_message_id p) rid (receipts (db st'))
         \<and> recipients (db st') = recipients (db st) \<and> messages (db st') = messages (db st)"
proof -
  let ?tab = "receipts (db st)"
  let ?unread = "\<lambda>t. receipt_key (mp_message_id p) rid t \<and> t_read t = None"
  let ?f = "\<lambda>t. t\<lparr>t_read := Some read_at\<rparr>"
  let ?new = "(new_receipt (mp_message_id p) rid)\<lparr>t_read := Some read_at\<rparr>"
  have frame: "recipients (db st') = recipients (db st) \<and> messages (db st') = messages (db st)"
    by (simp add: st'_def save_read_receipt_def Let_def)
  consider (update) "exists_where ?unread ?tab" "receipts (db st') = update_where ?unread ?f ?tab"
    | (insert) "\<not> exists_where (receipt_key (mp_message_id p) rid) ?tab" "receipts (db st') = ?tab @ [?new]"
    | (keep) "exists_where (receipt_key (mp_message_id p) rid) ?tab" "\<not> exists_where ?unread ?tab"
        "receipts (db st') = ?tab"
  proof (cases "exists_where ?unread ?tab")
    case True
    then show thesis
      using that(1) count_where_pos[of ?unread ?tab]
      by (simp add: st'_def save_read_receipt_def Let_def)
  next
    case False
    then have same: "update_where ?unread ?f ?tab = ?tab"
      by (intro update_where_False) (auto simp: exists_where_iff)
    show thesis
      using that(2,3) False same rid count_where_pos[of ?unread ?tab]
      by (cases "exists_where (receipt_key (mp_message_id p) rid) ?tab")
        (simp_all add: st'_def save_read_receipt_def Let_def)
  qed
  then show ?thesis
  proof cases
    case update
    have "receipts_wf (receipts (db st'))"
      using wf unfolding receipts_wf_def update(2) by (rule distinct_keys_update) simp
    moreover have "receipts_grow ?tab (receipts (db st'))"
      unfolding update(2) by (rule receipts_grow_update) (simp add: opt_kept_def)
    moreover have "receipt_with t_read (mp_message_id p) rid (receipts (db st'))"
      unfolding receipt_with_def update(2)
      by (rule exists_where_updated[OF update(1)]) (simp add: receipt_key_def)
    ultimately show ?thesis
      using frame by blast
  next
    case insert
    have "receipts_wf (receipts (db st'))"
      using wf insert(1) unfolding insert(2) by (intro receipts_wf_append) (simp_all add: new_receipt_def)
    moreover have "receipt_with t_read (mp_message_id p) rid (receipts (db st'))"
      by (simp add: receipt_with_def insert(2) receipt_key_def new_receipt_def)
    ultimately show ?thesis
      using frame by (simp add: insert(2) receipts_grow_append)
  next
    case keep
    then have "receipt_with t_read (mp_message_id p) rid (receipts (db st'))"
      by (auto simp: receipt_with_def exists_where_iff)
    then show ?thesis
      using wf keep(3) frame by (simp add: receipts_grow_refl)
  qed
qed

lemma save_delivery_receipt_result:
  fixes p :: message_pointer and delivered_at :: timestamp
  assumes wf: "receipts_wf (receipts (db st))" and rid: "has_key r_id rid (recipients (db st))"
  defines "st' \<equiv> save_delivery_receipt rid delivered_at p st"
  shows "receipts_wf (receipts (db st')) \<and> receipts_grow (receipts (db st)) (receipts (db st'))
         \<and> receipt_with t_delivered (mp_message_id p) rid (receipts (db st'))
         \<and> recipients (db st') = recipients (db st) \<and> messages (db st') = messages (db st)"
proof -
  let ?tab = "receipts (db st)"
  let ?P = "\<lambda>t. receipt_key (mp_message_id p) rid t \<and> t_delivered t = None"
  let ?f = "\<lambda>t. t\<lparr>t_delivered := Some delivered_at\<rparr>"
  let ?new = "(new_receipt (mp_message_id p) rid)\<lparr>t_delivered := Some delivered_at\<rparr>"
  have frame: "recipients (db st') = recipients (db st) \<and> messages (db st') = messages (db st)"
    by (simp add: st'_def save_delivery_receipt_def Let_def)
  consider (insert) "\<not> exists_where (receipt_key (mp_message_id p) rid) ?tab" "receipts (db st') = ?tab @ [?new]"
    | (update) "exists_where (receipt_key (mp_message_id p) rid) ?tab" "receipts (db st') = update_where ?P ?f ?tab"
    using that rid
    by (cases "exists_where (receipt_key (mp_message_id p) rid) ?tab")
      (simp_all add: st'_def save_delivery_receipt_def Let_def)
  then show ?thesis
  proof cases
    case insert
    have "receipts_wf (receipts (db st'))"
      using wf insert(1) unfolding insert(2) by (intro receipts_wf_append) (simp_all add: new_receipt_def)
    moreover have "receipt_with t_delivered (mp_message_id p) rid (receipts (db st'))"
      by (simp add: receipt_with_def insert(2) receipt_key_def new_receipt_def)
    ultimately show ?thesis
      using frame by (simp add: insert(2) receipts_grow_append)
  next
    case update
    obtain t where t: "t \<in> set ?tab" "receipt_key (mp_message_id p) rid t"
      using update(1) by (auto simp: exists_where_iff)
    have "(if ?P t then ?f t else t) \<in> set (receipts (db st'))"
      unfolding update(2) set_update_where using t(1) by (rule imageI)
    then have "receipt_with t_delivered (mp_message_id p) rid (receipts (db st'))"
      using t(2) unfolding receipt_with_def exists_where_iff
      by (intro bexI[of _ "if ?P t then ?f t else t"]) (auto simp: receipt_key_def)
    moreover have "receipts_wf (receipts (db st'))"
      using wf unfolding receipts_wf_def update(2) by (rule distinct_keys_update) simp
    moreover have "receipts_grow ?tab (receipts (db st'))"
      unfolding update(2) by (rule receipts_grow_update) (simp add: opt_kept_def)
    ultimately show ?thesis
      using frame by blast
  qed
qed

text \<open>Both kinds are saved for a list of messages in turn.\<close>

lemma fold_receipts:
  assumes step: "\<And>p st. receipts_wf (receipts (db st)) \<Longrightarrow> has_key r_id rid (recipients (db st)) \<Longrightarrow>
      receipts_wf (receipts (db (f p st))) \<and> receipts_grow (receipts (db st)) (receipts (db (f p st)))
      \<and> receipt_with col (mp_message_id p) rid (receipts (db (f p st)))
      \<and> recipients (db (f p st)) = recipients (db st) \<and> messages (db (f p st)) = messages (db st)"
    and col: "col = t_read \<or> col = t_delivered"
  shows "receipts_wf (receipts (db st)) \<Longrightarrow> has_key r_id rid (recipients (db st)) \<Longrightarrow>
      receipts_wf (receipts (db (fold f ps st))) \<and> receipts_grow (receipts (db st)) (receipts (db (fold f ps st)))
      \<and> (\<forall>p\<in>set ps. receipt_with col (mp_message_id p) rid (receipts (db (fold f ps st))))
      \<and> recipients (db (fold f ps st)) = recipients (db st)
      \<and> messages (db (fold f ps st)) = messages (db st)"
proof (induction ps arbitrary: st)
  case Nil
  then show ?case by (simp add: receipts_grow_refl)
next
  case (Cons p ps)
  note s = step[OF Cons.prems, of p]
  have "has_key r_id rid (recipients (db (f p st)))"
    using s Cons.prems(2) by simp
  then have IH: "receipts_wf (receipts (db (fold f ps (f p st))))
      \<and> receipts_grow (receipts (db (f p st))) (receipts (db (fold f ps (f p st))))
      \<and> (\<forall>q\<in>set ps. receipt_with col (mp_message_id q) rid (receipts (db (fold f ps (f p st)))))
      \<and> recipients (db (fold f ps (f p st))) = recipients (db (f p st))
      \<and> messages (db (fold f ps (f p st))) = messages (db (f p st))"
    using s by (intro Cons.IH) blast
  have "receipt_with col (mp_message_id p) rid (receipts (db (fold f ps (f p st))))"
    using s IH col receipt_with_grow by blast
  moreover have "receipts_grow (receipts (db st)) (receipts (db (fold f ps (f p st))))"
    using s IH receipts_grow_trans by blast
  ultimately show ?case
    using s IH by simp
qed

text \<open>
  Looking for one identifier only never merges: the recipient is found or created, and under unique
  ids it bears the identifier.
\<close>

definition bears_address :: "service_id \<Rightarrow> recipient \<Rightarrow> bool" where
  "bears_address addr r = (case addr of AciId u \<Rightarrow> r_uuid r = Some u | PniId u \<Rightarrow> r_pni r = Some u)"

lemma single_address_merge:
  assumes run: "merge_and_fetch_recipient_by_address None addr trust st = Inr (r, st')"
  shows "receipts (db st') = receipts (db st) \<and> messages (db st') = messages (db st) \<and> r \<in> set (recipients (db st'))"
    and "distinct_keys r_id (recipients (db st)) \<Longrightarrow> bears_address addr r"
proof -
  define a where "a = (case addr of AciId u \<Rightarrow> Some u | PniId _ \<Rightarrow> None)"
  define p where "p = (case addr of PniId u \<Rightarrow> Some u | AciId _ \<Rightarrow> None)"
  obtain i changed d' where
    inner: "merge_and_fetch_recipient_inner (db st) None a p trust False = Inr ((i, changed), d')"
    and row: "fetch_recipient_by_id i (st\<lparr>db := d'\<rparr>) = Some r"
    and st': "st' = emit_if changed (observe_update SubRecipients (RowId i)) (st\<lparr>db := d'\<rparr>)"
    using run
    by (auto simp: merge_and_fetch_recipient_by_address_def merge_and_fetch_recipient_def
        merge_in_transaction_def rbind_eq_Inr transaction_eq_Inr a_def p_def)
  have one: "(a = None) \<noteq> (p = None)"
    by (cases addr) (simp_all add: a_def p_def)
  have found: "r \<in> set (recipients d')" "r_id r = i"
    using row by (auto simp: fetch_recipient_by_id_def dest: first_where_SomeD)
  show "receipts (db st') = receipts (db st) \<and> messages (db st') = messages (db st) \<and> r \<in> set (recipients (db st'))"
    using inner one
  proof (cases rule: single_criterion)
    case (found x)
    then show ?thesis
      using \<open>r \<in> set (recipients d')\<close> by (simp add: st')
  next
    case new
    then show ?thesis
      using \<open>r \<in> set (recipients d')\<close> by (simp add: st' with_new_recipient_def)
  qed
  assume ids: "distinct_keys r_id (recipients (db st))"
  show "bears_address addr r"
    using inner one
  proof (cases rule: single_criterion)
    case (found x)
    then have "r = x"
      using distinct_keys_inj[OF ids _ found(1)] \<open>r \<in> set (recipients d')\<close> \<open>r_id r = i\<close> by simp
    then show ?thesis
      using found(2) by (cases addr) (auto simp: bears_address_def a_def p_def)
  next
    case new
    then have "r = with_r_id i (new_recipient a p None)"
      using row rcpt.find_inserted[of "recipients (db st)" "new_recipient a p None"]
      by (simp add: fetch_recipient_by_id_def with_new_recipient_def insert_row_def)
    then show ?thesis
      by (cases addr) (simp_all add: bears_address_def a_def p_def new_recipient_def)
  qed
qed

text \<open>What a read receipt makes of the receipt that is there for the message and the reader.\<close>

definition fetch_receipt :: "int \<Rightarrow> int \<Rightarrow> receipt list \<Rightarrow> receipt option" where
  "fetch_receipt mid rid tab = first_where (receipt_key mid rid) tab"

definition read_by :: "int \<Rightarrow> int \<Rightarrow> timestamp \<Rightarrow> receipt option \<Rightarrow> receipt" where
  "read_by mid rid read_at old =
     (case old of
        None \<Rightarrow> (new_receipt mid rid)\<lparr>t_read := Some read_at\<rparr>
      | Some t \<Rightarrow> if t_read t = None then t\<lparr>t_read := Some read_at\<rparr> else t)"

lemma read_by_twice [simp]: "read_by mid rid read_at (Some (read_by mid rid read_at old)) = read_by mid rid read_at old"
  by (auto simp: read_by_def new_receipt_def split: option.split)

lemma exists_where_frame:
  "(\<And>r. Q (f r) = Q r) \<Longrightarrow> exists_where Q (update_where P f tab) = exists_where Q tab"
  by (induction tab) auto

lemma save_read_receipt_fetch:
  assumes wf: "receipts_wf (receipts (db st))" and rid: "has_key r_id rid (recipients (db st))"
  shows "fetch_receipt mid k (receipts (db (save_read_receipt rid read_at p st)))
    = (if mid = mp_message_id p \<and> k = rid then Some (read_by mid rid read_at (fetch_receipt mid rid (receipts (db st))))
       else fetch_receipt mid k (receipts (db st)))"
proof -
  let ?tab = "receipts (db st)"
  let ?unread = "\<lambda>t. receipt_key (mp_message_id p) rid t \<and> t_read t = None"
  let ?f = "\<lambda>t. t\<lparr>t_read := Some read_at\<rparr>"
  let ?new = "(new_receipt (mp_message_id p) rid)\<lparr>t_read := Some read_at\<rparr>"
  have at_key: "t_message_id t = mid \<and> t_recipient_id t = k" if "fetch_receipt mid k ?tab = Some t" for t
    using that by (auto simp: fetch_receipt_def receipt_key_def dest: first_where_SomeD)
  have updated: "fetch_receipt mid k (update_where ?unread ?f ?tab)
      = map_option (\<lambda>t. if ?unread t then ?f t else t) (fetch_receipt mid k ?tab)"
    unfolding fetch_receipt_def by (rule first_where_update) (simp add: receipt_key_def)
  show ?thesis
  proof (cases "exists_where (receipt_key (mp_message_id p) rid) ?tab")
    case True
    moreover from this have "exists_where (receipt_key (mp_message_id p) rid) (update_where ?unread ?f ?tab)"
      by (subst exists_where_frame) (simp_all add: receipt_key_def)
    ultimately have "receipts (db (save_read_receipt rid read_at p st)) = update_where ?unread ?f ?tab"
      by (simp add: save_read_receipt_def Let_def)
    moreover have "fetch_receipt (mp_message_id p) rid ?tab \<noteq> None"
      using True by (auto simp: fetch_receipt_def first_where_None exists_where_iff)
    ultimately show ?thesis
      using updated at_key by (cases "fetch_receipt mid k ?tab") (auto simp: read_by_def receipt_key_def)
  next
    case False
    then have none: "\<not> exists_where ?unread ?tab"
      by (auto simp: exists_where_iff)
    then have "update_where ?unread ?f ?tab = ?tab"
      by (intro update_where_False) (auto simp: exists_where_iff)
    with none have "receipts (db (save_read_receipt rid read_at p st)) = ?tab @ [?new]"
      using False rid count_where_pos[of ?unread ?tab] by (simp add: save_read_receipt_def Let_def)
    moreover have "fetch_receipt (mp_message_id p) rid ?tab = None"
      using False by (auto simp: fetch_receipt_def first_where_None exists_where_iff)
    ultimately show ?thesis
      by (auto simp: fetch_receipt_def first_where_append read_by_def receipt_key_def new_receipt_def split: option.split)
  qed
qed

lemma fold_read_receipts:
  assumes "receipts_wf (receipts (db st))" and "has_key r_id rid (recipients (db st))"
  shows "fetch_receipt mid k (receipts (db (fold (save_read_receipt rid read_at) ps st)))
    = (if mid \<in> mp_message_id ` set ps \<and> k = rid then Some (read_by mid rid read_at (fetch_receipt mid rid (receipts (db st))))
       else fetch_receipt mid k (receipts (db st)))"
  using assms
proof (induction ps arbitrary: st)
  case Nil
  then show ?case by simp
next
  case (Cons p ps)
  let ?st = "save_read_receipt rid read_at p st"
  have "receipts_wf (receipts (db ?st))" "has_key r_id rid (recipients (db ?st))"
    using save_read_receipt_result[OF Cons.prems, of read_at p] Cons.prems(2) by simp_all
  then show ?case
    using Cons.IH[of ?st] save_read_receipt_fetch[OF Cons.prems, of mid _ read_at p] by auto
qed

lemma mark_read_result:
  assumes wf: "receipts_wf (receipts (db st))" and ids: "distinct_keys r_id (recipients (db st))"
    and run: "mark_messages_read sender timestamps read_at st = Inr (ps, st')"
  shows "receipts_wf (receipts (db st')) \<and> receipts_grow (receipts (db st)) (receipts (db st'))
         \<and> map pointer_of (filter (\<lambda>m. m_server_timestamp m \<in> set timestamps) (messages (db st'))) = ps
         \<and> (\<exists>reader\<in>set (recipients (db st')). bears_address sender reader
              \<and> (\<forall>mid rid. fetch_receipt mid rid (receipts (db st'))
                   = (if mid \<in> mp_message_id ` set ps \<and> rid = r_id reader
                      then Some (read_by mid rid read_at (fetch_receipt mid rid (receipts (db st))))
                      else fetch_receipt mid rid (receipts (db st)))))
         \<and> (\<forall>m\<in>set (messages (db st')). m_server_timestamp m \<in> set timestamps \<longrightarrow> m_is_read m)"
proof -
  obtain rcpt st1 where merged: "merge_and_fetch_recipient_by_address None sender Certain st = Inr (rcpt, st1)"
    using run by (auto simp: mark_messages_read_def rbind_eq_Inr)
  note m = single_address_merge(1)[OF merged]
  let ?P = "\<lambda>m. m_server_timestamp m \<in> set timestamps \<and> \<not> m_is_read m"
  let ?evs = "map (\<lambda>m. message_event (m_id m) (m_session_id m)) (filter ?P (messages (db st1)))"
  define st2 where "st2 = emit_all ?evs (update_messages ?P (\<lambda>m. m\<lparr>m_is_read := True\<rparr>) st1)"
  have ps: "ps = map pointer_of (filter (\<lambda>m. m_server_timestamp m \<in> set timestamps) (messages (db st2)))"
    and st': "st' = fold (save_read_receipt (r_id rcpt) read_at) ps st2"
    using run merged by (auto simp: mark_messages_read_def st2_def Let_def)
  have db2: "receipts (db st2) = receipts (db st)" "recipients (db st2) = recipients (db st1)"
    "messages (db st2) = update_where ?P (\<lambda>m. m\<lparr>m_is_read := True\<rparr>) (messages (db st1))"
    using m by (simp_all add: st2_def update_messages_def)
  have wf2: "receipts_wf (receipts (db st2))"
    using wf by (simp only: db2)
  have key2: "has_key r_id (r_id rcpt) (recipients (db st2))"
    using m by (auto simp: db2 has_key_iff)
  have res: "receipts_wf (receipts (db st')) \<and> receipts_grow (receipts (db st2)) (receipts (db st'))
      \<and> (\<forall>p\<in>set ps. receipt_with t_read (mp_message_id p) (r_id rcpt) (receipts (db st')))
      \<and> recipients (db st') = recipients (db st2) \<and> messages (db st') = messages (db st2)"
    unfolding st'
    by (rule fold_receipts[OF save_read_receipt_result disjI1[OF refl] wf2 key2])
  have read: "m_is_read m" if "m \<in> set (messages (db st2))" "m_server_timestamp m \<in> set timestamps" for m
    using that by (auto simp: db2 set_update_where)
  have "fetch_receipt mid rid (receipts (db st'))
      = (if mid \<in> mp_message_id ` set ps \<and> rid = r_id rcpt
         then Some (read_by mid rid read_at (fetch_receipt mid rid (receipts (db st))))
         else fetch_receipt mid rid (receipts (db st)))" for mid rid
    using fold_read_receipts[OF wf2 key2, of mid rid read_at ps] by (auto simp: st' db2(1))
  moreover have "rcpt \<in> set (recipients (db st'))" "bears_address sender rcpt"
    using m single_address_merge(2)[OF merged ids] res by (simp_all add: db2(2))
  ultimately show ?thesis
    using res ps read by (auto simp: db2(1) intro!: bexI[of _ rcpt])
qed

end
