(* ===== verification/MessageProps.thy ===== *)
theory MessageProps
  imports MessageFacts SessionFacts
begin

text \<open>
  The properties of messages: reactions, receipts, creation and editing.
\<close>

section \<open>Creating a message\<close>

lemma fetch_session_where_row:
  assumes "fetch_session_where P st = Inr (Some x)"
  shows "\<exists>s\<in>set (sessions (db st)). P s \<and> e_id x = s_id s \<and> e_is_archived x = s_is_archived s"
  using assms
  by (auto simp: fetch_session_where_def join_session_def session_from_def rbind_eq_Inr Let_def
      split: option.splits if_splits dest!: first_where_SomeD)

lemma unarchive_nothing:
  assumes ids: "distinct_keys s_id (sessions (db st))"
    and found: "fetch_session_by_id sid st = Inr (Some x)" and unarchived: "\<not> e_is_archived x"
  shows "mark_session_archived (e_id x) False st = st"
proof -
  obtain s where s: "s \<in> set (sessions (db st))" "e_id x = s_id s" "e_is_archived x = s_is_archived s"
    using found fetch_session_where_row unfolding fetch_session_by_id_def by blast
  have none: "\<not> (s_id r = e_id x \<and> s_is_archived r \<noteq> False)" if "r \<in> set (sessions (db st))" for r
    using distinct_keys_inj[OF ids that s(1)] s unarchived by auto
  then have "update_where (\<lambda>r. s_id r = e_id x \<and> s_is_archived r \<noteq> False)
      (\<lambda>r. r\<lparr>s_is_archived := False\<rparr>) (sessions (db st)) = sessions (db st)"
    by (intro update_where_False) blast
  moreover have "\<not> exists_where (\<lambda>r. s_id r = e_id x \<and> s_is_archived r \<noteq> False) (sessions (db st))"
    using none by (auto simp: exists_where_iff)
  ultimately show ?thesis
    by (simp add: mark_session_archived_def update_session_if_def update_sessions_def emit_if_def Let_def)
qed

lemma create_messageE:
  assumes run: "create_message nm st = Inr (latest, st')"
    and ids: "distinct_keys s_id (sessions (db st))"
  obtains st1 where "insert_message (new_row nm st) st = Inr (latest, st1)"
    and "(case nm_edit nm of None \<Rightarrow> Inr (emit (with_relation SubSessions (RowId (nm_session_id nm))
                  (observe_insert SubMessages (RowId (m_id latest)))) st1)
          | Some e \<Rightarrow> link_edits e latest (nm_session_id nm)
                (emit (with_relation SubSessions (RowId (nm_session_id nm))
                  (observe_insert SubMessages (RowId (m_id latest)))) st1)) = Inr st'"
proof -
  let ?ev = "with_relation SubSessions (RowId (nm_session_id nm)) (observe_insert SubMessages (RowId (m_id latest)))"
  obtain st1 st3 so where
    ins: "insert_message (new_row nm st) st = Inr (latest, st1)"
    and link: "(case nm_edit nm of None \<Rightarrow> Inr (emit ?ev st1)
                | Some e \<Rightarrow> link_edits e latest (nm_session_id nm) (emit ?ev st1)) = Inr st3"
    and so: "fetch_session_by_id (nm_session_id nm) st3 = Inr so"
    and st': "st' = (case so of None \<Rightarrow> st3 | Some s \<Rightarrow>
        if e_is_muted s \<and> \<not> e_is_archived s then mark_session_archived (e_id s) False st3 else st3)"
    using run by (auto simp: create_message_def rbind_eq_Inr Let_def)
  have "sessions (db st3) = sessions (db st)"
    using ins link
    by (auto simp: insert_message_def link_edits_def update_messages_def Let_def split: if_splits option.splits)
  then have "distinct_keys s_id (sessions (db st3))"
    using ids by simp
  then have "st' = st3"
    using st' so unarchive_nothing by (auto split: option.splits if_splits)
  then show thesis
    using that ins link by blast
qed

lemma insert_message_result:
  assumes "insert_message m st = Inr (latest, st1)"
  shows "latest = with_m_id (next_rowid m_id (messages (db st))) m
         \<and> st1 = st\<lparr>db := (db st)\<lparr>messages := messages (db st) @ [latest]\<rparr>\<rparr>"
  using assms by (auto simp: insert_message_def insert_row_def Let_def split: if_splits)

lemma new_row_fields:
  "m_session_id (new_row nm st) = nm_session_id nm"
  "m_text (new_row nm st) = Some (nm_text nm)"
  "m_original_message_id (new_row nm st) = map_option m_id (nm_edit nm)"
  "m_latest_revision_id (new_row nm st) = None"
  "m_revision (new_row nm st) = computed_revision (nm_edit nm) (messages (db st))"
  "m_server_timestamp (new_row nm st) = nm_timestamp nm"
  by (simp_all add: new_row_def default_message_def)

lemma link_edits_result:
  assumes "link_edits e latest sid st = Inr st'"
  shows "messages (db st') = update_where (in_edit_series e)
           (\<lambda>m. m\<lparr>m_original_message_id := Some (original_message_id e),
                  m_latest_revision_id := Some (m_id latest)\<rparr>) (messages (db st))
         \<and> sessions (db st') = sessions (db st)"
  using assms by (auto simp: link_edits_def update_messages_def Let_def split: if_splits)

lemma computed_revision_greater:
  assumes "m \<in> set ms" and "in_edit_series e m"
  shows "m_revision m < computed_revision (Some e) ms"
proof -
  let ?rs = "map m_revision (filter (in_edit_series e) ms)"
  have mem: "m_revision m \<in> set ?rs"
    using assms by auto
  have max: "\<forall>x\<in>set (r # rs). x \<le> fold max rs r" for r :: int and rs
  proof (induction rs arbitrary: r)
    case Nil
    then show ?case by simp
  next
    case (Cons a rs)
    from Cons.IH[of "max a r"] show ?case by auto
  qed
  show ?thesis
  proof (cases ?rs)
    case Nil
    then show ?thesis using mem by simp
  next
    case (Cons r rs)
    have "m_revision m \<le> fold max rs r"
      using mem max[of r rs] unfolding Cons by blast
    then show ?thesis
      using Cons by (simp add: computed_revision_def)
  qed
qed

text \<open>What an edit leaves: the rows of the series are linked, all the others stay as they are.\<close>

lemma create_edit_messages:
  assumes "create_message nm st = Inr (latest, st')" and "nm_edit nm = Some e"
    and "distinct_keys s_id (sessions (db st))"
  shows "messages (db st') = update_where (in_edit_series e)
           (\<lambda>m. m\<lparr>m_original_message_id := Some (original_message_id e),
                  m_latest_revision_id := Some (m_id latest)\<rparr>) (messages (db st) @ [latest])
         \<and> latest = with_m_id (next_rowid m_id (messages (db st))) (new_row nm st)
         \<and> sessions (db st') = sessions (db st)"
proof -
  obtain st1 where "insert_message (new_row nm st) st = Inr (latest, st1)"
    and "link_edits e latest (nm_session_id nm)
           (emit (with_relation SubSessions (RowId (nm_session_id nm))
             (observe_insert SubMessages (RowId (m_id latest)))) st1) = Inr st'"
    using create_messageE[OF assms(1,3)] assms(2) by (metis option.simps(5))
  then show ?thesis
    using link_edits_result insert_message_result by fastforce
qed

lemma latest_fields:
  "m_original_message_id (with_m_id i (new_row nm st)) = map_option m_id (nm_edit nm)"
  "m_latest_revision_id (with_m_id i (new_row nm st)) = None"
  "m_revision (with_m_id i (new_row nm st)) = computed_revision (nm_edit nm) (messages (db st))"
  by (simp_all add: new_row_fields)

section \<open>Properties\<close>

definition message_demo :: storage where
  "message_demo = \<lparr> db = empty_database\<lparr>
        recipients := [with_r_id 1 (new_recipient (Some 7) None (Some ''+1'')),
                       with_r_id 2 (new_recipient (Some 8) None (Some ''+2''))],
        sessions := [blank_session\<lparr>s_id := 1, s_direct_message_recipient_id := Some 2\<rparr>],
        messages := [default_message\<lparr>m_id := 1, m_session_id := 1, m_sender_recipient_id := Some 2,
                                     m_text := Some ''one'', m_server_timestamp := 10\<rparr>,
                     default_message\<lparr>m_id := 2, m_session_id := 1, m_is_outbound := True,
                                     m_text := Some ''two'', m_server_timestamp := 20\<rparr>]\<rparr>,
     conf = \<lparr> cfg_tel = Some ''+1'', cfg_aci = Some 7, cfg_pni = None, cfg_home = ''/h'' \<rparr>,
     self_recipient = None, events = [], now = 1000, files = [] \<rparr>"

text \<open>The state a demonstration continues with.\<close>

definition state_of :: "'s \<Rightarrow> ('a \<times> 's) res \<Rightarrow> 's" where
  "state_of st r = (case r of Inl _ \<Rightarrow> st | Inr (_, st') \<Rightarrow> st')"

definition reacted_demo :: storage where
  "reacted_demo = state_of message_demo
     (save_reaction 1 2 ''b'' 31 (state_of message_demo (save_reaction 1 2 ''a'' 30 message_demo)))"

text \<open>
  C22. One reaction per author and message.  Saving a reaction replaces the author's earlier one
  on that message, removing it takes it away, and neither touches any other author's reaction or
  any reaction to another message.
\<close>

theorem reactions_one_per_author:
  assumes "reactions_wf (reactions (db st))"
    and "save_reaction mid rid emoji ts st = Inr (saved, st1)"
    and "remove_reaction mid rid st1 = (removed, st2)"
  shows "saved \<and> reactions_wf (reactions (db st1))
         \<and> (\<exists>x. fetch_reaction mid rid st1 = Some x \<and> x_emoji x = emoji \<and> x_sent_time x = ts)
         \<and> removed \<and> fetch_reaction mid rid st2 = None
         \<and> (\<forall>m a. (a, m) \<noteq> (rid, mid) \<longrightarrow>
              fetch_reaction m a st1 = fetch_reaction m a st \<and> fetch_reaction m a st2 = fetch_reaction m a st)"
  using save_reaction_result[OF assms(1,2)] remove_reaction_result[OF assms(3)] by auto

theorem reactions_one_per_author_witness:
  "\<exists>x. fetch_reaction 1 2 reacted_demo = Some x \<and> x_emoji x = ''b''"
proof -
  have "reactions_wf (reactions (db (state_of message_demo (save_reaction 1 2 ''a'' 30 message_demo))))"
    by code_simp
  moreover have "save_reaction 1 2 ''b'' 31 (state_of message_demo (save_reaction 1 2 ''a'' 30 message_demo))
      = Inr (True, reacted_demo)"
    by code_simp
  moreover have "remove_reaction 1 2 reacted_demo = (True, snd (remove_reaction 1 2 reacted_demo))"
    by code_simp
  ultimately show ?thesis
    using reactions_one_per_author by blast
qed

text \<open>
  C9. Read receipts.  After \<open>mark_messages_read\<close> every message with one of the timestamps is
  marked read and the pointers returned are those of these messages.  The reader is the recipient
  that bears the sender's service id.  For each of these messages it has a receipt: the one it had
  with the read time it had, or else with the given time, or a new one with the given time and no
  other.  Every other receipt is as it was.
\<close>

theorem read_receipts_recorded:
  assumes "receipts_wf (receipts (db st))" and "distinct_keys r_id (recipients (db st))"
    and "mark_messages_read sender timestamps read_at st = Inr (ps, st')"
  shows "receipts_wf (receipts (db st'))
         \<and> map pointer_of (filter (\<lambda>m. m_server_timestamp m \<in> set timestamps) (messages (db st'))) = ps
         \<and> (\<exists>reader\<in>set (recipients (db st')). bears_address sender reader
              \<and> (\<forall>mid rid. fetch_receipt mid rid (receipts (db st'))
                   = (if mid \<in> mp_message_id ` set ps \<and> rid = r_id reader
                      then Some (read_by mid rid read_at (fetch_receipt mid rid (receipts (db st))))
                      else fetch_receipt mid rid (receipts (db st)))))
         \<and> (\<forall>m\<in>set (messages (db st')). m_server_timestamp m \<in> set timestamps \<longrightarrow> m_is_read m)"
  using mark_read_result[OF assms] by blast

definition read_demo :: storage where
  "read_demo = state_of message_demo (mark_messages_read (AciId 8) [20, 30] 40 message_demo)"

theorem read_receipts_recorded_witness:
  "\<exists>rid t. fetch_receipt 2 rid (receipts (db read_demo)) = Some t \<and> t_read t = Some 40 \<and> t_delivered t = None"
proof -
  let ?ps = "[\<lparr> mp_message_id = 2, mp_session_id = 1, mp_timestamp = 20 \<rparr>]"
  have "receipts_wf (receipts (db message_demo))" "distinct_keys r_id (recipients (db message_demo))"
    by code_simp+
  moreover have "mark_messages_read (AciId 8) [20, 30] 40 message_demo = Inr (?ps, read_demo)"
    by code_simp
  ultimately obtain reader :: recipient where "\<forall>mid rid. fetch_receipt mid rid (receipts (db read_demo))
      = (if mid \<in> mp_message_id ` set ?ps \<and> rid = r_id reader
         then Some (read_by mid rid 40 (fetch_receipt mid rid (receipts (db message_demo))))
         else fetch_receipt mid rid (receipts (db message_demo)))"
    using read_receipts_recorded[of message_demo "AciId 8" "[20, 30]" 40 ?ps read_demo] by blast
  then have "fetch_receipt 2 (r_id reader) (receipts (db read_demo))
      = Some (read_by 2 (r_id reader) 40 (fetch_receipt 2 (r_id reader) (receipts (db message_demo))))"
    by simp
  moreover have "receipts (db message_demo) = []"
    by code_simp
  ultimately show ?thesis
    by (intro exI[of _ "r_id reader"]) (simp add: fetch_receipt_def read_by_def new_receipt_def)
qed

text \<open>
  Creating a message.  A message that is not an edit is appended under a fresh id with the
  fields the caller gave, one insertion event is sent, and nothing else of the state changes; in
  particular the session stays archived or not, as it was.
\<close>

theorem create_message_appends:
  assumes "distinct_keys s_id (sessions (db st))" and "nm_edit nm = None"
    and "create_message nm st = Inr (latest, st')"
  shows "latest = with_m_id (next_rowid m_id (messages (db st))) (new_row nm st)
         \<and> st' = emit (with_relation SubSessions (RowId (nm_session_id nm))
                          (observe_insert SubMessages (RowId (m_id latest))))
                   (st\<lparr>db := (db st)\<lparr>messages := messages (db st) @ [latest]\<rparr>\<rparr>)
         \<and> fetch_message_by_id (m_id latest) st' = Some latest"
proof -
  obtain st1 where ins: "insert_message (new_row nm st) st = Inr (latest, st1)"
    and st': "st' = emit (with_relation SubSessions (RowId (nm_session_id nm))
                          (observe_insert SubMessages (RowId (m_id latest)))) st1"
    using create_messageE[OF assms(3,1)] assms(2) by (metis Inr_inject option.simps(4))
  have "first_where (\<lambda>m. m_id m = next_rowid m_id (messages (db st)))
      (insert_row m_id with_m_id (new_row nm st) (messages (db st)))
      = Some (with_m_id (next_rowid m_id (messages (db st))) (new_row nm st))"
    by (rule msg.find_inserted)
  then show ?thesis
    using insert_message_result[OF ins] by (simp add: st' fetch_message_by_id_def insert_row_def)
qed

definition note_demo :: new_message where
  "note_demo = (new_outgoing 50)\<lparr>nm_session_id := 1, nm_text := ''note''\<rparr>"

theorem create_message_appends_witness:
  "\<exists>m st'. create_message note_demo message_demo = Inr (m, st')
     \<and> fetch_message_by_id 3 st' = Some m \<and> m_text m = Some ''note''"
proof -
  let ?m = "with_m_id 3 (new_row note_demo message_demo)"
  have ids: "distinct_keys s_id (sessions (db message_demo))"
    by code_simp
  have edit: "nm_edit note_demo = None"
    by code_simp
  have run: "create_message note_demo message_demo = Inr (?m, state_of message_demo (create_message note_demo message_demo))"
    by code_simp
  have body: "m_text ?m = Some ''note''"
    by (simp add: new_row_fields note_demo_def)
  have "fetch_message_by_id (m_id ?m) (state_of message_demo (create_message note_demo message_demo)) = Some ?m"
    using create_message_appends[OF ids edit run] by blast
  then show ?thesis
    using run body by (intro exI[of _ ?m] exI[of _ "state_of message_demo (create_message note_demo message_demo)"]) simp
qed

text \<open>
  C8. Editing.  After an edit of an original message, edited before or not, the whole series - the original, its earlier
  edits and the new row - names that original and has the new row as its latest revision, so the
  new row alone counts as most recent; its revision number is above all the others, and the
  messages outside of the series stay as they are.
\<close>

theorem edit_series_linked:
  assumes ids: "distinct_keys s_id (sessions (db st))" "distinct_keys m_id (messages (db st))"
    and edit: "nm_edit nm = Some e" "m_original_message_id e = None \<or> m_original_message_id e = Some (m_id e)"
    and run: "create_message nm st = Inr (latest, st')"
  shows "(\<forall>m\<in>set (filter (in_edit_series e) (messages (db st'))).
             m_original_message_id m = Some (m_id e) \<and> m_latest_revision_id m = Some (m_id latest))
         \<and> map m_id (filter (\<lambda>m. in_edit_series e m \<and> most_recent m) (messages (db st'))) = [m_id latest]
         \<and> (\<forall>m\<in>set (filter (in_edit_series e) (messages (db st))). m_revision m < m_revision latest)
         \<and> filter (\<lambda>m. \<not> in_edit_series e m) (messages (db st'))
             = filter (\<lambda>m. \<not> in_edit_series e m) (messages (db st))"
proof -
  let ?f = "\<lambda>m. m\<lparr>m_original_message_id := Some (original_message_id e),
                m_latest_revision_id := Some (m_id latest)\<rparr>"
  let ?ms = "messages (db st)"
  note res = create_edit_messages[OF run edit(1) ids(1)]
  have orig: "original_message_id e = m_id e"
    using edit(2) by (auto simp: original_message_id_def)
  have new: "m_id latest = next_rowid m_id ?ms" "in_edit_series e latest" "m_revision latest = computed_revision (Some e) ?ms"
    using res edit by (simp_all add: latest_fields in_edit_series_def orig)
  have series: "in_edit_series e (?f m)" for m
    by (simp add: in_edit_series_def)
  have old: "m_id m \<noteq> m_id latest" if "m \<in> set ?ms" for m
    using next_rowid_fresh[OF that, of m_id] by (simp add: new(1))
  have "m_original_message_id m = Some (m_id e) \<and> m_latest_revision_id m = Some (m_id latest)"
    if "m \<in> set (update_where (in_edit_series e) ?f ms)" "in_edit_series e m" for m ms
    using that by (induction ms) (auto simp: orig split: if_splits)
  then have linked: "\<forall>m\<in>set (filter (in_edit_series e) (messages (db st'))).
      m_original_message_id m = Some (m_id e) \<and> m_latest_revision_id m = Some (m_id latest)"
    unfolding conjunct1[OF res] set_filter by blast
  have none: "filter (\<lambda>m. in_edit_series e m \<and> most_recent m) (update_where (in_edit_series e) ?f ms) = []"
    if "\<forall>m\<in>set ms. m_id m \<noteq> m_id latest" for ms
    using that by (auto simp: filter_empty_conv set_update_where most_recent_def)
  have ms': "messages (db st') = update_where (in_edit_series e) ?f ?ms @ [?f latest]"
    using res new(2) by simp
  have "most_recent (?f latest)"
    by (simp add: most_recent_def)
  then have "filter (\<lambda>m. in_edit_series e m \<and> most_recent m) (messages (db st')) = [?f latest]"
    unfolding ms' filter_append using none[of ?ms] old series[of latest] by simp
  then have recent: "map m_id (filter (\<lambda>m. in_edit_series e m \<and> most_recent m) (messages (db st'))) = [m_id latest]"
    by simp
  have "filter (\<lambda>m. \<not> in_edit_series e m) (update_where (in_edit_series e) ?f ms)
      = filter (\<lambda>m. \<not> in_edit_series e m) ms" for ms
    by (induction ms) (simp_all add: series)
  then have "filter (\<lambda>m. \<not> in_edit_series e m) (messages (db st')) = filter (\<lambda>m. \<not> in_edit_series e m) ?ms"
    unfolding ms' filter_append by (simp add: series)
  moreover have "\<forall>m\<in>set (filter (in_edit_series e) ?ms). m_revision m < m_revision latest"
    unfolding new(3) using computed_revision_greater by simp
  ultimately show ?thesis
    using linked recent by (intro conjI)
qed

definition edit_demo :: new_message where
  "edit_demo = (new_outgoing 60)\<lparr>nm_session_id := 1, nm_text := ''two!'',
     nm_edit := fetch_message_by_id 2 message_demo\<rparr>"

definition edited_demo :: storage where
  "edited_demo = state_of message_demo (create_message edit_demo message_demo)"

definition second_edit_demo :: "int \<Rightarrow> storage \<Rightarrow> new_message" where
  "second_edit_demo i st = (new_outgoing 70)\<lparr>nm_session_id := 1, nm_text := ''three'',
     nm_edit := fetch_message_by_id i st\<rparr>"

definition reedited_demo :: storage where
  "reedited_demo = state_of edited_demo (create_message (second_edit_demo 2 edited_demo) edited_demo)"

theorem edit_series_linked_witness:
  "\<exists>e. fetch_message_by_id 2 edited_demo = Some e \<and> m_original_message_id e = Some 2
       \<and> map m_id (filter (\<lambda>m. in_edit_series e m \<and> most_recent m) (messages (db reedited_demo))) = [4]"
proof -
  let ?nm = "second_edit_demo 2 edited_demo"
  let ?e = "the (nm_edit ?nm)"
  let ?m = "with_m_id 4 (new_row ?nm edited_demo)"
  have ids: "distinct_keys s_id (sessions (db edited_demo))" "distinct_keys m_id (messages (db edited_demo))"
    by code_simp+
  have edit: "nm_edit ?nm = Some ?e" "m_original_message_id ?e = None \<or> m_original_message_id ?e = Some (m_id ?e)"
    by code_simp+
  have found: "fetch_message_by_id 2 edited_demo = Some ?e" "m_original_message_id ?e = Some 2"
    by code_simp+
  have run: "create_message ?nm edited_demo = Inr (?m, reedited_demo)"
    by code_simp
  have "m_id ?m = 4"
    by simp
  then show ?thesis
    using edit_series_linked[OF ids edit run] found by auto
qed

text \<open>
  Editing an edit.  When the message that is edited is itself an edit, the new row is linked
  to that edit and not to the original, and so falls out of the series: it never gets a latest
  revision, and stays most recent whatever later edit of the series is made.
\<close>

theorem edit_of_edit_leaves_series:
  assumes ids: "distinct_keys s_id (sessions (db st))"
    and edit: "nm_edit nm = Some e" "m_original_message_id e = Some orig" "orig \<noteq> m_id e"
      "has_key m_id orig (messages (db st))"
    and run: "create_message nm st = Inr (latest, st')"
    and later: "nm_edit nm2 = Some e2" "original_message_id e2 = orig"
      "create_message nm2 st' = Inr (latest2, st2)"
  shows "latest \<in> set (messages (db st2)) \<and> most_recent latest \<and> \<not> in_edit_series e latest"
proof -
  note res = create_edit_messages[OF run edit(1) ids]
  have orig: "original_message_id e = orig"
    by (simp add: original_message_id_def edit)
  have "orig \<noteq> next_rowid m_id (messages (db st))"
    using edit(4) next_rowid_fresh[of _ "messages (db st)" m_id] by (fastforce simp: has_key_iff)
  then have out: "\<not> in_edit_series e latest" "most_recent latest"
    using res edit by (auto simp: in_edit_series_def orig latest_fields most_recent_def)
  then have "latest \<in> set (messages (db st'))"
    using res by (auto simp: set_update_where)
  moreover have "distinct_keys s_id (sessions (db st'))"
    using ids res by simp
  then have "messages (db st2) = update_where (in_edit_series e2)
           (\<lambda>m. m\<lparr>m_original_message_id := Some (original_message_id e2),
                  m_latest_revision_id := Some (m_id latest2)\<rparr>) (messages (db st') @ [latest2])"
    using create_edit_messages[OF later(3,1)] by blast
  moreover have "\<not> in_edit_series e2 latest"
    using out(1) by (simp add: in_edit_series_def later(2) orig)
  ultimately show ?thesis
    using out by (auto simp: set_update_where image_iff intro!: bexI[of _ latest])
qed

definition twice_edited_demo :: storage where
  "twice_edited_demo = state_of edited_demo (create_message (second_edit_demo 3 edited_demo) edited_demo)"

theorem edit_of_edit_leaves_series_witness:
  "\<exists>m\<in>set (messages (db (state_of twice_edited_demo
      (create_message (second_edit_demo 2 twice_edited_demo) twice_edited_demo)))).
        m_text m = Some ''three'' \<and> m_id m = 4 \<and> most_recent m"
proof -
  let ?nm = "second_edit_demo 3 edited_demo"
  let ?nm2 = "second_edit_demo 2 twice_edited_demo"
  let ?e = "the (nm_edit ?nm)"
  let ?e2 = "the (nm_edit ?nm2)"
  have e: "nm_edit ?nm = Some ?e" "m_original_message_id ?e = Some 2" "2 \<noteq> m_id ?e"
    by code_simp+
  let ?m = "with_m_id 4 (new_row ?nm edited_demo)"
  let ?m2 = "with_m_id 5 (new_row ?nm2 twice_edited_demo)"
  have e2: "nm_edit ?nm2 = Some ?e2" "original_message_id ?e2 = 2"
    by code_simp+
  have ids: "distinct_keys s_id (sessions (db edited_demo))"
    and orig: "has_key m_id 2 (messages (db edited_demo))"
    by code_simp+
  have run: "create_message ?nm edited_demo = Inr (?m, twice_edited_demo)"
    by code_simp
  have run2: "create_message ?nm2 twice_edited_demo
      = Inr (?m2, state_of twice_edited_demo (create_message ?nm2 twice_edited_demo))"
    by code_simp
  have "m_text ?m = Some ''three''"
    by (simp add: new_row_fields second_edit_demo_def)
  then show ?thesis
    using edit_of_edit_leaves_series[OF ids e orig run e2 run2] by (intro bexI[of _ ?m]) simp_all
qed

end
