(* ===== verification/AttachmentStore.thy ===== *)
theory AttachmentStore
  imports ReceiptStore Paths
begin

text \<open>
  Attachments and deletion: registering and updating attachment rows, the files behind them, and
  what deleting a message or the expired messages removes
  (\<open>whisperfish-store/src/store.rs\<close>, \<open>Attachment\<close> in \<open>orm.rs\<close>).

  The files of the device are the list \<open>files\<close> of absolute paths.  The regular expression that
  allows a file to be deleted, the guess of a MIME type and the size of a file are parameters;
  \<open>attachment_pointer\<close> is the message of the protocol library, with its two flags decoded.
\<close>

section \<open>Attachment rows\<close>

definition absolute_attachment_path :: "string \<Rightarrow> attachment \<Rightarrow> string option" where
  "absolute_attachment_path home a = map_option (replace_tilde_with_home home) (a_attachment_path a)"

definition absolute_original_path :: "string \<Rightarrow> attachment \<Rightarrow> string option" where
  "absolute_original_path home a = map_option (replace_tilde_with_home home) (a_original_path a)"

definition is_downloaded :: "storage \<Rightarrow> attachment \<Rightarrow> bool" where
  "is_downloaded st a =
     (case absolute_attachment_path (cfg_home (conf st)) a of
        None \<Rightarrow> False | Some path \<Rightarrow> path \<in> set (files st))"

definition is_downloading :: "storage \<Rightarrow> attachment \<Rightarrow> bool" where
  "is_downloading st a = (a_download_length a \<noteq> None \<and> \<not> is_downloaded st a)"

definition can_retry :: "storage \<Rightarrow> attachment \<Rightarrow> bool" where
  "can_retry st a = (\<not> is_downloading st a \<and> a_pointer a \<noteq> None)"

definition fetch_attachment :: "int \<Rightarrow> storage \<Rightarrow> attachment option" where
  "fetch_attachment i st = first_where (\<lambda>a. a_id a = i) (attachments (db st))"

definition fetch_attachments_for_message :: "int \<Rightarrow> storage \<Rightarrow> attachment list" where
  "fetch_attachments_for_message mid st =
     sort_key a_display_order (filter (\<lambda>a. a_message_id a = mid) (attachments (db st)))"

definition default_attachment :: attachment where
  "default_attachment =
     \<lparr> a_id = 0, a_json = None, a_message_id = 0, a_content_type = [], a_name = None,
       a_content_disposition = None, a_content_location = None, a_attachment_path = None,
       a_is_pending_upload = False, a_transfer_file_path = None, a_size = None, a_file_name = None,
       a_unique_id = None, a_digest = None, a_is_voice_note = False, a_is_borderless = False,
       a_is_quote = False, a_width = None, a_height = None, a_sticker_pack_id = None,
       a_sticker_pack_key = None, a_sticker_id = None, a_sticker_emoji = None, a_data_hash = None,
       a_visual_hash = None, a_transform_properties = None, a_transfer_file = None,
       a_display_order = 0, a_upload_timestamp = 1613325949000, a_cdn_number = Some 0, a_caption = None,
       a_pointer = None, a_transcription = None, a_download_length = None, a_original_path = None \<rparr>"

definition insert_attachment :: "string \<Rightarrow> attachment \<Rightarrow> storage \<Rightarrow> (int \<times> storage) res" where
  "insert_attachment msg a st =
     (let d = db st; i = next_rowid a_id (attachments d) in
      if \<not> has_key m_id (a_message_id a) (messages d) then Inl (Panic msg)
      else Inr (i, emit (with_relation SubMessages (RowId (a_message_id a))
                          (observe_insert SubAttachments (RowId i)))
                     (st\<lparr>db := d\<lparr>attachments := insert_row a_id with_a_id a (attachments d)\<rparr>\<rparr>)))"

record attachment_pointer =
  ap_is_voice_message :: bool
  ap_is_borderless :: bool
  ap_upload_timestamp :: timestamp
  ap_cdn_number :: int
  ap_content_type :: string
  ap_blur_hash :: "string option"
  ap_size :: "int option"
  ap_file_name :: "string option"
  ap_caption :: "string option"
  ap_digest :: "blob option"
  ap_width :: "int option"
  ap_height :: "int option"
  ap_encoded :: blob

definition register_attachment :: "int \<Rightarrow> attachment_pointer \<Rightarrow> storage \<Rightarrow> (int \<times> storage) res" where
  "register_attachment msg_id ptr st =
     insert_attachment ''insert attachment''
       (default_attachment\<lparr>
          a_is_voice_note := ap_is_voice_message ptr,
          a_is_borderless := ap_is_borderless ptr,
          a_upload_timestamp := ap_upload_timestamp ptr,
          a_cdn_number := Some (i32_wrap (ap_cdn_number ptr)),
          a_content_type := ap_content_type ptr,
          a_is_quote := False,
          a_message_id := msg_id,
          a_visual_hash := ap_blur_hash ptr,
          a_size := map_option i32_wrap (ap_size ptr),
          a_file_name := ap_file_name ptr,
          a_caption := ap_caption ptr,
          a_data_hash := ap_digest ptr,
          a_width := map_option i32_wrap (ap_width ptr),
          a_height := map_option i32_wrap (ap_height ptr),
          a_pointer := Some (ap_encoded ptr)\<rparr>) st"

text \<open>The last component of a path: none for a root, a dot or a double dot.\<close>

fun split_slash :: "string \<Rightarrow> string \<Rightarrow> string list" where
  "split_slash acc [] = [rev acc]"
| "split_slash acc (c # cs) = (if c = CHR ''/'' then rev acc # split_slash [] cs else split_slash (c # acc) cs)"

definition path_file_name :: "string \<Rightarrow> string option" where
  "path_file_name path =
     (case last_option (filter (\<lambda>c. c \<noteq> [] \<and> c \<noteq> ''.'') (split_slash [] path)) of
        None \<Rightarrow> None
      | Some c \<Rightarrow> if c = ''..'' then None else Some c)"

text \<open>\<open>guess\<close> is the MIME guess for a path, \<open>fsize\<close> the size of a file, if it can be read.\<close>

definition insert_local_attachment ::
  "(string \<Rightarrow> string) \<Rightarrow> (string \<Rightarrow> int option) \<Rightarrow> int \<Rightarrow> string option \<Rightarrow> string \<Rightarrow> string \<Rightarrow> bool
     \<Rightarrow> storage \<Rightarrow> (int \<times> storage) res" where
  "insert_local_attachment guess fsize msg_id mime_type original_path attachment_path voice_note st =
     (if attachment_path \<notin> set (files st) then Inl (Panic [])
      else
        (let home = cfg_home (conf st) in
         insert_attachment ''Insert attachment''
           (default_attachment\<lparr>
              a_message_id := msg_id,
              a_content_type := (case mime_type of Some t \<Rightarrow> t | None \<Rightarrow> guess attachment_path),
              a_attachment_path := Some (replace_home_with_tilde home attachment_path),
              a_original_path := Some (replace_home_with_tilde home original_path),
              a_size := map_option i32_wrap (fsize attachment_path),
              a_file_name := path_file_name original_path,
              a_is_voice_note := voice_note,
              a_is_borderless := False,
              a_is_quote := False\<rparr>) st))"

text \<open>
  \<open>UPDATE attachments SET .. WHERE id = .. RETURNING message_id\<close>: the message of the row, if
  there is one, and the new state.
\<close>

definition update_attachment :: "int \<Rightarrow> (attachment \<Rightarrow> attachment) \<Rightarrow> storage \<Rightarrow> int option \<times> storage" where
  "update_attachment i f st =
     (map_option a_message_id (fetch_attachment i st),
      st\<lparr>db := (db st)\<lparr>attachments := update_where (\<lambda>a. a_id a = i) f (attachments (db st))\<rparr>\<rparr>)"

definition attachment_event :: "(subject \<Rightarrow> primary_key \<Rightarrow> event) \<Rightarrow> int \<Rightarrow> int \<Rightarrow> event" where
  "attachment_event obs i mid = with_relation SubMessages (RowId mid) (obs SubAttachments (RowId i))"

definition update_attachment_observed ::
  "(subject \<Rightarrow> primary_key \<Rightarrow> event) \<Rightarrow> int \<Rightarrow> (attachment \<Rightarrow> attachment) \<Rightarrow> storage \<Rightarrow> bool \<times> storage" where
  "update_attachment_observed obs i f st =
     (case update_attachment i f st of
        (Some mid, st') \<Rightarrow> (True, emit (attachment_event obs i mid) st')
      | (None, st') \<Rightarrow> (False, st'))"

definition store_attachment_visual_hash :: "int \<Rightarrow> string \<Rightarrow> int \<Rightarrow> int \<Rightarrow> storage \<Rightarrow> storage" where
  "store_attachment_visual_hash i hash new_width new_height st =
     snd (update_attachment_observed observe_update i
       (\<lambda>a. a\<lparr>a_visual_hash := Some hash, a_width := Some (i32_wrap new_width),
              a_height := Some (i32_wrap new_height)\<rparr>) st)"

definition store_attachment_pointer :: "int \<Rightarrow> attachment_pointer \<Rightarrow> storage \<Rightarrow> storage" where
  "store_attachment_pointer i ptr st =
     snd (update_attachment_observed observe_update i (\<lambda>a. a\<lparr>a_pointer := Some (ap_encoded ptr)\<rparr>) st)"

definition update_transcription :: "int \<Rightarrow> string \<Rightarrow> storage \<Rightarrow> storage" where
  "update_transcription i new_transcription st =
     snd (update_attachment_observed observe_update i
       (\<lambda>a. a\<lparr>a_transcription := Some new_transcription\<rparr>) st)"

definition update_attachment_path :: "int \<Rightarrow> string \<Rightarrow> storage \<Rightarrow> bool \<times> storage" where
  "update_attachment_path i att_path st =
     update_attachment_observed observe_insert i (\<lambda>a. a\<lparr>a_attachment_path := Some att_path\<rparr>) st"

text \<open>\<open>fname\<close> is the random name of the file.\<close>

definition join_path :: "string \<Rightarrow> string \<Rightarrow> string" where
  "join_path dir fname =
     (if dir = [] then fname
      else if last dir = CHR ''/'' then dir @ fname else dir @ ''/'' @ fname)"

definition save_attachment :: "string \<Rightarrow> int \<Rightarrow> string \<Rightarrow> string \<Rightarrow> storage \<Rightarrow> string \<times> storage" where
  "save_attachment fname i destination ext st =
     (let path = join_path destination fname @ (if ext = [] then [] else ''.'' @ ext);
          stored = replace_home_with_tilde (cfg_home (conf st)) path
      in (path, snd (update_attachment_observed observe_update i
                       (\<lambda>a. a\<lparr>a_attachment_path := Some stored, a_download_length := None\<rparr>)
                       (st\<lparr>files := files st @ [path]\<rparr>))))"

definition update_attachment_progress :: "int \<Rightarrow> int \<Rightarrow> storage \<Rightarrow> (unit + storage)" where
  "update_attachment_progress i stream_len st =
     (case update_attachment_observed observe_update i
             (\<lambda>a. a\<lparr>a_download_length := Some (i32_wrap stream_len)\<rparr>) st of
        (True, st') \<Rightarrow> Inr st'
      | (False, _) \<Rightarrow> Inl ())"

definition reset_attachment_progress :: "int \<Rightarrow> storage \<Rightarrow> (unit + storage)" where
  "reset_attachment_progress i st =
     (case update_attachment_observed observe_update i (\<lambda>a. a\<lparr>a_download_length := None\<rparr>) st of
        (True, st') \<Rightarrow> Inr st'
      | (False, _) \<Rightarrow> Inl ())"

definition reset_all_attachment_progress :: "storage \<Rightarrow> storage" where
  "reset_all_attachment_progress st =
     emit_all (map (\<lambda>a. attachment_event observe_update (a_id a) (a_message_id a)) (attachments (db st)))
       (st\<lparr>db := (db st)\<lparr>attachments :=
             update_where (\<lambda>_. True) (\<lambda>a. a\<lparr>a_download_length := None\<rparr>) (attachments (db st))\<rparr>\<rparr>)"

section \<open>Deleting\<close>

text \<open>
  One attachment: the row goes, and its file too unless another row has the same path.  The path
  that is looked for is the expanded one, and the paths in the table are compared as they are.
\<close>

definition delete_attachment :: "(string \<Rightarrow> bool) \<Rightarrow> int \<Rightarrow> attachment \<Rightarrow> storage \<Rightarrow> bool \<times> storage" where
  "delete_attachment allowed message_id a st =
     (let st1 = emit (with_relation SubMessages (RowId message_id) (observe_delete SubAttachments (RowId (a_id a))))
                  (st\<lparr>db := (db st)\<lparr>attachments := delete_where (\<lambda>b. a_id b = a_id a) (attachments (db st))\<rparr>\<rparr>)
      in case absolute_attachment_path (cfg_home (conf st1)) a of
           None \<Rightarrow> (False, st1)
         | Some path \<Rightarrow>
             if exists_where (\<lambda>b. a_attachment_path b = Some path) (attachments (db st1)) then (False, st1)
             else if (case a_attachment_path a of None \<Rightarrow> False | Some p \<Rightarrow> allowed p)
             then (if path \<in> set (files st1)
                   then (True, st1\<lparr>files := filter (\<lambda>f. f \<noteq> path) (files st1)\<rparr>)
                   else (False, st1))
             else (False, st1))"

fun delete_attachments :: "(string \<Rightarrow> bool) \<Rightarrow> int \<Rightarrow> attachment list \<Rightarrow> storage \<Rightarrow> nat \<times> storage" where
  "delete_attachments allowed message_id [] st = (0, st)"
| "delete_attachments allowed message_id (a # as) st =
     (let (removed, st1) = delete_attachment allowed message_id a st;
          (n, st2) = delete_attachments allowed message_id as st1
      in (if removed then Suc n else n, st2))"

definition delete_attachments_for_message :: "(string \<Rightarrow> bool) \<Rightarrow> int \<Rightarrow> storage \<Rightarrow> nat \<times> storage" where
  "delete_attachments_for_message allowed message_id st =
     delete_attachments allowed message_id (fetch_attachments_for_message message_id st) st"

definition delete_message :: "(string \<Rightarrow> bool) \<Rightarrow> int \<Rightarrow> storage \<Rightarrow> bool \<times> storage" where
  "delete_message allowed message_id st =
     (case fetch_message_by_id message_id st of
        None \<Rightarrow> (False, st)
      | Some m \<Rightarrow>
          (let st1 = update_messages (\<lambda>x. m_id x = message_id)
                       (\<lambda>x. x\<lparr>m_is_remote_deleted := True, m_text := None, m_message_ranges := None\<rparr>) st;
               (n, st2) = delete_attachments_for_message allowed message_id st1;
               P = (\<lambda>x. x_message_id x = message_id);
               gone = map x_reaction_id (filter P (reactions (db st2)));
               st3 = st2\<lparr>db := (db st2)\<lparr>reactions := delete_where P (reactions (db st2))\<rparr>\<rparr>
           in (True, emit_all (map (\<lambda>i. with_relation SubMessages (RowId message_id)
                                          (observe_delete SubReactions (RowId i))) gone)
                       (emit (message_event message_id (m_session_id m)) st3))))"

text \<open>
  Deleting the expired messages removes, by the cascade of the schema, their later revisions as
  well; the rows the statement returns are those it deletes itself, in rowid order, that no
  earlier one has taken along.
\<close>

fun deleted_directly :: "message list \<Rightarrow> message list \<Rightarrow> int list \<Rightarrow> message list" where
  "deleted_directly all [] gone = []"
| "deleted_directly all (m # ms) gone =
     (if m_id m \<in> set gone then deleted_directly all ms gone
      else m # deleted_directly all ms (cascade_ids (length all) all (gone @ [m_id m])))"

fun delete_all_attachments :: "(string \<Rightarrow> bool) \<Rightarrow> message list \<Rightarrow> storage \<Rightarrow> storage" where
  "delete_all_attachments allowed [] st = st"
| "delete_all_attachments allowed (m # ms) st =
     delete_all_attachments allowed ms (snd (delete_attachments_for_message allowed (m_id m) st))"

definition delete_expired_messages :: "(string \<Rightarrow> bool) \<Rightarrow> storage \<Rightarrow> nat \<times> storage" where
  "delete_expired_messages allowed st =
     (let P = expired (now st);
          deletions = deleted_directly (messages (db st)) (filter P (messages (db st))) [];
          st1 = delete_all_attachments allowed deletions (st\<lparr>db := cascade_messages P (db st)\<rparr>)
      in (length deletions,
          emit_all (map (\<lambda>m. with_relation SubSessions (RowId (m_session_id m))
                               (observe_delete SubMessages (RowId (m_id m)))) deletions) st1))"

end
