(* ===== verification/DeletionProps.thy ===== *)
theory DeletionProps
  imports AttachmentStore MessageProps "HOL-Library.Multiset" "HOL-Library.Sublist"
begin

text \<open>
  Expiry, deletion and the search: the expiry queue and its two halves, what deleting a message
  or the expired ones removes and what it leaves, and which messages a search finds.
\<close>

section \<open>The expiry queue\<close>

lemma sort_key_split:
  fixes f :: "'a \<Rightarrow> 'k::linorder"
  assumes low: "\<And>x. x \<in> set xs \<Longrightarrow> P x \<longleftrightarrow> f x \<le> k"
  shows "sort_key f xs = sort_key f (filter P xs) @ sort_key f (filter (\<lambda>x. \<not> P x) xs)"
proof (rule properties_for_sort_key)
  show "mset (sort_key f (filter P xs) @ sort_key f (filter (\<lambda>x. \<not> P x) xs)) = mset xs"
    by (simp add: multiset_partition[symmetric])
  show "sorted (map f (sort_key f (filter P xs) @ sort_key f (filter (\<lambda>x. \<not> P x) xs)))"
    using low by (auto simp: sorted_append not_le intro: order_trans[of _ k])
  fix y assume y: "y \<in> set (sort_key f (filter P xs) @ sort_key f (filter (\<lambda>x. \<not> P x) xs))"
  have same: "P x \<longleftrightarrow> P y" if "x \<in> set xs" "f y = f x" for x
    using that y low by auto
  have "filter (\<lambda>x. f y = f x) (filter P xs) @ filter (\<lambda>x. f y = f x) (filter (\<lambda>x. \<not> P x) xs)
      = filter (\<lambda>x. f y = f x) xs"
  proof (cases "P y")
    case True
    then have "filter (\<lambda>x. f y = f x) (filter P xs) = filter (\<lambda>x. f y = f x) xs"
      and "filter (\<lambda>x. f y = f x) (filter (\<lambda>x. \<not> P x) xs) = []"
      using same by (auto simp: filter_empty_conv intro!: filter_cong)
    then show ?thesis by simp
  next
    case False
    then have "filter (\<lambda>x. f y = f x) (filter (\<lambda>x. \<not> P x) xs) = filter (\<lambda>x. f y = f x) xs"
      and "filter (\<lambda>x. f y = f x) (filter P xs) = []"
      using same by (auto simp: filter_empty_conv intro!: filter_cong)
    then show ?thesis by simp
  qed
  then show "filter (\<lambda>x. f y = f x) (sort_key f (filter P xs) @ sort_key f (filter (\<lambda>x. \<not> P x) xs))
      = filter (\<lambda>x. f y = f x) xs"
    by (simp add: sort_key_stable eq_commute[of "f y"])
qed

definition deadlines :: "message list \<Rightarrow> (int \<times> int) list" where
  "deadlines ms = List.map_filter (\<lambda>m. map_option (\<lambda>t. (m_id m, t)) (delete_after m)) ms"

lemma deadlines_simps [simp]:
  "deadlines [] = []"
  "deadlines (m # ms) = (case delete_after m of None \<Rightarrow> deadlines ms | Some t \<Rightarrow> (m_id m, t) # deadlines ms)"
  by (simp_all add: deadlines_def List.map_filter_simps split: option.splits)

lemma deadlines_expired:
  "deadlines (filter (\<lambda>m. expires m \<and> past_deadline t m = Some b) ms)
     = filter (\<lambda>x. (snd x \<le> t div 1000) = b) (deadlines (filter expires ms))"
  by (induction ms) (auto simp: past_deadline_def split: option.splits)

lemma queue_split:
  "with_deadline (filter expires (messages (db st)))
     = fetch_expired_message_ids st @ fetch_expiring_message_ids st"
proof -
  let ?d = "deadlines (filter expires (messages (db st)))"
  have "sort_key snd ?d = sort_key snd (filter (\<lambda>x. snd x \<le> now st div 1000) ?d)
      @ sort_key snd (filter (\<lambda>x. \<not> snd x \<le> now st div 1000) ?d)"
    by (rule sort_key_split[where k = "now st div 1000"]) simp
  then show ?thesis
    by (simp add: with_deadline_def fetch_expired_message_ids_def fetch_expiring_message_ids_def
        fetch_message_ids_by_expiry_def deadlines_def[symmetric] deadlines_expired
        deadlines_expired[where b = True, simplified] deadlines_expired[where b = False, simplified])
qed

section \<open>Deleting the expired messages\<close>

lemma deleted_directly_subset: "set (deleted_directly all ms gone) \<subseteq> set ms"
  by (induction all ms gone rule: deleted_directly.induct) auto

lemma delete_all_attachments_none:
  assumes "\<And>m a. m \<in> set ms \<Longrightarrow> a \<in> set (attachments (db st)) \<Longrightarrow> a_message_id a \<noteq> m_id m"
  shows "delete_all_attachments allowed ms st = st"
  using assms
proof (induction ms)
  case Nil
  then show ?case by simp
next
  case (Cons m ms)
  then have "filter (\<lambda>a. a_message_id a = m_id m) (attachments (db st)) = []"
    by (auto simp: filter_empty_conv)
  then show ?case
    using Cons by (simp add: delete_attachments_for_message_def fetch_attachments_for_message_def)
qed

lemma delete_expired_result:
  assumes "delete_expired_messages allowed st = (n, st')"
  shows "db st' = cascade_messages (expired (now st)) (db st)" and "files st' = files st"
    and "now st' = now st"
proof -
  let ?P = "expired (now st)"
  let ?dels = "deleted_directly (messages (db st)) (filter ?P (messages (db st))) []"
  have "delete_all_attachments allowed ?dels (st\<lparr>db := cascade_messages ?P (db st)\<rparr>)
      = st\<lparr>db := cascade_messages ?P (db st)\<rparr>"
  proof (rule delete_all_attachments_none)
    fix m a
    assume "m \<in> set ?dels" and a: "a \<in> set (attachments (db (st\<lparr>db := cascade_messages ?P (db st)\<rparr>)))"
    then have "m \<in> set (messages (db st))" "?P m"
      using deleted_directly_subset by fastforce+
    then have "m_id m \<in> cascade_set ?P (db st)"
      by (rule cascade_set_contains)
    then show "a_message_id a \<noteq> m_id m"
      using a by (auto simp: cascade_messages_fields set_delete_where)
  qed
  then show "db st' = cascade_messages ?P (db st)" and "files st' = files st" and "now st' = now st"
    using assms by (auto simp: delete_expired_messages_def Let_def)
qed

section \<open>Deleting a message\<close>

lemma delete_attachment_db:
  "db (snd (delete_attachment allowed mid a st))
     = (db st)\<lparr>attachments := delete_where (\<lambda>b. a_id b = a_id a) (attachments (db st))\<rparr>"
  "conf (snd (delete_attachment allowed mid a st)) = conf st"
  "now (snd (delete_attachment allowed mid a st)) = now st"
  by (auto simp: delete_attachment_def Let_def split: option.splits)

lemma delete_attachment_files:
  "f \<in> set (files (snd (delete_attachment allowed mid a st))) \<longleftrightarrow>
     f \<in> set (files st) \<and>
     \<not> (absolute_attachment_path (cfg_home (conf st)) a = Some f
        \<and> \<not> exists_where (\<lambda>b. a_attachment_path b = Some f)
              (delete_where (\<lambda>b. a_id b = a_id a) (attachments (db st)))
        \<and> (case a_attachment_path a of None \<Rightarrow> False | Some p \<Rightarrow> allowed p))"
  by (auto simp: delete_attachment_def Let_def split: option.splits)

lemma delete_where_twice:
  "delete_where P (delete_where Q tab) = delete_where (\<lambda>r. Q r \<or> P r) tab"
  by (induction tab) auto

lemma delete_attachments_db:
  "db (snd (delete_attachments allowed mid as st))
     = (db st)\<lparr>attachments := delete_where (\<lambda>b. a_id b \<in> a_id ` set as) (attachments (db st))\<rparr>
   \<and> conf (snd (delete_attachments allowed mid as st)) = conf st
   \<and> now (snd (delete_attachments allowed mid as st)) = now st"
proof (induction as arbitrary: st)
  case Nil
  then show ?case by (simp add: delete_where_False)
next
  case (Cons a as)
  let ?st1 = "snd (delete_attachment allowed mid a st)"
  have "snd (delete_attachments allowed mid (a # as) st) = snd (delete_attachments allowed mid as ?st1)"
    by (simp add: Let_def split: prod.splits)
  then show ?case
    using Cons.IH[of ?st1] by (simp add: delete_attachment_db delete_where_twice)
qed

lemma delete_attachments_files:
  "f \<in> set (files st) \<Longrightarrow> f \<notin> set (files (snd (delete_attachments allowed mid as st))) \<Longrightarrow>
     \<exists>a\<in>set as. absolute_attachment_path (cfg_home (conf st)) a = Some f"
proof (induction as arbitrary: st)
  case Nil
  then show ?case by simp
next
  case (Cons a as)
  let ?st1 = "snd (delete_attachment allowed mid a st)"
  have eq: "snd (delete_attachments allowed mid (a # as) st) = snd (delete_attachments allowed mid as ?st1)"
    by (simp add: Let_def split: prod.splits)
  show ?case
  proof (cases "f \<in> set (files ?st1)")
    case True
    then show ?thesis
      using Cons.IH[of ?st1] Cons.prems(2) unfolding eq delete_attachment_db(2) by auto
  next
    case False
    then show ?thesis
      using Cons.prems(1) delete_attachment_files[of f allowed mid a st] by auto
  qed
qed

definition redacted :: "message \<Rightarrow> message" where
  "redacted m = m\<lparr>m_is_remote_deleted := True, m_text := None, m_message_ranges := None\<rparr>"

lemma delete_message_result:
  assumes ids: "distinct_keys a_id (attachments (db st))"
    and found: "fetch_message_by_id mid st = Some m"
    and run: "delete_message allowed mid st = (b, st')"
  shows "b" and "messages (db st') = update_where (\<lambda>x. m_id x = mid) redacted (messages (db st))"
    and "attachments (db st') = delete_where (\<lambda>a. a_message_id a = mid) (attachments (db st))"
    and "reactions (db st') = delete_where (\<lambda>x. x_message_id x = mid) (reactions (db st))"
    and "receipts (db st') = receipts (db st)" and "sessions (db st') = sessions (db st)"
    and "files st' = files (snd (delete_attachments allowed mid (fetch_attachments_for_message mid st)
           (update_messages (\<lambda>x. m_id x = mid) redacted st)))"
    and "conf st' = conf st"
proof -
  let ?st1 = "update_messages (\<lambda>x. m_id x = mid) redacted st"
  let ?as = "fetch_attachments_for_message mid st"
  have st1: "attachments (db ?st1) = attachments (db st)" "conf ?st1 = conf st"
    by (simp_all add: update_messages_def)
  have as: "fetch_attachments_for_message mid ?st1 = ?as"
    by (simp add: fetch_attachments_for_message_def st1)
  have redact: "(\<lambda>x. x\<lparr>m_is_remote_deleted := True, m_text := None, m_message_ranges := None\<rparr>) = redacted"
    by (simp add: redacted_def fun_eq_iff)
  have "b" and "db st' = (db (snd (delete_attachments allowed mid ?as ?st1)))
      \<lparr>reactions := delete_where (\<lambda>x. x_message_id x = mid)
         (reactions (db (snd (delete_attachments allowed mid ?as ?st1))))\<rparr>"
    and files: "files st' = files (snd (delete_attachments allowed mid ?as ?st1))"
    and conf: "conf st' = conf (snd (delete_attachments allowed mid ?as ?st1))"
    using run found
    by (auto simp: delete_message_def Let_def redact delete_attachments_for_message_def as split: prod.splits)
  moreover have "a_id a \<in> a_id ` set ?as \<longleftrightarrow> a_message_id a = mid" if "a \<in> set (attachments (db st))" for a
    using distinct_keys_inj[OF ids that] that by (auto simp: fetch_attachments_for_message_def)
  then have "delete_where (\<lambda>a. a_id a \<in> a_id ` set ?as) (attachments (db st))
      = delete_where (\<lambda>a. a_message_id a = mid) (attachments (db st))"
    by (auto simp: delete_where_def intro!: filter_cong)
  ultimately show "b" and "messages (db st') = update_where (\<lambda>x. m_id x = mid) redacted (messages (db st))"
    and "attachments (db st') = delete_where (\<lambda>a. a_message_id a = mid) (attachments (db st))"
    and "reactions (db st') = delete_where (\<lambda>x. x_message_id x = mid) (reactions (db st))"
    and "receipts (db st') = receipts (db st)" and "sessions (db st') = sessions (db st)"
    and "files st' = files (snd (delete_attachments allowed mid ?as ?st1))" and "conf st' = conf st"
    by (simp_all add: delete_attachments_db update_messages_def)
qed

section \<open>The search\<close>

lemma like_match_any: "like_match (Any_text # ps) ds \<longleftrightarrow> (\<exists>us vs. ds = us @ vs \<and> like_match ps vs)"
proof (induction ds)
  case Nil
  then show ?case by simp
next
  case (Cons d ds)
  have "(\<exists>us vs. d # ds = us @ vs \<and> like_match ps vs)
      \<longleftrightarrow> like_match ps (d # ds) \<or> (\<exists>us vs. ds = us @ vs \<and> like_match ps vs)"
    by (auto simp: Cons_eq_append_conv)
  then show ?case using Cons by simp
qed

lemma like_match_lits:
  "like_match (map Lit l @ ps) ds \<longleftrightarrow> (\<exists>us vs. ds = us @ vs \<and> map lower_char us = l \<and> like_match ps vs)"
proof (induction l arbitrary: ds)
  case Nil
  then show ?case by simp
next
  case (Cons c l)
  then show ?case
    by (cases ds) (auto simp: Cons_eq_append_conv map_eq_Cons_conv)
qed

lemma like_items_escaped:
  "CHR ''_'' \<notin> set s \<Longrightarrow> like_items (CHR 0x27) (like_escaped s @ ''%'') = map Lit (map lower_char s) @ [Any_text]"
proof (induction s)
  case Nil
  then show ?case by (simp add: like_escaped_def like_item_of_def)
next
  case (Cons c s)
  obtain d ds where "like_escaped s @ ''%'' = d # ds"
    by (cases "like_escaped s @ ''%''") auto
  then show ?case
    using Cons by (auto simp: like_escaped_def like_item_of_def)
qed

lemma like_match_any_last: "like_match [Any_text] ds"
  by (induction ds) simp_all

lemma like_match_contains:
  assumes "CHR ''_'' \<notin> set s"
  shows "like_match (like_items (CHR 0x27) (''%'' @ like_escaped s @ ''%'')) t
           \<longleftrightarrow> sublist (map lower_char s) (map lower_char t)"
proof -
  obtain d ds where "like_escaped s @ ''%'' = d # ds"
    by (cases "like_escaped s @ ''%''") auto
  then have "like_items (CHR 0x27) (''%'' @ like_escaped s @ ''%'')
      = Any_text # map Lit (map lower_char s) @ [Any_text]"
    using like_items_escaped[OF assms] by (simp add: like_item_of_def)
  then have "like_match (like_items (CHR 0x27) (''%'' @ like_escaped s @ ''%'')) t \<longleftrightarrow>
      (\<exists>us vs ws. t = us @ vs @ ws \<and> map lower_char vs = map lower_char s)"
    by (simp only: like_match_any[of "map Lit (map lower_char s) @ [Any_text]"] like_match_lits
        like_match_any_last) blast
  also have "\<dots> \<longleftrightarrow> sublist (map lower_char s) (map lower_char t)"
  proof
    assume "\<exists>us vs ws. t = us @ vs @ ws \<and> map lower_char vs = map lower_char s"
    then obtain us vs ws where "t = us @ vs @ ws" "map lower_char vs = map lower_char s"
      by blast
    then show "sublist (map lower_char s) (map lower_char t)"
      unfolding sublist_def by (intro exI[of _ "map lower_char us"] exI[of _ "map lower_char ws"]) simp
  next
    assume "sublist (map lower_char s) (map lower_char t)"
    then obtain ps ss where "map lower_char t = ps @ map lower_char s @ ss"
      unfolding sublist_def by blast
    then obtain us t2 where t: "t = us @ t2" "map lower_char t2 = map lower_char s @ ss"
      by (metis map_eq_append_conv)
    then obtain vs ws where "t2 = vs @ ws" "map lower_char s = map lower_char vs"
      by (metis map_eq_append_conv)
    then have "t = us @ vs @ ws" "map lower_char s = map lower_char vs"
      using t by simp_all
    then show "\<exists>us vs ws. t = us @ vs @ ws \<and> map lower_char vs = map lower_char s"
      by (intro exI[of _ us] exI[of _ vs] exI[of _ ws]) simp
  qed
  finally show ?thesis .
qed

section \<open>Properties\<close>

text \<open>
  The expiry queue.  The messages with a deadline, soonest first, are the expired ones
  followed by the expiring ones: the first have a deadline up to the current second, the others a
  later one, both come in the order of their deadlines, and the next message to expire is the
  head of the whole queue, unless there is a running timer without a deadline, which panics.
\<close>

theorem expiry_queue_split:
  "with_deadline (filter expires (messages (db st)))
     = fetch_expired_message_ids st @ fetch_expiring_message_ids st
   \<and> sorted (map snd (fetch_expired_message_ids st @ fetch_expiring_message_ids st))
   \<and> list_all (\<lambda>x. snd x \<le> now st div 1000) (fetch_expired_message_ids st)
   \<and> list_all (\<lambda>x. now st div 1000 < snd x) (fetch_expiring_message_ids st)
   \<and> fetch_next_expiring_message_id st
       = (if exists_where (\<lambda>m. expires m \<and> delete_after m = None) (messages (db st))
          then Inl (Panic ''messages by expiry timestamp'')
          else Inr (case fetch_expired_message_ids st @ fetch_expiring_message_ids st of [] \<Rightarrow> None | x # _ \<Rightarrow> Some x))"
proof -
  have "sorted (map snd (with_deadline (filter expires (messages (db st)))))"
    by (simp add: with_deadline_def)
  moreover have "list_all (\<lambda>x. snd x \<le> now st div 1000) (fetch_expired_message_ids st)"
    by (simp add: list_all_iff fetch_expired_message_ids_def fetch_message_ids_by_expiry_def with_deadline_def
        deadlines_def[symmetric] deadlines_expired[where b = True, simplified])
  moreover have "list_all (\<lambda>x. now st div 1000 < snd x) (fetch_expiring_message_ids st)"
    by (simp add: list_all_iff fetch_expiring_message_ids_def fetch_message_ids_by_expiry_def with_deadline_def
        deadlines_def[symmetric] deadlines_expired[where b = False, simplified])
  moreover have "exists_where (\<lambda>m. delete_after m = None) (filter expires (messages (db st)))
      \<longleftrightarrow> exists_where (\<lambda>m. expires m \<and> delete_after m = None) (messages (db st))"
    by (auto simp: exists_where_iff)
  ultimately show ?thesis
    by (simp add: queue_split fetch_next_expiring_message_id_def Let_def)
qed

text \<open>
  C23. Deleting the expired messages.  Afterwards no message is expired any more and nothing is in
  the expired half of the queue; what is left of the messages is what neither expired nor
  referred to a deleted one, as it was; the references of the database stay intact.  A message
  has expired when it is an ordinary one whose timer is not negative, was started, and has run
  out by the current second; with a negative timer it never expires.  The files of the deleted
  attachments, though, are all left on the disk.
\<close>

theorem expired_messages_deleted:
  assumes "foreign_keys_ok (db st)"
    and "delete_expired_messages allowed st = (n, st')"
  shows "\<not> exists_where (expired (now st')) (messages (db st')) \<and> fetch_expired_message_ids st' = []
         \<and> messages (db st') = delete_where (\<lambda>m. m_id m \<in> cascade_set (expired (now st)) (db st)) (messages (db st))
         \<and> cascade_closed (messages (db st)) (cascade_set (expired (now st)) (db st))
         \<and> foreign_keys_ok (db st') \<and> files st' = files st
         \<and> (\<forall>m. expired (now st) m \<longleftrightarrow> m_message_type m = None
              \<and> (\<exists>t s. m_expiry_started m = Some t \<and> m_expires_in m = Some s \<and> 0 \<le> s
                   \<and> t div 1000 + s \<le> now st div 1000))"
proof -
  note res = delete_expired_result[OF assms(2)]
  have none: "\<not> expired (now st') m" if "m \<in> set (messages (db st'))" for m
    using that cascade_set_contains[of m "db st" "expired (now st)"]
    by (auto simp: res cascade_messages_fields set_delete_where)
  then have empty: "filter (\<lambda>m. expires m \<and> past_deadline (now st') m = Some True) (messages (db st')) = []"
    by (auto simp: filter_empty_conv expired_def)
  have "fetch_expired_message_ids st' = []"
    by (simp add: fetch_expired_message_ids_def fetch_message_ids_by_expiry_def with_deadline_def empty List.map_filter_simps)
  moreover have "\<not> exists_where (expired (now st')) (messages (db st'))"
    using none by (auto simp: exists_where_iff)
  moreover have "expired (now st) m \<longleftrightarrow> m_message_type m = None
      \<and> (\<exists>t s. m_expiry_started m = Some t \<and> m_expires_in m = Some s \<and> 0 \<le> s
           \<and> t div 1000 + s \<le> now st div 1000)" for m
    by (auto simp: expired_def past_deadline_def delete_after_def expires_def split: option.splits if_splits)
  ultimately show ?thesis
    using foreign_keys_ok_cascade[OF assms(1)] cascade_set_closed res(2)
    by (simp add: res(1) cascade_messages_fields)
qed

definition expiry_demo :: storage where
  "expiry_demo = message_demo\<lparr>files := [''/h/a''], now := 50000, db := (db message_demo)\<lparr>
     messages := map (\<lambda>m. m\<lparr>m_expires_in := Some (m_id m * 20), m_expiry_started := Some 20000\<rparr>)
                   (messages (db message_demo)),
     attachments := [default_attachment\<lparr>a_id := 1, a_message_id := 1, a_attachment_path := Some ''/h/a''\<rparr>]\<rparr>\<rparr>"

theorem expired_messages_deleted_witness:
  "fetch_expired_message_ids expiry_demo = [(1, 40)]
   \<and> fetch_expired_message_ids (snd (delete_expired_messages (\<lambda>_. True) expiry_demo)) = []
   \<and> files (snd (delete_expired_messages (\<lambda>_. True) expiry_demo)) = [''/h/a'']"
proof -
  have "fetch_expired_message_ids expiry_demo = [(1, 40)]" "files expiry_demo = [''/h/a'']"
    by code_simp+
  moreover have "foreign_keys_ok (db expiry_demo)"
    by code_simp
  ultimately show ?thesis
    using expired_messages_deleted[of expiry_demo "\<lambda>_. True"] by (metis prod.collapse)
qed

text \<open>
  C24. Deleting a message.  The row stays and loses its text and its formatting, its attachments
  and reactions are removed, and every other message, attachment and reaction, all the receipts
  and the sessions stay; a file that disappears is that of one of the attachments.
\<close>

theorem delete_message_effect:
  assumes "distinct_keys a_id (attachments (db st))"
    and "fetch_message_by_id mid st = Some m"
    and "delete_message allowed mid st = (b, st')"
  shows "b \<and> messages (db st') = update_where (\<lambda>x. m_id x = mid) redacted (messages (db st))
         \<and> fetch_message_by_id mid st' = Some (redacted m)
         \<and> attachments (db st') = delete_where (\<lambda>a. a_message_id a = mid) (attachments (db st))
         \<and> reactions (db st') = delete_where (\<lambda>x. x_message_id x = mid) (reactions (db st))
         \<and> receipts (db st') = receipts (db st) \<and> sessions (db st') = sessions (db st)
         \<and> (\<forall>f\<in>set (files st) - set (files st'). \<exists>a\<in>set (fetch_attachments_for_message mid st).
               absolute_attachment_path (cfg_home (conf st)) a = Some f)"
proof -
  note res = delete_message_result[OF assms]
  have "fetch_message_by_id mid st' = map_option (\<lambda>x. if m_id x = mid then redacted x else x) (fetch_message_by_id mid st)"
    unfolding fetch_message_by_id_def res(2) by (rule first_where_update) (simp add: redacted_def)
  moreover have "m_id m = mid"
    using assms(2) by (auto simp: fetch_message_by_id_def dest: first_where_SomeD)
  moreover have "files (update_messages (\<lambda>x. m_id x = mid) redacted st) = files st"
    "conf (update_messages (\<lambda>x. m_id x = mid) redacted st) = conf st"
    by (simp_all add: update_messages_def)
  then have "\<forall>f\<in>set (files st) - set (files st'). \<exists>a\<in>set (fetch_attachments_for_message mid st).
      absolute_attachment_path (cfg_home (conf st)) a = Some f"
    using delete_attachments_files unfolding res(7) by (metis DiffE)
  ultimately show ?thesis
    using res(1-6) assms(2) by simp
qed

theorem delete_message_effect_witness:
  "fetch_message_by_id 1 (snd (delete_message (\<lambda>_. True) 1 expiry_demo))
     = Some (redacted (messages (db expiry_demo) ! 0))"
proof -
  have "distinct_keys a_id (attachments (db expiry_demo))"
    by code_simp
  moreover have "fetch_message_by_id 1 expiry_demo = Some (messages (db expiry_demo) ! 0)"
    by code_simp
  ultimately show ?thesis
    using delete_message_effect[of expiry_demo 1 _ "\<lambda>_. True"] by (metis prod.collapse)
qed

text \<open>
  A file two attachments share.  The check that no other attachment uses a file compares the
  expanded path with the stored ones, which begin with a tilde; so the file of an attachment of
  another message is deleted from under it.
\<close>

theorem shared_file_deleted:
  assumes "distinct_keys a_id (attachments (db st))" and "fetch_message_by_id mid st = Some m"
    and "fetch_attachments_for_message mid st = [a]"
    and "b \<in> set (attachments (db st))" and "a_message_id b \<noteq> mid"
    and "a_attachment_path a = Some p" and "a_attachment_path b = Some p"
    and "\<not> exists_where (\<lambda>c. a_attachment_path c = Some (replace_tilde_with_home (cfg_home (conf st)) p))
             (attachments (db st))"
    and "allowed p"
  shows "b \<in> set (attachments (db (snd (delete_message allowed mid st))))
         \<and> \<not> is_downloaded (snd (delete_message allowed mid st)) b"
proof -
  let ?st1 = "update_messages (\<lambda>x. m_id x = mid) redacted st"
  let ?path = "replace_tilde_with_home (cfg_home (conf st)) p"
  obtain r st' where run: "delete_message allowed mid st = (r, st')"
    by (meson surj_pair)
  note res = delete_message_result[OF assms(1,2) run]
  have st1: "files ?st1 = files st" "conf ?st1 = conf st" "attachments (db ?st1) = attachments (db st)"
    by (simp_all add: update_messages_def)
  have "absolute_attachment_path (cfg_home (conf st)) a = Some ?path"
    by (simp add: absolute_attachment_path_def assms(6))
  moreover have "\<not> exists_where (\<lambda>c. a_attachment_path c = Some ?path)
      (delete_where (\<lambda>b. a_id b = a_id a) (attachments (db st)))"
    using assms(8) by (auto simp: exists_where_iff set_delete_where)
  moreover have "files st' = files (snd (delete_attachment allowed mid a ?st1))"
    using res(7) by (simp add: assms(3) Let_def split: prod.splits)
  ultimately have "?path \<notin> set (files st')"
    using assms(6,9) by (simp add: delete_attachment_files st1)
  moreover have "absolute_attachment_path (cfg_home (conf st')) b = Some ?path"
    by (simp add: absolute_attachment_path_def assms(7) res(8))
  ultimately show ?thesis
    using assms(4,5) by (simp add: run res(3) set_delete_where is_downloaded_def)
qed

definition shared_demo :: storage where
  "shared_demo = message_demo\<lparr>files := [''/h/x''], db := (db message_demo)\<lparr>
     attachments := [default_attachment\<lparr>a_id := 1, a_message_id := 1, a_attachment_path := Some ''~/x''\<rparr>,
                     default_attachment\<lparr>a_id := 2, a_message_id := 2, a_attachment_path := Some ''~/x''\<rparr>]\<rparr>\<rparr>"

theorem shared_file_deleted_witness:
  "is_downloaded shared_demo (attachments (db shared_demo) ! 1)
   \<and> \<not> is_downloaded (snd (delete_message (\<lambda>_. True) 1 shared_demo)) (attachments (db shared_demo) ! 1)"
proof -
  let ?a = "attachments (db shared_demo) ! 0"
  let ?b = "attachments (db shared_demo) ! 1"
  have "distinct_keys a_id (attachments (db shared_demo))"
    "fetch_message_by_id 1 shared_demo = Some (messages (db shared_demo) ! 0)"
    "fetch_attachments_for_message 1 shared_demo = [?a]"
    "a_message_id ?b \<noteq> 1" "a_attachment_path ?a = Some ''~/x''" "a_attachment_path ?b = Some ''~/x''"
    "\<not> exists_where (\<lambda>c. a_attachment_path c
         = Some (replace_tilde_with_home (cfg_home (conf shared_demo)) ''~/x'')) (attachments (db shared_demo))"
    "is_downloaded shared_demo ?b" "length (attachments (db shared_demo)) = 2"
    by code_simp+
  then show ?thesis
    using shared_file_deleted[of shared_demo 1 _ ?a ?b "''~/x''" "\<lambda>_. True"] by simp
qed

text \<open>
  C25. The search.  For a text of at least three bytes without an underscore, a search over all
  sessions finds exactly the ordinary messages that contain it, letters of the ASCII alphabet
  compared without regard to case, the newest first; a percent sign or a quote stands for itself.
  The messages that an edit has superseded are among them, although only the latest edits were to
  be considered; a search within a session finds those of the session that are the latest.
\<close>

theorem search_finds_containing:
  assumes "3 \<le> length s" and "CHR ''_'' \<notin> set s"
  shows "set (search_messages s None st)
           = {m \<in> set (messages (db st)). m_message_type m = None
                \<and> (\<exists>t. m_text m = Some t \<and> sublist (map lower_char s) (map lower_char t))}
         \<and> set (search_messages s (Some sid) st)
           = {m \<in> set (search_messages s None st). m_session_id m = sid \<and> most_recent m}
         \<and> sorted (map (\<lambda>m. - m_server_timestamp m) (search_messages s where_to st))"
proof -
  have "text_like s m \<longleftrightarrow> (\<exists>t. m_text m = Some t \<and> sublist (map lower_char s) (map lower_char t))" for m
    using like_match_contains[OF assms(2)] by (simp add: text_like_def split: option.splits)
  moreover have "sorted (map (\<lambda>m. - m_server_timestamp m) (search_messages s where_to st))"
    by (simp add: search_messages_def)
  ultimately show ?thesis
    using assms(1) by (auto simp: search_messages_def)
qed

definition search_demo :: storage where
  "search_demo = message_demo\<lparr>db := (db message_demo)\<lparr>messages :=
     [default_message\<lparr>m_id := 1, m_session_id := 1, m_text := Some ''50%% OFF'', m_server_timestamp := 10\<rparr>,
      default_message\<lparr>m_id := 2, m_session_id := 1, m_text := Some ''50 cents off'', m_server_timestamp := 20\<rparr>,
      default_message\<lparr>m_id := 3, m_session_id := 1, m_text := Some ''20% off'', m_server_timestamp := 30,
        m_original_message_id := Some 3, m_latest_revision_id := Some 4\<rparr>,
      default_message\<lparr>m_id := 4, m_session_id := 1, m_text := Some ''30% off'', m_server_timestamp := 40,
        m_original_message_id := Some 3, m_latest_revision_id := Some 4\<rparr>]\<rparr>\<rparr>"

theorem search_finds_containing_witness:
  "m_id ` set (search_messages ''% off'' None search_demo) = {1, 3, 4}
   \<and> m_id ` set (search_messages ''% off'' (Some 1) search_demo) = {1, 4}"
proof -
  have found: "set (search_messages ''% off'' (Some 1) search_demo)
      = {m \<in> set (search_messages ''% off'' None search_demo). m_session_id m = 1 \<and> most_recent m}"
    using search_finds_containing[of "''% off''" search_demo 1 None] by simp
  have all: "map (\<lambda>m. (m_id m, m_session_id m, most_recent m)) (search_messages ''% off'' None search_demo)
      = [(4, 1, True), (3, 1, False), (1, 1, True)]"
    by code_simp
  then have "map m_id (search_messages ''% off'' None search_demo) = [4, 3, 1]"
    by auto
  then have "m_id ` set (search_messages ''% off'' None search_demo) = {1, 3, 4}"
    by (metis insert_commute list.set(1) list.set(2) list.set_map)
  moreover have "m_id ` set (search_messages ''% off'' (Some 1) search_demo) = {1, 4}"
    unfolding found using all by auto
  ultimately show ?thesis
    by simp
qed

end
