(* ===== verification/EarlyReceiptCache.thy ===== *)
theory EarlyReceiptCache
  imports Prelude
begin

text \<open>
  The cache of receipts that come before their message
  (\<open>whisperfish/src/worker/client/early_receipt_cache.rs\<close>), and the ways the client uses it
  (\<open>worker/client.rs\<close>).

  The two hash maps are association lists; the order of a hash map is unspecified, and where two
  receipts are equally old the first of the list stands for the one the code happens to meet
  first.  Times are milliseconds; the metadata of a receipt is of any type.

  \<open>take\<close> takes the timestamp out of the index at once and returns a lazy iterator: only as far
  as that is consumed are the receipts looked up and removed.  The model has the two parts as
  \<open>take_ids\<close> and \<open>take_items\<close>.
\<close>

section \<open>State and operations\<close>

definition MAX_CACHE_SIZE :: nat where
  "MAX_CACHE_SIZE = 100"

definition CACHE_TTL :: int where
  "CACHE_TTL = 24 * 3600 * 1000"

record 'm cached_receipt =
  cr_timestamps :: "nat list"
  cr_type :: "int option"
  cr_metadata :: 'm
  cr_created_at :: int

record 'm early_cache =
  timestamp_index :: "(nat \<times> nat list) list"
  ec_receipts :: "(nat \<times> 'm cached_receipt) list"
  next_id :: nat

definition new_cache :: "'m early_cache" where
  "new_cache = \<lparr> timestamp_index = [], ec_receipts = [], next_id = 1 \<rparr>"

fun push_id :: "nat \<Rightarrow> nat \<Rightarrow> (nat \<times> nat list) list \<Rightarrow> (nat \<times> nat list) list" where
  "push_id i ts [] = [(ts, [i])]"
| "push_id i ts ((t, is) # idx) = (if t = ts then (t, is @ [i]) # idx else (t, is) # push_id i ts idx)"

definition unindex :: "nat \<Rightarrow> (nat \<times> nat list) list \<Rightarrow> (nat \<times> nat list) list" where
  "unindex i idx = map (\<lambda>(t, is). (t, filter (\<lambda>j. j \<noteq> i) is)) idx"

definition clean_index :: "'m early_cache \<Rightarrow> 'm early_cache" where
  "clean_index c = c\<lparr>timestamp_index := filter (\<lambda>(_, is). is \<noteq> []) (timestamp_index c)\<rparr>"

definition cleanup_expired :: "int \<Rightarrow> 'm early_cache \<Rightarrow> 'm early_cache" where
  "cleanup_expired utc_now c =
     (let cutoff = utc_now - CACHE_TTL;
          old = filter (\<lambda>(_, r). cr_created_at r < cutoff) (ec_receipts c)
      in c\<lparr>ec_receipts := filter (\<lambda>(_, r). \<not> cr_created_at r < cutoff) (ec_receipts c),
           timestamp_index := fold (\<lambda>(i, _). unindex i) old (timestamp_index c)\<rparr>)"

fun oldest :: "(nat \<times> 'm cached_receipt) list \<Rightarrow> (nat \<times> 'm cached_receipt) option" where
  "oldest [] = None"
| "oldest (r # rs) =
     (case oldest rs of
        None \<Rightarrow> Some r
      | Some s \<Rightarrow> if cr_created_at (snd s) < cr_created_at (snd r) then Some s else Some r)"

definition drop_receipt :: "nat \<Rightarrow> 'm early_cache \<Rightarrow> 'm early_cache" where
  "drop_receipt i c =
     c\<lparr>timestamp_index := unindex i (timestamp_index c),
       ec_receipts := filter (\<lambda>(j, _). j \<noteq> i) (ec_receipts c)\<rparr>"

lemma oldest_in: "oldest rs = Some r \<Longrightarrow> r \<in> set rs"
  by (induction rs arbitrary: r) (auto split: option.splits if_splits)

lemma oldest_None [simp]: "oldest rs = None \<longleftrightarrow> rs = []"
  by (cases rs) (auto split: option.splits)

function trim_to_size :: "'m early_cache \<Rightarrow> 'm early_cache" where
  "trim_to_size c =
     (if length (ec_receipts c) > MAX_CACHE_SIZE
      then (case oldest (ec_receipts c) of
              None \<Rightarrow> c
            | Some (i, _) \<Rightarrow> trim_to_size (drop_receipt i c))
      else c)"
  by auto

termination
  by (relation "measure (\<lambda>c. length (ec_receipts c))")
    (auto simp: drop_receipt_def dest!: oldest_in intro!: length_filter_less)

declare trim_to_size.simps [simp del]

definition add :: "int \<Rightarrow> 'm \<Rightarrow> nat list \<Rightarrow> int option \<Rightarrow> 'm early_cache \<Rightarrow> bool \<times> 'm early_cache" where
  "add utc_now metadata timestamps ty c =
     (if timestamps = [] then (False, c)
      else
        (let r = \<lparr> cr_timestamps = timestamps, cr_type = ty, cr_metadata = metadata,
                   cr_created_at = utc_now \<rparr>;
             i = next_id c;
             c1 = c\<lparr>next_id := i + 1,
                    timestamp_index := fold (push_id i) timestamps (timestamp_index c),
                    ec_receipts := ec_receipts c @ [(i, r)]\<rparr>
         in (True, clean_index (trim_to_size (cleanup_expired utc_now c1)))))"

definition take_ids :: "nat \<Rightarrow> 'm early_cache \<Rightarrow> (nat list \<times> bool) option \<times> 'm early_cache" where
  "take_ids ts c =
     (case map_of (timestamp_index c) ts of
        None \<Rightarrow> (None, c)
      | Some is \<Rightarrow>
          (let rest = filter (\<lambda>(t, _). t \<noteq> ts) (timestamp_index c);
               was_last = list_all (\<lambda>i. i \<notin> set is) (concat (map snd rest))
           in (Some (is, was_last), clean_index (c\<lparr>timestamp_index := rest\<rparr>))))"

fun take_items :: "bool \<Rightarrow> nat list \<Rightarrow> 'm early_cache \<Rightarrow> ('m cached_receipt list \<times> 'm early_cache) res" where
  "take_items was_last [] c = Inr ([], c)"
| "take_items was_last (i # is) c =
     (case map_of (ec_receipts c) i of
        None \<Rightarrow> Inl (Panic ''receipt unavailable - stale index'')
      | Some r \<Rightarrow>
          rbind (take_items was_last is
                   (if was_last then c\<lparr>ec_receipts := filter (\<lambda>(j, _). j \<noteq> i) (ec_receipts c)\<rparr> else c))
            (\<lambda>(rs, c'). Inr (r # rs, c')))"

text \<open>
  What processing the receipts of a message that has come does, and what handling a receipt
  whose message is there does: it drops the iterator unconsumed.
\<close>

definition take_all :: "nat \<Rightarrow> 'm early_cache \<Rightarrow> ('m cached_receipt list \<times> 'm early_cache) res" where
  "take_all ts c =
     (case take_ids ts c of
        (None, c') \<Rightarrow> Inr ([], c')
      | (Some (is, was_last), c') \<Rightarrow> take_items was_last is c')"

definition take_dropped :: "nat \<Rightarrow> 'm early_cache \<Rightarrow> 'm early_cache" where
  "take_dropped ts c = snd (take_ids ts c)"

section \<open>The invariant\<close>

definition index_ok :: "'m early_cache \<Rightarrow> bool" where
  "index_ok c \<longleftrightarrow>
     (\<forall>(t, is)\<in>set (timestamp_index c). distinct is
        \<and> (\<forall>i\<in>set is. \<exists>r. map_of (ec_receipts c) i = Some r \<and> t \<in> set (cr_timestamps r)))"

definition cache_wf :: "'m early_cache \<Rightarrow> bool" where
  "cache_wf c =
     (distinct (map fst (timestamp_index c)) \<and> distinct (map fst (ec_receipts c))
      \<and> list_all (\<lambda>(i, _). i < next_id c) (ec_receipts c) \<and> index_ok c)"

inductive cache_step :: "'m early_cache \<Rightarrow> 'm early_cache \<Rightarrow> bool" where
  cs_add: "distinct timestamps \<Longrightarrow> cache_step c (snd (add utc_now metadata timestamps ty c))"
| cs_dropped: "cache_step c (take_dropped ts c)"
| cs_all: "take_all ts c = Inr (rs, c') \<Longrightarrow> cache_step c c'"

end
