(* ===== verification/EarlyReceiptProps.thy ===== *)
theory EarlyReceiptProps
  imports EarlyReceiptCache
begin

text \<open>
  Facts about the cache of early receipts: the index never names a receipt that is gone, so that
  the receipts of a message that has come can always be taken; and the two ways this fails.
\<close>

section \<open>Association lists\<close>

lemma map_of_filter_keys: "map_of (filter (\<lambda>(i, _). i \<notin> X) xs) i = (if i \<in> X then None else map_of xs i)"
  by (induction xs) auto

lemma map_of_not_key: "map_of (filter (\<lambda>(i, _). i \<noteq> k) xs) i = (if i = k then None else map_of xs i)"
  using map_of_filter_keys[of "{k}" xs i] by simp

lemma distinct_filter_keys: "distinct (map fst xs) \<Longrightarrow> distinct (map fst (filter P xs))"
  by (induction xs) (auto simp: image_iff)

lemma filter_by_keys:
  "distinct (map fst xs) \<Longrightarrow>
     filter (\<lambda>(_, r). \<not> P r) xs = filter (\<lambda>(i, _). i \<notin> fst ` {x \<in> set xs. P (snd x)}) xs"
  by (rule filter_cong[OF refl]) (force dest: eq_key_imp_eq_value)

definition ids_of :: "nat \<Rightarrow> (nat \<times> nat list) list \<Rightarrow> nat list" where
  "ids_of t idx = (case map_of idx t of None \<Rightarrow> [] | Some is \<Rightarrow> is)"

lemma map_of_push_id: "map_of (push_id i ts idx) t = (if t = ts then Some (ids_of ts idx @ [i]) else map_of idx t)"
  by (induction i ts idx rule: push_id.induct) (auto simp: ids_of_def)

lemma keys_push_id: "fst ` set (push_id i ts idx) = insert ts (fst ` set idx)"
  by (induction i ts idx rule: push_id.induct) auto

lemma distinct_push_id: "distinct (map fst idx) \<Longrightarrow> distinct (map fst (push_id i ts idx))"
  by (induction i ts idx rule: push_id.induct) (auto simp: keys_push_id)

lemma distinct_fold_push: "distinct (map fst idx) \<Longrightarrow> distinct (map fst (fold (push_id i) tss idx))"
  by (induction tss arbitrary: idx) (auto intro: distinct_push_id)

lemma map_of_fold_push:
  "distinct tss \<Longrightarrow>
     map_of (fold (push_id i) tss idx) t = (if t \<in> set tss then Some (ids_of t idx @ [i]) else map_of idx t)"
  by (induction tss arbitrary: idx) (auto simp: map_of_push_id ids_of_def)

lemma keys_unindex [simp]: "map fst (unindex i idx) = map fst idx"
  by (induction idx) (auto simp: unindex_def)

lemma map_of_unindex: "map_of (unindex i idx) t = map_option (filter (\<lambda>j. j \<noteq> i)) (map_of idx t)"
  by (induction idx) (auto simp: unindex_def)

lemma keys_fold_unindex [simp]: "map fst (fold (\<lambda>(i, _). unindex i) old idx) = map fst idx"
  by (induction old arbitrary: idx) auto

lemma map_of_fold_unindex:
  "map_of (fold (\<lambda>(i, _). unindex i) old idx) t
     = map_option (filter (\<lambda>j. j \<notin> fst ` set old)) (map_of idx t)"
proof (induction old arbitrary: idx)
  case Nil
  then show ?case
    by (simp add: option.map_ident)
next
  case (Cons x old)
  then show ?case
    by (cases x) (auto simp: map_of_unindex option.map_comp o_def filter_filter intro!: map_option_cong filter_cong)
qed

section \<open>The invariant\<close>

definition good_ids :: "'m early_cache \<Rightarrow> nat \<Rightarrow> nat list \<Rightarrow> bool" where
  "good_ids c t is \<longleftrightarrow> distinct is
     \<and> (\<forall>i\<in>set is. \<exists>r. map_of (ec_receipts c) i = Some r \<and> t \<in> set (cr_timestamps r))"

lemma cache_wf_iff:
  "cache_wf c \<longleftrightarrow> distinct (map fst (timestamp_index c)) \<and> distinct (map fst (ec_receipts c))
     \<and> (\<forall>i r. map_of (ec_receipts c) i = Some r \<longrightarrow> i < next_id c)
     \<and> (\<forall>t is. map_of (timestamp_index c) t = Some is \<longrightarrow> good_ids c t is)"
proof (cases "distinct (map fst (timestamp_index c)) \<and> distinct (map fst (ec_receipts c))")
  case True
  then have "index_ok c \<longleftrightarrow> (\<forall>t is. map_of (timestamp_index c) t = Some is \<longrightarrow> good_ids c t is)"
    and "list_all (\<lambda>(i, _). i < next_id c) (ec_receipts c)
           \<longleftrightarrow> (\<forall>i r. map_of (ec_receipts c) i = Some r \<longrightarrow> i < next_id c)"
    by (auto simp: index_ok_def good_ids_def list_all_iff)
  then show ?thesis
    using True by (simp add: cache_wf_def)
qed (auto simp: cache_wf_def)

lemma cache_wfD:
  assumes "cache_wf c"
  shows "distinct (map fst (timestamp_index c))" "distinct (map fst (ec_receipts c))"
    and "map_of (ec_receipts c) i = Some r \<Longrightarrow> i < next_id c"
    and "map_of (timestamp_index c) t = Some is \<Longrightarrow> good_ids c t is"
    and "map_of (ec_receipts c) (next_id c) = None"
  using assms unfolding cache_wf_iff by (blast, blast, blast, blast, metis less_irrefl option.exhaust)

lemma cache_wfI:
  assumes "distinct (map fst (timestamp_index c))" "distinct (map fst (ec_receipts c))"
    and "\<And>i r. map_of (ec_receipts c) i = Some r \<Longrightarrow> i < next_id c"
    and "\<And>t is. map_of (timestamp_index c) t = Some is \<Longrightarrow> good_ids c t is"
  shows "cache_wf c"
  using assms unfolding cache_wf_iff by blast

lemma cache_wf_new [simp]: "cache_wf new_cache"
  by (simp add: cache_wf_def new_cache_def index_ok_def)

text \<open>What all the clean-up operations do: take a set of receipts out of both maps.\<close>

lemma cache_wf_without:
  assumes wf: "cache_wf c" and n: "next_id c' = next_id c"
    and keys: "map fst (timestamp_index c') = map fst (timestamp_index c)"
    and idx: "\<And>t. map_of (timestamp_index c') t = map_option (filter (\<lambda>j. j \<notin> X)) (map_of (timestamp_index c) t)"
    and rs: "ec_receipts c' = filter (\<lambda>(i, _). i \<notin> X) (ec_receipts c)"
  shows "cache_wf c'"
proof (rule cache_wfI)
  show "good_ids c' t is" if "map_of (timestamp_index c') t = Some is" for t "is"
    using that cache_wfD(4)[OF wf, of t] unfolding idx good_ids_def rs map_of_filter_keys by fastforce
qed (use cache_wfD[OF wf] keys n rs in \<open>auto simp: map_of_filter_keys distinct_filter_keys split: if_splits\<close>)

lemma cache_wf_cleanup:
  assumes "cache_wf c"
  shows "cache_wf (cleanup_expired t c)"
proof (rule cache_wf_without[OF assms])
  let ?X = "fst ` {x \<in> set (ec_receipts c). cr_created_at (snd x) < t - CACHE_TTL}"
  show "ec_receipts (cleanup_expired t c) = filter (\<lambda>(i, _). i \<notin> ?X) (ec_receipts c)"
    using filter_by_keys[OF cache_wfD(2)[OF assms], of "\<lambda>r. cr_created_at r < t - CACHE_TTL"]
    by (simp add: cleanup_expired_def Let_def)
  show "map_of (timestamp_index (cleanup_expired t c)) u
          = map_option (filter (\<lambda>j. j \<notin> ?X)) (map_of (timestamp_index c) u)" for u
    by (simp add: cleanup_expired_def Let_def map_of_fold_unindex split_beta)
qed (simp_all add: cleanup_expired_def Let_def)

lemma cache_wf_drop_receipt: "cache_wf c \<Longrightarrow> cache_wf (drop_receipt i c)"
  by (rule cache_wf_without[where X = "{i}"]) (simp_all add: drop_receipt_def map_of_unindex)

lemma cache_wf_trim: "cache_wf c \<Longrightarrow> cache_wf (trim_to_size c)"
proof (induction c rule: trim_to_size.induct)
  case (1 c)
  then show ?case
    by (subst trim_to_size.simps) (auto simp: cache_wf_drop_receipt split: option.split)
qed

lemma length_trim: "length (ec_receipts (trim_to_size c)) \<le> MAX_CACHE_SIZE"
proof (induction c rule: trim_to_size.induct)
  case (1 c)
  then show ?case
    by (subst trim_to_size.simps) (auto split: option.split)
qed

lemma map_of_clean:
  "distinct (map fst idx) \<Longrightarrow> map_of (filter (\<lambda>(_, is). is \<noteq> []) idx) t = Some is \<Longrightarrow> map_of idx t = Some is"
  by (auto simp: distinct_filter_keys)

lemma cache_wf_clean:
  assumes "cache_wf c"
  shows "cache_wf (clean_index c)"
  using cache_wfD[OF assms]
  by (intro cache_wfI) (auto simp: clean_index_def good_ids_def distinct_filter_keys)

lemma good_ids_append:
  assumes "good_ids c t is" and "map_of (ec_receipts c) i = None" and "t \<in> set (cr_timestamps r)"
    and "ec_receipts c' = ec_receipts c @ [(i, r)]"
  shows "good_ids c' t (is @ [i])" 
  using assms by (force simp: good_ids_def map_add_def)

lemma good_ids_frame:
  assumes "good_ids c t is" and "map_of (ec_receipts c) i = None"
    and "ec_receipts c' = ec_receipts c @ [(i, r)]"
  shows "good_ids c' t is" 
  using assms by (force simp: good_ids_def map_add_def)

lemma cache_wf_add:
  assumes wf: "cache_wf c" and dist: "distinct timestamps"
  shows "cache_wf (snd (add utc_now md timestamps ty c))"
proof (cases "timestamps = []")
  case False
  define r where "r = \<lparr> cr_timestamps = timestamps, cr_type = ty, cr_metadata = md, cr_created_at = utc_now \<rparr>"
  define c1 where "c1 = c\<lparr>next_id := next_id c + 1,
      timestamp_index := fold (push_id (next_id c)) timestamps (timestamp_index c),
      ec_receipts := ec_receipts c @ [(next_id c, r)]\<rparr>"
  note fresh = cache_wfD(5)[OF wf]
  have c1: "ec_receipts c1 = ec_receipts c @ [(next_id c, r)]" "next_id c1 = next_id c + 1"
    by (simp_all add: c1_def)
  have "cache_wf c1"
  proof (rule cache_wfI)
    show "good_ids c1 t is" if "map_of (timestamp_index c1) t = Some is" for t "is"
    proof (cases "t \<in> set timestamps")
      case True
      have "good_ids c t (ids_of t (timestamp_index c))"
        by (cases "map_of (timestamp_index c) t")
          (simp_all add: ids_of_def cache_wfD(4)[OF wf] good_ids_def[of c t "[]"])
      then show ?thesis
        using good_ids_append[OF _ fresh _ c1(1)] True that dist
        by (auto simp: c1_def map_of_fold_push r_def)
    next
      case False
      then show ?thesis
        using good_ids_frame[OF cache_wfD(4)[OF wf] fresh c1(1)] that dist
        by (simp add: c1_def map_of_fold_push)
    qed
    show "i < next_id c1" if "map_of (ec_receipts c1) i = Some x" for i x
      using that cache_wfD(3)[OF wf, of i x] by (auto simp: c1 map_add_def split: if_splits option.splits)
    show "distinct (map fst (timestamp_index c1))"
      using cache_wfD(1)[OF wf] by (simp add: c1_def distinct_fold_push)
    show "distinct (map fst (ec_receipts c1))"
      using cache_wfD(2)[OF wf] fresh by (simp add: c1 map_of_eq_None_iff)
  qed
  moreover have "snd (add utc_now md timestamps ty c) = clean_index (trim_to_size (cleanup_expired utc_now c1))"
    using False by (simp add: add_def Let_def r_def c1_def)
  ultimately show ?thesis
    by (simp only: cache_wf_cleanup cache_wf_trim cache_wf_clean)
qed (simp add: add_def wf)

lemma length_add:
  assumes "length (ec_receipts c) \<le> MAX_CACHE_SIZE"
  shows "length (ec_receipts (snd (add utc_now md timestamps ty c))) \<le> MAX_CACHE_SIZE"
  using assms by (simp add: add_def clean_index_def Let_def length_trim del: One_nat_def)

section \<open>Taking receipts\<close>

lemma take_items_kept:
  assumes "\<And>i. i \<in> set is \<Longrightarrow> map_of (ec_receipts c) i \<noteq> None"
  shows "take_items False is c = Inr (map (\<lambda>i. the (map_of (ec_receipts c) i)) is, c)"
  using assms
proof (induction "is")
  case (Cons i "is")
  obtain r where "map_of (ec_receipts c) i = Some r"
    using Cons.prems[of i] by auto
  then show ?case
    using Cons by (simp add: rbind_def)
qed simp

lemma take_items_removed:
  assumes "\<And>i. i \<in> set is \<Longrightarrow> map_of (ec_receipts c) i \<noteq> None" and "distinct is"
  shows "take_items True is c = Inr (map (\<lambda>i. the (map_of (ec_receipts c) i)) is,
           c\<lparr>ec_receipts := filter (\<lambda>(i, _). i \<notin> set is) (ec_receipts c)\<rparr>)"
  using assms
proof (induction "is" arbitrary: c)
  case (Cons i "is")
  let ?c = "c\<lparr>ec_receipts := filter (\<lambda>(j, _). j \<noteq> i) (ec_receipts c)\<rparr>"
  have "map_of (ec_receipts ?c) j \<noteq> None" if "j \<in> set is" for j
    using Cons.prems that by (auto simp: map_of_not_key)
  moreover have "map (\<lambda>j. the (map_of (ec_receipts ?c) j)) is = map (\<lambda>j. the (map_of (ec_receipts c) j)) is"
    using Cons.prems(2) by (auto simp: map_of_not_key)
  moreover have "filter (\<lambda>(j, _). j \<notin> set is) (ec_receipts ?c) = filter (\<lambda>(j, _). j \<notin> set (i # is)) (ec_receipts c)"
    by (auto intro!: filter_cong)
  moreover obtain r where "map_of (ec_receipts c) i = Some r"
    using Cons.prems(1)[of i] by auto
  ultimately show ?case
    using Cons.IH[of ?c] Cons.prems(2) by (simp add: rbind_def)
qed (simp add: case_prod_beta)

lemma take_ids_cases:
  assumes "cache_wf c"
  obtains "map_of (timestamp_index c) ts = None" "take_ids ts c = (None, c)"
  | "is" was_last c' where "map_of (timestamp_index c) ts = Some is" "good_ids c ts is"
      "take_ids ts c = (Some (is, was_last), c')" "ec_receipts c' = ec_receipts c" "cache_wf c'"
      "was_last \<Longrightarrow> \<forall>t js. map_of (timestamp_index c') t = Some js \<longrightarrow> set js \<inter> set is = {}"
proof (cases "map_of (timestamp_index c) ts")
  case None
  then show ?thesis
    using that(1) by (simp add: take_ids_def)
next
  case (Some "is")
  let ?rest = "filter (\<lambda>(t, _). t \<noteq> ts) (timestamp_index c)"
  define was_last where "was_last = list_all (\<lambda>i. i \<notin> set is) (concat (map snd ?rest))"
  have "cache_wf (c\<lparr>timestamp_index := ?rest\<rparr>)"
    using cache_wfD[OF assms]
    by (intro cache_wfI) (auto simp: distinct_filter_keys good_ids_def)
  then have wf: "cache_wf (clean_index (c\<lparr>timestamp_index := ?rest\<rparr>))"
    by (rule cache_wf_clean)
  have "set js \<inter> set is = {}"
    if "was_last" "map_of (timestamp_index (clean_index (c\<lparr>timestamp_index := ?rest\<rparr>))) t = Some js" for t js
    using that map_of_SomeD[OF that(2)] unfolding was_last_def clean_index_def by (fastforce simp: list_all_iff)
  then show ?thesis
    using that(2)[OF Some cache_wfD(4)[OF assms Some] _ _ wf, of was_last] Some
    by (simp add: take_ids_def Let_def was_last_def clean_index_def)
qed

lemma take_dropped_wf: "cache_wf c \<Longrightarrow> cache_wf (take_dropped ts c)"
  by (cases rule: take_ids_cases[of c ts]) (simp_all add: take_dropped_def)

lemma take_dropped_receipts: "cache_wf c \<Longrightarrow> ec_receipts (take_dropped ts c) = ec_receipts c"
  by (cases rule: take_ids_cases[of c ts]) (simp_all add: take_dropped_def)

lemma take_all_good:
  assumes "cache_wf c"
  obtains rs c' where "take_all ts c = Inr (rs, c')" "cache_wf c'"
    "length (ec_receipts c') \<le> length (ec_receipts c)" "\<forall>r\<in>set rs. ts \<in> set (cr_timestamps r)"
proof (cases rule: take_ids_cases[OF assms, of ts])
  case 1
  then show ?thesis
    using that assms by (simp add: take_all_def)
next
  case (2 "is" was_last c1)
  have live: "map_of (ec_receipts c1) i \<noteq> None" if "i \<in> set is" for i
    using 2(2,4) that by (auto simp: good_ids_def)
  have good: "\<forall>r\<in>set (map (\<lambda>i. the (map_of (ec_receipts c1) i)) is). ts \<in> set (cr_timestamps r)"
    using 2(2,4) by (fastforce simp: good_ids_def)
  show ?thesis
  proof (cases was_last)
    case True
    let ?c = "c1\<lparr>ec_receipts := filter (\<lambda>(i, _). i \<notin> set is) (ec_receipts c1)\<rparr>"
    have "good_ids ?c t js" if "map_of (timestamp_index ?c) t = Some js" for t js
      using cache_wfD(4)[OF 2(5), of t js] that 2(6) True
      by (fastforce simp: good_ids_def map_of_filter_keys)
    then have "cache_wf ?c"
      using cache_wfD[OF 2(5)] by (intro cache_wfI) (auto simp: distinct_filter_keys map_of_filter_keys split: if_splits)
    then show ?thesis
      using that[OF _ _ _ good] 2(2,3,4) True take_items_removed[OF live]
      by (simp add: take_all_def good_ids_def)
  next
    case False
    then show ?thesis
      using that[OF _ 2(5) _ good] 2(3,4) take_items_kept[OF live] by (simp add: take_all_def)
  qed
qed

section \<open>The properties\<close>

lemma cache_steps_wf:
  assumes "cache_step\<^sup>*\<^sup>* new_cache c"
  shows "cache_wf c \<and> length (ec_receipts c) \<le> MAX_CACHE_SIZE"
  using assms
proof (induction rule: rtranclp_induct)
  case base
  then show ?case by simp (simp add: new_cache_def)
next
  case (step c c')
  from step.hyps(2) show ?case
  proof cases
    case (cs_all ts rs)
    then show ?thesis
      using step.IH take_all_good[of c ts] by (metis Inr_inject le_trans prod.inject)
  qed (use step.IH in \<open>simp_all add: cache_wf_add length_add take_dropped_wf take_dropped_receipts\<close>)
qed


text \<open>
  C30. Early receipts.  As long as no receipt lists a timestamp twice, the cache keeps at most a
  hundred receipts and its index names only receipts that are there, so taking the receipts of a
  message never panics and yields receipts that list its timestamp.
\<close>

theorem early_receipts_never_stale:
  assumes "cache_step\<^sup>*\<^sup>* new_cache c"
  shows "cache_wf c \<and> length (ec_receipts c) \<le> MAX_CACHE_SIZE
         \<and> (\<exists>rs c'. take_all ts c = Inr (rs, c') \<and> (\<forall>r\<in>set rs. ts \<in> set (cr_timestamps r)))"
  using cache_steps_wf[OF assms] take_all_good[of c ts] by metis

theorem early_receipts_never_stale_witness:
  "\<exists>rs c'. take_all 2 (snd (add 5 () [1, 2] None new_cache)) = Inr (rs, c') \<and> (\<forall>r\<in>set rs. 2 \<in> set (cr_timestamps r))"
proof -
  have "cache_step\<^sup>*\<^sup>* new_cache (snd (add 5 () [1, 2] None new_cache))"
    by (intro r_into_rtranclp cs_add) simp
  from early_receipts_never_stale[OF this, of 2] show ?thesis
    by simp
qed

section \<open>Where it fails\<close>

lemma map_of_fold_push_same:
  "map_of (fold (push_id i) (replicate n ts) idx) t
     = (if t = ts \<and> 0 < n then Some (ids_of ts idx @ replicate n i) else map_of idx t)"
  by (induction n arbitrary: idx) (auto simp: map_of_push_id ids_of_def replicate_app_Cons_same)

text \<open>Adding a receipt for one new timestamp, listed any number of times.\<close>

lemma add_same:
  fixes c :: "'m early_cache" and md :: 'm and utc_now :: int and ty :: "int option"
  assumes wf: "cache_wf c" and room: "length (ec_receipts c) < MAX_CACHE_SIZE"
    and new: "map_of (timestamp_index c) ts = None" and n: "0 < n"
  defines "c' \<equiv> snd (add utc_now md (replicate n ts) ty c)"
  shows "map_of (timestamp_index c') ts = Some (replicate n (next_id c))"
    and "map_of (timestamp_index c') t = Some js \<Longrightarrow> t \<noteq> ts \<Longrightarrow> next_id c \<notin> set js"
    and "map_of (ec_receipts c') (next_id c) \<noteq> None"
    and "distinct (map fst (timestamp_index c'))" and "distinct (map fst (ec_receipts c'))"
proof -
  define r where "r = \<lparr> cr_timestamps = replicate n ts, cr_type = ty, cr_metadata = md, cr_created_at = utc_now \<rparr>"
  define c1 where "c1 = c\<lparr>next_id := next_id c + 1,
      timestamp_index := fold (push_id (next_id c)) (replicate n ts) (timestamp_index c),
      ec_receipts := ec_receipts c @ [(next_id c, r)]\<rparr>"
  let ?old = "filter (\<lambda>(_, r). cr_created_at r < utc_now - CACHE_TTL) (ec_receipts c1)"
  let ?d = "cleanup_expired utc_now c1"
  have ks: "distinct (map fst (timestamp_index ?d))"
    using distinct_fold_push[OF cache_wfD(1)[OF wf], of "next_id c" "replicate n ts"]
    by (simp add: cleanup_expired_def Let_def c1_def)
  have "length (ec_receipts ?d) \<le> MAX_CACHE_SIZE"
    using room length_filter_le[of "\<lambda>(_, r). \<not> cr_created_at r < utc_now - CACHE_TTL" "ec_receipts c1"]
    by (simp add: cleanup_expired_def Let_def c1_def)
  then have "trim_to_size ?d = ?d"
    by (subst trim_to_size.simps) simp
  moreover have "c' = clean_index (trim_to_size ?d)"
    using n by (simp add: c'_def add_def Let_def r_def c1_def)
  ultimately have c': "c' = clean_index ?d"
    by simp
  have "next_id c \<notin> fst ` set (ec_receipts c)"
    using cache_wfD(5)[OF wf] by (simp add: map_of_eq_None_iff)
  then have i: "next_id c \<notin> fst ` set ?old"
    by (auto simp: c1_def r_def CACHE_TTL_def image_iff)
  have idx: "map_of (timestamp_index ?d) t
      = (if t = ts then Some (replicate n (next_id c))
         else map_option (filter (\<lambda>j. j \<notin> fst ` set ?old)) (map_of (timestamp_index c) t))" for t
  proof -
    have push: "map_of (timestamp_index c1) t
        = (if t = ts then Some (replicate n (next_id c)) else map_of (timestamp_index c) t)"
      using new n by (simp add: c1_def map_of_fold_push_same ids_of_def del: fold_replicate)
    have "map_of (timestamp_index ?d) t
        = map_option (filter (\<lambda>j. j \<notin> fst ` set ?old)) (map_of (timestamp_index c1) t)"
      by (simp add: cleanup_expired_def Let_def map_of_fold_unindex)
    moreover have "filter (\<lambda>j. j \<notin> fst ` set ?old) (replicate n (next_id c)) = replicate n (next_id c)"
      using i by (simp only: filter_replicate simp_thms if_True)
    ultimately show ?thesis
      using push by (cases "t = ts") (simp_all only: option.map refl if_True if_False simp_thms)
  qed
  show "map_of (timestamp_index c') ts = Some (replicate n (next_id c))"
    using idx[of ts] ks n by (auto simp: c' clean_index_def distinct_filter_keys map_of_eq_Some_iff)
  show "next_id c \<notin> set js" if js: "map_of (timestamp_index c') t = Some js" "t \<noteq> ts"
  proof
    assume "next_id c \<in> set js"
    have "map_of (timestamp_index ?d) t = Some js"
      using js(1) ks by (simp add: c' clean_index_def distinct_filter_keys)
    then obtain js' where "map_of (timestamp_index c) t = Some js'" "next_id c \<in> set js'"
      using idx[of t] js(2) \<open>next_id c \<in> set js\<close> by auto
    then show False
      using cache_wfD(4)[OF wf, of t js'] cache_wfD(5)[OF wf] by (auto simp: good_ids_def)
  qed
  show "map_of (ec_receipts c') (next_id c) \<noteq> None"
    by (simp add: c' clean_index_def cleanup_expired_def Let_def c1_def r_def CACHE_TTL_def map_of_eq_None_iff)
  show "distinct (map fst (timestamp_index c'))" "distinct (map fst (ec_receipts c'))"
    using ks cache_wfD(2)[OF wf] \<open>next_id c \<notin> fst ` set (ec_receipts c)\<close>
    by (auto simp: c' clean_index_def cleanup_expired_def Let_def c1_def distinct_filter_keys image_iff)
qed

text \<open>
  Where the cache fails.  A receipt that lists a timestamp twice is indexed twice, in spite of
  the comment there, and taking it panics; and a receipt whose message is known, which the client
  takes out without looking at it, stays in the storage, where nothing can reach it any more.
\<close>

theorem early_receipts_faults:
  assumes "cache_wf c" and "length (ec_receipts c) < MAX_CACHE_SIZE"
    and "map_of (timestamp_index c) ts = None"
  shows "take_all ts (snd (add utc_now md [ts, ts] ty c)) = Inl (Panic ''receipt unavailable - stale index'')
         \<and> map_of (ec_receipts (take_dropped ts (snd (add utc_now md [ts] ty c)))) (next_id c) \<noteq> None
         \<and> (\<forall>(t, is)\<in>set (timestamp_index (take_dropped ts (snd (add utc_now md [ts] ty c)))). next_id c \<notin> set is)"
proof (intro conjI)
  let ?i = "next_id c"
  have rest: "?i \<notin> set js" if "(t, js) \<in> set (filter (\<lambda>(t, _). t \<noteq> ts)
      (timestamp_index (snd (add utc_now md (replicate n ts) ty c))))" "0 < n" for t js n
    using add_same(2,4)[OF assms that(2), of utc_now md ty] that(1) by auto
  note two = add_same[OF assms, of 2 utc_now md ty, simplified numeral_2_eq_2, simplified]
  note one = add_same[OF assms, of 1 utc_now md ty, simplified]
  obtain r where r: "map_of (ec_receipts (snd (add utc_now md [ts, ts] ty c))) ?i = Some r"
    using two(3) by auto
  have last: "list_all (\<lambda>j. j \<notin> set [?i, ?i]) (concat (map snd (filter (\<lambda>(t, _). t \<noteq> ts)
                (timestamp_index (snd (add utc_now md [ts, ts] ty c))))))"
    using rest[of _ _ 2] by (auto simp: list_all_iff numeral_2_eq_2)
  show "take_all ts (snd (add utc_now md [ts, ts] ty c)) = Inl (Panic ''receipt unavailable - stale index'')"
    unfolding take_all_def take_ids_def two(1) option.case Let_def prod.case
    using last by (simp add: r rbind_def clean_index_def map_of_not_key)
  show "map_of (ec_receipts (take_dropped ts (snd (add utc_now md [ts] ty c)))) ?i \<noteq> None"
    using one(3) by (simp add: take_dropped_def take_ids_def one(1) clean_index_def Let_def)
  show "\<forall>(t, is)\<in>set (timestamp_index (take_dropped ts (snd (add utc_now md [ts] ty c)))). ?i \<notin> set is"
    using rest[of _ _ 1] by (auto simp: take_dropped_def take_ids_def one(1) clean_index_def Let_def)
qed

theorem early_receipts_faults_witness:
  "take_all 7 (snd (add 5 () [7, 7] None new_cache)) = Inl (Panic ''receipt unavailable - stale index'')"
  using early_receipts_faults[OF cache_wf_new, of 7 5 "()" None]
  by (simp add: new_cache_def MAX_CACHE_SIZE_def)

end
