(* ===== verification/BodyRanges.thy ===== *)
theory BodyRanges
  imports Prelude
begin

text \<open>
  Formatted text: how the ranges of a message are stored and how the message is turned into the
  markup the user interface shows (\<open>whisperfish-store/src/store/body_ranges.rs\<close>).

  A text is the list of its Unicode scalar values.  Positions of ranges count UTF-16 code units.
  Slices of a text are cut at character boundaries in the code, so a position in the text is the
  number of characters before it.

  Arguments stand for the libraries: \<open>encode\<close> and \<open>decode\<close> for the protobuf messages in the
  database, \<open>uuid_string\<close> for the printed form of sixteen bytes, the spans of \<open>linkify\<close> and
  the matches of the pattern for geographical links as lists, and \<open>pick\<close> for the choice the binary
  search of the standard library makes when several elements match, which is not specified.
  Sizes have 64 bits and wrap around, as they do in a release build.
\<close>

type_synonym utext = "nat list"

definition lit :: "string \<Rightarrow> utext" where
  "lit s = map of_char s"

definition len_utf16 :: "nat \<Rightarrow> nat" where
  "len_utf16 c = (if c < 65536 then 1 else 2)"

definition len_utf8 :: "nat \<Rightarrow> nat" where
  "len_utf8 c = (if c < 128 then 1 else if c < 2048 then 2 else if c < 65536 then 3 else 4)"

definition count_utf16 :: "utext \<Rightarrow> nat" where
  "count_utf16 t = sum_list (map len_utf16 t)"

section \<open>The stored ranges\<close>

datatype wire_style = WNone | WBold | WItalic | WSpoiler | WStrikethrough | WMonospace

text \<open>The style of a range of the protocol is a number; \<open>WStyle None\<close> is one without a name.\<close>

datatype wire_value =
    WMentionAci utext
  | WMentionAciBinary "nat list"
  | WStyle "wire_style option"

record wire_body_range =
  wr_start :: "nat option"
  wr_length :: "nat option"
  wr_value :: "wire_value option"

datatype associated_value =
    MentionUuid utext
  | Style int
  | Link utext
  | Button utext utext

record body_range =
  br_start :: int
  br_length :: int
  br_value :: "associated_value option"

fun style_number :: "wire_style \<Rightarrow> int option" where
  "style_number WBold = Some 0"
| "style_number WItalic = Some 1"
| "style_number WSpoiler = Some 2"
| "style_number WStrikethrough = Some 3"
| "style_number WMonospace = Some 4"
| "style_number WNone = None"

definition wire_style_of :: "int \<Rightarrow> wire_style option" where
  "wire_style_of n =
     (if n = 0 then Some WBold else if n = 1 then Some WItalic else if n = 2 then Some WSpoiler
      else if n = 3 then Some WStrikethrough else if n = 4 then Some WMonospace else None)"

fun rmap :: "('a \<Rightarrow> 'b res) \<Rightarrow> 'a list \<Rightarrow> 'b list res" where
  "rmap f [] = Inr []"
| "rmap f (x # xs) = rbind (f x) (\<lambda>y. rbind (rmap f xs) (\<lambda>ys. Inr (y # ys)))"

definition stored_value :: "(nat list \<Rightarrow> utext) \<Rightarrow> wire_value \<Rightarrow> associated_value option res" where
  "stored_value uuid_string av =
     (case av of
        WMentionAci mention_aci \<Rightarrow> Inr (Some (MentionUuid mention_aci))
      | WMentionAciBinary mention_aci \<Rightarrow>
          (if length mention_aci = 16 then Inr (Some (MentionUuid (uuid_string mention_aci)))
           else Inl (Panic ''correctly formatted mention ACI''))
      | WStyle style \<Rightarrow>
          rbind (opt_panic ''called `Result::unwrap()` on an `Err` value'' style)
            (\<lambda>st. Inr (map_option Style (style_number st))))"

definition stored_range :: "(nat list \<Rightarrow> utext) \<Rightarrow> wire_body_range \<Rightarrow> body_range res" where
  "stored_range uuid_string r =
     rbind (opt_panic ''start'' (wr_start r)) (\<lambda>start.
     rbind (opt_panic ''end'' (wr_length r)) (\<lambda>len.
     rbind (case wr_value r of None \<Rightarrow> Inr None | Some av \<Rightarrow> stored_value uuid_string av) (\<lambda>v.
     Inr \<lparr> br_start = i32_of_u32 start, br_length = i32_of_u32 len, br_value = v \<rparr>)))"

definition serialize ::
  "(nat list \<Rightarrow> utext) \<Rightarrow> (body_range list \<Rightarrow> 'b) \<Rightarrow> wire_body_range list \<Rightarrow> 'b option res" where
  "serialize uuid_string encode value =
     (if value = [] then Inr None
      else rbind (rmap (stored_range uuid_string) value) (\<lambda>rs. Inr (Some (encode rs))))"

definition deserialize :: "('b \<Rightarrow> body_range list option) \<Rightarrow> 'b \<Rightarrow> body_range list res" where
  "deserialize decode message_ranges = opt_panic ''valid protobuf in database'' (decode message_ranges)"

definition wire_range :: "body_range \<Rightarrow> wire_body_range option res" where
  "wire_range r =
     (let ranged = (\<lambda>v. Some \<lparr> wr_start = Some (u32_of_i32 (br_start r)),
                               wr_length = Some (u32_of_i32 (br_length r)), wr_value = Some v \<rparr>)
      in rbind (opt_panic ''associated_value in db'' (br_value r)) (\<lambda>av.
         case av of
           MentionUuid mention_aci \<Rightarrow> Inr (ranged (WMentionAci mention_aci))
         | Style style \<Rightarrow>
             rbind (opt_panic ''called `Result::unwrap()` on an `Err` value'' (wire_style_of style))
               (\<lambda>st. Inr (ranged (WStyle (Some st))))
         | Link link \<Rightarrow> Inr None
         | Button label act \<Rightarrow> Inr None))"

definition to_vec :: "('b \<Rightarrow> body_range list option) \<Rightarrow> 'b option \<Rightarrow> wire_body_range list res" where
  "to_vec decode message_ranges =
     (case message_ranges of
        None \<Rightarrow> Inr []
      | Some b \<Rightarrow>
          rbind (deserialize decode b) (\<lambda>rs.
          rbind (rmap wire_range rs) (\<lambda>ws. Inr (List.map_filter id ws))))"

section \<open>Escaping\<close>

definition replace_char :: "char \<Rightarrow> string \<Rightarrow> utext \<Rightarrow> utext" where
  "replace_char c by t = concat (map (\<lambda>x. if x = of_char c then lit by else [x]) t)"

definition escape_pre :: "utext \<Rightarrow> utext" where
  "escape_pre s = replace_char CHR ''>'' ''&gt;'' (replace_char CHR ''<'' ''&lt;'' (replace_char CHR ''&'' ''&amp;'' s))"

definition escape :: "utext \<Rightarrow> utext" where
  "escape s = replace_char CHR 0x0A ''<br>'' (escape_pre s)"

section \<open>Segments\<close>

record segment =
  contents :: utext
  sg_start :: nat
  bold :: bool
  italic :: bool
  spoiler :: bool
  strikethrough :: bool
  monospace :: bool
  mention :: "(utext \<times> utext option) option"
  link :: "utext option"

definition sg_end :: "segment \<Rightarrow> nat" where
  "sg_end s = sg_start s + count_utf16 (contents s)"

text \<open>
  The character a split falls on: the first one that begins at the position or after it, or the
  last one when there is none.
\<close>

fun split_index :: "nat \<Rightarrow> nat \<Rightarrow> nat \<Rightarrow> nat \<Rightarrow> utext \<Rightarrow> nat" where
  "split_index char_idx utf8_pos utf16_pos pos [] = utf8_pos"
| "split_index char_idx utf8_pos utf16_pos pos (c # cs) =
     (if utf16_pos \<ge> char_idx then pos
      else split_index char_idx pos (utf16_pos + len_utf16 c) (pos + 1) cs)"

definition split_at :: "nat \<Rightarrow> segment \<Rightarrow> segment list" where
  "split_at char_idx s =
     (let idx = split_index char_idx 0 0 0 (contents s)
      in [s\<lparr>contents := take idx (contents s)\<rparr>,
          s\<lparr>contents := drop idx (contents s), sg_start := sg_start s + char_idx, mention := None\<rparr>])"

definition plain_segment :: "utext \<Rightarrow> nat \<Rightarrow> utext option \<Rightarrow> segment" where
  "plain_segment t start l =
     \<lparr> contents = t, sg_start = start, bold = False, italic = False, spoiler = False,
       strikethrough = False, monospace = False, mention = None, link = l \<rparr>"

text \<open>A span is a piece of the message and whether it is a link; they come in order.\<close>

fun span_segments :: "nat \<Rightarrow> (utext \<times> bool) list \<Rightarrow> segment list" where
  "span_segments start [] = []"
| "span_segments start ((t, is_link) # spans) =
     plain_segment t start (if is_link then Some t else None) # span_segments (start + count_utf16 t) spans"

datatype body_range_type =
    SignalBodyRange body_range
  | Geo nat utext

definition as_usize :: "int \<Rightarrow> nat" where
  "as_usize i = nat (i mod 2 ^ 64)"

fun range_len :: "body_range_type \<Rightarrow> nat" where
  "range_len (SignalBodyRange r) = as_usize (br_length r)"
| "range_len (Geo start s) = sum_list (map len_utf8 s)"

fun range_start :: "body_range_type \<Rightarrow> nat" where
  "range_start (SignalBodyRange r) = as_usize (br_start r)"
| "range_start (Geo start s) = start"

definition annotate :: "associated_value option \<Rightarrow> segment \<Rightarrow> segment" where
  "annotate style s =
     (case style of
        None \<Rightarrow> s
      | Some (Style n) \<Rightarrow>
          (if n = 0 then s\<lparr>bold := True\<rparr> else if n = 1 then s\<lparr>italic := True\<rparr>
           else if n = 2 then s\<lparr>spoiler := True\<rparr> else if n = 3 then s\<lparr>strikethrough := True\<rparr>
           else if n = 4 then s\<lparr>monospace := True\<rparr> else s)
      | Some (MentionUuid u) \<Rightarrow>
          s\<lparr>mention := Some (u, if count_utf16 (contents s) = 1 \<and> contents s = [0xFFFC] then None
                                else Some (contents s))\<rparr>
      | Some (Link l) \<Rightarrow> s\<lparr>link := Some l\<rparr>
      | Some (Button label act) \<Rightarrow> s)"

fun apply_style :: "body_range_type \<Rightarrow> segment \<Rightarrow> segment" where
  "apply_style (SignalBodyRange r) s = annotate (br_value r) s"
| "apply_style (Geo start t) s = s\<lparr>link := Some t\<rparr>"

section \<open>Applying the ranges\<close>

definition search_segment :: "(nat list \<Rightarrow> nat) \<Rightarrow> (segment \<Rightarrow> bool) \<Rightarrow> segment list \<Rightarrow> nat option" where
  "search_segment pick equal segments =
     (let hits = filter (\<lambda>i. equal (segments ! i)) [0..<length segments]
      in if hits = [] then None else Some (pick hits))"

definition splice_split :: "nat \<Rightarrow> nat \<Rightarrow> segment list \<Rightarrow> segment list" where
  "splice_split i at segments = take i segments @ split_at at (segments ! i) @ drop (Suc i) segments"

definition map_slice :: "nat \<Rightarrow> nat \<Rightarrow> ('a \<Rightarrow> 'a) \<Rightarrow> 'a list \<Rightarrow> 'a list" where
  "map_slice left right f xs =
     take left xs @ map f (take (Suc right - left) (drop left xs)) @ drop (Suc right) xs"

text \<open>\<open>Inr None\<close> is the early return with the message as it is.\<close>

definition apply_range ::
  "(nat list \<Rightarrow> nat) \<Rightarrow> nat \<Rightarrow> body_range_type \<Rightarrow> segment list \<Rightarrow> segment list option res" where
  "apply_range pick message_size r segments =
     (let start = range_start r;
          stop = (start + range_len r) mod 2 ^ 64
      in if stop > message_size then Inr None
         else
           rbind (opt_panic ''range start in segment''
                    (search_segment pick (\<lambda>s. \<not> sg_end s \<le> start \<and> \<not> sg_start s > start) segments)) (\<lambda>left.
           let left_split = start - sg_start (segments ! left);
               segments1 = (if left_split \<noteq> 0 then splice_split left left_split segments else segments)
           in rbind (opt_panic ''range end in segment''
                       (search_segment pick (\<lambda>s. \<not> sg_end s < stop \<and> \<not> sg_start s > stop) segments1)) (\<lambda>right.
              let right_split = stop - sg_start (segments1 ! right);
                  segments2 = (if right_split \<noteq> count_utf16 (contents (segments1 ! right))
                               then splice_split right right_split segments1 else segments1);
                  left' = (if left_split \<noteq> 0 then left + 1 else left)
              in if left' > Suc right then Inl (Panic ''slice index starts after its end'')
                 else Inr (Some (map_slice left' right (apply_style r) segments2)))))"

fun apply_ranges ::
  "(nat list \<Rightarrow> nat) \<Rightarrow> nat \<Rightarrow> body_range_type list \<Rightarrow> segment list \<Rightarrow> segment list option res" where
  "apply_ranges pick message_size [] segments = Inr (Some segments)"
| "apply_ranges pick message_size (r # rs) segments =
     rbind (apply_range pick message_size r segments) (\<lambda>res.
       case res of None \<Rightarrow> Inr None | Some segments' \<Rightarrow> apply_ranges pick message_size rs segments')"

section \<open>The markup\<close>

definition SPOILER_TAG_UNCLICKED :: utext where
  "SPOILER_TAG_UNCLICKED = lit (''<span style='' @ [CHR 0x27] @ ''background-color: '' @ [CHR 0x22]
     @ ''white'' @ [CHR 0x22] @ ''; color: '' @ [CHR 0x22] @ ''white'' @ [CHR 0x22] @ '';'' @ [CHR 0x27] @ ''>'')"

definition TOUCHING_SPOILERS :: utext where
  "TOUCHING_SPOILERS = lit ''</span>'' @ SPOILER_TAG_UNCLICKED"

definition LINK_TAG_UNCLICKED :: utext where
  "LINK_TAG_UNCLICKED = lit (''<a style='' @ [CHR 0x27] @ ''background-color: '' @ [CHR 0x22]
     @ ''white'' @ [CHR 0x22] @ ''; color: '' @ [CHR 0x22] @ ''white'' @ [CHR 0x22] @ '';'' @ [CHR 0x27] @ '' '')"

definition LINK_TAG_CLICKED :: utext where
  "LINK_TAG_CLICKED = lit ''<a ''"

definition tags_before :: "segment \<Rightarrow> utext" where
  "tags_before s = lit ((if bold s then ''<b>'' else []) @ (if italic s then ''<i>'' else [])
                        @ (if strikethrough s then ''<s>'' else []))"

definition tags_after :: "segment \<Rightarrow> utext" where
  "tags_after s = lit ((if strikethrough s then ''</s>'' else []) @ (if italic s then ''</i>'' else [])
                       @ (if bold s then ''</b>'' else []))"

definition render_contents :: "(utext \<Rightarrow> utext) \<Rightarrow> segment \<Rightarrow> utext" where
  "render_contents mention_lookup s =
     (let tag = (if spoiler s then LINK_TAG_UNCLICKED else LINK_TAG_CLICKED);
          quote = [CHR 0x22]
      in case mention s of
           Some (m, _) \<Rightarrow> tag @ lit (''href='' @ quote @ ''mention://'') @ m @ lit (quote @ ''>@'')
                          @ mention_lookup m @ lit ''</a>''
         | None \<Rightarrow>
             (case link s of
                Some l \<Rightarrow> tag @ lit (''href='' @ quote) @ l @ lit (quote @ ''>'') @ escape (contents s) @ lit ''</a>''
              | None \<Rightarrow>
                  if monospace s then lit ''<pre>'' @ escape_pre (contents s) @ lit ''</pre>''
                  else escape (contents s)))"

definition render :: "(utext \<Rightarrow> utext) \<Rightarrow> segment \<Rightarrow> utext" where
  "render mention_lookup s =
     tags_before s @ (if spoiler s then SPOILER_TAG_UNCLICKED else [])
     @ render_contents mention_lookup s
     @ (if spoiler s then lit ''</span>'' else []) @ tags_after s"

function remove_all :: "'a list \<Rightarrow> 'a list \<Rightarrow> 'a list" where
  "remove_all pat [] = []"
| "remove_all pat (x # xs) =
     (if pat \<noteq> [] \<and> take (length pat) (x # xs) = pat then remove_all pat (drop (length pat) (x # xs))
      else x # remove_all pat xs)"
  by pat_completeness auto

termination
  by (relation "measure (\<lambda>(_, xs). length xs)") (auto simp: neq_Nil_conv)

definition to_styled ::
  "(nat list \<Rightarrow> nat) \<Rightarrow> (utext \<Rightarrow> (utext \<times> bool) list) \<Rightarrow> (utext \<Rightarrow> (nat \<times> utext) list)
     \<Rightarrow> (utext \<Rightarrow> utext) \<Rightarrow> utext \<Rightarrow> body_range list \<Rightarrow> utext res" where
  "to_styled pick spans find_geo mention_lookup message ranges =
     (let segments = span_segments 0 (spans message);
          geo_ranges = find_geo message
      in if length segments = 1 \<and> link (hd segments) = None \<and> ranges = [] \<and> geo_ranges = []
         then Inr (escape message)
         else
           rbind (apply_ranges pick (count_utf16 message)
                    (map SignalBodyRange ranges @ map (\<lambda>(b, s). Geo b s) geo_ranges) segments) (\<lambda>res.
           case res of
             None \<Rightarrow> Inr message
           | Some segs \<Rightarrow>
               Inr (remove_all TOUCHING_SPOILERS (concat (map (render mention_lookup) segs)))))"

end
