(* ===== verification/BodyRangeProps.thy ===== *)
theory BodyRangeProps
  imports BodyRanges
begin

text \<open>
  Facts about formatted text: applying the ranges one after the other, splitting segments on the
  way, gives every character exactly the styles of the ranges that cover it; and the inputs on
  which it does not.
\<close>

section \<open>Characters with their positions\<close>

lemma len_utf16_pos [simp]: "0 < len_utf16 c"
  by (simp add: len_utf16_def)

lemma count_utf16_simps [simp]:
  "count_utf16 [] = 0" "count_utf16 (c # cs) = len_utf16 c + count_utf16 cs"
  "count_utf16 (xs @ ys) = count_utf16 xs + count_utf16 ys"
  by (simp_all add: count_utf16_def)

lemma count_utf16_0 [simp]: "count_utf16 t = 0 \<longleftrightarrow> t = []"
  by (cases t) auto

record style_of =
  is_bold :: bool
  is_italic :: bool
  is_spoiler :: bool
  is_strikethrough :: bool
  is_monospace :: bool
  is_link :: "utext option"

definition look :: "segment \<Rightarrow> style_of" where
  "look s = \<lparr> is_bold = bold s, is_italic = italic s, is_spoiler = spoiler s,
              is_strikethrough = strikethrough s, is_monospace = monospace s, is_link = link s \<rparr>"

fun place :: "nat \<Rightarrow> utext \<Rightarrow> (nat \<times> nat) list" where
  "place p [] = []"
| "place p (c # cs) = (p, c) # place (p + len_utf16 c) cs"

lemma place_append: "place p (xs @ ys) = place p xs @ place (p + count_utf16 xs) ys"
  by (induction xs arbitrary: p) (auto simp: add.assoc)

lemma place_bounds: "(q, c) \<in> set (place p t) \<Longrightarrow> p \<le> q \<and> q < p + count_utf16 t"
  by (induction t arbitrary: p) (fastforce simp: less_Suc_eq_le)+

definition units :: "segment list \<Rightarrow> (nat \<times> nat \<times> style_of) list" where
  "units segs = concat (map (\<lambda>s. map (\<lambda>(p, c). (p, c, look s)) (place (sg_start s) (contents s))) segs)"

lemma units_simps [simp]:
  "units [] = []" "units (xs @ ys) = units xs @ units ys"
  "units (s # ss) = map (\<lambda>(p, c). (p, c, look s)) (place (sg_start s) (contents s)) @ units ss"
  by (simp_all add: units_def)

text \<open>Segments that follow each other without a gap.\<close>

fun laid_out :: "nat \<Rightarrow> segment list \<Rightarrow> bool" where
  "laid_out p [] = True"
| "laid_out p (s # ss) \<longleftrightarrow> sg_start s = p \<and> laid_out (sg_end s) ss"

fun last_end :: "nat \<Rightarrow> segment list \<Rightarrow> nat" where
  "last_end p [] = p"
| "last_end p (s # ss) = last_end (sg_end s) ss"

definition text_of :: "segment list \<Rightarrow> utext" where
  "text_of segs = concat (map contents segs)"

lemma text_of_simps [simp]:
  "text_of [] = []" "text_of (s # ss) = contents s @ text_of ss" "text_of (xs @ ys) = text_of xs @ text_of ys"
  by (simp_all add: text_of_def)

lemma laid_out_append: "laid_out p (xs @ ys) \<longleftrightarrow> laid_out p xs \<and> laid_out (last_end p xs) ys"
  by (induction xs arbitrary: p) auto

lemma last_end_append: "last_end p (xs @ ys) = last_end (last_end p xs) ys"
  by (induction xs arbitrary: p) auto

lemma last_end_count: "laid_out p xs \<Longrightarrow> last_end p xs = p + count_utf16 (text_of xs)"
  by (induction xs arbitrary: p) (auto simp: sg_end_def)

lemma units_bounds:
  "laid_out p xs \<Longrightarrow> (q, c, st) \<in> set (units xs) \<Longrightarrow> p \<le> q \<and> q < last_end p xs"
proof (induction xs arbitrary: p)
  case (Cons s ss)
  have "sg_end s \<le> last_end (sg_end s) ss"
    using Cons.prems(1) last_end_count[of "sg_end s" ss] by simp
  then show ?case
    using Cons place_bounds[of q c "sg_start s" "contents s"] by (fastforce simp: sg_end_def)
qed simp

lemma units_places: "laid_out p segs \<Longrightarrow> map (\<lambda>(q, c, _). (q, c)) (units segs) = place p (text_of segs)"
  by (induction segs arbitrary: p) (auto simp: place_append sg_end_def o_def split_beta)

section \<open>Splitting\<close>

definition boundary :: "utext \<Rightarrow> nat \<Rightarrow> bool" where
  "boundary t p \<longleftrightarrow> (\<exists>k\<le>length t. count_utf16 (take k t) = p)"

lemma split_index_prefix:
  "split_index (u + count_utf16 xs) l u pos (xs @ c # ys) = pos + length xs"
proof (induction xs arbitrary: l u pos)
  case (Cons a xs)
  have "u < u + count_utf16 (a # xs)"
    by simp
  with Cons.IH[of "u + len_utf16 a" pos "pos + 1"] show ?case
    by (simp add: add.assoc)
qed simp

lemma split_at_prefix:
  assumes "contents s = xs @ ys" and "ys \<noteq> []"
  shows "split_at (count_utf16 xs) s
    = [s\<lparr>contents := xs\<rparr>, s\<lparr>contents := ys, sg_start := sg_start s + count_utf16 xs, mention := None\<rparr>]"
  using assms split_index_prefix[of 0 xs 0 0] by (auto simp: split_at_def neq_Nil_conv)

lemma look_update [simp]: "look (s\<lparr>contents := t\<rparr>) = look s" "look (s\<lparr>sg_start := p\<rparr>) = look s"
  "look (s\<lparr>mention := m\<rparr>) = look s"
  by (simp_all add: look_def)

lemma split_at_units:
  assumes "contents s = xs @ ys" and "ys \<noteq> []"
  shows "units (split_at (count_utf16 xs) s) = units [s]" "text_of (split_at (count_utf16 xs) s) = contents s"
    and "laid_out p (split_at (count_utf16 xs) s) \<longleftrightarrow> sg_start s = p"
    and "last_end p (split_at (count_utf16 xs) s) = sg_end s"
  using assms by (auto simp: split_at_prefix place_append sg_end_def)

text \<open>A boundary of the whole text inside a segment is a boundary of the segment.\<close>

lemma boundary_inside:
  assumes "boundary (a @ t @ b) (count_utf16 a + q)" and "q < count_utf16 t"
  obtains xs ys where "t = xs @ ys" "count_utf16 xs = q" "ys \<noteq> []"
proof -
  obtain k where k: "count_utf16 (take k (a @ t @ b)) = count_utf16 a + q"
    using assms(1) by (auto simp: boundary_def)
  have "count_utf16 (take k a) \<le> count_utf16 a"
    by (metis append_take_drop_id count_utf16_simps(3) le_add1)
  consider "k < length a" | "length a \<le> k" "k - length a < length t" | "length a + length t \<le> k"
    by linarith
  then show ?thesis
  proof cases
    case 1
    then have "count_utf16 (drop k a) = 0" 
      using k by (metis add_is_0 append_take_drop_id add_left_imp_eq count_utf16_simps(3) diff_is_0_eq
          less_imp_le_nat take_append take0 append.right_neutral add_eq_self_zero le_add1 le_antisym)
    then show ?thesis using 1 by simp
  next
    case 2
    then have "count_utf16 (take (k - length a) t) = q"
      using k by simp
    then show ?thesis
      using that[of "take (k - length a) t" "drop (k - length a) t"] 2 by simp
  next
    case 3
    then have "count_utf16 a + count_utf16 t \<le> count_utf16 a + q"
      using k by simp
    then show ?thesis using assms(2) by simp
  qed
qed

section \<open>Positions of the segments\<close>

lemma laid_out_nth:
  assumes "laid_out p segs" and "i < length segs"
  shows "sg_start (segs ! i) = last_end p (take i segs)"
    and "last_end p (take (Suc i) segs) = sg_end (segs ! i)"
proof -
  have "laid_out p (take i segs @ segs ! i # drop (Suc i) segs)"
    using assms by (simp add: id_take_nth_drop[symmetric])
  then show "sg_start (segs ! i) = last_end p (take i segs)"
    by (simp add: laid_out_append)
  show "last_end p (take (Suc i) segs) = sg_end (segs ! i)"
    using assms(2) by (simp add: take_Suc_conv_app_nth last_end_append)
qed

lemma last_end_ge: "laid_out p xs \<Longrightarrow> p \<le> last_end p xs"
  by (simp add: last_end_count)

lemma last_end_take_mono:
  assumes "laid_out p segs" and "i \<le> j"
  shows "last_end p (take i segs) \<le> last_end p (take j segs)"
proof -
  have "laid_out p (take j segs)"
    using assms(1) by (metis append_take_drop_id laid_out_append)
  moreover have "take j segs = take i segs @ take (j - i) (drop i segs)"
    using assms(2) by (simp add: take_add[symmetric])
  ultimately show ?thesis
    by (simp add: last_end_append last_end_ge laid_out_append)
qed

lemma splice_split_facts:
  assumes lay: "laid_out p segs" and i: "i < length segs"
    and cut: "contents (segs ! i) = xs @ ys" "ys \<noteq> []" "at = count_utf16 xs"
  shows "laid_out p (splice_split i at segs)" "units (splice_split i at segs) = units segs"
    and "text_of (splice_split i at segs) = text_of segs"
    and "length (splice_split i at segs) = Suc (length segs)"
    and "last_end p (splice_split i at segs) = last_end p segs"
    and "sg_start (splice_split i at segs ! Suc i) = sg_start (segs ! i) + at"
    and "sg_end (splice_split i at segs ! i) = sg_start (segs ! i) + at"
    and "j \<le> i \<Longrightarrow> sg_start (splice_split i at segs ! j) = sg_start (segs ! j)"
proof -
  note id = id_take_nth_drop[OF i]
  have "laid_out p (take i segs @ segs ! i # drop (Suc i) segs)"
    using lay id by simp
  then show "laid_out p (splice_split i at segs)"
    unfolding cut(3) by (simp add: splice_split_def laid_out_append split_at_units[OF cut(1,2)])
  show "units (splice_split i at segs) = units segs"
    using arg_cong[OF id, of units] by (simp add: splice_split_def cut(3) split_at_units[OF cut(1,2)])
  show "text_of (splice_split i at segs) = text_of segs"
    using arg_cong[OF id, of text_of] by (simp add: splice_split_def cut(3) split_at_units[OF cut(1,2)])
  show "length (splice_split i at segs) = Suc (length segs)"
    using i by (simp add: splice_split_def cut(3) split_at_prefix[OF cut(1,2)])
  show "last_end p (splice_split i at segs) = last_end p segs"
    using arg_cong[OF id, of "last_end p"]
    by (simp add: splice_split_def cut(3) last_end_append split_at_units[OF cut(1,2)])
  show "sg_start (splice_split i at segs ! Suc i) = sg_start (segs ! i) + at"
    "sg_end (splice_split i at segs ! i) = sg_start (segs ! i) + at"
    "j \<le> i \<Longrightarrow> sg_start (splice_split i at segs ! j) = sg_start (segs ! j)"
    using i by (auto simp: splice_split_def cut(3) split_at_prefix[OF cut(1,2)] nth_append sg_end_def)
qed

lemma search_segment_Some:
  assumes pick: "\<And>xs. xs \<noteq> [] \<Longrightarrow> pick xs \<in> set xs" and "search_segment pick P segs = Some i"
  shows "i < length segs \<and> P (segs ! i)"
  using assms(2) pick[of "filter (\<lambda>i. P (segs ! i)) [0..<length segs]"]
  by (auto simp: search_segment_def Let_def split: if_splits)

lemma search_segment_None:
  "search_segment pick P segs = None \<longleftrightarrow> (\<forall>i<length segs. \<not> P (segs ! i))"
  by (auto simp: search_segment_def Let_def filter_empty_conv)

text \<open>A position within the text is in a segment.\<close>

lemma segment_at:
  assumes "laid_out p segs" and "p \<le> q" and "q < last_end p segs"
  shows "\<exists>i<length segs. sg_start (segs ! i) \<le> q \<and> q < sg_end (segs ! i)"
  using assms
proof (induction segs arbitrary: p)
  case (Cons s ss)
  show ?case
  proof (cases "q < sg_end s")
    case True
    then show ?thesis using Cons.prems by (intro exI[of _ 0]) simp
  next
    case False
    then obtain i where "i < length ss" "sg_start (ss ! i) \<le> q" "q < sg_end (ss ! i)"
      using Cons.IH[of "sg_end s"] Cons.prems by auto
    then show ?thesis by (intro exI[of _ "Suc i"]) simp
  qed
qed simp

section \<open>The reference: what a range does to a character\<close>

fun mark :: "body_range_type \<Rightarrow> style_of \<Rightarrow> style_of" where
  "mark (SignalBodyRange r) st =
     (case br_value r of
        Some (Style n) \<Rightarrow>
          (if n = 0 then st\<lparr>is_bold := True\<rparr> else if n = 1 then st\<lparr>is_italic := True\<rparr>
           else if n = 2 then st\<lparr>is_spoiler := True\<rparr> else if n = 3 then st\<lparr>is_strikethrough := True\<rparr>
           else if n = 4 then st\<lparr>is_monospace := True\<rparr> else st)
      | Some (Link l) \<Rightarrow> st\<lparr>is_link := Some l\<rparr>
      | _ \<Rightarrow> st)"
| "mark (Geo b t) st = st\<lparr>is_link := Some t\<rparr>"

definition mark_at :: "nat \<Rightarrow> body_range_type \<Rightarrow> style_of \<Rightarrow> style_of" where
  "mark_at p r st = (if range_start r \<le> p \<and> p < range_start r + range_len r then mark r st else st)"

definition fits :: "utext \<Rightarrow> body_range_type \<Rightarrow> bool" where
  "fits message r \<longleftrightarrow> 0 < range_len r \<and> range_start r + range_len r \<le> count_utf16 message
     \<and> boundary message (range_start r) \<and> boundary message (range_start r + range_len r)"

lemma apply_style_frame [simp]:
  "contents (apply_style r s) = contents s" "sg_start (apply_style r s) = sg_start s"
  "sg_end (apply_style r s) = sg_end s"
  by (cases r; auto simp: annotate_def sg_end_def split: option.splits associated_value.splits)+

lemma look_apply_style: "look (apply_style r s) = mark r (look s)"
  by (cases r) (auto simp: annotate_def look_def split: option.splits associated_value.splits)

lemma units_apply_style: "units (map (apply_style r) segs) = map (\<lambda>(p, c, st). (p, c, mark r st)) (units segs)"
  by (induction segs) (auto simp: look_apply_style)

lemma laid_out_apply_style [simp]: "laid_out p (map (apply_style r) segs) = laid_out p segs"
  by (induction segs arbitrary: p) auto

lemma last_end_apply_style [simp]: "last_end p (map (apply_style r) segs) = last_end p segs"
  by (induction segs arbitrary: p) auto

lemma text_of_apply_style [simp]: "text_of (map (apply_style r) segs) = text_of segs"
  by (induction segs) auto

lemma map_slice_facts:
  assumes lay: "laid_out 0 segs" and lr: "left \<le> right" "right < length segs"
    and l: "sg_start (segs ! left) = range_start r"
    and r: "sg_end (segs ! right) = range_start r + range_len r"
  shows "laid_out 0 (map_slice left right (apply_style r) segs)"
    and "text_of (map_slice left right (apply_style r) segs) = text_of segs"
    and "units (map_slice left right (apply_style r) segs)
           = map (\<lambda>(p, c, st). (p, c, mark_at p r st)) (units segs)"
proof -
  define xs where "xs = take left segs"
  define ys where "ys = take (Suc right - left) (drop left segs)"
  define zs where "zs = drop (Suc right) segs"
  have xy: "take (Suc right) segs = xs @ ys"
    unfolding xs_def ys_def using lr by (simp add: take_add[symmetric])
  have segs: "segs = xs @ ys @ zs"
    using append_take_drop_id[of "Suc right" segs] unfolding xy zs_def by simp
  have slice: "map_slice left right (apply_style r) segs = xs @ map (apply_style r) ys @ zs"
    by (simp add: map_slice_def xs_def ys_def zs_def)
  have lays: "laid_out 0 xs" "laid_out (last_end 0 xs) ys" "laid_out (last_end 0 (xs @ ys)) zs"
    using lay unfolding segs laid_out_append last_end_append by auto
  have a: "last_end 0 xs = range_start r"
    using laid_out_nth(1)[OF lay, of left] lr l by (simp add: xs_def)
  have b: "last_end 0 (xs @ ys) = range_start r + range_len r"
    using laid_out_nth(2)[OF lay lr(2)] r by (simp add: xy)
  show "laid_out 0 (map_slice left right (apply_style r) segs)"
    using lay unfolding slice by (simp add: segs laid_out_append)
  show "text_of (map_slice left right (apply_style r) segs) = text_of segs"
    unfolding slice by (simp add: segs)
  have "map (\<lambda>(p, c, st). (p, c, mark_at p r st)) (units xs) = units xs"
    using units_bounds[OF lays(1)] a by (intro map_idI) (fastforce simp: mark_at_def)
  moreover have "map (\<lambda>(p, c, st). (p, c, mark_at p r st)) (units zs) = units zs"
    using units_bounds[OF lays(3)] b by (intro map_idI) (fastforce simp: mark_at_def)
  moreover have "map (\<lambda>(p, c, st). (p, c, mark_at p r st)) (units ys)
      = map (\<lambda>(p, c, st). (p, c, mark r st)) (units ys)"
    using units_bounds[OF lays(2)] a b by (intro map_cong[OF refl]) (fastforce simp: mark_at_def last_end_append)
  ultimately show "units (map_slice left right (apply_style r) segs)
      = map (\<lambda>(p, c, st). (p, c, mark_at p r st)) (units segs)"
    unfolding slice by (simp add: segs units_apply_style)
qed

text \<open>A segment that a boundary of the text falls into can be split there.\<close>

lemma cut_at:
  assumes lay: "laid_out 0 segs" and i: "i < length segs" and b: "boundary (text_of segs) q"
    and inside: "sg_start (segs ! i) \<le> q" "q < sg_end (segs ! i)"
  obtains xs ys where "contents (segs ! i) = xs @ ys" "ys \<noteq> []" "q - sg_start (segs ! i) = count_utf16 xs"
proof -
  have "text_of segs = text_of (take i segs) @ contents (segs ! i) @ text_of (drop (Suc i) segs)"
    using arg_cong[OF id_take_nth_drop[OF i], of text_of] by simp
  moreover have "laid_out 0 (take i segs)"
    using lay by (metis append_take_drop_id laid_out_append)
  then have "sg_start (segs ! i) = count_utf16 (text_of (take i segs))"
    using laid_out_nth(1)[OF lay i] by (simp add: last_end_count)
  ultimately show ?thesis
    using boundary_inside[of "text_of (take i segs)" "contents (segs ! i)" "text_of (drop (Suc i) segs)"
        "q - sg_start (segs ! i)"] b inside that
    by (metis sg_end_def le_add_diff_inverse add_less_cancel_left)
qed

section \<open>One range\<close>

lemma split_left:
  assumes lay: "laid_out 0 segs" and b: "boundary (text_of segs) start" and i: "i < length segs"
    and hit: "sg_start (segs ! i) \<le> start" "start < sg_end (segs ! i)"
  defines "off \<equiv> start - sg_start (segs ! i)"
  defines "segs1 \<equiv> (if off \<noteq> 0 then splice_split i off segs else segs)"
  defines "left \<equiv> (if off \<noteq> 0 then i + 1 else i)"
  shows "laid_out 0 segs1 \<and> text_of segs1 = text_of segs \<and> units segs1 = units segs
         \<and> left < length segs1 \<and> sg_start (segs1 ! left) = start"
proof (cases "off = 0")
  case True
  then show ?thesis
    using assms by simp
next
  case False
  obtain xs ys where "contents (segs ! i) = xs @ ys" "ys \<noteq> []" "off = count_utf16 xs"
    unfolding off_def by (rule cut_at[OF lay i b hit])
  from splice_split_facts[OF lay i this] False show ?thesis
    using i hit by (simp add: segs1_def left_def) (simp add: off_def)
qed

lemma split_right:
  assumes lay: "laid_out 0 segs" and b: "boundary (text_of segs) stop" and i: "i < length segs"
    and hit: "sg_start (segs ! i) \<le> stop" "stop \<le> sg_end (segs ! i)" and left: "left \<le> i"
  defines "off \<equiv> stop - sg_start (segs ! i)"
  defines "segs2 \<equiv> (if off \<noteq> count_utf16 (contents (segs ! i)) then splice_split i off segs else segs)"
  shows "laid_out 0 segs2 \<and> text_of segs2 = text_of segs \<and> units segs2 = units segs
         \<and> i < length segs2 \<and> sg_end (segs2 ! i) = stop \<and> sg_start (segs2 ! left) = sg_start (segs ! left)"
proof (cases "off = count_utf16 (contents (segs ! i))")
  case True
  then have "sg_end (segs ! i) = stop"
    using hit by (simp add: off_def sg_end_def)
  then show ?thesis
    using assms True by simp
next
  case False
  then have "stop < sg_end (segs ! i)"
    using hit by (auto simp: off_def sg_end_def)
  then obtain xs ys where "contents (segs ! i) = xs @ ys" "ys \<noteq> []" "off = count_utf16 xs"
    unfolding off_def by (rule cut_at[OF lay i b hit(1)])
  from splice_split_facts[OF lay i this] False show ?thesis
    using i hit left by (simp add: segs2_def) (simp add: off_def)
qed

lemma right_after_left:
  assumes "laid_out 0 segs" "left < length segs" "i < length segs"
    and "sg_start (segs ! left) < sg_end (segs ! i)"
  shows "left \<le> i"
proof (rule ccontr)
  assume "\<not> left \<le> i"
  then have "last_end 0 (take (Suc i) segs) \<le> last_end 0 (take left segs)"
    using last_end_take_mono[OF assms(1), of "Suc i" left] by simp
  then show False
    using laid_out_nth[OF assms(1,2)] laid_out_nth[OF assms(1,3)] assms(4) by simp
qed

lemma apply_range_fits:
  assumes pick: "\<And>xs. xs \<noteq> [] \<Longrightarrow> pick xs \<in> set xs"
    and lay: "laid_out 0 segs" and fit: "fits (text_of segs) r"
    and size: "count_utf16 (text_of segs) < 2 ^ 64"
  shows "\<exists>segs'. apply_range pick (count_utf16 (text_of segs)) r segs = Inr (Some segs')
           \<and> laid_out 0 segs' \<and> text_of segs' = text_of segs
           \<and> units segs' = map (\<lambda>(p, c, st). (p, c, mark_at p r st)) (units segs)"
proof -
  define start where "start = range_start r"
  define stop where "stop = start + range_len r"
  have st: "start < stop" "stop \<le> count_utf16 (text_of segs)" "boundary (text_of segs) start"
    "boundary (text_of segs) stop"
    using fit by (auto simp: fits_def start_def stop_def)
  have total: "last_end 0 segs = count_utf16 (text_of segs)"
    using last_end_count[OF lay] by simp
  define P where "P = (\<lambda>s. \<not> sg_end s \<le> start \<and> \<not> sg_start s > start)"
  have "search_segment pick P segs \<noteq> None"
    using segment_at[OF lay, of start] st(1,2) total unfolding search_segment_None P_def by force
  then obtain i where i: "search_segment pick P segs = Some i"
    by auto
  have il: "i < length segs" "sg_start (segs ! i) \<le> start" "start < sg_end (segs ! i)"
    using search_segment_Some[OF pick i] by (auto simp: P_def)
  define off where "off = start - sg_start (segs ! i)"
  define segs1 where "segs1 = (if off \<noteq> 0 then splice_split i off segs else segs)"
  define left where "left = (if off \<noteq> 0 then i + 1 else i)"
  have s1: "laid_out 0 segs1" "text_of segs1 = text_of segs" "units segs1 = units segs"
    "left < length segs1" "sg_start (segs1 ! left) = start"
    using split_left[OF lay st(3) il] unfolding off_def segs1_def left_def by blast+
  define Q where "Q = (\<lambda>s. \<not> sg_end s < stop \<and> \<not> sg_start s > stop)"
  have "\<exists>j<length segs1. sg_start (segs1 ! j) \<le> stop - 1 \<and> stop - 1 < sg_end (segs1 ! j)"
    using segment_at[OF s1(1), of "stop - 1"] st(1,2) last_end_count[OF s1(1)] s1(2) by simp
  then have "search_segment pick Q segs1 \<noteq> None"
    using st(1) unfolding search_segment_None Q_def by force
  then obtain j where j: "search_segment pick Q segs1 = Some j"
    by auto
  have jl: "j < length segs1" "sg_start (segs1 ! j) \<le> stop" "stop \<le> sg_end (segs1 ! j)"
    using search_segment_Some[OF pick j] by (auto simp: Q_def)
  have lj: "left \<le> j"
    using right_after_left[OF s1(1,4) jl(1)] s1(5) st(1) jl(3) by simp
  define off2 where "off2 = stop - sg_start (segs1 ! j)"
  define segs2 where "segs2 = (if off2 \<noteq> count_utf16 (contents (segs1 ! j))
                               then splice_split j off2 segs1 else segs1)"
  have "boundary (text_of segs1) stop"
    using st(4) s1(2) by simp
  from split_right[OF s1(1) this jl lj] have s2: "laid_out 0 segs2" "text_of segs2 = text_of segs1"
    "units segs2 = units segs1" "j < length segs2" "sg_end (segs2 ! j) = stop" "sg_start (segs2 ! left) = sg_start (segs1 ! left)"
    unfolding off2_def segs2_def by blast+
  have mod: "stop mod 2 ^ 64 = stop"
    using st(2) size by simp
  have "apply_range pick (count_utf16 (text_of segs)) r segs
      = Inr (Some (map_slice left j (apply_style r) segs2))"
    unfolding apply_range_def Let_def start_def[symmetric] stop_def[symmetric] i[unfolded P_def]
      opt_panic_simps rbind_Inr off_def[symmetric] segs1_def[symmetric] left_def[symmetric]
    unfolding mod j[unfolded Q_def] opt_panic_simps rbind_Inr off2_def[symmetric]
      segs2_def[symmetric]
    using st(2) lj by (simp only: not_less[symmetric] le_Suc_eq if_False simp_thms) auto
  then show ?thesis
    using map_slice_facts[OF s2(1) lj s2(4), of r] s1 s2 by (simp add: start_def stop_def)
qed

section \<open>All the ranges\<close>

lemma apply_ranges_fit:
  assumes pick: "\<And>xs. xs \<noteq> [] \<Longrightarrow> pick xs \<in> set xs"
    and "laid_out 0 segs" and "list_all (fits (text_of segs)) rs"
    and "count_utf16 (text_of segs) < 2 ^ 64"
  shows "\<exists>segs'. apply_ranges pick (count_utf16 (text_of segs)) rs segs = Inr (Some segs')
           \<and> text_of segs' = text_of segs
           \<and> units segs' = map (\<lambda>(p, c, st). (p, c, fold (mark_at p) rs st)) (units segs)"
  using assms(2-)
proof (induction rs arbitrary: segs)
  case (Cons r rs)
  obtain segs1 where s1: "apply_range pick (count_utf16 (text_of segs)) r segs = Inr (Some segs1)"
      "laid_out 0 segs1" "text_of segs1 = text_of segs"
      "units segs1 = map (\<lambda>(p, c, st). (p, c, mark_at p r st)) (units segs)"
    using apply_range_fits[OF pick, of segs r] Cons.prems by (auto simp del: power_numeral_reduce)
  obtain segs2 where s2: "apply_ranges pick (count_utf16 (text_of segs1)) rs segs1 = Inr (Some segs2)"
      "text_of segs2 = text_of segs1"
      "units segs2 = map (\<lambda>(p, c, st). (p, c, fold (mark_at p) rs st)) (units segs1)"
    using Cons.IH[of segs1] Cons.prems s1(2,3) by (auto simp del: power_numeral_reduce)
  have "units segs2 = map (\<lambda>(p, c, st). (p, c, fold (mark_at p) (r # rs) st)) (units segs)"
    by (simp add: s2(3) s1(4) o_def split_beta)
  then show ?case
    using s1(1,3) s2(1,2) by simp
qed (simp add: case_prod_beta)

lemma laid_out_spans: "laid_out p (span_segments p spans)"
  by (induction p spans rule: span_segments.induct) (auto simp: plain_segment_def sg_end_def)

lemma text_of_spans: "text_of (span_segments p spans) = concat (map fst spans)"
  by (induction p spans rule: span_segments.induct) (auto simp: plain_segment_def)

definition all_ranges :: "body_range list \<Rightarrow> (nat \<times> utext) list \<Rightarrow> body_range_type list" where
  "all_ranges ranges geo = map SignalBodyRange ranges @ map (\<lambda>(b, s). Geo b s) geo"

text \<open>
  C31. Formatted text.  When the ranges lie within the message, are not empty and begin and end
  between characters, the message is rendered from segments that are the message in order, and
  each character has exactly the styles and the link of the ranges that cover it, applied one
  after the other - however the ranges overlap, and whatever matching segment the binary search
  of the library picks.
\<close>

theorem styled_as_covered:
  assumes pick: "\<And>xs. xs \<noteq> [] \<Longrightarrow> pick xs \<in> set xs"
    and spans: "concat (map fst (spans message)) = message"
    and ranges: "ranges \<noteq> []" "list_all (fits message) (all_ranges ranges (find_geo message))"
    and size: "count_utf16 message < 2 ^ 64"
  shows "\<exists>segs. to_styled pick spans find_geo mention_lookup message ranges
             = Inr (remove_all TOUCHING_SPOILERS (concat (map (render mention_lookup) segs)))
           \<and> text_of segs = message
           \<and> units segs = map (\<lambda>(p, c, st). (p, c, fold (mark_at p) (all_ranges ranges (find_geo message)) st))
                               (units (span_segments 0 (spans message)))"
proof -
  let ?segs = "span_segments 0 (spans message)"
  have whole: "text_of ?segs = message"
    by (simp add: text_of_spans spans)
  obtain segs where "apply_ranges pick (count_utf16 message) (all_ranges ranges (find_geo message)) ?segs
        = Inr (Some segs)" "text_of segs = message"
      "units segs = map (\<lambda>(p, c, st). (p, c, fold (mark_at p) (all_ranges ranges (find_geo message)) st)) (units ?segs)"
    using apply_ranges_fit[OF pick laid_out_spans[of 0 "spans message"]] ranges(2) size unfolding whole by blast
  then show ?thesis
    using ranges(1) by (auto simp: to_styled_def all_ranges_def)
qed

definition bold_middle :: body_range where
  "bold_middle = \<lparr> br_start = 1, br_length = 1, br_value = Some (Style 0) \<rparr>"

theorem styled_as_covered_witness:
  "\<exists>segs. to_styled last (\<lambda>m. [(m, False)]) (\<lambda>m. []) id (lit ''bXb'') [bold_middle]
             = Inr (remove_all TOUCHING_SPOILERS (concat (map (render id) segs)))
           \<and> text_of segs = lit ''bXb''
           \<and> map (\<lambda>(p, c, st). (c, is_bold st)) (units segs) = [(98, False), (88, True), (98, False)]"
proof -
  have b: "boundary (lit ''bXb'') 1" "boundary (lit ''bXb'') 2"
    by (auto simp: boundary_def lit_def len_utf16_def intro: exI[of _ "Suc 0"] exI[of _ "2"])
  have fit: "list_all (fits (lit ''bXb'')) (all_ranges [bold_middle] [])"
    using b by (simp add: fits_def all_ranges_def bold_middle_def as_usize_def lit_def len_utf16_def numeral_2_eq_2)
  have one: "range_start (SignalBodyRange bold_middle) = 1" "range_len (SignalBodyRange bold_middle) = 1"
    by (simp_all add: bold_middle_def as_usize_def)
  obtain segs where "to_styled last (\<lambda>m. [(m, False)]) (\<lambda>m. []) id (lit ''bXb'') [bold_middle]
        = Inr (remove_all TOUCHING_SPOILERS (concat (map (render id) segs)))"
      "text_of segs = lit ''bXb''"
      "units segs = map (\<lambda>(p, c, st). (p, c, fold (mark_at p) (all_ranges [bold_middle] []) st))
         (units (span_segments 0 [(lit ''bXb'', False)]))"
    using styled_as_covered[of last "\<lambda>m. [(m, False)]" "lit ''bXb''" "[bold_middle]" "\<lambda>m. []" id] fit
    by (auto simp: lit_def len_utf16_def)
  then show ?thesis
    by (intro exI[of _ segs])
      (simp add: plain_segment_def lit_def len_utf16_def look_def all_ranges_def mark_at_def one,
       simp add: bold_middle_def as_usize_def)
qed

section \<open>Ranges the renderer does not expect\<close>

lemma as_usize_nat: "0 \<le> i \<Longrightarrow> i < 2 ^ 64 \<Longrightarrow> as_usize i = nat i"
  by (simp add: as_usize_def)

lemma span_segments_end: "s \<in> set (span_segments p spans) \<Longrightarrow> sg_end s \<le> p + count_utf16 (concat (map fst spans))"
proof (induction p spans rule: span_segments.induct)
  case (2 start t is_link spans)
  then show ?case
    by (auto simp: plain_segment_def sg_end_def)
qed simp

lemma no_segment_at_end:
  "search_segment pick (\<lambda>s. \<not> sg_end s \<le> p + count_utf16 (concat (map fst spans)) \<and> Q s) (span_segments p spans) = None"
  using span_segments_end[OF nth_mem] by (auto simp: search_segment_None)

text \<open>
  Unexpected ranges.  The ranges come from the sender.  If the first one reaches beyond the
  message, the message is returned as it is, without escaping what looks like markup in it; if it
  is empty and at the end of the message, rendering the message panics.
\<close>

theorem unexpected_ranges:
  assumes spans: "concat (map fst (spans message)) = message"
    and beyond: "0 \<le> br_start r" "br_start r < 2 ^ 31" "0 \<le> br_length r" "br_length r < 2 ^ 31"
      "int (count_utf16 message) < br_start r + br_length r"
    and at_end: "br_start e = int (count_utf16 message)" "br_start e < 2 ^ 31" "br_length e = 0"
  shows "to_styled pick spans find_geo mention_lookup message (r # ranges) = Inr message
         \<and> to_styled pick spans find_geo mention_lookup message (e # ranges)
             = Inl (Panic ''range start in segment'')"
proof
  have "(range_start (SignalBodyRange r) + range_len (SignalBodyRange r)) mod 2 ^ 64
      = nat (br_start r + br_length r)"
    using beyond by (simp add: as_usize_nat nat_add_distrib)
  moreover have "count_utf16 message < nat (br_start r + br_length r)"
    using beyond(5) by linarith
  ultimately have "apply_range pick (count_utf16 message) (SignalBodyRange r) segs = Inr None" for segs
    by (simp add: apply_range_def Let_def del: range_start.simps range_len.simps)
  then show "to_styled pick spans find_geo mention_lookup message (r # ranges) = Inr message"
    by (simp add: to_styled_def)
  have "range_start (SignalBodyRange e) = count_utf16 message" "range_len (SignalBodyRange e) = 0"
    using at_end by (simp_all add: as_usize_def)
  moreover have "count_utf16 message mod 2 ^ 64 = count_utf16 message"
    using at_end by simp
  ultimately have "apply_range pick (count_utf16 message) (SignalBodyRange e) (span_segments 0 (spans message))
      = Inl (Panic ''range start in segment'')"
    using no_segment_at_end[of pick 0 "spans message"]
    by (simp add: apply_range_def spans del: range_start.simps range_len.simps)
  then show "to_styled pick spans find_geo mention_lookup message (e # ranges)
             = Inl (Panic ''range start in segment'')"
    by (simp add: to_styled_def)
qed

theorem unexpected_ranges_witness:
  "to_styled last (\<lambda>m. [(m, False)]) (\<lambda>m. []) id (lit ''<b>'') [\<lparr> br_start = 0, br_length = 4, br_value = None \<rparr>]
     = Inr (lit ''<b>'')"
  using unexpected_ranges[of "\<lambda>m. [(m, False)]" "lit ''<b>''" "\<lparr> br_start = 0, br_length = 4, br_value = None \<rparr>"
      "\<lparr> br_start = 3, br_length = 0, br_value = None \<rparr>" last "\<lambda>m. []" id "[]"]
  by (simp add: lit_def len_utf16_def)

section \<open>Storing and sending ranges\<close>

text \<open>
  The ranges that come back as they were: 32-bit numbers, and a mention by its text or a named style
  other than \<open>NONE\<close>.  A mention by the bytes of an ACI is proper in the protocol too; it is stored
  by its text, and comes back as such a mention.
\<close>

definition proper_range :: "wire_body_range \<Rightarrow> bool" where
  "proper_range r \<longleftrightarrow>
     (\<exists>a b v. r = \<lparr> wr_start = Some a, wr_length = Some b, wr_value = Some v \<rparr> \<and> a < 2 ^ 32 \<and> b < 2 ^ 32
        \<and> ((\<exists>u. v = WMentionAci u) \<or> (\<exists>st. v = WStyle (Some st) \<and> st \<noteq> WNone)))"

lemma wire_range_stored:
  "proper_range r \<Longrightarrow> \<exists>x. stored_range uuid_string r = Inr x \<and> wire_range x = Inr (Some r)"
  unfolding proper_range_def
  by (auto simp: stored_range_def stored_value_def wire_range_def Let_def u32_of_i32_of_u32)
    (case_tac st; simp add: wire_style_of_def u32_of_i32_of_u32)

lemma wire_ranges_stored:
  assumes "list_all proper_range rs"
  shows "\<exists>xs. rmap (stored_range uuid_string) rs = Inr xs \<and> rmap wire_range xs = Inr (map Some rs)"
  using assms
proof (induction rs)
  case (Cons r rs)
  then show ?case
    using wire_range_stored[of r uuid_string] by auto
qed simp

text \<open>
  C32. Ranges are kept.  What is stored of proper ranges is sent as the same ranges, given that the
  protobuf library reads what it has written.  A range without a style or a mention is stored as
  well, and then panics when the message is sent.
\<close>

theorem ranges_round_trip:
  assumes decode: "\<And>xs. decode (encode xs) = Some xs" and "list_all proper_range rs"
  shows "(\<exists>b. serialize uuid_string encode rs = Inr b \<and> to_vec decode b = Inr rs)
         \<and> (\<exists>b. serialize uuid_string encode [\<lparr> wr_start = Some i, wr_length = Some n, wr_value = None \<rparr>] = Inr b
                \<and> to_vec decode b = Inl (Panic ''associated_value in db''))"
proof
  obtain xs where "rmap (stored_range uuid_string) rs = Inr xs" "rmap wire_range xs = Inr (map Some rs)"
    using wire_ranges_stored[OF assms(2)] by blast
  then show "\<exists>b. serialize uuid_string encode rs = Inr b \<and> to_vec decode b = Inr rs"
    by (cases "rs = []")
      (auto simp: serialize_def to_vec_def deserialize_def decode map_filter_def o_def)
  show "\<exists>b. serialize uuid_string encode [\<lparr> wr_start = Some i, wr_length = Some n, wr_value = None \<rparr>] = Inr b
      \<and> to_vec decode b = Inl (Panic ''associated_value in db'')"
    by (simp add: serialize_def to_vec_def deserialize_def decode stored_range_def wire_range_def)
qed

theorem ranges_round_trip_witness:
  "\<exists>b. serialize id id [\<lparr> wr_start = Some 2, wr_length = Some 1, wr_value = Some (WStyle (Some WItalic)) \<rparr>] = Inr b
       \<and> to_vec Some b = Inr [\<lparr> wr_start = Some 2, wr_length = Some 1, wr_value = Some (WStyle (Some WItalic)) \<rparr>]"
  using ranges_round_trip[of Some id "[\<lparr> wr_start = Some 2, wr_length = Some 1, wr_value = Some (WStyle (Some WItalic)) \<rparr>]" id]
  by (simp add: proper_range_def)

end
