(* ===== verification/ProtocolStore.thy ===== *)
theory ProtocolStore
  imports Prelude
begin

text \<open>
  The keys and sessions of the Signal protocol
  (\<open>whisperfish-store/src/store/protocol_store.rs\<close>): one-time, signed and Kyber pre-keys, the
  sessions with other devices, the identity keys of others and sender keys, each kept apart for
  the two identities of the account, the ACI and the PNI.

  The records are bytes to the store; how the library writes and reads them are the arguments
  \<open>serialize_record\<close> and \<open>deserialize_record\<close> (for identity keys \<open>encode_key\<close> and
  \<open>decode_key\<close>).  The three pre-key tables have an integer primary key that is declared
  \<open>ON CONFLICT REPLACE\<close>, so an insertion replaces a row with the same id whatever its identity; the rows
  are in the order of the key.  The primary key of sender keys is resolved in the same way and
  leaves out the identity as well.  The locks around the operations are not modelled.
\<close>

section \<open>Data\<close>

datatype identity = Aci | Pni

datatype protocol_error =
    InvalidPreKeyId
  | InvalidSignedPreKeyId
  | InvalidKyberPreKeyId
  | SessionNotFound string nat
  | RecordError
  | StorePanic string

type_synonym 'a pres = "protocol_error + 'a"

record prekey =
  pk_id :: int
  pk_record :: "nat list"
  pk_identity :: identity

record kyber_prekey =
  kp_id :: int
  kp_record :: "nat list"
  kp_identity :: identity
  kp_is_last_resort :: bool

record session_record =
  sr_address :: string
  sr_device_id :: int
  sr_record :: "nat list"
  sr_identity :: identity

record identity_record =
  ir_address :: string
  ir_record :: "nat list"
  ir_identity :: identity

record sender_key_record =
  sk_address :: string
  sk_device :: int
  sk_distribution_id :: string
  sk_record :: "nat list"
  sk_created_at :: int
  sk_identity :: identity

record protocol_store =
  prekeys :: "prekey list"
  signed_prekeys :: "prekey list"
  kyber_prekeys :: "kyber_prekey list"
  session_records :: "session_record list"
  identity_records :: "identity_record list"
  sender_key_records :: "sender_key_record list"

text \<open>An address of the protocol: a service id as text, and a device.\<close>

type_synonym address = "string \<times> nat"

definition replace_row :: "('r \<Rightarrow> int) \<Rightarrow> 'r \<Rightarrow> 'r list \<Rightarrow> 'r list" where
  "replace_row key r tab = insort_key key r (delete_where (\<lambda>x. key x = key r) tab)"

section \<open>Pre-keys\<close>

definition max_id :: "('r \<Rightarrow> int) \<Rightarrow> 'r list \<Rightarrow> int option" where
  "max_id key tab = (case map key tab of [] \<Rightarrow> None | x # xs \<Rightarrow> Some (fold max xs x))"

definition next_id_after :: "int option \<Rightarrow> nat" where
  "next_id_after m = u32_of_i32 (i32_wrap ((case m of None \<Rightarrow> - 1 | Some n \<Rightarrow> n) + 1))"

definition next_pre_key_id :: "protocol_store \<Rightarrow> nat" where
  "next_pre_key_id ps = next_id_after (max_id pk_id (prekeys ps))"

definition next_signed_pre_key_id :: "protocol_store \<Rightarrow> nat" where
  "next_signed_pre_key_id ps = next_id_after (max_id pk_id (signed_prekeys ps))"

definition next_pq_pre_key_id :: "protocol_store \<Rightarrow> nat" where
  "next_pq_pre_key_id ps = next_id_after (max_id kp_id (kyber_prekeys ps))"

definition signed_pre_keys_count :: "identity \<Rightarrow> protocol_store \<Rightarrow> nat" where
  "signed_pre_keys_count me ps = count_where (\<lambda>k. pk_identity k = me) (signed_prekeys ps)"

definition kyber_pre_keys_count :: "identity \<Rightarrow> protocol_store \<Rightarrow> nat" where
  "kyber_pre_keys_count me ps = count_where (\<lambda>k. kp_identity k = me) (kyber_prekeys ps)"

definition signed_prekey_id :: "identity \<Rightarrow> protocol_store \<Rightarrow> nat option" where
  "signed_prekey_id me ps =
     map_option u32_of_i32 (max_id pk_id (filter (\<lambda>k. pk_identity k = me) (signed_prekeys ps)))"

definition last_resort_kyber_prekey_id :: "identity \<Rightarrow> protocol_store \<Rightarrow> nat option" where
  "last_resort_kyber_prekey_id me ps =
     map_option u32_of_i32
       (max_id kp_id (filter (\<lambda>k. kp_is_last_resort k \<and> kp_identity k = me) (kyber_prekeys ps)))"

definition needs_pre_key_refresh :: "identity \<Rightarrow> protocol_store \<Rightarrow> bool" where
  "needs_pre_key_refresh me ps =
     (if count_where (\<lambda>k. pk_identity k = me) (signed_prekeys ps) = 0 then True
      else if count_where (\<lambda>k. kp_identity k = me \<and> kp_is_last_resort k) (kyber_prekeys ps) = 0 then True
      else False)"

definition get_pre_key ::
  "(nat list \<Rightarrow> 'k pres) \<Rightarrow> identity \<Rightarrow> nat \<Rightarrow> protocol_store \<Rightarrow> 'k pres" where
  "get_pre_key deserialize_record me prekey_id ps =
     ebind (ok_or InvalidPreKeyId
              (first_where (\<lambda>k. pk_id k = i32_of_u32 prekey_id \<and> pk_identity k = me) (prekeys ps)))
       (\<lambda>k. deserialize_record (pk_record k))"

definition save_pre_key ::
  "('k \<Rightarrow> nat list pres) \<Rightarrow> identity \<Rightarrow> nat \<Rightarrow> 'k \<Rightarrow> protocol_store \<Rightarrow> protocol_store pres" where
  "save_pre_key serialize_record me prekey_id body ps =
     ebind (serialize_record body) (\<lambda>b.
       Inr (ps\<lparr>prekeys := replace_row pk_id
              \<lparr> pk_id = i32_of_u32 prekey_id, pk_record = b, pk_identity = me \<rparr> (prekeys ps)\<rparr>))"

definition remove_pre_key :: "identity \<Rightarrow> nat \<Rightarrow> protocol_store \<Rightarrow> protocol_store" where
  "remove_pre_key me prekey_id ps =
     ps\<lparr>prekeys := delete_where (\<lambda>k. pk_id k = i32_of_u32 prekey_id \<and> pk_identity k = me) (prekeys ps)\<rparr>"

definition get_signed_pre_key ::
  "(nat list \<Rightarrow> 'k pres) \<Rightarrow> identity \<Rightarrow> nat \<Rightarrow> protocol_store \<Rightarrow> 'k pres" where
  "get_signed_pre_key deserialize_record me prekey_id ps =
     ebind (ok_or InvalidSignedPreKeyId
              (first_where (\<lambda>k. pk_id k = i32_of_u32 prekey_id \<and> pk_identity k = me) (signed_prekeys ps)))
       (\<lambda>k. deserialize_record (pk_record k))"

definition save_signed_pre_key ::
  "('k \<Rightarrow> nat list pres) \<Rightarrow> identity \<Rightarrow> nat \<Rightarrow> 'k \<Rightarrow> protocol_store \<Rightarrow> protocol_store pres" where
  "save_signed_pre_key serialize_record me prekey_id body ps =
     ebind (serialize_record body) (\<lambda>b.
       Inr (ps\<lparr>signed_prekeys := replace_row pk_id
              \<lparr> pk_id = i32_of_u32 prekey_id, pk_record = b, pk_identity = me \<rparr> (signed_prekeys ps)\<rparr>))"

definition get_kyber_pre_key ::
  "(nat list \<Rightarrow> 'k pres) \<Rightarrow> identity \<Rightarrow> nat \<Rightarrow> protocol_store \<Rightarrow> 'k pres" where
  "get_kyber_pre_key deserialize_record me prekey_id ps =
     ebind (ok_or InvalidKyberPreKeyId
              (first_where (\<lambda>k. kp_id k = i32_of_u32 prekey_id \<and> kp_identity k = me) (kyber_prekeys ps)))
       (\<lambda>k. deserialize_record (kp_record k))"

definition insert_kyber ::
  "('k \<Rightarrow> nat list pres) \<Rightarrow> bool \<Rightarrow> identity \<Rightarrow> nat \<Rightarrow> 'k \<Rightarrow> protocol_store \<Rightarrow> protocol_store pres" where
  "insert_kyber serialize_record last_resort me prekey_id body ps =
     ebind (serialize_record body) (\<lambda>b.
       Inr (ps\<lparr>kyber_prekeys := replace_row kp_id
              \<lparr> kp_id = i32_of_u32 prekey_id, kp_record = b, kp_identity = me,
                kp_is_last_resort = last_resort \<rparr> (kyber_prekeys ps)\<rparr>))"

definition save_kyber_pre_key ::
  "('k \<Rightarrow> nat list pres) \<Rightarrow> identity \<Rightarrow> nat \<Rightarrow> 'k \<Rightarrow> protocol_store \<Rightarrow> protocol_store pres" where
  "save_kyber_pre_key serialize_record = insert_kyber serialize_record False"

definition store_last_resort_kyber_pre_key ::
  "('k \<Rightarrow> nat list pres) \<Rightarrow> identity \<Rightarrow> nat \<Rightarrow> 'k \<Rightarrow> protocol_store \<Rightarrow> protocol_store pres" where
  "store_last_resort_kyber_pre_key serialize_record = insert_kyber serialize_record True"

fun collect_results :: "'a pres list \<Rightarrow> 'a list pres" where
  "collect_results [] = Inr []"
| "collect_results (r # rs) = ebind r (\<lambda>x. ebind (collect_results rs) (\<lambda>xs. Inr (x # xs)))"

definition load_last_resort_kyber_pre_keys ::
  "(nat list \<Rightarrow> 'k pres) \<Rightarrow> identity \<Rightarrow> protocol_store \<Rightarrow> 'k list pres" where
  "load_last_resort_kyber_pre_keys deserialize_record me ps =
     collect_results (map (\<lambda>k. deserialize_record (kp_record k))
       (filter (\<lambda>k. kp_is_last_resort k \<and> kp_identity k = me) (kyber_prekeys ps)))"

definition mark_kyber_pre_key_used :: "identity \<Rightarrow> nat \<Rightarrow> protocol_store \<Rightarrow> protocol_store" where
  "mark_kyber_pre_key_used me prekey_id ps =
     ps\<lparr>kyber_prekeys := delete_where
          (\<lambda>k. kp_id k = i32_of_u32 prekey_id \<and> kp_identity k = me \<and> \<not> kp_is_last_resort k) (kyber_prekeys ps)\<rparr>"

section \<open>Sessions\<close>

definition session_key :: "identity \<Rightarrow> address \<Rightarrow> session_record \<Rightarrow> bool" where
  "session_key me addr s \<longleftrightarrow>
     sr_address s = fst addr \<and> sr_device_id s = i32_of_u32 (snd addr) \<and> sr_identity s = me"

definition load_session ::
  "(nat list \<Rightarrow> 'k pres) \<Rightarrow> identity \<Rightarrow> address \<Rightarrow> protocol_store \<Rightarrow> 'k option pres" where
  "load_session deserialize_record me addr ps =
     (case first_where (session_key me addr) (session_records ps) of
        None \<Rightarrow> Inr None
      | Some s \<Rightarrow> ebind (deserialize_record (sr_record s)) (\<lambda>k. Inr (Some k)))"

definition contains_session :: "identity \<Rightarrow> address \<Rightarrow> protocol_store \<Rightarrow> bool" where
  "contains_session me addr ps = (count_where (session_key me addr) (session_records ps) \<noteq> 0)"

definition store_session ::
  "('k \<Rightarrow> nat list pres) \<Rightarrow> identity \<Rightarrow> address \<Rightarrow> 'k \<Rightarrow> protocol_store \<Rightarrow> protocol_store pres" where
  "store_session serialize_record me addr session ps =
     ebind (serialize_record session) (\<lambda>b.
       Inr (ps\<lparr>session_records :=
              (if contains_session me addr ps
               then update_where (session_key me addr) (\<lambda>s. s\<lparr>sr_record := b\<rparr>) (session_records ps)
               else session_records ps @
                      [\<lparr> sr_address = fst addr, sr_device_id = i32_of_u32 (snd addr), sr_record = b,
                         sr_identity = me \<rparr>])\<rparr>))"

definition get_sub_device_sessions ::
  "nat \<Rightarrow> (nat \<Rightarrow> bool) \<Rightarrow> identity \<Rightarrow> string \<Rightarrow> protocol_store \<Rightarrow> nat list pres" where
  "get_sub_device_sessions default_device_id valid_device me name ps =
     (let records = map sr_device_id
            (filter (\<lambda>s. sr_address s = name \<and> sr_device_id s \<noteq> i32_of_u32 default_device_id
                         \<and> sr_identity s = me) (session_records ps))
      in collect_results
           (map (\<lambda>i. if valid_device (u32_of_i32 i) then Inr (u32_of_i32 i)
                     else Inl (StorePanic ''valid device ids in db'')) records))"

definition delete_protocol_session :: "identity \<Rightarrow> address \<Rightarrow> protocol_store \<Rightarrow> unit pres \<times> protocol_store" where
  "delete_protocol_session me addr ps =
     (if count_where (session_key me addr) (session_records ps) \<noteq> 1
      then Inl (SessionNotFound (fst addr) (snd addr)) else Inr (),
      ps\<lparr>session_records := delete_where (session_key me addr) (session_records ps)\<rparr>)"

definition delete_all_sessions :: "identity \<Rightarrow> string \<Rightarrow> protocol_store \<Rightarrow> nat \<times> protocol_store" where
  "delete_all_sessions me name ps =
     (let P = (\<lambda>s. sr_address s = name \<and> sr_identity s = me)
      in (count_where P (session_records ps),
          ps\<lparr>session_records := delete_where P (session_records ps)\<rparr>))"

section \<open>Identity keys\<close>

datatype identity_change = NewOrUnchanged | ReplacedExisting

definition identity_key :: "identity \<Rightarrow> string \<Rightarrow> identity_record \<Rightarrow> bool" where
  "identity_key me name r \<longleftrightarrow> ir_address r = name \<and> ir_identity r = me"

definition get_identity ::
  "(nat list \<Rightarrow> 'k option) \<Rightarrow> identity \<Rightarrow> address \<Rightarrow> protocol_store \<Rightarrow> 'k option pres" where
  "get_identity decode_key me addr ps =
     (case first_where (identity_key me (fst addr)) (identity_records ps) of
        None \<Rightarrow> Inr None
      | Some r \<Rightarrow>
          ebind (ok_or (StorePanic ''only valid identity keys in db'') (decode_key (ir_record r)))
            (\<lambda>k. Inr (Some k)))"

definition is_trusted_identity ::
  "(nat list \<Rightarrow> 'k option) \<Rightarrow> identity \<Rightarrow> address \<Rightarrow> 'k \<Rightarrow> protocol_store \<Rightarrow> bool pres" where
  "is_trusted_identity decode_key me addr key ps =
     ebind (get_identity decode_key me addr ps) (\<lambda>trusted.
       case trusted of Some trusted_key \<Rightarrow> Inr (trusted_key = key) | None \<Rightarrow> Inr True)"

definition save_identity ::
  "('k \<Rightarrow> nat list) \<Rightarrow> (nat list \<Rightarrow> 'k option) \<Rightarrow> identity \<Rightarrow> address \<Rightarrow> 'k \<Rightarrow> protocol_store
     \<Rightarrow> (identity_change \<times> protocol_store) pres" where
  "save_identity encode_key decode_key me addr key ps =
     ebind (get_identity decode_key me addr ps) (\<lambda>previous.
       if previous \<noteq> None
       then Inr (if previous = Some key then NewOrUnchanged else ReplacedExisting,
                 ps\<lparr>identity_records := update_where (identity_key me (fst addr))
                      (\<lambda>r. r\<lparr>ir_record := encode_key key\<rparr>) (identity_records ps)\<rparr>)
       else Inr (NewOrUnchanged,
                 ps\<lparr>identity_records := identity_records ps @
                      [\<lparr> ir_address = fst addr, ir_record = encode_key key, ir_identity = me \<rparr>]\<rparr>))"

text \<open>
  Here the identity is not that of the account the key was seen by but the kind of the address:
  \<open>name\<close> is the address as text and \<open>kind\<close> its kind.
\<close>

definition delete_identity_key :: "string \<Rightarrow> identity \<Rightarrow> protocol_store \<Rightarrow> bool \<times> protocol_store" where
  "delete_identity_key name kind ps =
     (exists_where (identity_key kind name) (identity_records ps),
      ps\<lparr>identity_records := delete_where (identity_key kind name) (identity_records ps)\<rparr>)"

section \<open>Sender keys\<close>

definition sender_key :: "address \<Rightarrow> string \<Rightarrow> sender_key_record \<Rightarrow> bool" where
  "sender_key addr distr_id r \<longleftrightarrow>
     sk_address r = fst addr \<and> sk_device r = i32_of_u32 (snd addr) \<and> sk_distribution_id r = distr_id"

definition store_sender_key ::
  "('k \<Rightarrow> nat list pres) \<Rightarrow> int \<Rightarrow> identity \<Rightarrow> address \<Rightarrow> string \<Rightarrow> 'k \<Rightarrow> protocol_store \<Rightarrow> protocol_store pres" where
  "store_sender_key serialize_record utc_now me addr distr_id key ps =
     ebind (serialize_record key) (\<lambda>b.
       Inr (ps\<lparr>sender_key_records :=
              delete_where (sender_key addr distr_id) (sender_key_records ps) @
                [\<lparr> sk_address = fst addr, sk_device = i32_of_u32 (snd addr), sk_distribution_id = distr_id,
                   sk_record = b, sk_created_at = utc_now, sk_identity = me \<rparr>]\<rparr>))"

definition load_sender_key ::
  "(nat list \<Rightarrow> 'k pres) \<Rightarrow> identity \<Rightarrow> address \<Rightarrow> string \<Rightarrow> protocol_store \<Rightarrow> 'k option pres" where
  "load_sender_key deserialize_record me addr distr_id ps =
     (case first_where (\<lambda>r. sender_key addr distr_id r \<and> sk_identity r = me) (sender_key_records ps) of
        None \<Rightarrow> Inr None
      | Some r \<Rightarrow> ebind (deserialize_record (sk_record r)) (\<lambda>k. Inr (Some k)))"

end
