(* ===== verification/ProtocolProps.thy ===== *)
theory ProtocolProps
  imports ProtocolStore
begin

text \<open>
  What the protocol library can rely on: each table is a map from its key, where an insertion may
  also remove the entries its key clashes with; new pre-keys never replace another one; sessions
  and identity keys are found as they were stored until they are replaced or deleted.
\<close>

section \<open>Tables as maps\<close>

locale keyed_store =
  fixes lookup :: "'k \<Rightarrow> 's \<Rightarrow> 'v option"
    and put :: "'k \<Rightarrow> 'v \<Rightarrow> 's \<Rightarrow> 's"
    and remove :: "'k \<Rightarrow> 's \<Rightarrow> 's"
    and clash :: "'k \<Rightarrow> 'k \<Rightarrow> bool"
  assumes lookup_put: "lookup k (put j v s) = (if k = j then Some v else if clash j k then None else lookup k s)"
    and lookup_remove: "lookup k (remove j s) = (if k = j then None else lookup k s)"
begin

definition abs :: "'s \<Rightarrow> 'k \<Rightarrow> 'v option" where
  "abs s k = lookup k s"

lemma abs_put: "abs (put j v s) = ((abs s |` {k. \<not> clash j k})(j \<mapsto> v))"
  by (auto simp: abs_def lookup_put restrict_map_def)

lemma abs_remove: "abs (remove j s) = (abs s)(j := None)"
  by (auto simp: abs_def lookup_remove)

lemma put_same: "lookup k (put k v s) = Some v"
  by (simp add: lookup_put)

lemma put_fresh: "(\<And>k. clash j k \<Longrightarrow> lookup k s = None) \<Longrightarrow> k \<noteq> j \<Longrightarrow> lookup k (put j v s) = lookup k s"
  by (simp add: lookup_put)

lemma put_other: "k \<noteq> j \<Longrightarrow> \<not> clash j k \<Longrightarrow> lookup k (put j v s) = lookup k s"
  by (simp add: lookup_put)

text \<open>Entries that do not clash with later ones stay.\<close>

lemma puts_kept:
  "\<forall>(j, v)\<in>set kvs. j \<noteq> k \<and> \<not> clash j k \<Longrightarrow> lookup k (fold (\<lambda>(j, v). put j v) kvs s) = lookup k s"
  by (induction kvs arbitrary: s) (auto simp: lookup_put)

lemma put_then_puts:
  "\<forall>(j, v)\<in>set kvs. j \<noteq> k \<and> \<not> clash j k \<Longrightarrow> lookup k (fold (\<lambda>(j, v). put j v) kvs (put k w s)) = Some w"
  using puts_kept[of kvs k "put k w s"] by (simp add: put_same)

end

section \<open>The tables\<close>

lemma first_where_insort:
  assumes "\<not> P r"
  shows "first_where P (insort_key key r tab) = first_where P tab"
  using assms by (induction tab) auto

lemma first_where_insort_only:
  assumes "P r" and "\<forall>x\<in>set tab. \<not> P x"
  shows "first_where P (insort_key key r tab) = Some r"
  using assms by (induction tab) auto

lemma first_where_replace_row:
  assumes "\<And>x. P x \<Longrightarrow> key x = k"
  shows "first_where P (replace_row key r tab)
    = (if P r then Some r else if k = key r then None else first_where P tab)"
proof (cases "P r")
  case True
  then show ?thesis
    using assms by (auto simp: replace_row_def delete_where_def intro!: first_where_insort_only)
next
  case False
  have "first_where P (delete_where (\<lambda>x. key x = key r) tab) = (if k = key r then None else first_where P tab)"
    using assms by (induction tab) (auto simp: delete_where_def)
  with False show ?thesis
    by (simp add: replace_row_def first_where_insort)
qed

lemma first_where_replace_key:
  "first_where (\<lambda>x. key x = k \<and> Q x) (replace_row key r tab)
    = (if key r = k \<and> Q r then Some r else if k = key r then None else first_where (\<lambda>x. key x = k \<and> Q x) tab)"
  by (rule first_where_replace_row) simp

lemma first_where_delete_other:
  assumes "\<And>x. P x \<Longrightarrow> \<not> Q x"
  shows "first_where P (delete_where Q tab) = first_where P tab"
  using assms by (induction tab) (auto simp: delete_where_def)

lemma first_where_delete_same: "first_where P (delete_where P tab) = None"
  by (induction tab) (auto simp: delete_where_def)

definition prekey_lookup :: "identity \<times> int \<Rightarrow> prekey list \<Rightarrow> nat list option" where
  "prekey_lookup k tab = map_option pk_record (first_where (\<lambda>r. pk_id r = snd k \<and> pk_identity r = fst k) tab)"

definition prekey_put :: "identity \<times> int \<Rightarrow> nat list \<Rightarrow> prekey list \<Rightarrow> prekey list" where
  "prekey_put k b = replace_row pk_id \<lparr> pk_id = snd k, pk_record = b, pk_identity = fst k \<rparr>"

definition prekey_remove :: "identity \<times> int \<Rightarrow> prekey list \<Rightarrow> prekey list" where
  "prekey_remove k = delete_where (\<lambda>r. pk_id r = snd k \<and> pk_identity r = fst k)"

definition same_id :: "identity \<times> int \<Rightarrow> identity \<times> int \<Rightarrow> bool" where
  "same_id j k = (snd j = snd k)"

interpretation pre: keyed_store prekey_lookup prekey_put prekey_remove same_id
proof
  fix k j :: "identity \<times> int" and v s
  show "prekey_lookup k (prekey_put j v s)
    = (if k = j then Some v else if same_id j k then None else prekey_lookup k s)"
    by (cases j; cases k) (simp add: prekey_lookup_def prekey_put_def same_id_def first_where_replace_key)
  show "prekey_lookup k (prekey_remove j s) = (if k = j then None else prekey_lookup k s)"
    by (cases j; cases k) (auto simp: prekey_lookup_def prekey_remove_def first_where_delete_same
        intro!: arg_cong[where f = "map_option _"] first_where_delete_other)
qed

text \<open>One-time Kyber keys: what marking as used removes is not the last-resort key.\<close>

definition kyber_lookup :: "identity \<times> int \<Rightarrow> kyber_prekey list \<Rightarrow> (nat list \<times> bool) option" where
  "kyber_lookup k tab = map_option (\<lambda>r. (kp_record r, kp_is_last_resort r))
     (first_where (\<lambda>r. kp_id r = snd k \<and> kp_identity r = fst k) tab)"

definition kyber_put :: "identity \<times> int \<Rightarrow> nat list \<times> bool \<Rightarrow> kyber_prekey list \<Rightarrow> kyber_prekey list" where
  "kyber_put k v = replace_row kp_id
     \<lparr> kp_id = snd k, kp_record = fst v, kp_identity = fst k, kp_is_last_resort = snd v \<rparr>"

definition kyber_remove :: "identity \<times> int \<Rightarrow> kyber_prekey list \<Rightarrow> kyber_prekey list" where
  "kyber_remove k = delete_where (\<lambda>r. kp_id r = snd k \<and> kp_identity r = fst k)"

interpretation kyber: keyed_store kyber_lookup kyber_put kyber_remove same_id
proof
  fix k j :: "identity \<times> int" and v s
  show "kyber_lookup k (kyber_put j v s)
    = (if k = j then Some v else if same_id j k then None else kyber_lookup k s)"
    by (cases j; cases k) (simp add: kyber_lookup_def kyber_put_def same_id_def first_where_replace_key)
  show "kyber_lookup k (kyber_remove j s) = (if k = j then None else kyber_lookup k s)"
    by (cases j; cases k) (auto simp: kyber_lookup_def kyber_remove_def first_where_delete_same
        intro!: arg_cong[where f = "map_option _"] first_where_delete_other)
qed

text \<open>Sessions; the key is the identity, the name and the device.\<close>

definition session_at :: "identity \<times> string \<times> int \<Rightarrow> session_record \<Rightarrow> bool" where
  "session_at k s \<longleftrightarrow> sr_identity s = fst k \<and> sr_address s = fst (snd k) \<and> sr_device_id s = snd (snd k)"

definition session_lookup :: "identity \<times> string \<times> int \<Rightarrow> session_record list \<Rightarrow> nat list option" where
  "session_lookup k tab = map_option sr_record (first_where (session_at k) tab)"

definition session_put :: "identity \<times> string \<times> int \<Rightarrow> nat list \<Rightarrow> session_record list \<Rightarrow> session_record list" where
  "session_put k b tab =
     (if exists_where (session_at k) tab then update_where (session_at k) (\<lambda>s. s\<lparr>sr_record := b\<rparr>) tab
      else tab @ [\<lparr> sr_address = fst (snd k), sr_device_id = snd (snd k), sr_record = b, sr_identity = fst k \<rparr>])"

lemma session_at_other: "k \<noteq> j \<Longrightarrow> session_at k s \<Longrightarrow> \<not> session_at j s"
  by (auto simp: session_at_def prod_eq_iff)

lemma first_where_update_other:
  "(\<And>x. P x \<Longrightarrow> \<not> Q x) \<Longrightarrow> (\<And>x. P (f x) = P x) \<Longrightarrow> first_where P (update_where Q f tab) = first_where P tab"
  by (induction tab) (auto simp: update_where_def)

lemma first_where_update_same:
  "(\<And>x. P (f x) = P x) \<Longrightarrow> first_where P (update_where P f tab) = map_option f (first_where P tab)"
  by (induction tab) (auto simp: update_where_def)

interpretation sess: keyed_store session_lookup session_put "\<lambda>k. delete_where (session_at k)" "\<lambda>_ _. False"
proof
  fix k j :: "identity \<times> string \<times> int" and v s
  have upd: "session_at l (x\<lparr>sr_record := v\<rparr>) = session_at l x" for l x
    by (simp add: session_at_def)
  have row: "session_at l \<lparr> sr_address = fst (snd j), sr_device_id = snd (snd j), sr_record = v,
      sr_identity = fst j \<rparr> \<longleftrightarrow> l = j" for l
    by (auto simp: session_at_def prod_eq_iff)
  show "session_lookup k (session_put j v s)
    = (if k = j then Some v else if False then None else session_lookup k s)"
  proof (cases "exists_where (session_at j) s")
    case True
    then obtain x where "first_where (session_at j) s = Some x"
      by (metis exists_where_iff first_where_None not_None_eq)
    with True show ?thesis
      using first_where_update_other[where P = "session_at k" and Q = "session_at j"
          and f = "\<lambda>s. s\<lparr>sr_record := v\<rparr>"] session_at_other[of k j]
      by (simp add: session_lookup_def session_put_def first_where_update_same upd)
  next
    case False
    then have "first_where (session_at j) s = None"
      by (simp add: exists_where_iff first_where_None)
    with False show ?thesis
      by (cases "k = j"; cases "first_where (session_at k) s")
        (auto simp: session_lookup_def session_put_def first_where_append row)
  qed
  show "session_lookup k (delete_where (session_at j) s) = (if k = j then None else session_lookup k s)"
    using first_where_delete_other[of "session_at k" "session_at j"] session_at_other[of k j]
    by (simp add: session_lookup_def first_where_delete_same)
qed

section \<open>The operations on the tables\<close>

lemma get_pre_key_lookup:
  "get_pre_key de me i ps = ebind (ok_or InvalidPreKeyId (prekey_lookup (me, i32_of_u32 i) (prekeys ps))) de"
  "get_signed_pre_key de me i ps
     = ebind (ok_or InvalidSignedPreKeyId (prekey_lookup (me, i32_of_u32 i) (signed_prekeys ps))) de"
  "get_kyber_pre_key de me i ps
     = ebind (ok_or InvalidKyberPreKeyId (map_option fst (kyber_lookup (me, i32_of_u32 i) (kyber_prekeys ps)))) de"
  by (auto simp: get_pre_key_def get_signed_pre_key_def get_kyber_pre_key_def prekey_lookup_def
      kyber_lookup_def option.map_comp o_def ok_or_def split: option.split)

lemma save_pre_key_put:
  "save_pre_key ser me i k ps
     = ebind (ser k) (\<lambda>b. Inr (ps\<lparr>prekeys := prekey_put (me, i32_of_u32 i) b (prekeys ps)\<rparr>))"
  "save_signed_pre_key ser me i k ps
     = ebind (ser k) (\<lambda>b. Inr (ps\<lparr>signed_prekeys := prekey_put (me, i32_of_u32 i) b (signed_prekeys ps)\<rparr>))"
  "insert_kyber ser lr me i k ps
     = ebind (ser k) (\<lambda>b. Inr (ps\<lparr>kyber_prekeys := kyber_put (me, i32_of_u32 i) (b, lr) (kyber_prekeys ps)\<rparr>))"
  by (simp_all add: save_pre_key_def save_signed_pre_key_def insert_kyber_def prekey_put_def kyber_put_def)

lemma ebind_eq_Inr: "ebind m f = Inr y \<longleftrightarrow> (\<exists>x. m = Inr x \<and> f x = Inr y)"
  by (cases m) auto

lemma i32_of_u32_inj: "m < 2 ^ 32 \<Longrightarrow> n < 2 ^ 32 \<Longrightarrow> i32_of_u32 m = i32_of_u32 n \<longleftrightarrow> m = n"
  using u32_of_i32_of_u32[of m] u32_of_i32_of_u32[of n] by metis

lemma i32_of_next:
  assumes "- 1 \<le> n" and "n < 2 ^ 31 - 1"
  shows "i32_of_u32 (next_id_after (Some n)) = n + 1"
proof -
  have "i32_wrap (n + 1) = n + 1"
    using assms by (simp add: i32_wrap_def)
  then show ?thesis
    using assms by (simp add: next_id_after_def u32_of_i32_def i32_of_u32_def i32_wrap_def)
qed

lemma fold_max_first: "x \<le> fold max xs x" for x :: int
  by (induction xs arbitrary: x) (auto intro: order_trans[OF max.cobounded2])

lemma fold_max_ge: "y \<in> set (x # xs) \<Longrightarrow> y \<le> fold max xs x" for x :: int
proof (induction xs arbitrary: x)
  case (Cons z zs)
  show ?case
  proof (cases "y = x \<or> y = z")
    case True
    then have "y \<le> max z x"
      by auto
    also have "\<dots> \<le> fold max zs (max z x)"
      by (rule fold_max_first)
    finally show ?thesis by simp
  next
    case False
    then show ?thesis
      using Cons.IH[of "max z x"] Cons.prems by simp
  qed
qed simp

lemma fold_max_in: "fold max xs x \<in> insert x (set xs)" for x :: int
  by (induction xs arbitrary: x) (auto simp: max_def)

definition ids_below_max :: "('r \<Rightarrow> int) \<Rightarrow> 'r list \<Rightarrow> bool" where
  "ids_below_max key tab = list_all (\<lambda>r. 0 \<le> key r \<and> key r < 2 ^ 31 - 1) tab"

text \<open>The next id is larger than all there are, of either identity.\<close>

lemma next_id_fresh:
  assumes "ids_below_max key tab" and "r \<in> set tab"
  shows "key r < i32_of_u32 (next_id_after (max_id key tab))"
proof (cases "map key tab")
  case (Cons x xs)
  have mem: "\<forall>y\<in>set (x # xs). 0 \<le> y \<and> y < 2 ^ 31 - 1"
    using assms(1) unfolding Cons[symmetric] ids_below_max_def by (auto simp: list_all_iff)
  have "fold max xs x \<in> set (x # xs)"
    using fold_max_in[of xs x] by simp
  with mem have "i32_of_u32 (next_id_after (Some (fold max xs x))) = fold max xs x + 1"
    by (intro i32_of_next) auto
  moreover have "key r \<in> set (x # xs)"
    using assms(2) unfolding Cons[symmetric] by simp
  then have "key r \<le> fold max xs x"
    by (rule fold_max_ge)
  ultimately show ?thesis
    by (simp add: max_id_def Cons)
qed (use assms in simp)

lemma prekey_lookup_next:
  "ids_below_max pk_id tab \<Longrightarrow> same_id (me, i32_of_u32 (next_id_after (max_id pk_id tab))) k \<Longrightarrow>
     prekey_lookup k tab = None"
  using next_id_fresh[of pk_id tab] by (fastforce simp: prekey_lookup_def same_id_def first_where_None)

lemma kyber_lookup_next:
  "ids_below_max kp_id tab \<Longrightarrow> same_id (me, i32_of_u32 (next_id_after (max_id kp_id tab))) k \<Longrightarrow>
     kyber_lookup k tab = None"
  using next_id_fresh[of kp_id tab] by (fastforce simp: kyber_lookup_def same_id_def first_where_None)

lemma next_id_u32: "next_id_after m < 2 ^ 32"
  by (simp add: next_id_after_def u32_of_i32_def nat_less_iff)

text \<open>
  C33. New pre-keys.  A one-time, signed or Kyber pre-key saved under the next id is found under it
  with its identity, and every other pre-key of either identity is found as before - although the
  tables replace a row with the same id whatever its identity.
\<close>

theorem new_pre_keys_replace_none:
  assumes ids: "ids_below_max pk_id (prekeys ps)" "ids_below_max pk_id (signed_prekeys ps)"
      "ids_below_max kp_id (kyber_prekeys ps)"
    and ser: "ser k = Inr b" "de b = Inr k"
    and other: "me' \<noteq> me \<or> j \<noteq> i" "j < 2 ^ 32"
  shows "(i = next_pre_key_id ps \<longrightarrow> (\<exists>ps'. save_pre_key ser me i k ps = Inr ps'
             \<and> get_pre_key de me i ps' = Inr k \<and> get_pre_key de me' j ps' = get_pre_key de me' j ps))
         \<and> (i = next_signed_pre_key_id ps \<longrightarrow> (\<exists>ps'. save_signed_pre_key ser me i k ps = Inr ps'
             \<and> get_signed_pre_key de me i ps' = Inr k
             \<and> get_signed_pre_key de me' j ps' = get_signed_pre_key de me' j ps))
         \<and> (i = next_pq_pre_key_id ps \<longrightarrow> (\<exists>ps'. save_kyber_pre_key ser me i k ps = Inr ps'
             \<and> get_kyber_pre_key de me i ps' = Inr k
             \<and> get_kyber_pre_key de me' j ps' = get_kyber_pre_key de me' j ps))"
proof (intro conjI impI)
  have key: "(me', i32_of_u32 j) \<noteq> (me, i32_of_u32 i)" if "i = next_id_after m" for m
    using other i32_of_u32_inj[OF other(2) next_id_u32] that by auto
  show "\<exists>ps'. save_pre_key ser me i k ps = Inr ps' \<and> get_pre_key de me i ps' = Inr k
      \<and> get_pre_key de me' j ps' = get_pre_key de me' j ps" if "i = next_pre_key_id ps"
    using that pre.put_fresh[OF prekey_lookup_next[OF ids(1), of me] key]
    by (simp add: save_pre_key_put get_pre_key_lookup ser pre.put_same next_pre_key_id_def)
  show "\<exists>ps'. save_signed_pre_key ser me i k ps = Inr ps' \<and> get_signed_pre_key de me i ps' = Inr k
      \<and> get_signed_pre_key de me' j ps' = get_signed_pre_key de me' j ps" if "i = next_signed_pre_key_id ps"
    using that pre.put_fresh[OF prekey_lookup_next[OF ids(2), of me] key]
    by (simp add: save_pre_key_put get_pre_key_lookup ser pre.put_same next_signed_pre_key_id_def)
  show "\<exists>ps'. save_kyber_pre_key ser me i k ps = Inr ps' \<and> get_kyber_pre_key de me i ps' = Inr k
      \<and> get_kyber_pre_key de me' j ps' = get_kyber_pre_key de me' j ps" if "i = next_pq_pre_key_id ps"
    using that kyber.put_fresh[OF kyber_lookup_next[OF ids(3), of me] key]
    by (simp add: save_kyber_pre_key_def save_pre_key_put get_pre_key_lookup ser kyber.put_same next_pq_pre_key_id_def)
qed

definition two_identities :: protocol_store where
  "two_identities =
     \<lparr> prekeys = [\<lparr> pk_id = 4, pk_record = [1], pk_identity = Aci \<rparr>, \<lparr> pk_id = 7, pk_record = [2], pk_identity = Pni \<rparr>],
       signed_prekeys = [], kyber_prekeys = [], session_records = [], identity_records = [],
       sender_key_records = [] \<rparr>"

theorem new_pre_keys_replace_none_witness:
  "\<exists>ps'. save_pre_key Inr Aci 8 [5] two_identities = Inr ps' \<and> get_pre_key Inr Aci 8 ps' = Inr [5]
     \<and> get_pre_key Inr Pni 7 ps' = Inr [2]"
proof -
  have ids: "ids_below_max pk_id (prekeys two_identities)" "ids_below_max pk_id (signed_prekeys two_identities)"
    "ids_below_max kp_id (kyber_prekeys two_identities)"
    by (simp_all add: two_identities_def ids_below_max_def)
  have "8 = next_pre_key_id two_identities"
    by (simp add: next_pre_key_id_def two_identities_def max_id_def next_id_after_def i32_wrap_def u32_of_i32_def)
  moreover have "get_pre_key Inr Pni 7 two_identities = Inr [2]"
    by (simp add: get_pre_key_def two_identities_def i32_of_u32_def i32_wrap_def)
  ultimately show ?thesis
    using new_pre_keys_replace_none[OF ids, of Inr "[5]" "[5]" Inr Pni Aci 7 8] by simp
qed

section \<open>Sessions\<close>

definition session_table_ok :: "protocol_store \<Rightarrow> bool" where
  "session_table_ok ps = distinct_keys (\<lambda>s. (sr_identity s, sr_address s, sr_device_id s)) (session_records ps)"

lemma session_key_at: "session_key me addr = session_at (me, fst addr, i32_of_u32 (snd addr))"
  by (auto simp: session_key_def session_at_def)

lemma load_session_lookup:
  "load_session de me addr ps =
     (case session_lookup (me, fst addr, i32_of_u32 (snd addr)) (session_records ps) of
        None \<Rightarrow> Inr None | Some b \<Rightarrow> ebind (de b) (\<lambda>k. Inr (Some k)))"
  by (simp add: load_session_def session_lookup_def session_key_at split: option.split)

lemma count_where_0: "count_where P tab = 0 \<longleftrightarrow> \<not> exists_where P tab"
  by (induction tab) (auto simp: count_where_def exists_where_def)

lemma store_session_put:
  "store_session ser me addr k ps = ebind (ser k) (\<lambda>b. Inr (ps\<lparr>session_records :=
     session_put (me, fst addr, i32_of_u32 (snd addr)) b (session_records ps)\<rparr>))"
  unfolding store_session_def contains_session_def session_put_def session_key_at count_where_0 fst_conv snd_conv
  by simp

lemma session_put_keys:
  assumes "distinct_keys (\<lambda>s. (sr_identity s, sr_address s, sr_device_id s)) tab"
  shows "distinct_keys (\<lambda>s. (sr_identity s, sr_address s, sr_device_id s)) (session_put k b tab)"
proof (cases "exists_where (session_at k) tab")
  case True
  then show ?thesis
    using assms by (simp add: session_put_def distinct_keys_update)
next
  case False
  then have "k \<notin> (\<lambda>s. (sr_identity s, sr_address s, sr_device_id s)) ` set tab"
    by (auto simp: exists_where_iff session_at_def)
  then show ?thesis
    using assms False by (simp add: session_put_def distinct_keys_def)
qed

lemma count_session_once:
  assumes "distinct_keys (\<lambda>s. (sr_identity s, sr_address s, sr_device_id s)) tab" and "session_lookup k tab \<noteq> None"
  shows "count_where (session_at k) tab = 1"
  using assms
proof (induction tab)
  case (Cons s tab)
  show ?case
  proof (cases "session_at k s")
    case True
    then have "\<not> exists_where (session_at k) tab"
      using Cons.prems(1) by (force simp: exists_where_iff session_at_def distinct_keys_def)
    with True show ?thesis
      using count_where_0[of "session_at k" tab] by (simp add: count_where_def)
  next
    case False
    then show ?thesis
      using Cons by (simp add: session_lookup_def count_where_def distinct_keys_def)
  qed
qed (simp add: session_lookup_def)

text \<open>
  C34. Sessions.  A stored session is what is loaded for its address and identity, and all the
  other ones are loaded as before; deleting it succeeds once, deleting it again reports that there
  is none; the key of the table stays unique.
\<close>

theorem sessions_are_a_map:
  assumes ok: "session_table_ok ps" and ser: "ser k = Inr b" "de b = Inr k"
    and other: "me' \<noteq> me \<or> addr' \<noteq> addr" "snd addr < 2 ^ 32" "snd addr' < 2 ^ 32"
  shows "\<exists>ps1 ps2. store_session ser me addr k ps = Inr ps1 \<and> session_table_ok ps1
           \<and> load_session de me addr ps1 = Inr (Some k) \<and> load_session de me' addr' ps1 = load_session de me' addr' ps
           \<and> delete_protocol_session me addr ps1 = (Inr (), ps2) \<and> session_table_ok ps2
           \<and> load_session de me addr ps2 = Inr None \<and> load_session de me' addr' ps2 = load_session de me' addr' ps
           \<and> delete_protocol_session me addr ps2 = (Inl (SessionNotFound (fst addr) (snd addr)), ps2)"
proof -
  let ?key = "(me, fst addr, i32_of_u32 (snd addr))"
  define tab1 where "tab1 = session_put ?key b (session_records ps)"
  define tab2 where "tab2 = delete_where (session_at ?key) tab1"
  have neq: "(me', fst addr', i32_of_u32 (snd addr')) \<noteq> ?key"
    using other i32_of_u32_inj[OF other(3,2)] by (auto simp: prod_eq_iff)
  have uniq: "distinct_keys (\<lambda>s. (sr_identity s, sr_address s, sr_device_id s)) tab1"
    using ok session_put_keys unfolding session_table_ok_def tab1_def by blast
  have one: "count_where (session_at ?key) tab1 = 1"
    using uniq by (rule count_session_once) (simp add: tab1_def sess.put_same)
  have none: "count_where (session_at ?key) tab2 = 0"
    by (simp add: tab2_def count_where_def delete_where_def filter_empty_conv)
  have kept1: "session_lookup (me', fst addr', i32_of_u32 (snd addr')) tab1
      = session_lookup (me', fst addr', i32_of_u32 (snd addr')) (session_records ps)"
    unfolding tab1_def using neq by (rule sess.put_other) simp
  have kept2: "session_lookup (me', fst addr', i32_of_u32 (snd addr')) tab2
      = session_lookup (me', fst addr', i32_of_u32 (snd addr')) tab1"
    unfolding tab2_def sess.lookup_remove if_not_P[OF neq] by simp
  have again: "delete_where (session_at ?key) tab2 = tab2"
    by (simp add: tab2_def delete_where_def)
  show ?thesis
    apply (rule exI[of _ "ps\<lparr>session_records := tab1\<rparr>"], rule exI[of _ "ps\<lparr>session_records := tab2\<rparr>"])
    apply (intro conjI)
    subgoal by (simp add: store_session_put ser tab1_def)
    subgoal using uniq by (simp add: session_table_ok_def)
    subgoal by (simp add: load_session_lookup tab1_def sess.put_same ser)
    subgoal by (simp add: load_session_lookup kept1)
    subgoal using one by (simp add: delete_protocol_session_def session_key_at tab2_def)
    subgoal using uniq by (simp add: session_table_ok_def tab2_def distinct_keys_delete)
    subgoal by (simp add: load_session_lookup tab2_def sess.lookup_remove)
    subgoal by (simp add: load_session_lookup kept1 kept2)
    subgoal using none by (simp add: delete_protocol_session_def session_key_at again)
    done
qed

theorem sessions_are_a_map_witness:
  "\<exists>ps1. store_session Inr Aci (''alice'', 1) [9] two_identities = Inr ps1
     \<and> load_session Inr Aci (''alice'', 1) ps1 = Inr (Some [9]) \<and> load_session Inr Pni (''alice'', 1) ps1 = Inr None"
  using sessions_are_a_map[of two_identities Inr "[9]" "[9]" Inr Pni Aci "(''alice'', 1)" "(''alice'', 1)"]
  by (auto simp: session_table_ok_def two_identities_def load_session_def distinct_keys_def)

section \<open>Identity keys\<close>

definition identity_lookup :: "identity \<times> string \<Rightarrow> identity_record list \<Rightarrow> nat list option" where
  "identity_lookup k tab = map_option ir_record (first_where (identity_key (fst k) (snd k)) tab)"

definition identity_put :: "identity \<times> string \<Rightarrow> nat list \<Rightarrow> identity_record list \<Rightarrow> identity_record list" where
  "identity_put k b tab =
     (if first_where (identity_key (fst k) (snd k)) tab \<noteq> None
      then update_where (identity_key (fst k) (snd k)) (\<lambda>r. r\<lparr>ir_record := b\<rparr>) tab
      else tab @ [\<lparr> ir_address = snd k, ir_record = b, ir_identity = fst k \<rparr>])"

lemma identity_key_other: "k \<noteq> j \<Longrightarrow> identity_key (fst k) (snd k) r \<Longrightarrow> \<not> identity_key (fst j) (snd j) r"
  by (auto simp: identity_key_def prod_eq_iff)

interpretation ident: keyed_store identity_lookup identity_put
  "\<lambda>k. delete_where (identity_key (fst k) (snd k))" "\<lambda>_ _. False"
proof
  fix k j :: "identity \<times> string" and v s
  have upd: "identity_key i n (r\<lparr>ir_record := v\<rparr>) = identity_key i n r" for i n r
    by (simp add: identity_key_def)
  have row: "identity_key i n \<lparr> ir_address = snd j, ir_record = v, ir_identity = fst j \<rparr> \<longleftrightarrow> (i, n) = j" for i n
    by (auto simp: identity_key_def prod_eq_iff)
  show "identity_lookup k (identity_put j v s)
    = (if k = j then Some v else if False then None else identity_lookup k s)"
  proof (cases "first_where (identity_key (fst j) (snd j)) s")
    case (Some x)
    then show ?thesis
      using first_where_update_other[where P = "identity_key (fst k) (snd k)" and Q = "identity_key (fst j) (snd j)"
          and f = "\<lambda>r. r\<lparr>ir_record := v\<rparr>"] identity_key_other[of k j]
      by (simp add: identity_lookup_def identity_put_def first_where_update_same upd)
  next
    case None
    then show ?thesis
      by (cases "k = j"; cases "first_where (identity_key (fst k) (snd k)) s")
        (auto simp: identity_lookup_def identity_put_def first_where_append row)
  qed
  show "identity_lookup k (delete_where (identity_key (fst j) (snd j)) s) = (if k = j then None else identity_lookup k s)"
    using first_where_delete_other[of "identity_key (fst k) (snd k)" "identity_key (fst j) (snd j)"] identity_key_other[of k j]
    by (simp add: identity_lookup_def first_where_delete_same)
qed

lemma get_identity_lookup:
  "get_identity dec me addr ps =
     (case identity_lookup (me, fst addr) (identity_records ps) of
        None \<Rightarrow> Inr None
      | Some b \<Rightarrow> ebind (ok_or (StorePanic ''only valid identity keys in db'') (dec b)) (\<lambda>k. Inr (Some k)))"
  by (simp add: get_identity_def identity_lookup_def split: option.split)

lemma save_identity_put:
  assumes "get_identity dec me addr ps = Inr previous"
  shows "save_identity enc dec me addr key ps
    = Inr (if previous = None \<or> previous = Some key then NewOrUnchanged else ReplacedExisting,
           ps\<lparr>identity_records := identity_put (me, fst addr) (enc key) (identity_records ps)\<rparr>)"
  using assms
  by (cases "first_where (identity_key me (fst addr)) (identity_records ps)")
    (auto simp: save_identity_def identity_put_def get_identity_def ebind_eq_Inr split: if_splits)

text \<open>
  C35. Identity keys.  Until a key is known any key is trusted; once one is saved only that one is,
  by the identity of the account it was saved for, and a replacement is reported as such; other
  addresses and the other identity are not affected.  Deleting the key of an address removes
  only the one saved by the identity of the same kind as the address: a key that the other identity
  knows the address by is still the only one trusted.
\<close>

theorem identity_keys_trusted:
  assumes codec: "\<And>k. dec (enc k) = Some k"
    and prev: "get_identity dec me addr ps = Inr previous"
    and run: "save_identity enc dec me addr key ps = Inr (change, ps')"
    and other: "(me', fst addr') \<noteq> (me, fst addr)"
  shows "(previous = None \<longrightarrow> is_trusted_identity dec me addr key' ps = Inr True)
         \<and> is_trusted_identity dec me addr key' ps' = Inr (key' = key)
         \<and> (change = ReplacedExisting \<longleftrightarrow> previous \<noteq> None \<and> previous \<noteq> Some key)
         \<and> is_trusted_identity dec me' addr' key' ps' = is_trusted_identity dec me' addr' key' ps
         \<and> is_trusted_identity dec me addr key' (snd (delete_identity_key (fst addr) kind ps'))
             = Inr (kind = me \<or> key' = key)"
proof -
  have ps': "ps' = ps\<lparr>identity_records := identity_put (me, fst addr) (enc key) (identity_records ps)\<rparr>"
    and change: "change = (if previous = None \<or> previous = Some key then NewOrUnchanged else ReplacedExisting)"
    using run save_identity_put[OF prev, of enc key] by auto
  have new: "identity_lookup (me, fst addr) (identity_records ps') = Some (enc key)"
    by (simp add: ps' ident.put_same)
  have kept: "identity_lookup (me', fst addr') (identity_records ps') = identity_lookup (me', fst addr') (identity_records ps)"
    using ident.put_other[OF other] by (simp add: ps')
  have del: "identity_lookup (me, fst addr) (identity_records (snd (delete_identity_key (fst addr) kind ps')))
      = (if kind = me then None else Some (enc key))"
    using ident.lookup_remove[of "(me, fst addr)" "(kind, fst addr)" "identity_records ps'"] new
    by (auto simp: delete_identity_key_def)
  show ?thesis
    using prev by (auto simp: is_trusted_identity_def get_identity_lookup new kept del codec change)
qed

theorem identity_keys_trusted_witness:
  "\<exists>ps'. save_identity id Some Aci (''PNI:alice'', 1) [3] two_identities = Inr (NewOrUnchanged, ps')
     \<and> is_trusted_identity Some Aci (''PNI:alice'', 1) [4] (snd (delete_identity_key ''PNI:alice'' Pni ps')) = Inr False"
proof -
  have prev: "get_identity Some Aci (''PNI:alice'', 1) two_identities = Inr None"
    by (simp add: get_identity_def two_identities_def)
  obtain ps' where run: "save_identity id Some Aci (''PNI:alice'', 1) [3] two_identities = Inr (NewOrUnchanged, ps')"
    using save_identity_put[OF prev, of id "[3]"] by simp
  then show ?thesis
    using identity_keys_trusted[OF _ prev run, of Pni "(''bob'', 1)" "[4]" Pni] by auto
qed

section \<open>Kyber keys and sender keys\<close>

text \<open>A last-resort key is not used up.\<close>

lemma mark_used_removes_one_time_only:
  "filter kp_is_last_resort (kyber_prekeys (mark_kyber_pre_key_used me i ps)) = filter kp_is_last_resort (kyber_prekeys ps)"
  "needs_pre_key_refresh me' (mark_kyber_pre_key_used me i ps) = needs_pre_key_refresh me' ps"
proof -
  have last: "filter (\<lambda>k. Q k \<and> kp_is_last_resort k) (kyber_prekeys (mark_kyber_pre_key_used me i ps))
      = filter (\<lambda>k. Q k \<and> kp_is_last_resort k) (kyber_prekeys ps)" for Q
    by (auto simp: mark_kyber_pre_key_used_def delete_where_def filter_filter intro!: filter_cong)
  show "filter kp_is_last_resort (kyber_prekeys (mark_kyber_pre_key_used me i ps)) = filter kp_is_last_resort (kyber_prekeys ps)"
    using last[of "\<lambda>_. True"] by simp
  show "needs_pre_key_refresh me' (mark_kyber_pre_key_used me i ps) = needs_pre_key_refresh me' ps"
    using last[of "\<lambda>k. kp_identity k = me'"]
    by (simp add: needs_pre_key_refresh_def count_where_def) (simp add: mark_kyber_pre_key_used_def)
qed

text \<open>The two identities share the slot of a sender key.\<close>

lemma sender_key_of_other_identity:
  assumes "store_sender_key ser t me addr d k ps = Inr ps'" and "me' \<noteq> me"
  shows "load_sender_key de me' addr d ps' = Inr None"
proof -
  have "first_where (\<lambda>r. sender_key addr d r \<and> sk_identity r = me') (sender_key_records ps') = None"
    using assms by (auto simp: store_sender_key_def ebind_eq_Inr first_where_None delete_where_def)
  then show ?thesis
    by (simp add: load_sender_key_def)
qed

end
