(* ===== verification/GroupStore.thy ===== *)
theory GroupStore
  imports RecipientStore
begin

text \<open>
  Groups of the current kind: their attributes, their members, and those invited, asking to join
  or banned (\<open>whisperfish-store/src/store.rs\<close>, the operations on \<open>group_v2s\<close> and its member
  tables).  The worker applies the changes of a group one by one with these operations.

  \<open>sid_text\<close> prints a service id, roles are the numbers of the protocol, of which
  \<open>known_role\<close> tells the ones it has names for.
\<close>

section \<open>Looking members up\<close>

definition fetch_group_members_by_group_v2_id :: "string \<Rightarrow> storage \<Rightarrow> (group_v2_member \<times> recipient) list" where
  "fetch_group_members_by_group_v2_id gid st =
     sort_key (\<lambda>(m, _). - gm2_role m)
       (List.map_filter (\<lambda>m. map_option (Pair m) (fetch_recipient_by_id (gm2_recipient_id m) st))
          (filter (\<lambda>m. gm2_group_v2_id m = gid) (group_v2_members (db st))))"

definition member_key :: "string \<Rightarrow> int \<Rightarrow> group_v2_member \<Rightarrow> bool" where
  "member_key gid rid m \<longleftrightarrow> gm2_group_v2_id m = gid \<and> gm2_recipient_id m = rid"

definition pending_key :: "string \<Rightarrow> service_id \<Rightarrow> group_v2_pending_member \<Rightarrow> bool" where
  "pending_key gid sid m \<longleftrightarrow> gp_group_v2_id m = gid \<and> gp_service_id m = sid"

definition requesting_key :: "string \<Rightarrow> uuid \<Rightarrow> group_v2_requesting_member \<Rightarrow> bool" where
  "requesting_key gid aci m \<longleftrightarrow> gr_group_v2_id m = gid \<and> gr_aci m = aci"

definition banned_key :: "string \<Rightarrow> service_id \<Rightarrow> group_v2_banned_member \<Rightarrow> bool" where
  "banned_key gid sid m \<longleftrightarrow> gb_group_v2_id m = gid \<and> gb_service_id m = sid"

definition fetch_group_v2_self_member :: "string \<Rightarrow> storage \<Rightarrow> (group_v2_member option \<times> storage) res" where
  "fetch_group_v2_self_member gid st =
     rbind (fetch_self_recipient_id st) (\<lambda>(i, st').
       Inr (first_where (member_key gid i) (group_v2_members (db st')), st'))"

definition fetch_group_v2_member :: "string \<Rightarrow> int \<Rightarrow> storage \<Rightarrow> group_v2_member option" where
  "fetch_group_v2_member gid rid st = first_where (member_key gid rid) (group_v2_members (db st))"

definition fetch_group_v2_pending_member ::
  "string \<Rightarrow> uuid option \<Rightarrow> uuid option \<Rightarrow> storage \<Rightarrow> group_v2_pending_member option" where
  "fetch_group_v2_pending_member gid aci pni st =
     (let by = (\<lambda>sid. last_option (filter (pending_key gid sid) (group_v2_pending_members (db st)))) in
      case Option.bind aci (\<lambda>u. by (AciId u)) of
        Some m \<Rightarrow> Some m
      | None \<Rightarrow> Option.bind pni (\<lambda>u. by (PniId u)))"

definition fetch_group_v2_requesting_member :: "string \<Rightarrow> uuid \<Rightarrow> storage \<Rightarrow> group_v2_requesting_member option" where
  "fetch_group_v2_requesting_member gid aci st =
     first_where (requesting_key gid aci) (group_v2_requesting_members (db st))"

definition fetch_group_v2_banned_member :: "string \<Rightarrow> service_id \<Rightarrow> storage \<Rightarrow> group_v2_banned_member option" where
  "fetch_group_v2_banned_member gid sid st = first_where (banned_key gid sid) (group_v2_banned_members (db st))"

section \<open>Attributes\<close>

definition update_group :: "string \<Rightarrow> (group_v2 \<Rightarrow> group_v2) \<Rightarrow> storage \<Rightarrow> storage" where
  "update_group gid f st =
     st\<lparr>db := (db st)\<lparr>group_v2s := update_where (\<lambda>g. g2_id g = gid) f (group_v2s (db st))\<rparr>\<rparr>"

definition group_updated :: "string \<Rightarrow> event" where
  "group_updated gid = observe_update SubGroupV2s (StringRowId gid)"

definition update_group_v2_revision :: "group_v2 \<Rightarrow> int \<Rightarrow> storage \<Rightarrow> storage" where
  "update_group_v2_revision g next_revision st =
     (if g2_revision g \<ge> next_revision then st
      else
        (let P = (\<lambda>x. g2_id x = g2_id g \<and> g2_revision x < next_revision);
             st' = st\<lparr>db := (db st)\<lparr>group_v2s :=
                     update_where P (\<lambda>x. x\<lparr>g2_revision := next_revision\<rparr>) (group_v2s (db st))\<rparr>\<rparr>
         in if count_where P (group_v2s (db st)) = 0 then st' else emit (group_updated (g2_id g)) st'))"

definition update_group_v2_description :: "group_v2 \<Rightarrow> string option \<Rightarrow> storage \<Rightarrow> storage" where
  "update_group_v2_description g next_description =
     update_group (g2_id g) (\<lambda>x. x\<lparr>g2_description := next_description\<rparr>)"

definition update_group_v2_title :: "group_v2 \<Rightarrow> string \<Rightarrow> storage \<Rightarrow> storage" where
  "update_group_v2_title g next_title = update_group (g2_id g) (\<lambda>x. x\<lparr>g2_name := next_title\<rparr>)"

definition update_group_v2_avatar :: "group_v2 \<Rightarrow> string option \<Rightarrow> storage \<Rightarrow> storage" where
  "update_group_v2_avatar g next_avatar = update_group (g2_id g) (\<lambda>x. x\<lparr>g2_avatar := next_avatar\<rparr>)"

definition update_group_v2_invite_link_password :: "group_v2 \<Rightarrow> string \<Rightarrow> storage \<Rightarrow> storage" where
  "update_group_v2_invite_link_password g next_password =
     update_group (g2_id g) (\<lambda>x. x\<lparr>g2_invite_link_password := Some (map of_char next_password)\<rparr>)"

definition update_group_v2_announcement_only :: "group_v2 \<Rightarrow> bool \<Rightarrow> storage \<Rightarrow> storage" where
  "update_group_v2_announcement_only g b = update_group (g2_id g) (\<lambda>x. x\<lparr>g2_announcement_only := b\<rparr>)"

definition update_group_v2_attribute_access :: "group_v2 \<Rightarrow> access_required \<Rightarrow> storage \<Rightarrow> storage" where
  "update_group_v2_attribute_access g a =
     update_group (g2_id g) (\<lambda>x. x\<lparr>g2_access_required_for_attributes := i32_from_access_required a\<rparr>)"

definition update_group_v2_invite_link_access :: "group_v2 \<Rightarrow> access_required \<Rightarrow> storage \<Rightarrow> storage" where
  "update_group_v2_invite_link_access g a =
     update_group (g2_id g) (\<lambda>x. x\<lparr>g2_access_required_for_add_from_invite_link := i32_from_access_required a\<rparr>)"

definition update_group_v2_member_access :: "group_v2 \<Rightarrow> access_required \<Rightarrow> storage \<Rightarrow> storage" where
  "update_group_v2_member_access g a =
     update_group (g2_id g) (\<lambda>x. x\<lparr>g2_access_required_for_members := i32_from_access_required a\<rparr>)"

definition update_group_v2_member_label_access :: "group_v2 \<Rightarrow> access_required \<Rightarrow> storage \<Rightarrow> storage" where
  "update_group_v2_member_label_access g a st =
     emit (group_updated (g2_id g))
       (update_group (g2_id g) (\<lambda>x. x\<lparr>g2_access_required_for_member_labels := i32_from_access_required a\<rparr>) st)"

definition terminate_group_v2 :: "group_v2 \<Rightarrow> storage \<Rightarrow> storage" where
  "terminate_group_v2 g st =
     emit (group_updated (g2_id g)) (update_group (g2_id g) (\<lambda>x. x\<lparr>g2_terminated := True\<rparr>) st)"

section \<open>Members\<close>

definition aci_text :: "(service_id \<Rightarrow> string) \<Rightarrow> recipient \<Rightarrow> string" where
  "aci_text sid_text r = (case r_uuid r of None \<Rightarrow> [] | Some u \<Rightarrow> sid_text (AciId u))"

definition to_service_address :: "recipient \<Rightarrow> service_id option" where
  "to_service_address r = (case r_uuid r of Some u \<Rightarrow> Some (AciId u) | None \<Rightarrow> map_option PniId (r_pni r))"

definition with_group :: "string \<Rightarrow> event \<Rightarrow> event" where
  "with_group gid = with_relation SubGroupV2s (StringRowId gid)"

definition delete_group_v2_member ::
  "(service_id \<Rightarrow> string) \<Rightarrow> group_v2 \<Rightarrow> uuid \<Rightarrow> storage \<Rightarrow> recipient option \<times> storage" where
  "delete_group_v2_member sid_text g aci st =
     (case fetch_recipient (AciId aci) st of
        None \<Rightarrow> (None, st)
      | Some r \<Rightarrow>
          (Some r, emit (with_group (g2_id g) (observe_delete SubGroupV2Members (StringRowId (aci_text sid_text r))))
             (st\<lparr>db := (db st)\<lparr>group_v2_members :=
                delete_where (member_key (g2_id g) (r_id r)) (group_v2_members (db st))\<rparr>\<rparr>)))"

definition update_group_v2_member ::
  "(service_id \<Rightarrow> string) \<Rightarrow> (group_v2_member \<Rightarrow> group_v2_member) \<Rightarrow> group_v2 \<Rightarrow> uuid \<Rightarrow> storage
     \<Rightarrow> recipient option \<times> storage" where
  "update_group_v2_member sid_text f g aci st =
     (case fetch_recipient (AciId aci) st of
        None \<Rightarrow> (None, st)
      | Some r \<Rightarrow>
          (let P = member_key (g2_id g) (r_id r) in
           if \<not> exists_where P (group_v2_members (db st)) then (None, st)
           else (Some r, emit (with_group (g2_id g)
                                (observe_update SubGroupV2Members (StringRowId (aci_text sid_text r))))
                           (st\<lparr>db := (db st)\<lparr>group_v2_members := update_where P f (group_v2_members (db st))\<rparr>\<rparr>))))"

definition update_group_v2_member_role ::
  "(service_id \<Rightarrow> string) \<Rightarrow> group_v2 \<Rightarrow> uuid \<Rightarrow> int \<Rightarrow> storage \<Rightarrow> recipient option \<times> storage" where
  "update_group_v2_member_role sid_text g aci next_role =
     update_group_v2_member sid_text (\<lambda>m. m\<lparr>gm2_role := next_role\<rparr>) g aci"

definition update_group_v2_member_label ::
  "(service_id \<Rightarrow> string) \<Rightarrow> group_v2 \<Rightarrow> uuid \<Rightarrow> string option \<Rightarrow> string option \<Rightarrow> storage
     \<Rightarrow> recipient option \<times> storage" where
  "update_group_v2_member_label sid_text g aci next_label next_label_emoji =
     update_group_v2_member sid_text
       (\<lambda>m. m\<lparr>gm2_label := next_label, gm2_label_emoji := next_label_emoji\<rparr>) g aci"

text \<open>
  The insertion of a member fails on the trigger of the table, when the recipient has no ACI or no
  profile key, or when there is no such group; the error is logged and the answer is \<open>None\<close>.
  When the recipient is a member already the row is updated, but it is the row from before that
  is returned, and no event is sent.
\<close>

definition can_insert_member :: "string \<Rightarrow> recipient \<Rightarrow> storage \<Rightarrow> bool" where
  "can_insert_member gid r st \<longleftrightarrow> has_key g2_id gid (group_v2s (db st))
     \<and> (\<exists>x\<in>set (recipients (db st)). r_id x = r_id r)
     \<and> \<not> exists_where (\<lambda>x. r_id x = r_id r \<and> (r_uuid x = None \<or> r_profile_key x = None)) (recipients (db st))
     \<and> \<not> exists_where (member_key gid (r_id r)) (group_v2_members (db st))"

definition add_group_v2_member ::
  "(service_id \<Rightarrow> string) \<Rightarrow> group_v2 \<Rightarrow> uuid \<Rightarrow> int \<Rightarrow> blob \<Rightarrow> int \<Rightarrow> timestamp option \<Rightarrow> storage
     \<Rightarrow> ((group_v2_member \<times> recipient) option \<times> storage) res" where
  "add_group_v2_member sid_text g aci next_role profile_key join_revision joined_at st =
     (let gid = g2_id g; (r0, st1) = fetch_or_insert_recipient_by_address (AciId aci) st in
      rbind (update_profile_key 32 (r_e164 r0) (to_service_address r0) profile_key Uncertain st1) (\<lambda>((r, _), st2).
      let joined = (case joined_at of None \<Rightarrow> now st2 | Some t \<Rightarrow> t) in
      case first_where (\<lambda>(_, x). r_id x = r_id r) (fetch_group_members_by_group_v2_id gid st2) of
        Some (gm, x) \<Rightarrow>
          Inr (Some (gm, x),
               st2\<lparr>db := (db st2)\<lparr>group_v2_members := update_where (member_key gid (r_id x))
                 (\<lambda>m. m\<lparr>gm2_role := next_role, gm2_joined_at_revision := join_revision,
                        gm2_member_since := joined\<rparr>) (group_v2_members (db st2))\<rparr>\<rparr>)
      | None \<Rightarrow>
          if \<not> can_insert_member gid r st2 then Inr (None, st2)
          else
            (let st3 = emit (with_group gid (observe_insert SubGroupV2Members (StringRowId (aci_text sid_text r))))
                   (st2\<lparr>db := (db st2)\<lparr>group_v2_members := group_v2_members (db st2) @
                      [\<lparr> gm2_group_v2_id = gid, gm2_recipient_id = r_id r, gm2_member_since = joined,
                         gm2_joined_at_revision = join_revision, gm2_role = next_role, gm2_label = None,
                         gm2_label_emoji = None \<rparr>]\<rparr>\<rparr>)
             in Inr (first_where (\<lambda>(_, x). r_uuid x = r_uuid r) (fetch_group_members_by_group_v2_id gid st3), st3))))"

section \<open>Banned members\<close>

definition add_group_v2_banned_member ::
  "(service_id \<Rightarrow> string) \<Rightarrow> group_v2 \<Rightarrow> service_id \<Rightarrow> timestamp \<Rightarrow> storage
     \<Rightarrow> ((group_v2_banned_member option \<times> recipient option) \<times> storage) res" where
  "add_group_v2_banned_member sid_text g sid ts st =
     (let gid = g2_id g in
      case fetch_group_v2_banned_member gid sid st of
        Some m \<Rightarrow> Inr ((Some m, fetch_recipient sid st), st)
      | None \<Rightarrow>
          if \<not> has_key g2_id gid (group_v2s (db st)) then Inl (Panic ''add groupv2 banned member'')
          else
            (let m = \<lparr> gb_group_v2_id = gid, gb_service_id = sid, gb_banned_at = ts \<rparr>;
                 st' = st\<lparr>db := (db st)\<lparr>group_v2_banned_members := group_v2_banned_members (db st) @ [m]\<rparr>\<rparr>
             in Inr ((Some m, fetch_recipient sid st'),
                  emit (with_group gid (observe_insert SubGroupV2BannedMembers (StringRowId (sid_text sid)))) st')))"

definition delete_group_v2_banned_member ::
  "(service_id \<Rightarrow> string) \<Rightarrow> group_v2 \<Rightarrow> service_id \<Rightarrow> storage \<Rightarrow> recipient option \<times> storage" where
  "delete_group_v2_banned_member sid_text g sid st =
     (let P = banned_key (g2_id g) sid; affected = count_where P (group_v2_banned_members (db st));
          st' = st\<lparr>db := (db st)\<lparr>group_v2_banned_members := delete_where P (group_v2_banned_members (db st))\<rparr>\<rparr>
      in if affected = 1
         then (fetch_recipient sid st',
               emit (with_group (g2_id g) (observe_delete SubGroupV2BannedMembers (StringRowId (sid_text sid)))) st')
         else (None, st'))"

section \<open>Pending and requesting members\<close>

text \<open>The lookup is among the pending members, not the members.\<close>

definition update_group_v2_member_profile_key ::
  "(service_id \<Rightarrow> string) \<Rightarrow> group_v2 \<Rightarrow> uuid \<Rightarrow> blob \<Rightarrow> storage \<Rightarrow> (recipient option \<times> storage) res" where
  "update_group_v2_member_profile_key sid_text g aci profile_key st =
     (case fetch_group_v2_pending_member (g2_id g) (Some aci) None st of
        None \<Rightarrow> Inr (None, st)
      | Some _ \<Rightarrow>
          (let (r0, st1) = fetch_or_insert_recipient_by_address (AciId aci) st in
           rbind (update_profile_key 32 (r_e164 r0) (to_service_address r0) profile_key Uncertain st1) (\<lambda>((r, _), st2).
           Inr (Some r, emit (with_group (g2_id g) (observe_update SubGroupV2Members (RowId (r_id r)))) st2))))"

definition promote_pending_pni_aci_member_profile_key ::
  "(service_id \<Rightarrow> string) \<Rightarrow> group_v2 \<Rightarrow> uuid \<Rightarrow> uuid \<Rightarrow> blob \<Rightarrow> storage \<Rightarrow> (recipient option \<times> storage) res" where
  "promote_pending_pni_aci_member_profile_key sid_text g aci pni profile_key st =
     (case fetch_group_v2_pending_member (g2_id g) (Some aci) (Some pni) st of
        None \<Rightarrow> Inr (None, st)
      | Some _ \<Rightarrow>
          rbind (merge_and_fetch_recipient None (Some aci) (Some pni) Uncertain st) (\<lambda>(r0, st1).
          rbind (update_profile_key 32 (r_e164 r0) (to_service_address r0) profile_key Uncertain st1) (\<lambda>((r, changed), st2).
          Inr (Some r,
               emit_if changed (with_group (g2_id g)
                 (observe_update SubGroupV2PendingMembers (StringRowId (aci_text sid_text r)))) st2))))"

definition fetch_pending :: "string \<Rightarrow> service_id \<Rightarrow> storage \<Rightarrow> group_v2_pending_member option" where
  "fetch_pending gid sid st =
     (case sid of
        AciId u \<Rightarrow> fetch_group_v2_pending_member gid (Some u) None st
      | PniId u \<Rightarrow> fetch_group_v2_pending_member gid None (Some u) st)"

definition delete_group_v2_pending_member ::
  "(service_id \<Rightarrow> string) \<Rightarrow> group_v2 \<Rightarrow> service_id \<Rightarrow> storage \<Rightarrow> recipient option \<times> storage" where
  "delete_group_v2_pending_member sid_text g sid st =
     (case fetch_pending (g2_id g) sid st of
        None \<Rightarrow> (None, st)
      | Some m \<Rightarrow>
          (let P = pending_key (g2_id g) (gp_service_id m);
               st' = st\<lparr>db := (db st)\<lparr>group_v2_pending_members :=
                       delete_where P (group_v2_pending_members (db st))\<rparr>\<rparr>
           in if count_where P (group_v2_pending_members (db st)) = 0 then (None, st')
              else (fetch_recipient sid st',
                    emit (with_group (g2_id g) (observe_delete SubGroupV2PendingMembers (StringRowId (sid_text sid)))) st')))"

definition delete_group_v2_requesting_member ::
  "(service_id \<Rightarrow> string) \<Rightarrow> group_v2 \<Rightarrow> uuid \<Rightarrow> storage \<Rightarrow> (recipient option \<times> storage) res" where
  "delete_group_v2_requesting_member sid_text g aci st =
     (let P = requesting_key (g2_id g) aci; deleted = count_where P (group_v2_requesting_members (db st));
          st' = st\<lparr>db := (db st)\<lparr>group_v2_requesting_members :=
                  delete_where P (group_v2_requesting_members (db st))\<rparr>\<rparr>
      in if deleted = 1
         then Inr (fetch_recipient (AciId aci) st',
                emit (with_group (g2_id g)
                  (observe_delete SubGroupV2RequestingMembers (StringRowId (sid_text (AciId aci))))) st')
         else if deleted = 0 then Inr (None, st')
         else Inl (Panic ''internal error: entered unreachable code''))"

definition is_member :: "string \<Rightarrow> service_id \<Rightarrow> storage \<Rightarrow> bool" where
  "is_member gid sid st = exists_where (\<lambda>(_, r). has_service_id sid r) (fetch_group_members_by_group_v2_id gid st)"

definition add_group_v2_pending_member ::
  "(service_id \<Rightarrow> string) \<Rightarrow> group_v2 \<Rightarrow> service_id \<Rightarrow> uuid \<Rightarrow> int \<Rightarrow> timestamp \<Rightarrow> storage
     \<Rightarrow> (group_v2_pending_member option \<times> storage) res" where
  "add_group_v2_pending_member sid_text g sid added_by new_role ts st =
     (let gid = g2_id g in
      if is_member gid sid st then Inr (None, st)
      else if fetch_pending gid sid st \<noteq> None then Inr (None, st)
      else if \<not> has_key g2_id gid (group_v2s (db st)) then Inl (Panic ''insert pending group member'')
      else
        (let m = \<lparr> gp_group_v2_id = gid, gp_service_id = sid, gp_role = new_role, gp_added_by_aci = added_by,
                   gp_timestamp = ts \<rparr>
         in Inr (Some m, emit (with_group gid (observe_insert SubGroupV2PendingMembers (StringRowId (sid_text sid))))
              (st\<lparr>db := (db st)\<lparr>group_v2_pending_members := group_v2_pending_members (db st) @ [m]\<rparr>\<rparr>))))"

text \<open>A second request of the same person runs into the primary key.\<close>

definition add_group_v2_requesting_member ::
  "(service_id \<Rightarrow> string) \<Rightarrow> group_v2 \<Rightarrow> uuid \<Rightarrow> blob \<Rightarrow> timestamp \<Rightarrow> storage
     \<Rightarrow> ((group_v2_requesting_member \<times> recipient) option \<times> storage) res" where
  "add_group_v2_requesting_member sid_text g aci profile_key ts st =
     (let gid = g2_id g in
      if is_member gid (AciId aci) st then Inr (None, st)
      else if fetch_group_v2_pending_member gid (Some aci) None st \<noteq> None then Inr (None, st)
      else if \<not> has_key g2_id gid (group_v2s (db st))
              \<or> exists_where (requesting_key gid aci) (group_v2_requesting_members (db st))
      then Inl (Panic ''insert requesting group member'')
      else
        (let m = \<lparr> gr_group_v2_id = gid, gr_aci = aci, gr_profile_key = profile_key, gr_timestamp = ts \<rparr>;
             st1 = emit (with_group gid (observe_insert SubGroupV2RequestingMembers (StringRowId (sid_text (AciId aci)))))
                     (st\<lparr>db := (db st)\<lparr>group_v2_requesting_members := group_v2_requesting_members (db st) @ [m]\<rparr>\<rparr>);
             (r, st2) = fetch_or_insert_recipient_by_address (AciId aci) st1
         in Inr (Some (m, r), st2)))"

definition promote_group_v2_pending_member ::
  "(service_id \<Rightarrow> string) \<Rightarrow> (int \<Rightarrow> bool) \<Rightarrow> group_v2 \<Rightarrow> service_id \<Rightarrow> blob \<Rightarrow> storage
     \<Rightarrow> ((group_v2_member \<times> recipient) option \<times> storage) res" where
  "promote_group_v2_pending_member sid_text known_role g sid profile_key st =
     rbind (opt_panic ''pending member not found'' (fetch_pending (g2_id g) sid st)) (\<lambda>pending.
     let (r, st1) = fetch_or_insert_recipient_by_address sid st in
     rbind (opt_panic ''called `Option::unwrap()` on a `None` value'' (r_uuid r)) (\<lambda>aci.
     if \<not> known_role (gp_role pending) then Inl (Panic ''called `Result::unwrap()` on an `Err` value'')
     else
       rbind (add_group_v2_member sid_text g aci (gp_role pending) profile_key (g2_revision g) None st1) (\<lambda>(added, st2).
       case added of
         None \<Rightarrow> Inr (None, st2)
       | Some a \<Rightarrow> Inr (Some a, snd (delete_group_v2_pending_member sid_text g sid st2)))))"

definition promote_group_v2_requesting_member ::
  "(service_id \<Rightarrow> string) \<Rightarrow> group_v2 \<Rightarrow> uuid \<Rightarrow> int \<Rightarrow> storage
     \<Rightarrow> ((group_v2_member \<times> recipient) option \<times> storage) res" where
  "promote_group_v2_requesting_member sid_text g aci role st =
     (case fetch_group_v2_requesting_member (g2_id g) aci st of
        None \<Rightarrow> Inr (None, st)
      | Some req \<Rightarrow>
          if length (gr_profile_key req) \<noteq> 32
          then Inl (Panic ''copy_from_slice: source slice length does not match destination slice length'')
          else
            rbind (add_group_v2_member sid_text g aci role (gr_profile_key req) (g2_revision g) None st) (\<lambda>(added, st1).
            case added of
              None \<Rightarrow> Inr (None, st1)
            | Some a \<Rightarrow>
                rbind (delete_group_v2_requesting_member sid_text g aci st1) (\<lambda>(_, st2). Inr (Some a, st2))))"

end
