(* ===== verification/GroupProps.thy ===== *)
theory GroupProps
  imports GroupStore
begin

text \<open>
  The properties of the group operations: none of them breaks the keys and references of the
  group tables, takes a group back to an earlier revision or revives a terminated one; promoting
  an invited person makes a member of them; and three calls that do not do what they are for.
\<close>

section \<open>What the recipient operations leave alone\<close>

definition same_groups :: "database \<Rightarrow> database \<Rightarrow> bool" where
  "same_groups d d' \<longleftrightarrow> group_v2s d' = group_v2s d \<and> group_v2_members d' = group_v2_members d
     \<and> group_v2_pending_members d' = group_v2_pending_members d
     \<and> group_v2_requesting_members d' = group_v2_requesting_members d
     \<and> group_v2_banned_members d' = group_v2_banned_members d"

named_theorems group_frames "operations that leave the group tables alone"

lemma same_groups_refl [simp]: "same_groups d d"
  by (simp add: same_groups_def)

lemma same_groups_trans: "same_groups d d' \<Longrightarrow> same_groups d' d'' \<Longrightarrow> same_groups d d''"
  by (simp add: same_groups_def)

lemma same_groups_elementary [group_frames]:
  "set_pni_inner d i x = Inr (j, d') \<Longrightarrow> same_groups d d'"
  "set_aci_inner d i x = Inr (j, d') \<Longrightarrow> same_groups d d'"
  "set_e164_inner d i y = Inr (j, d') \<Longrightarrow> same_groups d d'"
  "insert_recipient_inner d x p y = Inr (j, d') \<Longrightarrow> same_groups d d'"
  by (auto simp: set_pni_inner_def set_aci_inner_def set_e164_inner_def insert_recipient_inner_def
      same_groups_def split: if_splits)

lemma same_groups_merge_sessions: "same_groups d (merge_sessions s t d)"
  by (simp add: same_groups_def merge_sessions_def drop_session_def Let_def cascade_messages_fields
      split: option.splits)

lemma same_groups_merge_parts:
  "merge_group_v1 s t d = Inr d' \<Longrightarrow> same_groups d d'"
  "merge_reactions s t d = Inr d' \<Longrightarrow> same_groups d d'"
  "merge_receipts s t d = Inr d' \<Longrightarrow> same_groups d d'"
  "delete_if_empty s d = Inr d' \<Longrightarrow> same_groups d d'"
  by (auto simp: merge_group_v1_def merge_reactions_def merge_receipts_def delete_if_empty_def
      drop_recipient_def Let_def same_groups_def cascade_messages_fields split: if_splits option.splits)

lemma same_groups_merge_messages: "same_groups d (merge_messages s t d)"
  by (simp add: same_groups_def merge_messages_def)

lemma same_groups_merge [group_frames]:
  assumes "merge_recipients_inner d s t = Inr (j, d')"
  shows "same_groups d d'"
proof -
  obtain d2 d4 d5 where "merge_group_v1 s t (merge_messages s t d) = Inr d2"
    and "merge_reactions s t (merge_sessions s t d2) = Inr d4"
    and "merge_receipts s t d4 = Inr d5" and "delete_if_empty s d5 = Inr d'"
    using assms by (auto simp: merge_recipients_inner_def rbind_eq_Inr)
  then show ?thesis
    by (meson same_groups_trans same_groups_merge_messages same_groups_merge_sessions
        same_groups_merge_parts)
qed

lemma same_groups_run_op: "run_op d op = Inr (j, d') \<Longrightarrow> same_groups d d'"
  by (cases op) (auto dest: group_frames)

lemma same_groups_run_ops: "run_ops d ops = Inr d' \<Longrightarrow> same_groups d d'"
  by (induction ops arbitrary: d)
    (auto simp: rbind_eq_Inr split: prod.splits dest!: same_groups_run_op intro: same_groups_trans)

lemma same_groups_set_if:
  "set_if c f d = Inr d' \<Longrightarrow> (\<And>j. f d = Inr (j, d') \<Longrightarrow> same_groups d d') \<Longrightarrow> same_groups d d'"
  by (auto simp: set_if_def rbind_eq_Inr split: if_splits prod.splits)

lemma same_groups_fetch_after_merge:
  assumes "fetch_after_merge d e a p = Inr ((i, c), d')"
  shows "same_groups d d'"
  using assms
proof (cases rule: fetch_after_mergeE)
  case (1 mr rcpt rest d1 d2)
  have "same_groups d d1" "same_groups d1 d2" "same_groups d2 d'"
    by (rule same_groups_set_if[OF 1(3)] same_groups_set_if[OF 1(4)] same_groups_set_if[OF 1(5)];
        erule group_frames)+
  then show ?thesis
    by (blast intro: same_groups_trans)
qed

lemma same_groups_merge_and_fetch:
  assumes "merge_and_fetch_recipient_inner d e a p trust cs = Inr ((i, changed), d')"
  shows "same_groups d d'"
  using assms
proof (cases rule: merge_and_fetch_cases)
  case (queue ops d1)
  then show ?thesis
    by (blast intro: same_groups_trans same_groups_run_ops same_groups_fetch_after_merge)
qed simp

lemma same_groups_emit [simp]:
  "same_groups d (db (emit e st)) = same_groups d (db st)"
  "same_groups d (db (emit_if c e st)) = same_groups d (db st)"
  by simp_all

lemma same_groups_in_transaction:
  "merge_in_transaction msg e a p trust cs st = Inr (r, st') \<Longrightarrow> same_groups (db st) (db st')"
  by (auto simp: merge_in_transaction_def rbind_eq_Inr transaction_eq_Inr
      dest: same_groups_merge_and_fetch)

lemma same_groups_self: "fetch_self_recipient st = Inr (ro, st') \<Longrightarrow> same_groups (db st) (db st')"
  by (auto simp: fetch_self_recipient_def merge_and_fetch_self_recipient_def rbind_eq_Inr
      split: option.splits if_splits dest: same_groups_in_transaction)

lemma same_groups_write_key [simp]:
  "same_groups d (db (write_profile_key rcpt k st)) = same_groups d (db st)"
  "same_groups d (db (refresh_access_mode rcpt st)) = same_groups d (db st)"
  by (simp_all add: write_profile_key_def refresh_access_mode_def update_recipients_def
      same_groups_def Let_def)

lemma update_profile_keyE:
  assumes "update_profile_key n e addr k trust st = Inr ((r, c), st')"
  obtains address rcpt st1 self st2 where "addr = Some address"
    and "merge_and_fetch_recipient_by_address e address trust st = Inr (rcpt, st1)"
    and "fetch_self_recipient st1 = Inr (Some self, st2)"
    and "same_groups (db st2) (db st')"
  using assms
  by (auto simp: update_profile_key_def rbind_eq_Inr Let_def split: if_splits)

lemma same_groups_profile_key:
  assumes "update_profile_key n e addr k trust st = Inr ((r, c), st')"
  shows "same_groups (db st) (db st')"
  using assms
proof (rule update_profile_keyE)
  fix address rcpt st1 self st2
  assume "merge_and_fetch_recipient_by_address e address trust st = Inr (rcpt, st1)"
    "fetch_self_recipient st1 = Inr (Some self, st2)" "same_groups (db st2) (db st')"
  then show ?thesis
    unfolding merge_and_fetch_recipient_by_address_def merge_and_fetch_recipient_def
    by (blast intro: same_groups_trans same_groups_in_transaction same_groups_self)
qed

lemma same_groups_fetch_or_insert:
  "fetch_or_insert_recipient_by_address addr st = (r, st') \<Longrightarrow> same_groups (db st) (db st')"
  by (auto simp: fetch_or_insert_recipient_by_address_def insert_recipient_def Let_def same_groups_def
      split: option.splits service_id.splits)

section \<open>The group tables stay sound\<close>

text \<open>A member table: no two rows for the same person in the same group, and only of groups there are.\<close>

definition list_sound :: "('r \<Rightarrow> string) \<Rightarrow> ('r \<Rightarrow> 'k) \<Rightarrow> group_v2 list \<Rightarrow> 'r list \<Rightarrow> bool" where
  "list_sound gid who gs tab \<longleftrightarrow> distinct_keys (\<lambda>m. (gid m, who m)) tab
     \<and> (\<forall>m\<in>set tab. gid m \<in> g2_id ` set gs)"

lemma list_sound_groups: "map g2_id gs' = map g2_id gs \<Longrightarrow> list_sound gid who gs' tab = list_sound gid who gs tab"
  by (simp only: list_sound_def list.set_map[symmetric])

lemma list_sound_delete [wf_intros]: "list_sound gid who gs tab \<Longrightarrow> list_sound gid who gs (delete_where P tab)"
  by (auto simp: list_sound_def distinct_keys_delete set_delete_where)

lemma list_sound_update [wf_intros]:
  "list_sound gid who gs tab \<Longrightarrow> (\<And>m. gid (f m) = gid m \<and> who (f m) = who m) \<Longrightarrow>
     list_sound gid who gs (update_where P f tab)"
  by (auto simp: list_sound_def distinct_keys_update set_update_where)

lemma list_sound_insert [wf_intros]:
  "list_sound gid who gs tab \<Longrightarrow> has_key g2_id (gid m) gs \<Longrightarrow>
     \<forall>x\<in>set tab. \<not> (gid x = gid m \<and> who x = who m) \<Longrightarrow> list_sound gid who gs (tab @ [m])"
  by (auto simp: list_sound_def distinct_keys_def has_key_iff)

definition groups_sound :: "database \<Rightarrow> bool" where
  "groups_sound d \<longleftrightarrow> distinct_keys g2_id (group_v2s d)
     \<and> list_sound gm2_group_v2_id gm2_recipient_id (group_v2s d) (group_v2_members d)
     \<and> list_sound gp_group_v2_id gp_service_id (group_v2s d) (group_v2_pending_members d)
     \<and> list_sound gr_group_v2_id gr_aci (group_v2s d) (group_v2_requesting_members d)
     \<and> list_sound gb_group_v2_id gb_service_id (group_v2s d) (group_v2_banned_members d)"

definition advanced :: "group_v2 \<Rightarrow> group_v2 \<Rightarrow> bool" where
  "advanced g g' \<longleftrightarrow> g2_id g' = g2_id g \<and> g2_master_key g' = g2_master_key g
     \<and> g2_revision g \<le> g2_revision g' \<and> (g2_terminated g \<longrightarrow> g2_terminated g')"

definition groups_advanced :: "database \<Rightarrow> database \<Rightarrow> bool" where
  "groups_advanced d d' \<longleftrightarrow> list_all2 advanced (group_v2s d) (group_v2s d') \<and> (groups_sound d \<longrightarrow> groups_sound d')"

lemma advanced_ids: "list_all2 advanced gs gs' \<Longrightarrow> map g2_id gs' = map g2_id gs"
  by (induction rule: list_all2_induct) (simp_all add: advanced_def)

lemma advanced_trans: "advanced g g' \<Longrightarrow> advanced g' g'' \<Longrightarrow> advanced g g''"
  by (auto simp: advanced_def)

lemma groups_advanced_trans:
  "groups_advanced d d' \<Longrightarrow> groups_advanced d' d'' \<Longrightarrow> groups_advanced d d''"
  using list_all2_trans[OF advanced_trans] by (auto simp: groups_advanced_def)

lemma groups_advanced_same: "same_groups d d' \<Longrightarrow> groups_advanced d d'"
  by (simp add: groups_advanced_def groups_sound_def same_groups_def advanced_def list_all2_same)

lemma groups_advanced_lists:
  assumes "group_v2s d' = group_v2s d"
    and "groups_sound d \<Longrightarrow> list_sound gm2_group_v2_id gm2_recipient_id (group_v2s d) (group_v2_members d')"
    and "groups_sound d \<Longrightarrow> list_sound gp_group_v2_id gp_service_id (group_v2s d) (group_v2_pending_members d')"
    and "groups_sound d \<Longrightarrow> list_sound gr_group_v2_id gr_aci (group_v2s d) (group_v2_requesting_members d')"
    and "groups_sound d \<Longrightarrow> list_sound gb_group_v2_id gb_service_id (group_v2s d) (group_v2_banned_members d')"
  shows "groups_advanced d d'"
proof -
  have "groups_sound d'" if "groups_sound d"
    using assms(1) assms(2-5)[OF that] that by (simp add: groups_sound_def)
  then show ?thesis
    by (simp add: assms(1) groups_advanced_def advanced_def list_all2_same)
qed

lemma list_all2_update_where: "(\<And>x. R x x) \<Longrightarrow> (\<And>x. P x \<Longrightarrow> R x (f x)) \<Longrightarrow> list_all2 R xs (update_where P f xs)"
  by (induction xs) auto

lemma groups_advanced_update:
  assumes "db st' = (db st)\<lparr>group_v2s := update_where P f (group_v2s (db st))\<rparr>"
    and "\<And>g. P g \<Longrightarrow> advanced g (f g)"
  shows "groups_advanced (db st) (db st')"
proof -
  have step: "list_all2 advanced (group_v2s (db st)) (group_v2s (db st'))"
    using assms by (simp add: list_all2_update_where advanced_def)
  moreover have "groups_sound (db st')" if "groups_sound (db st)"
  proof -
    have "group_v2_members (db st') = group_v2_members (db st)"
      "group_v2_pending_members (db st') = group_v2_pending_members (db st)"
      "group_v2_requesting_members (db st') = group_v2_requesting_members (db st)"
      "group_v2_banned_members (db st') = group_v2_banned_members (db st)"
      using assms(1) by simp_all
    then show ?thesis
      using that advanced_ids[OF step]
      by (simp add: groups_sound_def distinct_keys_def list_sound_groups[OF advanced_ids[OF step]])
  qed
  ultimately show ?thesis
    by (simp add: groups_advanced_def)
qed

text \<open>One step: an operation that returned.\<close>

inductive group_step :: "storage \<Rightarrow> storage \<Rightarrow> bool" where
  gs_revision: "group_step st (update_group_v2_revision g n st)"
| gs_description: "group_step st (update_group_v2_description g description st)"
| gs_title: "group_step st (update_group_v2_title g title st)"
| gs_avatar: "group_step st (update_group_v2_avatar g avatar st)"
| gs_password: "group_step st (update_group_v2_invite_link_password g password st)"
| gs_announcement: "group_step st (update_group_v2_announcement_only g b st)"
| gs_attribute_access: "group_step st (update_group_v2_attribute_access g a st)"
| gs_link_access: "group_step st (update_group_v2_invite_link_access g a st)"
| gs_member_access: "group_step st (update_group_v2_member_access g a st)"
| gs_label_access: "group_step st (update_group_v2_member_label_access g a st)"
| gs_terminate: "group_step st (terminate_group_v2 g st)"
| gs_delete_member: "group_step st (snd (delete_group_v2_member sid_text g u st))"
| gs_role: "group_step st (snd (update_group_v2_member_role sid_text g u role st))"
| gs_label: "group_step st (snd (update_group_v2_member_label sid_text g u label emoji st))"
| gs_add: "add_group_v2_member sid_text g u role key jr joined st = Inr (x, st') \<Longrightarrow> group_step st st'"
| gs_ban: "add_group_v2_banned_member sid_text g sid ts st = Inr (y, st') \<Longrightarrow> group_step st st'"
| gs_unban: "group_step st (snd (delete_group_v2_banned_member sid_text g sid st))"
| gs_key: "update_group_v2_member_profile_key sid_text g u key st = Inr (r, st') \<Longrightarrow> group_step st st'"
| gs_complete: "promote_pending_pni_aci_member_profile_key sid_text g u p key st = Inr (r, st') \<Longrightarrow> group_step st st'"
| gs_invite: "add_group_v2_pending_member sid_text g sid u role ts st = Inr (z, st') \<Longrightarrow> group_step st st'"
| gs_uninvite: "group_step st (snd (delete_group_v2_pending_member sid_text g sid st))"
| gs_request: "add_group_v2_requesting_member sid_text g u key ts st = Inr (q, st') \<Longrightarrow> group_step st st'"
| gs_unrequest: "delete_group_v2_requesting_member sid_text g u st = Inr (r, st') \<Longrightarrow> group_step st st'"
| gs_promote: "promote_group_v2_pending_member sid_text known g sid key st = Inr (x, st') \<Longrightarrow> group_step st st'"
| gs_accept: "promote_group_v2_requesting_member sid_text g u role st = Inr (x, st') \<Longrightarrow> group_step st st'"

lemmas update_group_defs =
  update_group_v2_description_def update_group_v2_title_def update_group_v2_avatar_def
  update_group_v2_invite_link_password_def update_group_v2_announcement_only_def
  update_group_v2_attribute_access_def update_group_v2_invite_link_access_def
  update_group_v2_member_access_def update_group_v2_member_label_access_def terminate_group_v2_def

lemma groups_advanced_update_group:
  "(\<And>x. advanced x (f x)) \<Longrightarrow> groups_advanced (db st) (db (update_group gid f st))"
  by (rule groups_advanced_update[where P = "\<lambda>x. g2_id x = gid" and f = f]) (simp_all add: update_group_def)

lemma groups_advanced_attributes:
  "groups_advanced (db st) (db (update_group_v2_description g text1 st))"
  "groups_advanced (db st) (db (update_group_v2_title g title st))"
  "groups_advanced (db st) (db (update_group_v2_avatar g text1 st))"
  "groups_advanced (db st) (db (update_group_v2_invite_link_password g title st))"
  "groups_advanced (db st) (db (update_group_v2_announcement_only g b st))"
  "groups_advanced (db st) (db (update_group_v2_attribute_access g a st))"
  "groups_advanced (db st) (db (update_group_v2_invite_link_access g a st))"
  "groups_advanced (db st) (db (update_group_v2_member_access g a st))"
  "groups_advanced (db st) (db (update_group_v2_member_label_access g a st))"
  "groups_advanced (db st) (db (terminate_group_v2 g st))"
  by (simp_all add: update_group_defs groups_advanced_update_group advanced_def)

lemma groups_advanced_revision: "groups_advanced (db st) (db (update_group_v2_revision g n st))"
proof (cases "g2_revision g \<ge> n")
  case False
  then show ?thesis
    by (intro groups_advanced_update[where P = "\<lambda>x. g2_id x = g2_id g \<and> g2_revision x < n"
          and f = "\<lambda>x. x\<lparr>g2_revision := n\<rparr>"])
      (auto simp: update_group_v2_revision_def Let_def advanced_def)
qed (simp add: update_group_v2_revision_def groups_advanced_same)

lemma groups_advanced_member_list:
  assumes "db st' = (db st)\<lparr>group_v2_members := tab\<rparr>"
    and "groups_sound (db st) \<Longrightarrow> list_sound gm2_group_v2_id gm2_recipient_id (group_v2s (db st)) tab"
  shows "groups_advanced (db st) (db st')"
  using assms by (intro groups_advanced_lists) (auto simp: groups_sound_def)

lemma groups_advanced_delete_member:
  "groups_advanced (db st) (db (snd (delete_group_v2_member sid_text g u st)))"
proof (cases "fetch_recipient (AciId u) st")
  case (Some r)
  then show ?thesis
    by (intro groups_advanced_member_list[where tab = "delete_where (member_key (g2_id g) (r_id r))
          (group_v2_members (db st))"])
      (auto simp: delete_group_v2_member_def groups_sound_def intro: wf_intros)
qed (simp add: delete_group_v2_member_def groups_advanced_same)

lemma groups_advanced_update_member:
  assumes "\<And>m. gm2_group_v2_id (f m) = gm2_group_v2_id m \<and> gm2_recipient_id (f m) = gm2_recipient_id m"
  shows "groups_advanced (db st) (db (snd (update_group_v2_member sid_text f g u st)))"
proof (cases "snd (update_group_v2_member sid_text f g u st) = st")
  case False
  then obtain r where "fetch_recipient (AciId u) st = Some r"
    and "exists_where (member_key (g2_id g) (r_id r)) (group_v2_members (db st))"
    by (auto simp: update_group_v2_member_def Let_def split: option.splits if_splits)
  then show ?thesis
    using assms by (intro groups_advanced_member_list[where tab = "update_where
          (member_key (g2_id g) (r_id r)) f (group_v2_members (db st))"])
      (auto simp: update_group_v2_member_def Let_def groups_sound_def intro!: wf_intros)
qed (simp add: groups_advanced_same)

text \<open>The insertion of a member, which fails, updates the row there is, or appends one.\<close>

inductive member_written ::
  "string \<Rightarrow> int \<Rightarrow> int \<Rightarrow> int \<Rightarrow> (group_v2_member \<times> recipient) option \<Rightarrow> storage \<Rightarrow> storage \<Rightarrow> bool" where
  mw_failed: "member_written gid rid role jr None st st"
| mw_updated: "(gm, y) \<in> set (fetch_group_members_by_group_v2_id gid st) \<Longrightarrow> r_id y = rid \<Longrightarrow>
    db st' = (db st)\<lparr>group_v2_members := update_where (member_key gid rid)
      (\<lambda>m. m\<lparr>gm2_role := role, gm2_joined_at_revision := jr, gm2_member_since := t\<rparr>)
      (group_v2_members (db st))\<rparr> \<Longrightarrow>
    member_written gid rid role jr (Some (gm, y)) st st'"
| mw_inserted: "has_key g2_id gid (group_v2s (db st)) \<Longrightarrow>
    \<not> exists_where (member_key gid rid) (group_v2_members (db st)) \<Longrightarrow>
    gm2_group_v2_id m = gid \<Longrightarrow> gm2_recipient_id m = rid \<Longrightarrow> gm2_role m = role \<Longrightarrow>
    gm2_joined_at_revision m = jr \<Longrightarrow>
    db st' = (db st)\<lparr>group_v2_members := group_v2_members (db st) @ [m]\<rparr> \<Longrightarrow>
    member_written gid rid role jr x st st'"

lemma add_memberE:
  assumes run: "add_group_v2_member sid_text g u role key jr joined st = Inr (x, st')"
  obtains r0 st1 r c st2 where "fetch_or_insert_recipient_by_address (AciId u) st = (r0, st1)"
    and "update_profile_key 32 (r_e164 r0) (to_service_address r0) key Uncertain st1 = Inr ((r, c), st2)"
    and "member_written (g2_id g) (r_id r) role jr x st2 st'"
proof -
  obtain r0 st1 where ins: "fetch_or_insert_recipient_by_address (AciId u) st = (r0, st1)"
    by fastforce
  then obtain r c st2 where
    key: "update_profile_key 32 (r_e164 r0) (to_service_address r0) key Uncertain st1 = Inr ((r, c), st2)"
    using run by (auto simp: add_group_v2_member_def Let_def rbind_eq_Inr)
  note run' = run[unfolded add_group_v2_member_def Let_def ins prod.case key rbind_Inr]
  have "member_written (g2_id g) (r_id r) role jr x st2 st'"
  proof (cases "first_where (\<lambda>(_, y). r_id y = r_id r) (fetch_group_members_by_group_v2_id (g2_id g) st2)")
    case None
    show ?thesis
    proof (cases "can_insert_member (g2_id g) r st2")
      case True
      then have free: "has_key g2_id (g2_id g) (group_v2s (db st2))"
        "\<not> exists_where (member_key (g2_id g) (r_id r)) (group_v2_members (db st2))"
        by (simp_all add: can_insert_member_def)
      have "db st' = (db st2)\<lparr>group_v2_members := group_v2_members (db st2) @
          [\<lparr> gm2_group_v2_id = g2_id g, gm2_recipient_id = r_id r, gm2_member_since =
               (case joined of None \<Rightarrow> now st2 | Some t \<Rightarrow> t), gm2_joined_at_revision = jr,
             gm2_role = role, gm2_label = None, gm2_label_emoji = None \<rparr>]\<rparr>"
        using run' None True by auto
      then show ?thesis
        using free by (intro mw_inserted[OF free]) auto
    next
      case False
      then show ?thesis
        using run' None by (simp add: mw_failed)
    qed
  next
    case (Some a)
    obtain gm y where a: "a = (gm, y)"
      by (cases a)
    have "(gm, y) \<in> set (fetch_group_members_by_group_v2_id (g2_id g) st2)" "r_id y = r_id r"
      using first_where_SomeD[OF Some] by (simp_all add: a)
    moreover have "x = Some (gm, y)" "\<exists>t. db st' = (db st2)\<lparr>group_v2_members := update_where
        (member_key (g2_id g) (r_id y)) (\<lambda>m. m\<lparr>gm2_role := role, gm2_joined_at_revision := jr,
          gm2_member_since := t\<rparr>) (group_v2_members (db st2))\<rparr>"
      using run' by (auto simp: Some a)
    ultimately show ?thesis
      by (auto intro: mw_updated)
  qed
  then show ?thesis
    by (rule that[OF ins key])
qed

lemma groups_advanced_written:
  assumes "member_written gid rid role jr x st st'"
  shows "groups_advanced (db st) (db st')"
  using assms
proof cases
  case mw_updated
  then show ?thesis
    by (intro groups_advanced_member_list[OF mw_updated(4)]) (auto simp: groups_sound_def intro!: wf_intros)
next
  case (mw_inserted m)
  then show ?thesis
    by (intro groups_advanced_member_list[OF mw_inserted(7)])
      (auto simp: groups_sound_def exists_where_iff member_key_def intro!: wf_intros)
qed (simp add: groups_advanced_same)

lemma groups_advanced_add:
  assumes "add_group_v2_member sid_text g u role key jr joined st = Inr (x, st')"
  shows "groups_advanced (db st) (db st')"
  using assms
proof (rule add_memberE)
  fix r0 st1 r c st2
  assume ins: "fetch_or_insert_recipient_by_address (AciId u) st = (r0, st1)"
    and key: "update_profile_key 32 (r_e164 r0) (to_service_address r0) key Uncertain st1 = Inr ((r, c), st2)"
    and written: "member_written (g2_id g) (r_id r) role jr x st2 st'"
  have "same_groups (db st) (db st2)"
    using same_groups_fetch_or_insert[OF ins] same_groups_profile_key[OF key] by (rule same_groups_trans)
  then show ?thesis
    using groups_advanced_written[OF written] by (blast intro: groups_advanced_trans groups_advanced_same)
qed

section \<open>The other lists\<close>

lemma groups_advanced_ban:
  assumes "add_group_v2_banned_member sid_text g sid ts st = Inr (y, st')"
  shows "groups_advanced (db st) (db st')"
proof (cases "fetch_group_v2_banned_member (g2_id g) sid st")
  case None
  then have free: "\<forall>m\<in>set (group_v2_banned_members (db st)). \<not> (gb_group_v2_id m = g2_id g \<and> gb_service_id m = sid)"
    by (simp add: fetch_group_v2_banned_member_def first_where_None banned_key_def)
  show ?thesis
    using assms None free
    by (intro groups_advanced_lists)
      (auto simp: add_group_v2_banned_member_def Let_def groups_sound_def split: if_splits intro!: wf_intros)
qed (use assms in \<open>simp add: add_group_v2_banned_member_def groups_advanced_same Let_def\<close>)

lemma groups_advanced_unban:
  "groups_advanced (db st) (db (snd (delete_group_v2_banned_member sid_text g sid st)))"
  by (rule groups_advanced_lists)
    (auto simp: delete_group_v2_banned_member_def Let_def groups_sound_def intro: wf_intros)

lemma groups_advanced_key:
  assumes "update_group_v2_member_profile_key sid_text g u key st = Inr (r, st')"
  shows "groups_advanced (db st) (db st')"
  using assms
  by (auto simp: update_group_v2_member_profile_key_def rbind_eq_Inr split: option.splits prod.splits
      dest!: same_groups_fetch_or_insert same_groups_profile_key
      intro: groups_advanced_same groups_advanced_same[OF same_groups_trans])

lemma groups_advanced_complete:
  assumes "promote_pending_pni_aci_member_profile_key sid_text g u p key st = Inr (r, st')"
  shows "groups_advanced (db st) (db st')"
  using assms
  by (auto simp: promote_pending_pni_aci_member_profile_key_def merge_and_fetch_recipient_def rbind_eq_Inr
      split: option.splits prod.splits dest!: same_groups_in_transaction same_groups_profile_key
      intro: groups_advanced_same groups_advanced_same[OF same_groups_trans])

lemma fetch_pending_last:
  "fetch_pending gid sid st = last_option (filter (pending_key gid sid) (group_v2_pending_members (db st)))"
  by (cases sid) (auto simp: fetch_pending_def fetch_group_v2_pending_member_def Let_def split: option.splits)

lemma fetch_pending_None:
  "fetch_pending gid sid st = None \<longleftrightarrow>
     (\<forall>m\<in>set (group_v2_pending_members (db st)). \<not> pending_key gid sid m)"
  by (simp add: fetch_pending_last filter_empty_conv)

lemma fetch_pending_SomeD: "fetch_pending gid sid st = Some m \<Longrightarrow> pending_key gid sid m"
  by (auto simp: fetch_pending_last dest!: last_option_SomeD)

lemma groups_advanced_invite:
  assumes "add_group_v2_pending_member sid_text g sid u role ts st = Inr (z, st')"
  shows "groups_advanced (db st) (db st')"
proof (cases "fetch_pending (g2_id g) sid st")
  case None
  then have free: "\<forall>m\<in>set (group_v2_pending_members (db st)). \<not> (gp_group_v2_id m = g2_id g \<and> gp_service_id m = sid)"
    by (simp add: fetch_pending_None pending_key_def)
  show ?thesis
    using assms None free
    by (intro groups_advanced_lists)
      (auto simp: add_group_v2_pending_member_def Let_def groups_sound_def split: if_splits intro!: wf_intros)
qed (use assms in \<open>simp add: add_group_v2_pending_member_def groups_advanced_same Let_def split: if_splits\<close>)

lemma groups_advanced_uninvite:
  "groups_advanced (db st) (db (snd (delete_group_v2_pending_member sid_text g sid st)))"
  by (rule groups_advanced_lists)
    (auto simp: delete_group_v2_pending_member_def Let_def groups_sound_def split: option.splits intro: wf_intros)

lemma groups_advanced_unrequest:
  assumes "delete_group_v2_requesting_member sid_text g u st = Inr (r, st')"
  shows "groups_advanced (db st) (db st')"
  using assms
  by (intro groups_advanced_lists)
    (auto simp: delete_group_v2_requesting_member_def Let_def groups_sound_def split: if_splits intro: wf_intros)

lemma add_requestE:
  assumes "add_group_v2_requesting_member sid_text g u key ts st = Inr (q, st')"
  obtains "st' = st"
    | m where "has_key g2_id (g2_id g) (group_v2s (db st))"
      and "\<forall>x\<in>set (group_v2_requesting_members (db st)). \<not> (gr_group_v2_id x = g2_id g \<and> gr_aci x = u)"
      and "gr_group_v2_id m = g2_id g" and "gr_aci m = u"
      and "same_groups ((db st)\<lparr>group_v2_requesting_members := group_v2_requesting_members (db st) @ [m]\<rparr>) (db st')"
proof -
  let ?m = "\<lparr> gr_group_v2_id = g2_id g, gr_aci = u, gr_profile_key = key, gr_timestamp = ts \<rparr>"
  assume stay: "st' = st \<Longrightarrow> thesis"
    and ins: "\<And>m. has_key g2_id (g2_id g) (group_v2s (db st)) \<Longrightarrow>
      \<forall>x\<in>set (group_v2_requesting_members (db st)). \<not> (gr_group_v2_id x = g2_id g \<and> gr_aci x = u) \<Longrightarrow>
      gr_group_v2_id m = g2_id g \<Longrightarrow> gr_aci m = u \<Longrightarrow>
      same_groups ((db st)\<lparr>group_v2_requesting_members := group_v2_requesting_members (db st) @ [m]\<rparr>) (db st')
      \<Longrightarrow> thesis"
  show thesis
    using assms
    by (auto simp: add_group_v2_requesting_member_def Let_def exists_where_iff requesting_key_def
        split: if_splits prod.splits intro: stay ins[of ?m] dest!: same_groups_fetch_or_insert)
qed

lemma groups_advanced_request:
  assumes "add_group_v2_requesting_member sid_text g u key ts st = Inr (q, st')"
  shows "groups_advanced (db st) (db st')"
  using assms
proof (cases rule: add_requestE)
  case (2 m)
  have "groups_advanced (db st)
      ((db st)\<lparr>group_v2_requesting_members := group_v2_requesting_members (db st) @ [m]\<rparr>)"
    using 2 by (intro groups_advanced_lists) (auto simp: groups_sound_def intro!: wf_intros)
  then show ?thesis
    using groups_advanced_same[OF 2(5)] by (rule groups_advanced_trans)
qed (simp add: groups_advanced_same)

lemma promote_pendingE:
  assumes "promote_group_v2_pending_member sid_text known g sid key st = Inr (x, st')"
  obtains m r st1 u st2 where "fetch_pending (g2_id g) sid st = Some m"
    and "fetch_or_insert_recipient_by_address sid st = (r, st1)" and "r_uuid r = Some u"
    and "add_group_v2_member sid_text g u (gp_role m) key (g2_revision g) None st1 = Inr (x, st2)"
    and "st' = (if x = None then st2 else snd (delete_group_v2_pending_member sid_text g sid st2))"
proof -
  obtain r st1 where ins: "fetch_or_insert_recipient_by_address sid st = (r, st1)"
    by fastforce
  obtain m u where m: "fetch_pending (g2_id g) sid st = Some m" and u: "r_uuid r = Some u"
    using assms by (auto simp: promote_group_v2_pending_member_def rbind_eq_Inr ins)
  obtain y st2 where "add_group_v2_member sid_text g u (gp_role m) key (g2_revision g) None st1 = Inr (y, st2)"
    using assms by (auto simp: promote_group_v2_pending_member_def rbind_eq_Inr ins m u split: if_splits)
  then show ?thesis
    using assms that[OF m ins u]
    by (auto simp: promote_group_v2_pending_member_def ins m u split: if_splits option.splits)
qed

lemma groups_advanced_promote:
  assumes "promote_group_v2_pending_member sid_text known g sid key st = Inr (x, st')"
  shows "groups_advanced (db st) (db st')"
  using assms
proof (cases rule: promote_pendingE)
  case (1 m r st1 u st2)
  have "groups_advanced (db st) (db st2)"
    using groups_advanced_same[OF same_groups_fetch_or_insert[OF 1(2)]] groups_advanced_add[OF 1(4)]
    by (rule groups_advanced_trans)
  then show ?thesis
    using groups_advanced_uninvite by (auto simp: 1(5) intro: groups_advanced_trans)
qed

lemma groups_advanced_accept:
  assumes "promote_group_v2_requesting_member sid_text g u role st = Inr (x, st')"
  shows "groups_advanced (db st) (db st')"
  using assms
  by (auto simp: promote_group_v2_requesting_member_def rbind_eq_Inr
      split: option.splits if_splits prod.splits
      intro: groups_advanced_same groups_advanced_add
        groups_advanced_trans[OF groups_advanced_add groups_advanced_unrequest])

lemma groups_advanced_step: "group_step st st' \<Longrightarrow> groups_advanced (db st) (db st')"
  by (induction rule: group_step.induct)
    (auto simp: update_group_v2_member_role_def update_group_v2_member_label_def
      intro: groups_advanced_revision groups_advanced_attributes groups_advanced_delete_member
        groups_advanced_update_member groups_advanced_add groups_advanced_ban groups_advanced_unban
        groups_advanced_key groups_advanced_complete groups_advanced_invite groups_advanced_uninvite
        groups_advanced_request groups_advanced_unrequest groups_advanced_promote groups_advanced_accept)

lemma groups_advanced_steps: "group_step\<^sup>*\<^sup>* st st' \<Longrightarrow> groups_advanced (db st) (db st')"
  by (induction rule: rtranclp_induct)
    (auto intro: groups_advanced_same groups_advanced_trans groups_advanced_step)

section \<open>Promotion\<close>

definition aci_rows :: "storage \<Rightarrow> (int \<times> uuid option) list" where
  "aci_rows st = map (\<lambda>r. (r_id r, r_uuid r)) (recipients (db st))"

lemma aci_rows_iff:
  "(i, v) \<in> set (aci_rows st) \<longleftrightarrow> (\<exists>y\<in>set (recipients (db st)). r_id y = i \<and> r_uuid y = v)"
  by (auto simp: aci_rows_def)

lemma aci_rows_write [simp]:
  "aci_rows (write_profile_key rcpt k st) = aci_rows st"
  "aci_rows (refresh_access_mode rcpt st) = aci_rows st"
  "aci_rows (invalidate_if c st) = aci_rows st"
  by (simp_all add: aci_rows_def write_profile_key_def refresh_access_mode_def Let_def map_update_where_frame)

lemma aci_rows_fetched:
  assumes "distinct (map fst (aci_rows st))" and "(rid, v) \<in> set (aci_rows st)"
    and "fetch_recipient_by_id rid st = Some r"
  shows "r_id r = rid \<and> r_uuid r = v"
proof -
  have "r \<in> set (recipients (db st))" and id: "r_id r = rid"
    using assms(3) by (auto simp: fetch_recipient_by_id_def dest: first_where_SomeD)
  then have "(rid, r_uuid r) \<in> set (aci_rows st)"
    by (auto simp: aci_rows_def)
  then show ?thesis
    using id eq_key_imp_eq_value[OF assms(1,2)] by auto
qed

lemma profile_key_row:
  assumes wf: "recipients_wf (recipients (db st))" and self: "self_recipient st = Some self"
    and run: "update_profile_key n e (Some (AciId u)) k trust st = Inr ((r, c), st')"
  shows "r_uuid r = Some u \<and> (r_id r, Some u) \<in> set (aci_rows st')"
proof -
  obtain rcpt st1 where m: "merge_and_fetch_recipient_by_address e (AciId u) trust st = Inr (rcpt, st1)"
    using run by (auto simp: update_profile_key_def rbind_eq_Inr)
  then have "merge_in_transaction ''existing updated recipient by id'' e (Some u) None trust False st
      = Inr (rcpt, st1)"
    by (simp add: merge_and_fetch_recipient_by_address_def merge_and_fetch_recipient_def)
  then have row: "recipients_wf (recipients (db st1))" "fetch_recipient_by_id (r_id rcpt) st1 = Some rcpt"
      "r_uuid rcpt = Some u" "self_recipient st1 = Some self"
    using merge_in_transaction_row[OF wf] self by force+
  then have has: "(r_id rcpt, Some u) \<in> set (aci_rows st1)"
    by (force simp: aci_rows_def fetch_recipient_by_id_def dest!: first_where_SomeD)
  have "distinct (map fst (aci_rows st1))"
    using row(1) by (simp add: recipients_wf_def distinct_keys_def aci_rows_def comp_def)
  have "fetch_self_recipient st1 = Inr (Some self, st1)"
    by (simp add: fetch_self_recipient_def row)
  then have "aci_rows st' = aci_rows st1 \<and> (r = rcpt \<or> fetch_recipient_by_id (r_id rcpt) st' = Some r)"
    using run by (auto simp: update_profile_key_def m Let_def rbind_eq_Inr split: if_splits)
  then show ?thesis
    using row(3) has \<open>distinct _\<close> aci_rows_fetched[of st' "r_id rcpt" "Some u" r] by auto
qed

text \<open>What is left of the insertion: a row of the member with the new role and revision.\<close>

lemma member_written_row:
  assumes "member_written gid rid role jr (Some x) st st'"
  shows "\<exists>m\<in>set (group_v2_members (db st')). gm2_group_v2_id m = gid \<and> gm2_recipient_id m = rid
           \<and> gm2_role m = role \<and> gm2_joined_at_revision m = jr"
    and "recipients (db st') = recipients (db st)"
proof -
  show "\<exists>m\<in>set (group_v2_members (db st')). gm2_group_v2_id m = gid \<and> gm2_recipient_id m = rid
           \<and> gm2_role m = role \<and> gm2_joined_at_revision m = jr"
    using assms
  proof cases
    case (mw_updated gm y t)
    then have gm: "gm \<in> set (group_v2_members (db st))" "gm2_group_v2_id gm = gid"
      and "fetch_recipient_by_id (gm2_recipient_id gm) st = Some y"
      by (auto simp: fetch_group_members_by_group_v2_id_def List.map_filter_def)
    then have "member_key gid rid gm"
      using mw_updated(3) by (auto simp: member_key_def fetch_recipient_by_id_def dest: first_where_SomeD)
    then show ?thesis
      unfolding mw_updated(4)
      by (intro bexI[of _ "gm\<lparr>gm2_role := role, gm2_joined_at_revision := jr, gm2_member_since := t\<rparr>"])
        (use gm \<open>member_key gid rid gm\<close> in \<open>auto simp: member_key_def set_update_where\<close>)
  qed auto
  show "recipients (db st') = recipients (db st)"
    using assms by cases auto
qed

lemma fetch_or_insert_aci:
  "fetch_or_insert_recipient_by_address (AciId u) st = (r, st') \<Longrightarrow> r_uuid r = Some u"
  by (auto simp: fetch_or_insert_recipient_by_address_def insert_recipient_def fetch_recipient_def
      has_service_id_def Let_def split: option.splits dest!: first_where_SomeD)

lemma fetch_or_insert_wf:
  assumes "recipients_wf (recipients (db st))" and "fetch_or_insert_recipient_by_address addr st = (r, st')"
  shows "recipients_wf (recipients (db st')) \<and> self_recipient st' = self_recipient st"
proof (cases "fetch_recipient addr st")
  case None
  then have "\<forall>r\<in>set (recipients (db st)). \<not> has_service_id addr r"
    by (simp add: fetch_recipient_def first_where_None)
  then show ?thesis
    using assms rcpt.distinct_insert[of "recipients (db st)"] None
    by (auto simp: fetch_or_insert_recipient_by_address_def insert_recipient_def Let_def
        has_service_id_def recipients_wf_def unique_values_append insert_row_def
        split: service_id.splits)
qed (use assms in \<open>simp add: fetch_or_insert_recipient_by_address_def\<close>)

lemma add_member_row:
  assumes wf: "recipients_wf (recipients (db st))" and self: "self_recipient st = Some self"
    and run: "add_group_v2_member sid_text g u role key jr joined st = Inr (Some x, st')"
  shows "\<exists>m\<in>set (group_v2_members (db st')). gm2_group_v2_id m = g2_id g \<and> gm2_role m = role
           \<and> gm2_joined_at_revision m = jr \<and> (gm2_recipient_id m, Some u) \<in> set (aci_rows st')"
  using run
proof (rule add_memberE)
  fix r0 st1 r c st2
  assume ins: "fetch_or_insert_recipient_by_address (AciId u) st = (r0, st1)"
    and key: "update_profile_key 32 (r_e164 r0) (to_service_address r0) key Uncertain st1 = Inr ((r, c), st2)"
    and written: "member_written (g2_id g) (r_id r) role jr (Some x) st2 st'"
  have "to_service_address r0 = Some (AciId u)"
    using fetch_or_insert_aci[OF ins] by (simp add: to_service_address_def)
  note key' = key[unfolded this]
  have "recipients_wf (recipients (db st1))" "self_recipient st1 = Some self"
    using fetch_or_insert_wf[OF wf ins] self by simp_all
  from profile_key_row[OF this key'] have "(r_id r, Some u) \<in> set (aci_rows st2)"
    by (rule conjunct2)
  moreover have "aci_rows st' = aci_rows st2"
    by (simp add: aci_rows_def member_written_row(2)[OF written])
  ultimately show ?thesis
    using member_written_row(1)[OF written] by auto
qed

lemma delete_pending_gone:
  assumes "delete_group_v2_pending_member sid_text g sid st = (r, st')"
  shows "fetch_pending (g2_id g) sid st' = None \<and> group_v2_members (db st') = group_v2_members (db st)
         \<and> recipients (db st') = recipients (db st)"
proof (cases "fetch_pending (g2_id g) sid st")
  case (Some m)
  have "gp_service_id m = sid"
    using fetch_pending_SomeD[OF Some] by (simp add: pending_key_def)
  then show ?thesis
    using assms Some
    by (auto simp: delete_group_v2_pending_member_def Let_def fetch_pending_None set_delete_where
        split: if_splits)
qed (use assms in \<open>auto simp: delete_group_v2_pending_member_def\<close>)

lemma promoted_row:
  assumes wf: "recipients_wf (recipients (db st))" and self: "self_recipient st \<noteq> None"
    and run: "promote_group_v2_pending_member sid_text known g sid key st = Inr (Some x, st')"
  shows "\<exists>p u m. fetch_pending (g2_id g) sid st = Some p \<and> fetch_pending (g2_id g) sid st' = None
           \<and> (\<exists>r s. fetch_or_insert_recipient_by_address sid st = (r, s) \<and> r_uuid r = Some u)
           \<and> m \<in> set (group_v2_members (db st')) \<and> gm2_group_v2_id m = g2_id g \<and> gm2_role m = gp_role p
           \<and> gm2_joined_at_revision m = g2_revision g
           \<and> (\<exists>y\<in>set (recipients (db st')). r_id y = gm2_recipient_id m \<and> r_uuid y = Some u)"
  using run
proof (rule promote_pendingE)
  fix p r st1 u st2
  assume p: "fetch_pending (g2_id g) sid st = Some p"
    and ins: "fetch_or_insert_recipient_by_address sid st = (r, st1)" and u: "r_uuid r = Some u"
    and add: "add_group_v2_member sid_text g u (gp_role p) key (g2_revision g) None st1 = Inr (Some x, st2)"
    and st': "st' = (if Some x = None then st2 else snd (delete_group_v2_pending_member sid_text g sid st2))"
  obtain self where "self_recipient st1 = Some self" and "recipients_wf (recipients (db st1))"
    using fetch_or_insert_wf[OF wf ins] self by auto
  then obtain m where "m \<in> set (group_v2_members (db st2))" "gm2_group_v2_id m = g2_id g"
      "gm2_role m = gp_role p" "gm2_joined_at_revision m = g2_revision g"
      "(gm2_recipient_id m, Some u) \<in> set (aci_rows st2)"
    using add_member_row[OF _ _ add] by blast
  moreover have "delete_group_v2_pending_member sid_text g sid st2
      = (fst (delete_group_v2_pending_member sid_text g sid st2), st')"
    by (simp add: st')
  note delete_pending_gone[OF this]
  ultimately show ?thesis
    using p ins u by (intro exI[of _ p] exI[of _ u] exI[of _ m]) (simp add: aci_rows_iff)
qed

section \<open>Calls that miss their target\<close>

lemma key_update_missed:
  assumes "fetch_pending (g2_id g) (AciId u) st = None"
  shows "update_group_v2_member_profile_key sid_text g u key st = Inr (None, st)"
  using assms by (simp add: update_group_v2_member_profile_key_def fetch_pending_def)

lemma second_request_panics:
  assumes "\<not> is_member (g2_id g) (AciId u) st" and "fetch_pending (g2_id g) (AciId u) st = None"
    and "fetch_group_v2_requesting_member (g2_id g) u st \<noteq> None"
  shows "add_group_v2_requesting_member sid_text g u key ts st
           = Inl (Panic ''insert requesting group member'')"
  using assms
  by (auto simp: add_group_v2_requesting_member_def fetch_pending_def fetch_group_v2_requesting_member_def
      exists_where_iff Let_def dest: first_where_SomeD)

lemma invite_without_aci_panics:
  assumes "fetch_pending (g2_id g) (PniId p) st \<noteq> None"
    and "\<forall>r. fetch_recipient (PniId p) st = Some r \<longrightarrow> r_uuid r = None"
  shows "promote_group_v2_pending_member sid_text known g (PniId p) key st
           = Inl (Panic ''called `Option::unwrap()` on a `None` value'')"
proof -
  obtain x st1 where "fetch_or_insert_recipient_by_address (PniId p) st = (x, st1)"
    by fastforce
  moreover from this have "r_uuid x = None"
    using assms(2)
    by (auto simp: fetch_or_insert_recipient_by_address_def insert_recipient_def Let_def split: option.splits)
  ultimately show ?thesis
    using assms(1) by (auto simp: promote_group_v2_pending_member_def)
qed

section \<open>Properties\<close>

definition demo_group :: group_v2 where
  "demo_group = \<lparr> g2_id = ''G'', g2_name = ''group'', g2_master_key = ''K'', g2_revision = 4,
     g2_invite_link_password = None, g2_access_required_for_attributes = 2,
     g2_access_required_for_members = 2, g2_access_required_for_add_from_invite_link = 4,
     g2_avatar = None, g2_description = None, g2_announcement_only = False,
     g2_access_required_for_member_labels = 2, g2_terminated = False \<rparr>"

definition demo_self :: recipient where
  "demo_self = with_r_id 1 ((new_recipient (Some 7) None (Some ''+1''))\<lparr>r_profile_key := Some (replicate 32 0)\<rparr>)"

text \<open>
  The group of the examples has the user as its member; 8 and the PNI 9 are invited, 6 asks to join.
\<close>

definition group_demo :: storage where
  "group_demo = \<lparr> db = empty_database\<lparr>
       recipients := [demo_self, with_r_id 2 (new_recipient (Some 8) None None),
                      with_r_id 3 (new_recipient None (Some 9) None)],
       group_v2s := [demo_group],
       group_v2_members := [\<lparr> gm2_group_v2_id = ''G'', gm2_recipient_id = 1, gm2_member_since = 0,
         gm2_joined_at_revision = 0, gm2_role = 2, gm2_label = None, gm2_label_emoji = None \<rparr>],
       group_v2_pending_members :=
         [\<lparr> gp_group_v2_id = ''G'', gp_service_id = AciId 8, gp_role = 1, gp_added_by_aci = 7, gp_timestamp = 0 \<rparr>,
          \<lparr> gp_group_v2_id = ''G'', gp_service_id = PniId 9, gp_role = 1, gp_added_by_aci = 7, gp_timestamp = 0 \<rparr>],
       group_v2_requesting_members :=
         [\<lparr> gr_group_v2_id = ''G'', gr_aci = 6, gr_profile_key = replicate 32 5, gr_timestamp = 0 \<rparr>]\<rparr>,
     conf = \<lparr> cfg_tel = Some ''+1'', cfg_aci = Some 7, cfg_pni = None, cfg_home = ''/h'' \<rparr>,
     self_recipient = Some demo_self, events = [], now = 1000, files = [] \<rparr>"

definition print_id :: "service_id \<Rightarrow> string" where
  "print_id sid = (case sid of AciId _ \<Rightarrow> ''aci'' | PniId _ \<Rightarrow> ''PNI:pni'')"

definition promoted_demo :: storage where
  "promoted_demo = (case promote_group_v2_pending_member print_id (\<lambda>_. True) demo_group (AciId 8)
                        (replicate 32 1) group_demo of
                      Inr (_, st) \<Rightarrow> st | Inl _ \<Rightarrow> group_demo)"

lemma promoted_demo_run:
  "\<exists>x. promote_group_v2_pending_member print_id (\<lambda>_. True) demo_group (AciId 8) (replicate 32 1) group_demo
     = Inr (Some x, promoted_demo)"
proof -
  have "case promote_group_v2_pending_member print_id (\<lambda>_. True) demo_group (AciId 8) (replicate 32 1) group_demo
    of Inr (Some x, st) \<Rightarrow> True | _ \<Rightarrow> False"
    by code_simp
  then show ?thesis
    by (auto simp: promoted_demo_def split: sum.splits option.splits)
qed

text \<open>
  C11. The group tables.  Through any sequence of the group operations that return, no person
  appears twice in the members, the invited, the requesting or the banned of a group, and every row
  is of a group there is; no group is lost, renumbered or given another key, none goes back to an
  earlier revision whatever revisions the changes claim, and a terminated group stays terminated.
\<close>

theorem groups_stay_sound:
  assumes "group_step\<^sup>*\<^sup>* st st'" and "groups_sound (db st)"
  shows "groups_sound (db st') \<and> list_all2 advanced (group_v2s (db st)) (group_v2s (db st'))"
  using groups_advanced_steps[OF assms(1)] assms(2) by (simp add: groups_advanced_def)

theorem groups_stay_sound_witness:
  "groups_sound (db (update_group_v2_revision (demo_group\<lparr>g2_revision := 2\<rparr>) 3 promoted_demo))
   \<and> map g2_revision (group_v2s (db (update_group_v2_revision (demo_group\<lparr>g2_revision := 2\<rparr>) 3 promoted_demo))) = [4]"
proof -
  have "group_step group_demo promoted_demo"
    using promoted_demo_run by (blast intro: gs_promote)
  then have "group_step\<^sup>*\<^sup>* group_demo (update_group_v2_revision (demo_group\<lparr>g2_revision := 2\<rparr>) 3 promoted_demo)"
    by (blast intro: gs_revision rtranclp.rtrancl_into_rtrancl)
  moreover have "groups_sound (db group_demo)"
    by code_simp
  ultimately have "groups_sound (db (update_group_v2_revision (demo_group\<lparr>g2_revision := 2\<rparr>) 3 promoted_demo))"
    using groups_stay_sound by blast
  moreover have "map g2_revision (group_v2s (db (update_group_v2_revision (demo_group\<lparr>g2_revision := 2\<rparr>) 3
      promoted_demo))) = [4]"
    by code_simp
  ultimately show ?thesis ..
qed

text \<open>
  Promotion.  When \<open>promote_group_v2_pending_member\<close> returns a member, the person had been
  invited and is not any more, and the recipient with the ACI of the person is a member, with the
  role of the invitation and the revision of the group.
\<close>

theorem promotion_makes_member:
  assumes "recipients_wf (recipients (db st))" and "self_recipient st \<noteq> None"
    and "promote_group_v2_pending_member sid_text known_role g sid key st = Inr (Some x, st')"
  shows "\<exists>p u m. fetch_pending (g2_id g) sid st = Some p \<and> fetch_pending (g2_id g) sid st' = None
           \<and> (\<exists>r s. fetch_or_insert_recipient_by_address sid st = (r, s) \<and> r_uuid r = Some u)
           \<and> m \<in> set (group_v2_members (db st')) \<and> gm2_group_v2_id m = g2_id g \<and> gm2_role m = gp_role p
           \<and> gm2_joined_at_revision m = g2_revision g
           \<and> (\<exists>y\<in>set (recipients (db st')). r_id y = gm2_recipient_id m \<and> r_uuid y = Some u)"
  using assms by (rule promoted_row)

theorem promotion_makes_member_witness:
  "fetch_pending ''G'' (AciId 8) promoted_demo = None
   \<and> (\<exists>m\<in>set (group_v2_members (db promoted_demo)). gm2_role m = 1 \<and> gm2_joined_at_revision m = 4)"
proof -
  note promoted_demo_run
  moreover have "recipients_wf (recipients (db group_demo))"
    by code_simp
  moreover have "self_recipient group_demo \<noteq> None" "g2_id demo_group = ''G''" "g2_revision demo_group = 4"
    by (simp_all add: group_demo_def demo_group_def)
  moreover have "map_option gp_role (fetch_pending ''G'' (AciId 8) group_demo) = Some 1"
    by code_simp
  ultimately show ?thesis
    using promotion_makes_member[of group_demo print_id "\<lambda>_. True" demo_group "AciId 8"] by fastforce
qed

text \<open>
  Calls that miss.  The profile key of a member who is not also invited is never updated:
  \<open>update_group_v2_member_profile_key\<close> looks for an invitation and gives up without one.  A second
  request of someone who already asks to join panics on the primary key of the table, and so does
  promoting an invitation by PNI of somebody whose ACI is not known.
\<close>

theorem group_calls_missing:
  assumes "fetch_pending (g2_id g) (AciId u) st = None"
  shows "update_group_v2_member_profile_key sid_text g u key st = Inr (None, st)
      \<and> (\<not> is_member (g2_id g) (AciId u) st \<and> fetch_group_v2_requesting_member (g2_id g) u st \<noteq> None \<longrightarrow>
         add_group_v2_requesting_member sid_text g u key ts st = Inl (Panic ''insert requesting group member''))
      \<and> (fetch_pending (g2_id g) (PniId p) st \<noteq> None
         \<and> (\<forall>r. fetch_recipient (PniId p) st = Some r \<longrightarrow> r_uuid r = None) \<longrightarrow>
         promote_group_v2_pending_member sid_text known_role g (PniId p) key st
           = Inl (Panic ''called `Option::unwrap()` on a `None` value''))"
  using key_update_missed[OF assms] second_request_panics[OF _ assms] invite_without_aci_panics by blast

theorem group_calls_missing_witness:
  "update_group_v2_member_profile_key print_id demo_group 7 (replicate 32 1) group_demo = Inr (None, group_demo)
   \<and> add_group_v2_requesting_member print_id demo_group 6 (replicate 32 5) 0 group_demo
       = Inl (Panic ''insert requesting group member'')
   \<and> promote_group_v2_pending_member print_id (\<lambda>_. True) demo_group (PniId 9) (replicate 32 5) group_demo
       = Inl (Panic ''called `Option::unwrap()` on a `None` value'')"
proof -
  have none: "fetch_pending (g2_id demo_group) (AciId 7) group_demo = None"
      "fetch_pending (g2_id demo_group) (AciId 6) group_demo = None"
    by code_simp+
  have "\<not> is_member (g2_id demo_group) (AciId 6) group_demo"
      "fetch_group_v2_requesting_member (g2_id demo_group) 6 group_demo \<noteq> None"
      "fetch_pending (g2_id demo_group) (PniId 9) group_demo \<noteq> None"
      "map_option r_uuid (fetch_recipient (PniId 9) group_demo) = Some None"
    by code_simp+
  then show ?thesis
    using group_calls_missing[OF none(1), of print_id] group_calls_missing[OF none(2), of print_id] by force
qed

end
