(* ===== verification/GroupChanges.thy ===== *)
theory GroupChanges
  imports GroupStore MessageStore
begin

text \<open>
  What the worker does with a message that changes a group
  (\<open>whisperfish/src/worker/client/groupv2.rs\<close>): the changes are applied to the store one by one,
  triggers are collected, the revision of the group is raised, and the changes become messages of
  the conversation; a change that leaves no trigger makes the worker fetch the group again.

  Decrypting the changes is the service library's; its enumeration of changes is the datatype
  below.  Parameters are how it prints ids (\<open>sid_text\<close>, \<open>uuid_text\<close>), numbers its roles
  (\<open>role_number\<close>) and recognises their numbers (\<open>known_role\<close>), and \<open>json\<close>, which prints an object.
\<close>

section \<open>The changes\<close>

datatype group_role = UnknownRole | DefaultRole | AdministratorRole

datatype group_change =
    AddBannedMember service_id timestamp
  | AnnouncementOnly bool
  | AttributeAccess access_required
  | Avatar string
  | DeleteBannedMember service_id
  | DeleteMember uuid
  | DeletePendingMember service_id
  | DeleteRequestingMember uuid
  | Description "string option"
  | InviteLinkAccess access_required
  | InviteLinkPassword string
  | MemberAccess access_required
  | ModifyMemberProfileKey uuid blob
  | ModifyMemberRole uuid group_role
  | NewMember uuid group_role blob nat
  | NewPendingMember service_id group_role uuid timestamp
  | NewRequestingMember uuid blob timestamp
  | PromotePendingMember service_id blob
  | PromotePendingPniAciMemberProfileKey uuid uuid blob
  | PromoteRequestingMember uuid group_role
  | Timer "nat option"
  | Title string
  | MemberLabel service_id "string option" "string option"
  | MemberLabelAccess access_required
  | TerminateGroup

datatype group_trigger = RevisionTrigger | AvatarTrigger string | RecipientTrigger uuid

fun access_to_string :: "access_required \<Rightarrow> string" where
  "access_to_string ARUnknown = ''unknown''"
| "access_to_string ARAny = ''any''"
| "access_to_string ARMember = ''member''"
| "access_to_string ARAdministrator = ''administrator''"
| "access_to_string ARUnsatisfiable = ''unsatisfyable''"

fun role_to_string :: "group_role \<Rightarrow> string" where
  "role_to_string UnknownRole = ''unknown''"
| "role_to_string DefaultRole = ''default''"
| "role_to_string AdministratorRole = ''administrator''"

section \<open>The message of a change\<close>

fun decimal :: "nat \<Rightarrow> string" where
  "decimal n = (if n < 10 then [] else decimal (n div 10)) @ [char_of (48 + n mod 10)]"

declare decimal.simps [simp del]

record change_message =
  cm_change :: "string option"
  cm_value :: "string option"
  cm_aci :: "string option"
  cm_pni :: "string option"

definition no_message :: change_message where
  "no_message = \<lparr> cm_change = None, cm_value = None, cm_aci = None, cm_pni = None \<rparr>"

definition about_change :: "string \<Rightarrow> change_message" where
  "about_change c = no_message\<lparr>cm_change := Some c\<rparr>"

definition target_raw :: "(uuid \<Rightarrow> string) \<Rightarrow> service_id \<Rightarrow> change_message \<Rightarrow> change_message" where
  "target_raw uuid_text sid m =
     (case sid of AciId u \<Rightarrow> m\<lparr>cm_aci := Some (uuid_text u)\<rparr> | PniId u \<Rightarrow> m\<lparr>cm_pni := Some (uuid_text u)\<rparr>)"

definition raw_uuid :: "service_id \<Rightarrow> uuid" where
  "raw_uuid sid = (case sid of AciId u \<Rightarrow> u | PniId u \<Rightarrow> u)"

fun change_message_of ::
  "((string \<times> string option) list \<Rightarrow> string) \<Rightarrow> (service_id \<Rightarrow> string) \<Rightarrow> (uuid \<Rightarrow> string) \<Rightarrow> group_change
     \<Rightarrow> change_message" where
  "change_message_of json sid_text uuid_text (AddBannedMember sid _) =
     target_raw uuid_text sid (about_change ''add_banned_member'')"
| "change_message_of json sid_text uuid_text (AnnouncementOnly b) =
     (about_change ''announcement_only'')\<lparr>cm_value := Some (if b then ''enabled'' else ''diabled'')\<rparr>"
| "change_message_of json sid_text uuid_text (AttributeAccess a) =
     (about_change ''attribute_access'')\<lparr>cm_value := Some (access_to_string a)\<rparr>"
| "change_message_of json sid_text uuid_text (Avatar _) = about_change ''avatar''"
| "change_message_of json sid_text uuid_text (DeleteBannedMember _) = no_message"
| "change_message_of json sid_text uuid_text (DeleteMember u) =
     (about_change ''banned_member'')\<lparr>cm_aci := Some (sid_text (AciId u))\<rparr>"
| "change_message_of json sid_text uuid_text (DeletePendingMember _) = no_message"
| "change_message_of json sid_text uuid_text (DeleteRequestingMember _) = no_message"
| "change_message_of json sid_text uuid_text (Description desc) =
     (about_change ''description'')\<lparr>cm_value := desc\<rparr>"
| "change_message_of json sid_text uuid_text (InviteLinkAccess a) =
     (about_change ''invite_link_access'')\<lparr>cm_value := Some (access_to_string a)\<rparr>"
| "change_message_of json sid_text uuid_text (InviteLinkPassword _) = about_change ''invite_link_password''"
| "change_message_of json sid_text uuid_text (MemberAccess a) =
     (about_change ''member_access'')\<lparr>cm_value := Some (access_to_string a)\<rparr>"
| "change_message_of json sid_text uuid_text (ModifyMemberProfileKey _ _) = no_message"
| "change_message_of json sid_text uuid_text (ModifyMemberRole u role) =
     (about_change ''modify_member_role'')\<lparr>cm_aci := Some (sid_text (AciId u)),
       cm_value := Some (role_to_string role)\<rparr>"
| "change_message_of json sid_text uuid_text (NewMember u role _ _) =
     (about_change ''new_member'')\<lparr>cm_aci := Some (sid_text (AciId u)), cm_value := Some (role_to_string role)\<rparr>"
| "change_message_of json sid_text uuid_text (NewPendingMember sid role _ _) =
     (target_raw uuid_text sid (about_change ''new_pending_member''))\<lparr>cm_value := Some (role_to_string role)\<rparr>"
| "change_message_of json sid_text uuid_text (NewRequestingMember u _ _) =
     (about_change ''new_requesting_member'')\<lparr>cm_aci := Some (sid_text (AciId u))\<rparr>"
| "change_message_of json sid_text uuid_text (PromotePendingMember sid _) =
     target_raw uuid_text sid (about_change ''promote_pending_member'')"
| "change_message_of json sid_text uuid_text (PromotePendingPniAciMemberProfileKey _ _ _) = no_message"
| "change_message_of json sid_text uuid_text (PromoteRequestingMember u role) =
     (about_change ''promote_requesting_member'')\<lparr>cm_aci := Some (sid_text (AciId u)),
       cm_value := Some (role_to_string role)\<rparr>"
| "change_message_of json sid_text uuid_text (Timer t) =
     (about_change ''timer'')\<lparr>cm_value := Some (case t of None \<Rightarrow> ''0'' | Some n \<Rightarrow> decimal n)\<rparr>"
| "change_message_of json sid_text uuid_text (Title title) = (about_change ''title'')\<lparr>cm_value := Some title\<rparr>"
| "change_message_of json sid_text uuid_text (MemberLabel sid emoji label) =
     (about_change ''member_label'')\<lparr>cm_aci := Some (uuid_text (raw_uuid sid)),
       cm_value := Some (json [(''string'', label), (''emoji'', emoji)])\<rparr>"
| "change_message_of json sid_text uuid_text (MemberLabelAccess a) =
     (about_change ''member_label_access'')\<lparr>cm_value := Some (access_to_string a)\<rparr>"
| "change_message_of json sid_text uuid_text TerminateGroup = about_change ''terminate''"

definition group_change_to_service_message_json ::
  "((string \<times> string option) list \<Rightarrow> string) \<Rightarrow> (service_id \<Rightarrow> string) \<Rightarrow> (uuid \<Rightarrow> string) \<Rightarrow> group_change
     \<Rightarrow> string option" where
  "group_change_to_service_message_json json sid_text uuid_text c =
     (let m = change_message_of json sid_text uuid_text c in
      if cm_change m = None then None
      else Some (json [(''change'', cm_change m), (''value'', cm_value m), (''aci'', cm_aci m), (''pni'', cm_pni m)]))"

record service_message =
  sv_message :: string
  sv_editor :: uuid
  sv_group_id :: string

section \<open>Applying the changes\<close>

type_synonym triggers = "group_trigger list \<times> group_trigger list"

definition touched :: "recipient option \<times> storage \<Rightarrow> (triggers \<times> storage) res" where
  "touched p =
     (case p of
        (None, st) \<Rightarrow> Inr (([], []), st)
      | (Some r, st) \<Rightarrow>
          rbind (opt_panic ''called `Option::unwrap()` on a `None` value'' (r_uuid r)) (\<lambda>u.
          Inr (([RecipientTrigger u], []), st)))"

definition member_touched :: "(group_v2_member \<times> recipient) option \<times> storage \<Rightarrow> (triggers \<times> storage) res" where
  "member_touched p = touched (map_option snd (fst p), snd p)"

definition revised :: "storage \<Rightarrow> (triggers \<times> storage) res" where
  "revised st = Inr (([RevisionTrigger], []), st)"

fun apply_change ::
  "(service_id \<Rightarrow> string) \<Rightarrow> (group_role \<Rightarrow> int) \<Rightarrow> (int \<Rightarrow> bool) \<Rightarrow> session \<Rightarrow> group_v2 \<Rightarrow> group_change
     \<Rightarrow> storage \<Rightarrow> (triggers \<times> storage) res" where
  "apply_change sid_text role_number known_role session g (AnnouncementOnly b) st =
     revised (update_group_v2_announcement_only g b st)"
| "apply_change sid_text role_number known_role session g (AttributeAccess a) st =
     revised (update_group_v2_attribute_access g a st)"
| "apply_change sid_text role_number known_role session g (Avatar avatar) st =
     Inr (([], [AvatarTrigger (g2_id g)]), update_group_v2_avatar g (Some avatar) st)"
| "apply_change sid_text role_number known_role session g (AddBannedMember sid ts) st =
     rbind (add_group_v2_banned_member sid_text g sid ts st) (\<lambda>((_, r), st'). touched (r, st'))"
| "apply_change sid_text role_number known_role session g (DeleteBannedMember sid) st =
     touched (delete_group_v2_banned_member sid_text g sid st)"
| "apply_change sid_text role_number known_role session g (DeleteMember u) st =
     touched (delete_group_v2_member sid_text g u st)"
| "apply_change sid_text role_number known_role session g (DeletePendingMember sid) st =
     touched (delete_group_v2_pending_member sid_text g sid st)"
| "apply_change sid_text role_number known_role session g (DeleteRequestingMember u) st =
     rbind (delete_group_v2_requesting_member sid_text g u st) touched"
| "apply_change sid_text role_number known_role session g (Description d) st =
     revised (update_group_v2_description g d st)"
| "apply_change sid_text role_number known_role session g (InviteLinkAccess a) st =
     revised (update_group_v2_invite_link_access g a st)"
| "apply_change sid_text role_number known_role session g (InviteLinkPassword p) st =
     revised (update_group_v2_invite_link_password g p st)"
| "apply_change sid_text role_number known_role session g (MemberAccess a) st =
     revised (update_group_v2_member_access g a st)"
| "apply_change sid_text role_number known_role session g (ModifyMemberProfileKey u key) st =
     rbind (update_group_v2_member_profile_key sid_text g u key st) touched"
| "apply_change sid_text role_number known_role session g (ModifyMemberRole u role) st =
     touched (update_group_v2_member_role sid_text g u (role_number role) st)"
| "apply_change sid_text role_number known_role session g (NewMember u role key version) st =
     rbind (add_group_v2_member sid_text g u (role_number role) key (i32_of_u32 version) None st) member_touched"
| "apply_change sid_text role_number known_role session g (NewPendingMember sid role added_by ts) st =
     rbind (add_group_v2_pending_member sid_text g sid added_by (role_number role) ts st) (\<lambda>(_, st'). revised st')"
| "apply_change sid_text role_number known_role session g (NewRequestingMember u key ts) st =
     rbind (add_group_v2_requesting_member sid_text g u key ts st) (\<lambda>(q, st'). touched (map_option snd q, st'))"
| "apply_change sid_text role_number known_role session g (PromotePendingPniAciMemberProfileKey u p key) st =
     rbind (promote_pending_pni_aci_member_profile_key sid_text g u p key st) touched"
| "apply_change sid_text role_number known_role session g (PromotePendingMember sid key) st =
     rbind (promote_group_v2_pending_member sid_text known_role g sid key st) member_touched"
| "apply_change sid_text role_number known_role session g (PromoteRequestingMember u role) st =
     rbind (promote_group_v2_requesting_member sid_text g u (role_number role) st) member_touched"
| "apply_change sid_text role_number known_role session g (Timer t) st =
     revised (snd (update_expiration_timer session (map_option int t) None st))"
| "apply_change sid_text role_number known_role session g (Title title) st =
     revised (update_group_v2_title g title st)"
| "apply_change sid_text role_number known_role session g (MemberLabel sid emoji label) st =
     (case sid of
        AciId u \<Rightarrow> Inr (([RecipientTrigger u], []), snd (update_group_v2_member_label sid_text g u label emoji st))
      | PniId _ \<Rightarrow> Inr (([], []), st))"
| "apply_change sid_text role_number known_role session g (MemberLabelAccess a) st =
     Inr (([], []), update_group_v2_member_label_access g a st)"
| "apply_change sid_text role_number known_role session g TerminateGroup st =
     Inr (([], []), terminate_group_v2 g st)"

fun apply_changes ::
  "(group_change \<Rightarrow> storage \<Rightarrow> (triggers \<times> storage) res) \<Rightarrow> group_change list \<Rightarrow> storage
     \<Rightarrow> (triggers \<times> storage) res" where
  "apply_changes f [] st = Inr (([], []), st)"
| "apply_changes f (c # cs) st =
     rbind (f c st) (\<lambda>((db1, ctx1), st1).
     rbind (apply_changes f cs st1) (\<lambda>((db2, ctx2), st2). Inr ((db1 @ db2, ctx1 @ ctx2), st2)))"

fun announce_triggers :: "session \<Rightarrow> group_trigger list \<Rightarrow> storage \<Rightarrow> storage res" where
  "announce_triggers session [] st = Inr st"
| "announce_triggers session (RecipientTrigger u # ts) st =
     rbind (opt_panic ''called `Option::unwrap()` on a `None` value'' (fetch_recipient (AciId u) st)) (\<lambda>r.
     announce_triggers session ts
       (emit (with_relation SubRecipients (RowId (r_id r)) (observe_update SubSessions (RowId (e_id session)))) st))"
| "announce_triggers session (_ # ts) st = announce_triggers session ts st"

record group_changes =
  gc_editor :: uuid
  gc_version :: nat
  gc_changes :: "group_change list"

text \<open>
  The handler of \<open>GroupV2Update\<close>, up to its result; \<open>group_updated_notifications\<close> is what it
  sends to itself afterwards.
\<close>

definition group_v2_update ::
  "((string \<times> string option) list \<Rightarrow> string) \<Rightarrow> (service_id \<Rightarrow> string) \<Rightarrow> (uuid \<Rightarrow> string)
     \<Rightarrow> (group_role \<Rightarrow> int) \<Rightarrow> (int \<Rightarrow> bool) \<Rightarrow> group_changes option \<Rightarrow> session \<Rightarrow> storage
     \<Rightarrow> ((group_trigger list \<times> service_message list) \<times> storage) res" where
  "group_v2_update json sid_text uuid_text role_number known_role changes session st =
     rbind (unwrap_group_v2 (e_type session)) (\<lambda>g.
     case changes of
       None \<Rightarrow> Inr (([], []), st)
     | Some ch \<Rightarrow>
         (let version = i32_of_u32 (gc_version ch);
              svc_messages = List.map_filter (\<lambda>c. map_option
                  (\<lambda>text. \<lparr> sv_message = text, sv_editor = gc_editor ch, sv_group_id = g2_id g \<rparr>)
                  (group_change_to_service_message_json json sid_text uuid_text c)) (gc_changes ch)
          in rbind (apply_changes (apply_change sid_text role_number known_role session
                      (g\<lparr>g2_revision := version\<rparr>)) (gc_changes ch) st) (\<lambda>((db_triggers, ctx_triggers), st1).
             rbind (announce_triggers session db_triggers st1) (\<lambda>st2.
             Inr ((if db_triggers \<noteq> [] \<and> ctx_triggers = [] then [RevisionTrigger] else ctx_triggers, svc_messages),
                  if db_triggers = [] then st2 else update_group_v2_revision g version st2)))))"

datatype notification =
    RequestGroupV2InfoBySessionId int
  | RefreshGroupAvatar string
  | GroupChangeServiceMessage service_message

definition group_updated_notifications ::
  "group_trigger list \<Rightarrow> int \<Rightarrow> service_message list \<Rightarrow> notification list" where
  "group_updated_notifications ctx_triggers sid svc_messages =
     (if ctx_triggers = [] then [RequestGroupV2InfoBySessionId sid]
      else List.map_filter (\<lambda>t. case t of AvatarTrigger gid \<Rightarrow> Some (RefreshGroupAvatar gid) | _ \<Rightarrow> None) ctx_triggers
           @ map GroupChangeServiceMessage svc_messages)"

section \<open>What the notifications do\<close>

text \<open>The group that is going to be fetched, if any.\<close>

definition request_group_v2_info :: "int \<Rightarrow> storage \<Rightarrow> group_v2 option res" where
  "request_group_v2_info sid st =
     rbind (fetch_session_by_id sid st) (\<lambda>so.
       Inr (case map_option e_type so of
              Some (GroupV2Type g) \<Rightarrow> if g2_terminated g then None else Some g
            | _ \<Rightarrow> None))"

definition publish_change :: "service_message \<Rightarrow> storage \<Rightarrow> storage res" where
  "publish_change ch st =
     rbind (fetch_session_by_group_v2_id (sv_group_id ch) st) (\<lambda>so.
       case so of
         None \<Rightarrow> Inr st
       | Some session \<Rightarrow>
           rbind (create_message ((new_incoming (now st))\<lparr>nm_source_addr := Some (AciId (sv_editor ch)),
                    nm_is_read := True, nm_message_type := Some GroupChange, nm_text := sv_message ch,
                    nm_session_id := e_id session\<rparr>) st) (\<lambda>(_, st'). Inr st'))"

end
