(* ===== verification/GroupRefresh.thy ===== *)
theory GroupRefresh
  imports GroupChanges
begin

text \<open>
  What the worker does when it has fetched a group from the server
  (\<open>whisperfish/src/worker/client/groupv2.rs\<close>, the handler of \<open>RequestGroupV2Info\<close>): it writes
  the attributes, makes sure there is a recipient for everybody, replaces the member list and the
  banned list by those of the server, and adds a message to the conversation.

  Fetching and decrypting are the service library's, so the decrypted group is an argument.  An
  error the code passes on with \<open>?\<close> ends the handler with a line in the log; what had been
  written stays, so an outcome is the error, if any, together with the state.
\<close>

section \<open>The decrypted group\<close>

record server_member =
  sm_aci :: uuid
  sm_role :: group_role
  sm_profile_key :: blob
  sm_joined_at_version :: nat
  sm_label :: "string option"
  sm_label_emoji :: "string option"

record access_control =
  ac_attributes :: int
  ac_members :: int
  ac_add_from_invite_link :: int
  ac_member_label :: int

record server_group =
  sg_title :: string
  sg_description_text :: "string option"
  sg_avatar :: string
  sg_timer :: "nat option"
  sg_access_control :: "access_control option"
  sg_version :: nat
  sg_members :: "server_member list"
  sg_members_pending_profile_key :: "service_id list"
  sg_members_pending_admin_approval :: "(uuid \<times> blob) list"
  sg_invite_link_password :: blob
  sg_announcements_only :: bool
  sg_members_banned :: "(service_id \<times> timestamp) list"

type_synonym outcome = "db_error option \<times> storage"

section \<open>Attributes and timer\<close>

definition write_group :: "server_group \<Rightarrow> access_control \<Rightarrow> string \<Rightarrow> storage \<Rightarrow> storage" where
  "write_group grp acl gid =
     update_group gid (\<lambda>g. g\<lparr>g2_name := sg_title grp, g2_description := sg_description_text grp,
       g2_avatar := (if sg_avatar grp = [] then None else Some (sg_avatar grp)),
       g2_revision := i32_of_u32 (sg_version grp),
       g2_invite_link_password := Some (sg_invite_link_password grp),
       g2_access_required_for_attributes := ac_attributes acl,
       g2_access_required_for_members := ac_members acl,
       g2_access_required_for_add_from_invite_link := ac_add_from_invite_link acl,
       g2_access_required_for_member_labels := ac_member_label acl,
       g2_announcement_only := sg_announcements_only grp\<rparr>)"

definition write_timer :: "server_group \<Rightarrow> string \<Rightarrow> storage \<Rightarrow> storage" where
  "write_timer grp gid =
     update_sessions (\<lambda>s. s_group_v2_id s = Some gid)
       (\<lambda>s. s\<lparr>s_expiring_message_timeout := map_option i32_of_u32 (sg_timer grp)\<rparr>)"

section \<open>Recipients for everybody\<close>

definition members_to_assert :: "server_group \<Rightarrow> (service_id \<times> blob option) list" where
  "members_to_assert grp =
     map (\<lambda>m. (AciId (sm_aci m), Some (sm_profile_key m))) (sg_members grp)
     @ map (\<lambda>sid. (sid, None)) (sg_members_pending_profile_key grp)
     @ map (\<lambda>(u, key). (AciId u, Some key)) (sg_members_pending_admin_approval grp)"

definition assert_member :: "service_id \<Rightarrow> blob option \<Rightarrow> storage \<Rightarrow> storage res" where
  "assert_member addr key st =
     (let (r, st1) = fetch_or_insert_recipient_by_address addr st in
      case key of
        None \<Rightarrow> Inr st1
      | Some k \<Rightarrow>
          rbind (update_profile_key 32 (r_e164 r) (to_service_address r) k Uncertain st1) (\<lambda>(_, st2). Inr st2))"

fun assert_members :: "(service_id \<times> blob option) list \<Rightarrow> storage \<Rightarrow> storage res" where
  "assert_members [] st = Inr st"
| "assert_members ((addr, key) # rest) st = rbind (assert_member addr key st) (assert_members rest)"

section \<open>The member list\<close>

text \<open>
  The condition of the query is that the ACI is none of the given ones, which SQL does not accept
  of a recipient without ACI, unless there are none.
\<close>

definition none_of_acis :: "uuid list \<Rightarrow> recipient \<Rightarrow> bool" where
  "none_of_acis acis r \<longleftrightarrow>
     acis = [] \<or> (case r_uuid r of None \<Rightarrow> False | Some u \<Rightarrow> u \<notin> set acis)"

definition stale_members :: "uuid list \<Rightarrow> string \<Rightarrow> storage \<Rightarrow> int list" where
  "stale_members acis gid st =
     map (\<lambda>(m, _). gm2_recipient_id m)
       (filter (\<lambda>(_, r). none_of_acis acis r)
         (List.map_filter (\<lambda>m. map_option (Pair m) (fetch_recipient_by_id (gm2_recipient_id m) st))
           (filter (\<lambda>m. gm2_group_v2_id m = gid) (group_v2_members (db st)))))"

definition drop_stale_members :: "uuid list \<Rightarrow> string \<Rightarrow> storage \<Rightarrow> storage res" where
  "drop_stale_members acis gid st =
     (let stale = stale_members acis gid st;
          P = (\<lambda>m. gm2_group_v2_id m = gid \<and> gm2_recipient_id m \<in> set stale);
          dropped = count_where P (group_v2_members (db st))
      in if length stale \<noteq> dropped then Inl (Panic ''didn't drop all stale members'')
         else Inr (emit_if (dropped > 0) (with_group gid (observe_delete SubGroupV2Members UnknownKey))
                (st\<lparr>db := (db st)\<lparr>group_v2_members := delete_where P (group_v2_members (db st))\<rparr>\<rparr>)))"

definition member_event :: "string \<Rightarrow> int \<Rightarrow> event \<Rightarrow> event" where
  "member_event gid rid ev = with_relation SubRecipients (RowId rid) (with_group gid ev)"

text \<open>\<open>member_since\<close> is left to its default, the current time in whole seconds.\<close>

definition upsert_member :: "(group_role \<Rightarrow> int) \<Rightarrow> string \<Rightarrow> server_member \<Rightarrow> storage \<Rightarrow> outcome" where
  "upsert_member role_number gid sm st =
     (let (r, st1) = fetch_or_insert_recipient_by_address (AciId (sm_aci sm)) st;
          P = member_key gid (r_id r); tab = group_v2_members (db st1) in
      if exists_where P tab
      then (None, emit (member_event gid (r_id r) (observe_update SubGroupV2Members UnknownKey))
             (st1\<lparr>db := (db st1)\<lparr>group_v2_members := update_where P
               (\<lambda>m. m\<lparr>gm2_role := role_number (sm_role sm), gm2_label := sm_label sm,
                      gm2_label_emoji := sm_label_emoji sm\<rparr>) tab\<rparr>\<rparr>))
      else if exists_where (\<lambda>x. r_id x = r_id r \<and> (r_uuid x = None \<or> r_profile_key x = None)) (recipients (db st1))
      then (Some TriggerAbort, st1)
      else if \<not> has_key g2_id gid (group_v2s (db st1)) then (Some ForeignKeyViolation, st1)
      else (None, emit (member_event gid (r_id r) (observe_insert SubGroupV2Members UnknownKey))
             (st1\<lparr>db := (db st1)\<lparr>group_v2_members := tab @
               [\<lparr> gm2_group_v2_id = gid, gm2_recipient_id = r_id r, gm2_member_since = now st1 div 1000 * 1000,
                  gm2_joined_at_revision = i32_of_u32 (sm_joined_at_version sm),
                  gm2_role = role_number (sm_role sm), gm2_label = sm_label sm,
                  gm2_label_emoji = sm_label_emoji sm \<rparr>]\<rparr>\<rparr>)))"

fun upsert_members :: "(group_role \<Rightarrow> int) \<Rightarrow> string \<Rightarrow> server_member list \<Rightarrow> storage \<Rightarrow> outcome" where
  "upsert_members role_number gid [] st = (None, st)"
| "upsert_members role_number gid (sm # sms) st =
     (case upsert_member role_number gid sm st of
        (Some e, st') \<Rightarrow> (Some e, st')
      | (None, st') \<Rightarrow> upsert_members role_number gid sms st')"

section \<open>The banned list\<close>

fun insert_banned :: "string \<Rightarrow> (service_id \<times> timestamp) list \<Rightarrow> group_v2_banned_member list \<Rightarrow> group_v2_banned_member list" where
  "insert_banned gid [] tab = tab"
| "insert_banned gid ((sid, ts) # rest) tab =
     insert_banned gid rest
       (if exists_where (banned_key gid sid) tab then tab
        else tab @ [\<lparr> gb_group_v2_id = gid, gb_service_id = sid, gb_banned_at = ts \<rparr>])"

text \<open>The transaction is rolled back when there is no such group.\<close>

definition replace_banned :: "string \<Rightarrow> (service_id \<times> timestamp) list \<Rightarrow> storage \<Rightarrow> outcome" where
  "replace_banned gid banned st =
     (if banned \<noteq> [] \<and> \<not> has_key g2_id gid (group_v2s (db st)) then (Some ForeignKeyViolation, st)
      else (None, st\<lparr>db := (db st)\<lparr>group_v2_banned_members := insert_banned gid banned
              (delete_where (\<lambda>m. gb_group_v2_id m = gid) (group_v2_banned_members (db st)))\<rparr>\<rparr>))"

section \<open>The handler\<close>

definition refresh_lists :: "(group_role \<Rightarrow> int) \<Rightarrow> string \<Rightarrow> server_group \<Rightarrow> storage \<Rightarrow> outcome res" where
  "refresh_lists role_number gid grp st =
     rbind (assert_members (members_to_assert grp) st) (\<lambda>st1.
     rbind (drop_stale_members (map sm_aci (sg_members grp)) gid st1) (\<lambda>st2.
     Inr (case upsert_members role_number gid (sg_members grp) st2 of
            (Some e, st3) \<Rightarrow> (Some e, st3)
          | (None, st3) \<Rightarrow> replace_banned gid (sg_members_banned grp) st3)))"

definition refresh_message :: "int \<Rightarrow> storage \<Rightarrow> new_message" where
  "refresh_message sid st =
     (new_outgoing (now st))\<lparr>nm_session_id := sid, nm_sent := True, nm_is_read := True,
       nm_message_type := Some GroupChange\<rparr>"

text \<open>The request for the avatar is sent in the middle; it only starts another fetch.\<close>

definition refresh_group_v2 ::
  "(group_role \<Rightarrow> int) \<Rightarrow> string \<Rightarrow> server_group \<Rightarrow> storage \<Rightarrow> (notification list \<times> outcome) res" where
  "refresh_group_v2 role_number gid grp st =
     rbind (opt_panic ''access control present in DecryptedGroup'' (sg_access_control grp)) (\<lambda>acl.
     let sent = (if sg_avatar grp = [] then [] else [RefreshGroupAvatar gid]);
         st1 = emit (group_updated gid) (write_timer grp gid (write_group grp acl gid st))
     in rbind (refresh_lists role_number gid grp st1) (\<lambda>(err, st2).
        if err \<noteq> None then Inr (sent, err, st2)
        else
          rbind (fetch_session_by_group_v2_id gid st2) (\<lambda>so.
          rbind (opt_panic ''called `Option::unwrap()` on a `None` value'' so) (\<lambda>session.
          rbind (create_message (refresh_message (e_id session) st2) st2) (\<lambda>(_, st3).
          Inr (sent, None, st3))))))"

end
