(* ===== verification/GroupChangeProps.thy ===== *)
theory GroupChangeProps
  imports GroupChanges GroupProps
begin

text \<open>
  The properties of group change messages: they keep the group tables sound, bring the group to
  the revision of the message and are published; a message that only ends the group is not, and
  changes about people that are not fully known panic.
\<close>

section \<open>The tables stay sound\<close>

lemma same_groups_timer: "same_groups (db st) (db (snd (update_expiration_timer s t v st)))"
  by (simp add: update_expiration_timer_def Let_def update_sessions_def same_groups_def)

lemma touched_state: "touched (r, st) = Inr (tr, st') \<Longrightarrow> st' = st"
  by (auto simp: touched_def rbind_eq_Inr split: option.splits)

lemma touched_snd: "touched p = Inr (tr, st') \<Longrightarrow> st' = snd p"
  using touched_state by (cases p) auto

lemma member_touched_snd: "member_touched p = Inr (tr, st') \<Longrightarrow> st' = snd p"
  using touched_snd by (fastforce simp: member_touched_def)

lemmas groups_advanced_ops =
  groups_advanced_revision groups_advanced_attributes groups_advanced_delete_member
  groups_advanced_update_member groups_advanced_add groups_advanced_ban groups_advanced_unban
  groups_advanced_key groups_advanced_complete groups_advanced_invite groups_advanced_uninvite
  groups_advanced_request groups_advanced_unrequest groups_advanced_promote groups_advanced_accept

lemma groups_advanced_change:
  assumes "apply_change sid_text role_number known_role s g c st = Inr (tr, st')"
  shows "groups_advanced (db st) (db st')"
  using assms
  by (cases c)
    (auto simp: revised_def rbind_eq_Inr update_group_v2_member_role_def update_group_v2_member_label_def
      groups_advanced_same[OF same_groups_timer] split: service_id.splits
      dest!: touched_snd member_touched_snd intro: groups_advanced_ops groups_advanced_same)

lemma apply_changes_Cons:
  assumes "apply_changes f (c # cs) st = Inr (tr, st')"
  obtains tr1 st1 tr2 where "f c st = Inr (tr1, st1)" and "apply_changes f cs st1 = Inr (tr2, st')"
    and "tr = (fst tr1 @ fst tr2, snd tr1 @ snd tr2)"
  using assms by (auto simp: rbind_eq_Inr)

lemma groups_advanced_changes:
  assumes "\<And>c st tr st'. f c st = Inr (tr, st') \<Longrightarrow> groups_advanced (db st) (db st')"
  shows "apply_changes f cs st = Inr (tr, st') \<Longrightarrow> groups_advanced (db st) (db st')"
proof (induction cs arbitrary: st tr)
  case (Cons c cs)
  then show ?case
    using assms by (blast elim: apply_changes_Cons intro: groups_advanced_trans)
qed (simp add: groups_advanced_same)

lemma announce_triggers_db: "announce_triggers s ts st = Inr st' \<Longrightarrow> db st' = db st"
  by (induction s ts st rule: announce_triggers.induct) (auto simp: rbind_eq_Inr)

text \<open>The parts of a run of the handler.\<close>

lemma group_v2_updateE:
  assumes "group_v2_update json sid_text uuid_text role_number known_role (Some ch) s st = Inr ((ctx, svc), st')"
  obtains g dbt ctx0 st1 st2 where "e_type s = GroupV2Type g"
    and "apply_changes (apply_change sid_text role_number known_role s
           (g\<lparr>g2_revision := i32_of_u32 (gc_version ch)\<rparr>)) (gc_changes ch) st = Inr ((dbt, ctx0), st1)"
    and "db st2 = db st1"
    and "svc = List.map_filter (\<lambda>c. map_option
           (\<lambda>text. \<lparr> sv_message = text, sv_editor = gc_editor ch, sv_group_id = g2_id g \<rparr>)
           (group_change_to_service_message_json json sid_text uuid_text c)) (gc_changes ch)"
    and "ctx = (if dbt \<noteq> [] \<and> ctx0 = [] then [RevisionTrigger] else ctx0)"
    and "st' = (if dbt = [] then st2 else update_group_v2_revision g (i32_of_u32 (gc_version ch)) st2)"
  using assms
  by (auto simp: group_v2_update_def unwrap_group_v2_def rbind_eq_Inr Let_def split: session_type.splits
      dest: announce_triggers_db)

lemma groups_advanced_handler:
  assumes "group_v2_update json sid_text uuid_text role_number known_role (Some ch) s st = Inr ((ctx, svc), st')"
  shows "groups_advanced (db st) (db st')"
  using assms
proof (rule group_v2_updateE)
  fix g dbt ctx0 st1 st2
  assume run: "apply_changes (apply_change sid_text role_number known_role s
      (g\<lparr>g2_revision := i32_of_u32 (gc_version ch)\<rparr>)) (gc_changes ch) st = Inr ((dbt, ctx0), st1)"
    and st2: "db st2 = db st1"
    and st': "st' = (if dbt = [] then st2 else update_group_v2_revision g (i32_of_u32 (gc_version ch)) st2)"
  have "groups_advanced (db st) (db st2)"
    using run by (simp add: st2 groups_advanced_changes[OF groups_advanced_change])
  moreover have "groups_advanced (db st2) (db st')"
    by (simp add: st' groups_advanced_revision groups_advanced_same)
  ultimately show ?thesis
    by (rule groups_advanced_trans)
qed

section \<open>The revision\<close>

definition always_triggers :: "group_change \<Rightarrow> bool" where
  "always_triggers c =
     (case c of AnnouncementOnly _ \<Rightarrow> True | AttributeAccess _ \<Rightarrow> True | Description _ \<Rightarrow> True
      | InviteLinkAccess _ \<Rightarrow> True | InviteLinkPassword _ \<Rightarrow> True | MemberAccess _ \<Rightarrow> True
      | NewPendingMember _ _ _ _ \<Rightarrow> True | Timer _ \<Rightarrow> True | Title _ \<Rightarrow> True | _ \<Rightarrow> False)"

lemma always_triggers_change:
  "always_triggers c \<Longrightarrow> apply_change sid_text role_number known_role s g c st = Inr (tr, st') \<Longrightarrow> fst tr \<noteq> []"
  by (cases c) (auto simp: always_triggers_def revised_def rbind_eq_Inr)

lemma always_triggers_changes:
  "apply_changes (apply_change sid_text role_number known_role s g) cs st = Inr (tr, st') \<Longrightarrow>
     \<exists>c\<in>set cs. always_triggers c \<Longrightarrow> fst tr \<noteq> []"
proof (induction cs arbitrary: st tr)
  case (Cons c cs)
  from Cons.prems(1) show ?case
  proof (rule apply_changes_Cons)
    fix tr1 st1 tr2
    assume c: "apply_change sid_text role_number known_role s g c st = Inr (tr1, st1)"
      and "apply_changes (apply_change sid_text role_number known_role s g) cs st1 = Inr (tr2, st')"
      and "tr = (fst tr1 @ fst tr2, snd tr1 @ snd tr2)"
    then show ?thesis
      using Cons.IH[of st1 tr2] Cons.prems(2) always_triggers_change[OF _ c] by auto
  qed
qed simp

lemma revision_reached:
  "g2_revision g < n \<Longrightarrow> x \<in> set (group_v2s (db (update_group_v2_revision g n st))) \<Longrightarrow> g2_id x = g2_id g \<Longrightarrow>
     n \<le> g2_revision x"
  by (auto simp: update_group_v2_revision_def Let_def set_update_where split: if_splits)

lemma update_reaches_revision:
  assumes "group_v2_update json sid_text uuid_text role_number known_role (Some ch) s st = Inr ((ctx, svc), st')"
    and "\<exists>c\<in>set (gc_changes ch). always_triggers c" and "e_type s = GroupV2Type g"
    and "g2_revision g < i32_of_u32 (gc_version ch)"
  shows "(\<forall>x\<in>set (group_v2s (db st')). g2_id x = g2_id g \<longrightarrow> i32_of_u32 (gc_version ch) \<le> g2_revision x)
         \<and> ctx \<noteq> []"
  using assms(1)
proof (rule group_v2_updateE)
  fix g' dbt ctx0 st1 st2
  assume g': "e_type s = GroupV2Type g'"
    and run: "apply_changes (apply_change sid_text role_number known_role s
      (g'\<lparr>g2_revision := i32_of_u32 (gc_version ch)\<rparr>)) (gc_changes ch) st = Inr ((dbt, ctx0), st1)"
    and ctx: "ctx = (if dbt \<noteq> [] \<and> ctx0 = [] then [RevisionTrigger] else ctx0)"
    and st': "st' = (if dbt = [] then st2 else update_group_v2_revision g' (i32_of_u32 (gc_version ch)) st2)"
  have "dbt \<noteq> []" "g' = g"
    using always_triggers_changes[OF run] assms(2,3) g' by simp_all
  then show ?thesis
    using assms(4) by (auto simp: ctx st' dest: revision_reached)
qed

section \<open>What is published\<close>

text \<open>The changes there is a message for: lifting a ban, withdrawals and new profile keys have none.\<close>

definition told :: "group_change \<Rightarrow> bool" where
  "told c =
     (case c of DeleteBannedMember _ \<Rightarrow> False | DeletePendingMember _ \<Rightarrow> False | DeleteRequestingMember _ \<Rightarrow> False
      | ModifyMemberProfileKey _ _ \<Rightarrow> False | PromotePendingPniAciMemberProfileKey _ _ _ \<Rightarrow> False | _ \<Rightarrow> True)"

lemma told_json:
  "group_change_to_service_message_json json sid_text uuid_text c
     = (if told c
        then (let m = change_message_of json sid_text uuid_text c in
              Some (json [(''change'', cm_change m), (''value'', cm_value m), (''aci'', cm_aci m), (''pni'', cm_pni m)]))
        else None)"
proof -
  have "cm_change (target_raw uuid_text sid m) = cm_change m" for sid m
    by (simp add: target_raw_def split: service_id.split)
  then show ?thesis
    by (cases c) (simp_all add: group_change_to_service_message_json_def told_def Let_def about_change_def no_message_def)
qed

definition is_avatar :: "group_change \<Rightarrow> bool" where
  "is_avatar c = (case c of Avatar _ \<Rightarrow> True | _ \<Rightarrow> False)"

lemma touched_ctx: "touched p = Inr (tr, st') \<Longrightarrow> snd tr = []"
  by (auto simp: touched_def rbind_eq_Inr split: prod.splits option.splits)

lemma avatar_trigger:
  assumes "apply_change sid_text role_number known_role s g c st = Inr (tr, st')"
  shows "snd tr = (if is_avatar c then [AvatarTrigger (g2_id g)] else [])"
  using assms
  by (cases c) (auto simp: is_avatar_def revised_def member_touched_def rbind_eq_Inr dest: touched_ctx split: prod.splits service_id.splits)

lemma avatar_triggers:
  "apply_changes (apply_change sid_text role_number known_role s g) cs st = Inr (tr, st') \<Longrightarrow>
     snd tr = map (\<lambda>_. AvatarTrigger (g2_id g)) (filter is_avatar cs)"
proof (induction cs arbitrary: st tr)
  case (Cons c cs)
  from Cons.prems show ?case
  proof (rule apply_changes_Cons)
    fix tr1 st1 tr2
    assume "apply_change sid_text role_number known_role s g c st = Inr (tr1, st1)"
      and "apply_changes (apply_change sid_text role_number known_role s g) cs st1 = Inr (tr2, st')"
      and "tr = (fst tr1 @ fst tr2, snd tr1 @ snd tr2)"
    then show ?thesis
      using Cons.IH[of st1 tr2] avatar_trigger by simp
  qed
qed simp

lemma avatars_only:
  "\<forall>c\<in>set cs. is_avatar c \<Longrightarrow> apply_changes (apply_change sid_text role_number known_role s g) cs st = Inr (tr, st') \<Longrightarrow>
     fst tr = [] \<and> map g2_revision (group_v2s (db st')) = map g2_revision (group_v2s (db st))"
proof (induction cs arbitrary: st tr)
  case (Cons c cs)
  from Cons.prems(2) show ?case
  proof (rule apply_changes_Cons)
    fix tr1 st1 tr2
    assume c: "apply_change sid_text role_number known_role s g c st = Inr (tr1, st1)"
      and cs: "apply_changes (apply_change sid_text role_number known_role s g) cs st1 = Inr (tr2, st')"
      and tr: "tr = (fst tr1 @ fst tr2, snd tr1 @ snd tr2)"
    have "map g2_revision (update_where P f tab) = map g2_revision tab"
      if "\<And>x. g2_revision (f x) = g2_revision x" for P f and tab :: "group_v2 list"
      using that by (induction tab) simp_all
    then have "fst tr1 = [] \<and> map g2_revision (group_v2s (db st1)) = map g2_revision (group_v2s (db st))"
      using c Cons.prems(1)
      by (cases c) (auto simp: is_avatar_def update_group_v2_avatar_def update_group_def)
    then show ?thesis
      using Cons.IH[OF _ cs] Cons.prems(1) tr by simp
  qed
qed simp

lemma handler_publishes:
  assumes run: "group_v2_update json sid_text uuid_text role_number known_role (Some ch) s st = Inr ((ctx, svc), st')"
    and g: "e_type s = GroupV2Type g"
  shows "svc = map (\<lambda>c. let m = change_message_of json sid_text uuid_text c in
           \<lparr> sv_message = json [(''change'', cm_change m), (''value'', cm_value m), (''aci'', cm_aci m), (''pni'', cm_pni m)],
             sv_editor = gc_editor ch, sv_group_id = g2_id g \<rparr>) (filter told (gc_changes ch))"
    and "\<exists>c\<in>set (gc_changes ch). always_triggers c \<or> is_avatar c \<Longrightarrow>
      group_updated_notifications ctx (e_id s) svc
        = map (\<lambda>_. RefreshGroupAvatar (g2_id g)) (filter is_avatar (gc_changes ch)) @ map GroupChangeServiceMessage svc"
    and "\<forall>c\<in>set (gc_changes ch). is_avatar c \<Longrightarrow> map g2_revision (group_v2s (db st')) = map g2_revision (group_v2s (db st))"
proof -
  obtain dbt ctx0 st1 st2 where
    run: "apply_changes (apply_change sid_text role_number known_role s
      (g\<lparr>g2_revision := i32_of_u32 (gc_version ch)\<rparr>)) (gc_changes ch) st = Inr ((dbt, ctx0), st1)"
    and st2: "db st2 = db st1"
    and svc: "svc = List.map_filter (\<lambda>c. map_option
           (\<lambda>text. \<lparr> sv_message = text, sv_editor = gc_editor ch, sv_group_id = g2_id g \<rparr>)
           (group_change_to_service_message_json json sid_text uuid_text c)) (gc_changes ch)"
    and ctx: "ctx = (if dbt \<noteq> [] \<and> ctx0 = [] then [RevisionTrigger] else ctx0)"
    and st': "st' = (if dbt = [] then st2 else update_group_v2_revision g (i32_of_u32 (gc_version ch)) st2)"
    using group_v2_updateE[OF run] g by (metis session_type.inject(3))
  have "List.map_filter (\<lambda>c. map_option f (group_change_to_service_message_json json sid_text uuid_text c)) cs
      = map (\<lambda>c. f (let m = change_message_of json sid_text uuid_text c in
          json [(''change'', cm_change m), (''value'', cm_value m), (''aci'', cm_aci m), (''pni'', cm_pni m)]))
        (filter told cs)" for f :: "string \<Rightarrow> service_message" and cs
    by (induction cs) (simp_all add: List.map_filter_simps told_json Let_def)
  then show "svc = map (\<lambda>c. let m = change_message_of json sid_text uuid_text c in
           \<lparr> sv_message = json [(''change'', cm_change m), (''value'', cm_value m), (''aci'', cm_aci m), (''pni'', cm_pni m)],
             sv_editor = gc_editor ch, sv_group_id = g2_id g \<rparr>) (filter told (gc_changes ch))"
    unfolding svc by (simp add: Let_def)
  have ctx0: "ctx0 = map (\<lambda>_. AvatarTrigger (g2_id g)) (filter is_avatar (gc_changes ch))"
    using avatar_triggers[OF run] by simp
  show "group_updated_notifications ctx (e_id s) svc
        = map (\<lambda>_. RefreshGroupAvatar (g2_id g)) (filter is_avatar (gc_changes ch)) @ map GroupChangeServiceMessage svc"
    if some: "\<exists>c\<in>set (gc_changes ch). always_triggers c \<or> is_avatar c"
  proof (cases "filter is_avatar (gc_changes ch) = []")
    case True
    then have "dbt \<noteq> []"
      using some always_triggers_changes[OF run] by (auto simp: filter_empty_conv)
    then show ?thesis
      using True by (simp add: ctx ctx0 group_updated_notifications_def List.map_filter_simps)
  next
    case False
    have "List.map_filter (\<lambda>t. case t of AvatarTrigger gid \<Rightarrow> Some (RefreshGroupAvatar gid) | _ \<Rightarrow> None)
        (map (\<lambda>_. AvatarTrigger (g2_id g)) xs) = map (\<lambda>_. RefreshGroupAvatar (g2_id g)) xs" for xs :: "group_change list"
      by (induction xs) (simp_all add: List.map_filter_simps)
    then show ?thesis
      using False by (simp add: ctx ctx0 group_updated_notifications_def)
  qed
  assume "\<forall>c\<in>set (gc_changes ch). is_avatar c"
  then show "map g2_revision (group_v2s (db st')) = map g2_revision (group_v2s (db st))"
    using avatars_only[OF _ run] by (simp add: st' st2)
qed

section \<open>A message that only ends the group\<close>

definition silent_change :: "group_change \<Rightarrow> bool" where
  "silent_change c = (case c of MemberLabelAccess _ \<Rightarrow> True | TerminateGroup \<Rightarrow> True | _ \<Rightarrow> False)"

lemma find_opt_None [simp]: "find_opt key None tab = None"
  by (simp add: find_opt_def)

lemma join_session_groupD:
  assumes "join_session d x = Inr s" and "e_type s = GroupV2Type g"
  shows "joined_recipient d x = None \<and> s_direct_message_recipient_id x = None
         \<and> find_opt g1_id (s_group_v1_id x) (group_v1s d) = None \<and> s_group_v1_id x = None
         \<and> find_opt g2_id (s_group_v2_id x) (group_v2s d) = Some g \<and> s_group_v2_id x \<noteq> None"
  using assms unfolding join_session_def
  by (auto simp: session_from_def rbind_eq_Inr split: option.splits if_splits)

lemma join_session_group:
  assumes join: "join_session d x = Inr s" and g: "e_type s = GroupV2Type g"
    and f: "\<And>y. g2_id (f y) = g2_id y"
  shows "\<exists>s'. join_session (d\<lparr>group_v2s := update_where (\<lambda>y. g2_id y = gid) f (group_v2s d)\<rparr>) x = Inr s'
           \<and> e_type s' = GroupV2Type (if g2_id g = gid then f g else g)"
proof -
  let ?d = "d\<lparr>group_v2s := update_where (\<lambda>y. g2_id y = gid) f (group_v2s d)\<rparr>"
  note D = join_session_groupD[OF join g]
  have "find_opt g2_id (s_group_v2_id x) (group_v2s ?d) = Some (if g2_id g = gid then f g else g)"
    using D f by (auto simp: find_opt_def first_where_update split: option.splits)
  moreover have "joined_recipient ?d x = None"
    using D by (simp add: joined_recipient_def)
  ultimately show ?thesis
    using D by (simp add: join_session_def session_from_def)
qed

lemma fetch_session_group:
  assumes "fetch_session_by_id sid st = Inr (Some s)" and "e_type s = GroupV2Type g"
    and "\<And>y. g2_id (f y) = g2_id y"
  shows "\<exists>s'. fetch_session_by_id sid (update_group gid f st) = Inr (Some s')
           \<and> e_type s' = GroupV2Type (if g2_id g = gid then f g else g)"
proof -
  obtain x where x: "first_where (\<lambda>s. s_id s = sid) (sessions (db st)) = Some x"
    and "join_session (db st) x = Inr s"
    using assms(1) by (auto simp: fetch_session_by_id_def fetch_session_where_def rbind_eq_Inr split: option.splits)
  then show ?thesis
    using join_session_group[of "db st" x s g f gid] assms(2,3)
    by (auto simp: fetch_session_by_id_def fetch_session_where_def update_group_def)
qed

lemma fetch_session_by_id_emit [simp]: "fetch_session_by_id sid (emit e st) = fetch_session_by_id sid st"
  by (simp add: fetch_session_by_id_def fetch_session_where_def cong: option.case_cong)

definition group_of_session :: "int \<Rightarrow> string \<Rightarrow> bool \<Rightarrow> storage \<Rightarrow> bool" where
  "group_of_session sid gid b st \<longleftrightarrow>
     (\<exists>s g. fetch_session_by_id sid st = Inr (Some s) \<and> e_type s = GroupV2Type g \<and> g2_id g = gid
            \<and> (b \<longrightarrow> g2_terminated g))"

lemma group_of_session_update:
  assumes "group_of_session sid gid b st" and "\<And>y. g2_id (f y) = g2_id y"
    and "\<And>y. (b \<longrightarrow> g2_terminated y) \<Longrightarrow> b' \<longrightarrow> g2_terminated (f y)"
  shows "group_of_session sid gid b' (update_group gid f st)"
proof -
  obtain s g where s: "fetch_session_by_id sid st = Inr (Some s)" and g: "e_type s = GroupV2Type g"
    and "g2_id g = gid" "b \<longrightarrow> g2_terminated g"
    using assms(1) by (auto simp: group_of_session_def)
  then show ?thesis
    using fetch_session_group[OF s g assms(2)] assms(2,3) by (force simp: group_of_session_def)
qed

lemma silent_change_step:
  assumes "silent_change c" and "apply_change sid_text role_number known_role s g c st = Inr (tr, st')"
    and "group_of_session sid (g2_id g) b st"
  shows "tr = ([], []) \<and> messages (db st') = messages (db st)
         \<and> map g2_revision (group_v2s (db st')) = map g2_revision (group_v2s (db st))
         \<and> group_of_session sid (g2_id g) (b \<or> TerminateGroup = c) st'"
proof -
  have frame: "messages (db (update_group gid f st)) = messages (db st)"
    "map g2_revision (group_v2s (db (update_group gid f st))) = map g2_revision (group_v2s (db st))"
    if "\<And>y. g2_revision (f y) = g2_revision y" for gid f
    using that by (simp_all add: update_group_def map_update_where_frame)
  show ?thesis
  proof (cases c)
    case (MemberLabelAccess a)
    then show ?thesis
      using assms(2) group_of_session_update[OF assms(3), of "\<lambda>x. x\<lparr>g2_access_required_for_member_labels :=
          i32_from_access_required a\<rparr>" b]
      by (auto simp: update_group_v2_member_label_access_def frame group_of_session_def)
  next
    case TerminateGroup
    then show ?thesis
      using assms(2) group_of_session_update[OF assms(3), of "\<lambda>x. x\<lparr>g2_terminated := True\<rparr>" True]
      by (auto simp: terminate_group_v2_def frame group_of_session_def)
  qed (use assms(1) in \<open>simp_all add: silent_change_def\<close>)
qed

lemma silent_changes_steps:
  assumes "\<forall>c\<in>set cs. silent_change c"
    and "apply_changes (apply_change sid_text role_number known_role s g) cs st = Inr (tr, st')"
    and "group_of_session sid (g2_id g) b st"
  shows "tr = ([], []) \<and> messages (db st') = messages (db st)
         \<and> map g2_revision (group_v2s (db st')) = map g2_revision (group_v2s (db st))
         \<and> group_of_session sid (g2_id g) (b \<or> TerminateGroup \<in> set cs) st'"
  using assms
proof (induction cs arbitrary: st tr b)
  case (Cons c cs)
  from Cons.prems(2) show ?case
  proof (rule apply_changes_Cons)
    fix tr1 st1 tr2
    assume c: "apply_change sid_text role_number known_role s g c st = Inr (tr1, st1)"
      and cs: "apply_changes (apply_change sid_text role_number known_role s g) cs st1 = Inr (tr2, st')"
      and tr: "tr = (fst tr1 @ fst tr2, snd tr1 @ snd tr2)"
    have one: "tr1 = ([], []) \<and> messages (db st1) = messages (db st)
         \<and> map g2_revision (group_v2s (db st1)) = map g2_revision (group_v2s (db st))
         \<and> group_of_session sid (g2_id g) (b \<or> TerminateGroup = c) st1"
      using Cons.prems(1) by (intro silent_change_step[OF _ c Cons.prems(3)]) simp
    then show ?thesis
      using Cons.IH[OF _ cs, of "b \<or> TerminateGroup = c"] Cons.prems(1) tr
      by (simp add: disj_assoc)
  qed
qed simp

lemma silent_update:
  assumes run: "group_v2_update json sid_text uuid_text role_number known_role (Some ch) s st = Inr ((ctx, svc), st')"
    and silent: "\<forall>c\<in>set (gc_changes ch). silent_change c" and "TerminateGroup \<in> set (gc_changes ch)"
    and fetch: "fetch_session_by_id (e_id s) st = Inr (Some s)"
  shows "group_updated_notifications ctx (e_id s) svc = [RequestGroupV2InfoBySessionId (e_id s)]
         \<and> request_group_v2_info (e_id s) st' = Inr None \<and> messages (db st') = messages (db st)
         \<and> map g2_revision (group_v2s (db st')) = map g2_revision (group_v2s (db st))"
  using run
proof (rule group_v2_updateE)
  fix g :: group_v2 and dbt ctx0 st1 st2
  let ?g = "g\<lparr>g2_revision := i32_of_u32 (gc_version ch)\<rparr>"
  assume g: "e_type s = GroupV2Type g"
    and changes: "apply_changes (apply_change sid_text role_number known_role s ?g) (gc_changes ch) st
        = Inr ((dbt, ctx0), st1)"
    and st2: "db st2 = db st1" and ctx: "ctx = (if dbt \<noteq> [] \<and> ctx0 = [] then [RevisionTrigger] else ctx0)"
    and st': "st' = (if dbt = [] then st2 else update_group_v2_revision g (i32_of_u32 (gc_version ch)) st2)"
  have "group_of_session (e_id s) (g2_id ?g) False st"
    using fetch g by (simp add: group_of_session_def)
  from silent_changes_steps[OF silent changes this] assms(3)
  have steps: "dbt = []" "ctx0 = []" "messages (db st1) = messages (db st)"
    "map g2_revision (group_v2s (db st1)) = map g2_revision (group_v2s (db st))"
    "group_of_session (e_id s) (g2_id g) True st1"
    by simp_all
  have "fetch_session_by_id (e_id s) st' = fetch_session_by_id (e_id s) st1"
    by (simp add: st' steps st2 fetch_session_by_id_def fetch_session_where_def cong: option.case_cong)
  then show ?thesis
    using steps
    by (auto simp: ctx st' st2 group_updated_notifications_def request_group_v2_info_def group_of_session_def)
qed

section \<open>People that are not fully known\<close>

lemma label_of_unknown:
  assumes "e_type s = GroupV2Type g" and "fetch_recipient (AciId u) st = None"
    and "gc_changes ch = [MemberLabel (AciId u) emoji label]"
  shows "group_v2_update json sid_text uuid_text role_number known_role (Some ch) s st
           = Inl (Panic ''called `Option::unwrap()` on a `None` value'')"
  using assms
  by (simp add: group_v2_update_def unwrap_group_v2_def Let_def update_group_v2_member_label_def
      update_group_v2_member_def)

lemma touched_without_aci:
  "fst p = Some r \<Longrightarrow> r_uuid r = None \<Longrightarrow>
     touched p = Inl (Panic ''called `Option::unwrap()` on a `None` value'')"
  by (cases p) (simp add: touched_def)

lemma uninvite_without_aci:
  assumes "e_type s = GroupV2Type g" and "fetch_pending (g2_id g) (PniId p) st \<noteq> None"
    and "fetch_recipient (PniId p) st = Some r" and "r_uuid r = None"
    and "gc_changes ch = [DeletePendingMember (PniId p)]"
  shows "group_v2_update json sid_text uuid_text role_number known_role (Some ch) s st
           = Inl (Panic ''called `Option::unwrap()` on a `None` value'')"
proof -
  obtain m where m: "fetch_pending (g2_id g) (PniId p) st = Some m"
    using assms(2) by auto
  then have "m \<in> set (filter (pending_key (g2_id g) (PniId p)) (group_v2_pending_members (db st)))"
    by (auto simp: fetch_pending_last dest: last_option_SomeD)
  moreover have "gp_service_id m = PniId p"
    using fetch_pending_SomeD[OF m] by (simp add: pending_key_def)
  ultimately have "count_where (pending_key (g2_id g) (gp_service_id m)) (group_v2_pending_members (db st)) \<noteq> 0"
    by (auto simp: count_where_def filter_empty_conv)
  then have "fst (delete_group_v2_pending_member sid_text (g\<lparr>g2_revision := v\<rparr>) (PniId p) st) = Some r" for v
    using m assms(3) by (simp add: delete_group_v2_pending_member_def Let_def fetch_recipient_def)
  then have "touched (delete_group_v2_pending_member sid_text (g\<lparr>g2_revision := v\<rparr>) (PniId p) st)
      = Inl (Panic ''called `Option::unwrap()` on a `None` value'')" for v
    using assms(4) by (rule touched_without_aci)
  then show ?thesis
    using assms(1,5) by (simp add: group_v2_update_def unwrap_group_v2_def Let_def)
qed

section \<open>Properties\<close>

definition group_row :: db_session where
  "group_row = \<lparr> s_id = 1, s_direct_message_recipient_id = None, s_group_v1_id = None, s_group_v2_id = Some ''G'',
     s_is_archived = False, s_is_pinned = False, s_is_silent = False, s_is_muted = False, s_draft = None,
     s_expiring_message_timeout = None, s_expire_timer_version = 1 \<rparr>"

definition demo_session :: session where
  "demo_session = \<lparr> e_id = 1, e_is_archived = False, e_is_pinned = False, e_is_silent = False, e_is_muted = False,
     e_expiring_message_timeout = None, e_expire_timer_version = 1, e_draft = None, e_type = GroupV2Type demo_group \<rparr>"

definition changes_demo :: storage where
  "changes_demo = group_demo\<lparr>db := (db group_demo)\<lparr>sessions := [group_row]\<rparr>\<rparr>"

definition demo_json :: "(string \<times> string option) list \<Rightarrow> string" where
  "demo_json kvs = concat (map (\<lambda>(k, v). k @ (case v of None \<Rightarrow> [] | Some x \<Rightarrow> x)) kvs)"

definition demo_update :: "nat \<Rightarrow> group_change list \<Rightarrow>
    ((group_trigger list \<times> service_message list) \<times> storage) res" where
  "demo_update version cs = group_v2_update demo_json print_id (\<lambda>_. ''u'') (\<lambda>_. 1) (\<lambda>_. True)
     (Some \<lparr> gc_editor = 7, gc_version = version, gc_changes = cs \<rparr>) demo_session changes_demo"

text \<open>
  C10. Group change messages.  When the handler of a message returns, the group tables are as
  sound as before and no group went back or was revived, whatever the changes.  The messages it makes
  are those of the changes in their order, lifted bans, withdrawals and new profile keys left out.  If one
  of the changes is an attribute other than the avatar and the access to labels, the timer or an
  invitation, and the message has a higher revision than the session's group, the group has reached
  it.  With such a change or an avatar among them, all the messages are published, after one refresh
  for each avatar, instead of fetching the whole group; but when all are avatars, every group keeps
  its revision.
\<close>

theorem group_update_applied:
  assumes "group_v2_update json sid_text uuid_text role_number known_role (Some ch) s st = Inr ((ctx, svc), st')"
    and "e_type s = GroupV2Type g" and "groups_sound (db st)"
  shows "groups_sound (db st') \<and> list_all2 advanced (group_v2s (db st)) (group_v2s (db st'))
    \<and> svc = map (\<lambda>c. let m = change_message_of json sid_text uuid_text c in
           \<lparr> sv_message = json [(''change'', cm_change m), (''value'', cm_value m), (''aci'', cm_aci m), (''pni'', cm_pni m)],
             sv_editor = gc_editor ch, sv_group_id = g2_id g \<rparr>) (filter told (gc_changes ch))
    \<and> ((\<exists>c\<in>set (gc_changes ch). always_triggers c) \<and> g2_revision g < i32_of_u32 (gc_version ch) \<longrightarrow>
         (\<forall>x\<in>set (group_v2s (db st')). g2_id x = g2_id g \<longrightarrow> i32_of_u32 (gc_version ch) \<le> g2_revision x))
    \<and> ((\<exists>c\<in>set (gc_changes ch). always_triggers c \<or> is_avatar c) \<longrightarrow>
         group_updated_notifications ctx (e_id s) svc
           = map (\<lambda>_. RefreshGroupAvatar (g2_id g)) (filter is_avatar (gc_changes ch)) @ map GroupChangeServiceMessage svc)
    \<and> ((\<forall>c\<in>set (gc_changes ch). is_avatar c) \<longrightarrow>
         map g2_revision (group_v2s (db st')) = map g2_revision (group_v2s (db st)))"
proof -
  note advanced = groups_advanced_handler[OF assms(1)] and revision = update_reaches_revision[OF assms(1) _ assms(2)]
    and published = handler_publishes[OF assms(1,2)]
  show ?thesis
    using advanced assms(3) revision published unfolding groups_advanced_def by (intro conjI impI) (blast | simp)+
qed

theorem group_update_applied_witness:
  "\<exists>svc st'. demo_update 5 [Title ''new'', PromotePendingMember (AciId 8) (replicate 32 1)]
      = Inr (([RevisionTrigger], svc), st') \<and> length svc = 2
     \<and> group_updated_notifications [RevisionTrigger] 1 svc = map GroupChangeServiceMessage svc
     \<and> (\<forall>x\<in>set (group_v2s (db st')). g2_id x = ''G'' \<longrightarrow> 5 \<le> g2_revision x)"
proof -
  let ?ch = "\<lparr> gc_editor = 7, gc_version = 5, gc_changes = [Title ''new'', PromotePendingMember (AciId 8) (replicate 32 1)] \<rparr>"
  have "case demo_update 5 (gc_changes ?ch) of Inr ((ctx, svc), st') \<Rightarrow> ctx = [RevisionTrigger] | Inl _ \<Rightarrow> False"
    by code_simp
  then obtain svc st' where run: "demo_update 5 (gc_changes ?ch) = Inr (([RevisionTrigger], svc), st')"
    by (auto split: sum.splits)
  have "e_type demo_session = GroupV2Type demo_group" "g2_id demo_group = ''G''" "e_id demo_session = 1"
    by (simp_all add: demo_session_def demo_group_def)
  moreover have "filter told (gc_changes ?ch) = gc_changes ?ch" "filter is_avatar (gc_changes ?ch) = []"
    by (simp_all add: told_def is_avatar_def)
  moreover have "groups_sound (db changes_demo)" "g2_revision demo_group < i32_of_u32 5" "i32_of_u32 5 = 5"
    by code_simp+
  moreover have "\<exists>c\<in>set (gc_changes ?ch). always_triggers c"
    by (simp add: always_triggers_def)
  ultimately show ?thesis
    using group_update_applied[OF run[unfolded demo_update_def group_changes.simps]] run by (auto simp: Let_def)
qed

text \<open>
  Ending a group silently.  A message that only ends the group, or also changes who may set
  labels, leaves no trigger: its messages are not published but the whole group is requested, and
  that request is dropped, because the group has just been marked as terminated.  So no message
  tells that the group ended, and its revision stays behind.
\<close>

theorem termination_not_shown:
  assumes "group_v2_update json sid_text uuid_text role_number known_role (Some ch) s st = Inr ((ctx, svc), st')"
    and "\<forall>c\<in>set (gc_changes ch). silent_change c" and "TerminateGroup \<in> set (gc_changes ch)"
    and "fetch_session_by_id (e_id s) st = Inr (Some s)"
  shows "group_updated_notifications ctx (e_id s) svc = [RequestGroupV2InfoBySessionId (e_id s)]
         \<and> request_group_v2_info (e_id s) st' = Inr None \<and> messages (db st') = messages (db st)
         \<and> map g2_revision (group_v2s (db st')) = map g2_revision (group_v2s (db st))"
  using assms by (rule silent_update)

theorem termination_not_shown_witness:
  "\<exists>ctx svc st'. demo_update 5 [TerminateGroup] = Inr ((ctx, svc), st') \<and> length svc = 1
     \<and> group_updated_notifications ctx 1 svc = [RequestGroupV2InfoBySessionId 1]
     \<and> request_group_v2_info 1 st' = Inr None"
proof -
  let ?ch = "\<lparr> gc_editor = 7, gc_version = 5, gc_changes = [TerminateGroup] \<rparr>"
  have "case demo_update 5 [TerminateGroup] of Inr ((ctx, svc), st') \<Rightarrow> length svc = 1 | Inl _ \<Rightarrow> False"
    by code_simp
  then obtain ctx svc st' where run: "demo_update 5 (gc_changes ?ch) = Inr ((ctx, svc), st')" and "length svc = 1"
    by (auto split: sum.splits)
  moreover have "fetch_session_by_id 1 changes_demo = Inr (Some demo_session)"
    by code_simp
  moreover have "e_id demo_session = 1"
    by (simp add: demo_session_def)
  ultimately show ?thesis
    using termination_not_shown[OF run[unfolded demo_update_def group_changes.simps]]
    by (auto simp: silent_change_def)
qed

text \<open>
  People that are not fully known.  A message that sets the label of somebody the store has
  no recipient for panics; so does one that takes back an invitation by PNI of a recipient whose
  ACI is not known.
\<close>

theorem group_update_panics:
  assumes "e_type s = GroupV2Type g"
  shows "(gc_changes ch = [MemberLabel (AciId u) emoji label] \<and> fetch_recipient (AciId u) st = None \<longrightarrow>
      group_v2_update json sid_text uuid_text role_number known_role (Some ch) s st
        = Inl (Panic ''called `Option::unwrap()` on a `None` value''))
    \<and> (gc_changes ch = [DeletePendingMember (PniId p)] \<and> fetch_pending (g2_id g) (PniId p) st \<noteq> None
       \<and> fetch_recipient (PniId p) st = Some r \<and> r_uuid r = None \<longrightarrow>
      group_v2_update json sid_text uuid_text role_number known_role (Some ch) s st
        = Inl (Panic ''called `Option::unwrap()` on a `None` value''))"
  using label_of_unknown[OF assms] uninvite_without_aci[OF assms] by blast

theorem group_update_panics_witness:
  "demo_update 5 [MemberLabel (AciId 77) None (Some ''chair'')]
     = Inl (Panic ''called `Option::unwrap()` on a `None` value'')
   \<and> demo_update 5 [DeletePendingMember (PniId 9)] = Inl (Panic ''called `Option::unwrap()` on a `None` value'')"
proof -
  have s: "e_type demo_session = GroupV2Type demo_group"
    by (simp add: demo_session_def)
  have "fetch_recipient (AciId 77) changes_demo = None" "fetch_pending (g2_id demo_group) (PniId 9) changes_demo \<noteq> None"
    "fetch_recipient (PniId 9) changes_demo = Some (with_r_id 3 (new_recipient None (Some 9) None))"
    "r_uuid (with_r_id 3 (new_recipient None (Some 9) None)) = None"
    by code_simp+
  then show ?thesis
    using group_update_panics[OF s, where u = 77 and emoji = None and label = "Some ''chair''" and st = changes_demo
        and ch = "\<lparr> gc_editor = 7, gc_version = 5, gc_changes = [MemberLabel (AciId 77) None (Some ''chair'')] \<rparr>"]
      group_update_panics[OF s, where p = 9 and r = "with_r_id 3 (new_recipient None (Some 9) None)" and st = changes_demo
        and ch = "\<lparr> gc_editor = 7, gc_version = 5, gc_changes = [DeletePendingMember (PniId 9)] \<rparr>"]
    by (simp add: demo_update_def)
qed

end
