(* ===== verification/GroupRefreshProps.thy ===== *)
theory GroupRefreshProps
  imports GroupRefresh GroupChangeProps
begin

text \<open>
  After a refresh the members of a group are those of the server, whoever was a member before;
  what a refresh does not bring up to date is stated as well.
\<close>

section \<open>Recipients that are known already\<close>

text \<open>
  Looking a recipient up by its own phone number and ACI finds it and merges nothing.
\<close>

lemma first_where_unique_value:
  "unique_values col tab \<Longrightarrow> r \<in> set tab \<Longrightarrow> col r = Some k \<Longrightarrow> first_where (\<lambda>x. col x = Some k) tab = Some r"
  by (induction tab) (auto split: option.splits)

lemma merge_same_row:
  assumes wf: "recipients_wf (recipients d)" and r: "r \<in> set (recipients d)" and u: "r_uuid r = Some u"
  shows "merge_and_fetch_recipient_inner d (r_e164 r) (Some u) None trust cs = Inr ((r_id r, False), d)"
proof -
  have "find_by r_uuid (Some u) d = Some r"
    using wf r u by (simp add: first_where_unique_value recipients_wfD)
  moreover have "find_by r_e164 (r_e164 r) d = (if r_e164 r = None then None else Some r)"
    using wf r by (cases "r_e164 r") (simp_all add: first_where_unique_value recipients_wfD)
  ultimately have "fetch_separate_recipients d (Some u) None (r_e164 r)
      = \<lparr> by_aci = Some r, by_e164 = (if r_e164 r = None then None else Some r), by_pni = None \<rparr>"
    by (simp add: fetch_separate_recipients_def del: find_by_Some)
  then show ?thesis
    by (cases "r_e164 r")
      (simp_all add: merge_and_fetch_recipient_inner_def Let_def found_recipients_def List.map_filter_simps
        common_recipient_def by_all_def criteria_count_def)
qed

lemma merge_same_row_storage:
  assumes "recipients_wf (recipients (db st))" and "r \<in> set (recipients (db st))" and "r_uuid r = Some u"
    and "merge_and_fetch_recipient_by_address (r_e164 r) (AciId u) trust st = Inr (x, st')"
  shows "x = r \<and> st' = st"
proof -
  have "fetch_recipient_by_id (r_id r) st = Some r"
    using assms(1,2) by (simp add: fetch_by_id_row recipient_row_in)
  then show ?thesis
    using assms(4) merge_same_row[OF assms(1-3)]
    by (auto simp: merge_and_fetch_recipient_by_address_def merge_and_fetch_recipient_def
        merge_in_transaction_def transaction_eq_Inr rbind_eq_Inr emit_if_def)
qed

text \<open>The self recipient is cached, and is the row of the ACI of the account.\<close>

definition cached :: "storage \<Rightarrow> bool" where
  "cached st \<longleftrightarrow> self_ok st \<and> self_recipient st \<noteq> None"

lemma cachedD: "cached st \<Longrightarrow> recipients_wf (recipients (db st))"
  by (simp add: cached_def self_ok_def)

lemma cached_fetch_or_insert:
  assumes ok: "cached st" and run: "fetch_or_insert_recipient_by_address addr st = (r, st')"
  shows "cached st'" "r \<in> set (recipients (db st'))" "has_service_id addr r"
    "set (aci_rows st) \<subseteq> set (aci_rows st')"
proof -
  note wf' = fetch_or_insert_wf[OF cachedD[OF ok] run]
  have *: "cached st' \<and> r \<in> set (recipients (db st')) \<and> has_service_id addr r
      \<and> set (aci_rows st) \<subseteq> set (aci_rows st')"
  proof (cases "fetch_recipient addr st")
    case None
    then obtain a p where "insert_recipient a p None st = (r, st')" "has_service_id addr (with_r_id 0 (new_recipient a p None))"
      using run by (auto simp: fetch_or_insert_recipient_by_address_def has_service_id_def split: service_id.splits)
    then have "recipients (db st') = recipients (db st) @ [r]" "conf st' = conf st" "has_service_id addr r"
      by (auto simp: insert_recipient_def Let_def insert_row_def has_service_id_def split: service_id.splits)
    then show ?thesis
      using ok wf' self_ok_insert[of st st' r] by (auto simp: cached_def aci_rows_def)
  next
    case (Some x)
    then have "x \<in> set (recipients (db st))" "has_service_id addr x"
      by (auto simp: fetch_recipient_def dest: first_where_SomeD)
    then show ?thesis
      using ok run Some by (simp add: fetch_or_insert_recipient_by_address_def)
  qed
  then show "cached st'" "r \<in> set (recipients (db st'))" "has_service_id addr r"
    "set (aci_rows st) \<subseteq> set (aci_rows st')"
    by simp_all
qed

lemma cached_write_key:
  assumes ok: "cached st" and r: "r \<in> set (recipients (db st))" and other: "r_uuid r \<noteq> cfg_aci (conf st)"
  shows "cached (write_profile_key r k st)" "cached (refresh_access_mode r st)"
proof -
  have not_self: "x \<in> set (recipients (db st)) \<Longrightarrow> r_id x = r_id r \<Longrightarrow> r_uuid x \<noteq> cfg_aci (conf st)" for x
    using distinct_keys_inj[OF recipients_wfD(1)[OF cachedD[OF ok]] _ r] other by blast
  have upd: "self_ok (update_recipients P f st)"
    if "uniques_kept f" "\<And>x. P x \<Longrightarrow> r_id x = r_id r" for P f
    using self_ok_update[of st f P False] ok not_self that
    by (auto simp: cached_def invalidate_if_def)
  have key: "uniques_kept (\<lambda>r. r\<lparr>r_profile_key := Some k, r_unidentified_access_mode := UAUnknown\<rparr>)"
    and mode: "uniques_kept (\<lambda>r. r\<lparr>r_unidentified_access_mode := UAUnknown\<rparr>)"
    by (simp_all add: uniques_kept_def)
  show "cached (write_profile_key r k st)"
    using ok other upd[OF key, of "\<lambda>x. r_id x = r_id r \<and> (r_profile_key x \<noteq> Some k
        \<or> r_unidentified_access_mode x \<noteq> UAUnknown)"]
    by (simp add: cached_def write_profile_key_def Let_def invalidate_if_def)
  show "cached (refresh_access_mode r st)"
    using ok upd[OF mode, of "\<lambda>x. r_id x = r_id r \<and> r_unidentified_access_mode x \<noteq> UAUnknown"]
    by (simp add: cached_def refresh_access_mode_def)
qed

lemma cached_profile_key:
  assumes ok: "cached st" and r: "r \<in> set (recipients (db st))" and u: "r_uuid r = Some u"
    and run: "update_profile_key n (r_e164 r) (Some (AciId u)) k Uncertain st = Inr (x, st')"
  shows "cached st' \<and> aci_rows st' = aci_rows st"
proof -
  obtain self where self: "self_recipient st = Some self" "r_uuid self = cfg_aci (conf st)"
    using ok by (auto simp: cached_def self_ok_def cache_current_def split: option.splits)
  have m: "merge_and_fetch_recipient_by_address (r_e164 r) (AciId u) Uncertain st = Inr (r, st)"
    using run merge_same_row_storage[OF cachedD[OF ok] r u] by (auto simp: update_profile_key_def rbind_eq_Inr)
  have f: "fetch_self_recipient st = Inr (Some self, st)"
    by (simp add: fetch_self_recipient_def self)
  show ?thesis
  proof (cases "r_uuid r = cfg_aci (conf st)")
    case True
    then show ?thesis
      using run ok self u by (simp add: update_profile_key_def m f)
  next
    case False
    then show ?thesis
      using run ok self u cached_write_key[OF ok r]
      by (auto simp: update_profile_key_def m f Let_def rbind_eq_Inr invalidate_if_def split: if_splits)
  qed
qed

section \<open>Asserting the members\<close>

definition known_acis :: "storage \<Rightarrow> uuid set" where
  "known_acis st = {u. \<exists>i. (i, Some u) \<in> set (aci_rows st)}"

lemma assert_member_known:
  assumes ok: "cached st" and key: "key \<noteq> None \<Longrightarrow> \<exists>u. addr = AciId u"
    and run: "assert_member addr key st = Inr st'"
  shows "cached st' \<and> set (aci_rows st) \<subseteq> set (aci_rows st') \<and> same_groups (db st) (db st')
         \<and> (\<forall>u. addr = AciId u \<longrightarrow> u \<in> known_acis st')"
proof -
  obtain r st1 where ins: "fetch_or_insert_recipient_by_address addr st = (r, st1)"
    by fastforce
  note one = cached_fetch_or_insert[OF ok ins] same_groups_fetch_or_insert[OF ins]
  have known: "u \<in> known_acis st1" if "addr = AciId u" for u
    using one(2,3) that by (auto simp: known_acis_def aci_rows_iff has_service_id_def)
  show ?thesis
  proof (cases key)
    case None
    then show ?thesis
      using run ins one known by (simp add: assert_member_def)
  next
    case (Some k)
    then obtain u where u: "addr = AciId u"
      using key by blast
    then have ru: "r_uuid r = Some u"
      using one(3) by (simp add: has_service_id_def)
    obtain x c where "update_profile_key 32 (r_e164 r) (Some (AciId u)) k Uncertain st1 = Inr ((x, c), st')"
      using run Some ins ru by (auto simp: assert_member_def to_service_address_def rbind_eq_Inr)
    then have "cached st'" "aci_rows st' = aci_rows st1" "same_groups (db st1) (db st')"
      using cached_profile_key[OF one(1,2) ru] same_groups_profile_key by blast+
    then show ?thesis
      using one(4,5) known by (auto simp: known_acis_def intro: same_groups_trans)
  qed
qed

lemma assert_members_known:
  "cached st \<Longrightarrow> \<forall>(a, k)\<in>set l. k \<noteq> None \<longrightarrow> (\<exists>u. a = AciId u) \<Longrightarrow> assert_members l st = Inr st' \<Longrightarrow>
     cached st' \<and> set (aci_rows st) \<subseteq> set (aci_rows st') \<and> same_groups (db st) (db st')
     \<and> (\<forall>u k. (AciId u, k) \<in> set l \<longrightarrow> u \<in> known_acis st')"
proof (induction l arbitrary: st)
  case (Cons x l)
  obtain addr key where x: "x = (addr, key)"
    by fastforce
  then obtain st1 where first: "assert_member addr key st = Inr st1" and rest: "assert_members l st1 = Inr st'"
    using Cons.prems(3) by (auto simp: rbind_eq_Inr)
  have one: "cached st1 \<and> set (aci_rows st) \<subseteq> set (aci_rows st1) \<and> same_groups (db st) (db st1)
         \<and> (\<forall>u. addr = AciId u \<longrightarrow> u \<in> known_acis st1)"
    using Cons.prems(2) by (intro assert_member_known[OF Cons.prems(1) _ first]) (auto simp: x)
  have two: "cached st' \<and> set (aci_rows st1) \<subseteq> set (aci_rows st') \<and> same_groups (db st1) (db st')
     \<and> (\<forall>u k. (AciId u, k) \<in> set l \<longrightarrow> u \<in> known_acis st')"
    using one Cons.prems(2) rest by (intro Cons.IH) auto
  have "known_acis st1 \<subseteq> known_acis st'"
    using two by (auto simp: known_acis_def)
  then show ?case
    using one two by (auto simp: x intro: same_groups_trans)
qed simp

section \<open>The member list\<close>

lemma aci_rows_cong: "recipients (db st') = recipients (db st) \<Longrightarrow> aci_rows st' = aci_rows st"
  by (simp add: aci_rows_def)

lemma aci_rows_functional:
  assumes "cached st" and "(i, v) \<in> set (aci_rows st)" and "(i, w) \<in> set (aci_rows st)"
  shows "v = w"
proof -
  have "distinct (map fst (aci_rows st))"
    using cachedD[OF assms(1)] by (simp add: recipients_wf_def distinct_keys_def aci_rows_def comp_def)
  then show ?thesis
    using assms(2,3) by (rule eq_key_imp_eq_value)
qed

lemma aci_rows_injective:
  assumes "cached st" and "(i, Some u) \<in> set (aci_rows st)" and "(j, Some u) \<in> set (aci_rows st)"
  shows "i = j"
proof -
  have "\<exists>x\<in>set (recipients (db st)). r_id x = i \<and> r_uuid x = Some u"
    "\<exists>y\<in>set (recipients (db st)). r_id y = j \<and> r_uuid y = Some u"
    using assms(2,3) by (simp_all add: aci_rows_iff)
  then show ?thesis
    using unique_values_inj[OF recipients_wfD(3,1)[OF cachedD[OF assms(1)]]] by metis
qed

text \<open>The members of a group as the server sees them.\<close>

type_synonym member_entry = "uuid option \<times> int \<times> string option \<times> string option"

definition member_entries :: "string \<Rightarrow> storage \<Rightarrow> member_entry set" where
  "member_entries gid st =
     {(u, gm2_role m, gm2_label m, gm2_label_emoji m) | u m. m \<in> set (group_v2_members (db st))
        \<and> gm2_group_v2_id m = gid \<and> (gm2_recipient_id m, u) \<in> set (aci_rows st)}"

definition server_entry :: "(group_role \<Rightarrow> int) \<Rightarrow> server_member \<Rightarrow> member_entry" where
  "server_entry role_number sm = (Some (sm_aci sm), role_number (sm_role sm), sm_label sm, sm_label_emoji sm)"

lemma member_entriesI:
  "m \<in> set (group_v2_members (db st)) \<Longrightarrow> gm2_group_v2_id m = gid \<Longrightarrow> (gm2_recipient_id m, u) \<in> set (aci_rows st) \<Longrightarrow>
     (u, gm2_role m, gm2_label m, gm2_label_emoji m) \<in> member_entries gid st"
  by (auto simp: member_entries_def)

lemma stale_iff:
  assumes ok: "cached st" and m: "m \<in> set (group_v2_members (db st))" "gm2_group_v2_id m = gid"
    and u: "(gm2_recipient_id m, u) \<in> set (aci_rows st)"
  shows "gm2_recipient_id m \<in> set (stale_members acis gid st) \<longleftrightarrow>
    acis = [] \<or> \<not> (u = None \<or> u \<in> Some ` set acis)"
proof -
  obtain r where r: "r \<in> set (recipients (db st))" "r_id r = gm2_recipient_id m" "r_uuid r = u"
    using u by (auto simp: aci_rows_iff)
  then have fetch: "fetch_recipient_by_id (gm2_recipient_id m) st = Some r"
    using recipient_row_in[OF cachedD[OF ok] r(1)] by (simp add: fetch_by_id_row)
  have "gm2_recipient_id m \<in> set (stale_members acis gid st) \<longleftrightarrow> none_of_acis acis r"
  proof
    assume "gm2_recipient_id m \<in> set (stale_members acis gid st)"
    then show "none_of_acis acis r"
      using fetch by (auto simp: stale_members_def List.map_filter_def)
  next
    assume "none_of_acis acis r"
    then show "gm2_recipient_id m \<in> set (stale_members acis gid st)"
      using m fetch by (force simp: stale_members_def List.map_filter_def image_iff)
  qed
  then show ?thesis
    by (cases u) (auto simp: none_of_acis_def r(3))
qed

lemma drop_stale_left:
  assumes run: "drop_stale_members acis gid st = Inr st'" and ok: "cached st"
  shows "cached st'" "aci_rows st' = aci_rows st"
    "member_entries gid st' = (if acis = [] then {} else
       {e \<in> member_entries gid st. fst e = None \<or> fst e \<in> Some ` set acis})"
proof -
  let ?P = "\<lambda>m. gm2_group_v2_id m = gid \<and> gm2_recipient_id m \<in> set (stale_members acis gid st)"
  have db': "db st' = (db st)\<lparr>group_v2_members := delete_where ?P (group_v2_members (db st))\<rparr>"
    "conf st' = conf st" "self_recipient st' = self_recipient st"
    using run by (auto simp: drop_stale_members_def Let_def split: if_splits)
  then show rows: "aci_rows st' = aci_rows st"
    by (simp add: aci_rows_def)
  show "cached st'"
    using ok db' by (auto simp: cached_def self_ok_def cache_current_def fetch_recipient_by_id_def split: option.splits)
  have "e \<in> member_entries gid st' \<longleftrightarrow> acis \<noteq> [] \<and> e \<in> member_entries gid st \<and> (fst e = None \<or> fst e \<in> Some ` set acis)"
    for e
  proof -
    have "e \<in> member_entries gid st' \<longleftrightarrow> (\<exists>m u. e = (u, gm2_role m, gm2_label m, gm2_label_emoji m)
        \<and> m \<in> set (group_v2_members (db st)) \<and> gm2_group_v2_id m = gid \<and> (gm2_recipient_id m, u) \<in> set (aci_rows st)
        \<and> gm2_recipient_id m \<notin> set (stale_members acis gid st))"
      by (auto simp: member_entries_def rows db'(1) set_delete_where)
    also have "\<dots> \<longleftrightarrow> (\<exists>m u. e = (u, gm2_role m, gm2_label m, gm2_label_emoji m)
        \<and> m \<in> set (group_v2_members (db st)) \<and> gm2_group_v2_id m = gid \<and> (gm2_recipient_id m, u) \<in> set (aci_rows st)
        \<and> acis \<noteq> [] \<and> (u = None \<or> u \<in> Some ` set acis))"
      using stale_iff[OF ok] by (intro ex_cong1 conj_cong refl) auto
    finally show ?thesis
      by (auto simp: member_entries_def)
  qed
  then show "member_entries gid st' = (if acis = [] then {} else
       {e \<in> member_entries gid st. fst e = None \<or> fst e \<in> Some ` set acis})"
    by auto
qed

lemma has_aci: "has_service_id (AciId u) = (\<lambda>r. r_uuid r = Some u)"
  by (simp add: has_service_id_def fun_eq_iff)

lemma upsert_memberE:
  assumes run: "upsert_member role_number gid sm st = (None, st')" and ok: "cached st"
    and known: "sm_aci sm \<in> known_acis st"
  obtains rid where "(rid, Some (sm_aci sm)) \<in> set (aci_rows st)" and "cached st'" and "aci_rows st' = aci_rows st"
    and "\<And>m. m \<in> set (group_v2_members (db st)) \<Longrightarrow> \<not> member_key gid rid m \<Longrightarrow> m \<in> set (group_v2_members (db st'))"
    and "\<And>m. m \<in> set (group_v2_members (db st')) \<Longrightarrow> \<not> member_key gid rid m \<Longrightarrow> m \<in> set (group_v2_members (db st))"
    and "\<And>m. m \<in> set (group_v2_members (db st')) \<Longrightarrow> member_key gid rid m \<Longrightarrow>
           (Some (sm_aci sm), gm2_role m, gm2_label m, gm2_label_emoji m) = server_entry role_number sm"
    and "\<exists>m\<in>set (group_v2_members (db st')). member_key gid rid m"
proof -
  obtain r where "r \<in> set (recipients (db st))" "r_uuid r = Some (sm_aci sm)"
    using known by (auto simp: known_acis_def aci_rows_iff)
  then have "fetch_recipient (AciId (sm_aci sm)) st = Some r"
    using cachedD[OF ok] by (simp add: fetch_recipient_def has_aci first_where_unique_value recipients_wfD)
  then have ins: "fetch_or_insert_recipient_by_address (AciId (sm_aci sm)) st = (r, st)"
    by (simp add: fetch_or_insert_recipient_by_address_def)
  let ?P = "member_key gid (r_id r)" and ?tab = "group_v2_members (db st)"
  let ?f = "\<lambda>m. m\<lparr>gm2_role := role_number (sm_role sm), gm2_label := sm_label sm, gm2_label_emoji := sm_label_emoji sm\<rparr>"
  have tab: "(\<exists>m. \<not> exists_where ?P ?tab \<and> group_v2_members (db st') = ?tab @ [m] \<and> ?P m
        \<and> (Some (sm_aci sm), gm2_role m, gm2_label m, gm2_label_emoji m) = server_entry role_number sm)
      \<or> exists_where ?P ?tab \<and> group_v2_members (db st') = update_where ?P ?f ?tab"
    and frame: "recipients (db st') = recipients (db st)" "conf st' = conf st" "self_recipient st' = self_recipient st"
    using run by (auto simp: upsert_member_def Let_def ins server_entry_def member_key_def split: if_splits)
  have ok': "cached st'"
    using ok frame by (auto simp: cached_def self_ok_def cache_current_def fetch_recipient_by_id_def split: option.splits)
  have row: "(r_id r, Some (sm_aci sm)) \<in> set (aci_rows st)"
    using \<open>r \<in> _\<close> \<open>r_uuid r = _\<close> by (auto simp: aci_rows_iff)
  note rows = aci_rows_cong[OF frame(1)]
  show ?thesis
  proof (cases "exists_where ?P ?tab")
    case True
    then have upd: "m \<in> set (group_v2_members (db st')) \<longleftrightarrow> m \<in> set ?tab \<and> \<not> ?P m \<or> (\<exists>x\<in>set ?tab. ?P x \<and> m = ?f x)" for m
      using tab by (auto simp: set_update_where)
    have P: "?P (?f m) = ?P m" for m
      by (simp add: member_key_def)
    obtain x where "x \<in> set ?tab" "?P x"
      using True by (auto simp: exists_where_iff)
    then have there: "\<exists>m\<in>set (group_v2_members (db st')). ?P m"
      using P upd by blast
    show ?thesis
      by (rule that[OF row ok' rows]) (rule there | (auto simp: upd P server_entry_def; fail))+
  next
    case False
    then obtain m where m: "group_v2_members (db st') = ?tab @ [m]" "?P m"
        "(Some (sm_aci sm), gm2_role m, gm2_label m, gm2_label_emoji m) = server_entry role_number sm"
      using tab by blast
    have none: "\<not> ?P x" if "x \<in> set ?tab" for x
      using False that by (auto simp: exists_where_iff)
    show ?thesis
      by (rule that[OF row ok' rows]) (use m none in auto)
  qed
qed

lemma upsert_member_entries:
  assumes run: "upsert_member role_number gid sm st = (None, st')" and ok: "cached st"
    and known: "sm_aci sm \<in> known_acis st"
  shows "cached st' \<and> aci_rows st' = aci_rows st
    \<and> member_entries gid st' = {e \<in> member_entries gid st. fst e \<noteq> Some (sm_aci sm)} \<union> {server_entry role_number sm}"
  using run ok known
proof (rule upsert_memberE)
  fix rid
  assume rid: "(rid, Some (sm_aci sm)) \<in> set (aci_rows st)" and ok': "cached st'" and rows: "aci_rows st' = aci_rows st"
    and kept: "\<And>m. m \<in> set (group_v2_members (db st)) \<Longrightarrow> \<not> member_key gid rid m \<Longrightarrow> m \<in> set (group_v2_members (db st'))"
    and old: "\<And>m. m \<in> set (group_v2_members (db st')) \<Longrightarrow> \<not> member_key gid rid m \<Longrightarrow> m \<in> set (group_v2_members (db st))"
    and new: "\<And>m. m \<in> set (group_v2_members (db st')) \<Longrightarrow> member_key gid rid m \<Longrightarrow>
           (Some (sm_aci sm), gm2_role m, gm2_label m, gm2_label_emoji m) = server_entry role_number sm"
    and there: "\<exists>m\<in>set (group_v2_members (db st')). member_key gid rid m"
  have mine: "u = Some (sm_aci sm) \<longleftrightarrow> i = rid" if "(i, u) \<in> set (aci_rows st)" for i u
    using that aci_rows_functional[OF ok rid] aci_rows_injective[OF ok rid] by blast
  have "e \<in> member_entries gid st' \<longleftrightarrow> e \<in> member_entries gid st \<and> fst e \<noteq> Some (sm_aci sm) \<or> e = server_entry role_number sm"
    for e
  proof
    assume "e \<in> member_entries gid st'"
    then obtain m u where e: "e = (u, gm2_role m, gm2_label m, gm2_label_emoji m)" "m \<in> set (group_v2_members (db st'))"
        "gm2_group_v2_id m = gid" "(gm2_recipient_id m, u) \<in> set (aci_rows st)"
      by (auto simp: member_entries_def rows)
    then show "e \<in> member_entries gid st \<and> fst e \<noteq> Some (sm_aci sm) \<or> e = server_entry role_number sm"
      using new[of m] old[of m] mine[OF e(4)] member_entriesI[of m st gid u] by (auto simp: member_key_def)
  next
    assume "e \<in> member_entries gid st \<and> fst e \<noteq> Some (sm_aci sm) \<or> e = server_entry role_number sm"
    then show "e \<in> member_entries gid st'"
    proof
      assume "e \<in> member_entries gid st \<and> fst e \<noteq> Some (sm_aci sm)"
      then obtain m u where e: "e = (u, gm2_role m, gm2_label m, gm2_label_emoji m)" "m \<in> set (group_v2_members (db st))"
          "gm2_group_v2_id m = gid" "(gm2_recipient_id m, u) \<in> set (aci_rows st)" "u \<noteq> Some (sm_aci sm)"
        by (auto simp: member_entries_def)
      then have "\<not> member_key gid rid m"
        using mine[OF e(4)] by (simp add: member_key_def)
      then show ?thesis
        using e kept by (auto simp: member_entries_def rows)
    next
      assume e: "e = server_entry role_number sm"
      obtain m where m: "m \<in> set (group_v2_members (db st'))" "member_key gid rid m"
        using there by blast
      then have "(Some (sm_aci sm), gm2_role m, gm2_label m, gm2_label_emoji m) \<in> member_entries gid st'"
        using rid by (intro member_entriesI) (simp_all add: rows member_key_def)
      then show ?thesis
        by (simp only: e new[OF m])
    qed
  qed
  then show ?thesis
    using ok' rows by auto
qed

lemma known_acis_rows: "aci_rows st' = aci_rows st \<Longrightarrow> known_acis st' = known_acis st"
  by (simp add: known_acis_def)

lemma upsert_members_entries:
  assumes "upsert_members role_number gid sms st = (None, st')" and "cached st"
    and "sm_aci ` set sms \<subseteq> known_acis st" and "distinct (map sm_aci sms)"
  shows "aci_rows st' = aci_rows st
    \<and> member_entries gid st' = {e \<in> member_entries gid st. fst e \<notin> Some ` sm_aci ` set sms}
        \<union> server_entry role_number ` set sms"
  using assms
proof (induction sms arbitrary: st)
  case (Cons sm sms)
  obtain st1 where first: "upsert_member role_number gid sm st = (None, st1)"
    and rest: "upsert_members role_number gid sms st1 = (None, st')"
    using Cons.prems(1) by (auto split: prod.splits option.splits)
  have one: "cached st1" "aci_rows st1 = aci_rows st"
      "member_entries gid st1 = {e \<in> member_entries gid st. fst e \<noteq> Some (sm_aci sm)} \<union> {server_entry role_number sm}"
    using upsert_member_entries[OF first] Cons.prems(2,3) by simp_all
  have "aci_rows st' = aci_rows st1 \<and> member_entries gid st' = {e \<in> member_entries gid st1. fst e \<notin> Some ` sm_aci ` set sms}
        \<union> server_entry role_number ` set sms"
    using Cons.prems(3,4) one(1) known_acis_rows[OF one(2)] rest by (intro Cons.IH) auto
  moreover have "fst (server_entry role_number sm) \<notin> Some ` sm_aci ` set sms"
    using Cons.prems(4) by (auto simp: server_entry_def)
  ultimately show ?case
    using one(2,3) by auto
qed auto

section \<open>The rest of the handler\<close>

definition only_messages :: "database \<Rightarrow> database \<Rightarrow> bool" where
  "only_messages d d' \<longleftrightarrow> recipients d' = recipients d \<and> same_groups d d'"

lemma only_messages_parts:
  "insert_message m st = Inr (x, st') \<Longrightarrow> only_messages (db st) (db st')"
  "link_edits e l sid st = Inr st' \<Longrightarrow> only_messages (db st) (db st')"
  "only_messages (db st) (db (mark_session_archived sid b st))"
  by (auto simp: insert_message_def link_edits_def mark_session_archived_def update_session_if_def
      update_sessions_def update_messages_def only_messages_def same_groups_def Let_def split: if_splits)

lemma only_messages_trans: "only_messages d d' \<Longrightarrow> only_messages d' d'' \<Longrightarrow> only_messages d d''"
  by (auto simp: only_messages_def intro: same_groups_trans)

lemma only_messages_refl [simp]: "only_messages d d"
  by (simp add: only_messages_def)

lemma only_messages_create:
  assumes "create_message nm st = Inr (m, st')"
  shows "only_messages (db st) (db st')"
proof -
  obtain st1 where ins: "insert_message (new_row nm st) st = Inr (m, st1)"
    using assms by (auto simp: create_message_def Let_def rbind_eq_Inr)
  let ?st2 = "emit (with_relation SubSessions (RowId (nm_session_id nm)) (observe_insert SubMessages (RowId (m_id m)))) st1"
  obtain st3 where edit: "(case nm_edit nm of None \<Rightarrow> Inr ?st2 | Some e \<Rightarrow> link_edits e m (nm_session_id nm) ?st2) = Inr st3"
    using assms by (auto simp: create_message_def Let_def rbind_eq_Inr ins)
  then obtain so where so: "fetch_session_by_id (nm_session_id nm) st3 = Inr so"
    using assms by (auto simp: create_message_def Let_def rbind_eq_Inr ins)
  have st': "st' = (case so of None \<Rightarrow> st3 | Some s \<Rightarrow> if e_is_muted s \<and> \<not> e_is_archived s
                        then mark_session_archived (e_id s) False st3 else st3)"
    using assms by (simp add: create_message_def Let_def ins edit so)
  have "only_messages (db ?st2) (db st3)"
    using edit only_messages_parts(2)[of _ m "nm_session_id nm" ?st2 st3] by (auto split: option.splits)
  moreover have "only_messages (db st3) (db st')"
    using only_messages_parts(3) by (simp add: st' split: option.splits)
  ultimately show ?thesis
    using only_messages_parts(1)[OF ins] by (auto intro: only_messages_trans)
qed

lemma asserted_members:
  "\<forall>(a, k)\<in>set (members_to_assert grp). k \<noteq> None \<longrightarrow> (\<exists>u. a = AciId u)"
  "sm \<in> set (sg_members grp) \<Longrightarrow> (AciId (sm_aci sm), Some (sm_profile_key sm)) \<in> set (members_to_assert grp)"
  by (auto simp: members_to_assert_def)

lemma member_entries_cong:
  "recipients (db st') = recipients (db st) \<Longrightarrow> group_v2_members (db st') = group_v2_members (db st) \<Longrightarrow>
     member_entries gid st' = member_entries gid st"
  by (simp add: member_entries_def aci_rows_def)

text \<open>The first part only lets known recipients appear, so the members stay who they are.\<close>

lemma entries_after_assert:
  assumes ok': "cached st'" and rows: "set (aci_rows st) \<subseteq> set (aci_rows st')"
    and same: "same_groups (db st) (db st')" and refs: "recipient_refs_ok (db st)"
  shows "member_entries gid st' = member_entries gid st"
proof
  show "member_entries gid st \<subseteq> member_entries gid st'"
    using rows same by (auto simp: member_entries_def same_groups_def)
  show "member_entries gid st' \<subseteq> member_entries gid st"
  proof
    fix e assume "e \<in> member_entries gid st'"
    then obtain m u where e: "e = (u, gm2_role m, gm2_label m, gm2_label_emoji m)"
        "m \<in> set (group_v2_members (db st))" "gm2_group_v2_id m = gid" "(gm2_recipient_id m, u) \<in> set (aci_rows st')"
      using same by (auto simp: member_entries_def same_groups_def)
    then obtain v where v: "(gm2_recipient_id m, v) \<in> set (aci_rows st)"
      using refs by (fastforce simp: recipient_refs_ok_def list_all_iff has_key_iff aci_rows_iff)
    then have "u = v"
      using aci_rows_functional[OF ok' e(4)] rows by blast
    then show "e \<in> member_entries gid st"
      using e v by (auto simp: member_entries_def)
  qed
qed

definition invited_and_asking :: "database \<Rightarrow> group_v2_pending_member list \<times> group_v2_requesting_member list" where
  "invited_and_asking d = (group_v2_pending_members d, group_v2_requesting_members d)"

lemma invited_upsert:
  assumes "upsert_member role_number gid sm st = (x, st')"
  shows "invited_and_asking (db st') = invited_and_asking (db st)"
proof -
  obtain r st1 where ins: "fetch_or_insert_recipient_by_address (AciId (sm_aci sm)) st = (r, st1)"
    by fastforce
  have "invited_and_asking (db st') = invited_and_asking (db st1)"
    using assms by (auto simp: upsert_member_def ins Let_def invited_and_asking_def split: if_splits)
  then show ?thesis
    using same_groups_fetch_or_insert[OF ins] by (simp add: invited_and_asking_def same_groups_def)
qed

lemma invited_upserts:
  "upsert_members role_number gid sms st = (x, st') \<Longrightarrow> invited_and_asking (db st') = invited_and_asking (db st)"
  by (induction sms arbitrary: st)
    (auto split: prod.splits option.splits dest: invited_upsert)

lemma refresh_listsE:
  assumes "refresh_lists role_number gid grp st = Inr (None, st')"
  obtains st1 st2 st3 where "assert_members (members_to_assert grp) st = Inr st1"
    and "drop_stale_members (map sm_aci (sg_members grp)) gid st1 = Inr st2"
    and "upsert_members role_number gid (sg_members grp) st2 = (None, st3)"
    and "replace_banned gid (sg_members_banned grp) st3 = (None, st')"
proof -
  obtain st1 st2 where asserted: "assert_members (members_to_assert grp) st = Inr st1"
    and dropped: "drop_stale_members (map sm_aci (sg_members grp)) gid st1 = Inr st2"
    using assms by (auto simp: refresh_lists_def rbind_eq_Inr)
  obtain err st3 where "upsert_members role_number gid (sg_members grp) st2 = (err, st3)"
    by fastforce
  then show ?thesis
    using assms that[OF asserted dropped] by (auto simp: refresh_lists_def asserted dropped split: option.splits)
qed

lemma refresh_group_v2E:
  assumes "refresh_group_v2 role_number gid grp st = Inr (sent, None, st')"
  obtains acl st2 where "refresh_lists role_number gid grp
      (emit (group_updated gid) (write_timer grp gid (write_group grp acl gid st))) = Inr (None, st2)"
    and "only_messages (db st2) (db st')"
proof -
  obtain acl where acl: "sg_access_control grp = Some acl"
    using assms by (auto simp: refresh_group_v2_def rbind_eq_Inr)
  obtain st2 where lists: "refresh_lists role_number gid grp
      (emit (group_updated gid) (write_timer grp gid (write_group grp acl gid st))) = Inr (None, st2)"
    using assms by (auto simp: refresh_group_v2_def rbind_eq_Inr Let_def acl split: if_splits)
  moreover from this have "only_messages (db st2) (db st')"
    using assms by (auto simp: refresh_group_v2_def rbind_eq_Inr Let_def acl dest: only_messages_create)
  ultimately show ?thesis
    by (rule that)
qed

lemma refresh_lists_entries:
  assumes run: "refresh_lists role_number gid grp st = Inr (None, st')" and ok: "cached st"
    and refs: "recipient_refs_ok (db st)" and acis: "distinct (map sm_aci (sg_members grp))"
  shows "member_entries gid st' = (if sg_members grp = [] then {} else {e \<in> member_entries gid st. fst e = None})
           \<union> server_entry role_number ` set (sg_members grp)"
    and "invited_and_asking (db st') = invited_and_asking (db st)"
proof -
  obtain st1 st2 st3 where asserted: "assert_members (members_to_assert grp) st = Inr st1"
    and dropped: "drop_stale_members (map sm_aci (sg_members grp)) gid st1 = Inr st2"
    and upserted: "upsert_members role_number gid (sg_members grp) st2 = (None, st3)"
    and banned: "replace_banned gid (sg_members_banned grp) st3 = (None, st')"
    using run by (rule refresh_listsE)
  have one: "cached st1" "set (aci_rows st) \<subseteq> set (aci_rows st1)" "same_groups (db st) (db st1)"
      "sm_aci ` set (sg_members grp) \<subseteq> known_acis st1"
    using assert_members_known[OF ok asserted_members(1) asserted] asserted_members(2) by blast+
  note two = drop_stale_left[OF dropped one(1)]
  have "member_entries gid st3 = {e \<in> member_entries gid st2. fst e \<notin> Some ` sm_aci ` set (sg_members grp)}
        \<union> server_entry role_number ` set (sg_members grp)"
    using upsert_members_entries[OF upserted two(1) _ acis] one(4) known_acis_rows[OF two(2)] by simp
  moreover have "recipients (db st') = recipients (db st3)" "group_v2_members (db st') = group_v2_members (db st3)"
    "invited_and_asking (db st') = invited_and_asking (db st3)"
    using banned by (auto simp: replace_banned_def invited_and_asking_def split: if_splits)
  note member_entries_cong[OF this(1,2), of gid]
  moreover have "member_entries gid st1 = member_entries gid st"
    using one refs by (intro entries_after_assert)
  ultimately show "member_entries gid st' = (if sg_members grp = [] then {} else {e \<in> member_entries gid st. fst e = None})
      \<union> server_entry role_number ` set (sg_members grp)"
    using two(3) by auto
  have "invited_and_asking (db st2) = invited_and_asking (db st1)"
    using dropped by (auto simp: drop_stale_members_def Let_def invited_and_asking_def split: if_splits)
  then show "invited_and_asking (db st') = invited_and_asking (db st)"
    using one(3) invited_upserts[OF upserted] \<open>invited_and_asking (db st') = _\<close>
    by (simp add: invited_and_asking_def same_groups_def)
qed

lemma refresh_entries:
  assumes run: "refresh_group_v2 role_number gid grp st = Inr (sent, None, st')" and ok: "cached st"
    and refs: "recipient_refs_ok (db st)" and acis: "distinct (map sm_aci (sg_members grp))"
  shows "member_entries gid st' = (if sg_members grp = [] then {} else {e \<in> member_entries gid st. fst e = None})
           \<union> server_entry role_number ` set (sg_members grp)
         \<and> invited_and_asking (db st') = invited_and_asking (db st)"
proof -
  obtain acl st2 where lists: "refresh_lists role_number gid grp
      (emit (group_updated gid) (write_timer grp gid (write_group grp acl gid st))) = Inr (None, st2)"
    and "only_messages (db st2) (db st')"
    using run by (rule refresh_group_v2E)
  let ?st1 = "emit (group_updated gid) (write_timer grp gid (write_group grp acl gid st))"
  have only: "only_messages (db st2) (db st')"
    by fact
  from only have last: "member_entries gid st' = member_entries gid st2" "invited_and_asking (db st') = invited_and_asking (db st2)"
    by (simp_all add: only_messages_def same_groups_def member_entries_def aci_rows_def invited_and_asking_def)
  have tables: "recipients (db ?st1) = recipients (db st)" "group_v2_members (db ?st1) = group_v2_members (db st)"
      "invited_and_asking (db ?st1) = invited_and_asking (db st)"
      "conf ?st1 = conf st" "self_recipient ?st1 = self_recipient st"
    by (simp_all add: write_timer_def write_group_def update_sessions_def update_group_def invited_and_asking_def)
  have "cached ?st1"
    using ok tables(1,4,5)
    by (auto simp: cached_def self_ok_def cache_current_def fetch_recipient_by_id_def split: option.splits)
  moreover have "recipient_refs_ok (db ?st1)"
    using refs by (auto simp: recipient_refs_ok_def write_timer_def write_group_def update_sessions_def
        update_group_def list_all_iff set_update_where)
  ultimately show ?thesis
    using refresh_lists_entries[OF lists _ _ acis] last tables
    by (simp add: member_entries_def aci_rows_def)
qed

section \<open>The banned list\<close>

definition banned_ids :: "string \<Rightarrow> database \<Rightarrow> service_id set" where
  "banned_ids gid d = gb_service_id ` {m \<in> set (group_v2_banned_members d). gb_group_v2_id m = gid}"

lemma insert_banned_ids:
  "gb_service_id ` {m \<in> set (insert_banned gid l tab). gb_group_v2_id m = gid}
     = gb_service_id ` {m \<in> set tab. gb_group_v2_id m = gid} \<union> fst ` set l"
proof (induction gid l tab rule: insert_banned.induct)
  case (2 gid sid ts rest tab)
  let ?new = "\<lparr> gb_group_v2_id = gid, gb_service_id = sid, gb_banned_at = ts \<rparr>"
  have ext: "{m \<in> set (tab @ [?new]). gb_group_v2_id m = gid} = insert ?new {m \<in> set tab. gb_group_v2_id m = gid}"
    by auto
  show ?case
  proof (cases "exists_where (banned_key gid sid) tab")
    case True
    then have "sid \<in> gb_service_id ` {m \<in> set tab. gb_group_v2_id m = gid}"
      by (auto simp: exists_where_iff banned_key_def)
    then show ?thesis
      using 2 True by auto
  next
    case False
    then show ?thesis
      using 2 by (simp add: ext del: set_append)
  qed
qed simp

lemma replace_banned_ids:
  "replace_banned gid banned st = (None, st') \<Longrightarrow> banned_ids gid (db st') = fst ` set banned"
  using insert_banned_ids[of gid banned "delete_where (\<lambda>m. gb_group_v2_id m = gid) (group_v2_banned_members (db st))"]
  by (simp add: replace_banned_def banned_ids_def set_delete_where split: if_splits) fastforce

lemma refresh_banned:
  assumes run: "refresh_group_v2 role_number gid grp st = Inr (sent, None, st')"
  shows "banned_ids gid (db st') = fst ` set (sg_members_banned grp)"
  using run
proof (rule refresh_group_v2E)
  fix acl st2
  assume lists: "refresh_lists role_number gid grp
      (emit (group_updated gid) (write_timer grp gid (write_group grp acl gid st))) = Inr (None, st2)"
    and "only_messages (db st2) (db st')"
  then have "banned_ids gid (db st') = banned_ids gid (db st2)"
    by (simp add: only_messages_def same_groups_def banned_ids_def)
  then show ?thesis
    using lists by (auto elim!: refresh_listsE dest: replace_banned_ids)
qed

section \<open>Properties\<close>

definition hex_id :: string where
  "hex_id = replicate 64 (CHR ''a'')"

definition refresh_demo :: storage where
  "refresh_demo = group_demo\<lparr>db := (db group_demo)\<lparr>
     sessions := [group_row\<lparr>s_group_v2_id := Some hex_id\<rparr>],
     group_v2s := [demo_group\<lparr>g2_id := hex_id\<rparr>],
     group_v2_members := map (\<lambda>i. \<lparr> gm2_group_v2_id = hex_id, gm2_recipient_id = i, gm2_member_since = 0,
         gm2_joined_at_revision = 0, gm2_role = 2, gm2_label = None, gm2_label_emoji = None \<rparr>) [2, 3],
     group_v2_pending_members := [], group_v2_requesting_members := []\<rparr>\<rparr>"

definition server_demo :: server_group where
  "server_demo = \<lparr> sg_title = ''new'', sg_description_text = None, sg_avatar = [], sg_timer = Some 60,
     sg_access_control = Some \<lparr> ac_attributes = 2, ac_members = 2, ac_add_from_invite_link = 4, ac_member_label = 2 \<rparr>,
     sg_version = 6,
     sg_members = [\<lparr> sm_aci = 7, sm_role = AdministratorRole, sm_profile_key = replicate 32 0, sm_joined_at_version = 0,
                     sm_label = Some ''chair'', sm_label_emoji = None \<rparr>],
     sg_members_pending_profile_key = [PniId 12], sg_members_pending_admin_approval = [],
     sg_invite_link_password = [], sg_announcements_only = False, sg_members_banned = [(AciId 8, 5)] \<rparr>"

text \<open>
  C12. Refreshing a group.  When the handler of a fetched group succeeds, the members the store has
  for the group are those of the server, with their roles and labels, whoever was a member before,
  and the banned are those of the server.  Two things are not brought up to date: a member whose
  recipient lost its ACI stays, unless the group is empty, and so do all the invitations and
  requests to join.
\<close>

theorem refresh_replaces_members:
  assumes "refresh_group_v2 role_number gid grp st = Inr (sent, None, st')" and "cached st"
    and "recipient_refs_ok (db st)" and "distinct (map sm_aci (sg_members grp))"
  shows "member_entries gid st' = (if sg_members grp = [] then {} else {e \<in> member_entries gid st. fst e = None})
           \<union> server_entry role_number ` set (sg_members grp)
         \<and> banned_ids gid (db st') = fst ` set (sg_members_banned grp)
         \<and> invited_and_asking (db st') = invited_and_asking (db st)"
  using refresh_entries[OF assms] refresh_banned[OF assms(1)] by simp

theorem refresh_replaces_members_witness:
  "\<exists>st'. refresh_group_v2 (\<lambda>_. 2) hex_id server_demo refresh_demo = Inr ([], None, st')
     \<and> (Some 7, 2, Some ''chair'', None) \<in> member_entries hex_id st'
     \<and> fst ` member_entries hex_id st' \<subseteq> {None, Some 7}
     \<and> banned_ids hex_id (db st') = {AciId 8}"
proof -
  have "case refresh_group_v2 (\<lambda>_. 2) hex_id server_demo refresh_demo of
      Inr (sent, err, st') \<Rightarrow> sent = [] \<and> err = None | Inl _ \<Rightarrow> False"
    by code_simp
  then obtain st' where run: "refresh_group_v2 (\<lambda>_. 2) hex_id server_demo refresh_demo = Inr ([], None, st')"
    by (auto split: sum.splits)
  have "cached refresh_demo" "recipient_refs_ok (db refresh_demo)" "distinct (map sm_aci (sg_members server_demo))"
    by code_simp+
  note exact = refresh_replaces_members[OF run this]
  show ?thesis
    using exact run by (auto simp: server_demo_def server_entry_def)
qed

end
