(* ===== verification/AugmentedQueries.thy ===== *)
theory AugmentedQueries
  imports ReceiptStore AttachmentStore GroupStore BodyRanges "HOL-Library.Option_ord" "HOL-Library.Product_Lexorder"
begin

text \<open>
  The joined rows the user interface shows (\<open>whisperfish-store/src/store.rs\<close>,
  \<open>whisperfish-store/src/store/orm.rs\<close>): a message with the numbers of its attachments, reactions
  and receipts, its body ranges, the people it mentions and the membership of its sender, a session
  with its last message, and what a view of them is interested in
  (\<open>whisperfish-store/src/store/observer/orm_interests.rs\<close>).

  There are two ways to get the messages: one message at a time, with a query for each number, and
  a whole session at once, with one query for each number that is then joined to the list of
  messages by running through both.
\<close>

section \<open>The joined rows\<close>

text \<open>Third-party code: the protobuf decoder of body ranges and the parser of UUIDs.\<close>

record text_codec =
  decode_ranges :: "blob \<Rightarrow> body_range list option"
  parse_uuid :: "utext \<Rightarrow> uuid option"

record augmented_message =
  am_inner :: message
  am_attachments :: nat
  am_reactions :: nat
  am_is_voice_note :: bool
  am_receipt_counts :: receipt_counts
  am_body_ranges :: "body_range list"
  am_mentions :: "uuid \<Rightarrow> recipient option"
  am_sender_membership :: "group_v2_member option"

record augmented_session =
  as_inner :: session
  as_last_message :: "augmented_message option"
  as_group_self_member :: "group_v2_member option"

section \<open>One message\<close>

definition message_body_ranges :: "text_codec \<Rightarrow> message \<Rightarrow> body_range list res" where
  "message_body_ranges codec m =
     (case m_message_ranges m of None \<Rightarrow> Inr [] | Some b \<Rightarrow> deserialize (decode_ranges codec) b)"

definition mentioned_uuid :: "text_codec \<Rightarrow> body_range \<Rightarrow> uuid option" where
  "mentioned_uuid codec r =
     (case br_value r of Some (MentionUuid u) \<Rightarrow> parse_uuid codec u | _ \<Rightarrow> None)"

text \<open>Collecting into a hash map: a later pair replaces an earlier one with the same key.\<close>

definition collect_map :: "('k \<times> 'v) list \<Rightarrow> 'k \<Rightarrow> 'v option" where
  "collect_map pairs = map_of (rev pairs)"

definition fetch_mentions :: "text_codec \<Rightarrow> body_range list \<Rightarrow> storage \<Rightarrow> (uuid \<Rightarrow> recipient option) res" where
  "fetch_mentions codec ranges st =
     rbind (rmap (\<lambda>r. rbind (opt_panic ''queried by uuid'' (r_uuid r)) (\<lambda>u. Inr (u, r)))
              (List.map_filter (\<lambda>u. fetch_recipient (AciId u) st) (List.map_filter (mentioned_uuid codec) ranges)))
       (\<lambda>pairs. Inr (collect_map pairs))"

definition fetch_message_sender_membership :: "message \<Rightarrow> storage \<Rightarrow> group_v2_member option res" where
  "fetch_message_sender_membership m st =
     rbind (fetch_session_by_id (m_session_id m) st) (\<lambda>so.
     case so of
       None \<Rightarrow> Inr None
     | Some s \<Rightarrow>
         if \<not> is_group_v2 (e_type s) then Inr None
         else rbind (unwrap_group_v2 (e_type s)) (\<lambda>g.
           case m_sender_recipient_id m of
             None \<Rightarrow> Inr None
           | Some rid \<Rightarrow> Inr (fetch_group_v2_member (g2_id g) rid st)))"

definition attachments_of :: "int \<Rightarrow> storage \<Rightarrow> attachment list" where
  "attachments_of mid st = filter (\<lambda>a. a_message_id a = mid) (attachments (db st))"

definition reactions_of :: "int \<Rightarrow> storage \<Rightarrow> reaction list" where
  "reactions_of mid st = filter (\<lambda>x. x_message_id x = mid) (reactions (db st))"

definition augment_message :: "text_codec \<Rightarrow> message \<Rightarrow> storage \<Rightarrow> augmented_message res" where
  "augment_message codec m st =
     (let atts = attachments_of (m_id m) st in
      rbind (message_body_ranges codec m) (\<lambda>ranges.
      rbind (fetch_mentions codec ranges st) (\<lambda>mentions.
      rbind (fetch_message_sender_membership m st) (\<lambda>membership.
      Inr \<lparr> am_inner = m, am_attachments = length atts, am_reactions = length (reactions_of (m_id m) st),
            am_is_voice_note = (case atts of [a] \<Rightarrow> a_is_voice_note a | _ \<Rightarrow> False),
            am_receipt_counts = count_message_receipts (m_id m) st, am_body_ranges = ranges,
            am_mentions = mentions, am_sender_membership = membership \<rparr>))))"

definition fetch_augmented_message :: "text_codec \<Rightarrow> int \<Rightarrow> storage \<Rightarrow> augmented_message option res" where
  "fetch_augmented_message codec mid st =
     (case fetch_message_by_id mid st of
        None \<Rightarrow> Inr None
      | Some m \<Rightarrow> rbind (augment_message codec m st) (\<lambda>am. Inr (Some am)))"

definition fetch_last_message_by_session_id_augmented ::
  "text_codec \<Rightarrow> int \<Rightarrow> storage \<Rightarrow> augmented_message option res" where
  "fetch_last_message_by_session_id_augmented codec sid st =
     (case fetch_last_message_by_session_id sid st of
        None \<Rightarrow> Inr None
      | Some m \<Rightarrow> fetch_augmented_message codec (m_id m) st)"

section \<open>All messages of a session\<close>

text \<open>
  An aggregate over rows of another table, grouped by message, for the messages of a session, the
  greatest message id first.
\<close>

definition grouped_rows :: "int \<Rightarrow> ('r \<Rightarrow> int) \<Rightarrow> 'r list \<Rightarrow> storage \<Rightarrow> (int \<times> 'r list) list" where
  "grouped_rows sid key rows st =
     map (\<lambda>mid. (mid, filter (\<lambda>r. key r = mid) rows))
       (filter (\<lambda>mid. exists_where (\<lambda>r. key r = mid) rows)
         (rev (sort (map m_id (filter (\<lambda>m. m_session_id m = sid) (messages (db st)))))))"

definition attachment_groups :: "int \<Rightarrow> storage \<Rightarrow> (int \<times> bool \<times> nat) list" where
  "attachment_groups sid st =
     map (\<lambda>(mid, rows). (mid, exists_where a_is_voice_note rows, length rows))
       (grouped_rows sid a_message_id (attachments (db st)) st)"

definition reaction_counts :: "int \<Rightarrow> storage \<Rightarrow> (int \<times> nat) list" where
  "reaction_counts sid st =
     map (\<lambda>(mid, rows). (mid, length rows)) (grouped_rows sid x_message_id (reactions (db st)) st)"

definition receipt_counts_where :: "int \<Rightarrow> (receipt \<Rightarrow> bool) \<Rightarrow> storage \<Rightarrow> (int \<times> nat) list" where
  "receipt_counts_where sid P st =
     map (\<lambda>(mid, rows). (mid, length rows)) (grouped_rows sid t_message_id (filter P (receipts (db st))) st)"

definition sender_memberships :: "int \<Rightarrow> storage \<Rightarrow> (int \<Rightarrow> group_v2_member option) res" where
  "sender_memberships sid st =
     rbind (fetch_session_by_id sid st) (\<lambda>so.
     case so of
       None \<Rightarrow> Inr (\<lambda>_. None)
     | Some s \<Rightarrow>
         if \<not> is_group_v2 (e_type s) then Inr (\<lambda>_. None)
         else rbind (unwrap_group_v2 (e_type s)) (\<lambda>g.
           Inr (collect_map (map (\<lambda>m. (gm2_recipient_id m, m))
             (filter (\<lambda>m. gm2_group_v2_id m = g2_id g) (group_v2_members (db st)))))))"

text \<open>
  \<open>peek\<close>, and \<open>next\<close> if the entry at the front is that of the message; otherwise the iterator stays
  where it is.
\<close>

definition take_if :: "int \<Rightarrow> (int \<times> 'v) list \<Rightarrow> 'v option \<times> (int \<times> 'v) list" where
  "take_if mid iter =
     (case iter of
        [] \<Rightarrow> (None, [])
      | (i, v) # rest \<Rightarrow> if i = mid then (Some v, rest) else (None, iter))"

definition count_or_0 :: "nat option \<Rightarrow> nat" where
  "count_or_0 c = (case c of None \<Rightarrow> 0 | Some n \<Rightarrow> n)"

fun join_messages ::
  "text_codec \<Rightarrow> storage \<Rightarrow> (int \<Rightarrow> group_v2_member option) \<Rightarrow> message list \<Rightarrow> (int \<times> bool \<times> nat) list \<Rightarrow>
     (int \<times> nat) list \<Rightarrow> (int \<times> nat) list \<Rightarrow> (int \<times> nat) list \<Rightarrow> (int \<times> nat) list \<Rightarrow> augmented_message list res" where
  "join_messages codec st members [] atts reacts reads delivered viewed = Inr []"
| "join_messages codec st members (m # ms) atts reacts reads delivered viewed =
     (let (a, atts') = take_if (m_id m) atts;
          (x, reacts') = take_if (m_id m) reacts;
          (r, reads') = take_if (m_id m) reads;
          (d, delivered') = take_if (m_id m) delivered;
          (v, viewed') = take_if (m_id m) viewed
      in rbind (message_body_ranges codec m) (\<lambda>ranges.
         rbind (fetch_mentions codec ranges st) (\<lambda>mentions.
         rbind (join_messages codec st members ms atts' reacts' reads' delivered' viewed') (\<lambda>rest.
         Inr (\<lparr> am_inner = m, am_attachments = (case a of None \<Rightarrow> 0 | Some (_, n) \<Rightarrow> n),
                am_reactions = count_or_0 x,
                am_is_voice_note = (case a of None \<Rightarrow> False | Some (voice, _) \<Rightarrow> voice),
                am_receipt_counts = \<lparr> rc_read = count_or_0 r, rc_delivered = count_or_0 d, rc_viewed = count_or_0 v \<rparr>,
                am_body_ranges = ranges, am_mentions = mentions,
                am_sender_membership = Option.bind (m_sender_recipient_id m) members \<rparr> # rest)))))"

definition fetch_all_messages_augmented ::
  "text_codec \<Rightarrow> int \<Rightarrow> bool \<Rightarrow> storage \<Rightarrow> augmented_message list res" where
  "fetch_all_messages_augmented codec sid only_most_recent st =
     rbind (sender_memberships sid st) (\<lambda>members.
     join_messages codec st members (fetch_all_messages sid only_most_recent st)
       (attachment_groups sid st) (reaction_counts sid st)
       (receipt_counts_where sid (\<lambda>t. t_read t \<noteq> None) st)
       (receipt_counts_where sid (\<lambda>t. t_delivered t \<noteq> None) st)
       (receipt_counts_where sid (\<lambda>t. t_viewed t \<noteq> None) st))"

section \<open>Sessions\<close>

text \<open>Fetching the own membership may fill the cache of the own recipient, so the state is passed on.\<close>

definition augment_session :: "text_codec \<Rightarrow> session \<Rightarrow> storage \<Rightarrow> (augmented_session \<times> storage) res" where
  "augment_session codec s st =
     rbind (fetch_last_message_by_session_id_augmented codec (e_id s) st) (\<lambda>last_message.
     rbind (if is_group_v2 (e_type s)
            then rbind (unwrap_group_v2 (e_type s)) (\<lambda>g. fetch_group_v2_self_member (g2_id g) st)
            else Inr (None, st)) (\<lambda>(member, st').
     Inr (\<lparr> as_inner = s, as_last_message = last_message, as_group_self_member = member \<rparr>, st')))"

definition fetch_session_by_id_augmented ::
  "text_codec \<Rightarrow> int \<Rightarrow> storage \<Rightarrow> (augmented_session option \<times> storage) res" where
  "fetch_session_by_id_augmented codec sid st =
     rbind (fetch_session_by_id sid st) (\<lambda>so.
     case so of
       None \<Rightarrow> Inr (None, st)
     | Some s \<Rightarrow> rbind (augment_session codec s st) (\<lambda>(x, st'). Inr (Some x, st')))"

fun augment_sessions :: "text_codec \<Rightarrow> session list \<Rightarrow> storage \<Rightarrow> (augmented_session list \<times> storage) res" where
  "augment_sessions codec [] st = Inr ([], st)"
| "augment_sessions codec (s # ss) st =
     rbind (augment_session codec s st) (\<lambda>(x, st1).
     rbind (augment_sessions codec ss st1) (\<lambda>(xs, st2). Inr (x # xs, st2)))"

text \<open>The key of the order; \<open>Reverse\<close> puts the greatest first, and ids are unique.\<close>

definition session_sort_key :: "augmented_session \<Rightarrow> timestamp option \<times> int" where
  "session_sort_key x =
     (map_option (\<lambda>am. m_server_timestamp (am_inner am)) (as_last_message x), e_id (as_inner x))"

definition fetch_all_sessions_augmented :: "text_codec \<Rightarrow> storage \<Rightarrow> (augmented_session list \<times> storage) res" where
  "fetch_all_sessions_augmented codec st =
     rbind (fetch_sessions st) (\<lambda>ss.
     rbind (augment_sessions codec ss st) (\<lambda>(xs, st').
     Inr (rev (sort_key session_sort_key xs), st')))"

section \<open>Reactions by emoji\<close>

record grouped_reaction =
  gx_message_id :: int
  gx_emoji :: string
  gx_count :: nat

text \<open>One group for each emoji; the order of the groups is SQLite's and taken as that of appearance.\<close>

definition fetch_grouped_reactions_for_message :: "int \<Rightarrow> storage \<Rightarrow> grouped_reaction list" where
  "fetch_grouped_reactions_for_message mid st =
     map (\<lambda>emoji. \<lparr> gx_message_id = mid, gx_emoji = emoji,
                    gx_count = count_where (\<lambda>x. x_emoji x = emoji) (reactions_of mid st) \<rparr>)
       (rev (remdups (rev (map x_emoji (reactions_of mid st)))))"

end
