(* ===== verification/AugmentedProps.thy ===== *)
theory AugmentedProps
  imports AugmentedQueries
begin

text \<open>
  The joined rows: when the two ways to get the messages of a session agree, and what the join of
  a whole session does when they do not.
\<close>

section \<open>One entry at a time\<close>

lemma take_if_simps [simp]:
  "take_if i [] = (None, [])"
  "take_if i ((j, v) # rest) = (if j = i then (Some v, rest) else (None, (j, v) # rest))"
  by (simp_all add: take_if_def)

text \<open>The groups of the messages in a list, in the order of the list.\<close>

definition groups_for :: "(int \<Rightarrow> bool) \<Rightarrow> (int \<Rightarrow> 'v) \<Rightarrow> int list \<Rightarrow> (int \<times> 'v) list" where
  "groups_for P v ids = map (\<lambda>i. (i, v i)) (filter P ids)"

lemma take_if_groups:
  assumes "i \<notin> set ids"
  shows "take_if i (groups_for P v (i # ids)) = (if P i then Some (v i) else None, groups_for P v ids)"
proof (cases "groups_for P v ids")
  case Nil
  then show ?thesis
    by (auto simp: groups_for_def)
next
  case (Cons jv rest)
  then have "fst jv \<in> set ids"
    by (cases jv) (auto simp: groups_for_def filter_eq_Cons_iff)
  then show ?thesis
    using assms Cons by (cases jv) (auto simp: groups_for_def)
qed

text \<open>With the groups in the order of the messages, every message gets its own.\<close>

definition joined_row ::
  "text_codec \<Rightarrow> storage \<Rightarrow> (int \<Rightarrow> group_v2_member option) \<Rightarrow> (int \<Rightarrow> bool \<times> nat) \<Rightarrow> (int \<Rightarrow> nat) \<Rightarrow>
     (int \<Rightarrow> receipt_counts) \<Rightarrow> message \<Rightarrow> augmented_message res" where
  "joined_row codec st members att reacts counts m =
     rbind (message_body_ranges codec m) (\<lambda>ranges.
     rbind (fetch_mentions codec ranges st) (\<lambda>mentions.
     Inr \<lparr> am_inner = m, am_attachments = snd (att (m_id m)), am_reactions = reacts (m_id m),
           am_is_voice_note = fst (att (m_id m)), am_receipt_counts = counts (m_id m),
           am_body_ranges = ranges, am_mentions = mentions,
           am_sender_membership = Option.bind (m_sender_recipient_id m) members \<rparr>))"

lemma rmap_cong_set: "(\<And>x. x \<in> set xs \<Longrightarrow> f x = g x) \<Longrightarrow> rmap f xs = rmap g xs"
  by (induction xs) auto

lemma rbind_assoc [simp]: "rbind (rbind m f) g = rbind m (\<lambda>x. rbind (f x) g)"
  by (cases m) simp_all

lemma join_messages_groups:
  assumes "distinct (map m_id ms)"
    and "\<And>i. \<not> PA i \<Longrightarrow> va i = (False, 0)" and "\<And>i. \<not> PX i \<Longrightarrow> vx i = 0"
    and "\<And>i. \<not> PR i \<Longrightarrow> rc_read (c i) = 0" and "\<And>i. \<not> PD i \<Longrightarrow> rc_delivered (c i) = 0"
    and "\<And>i. \<not> PV i \<Longrightarrow> rc_viewed (c i) = 0"
  shows "join_messages codec st members ms (groups_for PA va (map m_id ms)) (groups_for PX vx (map m_id ms))
      (groups_for PR (\<lambda>i. rc_read (c i)) (map m_id ms)) (groups_for PD (\<lambda>i. rc_delivered (c i)) (map m_id ms))
      (groups_for PV (\<lambda>i. rc_viewed (c i)) (map m_id ms))
    = rmap (joined_row codec st members va vx c) ms"
  using assms(1)
proof (induction ms)
  case Nil
  then show ?case by simp
next
  case (Cons m ms)
  have "m_id m \<notin> set (map m_id ms)"
    using Cons.prems by simp
  note take = take_if_groups[OF this]
  have "(case (if PA (m_id m) then Some (va (m_id m)) else None) of None \<Rightarrow> 0 | Some (_, n) \<Rightarrow> n) = snd (va (m_id m))"
      "(case (if PA (m_id m) then Some (va (m_id m)) else None) of None \<Rightarrow> False | Some (w, _) \<Rightarrow> w) = fst (va (m_id m))"
    using assms(2)[of "m_id m"] by (auto split: prod.split)
  moreover have "count_or_0 (if PX (m_id m) then Some (vx (m_id m)) else None) = vx (m_id m)"
      "\<lparr> rc_read = count_or_0 (if PR (m_id m) then Some (rc_read (c (m_id m))) else None),
         rc_delivered = count_or_0 (if PD (m_id m) then Some (rc_delivered (c (m_id m))) else None),
         rc_viewed = count_or_0 (if PV (m_id m) then Some (rc_viewed (c (m_id m))) else None) \<rparr> = c (m_id m)"
    using assms(3-6)[of "m_id m"] by (auto simp: count_or_0_def)
  ultimately show ?case
    using Cons.IH Cons.prems by (simp add: take Let_def joined_row_def del: map_map)
qed

section \<open>The groups of a session\<close>

lemma sorted_desc_unique:
  fixes xs ys :: "int list"
  assumes "sorted_wrt (>) xs" and "sorted_wrt (>) ys" and "set xs = set ys"
  shows "xs = ys"
proof -
  have "sorted_wrt (<) (rev xs)" "sorted_wrt (<) (rev ys)"
    using assms by (simp_all add: sorted_wrt_rev)
  then have "rev xs = rev ys"
    using assms(3) strict_sorted_equal[of "rev xs" "rev ys"] by simp
  then show ?thesis
    by simp
qed

definition session_ids :: "int \<Rightarrow> storage \<Rightarrow> int list" where
  "session_ids sid st = rev (sort (map m_id (filter (\<lambda>m. m_session_id m = sid) (messages (db st)))))"

lemma session_ids_desc: "distinct_keys m_id (messages (db st)) \<Longrightarrow> sorted_wrt (>) (session_ids sid st)"
  by (simp add: session_ids_def sorted_wrt_rev strict_sorted_iff distinct_keys_def distinct_map_filter)

lemma set_session_ids: "set (session_ids sid st) = m_id ` {m \<in> set (messages (db st)). m_session_id m = sid}"
  by (simp add: session_ids_def)

lemma set_fetch_all_messages:
  "set (fetch_all_messages sid recent st)
     = {m \<in> set (messages (db st)). m_session_id m = sid \<and> (recent \<longrightarrow> most_recent m)}"
  by (auto simp: fetch_all_messages_def by_timestamp_desc_def)

text \<open>
  The order of the messages is that of their ids, and no row of the other table belongs to a
  message that is not shown.
\<close>

lemma grouped_rows_for:
  assumes ids: "distinct_keys m_id (messages (db st))"
    and order: "sorted_wrt (\<lambda>m m'. m_id m > m_id m') (fetch_all_messages sid recent st)"
    and shown: "\<And>m r. m \<in> set (messages (db st)) \<Longrightarrow> m_session_id m = sid \<Longrightarrow> r \<in> set rows \<Longrightarrow> key r = m_id m \<Longrightarrow>
        recent \<longrightarrow> most_recent m"
  shows "map (\<lambda>(mid, rows). (mid, v rows)) (grouped_rows sid key rows st)
    = groups_for (\<lambda>i. exists_where (\<lambda>r. key r = i) rows) (\<lambda>i. v (filter (\<lambda>r. key r = i) rows))
        (map m_id (fetch_all_messages sid recent st))"
proof -
  let ?P = "\<lambda>i. exists_where (\<lambda>r. key r = i) rows"
  let ?shown = "map m_id (fetch_all_messages sid recent st)"
  have "filter ?P (session_ids sid st) = filter ?P ?shown"
  proof (rule sorted_desc_unique)
    show "sorted_wrt (>) (filter ?P (session_ids sid st))"
      using session_ids_desc[OF ids] by (rule sorted_wrt_filter)
    show "sorted_wrt (>) (filter ?P ?shown)"
      using order by (intro sorted_wrt_filter) (simp add: sorted_wrt_map)
    show "set (filter ?P (session_ids sid st)) = set (filter ?P ?shown)"
      using shown by (auto simp: set_session_ids set_fetch_all_messages exists_where_iff)
  qed
  then show ?thesis
    by (simp add: grouped_rows_def groups_for_def session_ids_def)
qed

section \<open>Both ways agree\<close>

lemma collect_map_unique:
  assumes "distinct (map key tab)"
  shows "collect_map (map (\<lambda>x. (key x, x)) tab) k = first_where (\<lambda>x. key x = k) tab"
proof -
  have "map_of (rev (map (\<lambda>x. (key x, x)) tab)) = map_of (map (\<lambda>x. (key x, x)) tab)"
    using assms by (intro map_of_inject_set[THEN iffD2]) (simp_all add: rev_map[symmetric] comp_def distinct_map)
  moreover have "map_of (map (\<lambda>x. (key x, x)) tab) k = first_where (\<lambda>x. key x = k) tab"
    by (induction tab) auto
  ultimately show ?thesis
    by (simp add: collect_map_def)
qed

lemma first_where_filter: "first_where P (filter Q tab) = first_where (\<lambda>x. Q x \<and> P x) tab"
  by (induction tab) auto

lemma sender_membership_joined:
  assumes "distinct_keys (\<lambda>m. (gm2_group_v2_id m, gm2_recipient_id m)) (group_v2_members (db st))"
    and "fetch_session_by_id sid st = Inr so" and "m_session_id m = sid"
  obtains members where "sender_memberships sid st = Inr members"
    and "fetch_message_sender_membership m st = Inr (Option.bind (m_sender_recipient_id m) members)"
proof -
  have unique: "distinct (map gm2_recipient_id (filter (\<lambda>m. gm2_group_v2_id m = gid) (group_v2_members (db st))))" for gid
    using assms(1) by (auto simp: distinct_keys_def distinct_map inj_on_def intro: distinct_filter)
  have found: "collect_map (map (\<lambda>m. (gm2_recipient_id m, m))
      (filter (\<lambda>m. gm2_group_v2_id m = gid) (group_v2_members (db st)))) rid = fetch_group_v2_member gid rid st" for gid rid
    unfolding collect_map_unique[OF unique] by (simp add: first_where_filter fetch_group_v2_member_def member_key_def[abs_def])
  show thesis
  proof (cases so)
    case None
    then show thesis
      using that assms(2,3) by (simp add: sender_memberships_def fetch_message_sender_membership_def)
  next
    case (Some s)
    show thesis
    proof (cases "e_type s")
      case (GroupV2Type g)
      then show thesis
        using that assms(2,3) Some found
        by (cases "m_sender_recipient_id m")
          (simp_all add: sender_memberships_def fetch_message_sender_membership_def unwrap_group_v2_def)
    qed (use that assms(2,3) Some in \<open>simp_all add: sender_memberships_def fetch_message_sender_membership_def\<close>)
  qed
qed

text \<open>
  What the join relies on: the messages are shown in the order of their ids, a hidden revision has
  neither attachments nor reactions nor receipts, and a voice note is the only attachment of its
  message.
\<close>

definition bare :: "int \<Rightarrow> storage \<Rightarrow> bool" where
  "bare mid st \<longleftrightarrow>
     \<not> exists_where (\<lambda>a. a_message_id a = mid) (attachments (db st))
     \<and> \<not> exists_where (\<lambda>x. x_message_id x = mid) (reactions (db st))
     \<and> \<not> exists_where (\<lambda>t. t_message_id t = mid) (receipts (db st))"

definition voice_alone :: "int \<Rightarrow> storage \<Rightarrow> bool" where
  "voice_alone mid st \<longleftrightarrow>
     length (attachments_of mid st) \<le> 1 \<or> \<not> exists_where a_is_voice_note (attachments_of mid st)"

definition joinable :: "int \<Rightarrow> bool \<Rightarrow> storage \<Rightarrow> bool" where
  "joinable sid recent st \<longleftrightarrow>
     sorted_wrt (\<lambda>m m'. m_id m > m_id m') (fetch_all_messages sid recent st)
     \<and> (\<forall>m\<in>set (messages (db st)). m_session_id m = sid \<longrightarrow>
          (recent \<longrightarrow> most_recent m) \<and> voice_alone (m_id m) st \<or> bare (m_id m) st)"

definition unique_rows :: "storage \<Rightarrow> bool" where
  "unique_rows st \<longleftrightarrow>
     distinct_keys m_id (messages (db st))
     \<and> distinct_keys (\<lambda>m. (gm2_group_v2_id m, gm2_recipient_id m)) (group_v2_members (db st))"

lemma joined_row_augment:
  assumes "voice_alone (m_id m) st"
    and "fetch_message_sender_membership m st = Inr (Option.bind (m_sender_recipient_id m) members)"
  shows "joined_row codec st members
      (\<lambda>i. (exists_where a_is_voice_note (attachments_of i st), length (attachments_of i st)))
      (\<lambda>i. length (reactions_of i st)) (\<lambda>i. count_message_receipts i st) m
    = augment_message codec m st"
proof -
  have "exists_where a_is_voice_note atts = (case atts of [a] \<Rightarrow> a_is_voice_note a | _ \<Rightarrow> False)"
    if "length atts \<le> 1 \<or> \<not> exists_where a_is_voice_note atts" for atts
    using that by (cases atts; cases "tl atts") auto
  from this[OF assms(1)[unfolded voice_alone_def]] show ?thesis
    using assms(2) by (simp add: joined_row_def augment_message_def Let_def)
qed

lemma voice_alone_bare: "bare mid st \<Longrightarrow> voice_alone mid st"
  by (auto simp: bare_def voice_alone_def attachments_of_def exists_where_iff)

lemma joinable_groups:
  assumes "unique_rows st" and "joinable sid recent st"
  defines "ids \<equiv> map m_id (fetch_all_messages sid recent st)"
  shows "attachment_groups sid st = groups_for (\<lambda>i. exists_where (\<lambda>a. a_message_id a = i) (attachments (db st)))
      (\<lambda>i. (exists_where a_is_voice_note (attachments_of i st), length (attachments_of i st))) ids"
    and "reaction_counts sid st = groups_for (\<lambda>i. exists_where (\<lambda>x. x_message_id x = i) (reactions (db st)))
      (\<lambda>i. length (reactions_of i st)) ids"
    and "receipt_counts_where sid P st
      = groups_for (\<lambda>i. exists_where (\<lambda>t. t_message_id t = i) (filter P (receipts (db st))))
          (\<lambda>i. count_where (\<lambda>t. t_message_id t = i \<and> P t) (receipts (db st))) ids"
proof -
  have unique: "distinct_keys m_id (messages (db st))"
    using assms(1) by (simp add: unique_rows_def)
  have order: "sorted_wrt (\<lambda>m m'. m_id m > m_id m') (fetch_all_messages sid recent st)"
    and shown: "\<And>m. m \<in> set (messages (db st)) \<Longrightarrow> m_session_id m = sid \<Longrightarrow> (recent \<longrightarrow> most_recent m) \<or> bare (m_id m) st"
    using assms(2) by (auto simp: joinable_def)
  note groups = grouped_rows_for[OF unique order]
  show "attachment_groups sid st = groups_for (\<lambda>i. exists_where (\<lambda>a. a_message_id a = i) (attachments (db st)))
      (\<lambda>i. (exists_where a_is_voice_note (attachments_of i st), length (attachments_of i st))) ids"
    unfolding attachment_groups_def attachments_of_def ids_def
    by (rule groups[where v = "\<lambda>rows. (exists_where a_is_voice_note rows, length rows)"])
      (use shown in \<open>force simp: bare_def exists_where_iff\<close>)
  show "reaction_counts sid st = groups_for (\<lambda>i. exists_where (\<lambda>x. x_message_id x = i) (reactions (db st)))
      (\<lambda>i. length (reactions_of i st)) ids"
    unfolding reaction_counts_def reactions_of_def ids_def
    by (rule groups[where v = length]) (use shown in \<open>force simp: bare_def exists_where_iff\<close>)
  have "length (filter (\<lambda>t. t_message_id t = i) (filter P (receipts (db st))))
      = count_where (\<lambda>t. t_message_id t = i \<and> P t) (receipts (db st))" for i
    by (simp add: count_where_def conj_commute)
  then show "receipt_counts_where sid P st
      = groups_for (\<lambda>i. exists_where (\<lambda>t. t_message_id t = i) (filter P (receipts (db st))))
          (\<lambda>i. count_where (\<lambda>t. t_message_id t = i \<and> P t) (receipts (db st))) ids"
    unfolding receipt_counts_where_def ids_def
    by (subst groups[where v = length]) (use shown in \<open>force simp: bare_def exists_where_iff\<close>, simp)
qed

lemma no_rows_no_count:
  "\<not> exists_where (\<lambda>t. key t = i) (filter P tab) \<Longrightarrow> count_where (\<lambda>t. key t = i \<and> P t) tab = 0"
  by (induction tab) (auto split: if_splits)

lemma joined_messages:
  assumes rows: "unique_rows st" and join: "joinable sid recent st" and session: "fetch_session_by_id sid st = Inr so"
  shows "fetch_all_messages_augmented codec sid recent st
    = rmap (\<lambda>m. augment_message codec m st) (fetch_all_messages sid recent st)"
proof -
  let ?ms = "fetch_all_messages sid recent st"
  let ?att = "\<lambda>i. (exists_where a_is_voice_note (attachments_of i st), length (attachments_of i st))"
  let ?members = "distinct_keys (\<lambda>m. (gm2_group_v2_id m, gm2_recipient_id m)) (group_v2_members (db st))"
  have unique: "?members"
    using rows by (simp add: unique_rows_def)
  obtain members where members: "sender_memberships sid st = Inr members"
    using sender_membership_joined[OF unique session, of "default_message\<lparr>m_session_id := sid\<rparr>"] by auto
  have "distinct (map m_id ?ms)"
    using rows by (auto simp: unique_rows_def fetch_all_messages_def by_timestamp_desc_def distinct_keys_def
        distinct_map inj_on_def)
  moreover have "\<not> exists_where (\<lambda>a. a_message_id a = i) (attachments (db st)) \<Longrightarrow> ?att i = (False, 0)"
      "\<not> exists_where (\<lambda>x. x_message_id x = i) (reactions (db st)) \<Longrightarrow> length (reactions_of i st) = 0" for i
    by (auto simp: attachments_of_def reactions_of_def exists_where_iff)
  ultimately have "fetch_all_messages_augmented codec sid recent st
      = rmap (joined_row codec st members ?att (\<lambda>i. length (reactions_of i st)) (\<lambda>i. count_message_receipts i st)) ?ms"
    unfolding fetch_all_messages_augmented_def joinable_groups[OF rows join] members rbind_Inr
    by (subst join_messages_groups[symmetric]) (auto simp: count_message_receipts_def no_rows_no_count)
  also have "\<dots> = rmap (\<lambda>m. augment_message codec m st) ?ms"
  proof (rule rmap_cong_set, rule joined_row_augment)
    fix m
    assume "m \<in> set ?ms"
    then have m: "m \<in> set (messages (db st))" "m_session_id m = sid"
      by (simp_all add: set_fetch_all_messages)
    then show "voice_alone (m_id m) st"
      using join by (auto simp: joinable_def voice_alone_bare)
    show "fetch_message_sender_membership m st = Inr (Option.bind (m_sender_recipient_id m) members)"
      using sender_membership_joined[OF unique session m(2)] members by auto
  qed
  finally show ?thesis .
qed

section \<open>The iterator that waits for a hidden message\<close>

text \<open>The entry of a message that is not shown is never taken, and nothing behind it is.\<close>

lemma take_if_waits:
  assumes "(h, v) \<in> set iter" and "sorted_wrt (\<lambda>x y. fst x > fst y) iter" and "i \<noteq> h"
    and "take_if i iter = (c, iter')"
  shows "(h, v) \<in> set iter' \<and> sorted_wrt (\<lambda>x y. fst x > fst y) iter'" and "i < h \<Longrightarrow> c = None"
  using assms by (cases iter; auto split: if_splits)+

lemma join_waits:
  assumes "join_messages codec st members ms atts reacts reads delivered viewed = Inr ams"
    and "(h, v) \<in> set delivered" and "sorted_wrt (\<lambda>x y. fst x > fst y) delivered" and "h \<notin> m_id ` set ms"
    and "am \<in> set ams" and "m_id (am_inner am) < h"
  shows "rc_delivered (am_receipt_counts am) = 0"
  using assms
proof (induction ms arbitrary: atts reacts reads delivered viewed ams)
  case Nil
  then show ?case by simp
next
  case (Cons m ms)
  obtain a atts' x reacts' r reads' d delivered' w viewed' where
    takes: "take_if (m_id m) atts = (a, atts')" "take_if (m_id m) reacts = (x, reacts')"
      "take_if (m_id m) reads = (r, reads')" "take_if (m_id m) viewed = (w, viewed')"
    and d: "take_if (m_id m) delivered = (d, delivered')"
    by (metis surj_pair)
  obtain am' rest where ams: "ams = am' # rest" "am_inner am' = m"
      "rc_delivered (am_receipt_counts am') = count_or_0 d"
    and rest: "join_messages codec st members ms atts' reacts' reads' delivered' viewed' = Inr rest"
    using Cons.prems(1) by (auto simp: takes d Let_def rbind_eq_Inr)
  have "m_id m \<noteq> h"
    using Cons.prems(4) by auto
  note waits = take_if_waits[OF Cons.prems(2,3) this d]
  show ?case
  proof (cases "am = am'")
    case True
    then show ?thesis
      using ams waits(2) Cons.prems(6) by (simp add: count_or_0_def)
  next
    case False
    then show ?thesis
      using Cons.IH[OF rest] waits(1) Cons.prems ams(1) by auto
  qed
qed

lemma receipt_counts_desc:
  assumes "distinct_keys m_id (messages (db st))"
  shows "sorted_wrt (\<lambda>x y. fst x > fst y) (receipt_counts_where sid P st)"
  using session_ids_desc[OF assms, of sid]
  by (auto simp: receipt_counts_where_def grouped_rows_def sorted_wrt_map session_ids_def intro: sorted_wrt_filter)

section \<open>Properties\<close>

definition receipt_demo :: "int \<Rightarrow> receipt" where
  "receipt_demo mid = \<lparr> t_message_id = mid, t_recipient_id = 1, t_delivered = Some 5, t_read = None, t_viewed = None \<rparr>"

text \<open>A conversation with three outgoing messages, where the third is an edit of the second or not.\<close>

definition conversation_demo :: "bool \<Rightarrow> storage" where
  "conversation_demo edited =
     \<lparr> db = empty_database\<lparr>
         recipients := [with_r_id 1 (new_recipient (Some 7) None None)],
         sessions := [with_s_id 1 (blank_session\<lparr>s_direct_message_recipient_id := Some 1\<rparr>)],
         messages :=
           [default_message\<lparr>m_id := 1, m_session_id := 1, m_server_timestamp := 10\<rparr>,
            default_message\<lparr>m_id := 2, m_session_id := 1, m_server_timestamp := 20,
              m_latest_revision_id := (if edited then Some 3 else None)\<rparr>,
            default_message\<lparr>m_id := 3, m_session_id := 1, m_server_timestamp := 30,
              m_latest_revision_id := (if edited then Some 3 else None)\<rparr>],
         receipts := [receipt_demo 1, receipt_demo 2]\<rparr>,
       conf = \<lparr> cfg_tel = None, cfg_aci = None, cfg_pni = None, cfg_home = ''/h'' \<rparr>,
       self_recipient = None, events = [], now = 1000, files = [] \<rparr>"

definition codec_demo :: text_codec where
  "codec_demo = \<lparr> decode_ranges = (\<lambda>_. None), parse_uuid = (\<lambda>_. None) \<rparr>"

text \<open>
  C36. Two ways to the same rows.  When the messages of a session are shown in the order of their
  ids, no hidden revision has attachments, reactions or receipts, and a voice note is the only
  attachment of its message, then fetching a whole session with one query for each number gives the
  rows that fetching message by message gives.
\<close>

theorem augmented_queries_agree:
  assumes "unique_rows st" and "joinable sid recent st" and "fetch_session_by_id sid st = Inr so"
  shows "fetch_all_messages_augmented codec sid recent st
    = rmap (\<lambda>m. augment_message codec m st) (fetch_all_messages sid recent st)"
  using assms by (rule joined_messages)

theorem augmented_queries_agree_witness:
  "\<exists>ams. fetch_all_messages_augmented codec_demo 1 True (conversation_demo False) = Inr ams
     \<and> map (\<lambda>am. (m_id (am_inner am), rc_delivered (am_receipt_counts am))) ams = [(3, 0), (2, 1), (1, 1)]"
proof -
  let ?st = "conversation_demo False"
  have "unique_rows ?st" "joinable 1 True ?st"
    by code_simp+
  moreover obtain so where "fetch_session_by_id 1 ?st = Inr so"
    by (cases "fetch_session_by_id 1 ?st") (simp, code_simp, blast)
  ultimately have "fetch_all_messages_augmented codec_demo 1 True ?st
      = rmap (\<lambda>m. augment_message codec_demo m ?st) (fetch_all_messages 1 True ?st)"
    by (rule augmented_queries_agree)
  moreover have "rbind (rmap (\<lambda>m. augment_message codec_demo m ?st) (fetch_all_messages 1 True ?st))
      (\<lambda>ams. Inr (map (\<lambda>am. (m_id (am_inner am), rc_delivered (am_receipt_counts am))) ams)) = Inr [(3, 0), (2, 1), (1, 1)]"
    by code_simp
  ultimately show ?thesis
    by (auto simp: rbind_eq_Inr)
qed

text \<open>
  Lost ticks.  When a hidden revision of an edited message has been delivered to somebody, no
  older message of the conversation is shown as delivered, because the iterator over the receipts
  stops at the hidden revision.
\<close>

theorem edits_hide_receipts:
  assumes "fetch_all_messages_augmented codec sid True st = Inr ams" and "distinct_keys m_id (messages (db st))"
    and "h \<in> set (messages (db st))" and "m_session_id h = sid" and "\<not> most_recent h"
    and "t \<in> set (receipts (db st))" and "t_message_id t = m_id h" and "t_delivered t \<noteq> None"
    and "am \<in> set ams" and "m_id (am_inner am) < m_id h"
  shows "rc_delivered (am_receipt_counts am) = 0"
proof -
  let ?delivered = "receipt_counts_where sid (\<lambda>t. t_delivered t \<noteq> None) st"
  obtain members where join: "join_messages codec st members (fetch_all_messages sid True st)
      (attachment_groups sid st) (reaction_counts sid st) (receipt_counts_where sid (\<lambda>t. t_read t \<noteq> None) st)
      ?delivered (receipt_counts_where sid (\<lambda>t. t_viewed t \<noteq> None) st) = Inr ams"
    using assms(1) by (auto simp: fetch_all_messages_augmented_def)
  have "m_id h \<in> set (filter (\<lambda>mid. exists_where (\<lambda>t. t_message_id t = mid) (filter (\<lambda>t. t_delivered t \<noteq> None) (receipts (db st))))
      (session_ids sid st))"
    using assms(3,4,6-8) by (auto simp: set_session_ids exists_where_iff)
  then obtain v where "(m_id h, v) \<in> set ?delivered"
    by (force simp: receipt_counts_where_def grouped_rows_def session_ids_def)
  moreover have "m_id h \<notin> m_id ` set (fetch_all_messages sid True st)"
    using distinct_keys_inj[OF assms(2) assms(3)] assms(5) by (auto simp: set_fetch_all_messages)
  ultimately show ?thesis
    using join_waits[OF join _ receipt_counts_desc[OF assms(2)] _ assms(9,10)] by blast
qed

theorem edits_hide_receipts_witness:
  "\<exists>am. fetch_all_messages_augmented codec_demo 1 True (conversation_demo True) = Inr [fst am, snd am]
     \<and> m_id (am_inner (snd am)) = 1 \<and> rc_delivered (am_receipt_counts (snd am)) = 0
     \<and> rc_delivered (count_message_receipts 1 (conversation_demo True)) = 1"
proof -
  let ?st = "conversation_demo True"
  have "rbind (fetch_all_messages_augmented codec_demo 1 True ?st)
      (\<lambda>ams. Inr (map (m_id \<circ> am_inner) ams)) = Inr [3, 1]"
    by code_simp
  then obtain a b where ams: "fetch_all_messages_augmented codec_demo 1 True ?st = Inr [a, b]"
      "m_id (am_inner b) = 1"
    by (auto simp: rbind_eq_Inr map_eq_Cons_conv)
  moreover have "rc_delivered (am_receipt_counts b) = 0"
  proof (rule edits_hide_receipts[OF ams(1), of "messages (db ?st) ! 1" "receipt_demo 2" b])
    show "distinct_keys m_id (messages (db ?st))" "messages (db ?st) ! 1 \<in> set (messages (db ?st))"
        "m_session_id (messages (db ?st) ! 1) = 1" "\<not> most_recent (messages (db ?st) ! 1)"
        "receipt_demo 2 \<in> set (receipts (db ?st))" "t_message_id (receipt_demo 2) = m_id (messages (db ?st) ! 1)"
        "t_delivered (receipt_demo 2) \<noteq> None"
      by code_simp+
    have "m_id (messages (db ?st) ! 1) = 2"
      by code_simp
    then show "m_id (am_inner b) < m_id (messages (db ?st) ! 1)"
      using ams(2) by simp
  qed simp
  moreover have "rc_delivered (count_message_receipts 1 ?st) = 1"
    by code_simp
  ultimately show ?thesis
    by (intro exI[of _ "(a, b)"]) simp
qed

end
