(* ===== verification/MessageView.thy ===== *)
theory MessageView
  imports AugmentedQueries
begin

text \<open>
  The lists the user interface shows, kept up to date event by event: the messages of a conversation
  (\<open>MessageListModel\<close> in \<open>whisperfish/src/model/messages.rs\<close>) and what the views are interested in
  (\<open>whisperfish-store/src/store/observer/orm_interests.rs\<close>).

  The signals to Qt about inserted, removed and changed rows are not modelled; the list is.
\<close>

section \<open>Lists kept in descending order\<close>

text \<open>
  The binary search of the standard library over reversed keys: \<open>Inr\<close> the place of the key, or
  \<open>Inl\<close> the place where it belongs.  In a list that is not in descending order the library may
  find another place; the lists below are in order.
\<close>

definition search_desc :: "'k :: linorder list \<Rightarrow> 'k \<Rightarrow> nat + nat" where
  "search_desc ks k =
     (let i = length (takeWhile (\<lambda>x. x > k) ks)
      in if i < length ks \<and> ks ! i = k then Inr i else Inl i)"

definition insert_at :: "nat \<Rightarrow> 'a \<Rightarrow> 'a list \<Rightarrow> 'a list" where
  "insert_at i x xs = take i xs @ x # drop i xs"

definition remove_at :: "nat \<Rightarrow> 'a list \<Rightarrow> 'a list" where
  "remove_at i xs = take i xs @ drop (Suc i) xs"

text \<open>The first element with a property, and its place.\<close>

definition position_where :: "('a \<Rightarrow> bool) \<Rightarrow> 'a list \<Rightarrow> nat option" where
  "position_where P xs =
     (let i = length (takeWhile (\<lambda>x. \<not> P x) xs) in if i < length xs then Some i else None)"

section \<open>The messages of a conversation\<close>

definition message_key :: "augmented_message \<Rightarrow> timestamp \<times> int" where
  "message_key am = (m_server_timestamp (am_inner am), m_id (am_inner am))"

definition load_messages :: "text_codec \<Rightarrow> int \<Rightarrow> storage \<Rightarrow> augmented_message list res" where
  "load_messages codec sid st = fetch_all_messages_augmented codec sid True st"

text \<open>The row of an inserted or updated message, in the four cases of the search.\<close>

definition place_message :: "augmented_message \<Rightarrow> augmented_message list \<Rightarrow> augmented_message list" where
  "place_message am ams =
     (case search_desc (map message_key ams) (message_key am) of
        Inr i \<Rightarrow> if is_latest_revision (am_inner am) then ams[i := am] else remove_at i ams
      | Inl i \<Rightarrow> if is_latest_revision (am_inner am) then insert_at i am ams else ams)"

definition observe_messages ::
  "text_codec \<Rightarrow> int \<Rightarrow> storage \<Rightarrow> event \<Rightarrow> augmented_message list \<Rightarrow> augmented_message list res" where
  "observe_messages codec sid st ev ams =
     rbind (opt_panic ''message-related event observation''
              (Option.bind (relation_key_for ev SubMessages) Observer.as_i32)) (\<lambda>mid.
     if is_delete ev \<and> for_table ev SubMessages
     then Inr (case position_where (\<lambda>am. m_id (am_inner am) = mid) ams of
                 None \<Rightarrow> ams
               | Some i \<Rightarrow> remove_at i ams)
     else if is_update_or_insert ev \<or> for_table ev SubReactions
     then rbind (fetch_augmented_message codec mid st) (\<lambda>amo.
          rbind (opt_panic ''inserted message'' amo) (\<lambda>am.
          Inr (if m_session_id (am_inner am) \<noteq> sid then ams else place_message am ams)))
     else load_messages codec sid st)"

text \<open>
  Finding a row by its id: the binary search may find it although the list is ordered by
  timestamps; \<open>probe\<close> is its result.  If it does not, the list is searched from the start.
\<close>

definition find_message_index :: "nat option \<Rightarrow> int \<Rightarrow> augmented_message list \<Rightarrow> int" where
  "find_message_index probe mid ams =
     (if ams = [] then -1
      else (case probe of
              Some i \<Rightarrow> int i
            | None \<Rightarrow>
                (case position_where (\<lambda>am. m_id (am_inner am) = mid) ams of
                   Some i \<Rightarrow> int i
                 | None \<Rightarrow> -1)))"

section \<open>What views are interested in\<close>

definition message_interests :: "message \<Rightarrow> interest list" where
  "message_interests m = [row_interest SubMessages (RowId (m_id m))]"

definition augmented_message_interests :: "augmented_message \<Rightarrow> interest list" where
  "augmented_message_interests am =
     (let of_message = (\<lambda>t. whole_table_with_relation t SubMessages (RowId (m_id (am_inner am))))
      in message_interests (am_inner am) @ [of_message SubAttachments, of_message SubReactions, of_message SubReceipts])"

definition session_interests :: "session \<Rightarrow> interest list" where
  "session_interests s = [row_interest SubSessions (RowId (e_id s))]"

definition augmented_session_interests :: "augmented_session \<Rightarrow> interest list" where
  "augmented_session_interests x =
     session_interests (as_inner x)
     @ (case as_last_message x of None \<Rightarrow> [] | Some am \<Rightarrow> augmented_message_interests am)
     @ (case e_type (as_inner x) of
          DirectMessage _ \<Rightarrow> []
        | GroupV1Type g \<Rightarrow> [whole_table_with_relation SubGroupV1Members SubGroupV1s (StringRowId (g1_id g))]
        | GroupV2Type g \<Rightarrow> [whole_table_with_relation SubGroupV2Members SubGroupV2s (StringRowId (g2_id g))])
     @ [whole_table_with_relation SubMessages SubSessions (RowId (e_id (as_inner x)))]"

definition recipient_interests :: "recipient \<Rightarrow> interest list" where
  "recipient_interests r = [row_interest SubRecipients (RowId (r_id r))]"

definition attachment_interests :: "attachment \<Rightarrow> interest list" where
  "attachment_interests a = [row_interest SubAttachments (RowId (a_id a))]"

definition reaction_interests :: "reaction \<Rightarrow> interest list" where
  "reaction_interests x = [row_interest SubReactions (RowId (x_reaction_id x))]"

definition grouped_reaction_interests :: "grouped_reaction \<Rightarrow> interest list" where
  "grouped_reaction_interests x = [whole_table_with_relation SubReactions SubMessages (RowId (gx_message_id x))]"

definition receipt_interests :: "receipt \<Rightarrow> interest list" where
  "receipt_interests t = [whole_table_with_relation SubReceipts SubMessages (RowId (t_message_id t))]"

definition group_v1_interests :: "group_v1 \<Rightarrow> interest list" where
  "group_v1_interests g = [row_interest SubGroupV1s (StringRowId (g1_id g))]"

definition group_v2_interests :: "group_v2 \<Rightarrow> interest list" where
  "group_v2_interests g = [row_interest SubGroupV2s (StringRowId (g2_id g))]"

end
