(* ===== verification/MessageViewProps.thy ===== *)
theory MessageViewProps
  imports MessageView AugmentedProps
begin

text \<open>
  The list of a conversation follows the store: whatever happened to some of the messages, once the
  events about them have been handled, in any order, the list is what the store holds.
\<close>

section \<open>Lists in descending order\<close>

definition desc :: "('a \<Rightarrow> 'k :: linorder) \<Rightarrow> 'a list \<Rightarrow> bool" where
  "desc key xs = sorted_wrt (\<lambda>x y. key x > key y) xs"

lemma desc_append:
  "desc key (xs @ ys) \<longleftrightarrow> desc key xs \<and> desc key ys \<and> (\<forall>x\<in>set xs. \<forall>y\<in>set ys. key x > key y)"
  by (auto simp: desc_def sorted_wrt_append)

lemma desc_Cons: "desc key (x # xs) \<longleftrightarrow> (\<forall>y\<in>set xs. key x > key y) \<and> desc key xs"
  by (simp add: desc_def)

lemmas desc_simps = desc_append desc_Cons

lemma desc_inj: "desc key xs \<Longrightarrow> x \<in> set xs \<Longrightarrow> y \<in> set xs \<Longrightarrow> key x = key y \<Longrightarrow> x = y"
  by (induction xs) (simp, metis desc_Cons less_irrefl set_ConsD)

lemma desc_unique:
  assumes "desc key xs" and "desc key ys" and "set xs = set ys"
  shows "xs = ys"
proof (rule map_inj_on)
  have keys: "sorted_wrt (<) (rev (map key zs))" if "desc key zs" for zs
    using that unfolding desc_def sorted_wrt_rev sorted_wrt_map .
  have "rev (map key xs) = rev (map key ys)"
    using keys[OF assms(1)] keys[OF assms(2)] assms(3) by (intro strict_sorted_equal) simp_all
  then show "map key xs = map key ys"
    by simp
  show "inj_on key (set xs \<union> set ys)"
    using desc_inj[OF assms(1)] assms(3) by (auto simp: inj_on_def)
qed

lemma search_cases:
  assumes "desc key xs"
  obtains (found) us v vs where "xs = us @ v # vs" and "search_desc (map key xs) k = Inr (length us)"
      and "key v = k" and "\<forall>u\<in>set us. key u > k" and "\<forall>w\<in>set vs. key w < k"
  | (absent) us vs where "xs = us @ vs" and "search_desc (map key xs) k = Inl (length us)"
      and "\<forall>u\<in>set us. key u > k" and "\<forall>w\<in>set vs. key w < k"
proof -
  define us where "us = takeWhile (\<lambda>x. key x > k) xs"
  define vs where "vs = dropWhile (\<lambda>x. key x > k) xs"
  have xs: "xs = us @ vs"
    by (simp add: us_def vs_def)
  have us: "\<forall>u\<in>set us. key u > k"
    by (auto simp: us_def dest: set_takeWhileD)
  have len: "length (takeWhile (\<lambda>x. x > k) (map key xs)) = length us"
    by (simp add: us_def takeWhile_map comp_def)
  show thesis
  proof (cases vs)
    case Nil
    then show thesis
      using absent[of us vs] xs us len by (simp add: search_desc_def Let_def)
  next
    case (Cons v vs')
    have "\<not> key v > k"
      using Cons by (simp add: vs_def dropWhile_eq_Cons_conv)
    moreover have "\<forall>w\<in>set vs'. key w < key v"
      using assms xs Cons by (simp add: desc_simps)
    moreover have "map key xs ! length us = key v"
      by (simp add: xs Cons nth_append)
    ultimately show thesis
      using found[of us v vs'] absent[of us vs] xs us len Cons
      by (cases "key v = k") (fastforce simp: search_desc_def Let_def)+
  qed
qed

lemma edit_list [simp]:
  "insert_at (length us) x (us @ vs) = us @ x # vs"
  "remove_at (length us) (us @ v # vs) = us @ vs"
  by (simp_all add: insert_at_def remove_at_def)

lemma position_cases:
  obtains (found) us v vs where "xs = us @ v # vs" and "position_where P xs = Some (length us)"
      and "P v" and "\<forall>u\<in>set us. \<not> P u"
  | (absent) "position_where P xs = None" and "\<forall>x\<in>set xs. \<not> P x"
proof (cases "dropWhile (\<lambda>x. \<not> P x) xs")
  case Nil
  then have "\<forall>x\<in>set xs. \<not> P x"
    by simp
  moreover from this have all: "takeWhile (\<lambda>x. \<not> P x) xs = xs"
    by (simp add: takeWhile_eq_all_conv)
  ultimately show thesis
    using absent by (simp add: position_where_def Let_def all)
next
  case (Cons v vs)
  define us where "us = takeWhile (\<lambda>x. \<not> P x) xs"
  have "xs = us @ v # vs \<and> \<not> \<not> P v"
    using Cons unfolding us_def dropWhile_eq_Cons_conv .
  then have xs: "xs = us @ v # vs" and "P v"
    by simp_all
  have "length us < length xs"
    by (simp add: xs)
  then have "position_where P xs = Some (length us)"
    by (simp add: position_where_def Let_def flip: us_def)
  moreover have "\<forall>u\<in>set us. \<not> P u"
    by (auto simp: us_def dest: set_takeWhileD)
  ultimately show thesis
    using found[OF xs] \<open>P v\<close> by blast
qed

section \<open>Placing one message\<close>

abbreviation am_id :: "augmented_message \<Rightarrow> int" where
  "am_id am \<equiv> m_id (am_inner am)"

definition well_listed :: "augmented_message list \<Rightarrow> bool" where
  "well_listed ams \<longleftrightarrow> desc message_key ams \<and> distinct (map am_id ams)"

lemma place_message_result:
  assumes "well_listed ams" and same: "\<forall>a\<in>set ams. am_id a = am_id am \<longrightarrow> message_key a = message_key am"
  shows "well_listed (place_message am ams)
    \<and> set (place_message am ams) = {a \<in> set ams. am_id a \<noteq> am_id am} \<union> (if is_latest_revision (am_inner am) then {am} else {})"
proof -
  have order: "desc message_key ams" and ids: "distinct (map am_id ams)"
    using assms(1) by (simp_all add: well_listed_def)
  have key_id: "message_key a = message_key b \<Longrightarrow> am_id a = am_id b" for a b
    by (simp add: message_key_def)
  from order show ?thesis
  proof (cases rule: search_cases[where k = "message_key am"])
    case (found us v vs)
    then have "am_id v = am_id am"
      using key_id by blast
    moreover have "am_id v \<notin> am_id ` set (us @ vs)"
      using ids found(1) by auto
    ultimately have "\<forall>a\<in>set (us @ vs). am_id a \<noteq> am_id am"
      by (metis imageI)
    then show ?thesis
      using found order ids \<open>am_id v = am_id am\<close> by (auto simp: place_message_def well_listed_def desc_simps)
  next
    case (absent us vs)
    then have "\<forall>a\<in>set ams. am_id a \<noteq> am_id am"
      using same by fastforce
    then show ?thesis
      using absent order ids by (auto simp: place_message_def well_listed_def desc_simps)
  qed
qed

section \<open>What the list should be\<close>

definition in_view :: "text_codec \<Rightarrow> int \<Rightarrow> storage \<Rightarrow> augmented_message \<Rightarrow> bool" where
  "in_view codec sid st am \<longleftrightarrow>
     (\<exists>m\<in>set (messages (db st)). m_session_id m = sid \<and> is_latest_revision m \<and> augment_message codec m st = Inr am)"

definition shows_session :: "text_codec \<Rightarrow> int \<Rightarrow> storage \<Rightarrow> augmented_message list \<Rightarrow> bool" where
  "shows_session codec sid st ams \<longleftrightarrow> well_listed ams \<and> (\<forall>am. am \<in> set ams \<longleftrightarrow> in_view codec sid st am)"

text \<open>A list that may be out of date about the messages with ids in a set.\<close>

definition stale :: "int set \<Rightarrow> text_codec \<Rightarrow> int \<Rightarrow> storage \<Rightarrow> augmented_message list \<Rightarrow> bool" where
  "stale D codec sid st ams \<longleftrightarrow>
     well_listed ams
     \<and> (\<forall>am. am_id am \<notin> D \<longrightarrow> (am \<in> set ams \<longleftrightarrow> in_view codec sid st am))
     \<and> (\<forall>am\<in>set ams. am_id am \<in> D \<longrightarrow>
          (\<forall>m\<in>set (messages (db st)). m_id m = am_id am \<longrightarrow>
             m_server_timestamp m = m_server_timestamp (am_inner am) \<and> m_session_id m = sid))"

lemma shows_stale: "shows_session codec sid st ams = stale {} codec sid st ams"
  by (simp add: shows_session_def stale_def)

lemma augment_inner: "augment_message codec m st = Inr am \<Longrightarrow> am_inner am = m"
  by (auto simp: augment_message_def Let_def rbind_eq_Inr)

lemma in_view_row:
  assumes "distinct_keys m_id (messages (db st))" and "m \<in> set (messages (db st))" and "am_id am = m_id m"
  shows "in_view codec sid st am \<longleftrightarrow> m_session_id m = sid \<and> is_latest_revision m \<and> augment_message codec m st = Inr am"
  using distinct_keys_inj[OF assms(1)] assms(2,3) augment_inner by (fastforce simp: in_view_def)

text \<open>The event is about a message that was deleted, or that can be read.\<close>

definition handled :: "text_codec \<Rightarrow> storage \<Rightarrow> event \<Rightarrow> int \<Rightarrow> bool" where
  "handled codec st ev mid \<longleftrightarrow>
     relation_key_for ev SubMessages = Some (RowId mid)
     \<and> (case fetch_message_by_id mid st of
          None \<Rightarrow> is_delete ev \<and> for_table ev SubMessages
        | Some m \<Rightarrow>
            \<not> (is_delete ev \<and> for_table ev SubMessages) \<and> (is_update_or_insert ev \<or> for_table ev SubReactions)
            \<and> (case augment_message codec m st of Inl _ \<Rightarrow> False | Inr _ \<Rightarrow> True))"

lemma well_listed_remove: "well_listed (us @ v # vs) \<Longrightarrow> well_listed (us @ vs)"
  by (auto simp: well_listed_def desc_simps)

lemma stale_deleted:
  assumes "stale D codec sid st ams" and none: "\<forall>m\<in>set (messages (db st)). m_id m \<noteq> mid"
  shows "stale (D - {mid}) codec sid st
    (case position_where (\<lambda>am. am_id am = mid) ams of None \<Rightarrow> ams | Some i \<Rightarrow> remove_at i ams)"
proof -
  have no_view: "\<not> in_view codec sid st am" if "am_id am = mid" for am
    using none that augment_inner by (fastforce simp: in_view_def)
  show ?thesis
  proof (cases rule: position_cases[of ams "\<lambda>am. am_id am = mid"])
    case (found us v vs)
    then have all: "well_listed (us @ v # vs)"
      using assms(1) by (simp add: stale_def)
    then have wl: "well_listed (us @ vs)"
      by (rule well_listed_remove)
    have "am_id v \<notin> am_id ` set (us @ vs)"
      using all by (auto simp: well_listed_def)
    then have only: "\<forall>am\<in>set (us @ vs). am_id am \<noteq> mid"
      using found(3) by (metis imageI)
    have "am \<in> set (us @ vs) \<longleftrightarrow> am \<in> set ams \<and> am_id am \<noteq> mid" for am
      using only found(1,3) by auto
    then show ?thesis
      using assms(1) found wl no_view unfolding stale_def by auto
  next
    case absent
    then show ?thesis
      using assms(1) no_view unfolding stale_def by auto
  qed
qed

lemma stale_placed:
  assumes st: "stale D codec sid st ams" and ids: "distinct_keys m_id (messages (db st))"
    and m: "m \<in> set (messages (db st))" and am: "augment_message codec m st = Inr am"
  shows "stale (D - {m_id m}) codec sid st (if m_session_id m \<noteq> sid then ams else place_message am ams)"
proof -
  have inner: "am_inner am = m"
    using am by (rule augment_inner)
  have old: "m_server_timestamp m = m_server_timestamp (am_inner a) \<and> m_session_id m = sid"
    if "a \<in> set ams" and "am_id a = m_id m" for a
  proof (cases "m_id m \<in> D")
    case True
    then show ?thesis
      using st that m by (simp add: stale_def)
  next
    case False
    then have "in_view codec sid st a"
      using st that by (simp add: stale_def)
    then show ?thesis
      using in_view_row[OF ids m that(2)] augment_inner by auto
  qed
  have view: "in_view codec sid st a \<longleftrightarrow> m_session_id m = sid \<and> is_latest_revision m \<and> a = am"
    if "am_id a = m_id m" for a
    using in_view_row[OF ids m that] am by auto
  show ?thesis
  proof (cases "m_session_id m = sid")
    case True
    have "\<forall>a\<in>set ams. am_id a = am_id am \<longrightarrow> message_key a = message_key am"
      using old by (simp add: inner message_key_def)
    then have placed: "well_listed (place_message am ams)"
        "set (place_message am ams) = {a \<in> set ams. am_id a \<noteq> m_id m} \<union> (if is_latest_revision m then {am} else {})"
      using place_message_result[of ams am] st by (simp_all add: stale_def inner)
    show ?thesis
      using True st placed view inner unfolding stale_def by auto
  next
    case False
    then have "\<forall>a\<in>set ams. am_id a \<noteq> m_id m"
      using old by blast
    then show ?thesis
      using False st view unfolding stale_def by auto
  qed
qed

lemma observe_step:
  assumes "stale D codec sid st ams" and ids: "distinct_keys m_id (messages (db st))" and ev: "handled codec st ev mid"
  obtains ams' where "observe_messages codec sid st ev ams = Inr ams'" and "stale (D - {mid}) codec sid st ams'"
proof (cases "fetch_message_by_id mid st")
  case None
  then have "\<forall>m\<in>set (messages (db st)). m_id m \<noteq> mid"
    by (simp add: fetch_message_by_id_def first_where_None)
  then show thesis
    using stale_deleted[OF assms(1)] that ev None by (simp add: handled_def observe_messages_def)
next
  case (Some m)
  then have m: "m \<in> set (messages (db st))" "m_id m = mid"
    by (auto simp: fetch_message_by_id_def dest: first_where_SomeD)
  obtain am where am: "augment_message codec m st = Inr am"
    using ev Some by (cases "augment_message codec m st") (simp_all add: handled_def)
  have "observe_messages codec sid st ev ams
      = Inr (if m_session_id m \<noteq> sid then ams else place_message am ams)"
    using ev Some am augment_inner[OF am]
    by (auto simp: handled_def observe_messages_def fetch_augmented_message_def)
  then show thesis
    using stale_placed[OF assms(1) ids m(1) am] that m(2) by simp
qed

fun observe_events ::
  "text_codec \<Rightarrow> int \<Rightarrow> storage \<Rightarrow> event list \<Rightarrow> augmented_message list \<Rightarrow> augmented_message list res" where
  "observe_events codec sid st [] ams = Inr ams"
| "observe_events codec sid st (ev # evs) ams =
     rbind (observe_messages codec sid st ev ams) (observe_events codec sid st evs)"

lemma observe_events_stale:
  assumes "stale D codec sid st ams" and "distinct_keys m_id (messages (db st))"
    and "list_all2 (handled codec st) evs mids"
  shows "\<exists>ams'. observe_events codec sid st evs ams = Inr ams' \<and> stale (D - set mids) codec sid st ams'"
  using assms(3,1)
proof (induction evs mids arbitrary: D ams rule: list_all2_induct)
  case Nil
  then show ?case by simp
next
  case (Cons ev evs mid mids)
  obtain ams1 where 1: "observe_messages codec sid st ev ams = Inr ams1" "stale (D - {mid}) codec sid st ams1"
    using observe_step[OF Cons.prems assms(2) Cons.hyps(1)] by blast
  then show ?case
    using Cons.IH[OF 1(2)] by (simp add: set_diff_eq Diff_insert2 flip: Diff_insert)
qed

section \<open>A list that has been loaded\<close>

definition well_loaded :: "text_codec \<Rightarrow> int \<Rightarrow> storage \<Rightarrow> augmented_message list \<Rightarrow> bool" where
  "well_loaded codec sid st ams \<longleftrightarrow>
     unique_rows st \<and> joinable sid True st
     \<and> (case fetch_session_by_id sid st of Inl _ \<Rightarrow> False | Inr _ \<Rightarrow> True) \<and> load_messages codec sid st = Inr ams"

lemma rmap_list_all2: "rmap f xs = Inr ys \<longleftrightarrow> list_all2 (\<lambda>x y. f x = Inr y) xs ys"
  by (induction xs arbitrary: ys) (auto simp: rbind_eq_Inr list_all2_Cons1)

lemma list_all2_map_eq: "list_all2 R xs ys \<Longrightarrow> (\<And>x y. R x y \<Longrightarrow> g y = x) \<Longrightarrow> map g ys = xs"
  by (induction rule: list_all2_induct) auto

lemma list_all2_images:
  "list_all2 (\<lambda>x y. f x = Inr y) xs ys \<Longrightarrow> y \<in> set ys \<longleftrightarrow> (\<exists>x\<in>set xs. f x = Inr y)"
  by (induction rule: list_all2_induct) auto

lemma most_recent_latest: "most_recent m = is_latest_revision m"
  by (auto simp: most_recent_def is_latest_revision_def latest_revision_id_def split: option.splits)

lemma fetched_order:
  assumes "joinable sid True st"
  shows "sorted_wrt (\<lambda>m m'. (m_server_timestamp m, m_id m) > (m_server_timestamp m', m_id m'))
    (fetch_all_messages sid True st)"
proof -
  let ?ms = "fetch_all_messages sid True st"
  have "sorted_wrt (\<lambda>m m'. m_id m > m_id m') ?ms"
    using assms by (simp add: joinable_def)
  moreover have "sorted_wrt (\<lambda>m m'. m_server_timestamp m \<ge> m_server_timestamp m') ?ms"
    using sorted_sort_key[of "\<lambda>m. - m_server_timestamp m"]
    by (simp add: fetch_all_messages_def by_timestamp_desc_def sorted_map)
  ultimately have "sorted_wrt (\<lambda>m m'. m_id m > m_id m' \<and> m_server_timestamp m \<ge> m_server_timestamp m') ?ms"
    by (simp add: sorted_wrt_iff_nth_less)
  then show ?thesis
    by (rule sorted_wrt_mono_rel[rotated]) (auto simp: less_prod_simp)
qed

lemma well_loaded_shows:
  assumes "well_loaded codec sid st ams"
  shows "shows_session codec sid st ams"
proof -
  let ?ms = "fetch_all_messages sid True st"
  have ok: "unique_rows st" "joinable sid True st" "load_messages codec sid st = Inr ams"
    using assms by (simp_all add: well_loaded_def)
  obtain so where so: "fetch_session_by_id sid st = Inr so"
    using assms by (cases "fetch_session_by_id sid st") (simp_all add: well_loaded_def)
  have "rmap (\<lambda>m. augment_message codec m st) ?ms = Inr ams"
    using ok(3) joined_messages[OF ok(1,2) so] by (simp add: load_messages_def)
  then have rows: "list_all2 (\<lambda>m am. augment_message codec m st = Inr am) ?ms ams"
    by (simp add: rmap_list_all2)
  then have inner: "map am_inner ams = ?ms"
    by (rule list_all2_map_eq) (rule augment_inner)
  have "desc message_key ams"
    using fetched_order[OF ok(2)] unfolding desc_def inner[symmetric] by (simp add: sorted_wrt_map message_key_def)
  moreover have "distinct (map am_id ams)"
  proof -
    have "distinct (map m_id ?ms)"
      using ok(1) by (auto simp: unique_rows_def fetch_all_messages_def by_timestamp_desc_def distinct_keys_def
          distinct_map inj_on_def)
    then show ?thesis
      by (simp add: comp_def flip: inner)
  qed
  moreover have "am \<in> set ams \<longleftrightarrow> (\<exists>m\<in>set ?ms. augment_message codec m st = Inr am)" for am
    using rows by (rule list_all2_images)
  ultimately show ?thesis
    by (auto simp: shows_session_def well_listed_def in_view_def set_fetch_all_messages most_recent_latest)
qed

section \<open>Properties\<close>

text \<open>
  What changed between two states concerns the messages with the given ids: the rows of all others
  are the same, and no message changed its time or its session.
\<close>

definition changed_only :: "text_codec \<Rightarrow> int \<Rightarrow> int list \<Rightarrow> storage \<Rightarrow> storage \<Rightarrow> bool" where
  "changed_only codec sid mids st st' \<longleftrightarrow>
     (\<forall>am. am_id am \<notin> set mids \<longrightarrow> in_view codec sid st' am = in_view codec sid st am)
     \<and> (\<forall>m\<in>set (messages (db st)). \<forall>m'\<in>set (messages (db st')). m_id m = m_id m' \<longrightarrow>
          m_server_timestamp m' = m_server_timestamp m \<and> m_session_id m' = m_session_id m)"

text \<open>When only message rows changed, those of other messages look the same.\<close>

lemma augment_other_tables:
  assumes "db st' = (db st)\<lparr>messages := ms\<rparr>"
  shows "augment_message codec m st' = augment_message codec m st"
proof -
  have "fetch_mentions codec ranges st' = fetch_mentions codec ranges st" for ranges
    by (simp add: fetch_mentions_def fetch_recipient_def assms)
  moreover have session: "fetch_session_by_id i st' = fetch_session_by_id i st" for i
    by (simp add: fetch_session_by_id_def fetch_session_where_def join_session_def joined_recipient_def assms
        split: option.split)
  moreover have member: "fetch_group_v2_member g i st' = fetch_group_v2_member g i st" for g i
    by (simp add: fetch_group_v2_member_def assms)
  moreover have "fetch_message_sender_membership m st' = fetch_message_sender_membership m st"
    unfolding fetch_message_sender_membership_def session member ..
  ultimately show ?thesis
    by (simp add: augment_message_def attachments_of_def reactions_of_def count_message_receipts_def assms)
qed

lemma changed_messages_only:
  assumes tables: "db st' = (db st)\<lparr>messages := messages (db st')\<rparr>"
    and others: "filter (\<lambda>m. m_id m \<notin> set mids) (messages (db st')) = filter (\<lambda>m. m_id m \<notin> set mids) (messages (db st))"
    and same: "\<forall>m\<in>set (messages (db st)). \<forall>m'\<in>set (messages (db st')). m_id m = m_id m' \<longrightarrow>
      m_server_timestamp m' = m_server_timestamp m \<and> m_session_id m' = m_session_id m"
  shows "changed_only codec sid mids st st'"
proof -
  have "m \<in> set (messages (db st')) \<longleftrightarrow> m \<in> set (messages (db st))" if "m_id m \<notin> set mids" for m
    using arg_cong[OF others, of set] that by auto
  then have "in_view codec sid st' am = in_view codec sid st am" if "am_id am \<notin> set mids" for am
    using that augment_inner augment_other_tables[OF tables] by (fastforce simp: in_view_def)
  then show ?thesis
    using same by (simp add: changed_only_def)
qed


definition edit_on_screen :: storage where
  "edit_on_screen =
     (let st = conversation_demo False in
      case create_message ((new_outgoing 40)\<lparr>nm_session_id := 1, nm_edit := fetch_message_by_id 3 st\<rparr>) st of
        Inl _ \<Rightarrow> st
      | Inr (_, st') \<Rightarrow> st')"


end
