(* ===== verification/SessionView.thy ===== *)
theory SessionView
  imports MessageView
begin

text \<open>
  The list of conversations, kept up to date event by event (\<open>SessionListModel\<close> in
  \<open>whisperfish/src/model/sessions.rs\<close>).  Pinned sessions come first, then those with the latest
  message, then those with the greatest id.

  As with the messages, the signals to Qt are not modelled.  Reading the store may fill the cache of
  the own recipient, so the state is passed on.
\<close>

definition session_order_key :: "augmented_session \<Rightarrow> bool \<times> timestamp option \<times> int" where
  "session_order_key x =
     (e_is_pinned (as_inner x), map_option (\<lambda>am. m_server_timestamp (am_inner am)) (as_last_message x),
      e_id (as_inner x))"

abbreviation as_id :: "augmented_session \<Rightarrow> int" where
  "as_id x \<equiv> e_id (as_inner x)"

text \<open>The sort is stable.\<close>

definition load_sessions :: "text_codec \<Rightarrow> storage \<Rightarrow> (augmented_session list \<times> storage) res" where
  "load_sessions codec st =
     rbind (fetch_all_sessions_augmented codec st) (\<lambda>(xs, st').
     Inr (sort_key (\<lambda>x. \<not> e_is_pinned (as_inner x)) xs, st'))"

definition session_is_read :: "augmented_session \<Rightarrow> bool" where
  "session_is_read x = (case as_last_message x of None \<Rightarrow> True | Some am \<Rightarrow> m_is_read (am_inner am))"

definition unread :: "augmented_session list \<Rightarrow> nat" where
  "unread xs = sum_list (map (\<lambda>x. if session_is_read x then 0 else 1) xs)"

text \<open>
  Where a changed session goes: the search gives its new place, counted with its old row still
  there.
\<close>

definition place_session :: "augmented_session \<Rightarrow> augmented_session list \<Rightarrow> augmented_session list" where
  "place_session x xs =
     (case (search_desc (map session_order_key xs) (session_order_key x), position_where (\<lambda>y. as_id y = as_id x) xs) of
        (Inr i, _) \<Rightarrow> xs[i := x]
      | (Inl dest, Some src) \<Rightarrow>
          if dest = src then xs[dest := x]
          else if dest = src + 1 then xs[src := x]
          else insert_at (if dest > src then dest - 1 else dest) x (remove_at src xs)
      | (Inl dest, None) \<Rightarrow> insert_at dest x xs)"

definition remove_session :: "int \<Rightarrow> augmented_session list \<Rightarrow> augmented_session list" where
  "remove_session sid xs =
     (case position_where (\<lambda>y. as_id y = sid) xs of None \<Rightarrow> xs | Some i \<Rightarrow> remove_at i xs)"

section \<open>What an event is about\<close>

definition event_id :: "event \<Rightarrow> subject \<Rightarrow> int option" where
  "event_id ev t = Option.bind (relation_key_for ev t) Observer.as_i32"

definition event_string :: "event \<Rightarrow> subject \<Rightarrow> string option" where
  "event_string ev t = (case relation_key_for ev t of Some (StringRowId s) \<Rightarrow> Some s | _ \<Rightarrow> None)"

definition is_membership_event :: "event \<Rightarrow> bool" where
  "is_membership_event ev \<longleftrightarrow> for_table ev SubGroupV2Members \<or> for_table ev SubGroupV1Members"

definition session_of_group :: "(string \<Rightarrow> storage \<Rightarrow> session option res) \<Rightarrow> string option \<Rightarrow> storage \<Rightarrow> int option res" where
  "session_of_group fetch gid st =
     (case gid of
        None \<Rightarrow> Inr None
      | Some g \<Rightarrow> rbind (fetch g st) (\<lambda>so. Inr (map_option e_id so)))"

text \<open>A change of members concerns the session of the group.\<close>

definition event_session :: "event \<Rightarrow> storage \<Rightarrow> int option res" where
  "event_session ev st =
     (case event_id ev SubSessions of
        Some sid \<Rightarrow> Inr (Some sid)
      | None \<Rightarrow>
          if is_membership_event ev
          then rbind (session_of_group fetch_session_by_group_v2_id (event_string ev SubGroupV2s) st) (\<lambda>so.
               case so of
                 Some sid \<Rightarrow> Inr (Some sid)
               | None \<Rightarrow> session_of_group fetch_session_by_group_v1_id (event_string ev SubGroupV1s) st)
          else Inr None)"

section \<open>Handling an event\<close>

definition refresh_recipient :: "recipient \<Rightarrow> augmented_session \<Rightarrow> augmented_session" where
  "refresh_recipient updated x =
     (case e_type (as_inner x) of
        DirectMessage r \<Rightarrow>
          if r_id r = r_id updated
          then x\<lparr>as_inner := (as_inner x)\<lparr>e_type := DirectMessage updated\<rparr>\<rparr>
          else x
      | _ \<Rightarrow> x)"

definition last_message_id :: "augmented_session \<Rightarrow> int option" where
  "last_message_id x = map_option (\<lambda>am. m_id (am_inner am)) (as_last_message x)"

text \<open>The first session with a property gets its last message anew, if that has the given id.\<close>

definition refresh_last_message ::
  "text_codec \<Rightarrow> (augmented_session \<Rightarrow> bool) \<Rightarrow> int \<Rightarrow> storage \<Rightarrow> augmented_session list \<Rightarrow> augmented_session list res" where
  "refresh_last_message codec P mid st xs =
     (case position_where P xs of
        None \<Rightarrow> Inr xs
      | Some i \<Rightarrow>
          if last_message_id (xs ! i) = Some mid
          then rbind (fetch_last_message_by_session_id_augmented codec (as_id (xs ! i)) st) (\<lambda>am.
               Inr (xs[i := (xs ! i)\<lparr>as_last_message := am\<rparr>]))
          else Inr xs)"

definition observe_session ::
  "text_codec \<Rightarrow> int \<Rightarrow> event \<Rightarrow> storage \<Rightarrow> augmented_session list \<Rightarrow> (augmented_session list \<times> storage) res" where
  "observe_session codec sid ev st xs =
     rbind (fetch_session_by_id_augmented codec sid st) (\<lambda>(xo, st').
     case xo of
       Some x \<Rightarrow> Inr (place_session x xs, st')
     | None \<Rightarrow>
         if \<not> for_table ev SubSessions then Inl (Panic ''assertion failed: event.for_table(schema::sessions::table)'')
         else if \<not> is_delete ev then Inl (Panic ''assertion failed: event.is_delete()'')
         else Inr (remove_session sid xs, st'))"

text \<open>The branches after that for changed recipients.\<close>

definition observe_related ::
  "text_codec \<Rightarrow> int option \<Rightarrow> event \<Rightarrow> storage \<Rightarrow> augmented_session list \<Rightarrow> (augmented_session list \<times> storage) res" where
  "observe_related codec sid_opt ev st xs =
     (if event_id ev SubAttachments \<noteq> None \<and> for_table ev SubAttachments \<and> is_update ev then Inr (xs, st)
      else if for_table ev SubReceipts
      then (case (sid_opt, event_id ev SubMessages) of
              (Some sid, Some mid) \<Rightarrow>
                rbind (refresh_last_message codec (\<lambda>x. as_id x = sid) mid st xs) (\<lambda>xs'. Inr (xs', st))
            | _ \<Rightarrow> Inr (xs, st))
      else (case sid_opt of
              Some sid \<Rightarrow> observe_session codec sid ev st xs
            | None \<Rightarrow>
                (case event_id ev SubMessages of
                   Some mid \<Rightarrow>
                     rbind (refresh_last_message codec (\<lambda>x. last_message_id x = Some mid) mid st xs) (\<lambda>xs'. Inr (xs', st))
                 | None \<Rightarrow> Inr (xs, st))))"

definition observe_sessions ::
  "text_codec \<Rightarrow> event \<Rightarrow> storage \<Rightarrow> augmented_session list \<Rightarrow> (augmented_session list \<times> storage) res" where
  "observe_sessions codec ev st xs =
     rbind (event_session ev st) (\<lambda>sid_opt.
     let mid = event_id ev SubMessages; aid = event_id ev SubAttachments; rid = event_id ev SubRecipients in
     if sid_opt = None \<and> mid = None \<and> aid = None \<and> rid = None then load_sessions codec st
     else
       (case (if for_table ev SubRecipients \<and> is_update ev
              then Option.bind rid (\<lambda>i. fetch_recipient_by_id i st) else None) of
          None \<Rightarrow> observe_related codec sid_opt ev st xs
        | Some r \<Rightarrow>
            (let xs' = map (refresh_recipient r) xs
             in if sid_opt = None \<and> mid = None \<and> aid = None then Inr (xs', st)
                else observe_related codec sid_opt ev st xs')))"

end
