(* ===== verification/SessionViewProps.thy ===== *)
theory SessionViewProps
  imports SessionView MessageViewProps
begin

text \<open>
  The list of conversations follows the store: its in-place moves amount to sorting anew.  And the
  panic when an event about a session arrives after the session has been deleted.
\<close>

section \<open>Moving one row\<close>

definition sessions_listed :: "augmented_session list \<Rightarrow> bool" where
  "sessions_listed xs \<longleftrightarrow> desc session_order_key xs \<and> distinct (map as_id xs)"

lemma sessions_listed_without: "sessions_listed (us @ v # vs) \<Longrightarrow> sessions_listed (us @ vs)"
  by (auto simp: sessions_listed_def desc_simps)

lemma distinct_ids_without:
  assumes "distinct (map as_id (us @ v # vs))"
  shows "\<forall>x\<in>set (us @ vs). as_id x \<noteq> as_id v"
proof -
  have "as_id v \<notin> as_id ` set (us @ vs)"
    using assms by auto
  then show ?thesis
    by (metis imageI)
qed

text \<open>A row put between the greater and the smaller ones of a list that does not contain its id.\<close>

lemma sessions_listed_between:
  assumes "sessions_listed (us @ vs)" and "\<forall>u\<in>set us. session_order_key u > session_order_key x"
    and "\<forall>w\<in>set vs. session_order_key w < session_order_key x" and "\<forall>y\<in>set (us @ vs). as_id y \<noteq> as_id x"
  shows "sessions_listed (us @ x # vs)"
  using assms by (auto simp: sessions_listed_def desc_simps)

text \<open>
  The three ways to move a row: within a list \<open>us @ vs\<close> that has the old row somewhere, it ends up
  between \<open>us\<close> and \<open>vs\<close> without the old row.
\<close>

lemma filter_absent: "v \<notin> set ys \<Longrightarrow> filter (\<lambda>y. y \<noteq> v) ys = ys"
  by (induction ys) auto

lemma moved_row:
  assumes that: "distinct xs" and xs: "xs = us @ vs" and old: "xs = as @ v # bs"
  defines "dest \<equiv> length us" and "src \<equiv> length as"
  shows "(if dest = src then xs[dest := x] else if dest = src + 1 then xs[src := x]
      else insert_at (if dest > src then dest - 1 else dest) x (remove_at src xs))
    = filter (\<lambda>y. y \<noteq> v) us @ x # filter (\<lambda>y. y \<noteq> v) vs"
proof -
  consider (behind) cs where "as = us @ cs" "vs = cs @ v # bs" | (before) cs where "us = as @ v # cs" "bs = cs @ vs"
  proof -
    have "us @ vs = as @ v # bs"
      using xs old by simp
    then show thesis
      using behind before by (auto simp: append_eq_append_conv2 append_eq_Cons_conv Cons_eq_append_conv)
  qed
  then show ?thesis
  proof cases
    case behind
    then have rest: "filter (\<lambda>y. y \<noteq> v) us = us" "filter (\<lambda>y. y \<noteq> v) vs = cs @ bs"
      using that xs by (auto simp: filter_absent)
    show ?thesis
    proof (cases cs)
      case Nil
      then show ?thesis
        using behind rest xs by (simp add: dest_def src_def)
    next
      case (Cons c cs')
      then have "remove_at src xs = us @ cs @ bs"
        using behind xs edit_list(2)[of "us @ cs" v bs] by (simp add: src_def)
      then show ?thesis
        using behind rest Cons xs by (simp add: dest_def src_def)
    qed
  next
    case before
    then have rest: "filter (\<lambda>y. y \<noteq> v) us = as @ cs" "filter (\<lambda>y. y \<noteq> v) vs = vs"
      using that xs by (auto simp: filter_absent)
    show ?thesis
    proof (cases cs)
      case Nil
      then show ?thesis
        using before rest xs by (simp add: dest_def src_def)
    next
      case (Cons c cs')
      have "remove_at src xs = (as @ cs) @ vs"
        using before xs by (simp add: src_def)
      moreover have "dest - 1 = length (as @ cs)"
        using before by (simp add: dest_def)
      ultimately show ?thesis
        using before rest Cons edit_list(1)[of "as @ cs" x vs] by (simp add: dest_def src_def del: append_assoc)
    qed
  qed
qed

lemma place_session_result:
  assumes "sessions_listed xs"
  shows "sessions_listed (place_session x xs)
    \<and> set (place_session x xs) = {y \<in> set xs. as_id y \<noteq> as_id x} \<union> {x}"
proof -
  have order: "desc session_order_key xs" and ids: "distinct (map as_id xs)"
    using assms by (simp_all add: sessions_listed_def)
  from order show ?thesis
  proof (cases rule: search_cases[where k = "session_order_key x"])
    case (found us v vs)
    then have "as_id v = as_id x"
      by (simp add: session_order_key_def)
    then have others: "\<forall>y\<in>set (us @ vs). as_id y \<noteq> as_id x"
      using distinct_ids_without ids found(1) by metis
    have "place_session x xs = us @ x # vs"
      using found by (simp add: place_session_def)
    moreover have "sessions_listed (us @ x # vs)"
      using sessions_listed_between[OF sessions_listed_without found(4,5) others] assms found(1) by simp
    ultimately show ?thesis
      using others found(1) \<open>as_id v = as_id x\<close> by auto
  next
    case (absent us vs)
    show ?thesis
    proof (cases rule: position_cases[of xs "\<lambda>y. as_id y = as_id x"])
      case (found as v bs)
      let ?us = "filter (\<lambda>y. y \<noteq> v) us" and ?vs = "filter (\<lambda>y. y \<noteq> v) vs"
      have "distinct xs"
        using ids by (simp add: distinct_map)
      then have placed: "place_session x xs = ?us @ x # ?vs"
        using moved_row[OF _ absent(1) found(1)] absent(2) found(2) by (simp add: place_session_def)
      have others: "\<forall>y\<in>set (?us @ ?vs). as_id y \<noteq> as_id x"
      proof -
        have "\<forall>y\<in>set (as @ bs). as_id y \<noteq> as_id x"
          using distinct_ids_without[of as v bs] ids found(1,3) by simp
        moreover have "set xs = insert v (set (as @ bs))"
          by (simp add: found(1))
        moreover have "set xs = set us \<union> set vs"
          by (simp add: absent(1))
        ultimately show ?thesis
          by auto
      qed
      have "sessions_listed (filter (\<lambda>y. y \<noteq> v) xs)"
        using assms by (simp add: sessions_listed_def desc_def sorted_wrt_filter distinct_map_filter)
      then have "sessions_listed (?us @ ?vs)"
        by (simp add: absent(1))
      then have "sessions_listed (?us @ x # ?vs)"
        using absent(3,4) others by (intro sessions_listed_between) auto
      moreover have "y \<in> set (?us @ ?vs) \<longleftrightarrow> y \<in> set xs \<and> as_id y \<noteq> as_id x" for y
      proof -
        have "y \<in> set (?us @ ?vs) \<longleftrightarrow> y \<in> set xs \<and> y \<noteq> v"
          by (auto simp: absent(1))
        then show ?thesis
          using others found(3) by metis
      qed
      then have "set (?us @ x # ?vs) = {y \<in> set xs. as_id y \<noteq> as_id x} \<union> {x}"
        by (simp add: set_eq_iff)
      ultimately show ?thesis
        by (simp add: placed)
    next
      case absent': absent
      then have "place_session x xs = us @ x # vs"
        using absent by (simp add: place_session_def)
      then show ?thesis
        using sessions_listed_between[of us vs x] absent absent'(2) assms by auto
    qed
  qed
qed

lemma remove_session_result:
  assumes "sessions_listed xs"
  shows "sessions_listed (remove_session sid xs) \<and> set (remove_session sid xs) = {y \<in> set xs. as_id y \<noteq> sid}"
proof (cases rule: position_cases[of xs "\<lambda>y. as_id y = sid"])
  case (found us v vs)
  then have "\<forall>y\<in>set (us @ vs). as_id y \<noteq> sid"
    using distinct_ids_without assms unfolding sessions_listed_def by metis
  then show ?thesis
    using found sessions_listed_without assms by (auto simp: remove_session_def)
next
  case absent
  then show ?thesis
    using assms by (auto simp: remove_session_def)
qed

section \<open>What the list should be\<close>

text \<open>Once the own recipient is known, reading does not change the state.\<close>

lemma cached_self_id: "self_recipient st = Some r \<Longrightarrow> fetch_self_recipient_id st = Inr (r_id r, st)"
  by (simp add: fetch_self_recipient_id_def fetch_self_recipient_def)

lemma augment_session_state:
  assumes "self_recipient st \<noteq> None" and "augment_session codec s st = Inr (x, st')"
  shows "st' = st" and "as_inner x = s"
proof -
  obtain r where "self_recipient st = Some r"
    using assms(1) by blast
  note cached = cached_self_id[OF this]
  have "st' = st \<and> as_inner x = s"
    using assms(2) by (auto simp: augment_session_def fetch_group_v2_self_member_def cached rbind_eq_Inr split: if_splits)
  then show "st' = st" and "as_inner x = s"
    by simp_all
qed

definition row_of :: "text_codec \<Rightarrow> storage \<Rightarrow> db_session \<Rightarrow> augmented_session \<Rightarrow> bool" where
  "row_of codec st s x \<longleftrightarrow> (\<exists>j. join_session (db st) s = Inr j \<and> augment_session codec j st = Inr (x, st))"

definition shows_sessions :: "text_codec \<Rightarrow> storage \<Rightarrow> augmented_session list \<Rightarrow> bool" where
  "shows_sessions codec st xs \<longleftrightarrow>
     sessions_listed xs \<and> (\<forall>x. x \<in> set xs \<longleftrightarrow> (\<exists>s\<in>set (sessions (db st)). row_of codec st s x))"

lemma joined_id: "join_session d s = Inr j \<Longrightarrow> e_id j = s_id s"
  by (auto simp: join_session_def session_from_def rbind_eq_Inr split: if_splits option.splits)

lemma row_of_id: "self_recipient st \<noteq> None \<Longrightarrow> row_of codec st s x \<Longrightarrow> as_id x = s_id s"
  using augment_session_state(2) joined_id unfolding row_of_def by metis

lemma row_of_unique: "row_of codec st s x \<Longrightarrow> row_of codec st s y \<Longrightarrow> x = y"
  by (auto simp: row_of_def)

lemma fetched_sessions: "fetch_all_sessions d ss = Inr js \<longleftrightarrow> list_all2 (\<lambda>s j. join_session d s = Inr j) ss js"
  by (induction ss arbitrary: js) (auto simp: rbind_eq_Inr list_all2_Cons1)

lemma augmented_sessions:
  assumes "self_recipient st \<noteq> None" and "augment_sessions codec js st = Inr (xs, st')"
  shows "st' = st \<and> list_all2 (\<lambda>j x. augment_session codec j st = Inr (x, st)) js xs"
  using assms(2)
proof (induction js arbitrary: xs st')
  case Nil
  then show ?case by simp
next
  case (Cons j js)
  obtain x st1 xs' where 1: "augment_session codec j st = Inr (x, st1)"
    and 2: "augment_sessions codec js st1 = Inr (xs', st')" and xs: "xs = x # xs'"
    using Cons.prems by (auto simp: rbind_eq_Inr)
  have "st1 = st"
    using augment_session_state(1)[OF assms(1) 1] .
  then show ?case
    using Cons.IH 1 2 xs by simp
qed

section \<open>Sorting\<close>

lemma insort_key_bool:
  fixes f :: "'a \<Rightarrow> bool"
  assumes "\<forall>y\<in>set ys. \<not> f y" and "\<forall>z\<in>set zs. f z"
  shows "insort_key f x (ys @ zs) = (if f x then ys @ x # zs else x # ys @ zs)"
  using assms
proof (induction ys)
  case Nil
  then show ?case by (cases zs) auto
next
  case (Cons y ys)
  then show ?case by auto
qed

lemma sort_key_bool:
  fixes f :: "'a \<Rightarrow> bool"
  shows "sort_key f xs = filter (\<lambda>x. \<not> f x) xs @ filter f xs"
proof (induction xs)
  case Nil
  then show ?case by simp
next
  case (Cons x xs)
  then show ?case
    by (simp add: insort_key_bool)
qed

lemma desc_rev_sort:
  assumes "distinct (map k xs)"
  shows "desc k (rev (sort_key k xs))"
proof -
  have "distinct (map k (sort_key k xs))"
    using assms by (simp add: distinct_map)
  then have "sorted_wrt (<) (map k (sort_key k xs))"
    by (simp add: strict_sorted_iff)
  then show ?thesis
    unfolding desc_def sorted_wrt_rev by (simp add: sorted_wrt_map)
qed

lemma desc_pinned_first:
  assumes "desc k xs" and "\<And>x. session_order_key x = (e_is_pinned (as_inner x), k x)"
  shows "desc session_order_key (sort_key (\<lambda>x. \<not> e_is_pinned (as_inner x)) xs)"
proof -
  have parts: "desc session_order_key (filter P xs)" if "\<And>x y. P x \<Longrightarrow> P y \<Longrightarrow> e_is_pinned (as_inner x) = e_is_pinned (as_inner y)" for P
  proof -
    have "sorted_wrt (\<lambda>x y. k x > k y) (filter P xs)"
      using assms(1) by (simp add: desc_def sorted_wrt_filter)
    then show ?thesis
      unfolding desc_def by (rule sorted_wrt_mono_rel[rotated]) (use that assms(2) in \<open>auto simp: less_prod_simp\<close>)
  qed
  from this[of "\<lambda>x. e_is_pinned (as_inner x)"] this[of "\<lambda>x. \<not> e_is_pinned (as_inner x)"] show ?thesis
    by (simp add: sort_key_bool desc_append assms(2) less_prod_simp)
qed

lemma loaded_sessions:
  assumes self: "self_recipient st \<noteq> None" and ids: "distinct_keys s_id (sessions (db st))"
    and load: "load_sessions codec st = Inr (xs, st')"
  shows "st' = st \<and> shows_sessions codec st xs"
proof -
  obtain js ys where js: "list_all2 (\<lambda>s j. join_session (db st) s = Inr j) (sessions (db st)) js"
    and run: "augment_sessions codec js st = Inr (ys, st')"
    and xs: "xs = sort_key (\<lambda>x. \<not> e_is_pinned (as_inner x)) (rev (sort_key session_sort_key ys))"
    using load
    by (auto simp: load_sessions_def fetch_all_sessions_augmented_def fetch_sessions_def fetched_sessions rbind_eq_Inr)
  have "st' = st" and ys: "list_all2 (\<lambda>j x. augment_session codec j st = Inr (x, st)) js ys"
    using augmented_sessions[OF self run] by simp_all
  have rows: "list_all2 (row_of codec st) (sessions (db st)) ys"
    using list_all2_trans[OF _ js ys, of "row_of codec st"] by (auto simp: row_of_def)
  then have idlist: "map as_id ys = map s_id (sessions (db st))"
    by (induction rule: list_all2_induct) (simp_all add: row_of_id[OF self])
  then have distinct_ids: "distinct (map as_id ys)"
    using ids by (simp add: distinct_keys_def)
  then have "distinct (map session_sort_key ys)"
    by (auto simp: distinct_map inj_on_def session_sort_key_def)
  then have "desc session_order_key xs"
    unfolding xs by (intro desc_pinned_first[where k = session_sort_key] desc_rev_sort)
      (simp_all add: session_order_key_def session_sort_key_def)
  moreover have "distinct (map as_id xs)"
    using distinct_ids by (simp add: xs distinct_map)
  moreover have "x \<in> set xs \<longleftrightarrow> (\<exists>s\<in>set (sessions (db st)). row_of codec st s x)" for x
    using rows by (simp add: xs) (induction rule: list_all2_induct, auto dest: row_of_unique)
  ultimately show ?thesis
    using \<open>st' = st\<close> by (simp add: shows_sessions_def sessions_listed_def)
qed

section \<open>Handling events\<close>

text \<open>
  The event is about one session: it names it, or names a group that has it.  It is not about
  receipts, recipients or the progress of attachments, which are handled without reading the
  session; and it is not about a message alone (\<open>mark_message_received\<close> and the like send the update
  of a message without its session), of which only the last message of a session is read again.
  The session can be read, or it is gone and this is the event of its deletion; any other event
  that comes late for a session that is gone makes the handler panic.
\<close>

definition handled_session :: "text_codec \<Rightarrow> storage \<Rightarrow> event \<Rightarrow> int \<Rightarrow> bool" where
  "handled_session codec st ev sid \<longleftrightarrow>
     event_session ev st = Inr (Some sid)
     \<and> \<not> for_table ev SubRecipients \<and> \<not> for_table ev SubReceipts \<and> \<not> (for_table ev SubAttachments \<and> is_update ev)
     \<and> (case first_where (\<lambda>s. s_id s = sid) (sessions (db st)) of
          None \<Rightarrow> for_table ev SubSessions \<and> is_delete ev
        | Some s \<Rightarrow>
            (case rbind (join_session (db st) s) (\<lambda>j. augment_session codec j st) of Inl _ \<Rightarrow> False | Inr _ \<Rightarrow> True))"

definition in_list :: "text_codec \<Rightarrow> storage \<Rightarrow> augmented_session \<Rightarrow> bool" where
  "in_list codec st x \<longleftrightarrow> (\<exists>s\<in>set (sessions (db st)). row_of codec st s x)"

definition stale_sessions :: "int set \<Rightarrow> text_codec \<Rightarrow> storage \<Rightarrow> augmented_session list \<Rightarrow> bool" where
  "stale_sessions D codec st xs \<longleftrightarrow>
     sessions_listed xs \<and> (\<forall>x. as_id x \<notin> D \<longrightarrow> (x \<in> set xs \<longleftrightarrow> in_list codec st x))"

definition readable :: "storage \<Rightarrow> bool" where
  "readable st \<longleftrightarrow> self_recipient st \<noteq> None \<and> distinct_keys s_id (sessions (db st))"

lemma observe_handled:
  assumes "handled_session codec st ev sid"
  shows "observe_sessions codec ev st xs = observe_session codec sid ev st xs"
  using assms by (auto simp: observe_sessions_def observe_related_def handled_session_def)

lemma observe_session_step:
  assumes "readable st" and ev: "handled_session codec st ev sid" and stale: "stale_sessions D codec st xs"
  obtains xs' where "observe_sessions codec ev st xs = Inr (xs', st)" and "stale_sessions (D - {sid}) codec st xs'"
proof -
  have self: "self_recipient st \<noteq> None" and ids: "distinct_keys s_id (sessions (db st))"
    using assms(1) by (simp_all add: readable_def)
  show thesis
  proof (cases "first_where (\<lambda>s. s_id s = sid) (sessions (db st))")
    case None
    then have none: "\<not> in_list codec st x" if "as_id x = sid" for x
      using row_of_id[OF self] that by (fastforce simp: in_list_def first_where_None)
    have "observe_sessions codec ev st xs = Inr (remove_session sid xs, st)"
      unfolding observe_handled[OF ev]
      using ev None
      by (simp add: handled_session_def observe_session_def fetch_session_by_id_augmented_def
          fetch_session_by_id_def fetch_session_where_def)
    then show thesis
      using that remove_session_result[of xs sid] stale none unfolding stale_sessions_def by fastforce
  next
    case (Some s)
    then have s: "s \<in> set (sessions (db st))" "s_id s = sid"
      by (auto dest: first_where_SomeD)
    obtain j x st' where j: "join_session (db st) s = Inr j" and x: "augment_session codec j st = Inr (x, st')"
      using ev Some by (cases "join_session (db st) s") (auto simp: handled_session_def split: sum.splits)
    have state: "st' = st"
      using augment_session_state[OF self x] by simp
    have row: "row_of codec st s x"
      using j x state by (auto simp: row_of_def)
    then have id: "as_id x = sid"
      using row_of_id[OF self] s(2) by simp
    have only: "in_list codec st y \<longleftrightarrow> y = x" if "as_id y = sid" for y
    proof
      assume "in_list codec st y"
      then obtain s' where "s' \<in> set (sessions (db st))" "row_of codec st s' y"
        by (auto simp: in_list_def)
      then show "y = x"
        using distinct_keys_inj[OF ids _ s(1)] row_of_id[OF self] that s(2) row row_of_unique by metis
    next
      assume "y = x"
      then show "in_list codec st y"
        using row s(1) by (auto simp: in_list_def)
    qed
    have "observe_sessions codec ev st xs = Inr (place_session x xs, st)"
      unfolding observe_handled[OF ev]
      using Some j x state
      by (simp add: observe_session_def fetch_session_by_id_augmented_def fetch_session_by_id_def fetch_session_where_def)
    then show thesis
      using that place_session_result[of xs x] stale only id unfolding stale_sessions_def by fastforce
  qed
qed

fun observe_all_sessions ::
  "text_codec \<Rightarrow> event list \<Rightarrow> storage \<Rightarrow> augmented_session list \<Rightarrow> (augmented_session list \<times> storage) res" where
  "observe_all_sessions codec [] st xs = Inr (xs, st)"
| "observe_all_sessions codec (ev # evs) st xs =
     rbind (observe_sessions codec ev st xs) (\<lambda>(xs', st'). observe_all_sessions codec evs st' xs')"

lemma observe_all_stale:
  assumes "readable st" and "list_all2 (handled_session codec st) evs sids" and "stale_sessions D codec st xs"
  shows "\<exists>xs'. observe_all_sessions codec evs st xs = Inr (xs', st) \<and> stale_sessions (D - set sids) codec st xs'"
  using assms(2,3)
proof (induction evs sids arbitrary: D xs rule: list_all2_induct)
  case Nil
  then show ?case by simp
next
  case (Cons ev evs sid sids)
  obtain xs1 where 1: "observe_sessions codec ev st xs = Inr (xs1, st)" "stale_sessions (D - {sid}) codec st xs1"
    using observe_session_step[OF assms(1) Cons.hyps(1) Cons.prems] by blast
  moreover have "D - set (sid # sids) = D - {sid} - set sids"
    by auto
  ultimately show ?case
    using Cons.IH[OF 1(2)] by simp
qed

section \<open>When only messages changed\<close>

lemma last_message_augmented:
  assumes "distinct_keys m_id (messages (db st))"
  shows "fetch_last_message_by_session_id_augmented codec sid st
    = (case by_timestamp_desc (filter (\<lambda>m. m_session_id m = sid) (messages (db st))) of
         [] \<Rightarrow> Inr None
       | m # _ \<Rightarrow> rbind (augment_message codec m st) (\<lambda>am. Inr (Some am)))"
proof (cases "by_timestamp_desc (filter (\<lambda>m. m_session_id m = sid) (messages (db st)))")
  case Nil
  then show ?thesis
    by (simp add: fetch_last_message_by_session_id_augmented_def fetch_last_message_by_session_id_def)
next
  case (Cons m ms)
  then have "m \<in> set (by_timestamp_desc (filter (\<lambda>m. m_session_id m = sid) (messages (db st))))"
    by simp
  then have "m \<in> set (messages (db st))"
    by (simp add: by_timestamp_desc_def)
  then have "fetch_message_by_id (m_id m) st = Some m"
    using assms by (simp add: fetch_message_by_id_def first_where_key)
  then show ?thesis
    using Cons by (simp add: fetch_last_message_by_session_id_augmented_def fetch_last_message_by_session_id_def
        fetch_augmented_message_def)
qed

lemma in_list_other_messages:
  assumes tables: "db st' = (db st)\<lparr>messages := messages (db st')\<rparr>"
    and self: "self_recipient st = Some me" "self_recipient st' = Some me"
    and ids: "distinct_keys m_id (messages (db st))" "distinct_keys m_id (messages (db st'))"
    and others: "filter (\<lambda>m. m_session_id m = as_id x) (messages (db st'))
      = filter (\<lambda>m. m_session_id m = as_id x) (messages (db st))"
  shows "in_list codec st' x = in_list codec st x"
proof -
  obtain ms where "db st' = (db st)\<lparr>messages := ms\<rparr>"
    using tables by blast
  then have join: "join_session (db st') s = join_session (db st) s" for s
    by (simp add: join_session_def joined_recipient_def)
  have member: "group_v2_members (db st') = group_v2_members (db st)" and rows: "sessions (db st') = sessions (db st)"
    by (subst tables, simp)+
  have "augment_session codec j st' = Inr (x, st') \<longleftrightarrow> augment_session codec j st = Inr (x, st)" if "e_id j = as_id x" for j
  proof -
    have "fetch_last_message_by_session_id_augmented codec (e_id j) st'
        = fetch_last_message_by_session_id_augmented codec (e_id j) st"
      unfolding last_message_augmented[OF ids(1)] last_message_augmented[OF ids(2)] that others
        augment_other_tables[OF tables] ..
    then show ?thesis
      by (auto simp: augment_session_def fetch_group_v2_self_member_def cached_self_id[OF self(1)]
          cached_self_id[OF self(2)] member rbind_eq_Inr)
  qed
  moreover have "e_id j = as_id x" if "join_session (db st) s = Inr j" and "row_of codec st s x \<or> row_of codec st' s x" for s j
    using that joined_id row_of_id[of st] row_of_id[of st'] self by fastforce
  ultimately have "row_of codec st' s x = row_of codec st s x" for s
    unfolding row_of_def join by blast
  then show ?thesis
    by (simp add: in_list_def rows)
qed

section \<open>Properties\<close>

text \<open>A store with the given sessions and messages.\<close>

definition sessions_demo :: "int list \<Rightarrow> message list \<Rightarrow> storage" where
  "sessions_demo sids ms =
     (let me = with_r_id 1 (new_recipient (Some 7) None None) in
      \<lparr> db = empty_database\<lparr>
          recipients := [me],
          sessions := map (\<lambda>i. with_s_id i (blank_session\<lparr>s_direct_message_recipient_id := Some 1\<rparr>)) sids,
          messages := ms\<rparr>,
        conf = \<lparr> cfg_tel = None, cfg_aci = Some 7, cfg_pni = None, cfg_home = ''/h'' \<rparr>,
        self_recipient = Some me, events = [], now = 1000, files = [] \<rparr>)"

definition plain_message :: "int \<Rightarrow> int \<Rightarrow> timestamp \<Rightarrow> message" where
  "plain_message mid sid t = default_message\<lparr>m_id := mid, m_session_id := sid, m_server_timestamp := t\<rparr>"

text \<open>
  C7. The list of conversations.  Take the list as it was loaded, let what it shows of some sessions
  change, or sessions be created or deleted, and let events about these sessions, at least one for
  each, be handled in any order: the list is then exactly what loading it again gives.  Such an
  event names the session or a group that has it (\<open>handled_session\<close>), as those of insertions (but
  that of a call) and deletions of messages, of sessions and of group memberships do.  Events about
  receipts, recipients, the progress of attachments, or a message without its session are not
  among them, nor are events for a session that is gone, other than the one of its deletion.
\<close>

theorem session_list_follows_store:
  assumes "readable st" and "load_sessions codec st = Inr (xs, st1)"
    and "readable st'" and "load_sessions codec st' = Inr (xs', st1')"
    and "\<And>x. as_id x \<notin> set sids \<Longrightarrow> in_list codec st' x = in_list codec st x"
    and "list_all2 (handled_session codec st') evs sids"
  shows "observe_all_sessions codec evs st' xs = Inr (xs', st')"
proof -
  have before: "shows_sessions codec st xs" and after: "shows_sessions codec st' xs'"
    using loaded_sessions[OF _ _ assms(2)] loaded_sessions[OF _ _ assms(4)] assms(1,3) by (simp_all add: readable_def)
  then have "stale_sessions (set sids) codec st' xs"
    using assms(5) by (simp add: shows_sessions_def stale_sessions_def in_list_def)
  then obtain ys where ys: "observe_all_sessions codec evs st' xs = Inr (ys, st')" "stale_sessions {} codec st' ys"
    using observe_all_stale[OF assms(3,6)] by (metis Diff_cancel)
  have "set ys = set xs'"
    using ys(2) after by (auto simp: shows_sessions_def stale_sessions_def in_list_def)
  then have "ys = xs'"
    using ys(2) after by (intro desc_unique[of session_order_key])
      (simp_all add: shows_sessions_def stale_sessions_def sessions_listed_def)
  then show ?thesis
    using ys by simp
qed

theorem session_list_follows_store_witness:
  "\<exists>xs xs' s. load_sessions codec_demo (sessions_demo [1, 2] [plain_message 1 1 10, plain_message 2 2 20]) = Inr (xs, s)
     \<and> map as_id xs = [2, 1] \<and> map as_id xs' = [1, 2]
     \<and> observe_all_sessions codec_demo [with_relation SubSessions (RowId 1) (observe_insert SubMessages (RowId 3))]
         (sessions_demo [1, 2] [plain_message 1 1 10, plain_message 2 2 20, plain_message 3 1 30]) xs
         = Inr (xs', sessions_demo [1, 2] [plain_message 1 1 10, plain_message 2 2 20, plain_message 3 1 30])"
proof -
  let ?st = "sessions_demo [1, 2] [plain_message 1 1 10, plain_message 2 2 20]"
  let ?st' = "sessions_demo [1, 2] [plain_message 1 1 10, plain_message 2 2 20, plain_message 3 1 30]"
  let ?me = "with_r_id 1 (new_recipient (Some 7) None None)"
  let ?ev = "with_relation SubSessions (RowId 1) (observe_insert SubMessages (RowId 3))"
  have "rbind (load_sessions codec_demo ?st) (\<lambda>(xs, _). Inr (map as_id xs)) = Inr [2, 1]"
      "rbind (load_sessions codec_demo ?st') (\<lambda>(xs, _). Inr (map as_id xs)) = Inr [1, 2]"
    by code_simp+
  then obtain xs s xs' s' where loads: "load_sessions codec_demo ?st = Inr (xs, s)" "map as_id xs = [2, 1]"
      "load_sessions codec_demo ?st' = Inr (xs', s')" "map as_id xs' = [1, 2]"
    by (auto simp: rbind_eq_Inr simp del: map_eq_Cons_conv)
  have ready: "readable ?st" "readable ?st'"
    by code_simp+
  have "self_recipient ?st = Some ?me" "self_recipient ?st' = Some ?me"
      "distinct_keys m_id (messages (db ?st))" "distinct_keys m_id (messages (db ?st'))"
    by code_simp+
  moreover have "db ?st' = (db ?st)\<lparr>messages := messages (db ?st')\<rparr>"
    by code_simp
  moreover have "filter (\<lambda>m. m_session_id m = i) (messages (db ?st')) = filter (\<lambda>m. m_session_id m = i) (messages (db ?st))"
    if "i \<noteq> 1" for i
    using that by (simp add: sessions_demo_def plain_message_def Let_def)
  ultimately have same: "in_list codec_demo ?st' x = in_list codec_demo ?st x" if "as_id x \<notin> set [1]" for x
    using that by (intro in_list_other_messages[where me = ?me]) auto
  have "list_all2 (handled_session codec_demo ?st') [?ev] [1]"
    by code_simp
  then have "observe_all_sessions codec_demo [?ev] ?st' xs = Inr (xs', ?st')"
    using session_list_follows_store[OF ready(1) loads(1) ready(2) loads(3) same] by blast
  with loads show ?thesis
    by (intro exI conjI)
qed

text \<open>
  A late event.  When a session has been deleted, an event about one of its messages that is
  handled afterwards makes the list of conversations panic.
\<close>

theorem late_message_event_panics:
  assumes "first_where (\<lambda>s. s_id s = sid) (sessions (db st)) = None"
    and "event_session ev st = Inr (Some sid)" and "for_table ev SubMessages"
  shows "observe_sessions codec ev st xs
    = Inl (Panic ''assertion failed: event.for_table(schema::sessions::table)'')"
  using assms
  by (simp add: observe_sessions_def observe_related_def observe_session_def for_table_def
      fetch_session_by_id_augmented_def fetch_session_by_id_def fetch_session_where_def)

theorem late_message_event_panics_witness:
  "observe_sessions codec_demo (with_relation SubSessions (RowId 2) (observe_insert SubMessages (RowId 2)))
     (sessions_demo [1] [plain_message 1 1 10]) []
   = Inl (Panic ''assertion failed: event.for_table(schema::sessions::table)'')"
proof (rule late_message_event_panics)
  let ?st = "sessions_demo [1] [plain_message 1 1 10]"
  let ?ev = "with_relation SubSessions (RowId 2) (observe_insert SubMessages (RowId 2))"
  show "first_where (\<lambda>s. s_id s = 2) (sessions (db ?st)) = None" "event_session ?ev ?st = Inr (Some 2)"
      "for_table ?ev SubMessages"
    by code_simp+
qed

end
