(* ===== verification/CallLog.thy ===== *)
theory CallLog
  imports MessageStore "HOL-Library.Word"
begin

text \<open>
  Calls in the store (\<open>whisperfish-store/src/store/calls.rs\<close>): a call is a message in the
  conversation and a row of its own.

  The two rows are inserted one after the other, not in a transaction.  A panic of the second
  insertion leaves the message; the model's result is then the panic.
\<close>

definition call_message :: "int option \<Rightarrow> int \<Rightarrow> message_type \<Rightarrow> timestamp \<Rightarrow> bool \<Rightarrow> bool \<Rightarrow> storage \<Rightarrow> message" where
  "call_message recipient session ty ts outgoing unidentified st =
     default_message\<lparr>m_session_id := session, m_sender_recipient_id := recipient,
       m_received_timestamp := Some (now st), m_sent_timestamp := Some ts, m_server_timestamp := ts,
       m_is_read := True, m_is_outbound := outgoing, m_use_unidentified := unidentified, m_flags := 0,
       m_message_type := Some ty\<rparr>"

text \<open>Unlike with other messages, the event does not name the session.\<close>

definition insert_call_log ::
  "int option \<Rightarrow> int \<Rightarrow> message_type \<Rightarrow> timestamp \<Rightarrow> bool \<Rightarrow> bool \<Rightarrow> storage \<Rightarrow> (int \<times> storage) res" where
  "insert_call_log recipient session ty ts outgoing unidentified st =
     (case insert_message (call_message recipient session ty ts outgoing unidentified st) st of
        Inl _ \<Rightarrow> Inl (Panic ''inserting a call log message'')
      | Inr (m, st') \<Rightarrow> Inr (m_id m, emit (observe_insert SubMessages (RowId (m_id m))) st'))"

definition call_row ::
  "int \<Rightarrow> int \<Rightarrow> int \<Rightarrow> call_type \<Rightarrow> bool \<Rightarrow> call_event \<Rightarrow> timestamp \<Rightarrow> int \<Rightarrow> call" where
  "call_row call_id message session ty outgoing ev ts ringer =
     \<lparr> c_id = 0, c_call_id = call_id, c_message_id = Some message, c_session_id = session, c_type = ty,
       c_is_outbound = outgoing, c_event = ev, c_timestamp = ts, c_ringer = ringer,
       c_deletion_timestamp = None, c_is_read = True, c_local_joined = False, c_group_call_active = False \<rparr>"

text \<open>\<open>UNIQUE (call_id, session_id)\<close>, and the references of the row.\<close>

definition insert_call :: "call \<Rightarrow> storage \<Rightarrow> (int \<times> storage) res" where
  "insert_call c st =
     (if exists_where (\<lambda>x. c_call_id x = c_call_id c \<and> c_session_id x = c_session_id c) (calls (db st))
         \<or> \<not> has_key r_id (c_ringer c) (recipients (db st)) \<or> \<not> has_key s_id (c_session_id c) (sessions (db st))
      then Inl (Panic ''inserting a call'')
      else Inr (next_rowid c_id (calls (db st)),
                st\<lparr>db := (db st)\<lparr>calls := insert_row c_id with_c_id c (calls (db st))\<rparr>\<rparr>))"

text \<open>The identifier of a call has 64 bits and is cut off to 32.\<close>

definition insert_one_to_one_call ::
  "64 word \<Rightarrow> timestamp \<Rightarrow> int \<Rightarrow> call_type \<Rightarrow> bool \<Rightarrow> call_event \<Rightarrow> bool \<Rightarrow> storage \<Rightarrow> ((session \<times> int) \<times> storage) res" where
  "insert_one_to_one_call call_id ts recipient_id ty outgoing ev unidentified st =
     rbind (fetch_session_by_recipient_id recipient_id st) (\<lambda>so.
     rbind (opt_panic ''fetching session by recipient id'' so) (\<lambda>session.
     rbind (insert_call_log (Some recipient_id) (e_id session) (from_call_type ty outgoing ev) ts outgoing unidentified st)
       (\<lambda>(message, st1).
     rbind (if outgoing then fetch_self_recipient_id st1 else Inr (recipient_id, st1)) (\<lambda>(ringer, st2).
     rbind (insert_call (call_row (i32_wrap (uint call_id)) message (e_id session) ty outgoing ev ts ringer) st2)
       (\<lambda>(i, st3). Inr ((session, i), st3))))))"

end
