(* ===== verification/CallLogProps.thy ===== *)
theory CallLogProps
  imports CallLog SessionViewProps
begin

text \<open>
  What a recorded call leaves in the store, and that the list of conversations does not notice it.
\<close>

lemma inserted_message:
  assumes "insert_message m st = Inr (m', st')"
  shows "m' = with_m_id (next_rowid m_id (messages (db st))) m"
    and "st' = st\<lparr>db := (db st)\<lparr>messages := messages (db st) @ [m']\<rparr>\<rparr>"
  using assms by (auto simp: insert_message_def Let_def insert_row_def split: if_splits)

lemma logged_call:
  assumes "insert_call_log recipient session ty ts outgoing unidentified st = Inr (mid, st')"
  shows "mid = next_rowid m_id (messages (db st))"
    and "messages (db st') = messages (db st) @ [(call_message recipient session ty ts outgoing unidentified st)\<lparr>m_id := mid\<rparr>]"
    and "events st' = events st @ [observe_insert SubMessages (RowId mid)]"
    and "calls (db st') = calls (db st)" and "sessions (db st') = sessions (db st)"
proof -
  obtain m st0 where ins: "insert_message (call_message recipient session ty ts outgoing unidentified st) st = Inr (m, st0)"
    and res: "mid = m_id m" "st' = emit (observe_insert SubMessages (RowId (m_id m))) st0"
    using assms by (auto simp: insert_call_log_def split: sum.splits)
  show "mid = next_rowid m_id (messages (db st))"
    and "messages (db st') = messages (db st) @ [(call_message recipient session ty ts outgoing unidentified st)\<lparr>m_id := mid\<rparr>]"
    and "events st' = events st @ [observe_insert SubMessages (RowId mid)]"
    and "calls (db st') = calls (db st)" and "sessions (db st') = sessions (db st)"
    using inserted_message[OF ins] res by (simp_all add: emit_def)
qed

lemma inserted_call:
  assumes "insert_call c st = Inr (i, st')"
  shows "messages (db st') = messages (db st)" and "events st' = events st"
    and "calls (db st') = calls (db st) @ [c\<lparr>c_id := i\<rparr>]"
  using assms by (auto simp: insert_call_def insert_row_def split: if_splits)

text \<open>An event about a message that no session of the list has as its last one.\<close>

lemma unlisted_message_event:
  assumes "\<forall>x\<in>set xs. last_message_id x \<noteq> Some mid"
  shows "observe_sessions codec (observe_insert SubMessages (RowId mid)) st xs = Inr (xs, st)"
proof -
  let ?ev = "observe_insert SubMessages (RowId mid)"
  have ids: "event_id ?ev SubMessages = Some mid" "event_id ?ev SubSessions = None" "event_id ?ev SubAttachments = None"
      "event_id ?ev SubRecipients = None" "\<not> is_membership_event ?ev"
    by (simp_all add: event_id_def is_membership_event_def relation_key_for_def for_table_def observe_defs)
  then have sid: "event_session ?ev st = Inr None"
    by (simp add: event_session_def)
  have tables: "\<not> for_table ?ev SubRecipients" "\<not> for_table ?ev SubReceipts" "\<not> for_table ?ev SubAttachments"
    by (simp_all add: for_table_def observe_defs)
  have "position_where (\<lambda>x. last_message_id x = Some mid) xs = None"
    using assms by (cases rule: position_cases[of xs "\<lambda>x. last_message_id x = Some mid"]) auto
  then show ?thesis
    using ids sid tables by (simp add: observe_sessions_def observe_related_def refresh_last_message_def)
qed

section \<open>Properties\<close>

text \<open>
  Calls are not listed.  When an incoming call is recorded, a message of that session with the
  type of the call is inserted and the call refers to it; but the only event about it does not name
  the session, so the list of conversations stays as it was.
\<close>

theorem calls_unnoticed_by_list:
  assumes "insert_one_to_one_call call_id ts rid ty False ev unidentified st = Inr ((session, i), st')"
    and "\<forall>x\<in>set xs. \<forall>mid. last_message_id x = Some mid \<longrightarrow> has_key m_id mid (messages (db st))"
  shows "\<exists>m. messages (db st') = messages (db st) @ [m] \<and> m_session_id m = e_id session
      \<and> m_message_type m = Some (from_call_type ty False ev)
      \<and> (\<exists>c. calls (db st') = calls (db st) @ [c] \<and> c_message_id c = Some (m_id m) \<and> c_id c = i
             \<and> c_call_id c = i32_wrap (uint call_id))
      \<and> events st' = events st @ [observe_insert SubMessages (RowId (m_id m))]
      \<and> observe_all_sessions codec [observe_insert SubMessages (RowId (m_id m))] st' xs = Inr (xs, st')"
proof -
  obtain mid st1 where
    log: "insert_call_log (Some rid) (e_id session) (from_call_type ty False ev) ts False unidentified st = Inr (mid, st1)"
    and call: "insert_call (call_row (i32_wrap (uint call_id)) mid (e_id session) ty False ev ts rid) st1 = Inr (i, st')"
    using assms(1) by (auto simp: insert_one_to_one_call_def rbind_eq_Inr)
  let ?m = "(call_message (Some rid) (e_id session) (from_call_type ty False ev) ts False unidentified st)\<lparr>m_id := mid\<rparr>"
  have "last_message_id x \<noteq> Some mid" if "x \<in> set xs" for x
    using assms(2) that next_rowid_fresh[of _ "messages (db st)" m_id] logged_call(1)[OF log]
    by (fastforce simp: has_key_def list_ex_iff)
  then have "observe_sessions codec (observe_insert SubMessages (RowId mid)) st' xs = Inr (xs, st')"
    by (simp add: unlisted_message_event)
  then show ?thesis
    using logged_call[OF log] inserted_call[OF call]
    by (intro exI[of _ ?m]) (simp add: call_message_def call_row_def)
qed

theorem calls_unnoticed_by_list_witness:
  "\<exists>x st0 session i st'. load_sessions codec_demo (sessions_demo [1] [plain_message 1 1 10]) = Inr ([x], st0)
     \<and> insert_one_to_one_call (2 ^ 40 + 5) 50 1 Audio False Missed False
          (sessions_demo [1] [plain_message 1 1 10]) = Inr ((session, i), st')
     \<and> observe_all_sessions codec_demo (events st') st' [x] = Inr ([x], st') \<and> map c_call_id (calls (db st')) = [5]"
proof -
  let ?st = "sessions_demo [1] [plain_message 1 1 10]"
  let ?run = "insert_one_to_one_call (2 ^ 40 + 5) 50 1 Audio False Missed False ?st"
  let ?xs = "case load_sessions codec_demo ?st of Inr (xs, _) \<Rightarrow> xs"
  have "rbind ?run (\<lambda>_. Inr ()) = Inr ()"
    by code_simp
  then obtain r where "?run = Inr r"
    by (simp only: rbind_eq_Inr) blast
  then obtain session i st' where run: "?run = Inr ((session, i), st')"
    by (metis surj_pair)
  have empty: "events ?st = []" "calls (db ?st) = []"
    by code_simp+
  have "map_sum id (length \<circ> fst) (load_sessions codec_demo ?st) = Inr 1"
    by code_simp
  then obtain x st0 where list: "load_sessions codec_demo ?st = Inr ([x], st0)"
    by (cases "load_sessions codec_demo ?st") (simp_all only: map_sum.simps sum.simps comp_apply, metis One_nat_def length_0_conv length_Suc_conv prod.collapse)
  then have "?xs = [x]"
    by simp
  have "\<forall>x\<in>set ?xs. \<forall>mid\<in>set_option (last_message_id x). has_key m_id mid (messages (db ?st))"
    by code_simp
  then have "\<forall>x\<in>set ?xs. \<forall>mid. last_message_id x = Some mid \<longrightarrow> has_key m_id mid (messages (db ?st))"
    by blast
  from calls_unnoticed_by_list[OF run this, of codec_demo] obtain m :: message and c :: call where
    "calls (db st') = calls (db ?st) @ [c]" "c_call_id c = i32_wrap (uint (2 ^ 40 + 5 :: 64 word))"
    "events st' = events ?st @ [observe_insert SubMessages (RowId (m_id m))]"
    "observe_all_sessions codec_demo [observe_insert SubMessages (RowId (m_id m))] st' ?xs = Inr (?xs, st')"
    by (elim exE conjE) (rule that, assumption+)
  moreover have "i32_wrap (uint (2 ^ 40 + 5 :: 64 word)) = 5"
    by (simp add: i32_wrap_def)
  ultimately have res: "observe_all_sessions codec_demo (events st') st' ?xs = Inr (?xs, st')" "map c_call_id (calls (db st')) = [5]"
    by (simp_all only: empty append_Nil list.map)
  then show ?thesis
    using run list \<open>?xs = [x]\<close> by (intro exI[of _ x] exI[of _ st0] exI[of _ session] exI[of _ i] exI[of _ st'] conjI) (simp_all only:)
qed

end
