(* ===== verification/SettingsStore.thy ===== *)
theory SettingsStore
  imports ProtocolProps Database
begin

text \<open>
  The table of settings (\<open>whisperfish-store/src/store.rs\<close>) and the keys kept in it
  (\<open>whisperfish-store/src/store/protocol_store.rs\<close>).  Base64 and the parsers of keys are arguments.
\<close>

definition read_setting :: "string \<Rightarrow> storage \<Rightarrow> string option" where
  "read_setting key st = map_option snd (first_where (\<lambda>row. fst row = key) (settings (db st)))"

definition write_setting :: "string \<Rightarrow> string \<Rightarrow> storage \<Rightarrow> storage" where
  "write_setting key value st =
     (let tab = settings (db st); at = (\<lambda>row. fst row = key) in
      st\<lparr>db := (db st)\<lparr>settings :=
        (if exists_where at tab then update_where at (\<lambda>row. (fst row, value)) tab else tab @ [(key, value)])\<rparr>\<rparr>)"

definition delete_setting :: "string \<Rightarrow> storage \<Rightarrow> storage" where
  "delete_setting key st =
     st\<lparr>db := (db st)\<lparr>settings := delete_where (\<lambda>row. fst row = key) (settings (db st))\<rparr>\<rparr>"

record 'k key_codec =
  encode_key :: "'k \<Rightarrow> string"
  decode_key :: "string \<Rightarrow> 'k option"

text \<open>A stored value that is not a key makes the \<open>unwrap\<close> panic.\<close>

definition fetch_key :: "string \<Rightarrow> 'k key_codec \<Rightarrow> storage \<Rightarrow> 'k option res" where
  "fetch_key name codec st =
     (case read_setting name st of
        None \<Rightarrow> Inr None
      | Some text_value \<Rightarrow>
          rbind (opt_panic ''called `Result::unwrap()` on an `Err` value'' (decode_key codec text_value))
            (\<lambda>k. Inr (Some k)))"

definition store_key :: "string \<Rightarrow> 'k key_codec \<Rightarrow> 'k option \<Rightarrow> storage \<Rightarrow> storage" where
  "store_key name codec k st =
     (case k of Some key \<Rightarrow> write_setting name (encode_key codec key) st | None \<Rightarrow> delete_setting name st)"

definition master_key_setting :: string where
  "master_key_setting = ''master_key''"

definition storage_service_key_setting :: string where
  "storage_service_key_setting = ''storage_service_key''"

definition fetch_master_key :: "'k key_codec \<Rightarrow> storage \<Rightarrow> 'k option res" where
  "fetch_master_key = fetch_key master_key_setting"

definition store_master_key :: "'k key_codec \<Rightarrow> 'k option \<Rightarrow> storage \<Rightarrow> storage" where
  "store_master_key = store_key master_key_setting"

definition fetch_storage_service_key :: "'k key_codec \<Rightarrow> storage \<Rightarrow> 'k option res" where
  "fetch_storage_service_key = fetch_key storage_service_key_setting"

definition store_storage_service_key :: "'k key_codec \<Rightarrow> 'k option \<Rightarrow> storage \<Rightarrow> storage" where
  "store_storage_service_key = store_key storage_service_key_setting"

definition fetch_account_entropy_pool :: "(string \<Rightarrow> 'p option) \<Rightarrow> storage \<Rightarrow> 'p option" where
  "fetch_account_entropy_pool parse st =
     (case read_setting ''account_entropy_pool'' st of
        Some pool \<Rightarrow> if length pool = 64 then parse pool else None
      | None \<Rightarrow> None)"

definition store_account_entropy_pool :: "('p \<Rightarrow> string) \<Rightarrow> 'p \<Rightarrow> storage \<Rightarrow> storage" where
  "store_account_entropy_pool print entropy st = write_setting ''account_entropy_pool'' (print entropy) st"

section \<open>The table is a map\<close>

lemma first_row_updated:
  "first_where (\<lambda>row. fst row = k) (update_where (\<lambda>row. fst row = j) (\<lambda>row. (fst row, v)) tab)
     = (if k = j then map_option (\<lambda>row. (fst row, v)) (first_where (\<lambda>row. fst row = k) tab)
        else first_where (\<lambda>row. fst row = k) tab)"
  by (induction tab) auto

lemma first_row_deleted:
  "first_where (\<lambda>row. fst row = k) (delete_where (\<lambda>row. fst row = j) tab)
     = (if k = j then None else first_where (\<lambda>row. fst row = k) tab)"
  by (induction tab) auto

interpretation setting: keyed_store read_setting write_setting delete_setting "\<lambda>_ _. False"
proof
  fix k j v and s :: storage
  show "read_setting k (write_setting j v s) = (if k = j then Some v else if False then None else read_setting k s)"
    by (cases "first_where (\<lambda>row. fst row = j) (settings (db s))")
      (auto simp: read_setting_def write_setting_def Let_def first_row_updated first_where_append exists_where_iff
        first_where_None dest: first_where_SomeD split: option.splits)
  show "read_setting k (delete_setting j s) = (if k = j then None else read_setting k s)"
    by (simp add: read_setting_def delete_setting_def first_row_deleted)
qed

text \<open>A key that is stored is read back, and neither key affects the other.\<close>

lemma master_key_kept:
  assumes "decode_key codec (encode_key codec key) = Some key"
  shows "fetch_master_key codec (store_storage_service_key codec' other (store_master_key codec (Some key) st)) = Inr (Some key)
    \<and> fetch_master_key codec (store_storage_service_key codec' other (store_master_key codec None st)) = Inr None"
  using assms
  by (cases other)
    (simp_all add: fetch_master_key_def store_master_key_def store_storage_service_key_def fetch_key_def store_key_def
      setting.lookup_put setting.lookup_remove master_key_setting_def storage_service_key_setting_def)

end
