(* ===== verification/ProfileRefresh.thy ===== *)
theory ProfileRefresh
  imports GroupStore SessionStore "HOL-Library.Option_ord"
begin

text \<open>
  The worker that refreshes the profiles of recipients
  (\<open>whisperfish/src/worker/profile_refresh.rs\<close>) and the two operations of the client that use it
  (\<open>whisperfish/src/worker/client.rs\<close>).

  The worker sleeps, and when it wakes up it asks the server for the profiles of up to five
  recipients whose profile is known by key and has not been fetched for a day.  Those recipients
  are ignored for five minutes.  After the batch it computes when to wake up next.

  The clock is \<open>now\<close> of the store; \<open>Utc::now()\<close> gives the same time throughout a handler.  The
  answer of the server, the decryption of a profile and the text of a profile name are arguments.
  A handler is a function of the worker's state.  Between two of them the clock may advance and
  others may change the store, which the step relation of the properties allows; a batch lasts as
  long as its answers take.
\<close>

section \<open>State\<close>

definition max_concurrent_updates :: nat where
  "max_concurrent_updates = 5"

definition reyield_delay :: int where
  "reyield_delay = 5 * 60 * 1000"

definition last_profile_fetch_threshold :: int where
  "last_profile_fetch_threshold = 24 * 60 * 60 * 1000"

text \<open>
  \<open>pu_next_wake\<close> is the delay of the scheduled \<open>WakeUp\<close>, \<open>pu_connected\<close> whether the web socket
  there is a weak reference to still exists, \<open>pu_avatars\<close> the queued \<open>FetchAvatar\<close> messages.
\<close>

record profile_updater =
  pu_storage :: storage
  pu_back_off_until :: timestamp
  pu_local_aci :: uuid
  pu_connected :: bool
  pu_ignore_map :: "(uuid \<times> timestamp) list"
  pu_next_wake :: "int option"
  pu_avatars :: "(uuid \<times> blob \<times> string) list"

type_synonym fetch_profile = "uuid \<times> blob option"

abbreviation pu_now :: "profile_updater \<Rightarrow> timestamp" where
  "pu_now pu \<equiv> now (pu_storage pu)"

abbreviation on_storage :: "(storage \<Rightarrow> storage) \<Rightarrow> profile_updater \<Rightarrow> profile_updater" where
  "on_storage f pu \<equiv> pu\<lparr>pu_storage := f (pu_storage pu)\<rparr>"

definition new_profile_updater :: "storage \<Rightarrow> uuid \<Rightarrow> bool \<Rightarrow> profile_updater" where
  "new_profile_updater st local_aci connected =
     \<lparr> pu_storage = st, pu_back_off_until = now st + reyield_delay, pu_local_aci = local_aci,
       pu_connected = connected, pu_ignore_map = [], pu_next_wake = None, pu_avatars = [] \<rparr>"

section \<open>Who is due\<close>

definition due :: "(uuid \<times> timestamp) list \<Rightarrow> storage \<Rightarrow> recipient \<Rightarrow> bool" where
  "due ignored st r \<longleftrightarrow>
     r_profile_key r \<noteq> None
     \<and> (case r_last_profile_fetch r of
          None \<Rightarrow> True
        | Some t \<Rightarrow> t \<le> now st - last_profile_fetch_threshold \<and> r_is_registered r)
     \<and> (case r_uuid r of None \<Rightarrow> False | Some u \<Rightarrow> u \<notin> fst ` set ignored)"

text \<open>The longest ago first, those never fetched before all others, which is how SQLite orders \<open>NULL\<close>.\<close>

definition recipients_filtered :: "(uuid \<times> timestamp) list \<Rightarrow> storage \<Rightarrow> recipient list" where
  "recipients_filtered ignored st =
     sort_key r_last_profile_fetch (filter (due ignored st) (recipients (db st)))"

section \<open>Scheduling\<close>

definition compute_next_wake :: "profile_updater \<Rightarrow> timestamp option" where
  "compute_next_wake pu =
     (case recipients_filtered (pu_ignore_map pu) (pu_storage pu) of
        [] \<Rightarrow> None
      | r # _ \<Rightarrow> Some (max (case r_last_profile_fetch r of None \<Rightarrow> pu_now pu | Some t \<Rightarrow> t)
                          (pu_back_off_until pu)))"

text \<open>
  The delay is the time that has passed since the computed moment; \<open>to_std\<close> fails on a negative
  one, which becomes zero.
\<close>

definition update_scheduled_wake :: "profile_updater \<Rightarrow> profile_updater" where
  "update_scheduled_wake pu =
     pu\<lparr>pu_next_wake := map_option (\<lambda>wake. max 0 (pu_now pu - wake)) (compute_next_wake pu)\<rparr>"

definition reconnected :: "bool \<Rightarrow> profile_updater \<Rightarrow> profile_updater" where
  "reconnected connected pu = update_scheduled_wake (pu\<lparr>pu_connected := connected\<rparr>)"

definition update_ignore_set :: "profile_updater \<Rightarrow> profile_updater" where
  "update_ignore_set pu =
     pu\<lparr>pu_ignore_map := filter (\<lambda>(_, time). time > pu_now pu) (pu_ignore_map pu)\<rparr>"

section \<open>Waking up\<close>

text \<open>
  One recipient of the batch: nothing is asked for with a key of the wrong length, nor when the
  recipient is ignored already.
\<close>

definition schedule_fetch ::
  "timestamp \<Rightarrow> recipient \<Rightarrow> (uuid \<times> timestamp) list \<Rightarrow> (fetch_profile option \<times> (uuid \<times> timestamp) list) res" where
  "schedule_fetch time r ignored =
     rbind (opt_panic ''database precondition'' (r_uuid r)) (\<lambda>aci. Inr (
       case r_profile_key r of
         None \<Rightarrow> (Some (aci, None), ignored)
       | Some key \<Rightarrow>
           if length key \<noteq> 32 then (None, ignored)
           else if map_of ignored aci = None
             then (Some (aci, Some key), (aci, time + reyield_delay) # ignored)
             else (None, ignored)))"

fun schedule_fetches ::
  "timestamp \<Rightarrow> recipient list \<Rightarrow> (uuid \<times> timestamp) list \<Rightarrow> (fetch_profile list \<times> (uuid \<times> timestamp) list) res" where
  "schedule_fetches time [] ignored = Inr ([], ignored)"
| "schedule_fetches time (r # rs) ignored =
     rbind (schedule_fetch time r ignored) (\<lambda>(command, ignored').
     rbind (schedule_fetches time rs ignored') (\<lambda>(commands, ignored'').
     Inr ((case command of None \<Rightarrow> commands | Some c \<Rightarrow> c # commands), ignored'')))"

text \<open>
  The first half of the handler, up to the commands it is about to send itself.  Without a
  connection it ends there, and no wake-up is scheduled.
\<close>

definition wake_up_start :: "profile_updater \<Rightarrow> (fetch_profile list option \<times> profile_updater) res" where
  "wake_up_start pu =
     (let pu1 = update_ignore_set (pu\<lparr>pu_next_wake := None\<rparr>);
          batch = take max_concurrent_updates (recipients_filtered (pu_ignore_map pu1) (pu_storage pu1))
      in if \<not> pu_connected pu1 then Inr (None, pu1)
         else rbind (schedule_fetches (pu_now pu1) batch (pu_ignore_map pu1)) (\<lambda>(commands, ignored).
           Inr (Some commands, pu1\<lparr>pu_ignore_map := ignored\<rparr>)))"

text \<open>The other half, once all commands have been answered.\<close>

definition wake_up_finish :: "profile_updater \<Rightarrow> profile_updater" where
  "wake_up_finish pu =
     update_scheduled_wake
       (pu\<lparr>pu_back_off_until := max (pu_back_off_until pu) (pu_now pu + reyield_delay)\<rparr>)"

section \<open>The answer of the server\<close>

text \<open>\<open>ServiceError\<close> of the service library, as far as the handler tells the errors apart.\<close>

datatype 'p answer =
    Profile 'p
  | NotFoundError
  | Unauthorized
  | RateLimitExceeded "int option"
  | OtherServiceError

text \<open>The errors the handler returns to whoever asked.\<close>

datatype fetch_error =
    WebsocketUnavailable
  | NoSuchRecipient
  | NoServiceAddress
  | ServiceFailed
  | NoProfileKey
  | DecryptionFailed

record decrypted_profile =
  dp_name :: "(string \<times> string option) option"
  dp_about :: "string option"
  dp_about_emoji :: "string option"
  dp_avatar :: "string option"

text \<open>
  What the handler relies on for a profile: whether it allows unidentified access without
  restriction, decrypting it with a profile key, and printing the name of it.
\<close>

record 'p profile_service =
  unrestricted_unidentified_access :: "'p \<Rightarrow> bool"
  decrypt_profile :: "blob \<Rightarrow> 'p \<Rightarrow> decrypted_profile option"
  name_text :: "string \<times> string option \<Rightarrow> string"

definition profile_data ::
  "'p profile_service \<Rightarrow> timestamp \<Rightarrow> uuid \<Rightarrow> recipient \<Rightarrow> 'p \<Rightarrow> decrypted_profile \<Rightarrow> store_profile" where
  "profile_data service time aci r profile dp =
     \<lparr> sp_given_name = map_option fst (dp_name dp), sp_family_name = Option.bind (dp_name dp) snd,
       sp_joined_name = map_option (name_text service) (dp_name dp), sp_about_text = dp_about dp,
       sp_emoji = dp_about_emoji dp, sp_avatar = dp_avatar dp,
       sp_unidentified = (if unrestricted_unidentified_access service profile then UAUnrestricted
                          else r_unidentified_access_mode r),
       sp_last_fetch = time, sp_r_uuid = aci, sp_r_id = r_id r, sp_r_key = r_profile_key r \<rparr>"

text \<open>A decrypted profile is written, and its picture asked for.\<close>

definition profile_decrypted ::
  "'p profile_service \<Rightarrow> uuid \<Rightarrow> recipient \<Rightarrow> blob \<Rightarrow> service_id \<Rightarrow> 'p \<Rightarrow> decrypted_profile \<Rightarrow> profile_updater \<Rightarrow>
     profile_updater res" where
  "profile_decrypted service recipient_aci r key addr profile dp pu =
     (let pu1 = (case dp_avatar dp of
                   None \<Rightarrow> pu
                 | Some path \<Rightarrow> pu\<lparr>pu_avatars := pu_avatars pu @ [(recipient_aci, key, path)]\<rparr>)
      in rbind (opt_panic ''called `Option::unwrap()` on a `None` value'' (r_uuid r)) (\<lambda>aci.
         rbind (save_profile (profile_data service (pu_now pu) aci r profile dp)
                  (mark_recipient_registered addr True (pu_storage pu1))) (\<lambda>st.
         Inr (pu1\<lparr>pu_storage := st\<rparr>))))"

definition profile_received ::
  "'p profile_service \<Rightarrow> uuid \<Rightarrow> recipient \<Rightarrow> service_id \<Rightarrow> 'p \<Rightarrow> profile_updater \<Rightarrow>
     ((fetch_error + 'p option) \<times> profile_updater) res" where
  "profile_received service recipient_aci r addr profile pu =
     (case r_profile_key r of
        None \<Rightarrow> Inr (Inl NoProfileKey, pu)
      | Some key \<Rightarrow>
          if length key \<noteq> 32
          then Inl (Panic ''copy_from_slice: source slice length does not match destination slice length'')
          else (case decrypt_profile service key profile of
                  None \<Rightarrow> Inr (Inl DecryptionFailed, pu)
                | Some dp \<Rightarrow>
                    rbind (profile_decrypted service recipient_aci r key addr profile dp pu)
                      (\<lambda>pu'. Inr (Inr (Some profile), pu'))))"

definition handle_profile_fetched ::
  "'p profile_service \<Rightarrow> uuid \<Rightarrow> 'p answer \<Rightarrow> profile_updater \<Rightarrow> ((fetch_error + 'p option) \<times> profile_updater) res" where
  "handle_profile_fetched service recipient_aci answer pu =
     (let own = (pu_local_aci pu = recipient_aci) in
      case fetch_recipient (AciId recipient_aci) (pu_storage pu) of
        None \<Rightarrow> Inr (Inl NoSuchRecipient, pu)
      | Some r \<Rightarrow>
          (case to_service_address r of
             None \<Rightarrow> Inr (Inl NoServiceAddress, pu)
           | Some addr \<Rightarrow>
               (case answer of
                  Profile profile \<Rightarrow> profile_received service recipient_aci r addr profile pu
                | NotFoundError \<Rightarrow>
                    Inr (Inr None,
                      on_storage (mark_profile_updated recipient_aci)
                        (if own then pu else on_storage (mark_recipient_registered addr False) pu))
                | Unauthorized \<Rightarrow>
                    Inr (Inl ServiceFailed, if own then pu else on_storage (remove_profile recipient_aci) pu)
                | RateLimitExceeded (Some retry_after) \<Rightarrow>
                    Inr (Inl ServiceFailed, pu\<lparr>pu_back_off_until := pu_now pu + retry_after\<rparr>)
                | RateLimitExceeded None \<Rightarrow>
                    Inr (Inl ServiceFailed, pu\<lparr>pu_back_off_until := pu_now pu + reyield_delay\<rparr>)
                | OtherServiceError \<Rightarrow>
                    Inr (Inl ServiceFailed,
                      if own then pu else on_storage (mark_profile_updated recipient_aci) pu))))"

definition fetch_profile ::
  "'p profile_service \<Rightarrow> (uuid \<Rightarrow> blob option \<Rightarrow> 'p answer) \<Rightarrow> fetch_profile \<Rightarrow> profile_updater \<Rightarrow>
     ((fetch_error + 'p option) \<times> profile_updater) res" where
  "fetch_profile service server command pu =
     (case command of (aci, key) \<Rightarrow>
        if pu_connected pu then handle_profile_fetched service aci (server aci key) pu
        else Inr (Inl WebsocketUnavailable, pu))"

text \<open>Whatever came of the picture, the profile counts as fetched.\<close>

definition avatar_fetched :: "uuid \<Rightarrow> profile_updater \<Rightarrow> profile_updater" where
  "avatar_fetched recipient_uuid pu = on_storage (mark_profile_updated recipient_uuid) pu"

section \<open>The whole handler\<close>

text \<open>Time passes, and nothing else happens.\<close>

definition waited :: "int \<Rightarrow> profile_updater \<Rightarrow> profile_updater" where
  "waited d pu = on_storage (\<lambda>st. st\<lparr>now := now st + d\<rparr>) pu"

text \<open>
  The commands are sent one after the other, each when the one before has been answered; \<open>took c\<close>
  is the time until the answer to \<open>c\<close> is handled.
\<close>

fun send_commands ::
  "'p profile_service \<Rightarrow> (uuid \<Rightarrow> blob option \<Rightarrow> 'p answer) \<Rightarrow> (fetch_profile \<Rightarrow> int) \<Rightarrow> fetch_profile list \<Rightarrow>
     profile_updater \<Rightarrow> profile_updater res" where
  "send_commands service server took [] pu = Inr pu"
| "send_commands service server took (command # commands) pu =
     rbind (fetch_profile service server command (waited (took command) pu)) (\<lambda>(_, pu').
     send_commands service server took commands pu')"

text \<open>
  A wake-up during which the worker handles nothing but its own commands: the commands it
  scheduled, and the state after the batch.
\<close>

definition wake_up ::
  "'p profile_service \<Rightarrow> (uuid \<Rightarrow> blob option \<Rightarrow> 'p answer) \<Rightarrow> (fetch_profile \<Rightarrow> int) \<Rightarrow> profile_updater \<Rightarrow>
     (fetch_profile list \<times> profile_updater) res" where
  "wake_up service server took pu =
     rbind (wake_up_start pu) (\<lambda>(commands, pu1).
     case commands of
       None \<Rightarrow> Inr ([], pu1)
     | Some cs \<Rightarrow> rbind (send_commands service server took cs pu1) (\<lambda>pu2. Inr (cs, wake_up_finish pu2)))"

text \<open>
  Up to \<open>n\<close> wake-ups of a worker that is left alone, beginning with one now: each of the others comes
  when the delay is over that the one before scheduled, and when none is scheduled it sleeps.
\<close>

fun wake_ups ::
  "'p profile_service \<Rightarrow> (uuid \<Rightarrow> blob option \<Rightarrow> 'p answer) \<Rightarrow> (fetch_profile \<Rightarrow> int) \<Rightarrow> nat \<Rightarrow> profile_updater \<Rightarrow>
     (fetch_profile list \<times> profile_updater) res" where
  "wake_ups service server took 0 pu = Inr ([], pu)"
| "wake_ups service server took (Suc n) pu =
     rbind (wake_up service server took pu) (\<lambda>(cs, pu1).
     case pu_next_wake pu1 of
       None \<Rightarrow> Inr (cs, pu1)
     | Some d \<Rightarrow> rbind (wake_ups service server took n (waited d pu1)) (\<lambda>(cs', pu2). Inr (cs @ cs', pu2)))"

section \<open>Refreshing on demand\<close>

text \<open>
  \<open>ClientActor::profile_updater\<close>: the field it looks in is set nowhere, so it starts a new worker
  each time, which schedules its first wake-up.
\<close>

definition client_profile_updater ::
  "profile_updater option \<Rightarrow> storage \<Rightarrow> uuid \<Rightarrow> bool \<Rightarrow> profile_updater" where
  "client_profile_updater field st self_aci connected =
     (case field of
        Some pu \<Rightarrow> pu
      | None \<Rightarrow> update_scheduled_wake (new_profile_updater st self_aci connected))"

datatype refresh_profile =
    BySession int
  | ByRecipientId int

definition recipient_to_refresh :: "refresh_profile \<Rightarrow> storage \<Rightarrow> recipient option res" where
  "recipient_to_refresh req st =
     (case req of
        BySession sid \<Rightarrow>
          rbind (fetch_session_by_id sid st) (\<lambda>so. Inr (
            case so of
              None \<Rightarrow> None
            | Some s \<Rightarrow> (case e_type s of DirectMessage r \<Rightarrow> Some r | _ \<Rightarrow> None)))
      | ByRecipientId i \<Rightarrow> Inr (fetch_recipient_by_id i st))"

text \<open>The store afterwards, and the worker that is told to wake up, if any is.\<close>

definition handle_refresh_profile ::
  "profile_updater option \<Rightarrow> uuid \<Rightarrow> bool \<Rightarrow> refresh_profile \<Rightarrow> storage \<Rightarrow> (storage \<times> profile_updater option) res" where
  "handle_refresh_profile field self_aci connected req st =
     rbind (recipient_to_refresh req st) (\<lambda>ro. Inr (
       case ro of
         None \<Rightarrow> (st, None)
       | Some r \<Rightarrow>
           (let st' = mark_profile_outdated r st
            in (st', Some (client_profile_updater field st' self_aci connected)))))"

end
