(* ===== verification/ProfileRefreshProps.thy ===== *)
theory ProfileRefreshProps
  imports ProfileRefresh
begin

text \<open>
  What the worker of \<open>ProfileRefresh\<close> achieves: as long as the keys in the database have the right
  length, consecutive wake-ups ask for the profile of everybody who is due, once each and the
  longest outdated first; the wake-ups of one worker schedule a request for the same profile at
  most every five minutes.  And what it does not: keys of the wrong length keep everybody else from
  being refreshed, and the time it means to wait between batches is no wait.
\<close>

section \<open>What an answer writes\<close>

definition same_row :: "uuid \<Rightarrow> recipient \<Rightarrow> recipient \<Rightarrow> bool" where
  "same_row u r r' \<longleftrightarrow>
     r_id r' = r_id r \<and> r_uuid r' = r_uuid r \<and> r_profile_key r' = r_profile_key r
     \<and> (r_uuid r \<noteq> Some u \<longrightarrow> r' = r)"

text \<open>Only the row with one ACI changed, and neither its id, its ACI nor its key.\<close>

definition only_row :: "uuid \<Rightarrow> storage \<Rightarrow> storage \<Rightarrow> bool" where
  "only_row u st st' \<longleftrightarrow> list_all2 (same_row u) (recipients (db st)) (recipients (db st')) \<and> now st' = now st"

lemma only_row_refl [simp]: "only_row u st st"
  by (simp add: only_row_def same_row_def list_all2_refl)

lemma same_row_trans: "same_row u r s \<Longrightarrow> same_row u s t \<Longrightarrow> same_row u r t"
  by (auto simp: same_row_def)

lemma only_row_trans: "only_row u st st' \<Longrightarrow> only_row u st' st'' \<Longrightarrow> only_row u st st''"
  using list_all2_trans[of "same_row u" "same_row u" "same_row u"] same_row_trans unfolding only_row_def by metis

lemma only_row_observe [simp]: "only_row u st (observe_recipient i st') = only_row u st st'"
  by (simp add: only_row_def observe_recipient_def)

lemma only_row_invalidate [simp]: "only_row u st (invalidate_if c st') = only_row u st st'"
  by (simp add: only_row_def invalidate_if_def invalidate_self_recipient_def)

lemma only_row_update:
  assumes "\<And>r. P r \<Longrightarrow> r_uuid r = Some u" and "\<And>r. same_row u r (f r) \<or> r_uuid r \<noteq> Some u"
  shows "only_row u st (update_recipients P f st)"
  using assms by (auto simp: only_row_def update_where_def list_all2_map2 same_row_def intro!: list.rel_refl_strong)

lemma only_row_updated: "only_row u st (mark_profile_updated u st)"
  by (auto simp: mark_profile_updated_def Let_def same_row_def intro!: only_row_update split: list.split)

lemma only_row_removed: "only_row u st (remove_profile u st)"
  by (auto simp: remove_profile_def Let_def same_row_def intro!: only_row_update split: list.split)

lemma only_row_registered: "only_row u st (mark_recipient_registered (AciId u) b st)"
  by (auto simp: mark_recipient_registered_def Let_def same_row_def has_service_id_def
      intro!: only_row_update split: list.split)

lemma only_row_saved:
  assumes "save_profile profile st = Inr st'" and "sp_r_uuid profile = u"
  shows "only_row u st st'"
proof -
  let ?P = "\<lambda>r. r_uuid r = Some u \<and> r_last_profile_fetch r \<noteq> Some (sp_last_fetch profile)"
  let ?st1 = "update_recipients ?P (\<lambda>r. r\<lparr>r_last_profile_fetch := Some (sp_last_fetch profile)\<rparr>) st"
  let ?st2 = "update_recipients (\<lambda>r. r_uuid r = Some u) (write_profile profile) ?st1"
  have 1: "only_row u st ?st1"
    by (rule only_row_update) (auto simp: same_row_def)
  have "only_row u ?st1 ?st2"
    by (rule only_row_update) (auto simp: same_row_def write_profile_def)
  with 1 have 2: "only_row u st ?st2"
    by (rule only_row_trans)
  show ?thesis
    using assms 1 2 by (auto simp: save_profile_def Let_def rbind_eq_Inr split: list.splits if_splits)
qed

lemma saved_returns: "\<exists>st'. save_profile profile st = Inr st'"
proof -
  let ?P = "\<lambda>r. r_uuid r = Some (sp_r_uuid profile) \<and> r_last_profile_fetch r \<noteq> Some (sp_last_fetch profile)"
  let ?st1 = "update_recipients ?P (\<lambda>r. r\<lparr>r_last_profile_fetch := Some (sp_last_fetch profile)\<rparr>) st"
  have "\<exists>old. fetch_recipient_by_id i ?st1 = Some old" if "affected_ids ?P st = i # is" for i "is"
  proof -
    have "i \<in> r_id ` set (recipients (db st))"
      using arg_cong[OF that, of set] by (auto simp: affected_ids_def)
    then have "i \<in> set (map r_id (recipients (db ?st1)))"
      by (simp add: map_update_where_frame)
    then have "fetch_recipient_by_id i ?st1 \<noteq> None"
      by (auto simp: fetch_recipient_by_id_def first_where_None simp del: update_recipients_frame)
    then show ?thesis
      by blast
  qed
  then show ?thesis
    by (cases "affected_ids ?P st")
      (fastforce simp: save_profile_def Let_def split: list.split)+
qed

section \<open>Handling an answer\<close>

definition valid_key :: "recipient \<Rightarrow> bool" where
  "valid_key r = (case r_profile_key r of None \<Rightarrow> True | Some key \<Rightarrow> length key = 32)"

text \<open>What stays of the worker while answers are handled.\<close>

definition answered :: "uuid \<Rightarrow> profile_updater \<Rightarrow> profile_updater \<Rightarrow> bool" where
  "answered u pu pu' \<longleftrightarrow>
     only_row u (pu_storage pu) (pu_storage pu') \<and> pu_ignore_map pu' = pu_ignore_map pu
     \<and> pu_connected pu' = pu_connected pu \<and> pu_local_aci pu' = pu_local_aci pu"

lemma answered_refl [simp]: "answered u pu pu"
  by (simp add: answered_def)

lemma profile_decrypted_answered:
  assumes "r_uuid r = Some u"
  shows "\<exists>pu'. profile_decrypted service u r key (AciId u) profile dp pu = Inr pu' \<and> answered u pu pu'"
proof -
  let ?data = "profile_data service (pu_now pu) u r profile dp"
  let ?st = "mark_recipient_registered (AciId u) True (pu_storage pu)"
  obtain st' where saved: "save_profile ?data ?st = Inr st'"
    using saved_returns by blast
  then have "only_row u ?st st'"
    by (rule only_row_saved) (simp add: profile_data_def)
  then have "only_row u (pu_storage pu) st'"
    using only_row_registered only_row_trans by blast
  then show ?thesis
    using assms saved
    by (cases "dp_avatar dp") (auto simp: profile_decrypted_def Let_def answered_def)
qed

text \<open>Either a key of the wrong length makes the handler panic, or it returns.\<close>

lemma profile_received_cases:
  assumes "r_uuid r = Some u"
  obtains (panics) m where "profile_received service u r (AciId u) profile pu = Inl (Panic m)" and "\<not> valid_key r"
  | (returns) res pu' where "profile_received service u r (AciId u) profile pu = Inr (res, pu')"
      and "answered u pu pu'"
proof (cases "r_profile_key r")
  case None
  then show thesis
    using returns by (simp add: profile_received_def)
next
  case (Some key)
  show thesis
  proof (cases "length key = 32")
    case True
    then show thesis
    proof (cases "decrypt_profile service key profile")
      case None
      then show thesis
        using Some True returns by (simp add: profile_received_def)
    next
      case dp: (Some dp)
      then show thesis
        using profile_decrypted_answered[OF assms, of service key profile dp pu] Some True returns
        by (auto simp: profile_received_def)
    qed
  next
    case False
    then show thesis
      using Some panics by (simp add: profile_received_def valid_key_def)
  qed
qed

definition keys_valid :: "uuid \<Rightarrow> profile_updater \<Rightarrow> bool" where
  "keys_valid u pu \<longleftrightarrow> (\<forall>r\<in>set (recipients (db (pu_storage pu))). r_uuid r = Some u \<longrightarrow> valid_key r)"

lemma handled_cases:
  obtains (panics) m where "handle_profile_fetched service u answer pu = Inl (Panic m)" and "\<not> keys_valid u pu"
  | (returns) res pu' where "handle_profile_fetched service u answer pu = Inr (res, pu')" and "answered u pu pu'"
proof (cases "fetch_recipient (AciId u) (pu_storage pu)")
  case None
  then show thesis
    using returns by (simp add: handle_profile_fetched_def Let_def)
next
  case (Some r)
  then have r: "r \<in> set (recipients (db (pu_storage pu)))" "r_uuid r = Some u"
    by (auto simp: fetch_recipient_def has_service_id_def dest: first_where_SomeD)
  then have addr: "to_service_address r = Some (AciId u)"
    by (simp add: to_service_address_def)
  note frames = answered_def only_row_registered only_row_updated only_row_removed
    only_row_trans[OF only_row_registered only_row_updated]
  show thesis
  proof (cases answer)
    case (Profile profile)
    show thesis
    proof (cases rule: profile_received_cases[OF r(2), of service profile pu])
      case (1 m)
      then show thesis
        using Some addr Profile r panics by (auto simp: handle_profile_fetched_def Let_def keys_valid_def)
    next
      case (2 res pu')
      then show thesis
        using Some addr Profile returns by (simp add: handle_profile_fetched_def Let_def)
    qed
  next
    case (RateLimitExceeded retry_after)
    then show thesis
      using Some addr returns by (cases retry_after) (simp_all add: handle_profile_fetched_def Let_def answered_def)
  qed (use Some addr returns in \<open>simp_all add: handle_profile_fetched_def Let_def frames\<close>)
qed

lemma handled_answered:
  "handle_profile_fetched service u answer pu = Inr (res, pu') \<Longrightarrow> answered u pu pu'"
  by (rule handled_cases[of service u answer pu]) auto

lemma fetched_cases:
  obtains (panics) m where "fetch_profile service server (u, key) pu = Inl (Panic m)" and "\<not> keys_valid u pu"
  | (returns) res pu' where "fetch_profile service server (u, key) pu = Inr (res, pu')" and "answered u pu pu'"
proof (cases "pu_connected pu")
  case True
  then show thesis
    using panics returns
    by (cases rule: handled_cases[of service u "server u key" pu]) (simp_all add: fetch_profile_def)
next
  case False
  then show thesis
    using returns by (simp add: fetch_profile_def)
qed

lemma fetched_answered:
  "fetch_profile service server (u, key) pu = Inr (res, pu') \<Longrightarrow> answered u pu pu'"
  by (rule fetched_cases[of service server u key pu]) auto

section \<open>Whoever was answered is not due\<close>

definition fetched_now :: "uuid \<Rightarrow> storage \<Rightarrow> bool" where
  "fetched_now u st \<longleftrightarrow>
     (\<forall>r\<in>set (recipients (db st)). r_uuid r = Some u \<longrightarrow> r_last_profile_fetch r = Some (now st))"

lemma fetched_now_frame [simp]:
  "fetched_now u (observe_recipient i st) = fetched_now u st"
  "fetched_now u (invalidate_if c st) = fetched_now u st"
  by (simp_all add: fetched_now_def observe_recipient_def invalidate_if_def invalidate_self_recipient_def)

lemma fetched_now_update:
  assumes "\<And>r. r_uuid r = Some u \<Longrightarrow> P r \<or> r_last_profile_fetch r = Some (now st)"
    and "\<And>r. P r \<Longrightarrow> r_uuid (f r) = r_uuid r \<and> r_last_profile_fetch (f r) = Some (now st)"
  shows "fetched_now u (update_recipients P f st)"
  using assms by (auto simp: fetched_now_def set_update_where)

lemma fetched_now_marks:
  "fetched_now u (mark_profile_updated u st)" "fetched_now u (remove_profile u st)"
  by (auto simp: mark_profile_updated_def remove_profile_def Let_def intro!: fetched_now_update split: list.split)

lemma fetched_now_write:
  "fetched_now u st \<Longrightarrow> fetched_now u (update_recipients P (write_profile profile) st)"
  by (auto simp: fetched_now_def set_update_where write_profile_def)

lemma fetched_now_saved:
  assumes "save_profile profile st = Inr st'" and "sp_r_uuid profile = u" and "sp_last_fetch profile = now st"
  shows "fetched_now u st'"
proof -
  let ?P = "\<lambda>r. r_uuid r = Some u \<and> r_last_profile_fetch r \<noteq> Some (now st)"
  have "fetched_now u (update_recipients ?P (\<lambda>r. r\<lparr>r_last_profile_fetch := Some (now st)\<rparr>) st)"
    by (rule fetched_now_update) auto
  then show ?thesis
    using assms fetched_now_write
    by (auto simp: save_profile_def Let_def rbind_eq_Inr split: list.splits if_splits)
qed

lemma fetched_now_not_due:
  "fetched_now u st \<Longrightarrow> r \<in> set (recipients (db st)) \<Longrightarrow> r_uuid r = Some u \<Longrightarrow>
     t < now st + last_profile_fetch_threshold \<Longrightarrow> \<not> due ignored (st\<lparr>now := t\<rparr>) r"
  by (auto simp: fetched_now_def due_def)

text \<open>The answers that settle the matter: not a limit, and for the own profile no error.\<close>

definition settles :: "uuid \<Rightarrow> profile_updater \<Rightarrow> 'p answer \<Rightarrow> bool" where
  "settles u pu answer =
     (case answer of
        Profile _ \<Rightarrow> True
      | NotFoundError \<Rightarrow> True
      | RateLimitExceeded _ \<Rightarrow> False
      | _ \<Rightarrow> u \<noteq> pu_local_aci pu)"

lemma settled_fetched_now:
  assumes run: "handle_profile_fetched service u answer pu = Inr (res, pu')" and "settles u pu answer"
    and res: "res \<notin> {Inl NoSuchRecipient, Inl NoProfileKey, Inl DecryptionFailed}"
  shows "fetched_now u (pu_storage pu')"
proof -
  obtain r where r: "fetch_recipient (AciId u) (pu_storage pu) = Some r"
    using run res by (cases "fetch_recipient (AciId u) (pu_storage pu)") (auto simp: handle_profile_fetched_def Let_def)
  then have "r_uuid r = Some u"
    by (auto simp: fetch_recipient_def has_service_id_def dest: first_where_SomeD)
  then have addr: "to_service_address r = Some (AciId u)"
    by (simp add: to_service_address_def)
  show ?thesis
  proof (cases answer)
    case (Profile profile)
    have "now (mark_recipient_registered (AciId u) True (pu_storage pu)) = pu_now pu"
      using only_row_registered by (simp add: only_row_def)
    then show ?thesis
      using run res r addr Profile \<open>r_uuid r = Some u\<close>
      by (auto simp: handle_profile_fetched_def profile_received_def profile_decrypted_def Let_def rbind_eq_Inr
          profile_data_def split: option.splits if_splits dest!: fetched_now_saved)
  qed (use assms r addr in \<open>auto simp: handle_profile_fetched_def Let_def settles_def fetched_now_marks\<close>)
qed

section \<open>A batch\<close>

text \<open>The store as it would be at another time.\<close>

abbreviation at_time :: "timestamp \<Rightarrow> storage \<Rightarrow> storage" where
  "at_time t st \<equiv> st\<lparr>now := t\<rparr>"

text \<open>What the queries of the worker depend on stays the same, whenever they are asked.\<close>

definition same_queue :: "(uuid \<times> timestamp) list \<Rightarrow> storage \<Rightarrow> storage \<Rightarrow> bool" where
  "same_queue ignored st st' \<longleftrightarrow>
     (\<forall>t. recipients_filtered ignored (at_time t st') = recipients_filtered ignored (at_time t st))
     \<and> map (\<lambda>r. (r_uuid r, r_profile_key r)) (recipients (db st'))
         = map (\<lambda>r. (r_uuid r, r_profile_key r)) (recipients (db st))"

lemma same_queue_refl [simp]: "same_queue ignored st st" "same_queue ignored st (at_time t st)"
  by (simp_all add: same_queue_def)

lemma same_queue_trans: "same_queue ig st st' \<Longrightarrow> same_queue ig st' st'' \<Longrightarrow> same_queue ig st st''"
  by (simp add: same_queue_def)

lemma same_row_due:
  assumes "same_row u r r'" and "u \<in> fst ` set ignored" and "now st' = now st"
  shows "due ignored st' r' = due ignored st r" and "due ignored st r \<Longrightarrow> r' = r"
proof -
  have "(due ignored st' r' = due ignored st r) \<and> (due ignored st r \<longrightarrow> r' = r)"
    using assms by (cases "r_uuid r = Some u") (auto simp: same_row_def due_def cong: option.case_cong)
  then show "due ignored st' r' = due ignored st r" and "due ignored st r \<Longrightarrow> r' = r"
    by simp_all
qed

lemma only_row_same_queue:
  assumes "only_row u st st'" and "u \<in> fst ` set ignored"
  shows "same_queue ignored st st'"
proof -
  have rows: "list_all2 (same_row u) (recipients (db st)) (recipients (db st'))"
    using assms(1) by (simp add: only_row_def)
  then have "filter (due ignored (at_time t st')) (recipients (db st'))
      = filter (due ignored (at_time t st)) (recipients (db st))" for t
    by (induction rule: list_all2_induct)
      (use same_row_due[OF _ assms(2), of _ _ "at_time t st'" "at_time t st"] in auto)
  moreover from rows have "map (\<lambda>r. (r_uuid r, r_profile_key r)) (recipients (db st'))
      = map (\<lambda>r. (r_uuid r, r_profile_key r)) (recipients (db st))"
    by (induction rule: list_all2_induct) (auto simp: same_row_def)
  ultimately show ?thesis
    by (simp add: same_queue_def recipients_filtered_def)
qed

lemma keys_valid_map:
  "keys_valid u pu \<longleftrightarrow>
     (\<forall>(v, k)\<in>set (map (\<lambda>r. (r_uuid r, r_profile_key r)) (recipients (db (pu_storage pu)))).
        v = Some u \<longrightarrow> (case k of None \<Rightarrow> True | Some key \<Rightarrow> length key = 32))"
  by (auto simp: keys_valid_def valid_key_def)

lemma same_queue_keys_valid:
  "same_queue ig (pu_storage pu) (pu_storage pu') \<Longrightarrow> keys_valid u pu' = keys_valid u pu"
  by (simp only: keys_valid_map same_queue_def)

lemma waited_frame [simp]:
  "pu_storage (waited d pu) = at_time (pu_now pu + d) (pu_storage pu)"
  "pu_ignore_map (waited d pu) = pu_ignore_map pu" "pu_connected (waited d pu) = pu_connected pu"
  "pu_next_wake (waited d pu) = pu_next_wake pu" "keys_valid u (waited d pu) = keys_valid u pu"
  by (simp_all add: waited_def keys_valid_def)

lemma waited_0 [simp]: "waited 0 pu = pu"
  by (simp add: waited_def)

lemma sent_commands:
  assumes "\<forall>(u, k)\<in>set commands. u \<in> fst ` set (pu_ignore_map pu) \<and> keys_valid u pu" and "\<forall>c. 0 \<le> took c"
  shows "\<exists>pu'. send_commands service server took commands pu = Inr pu'
    \<and> same_queue (pu_ignore_map pu) (pu_storage pu) (pu_storage pu')
    \<and> pu_ignore_map pu' = pu_ignore_map pu \<and> pu_connected pu' = pu_connected pu \<and> pu_now pu \<le> pu_now pu'"
  using assms(1)
proof (induction commands arbitrary: pu)
  case Nil
  then show ?case by simp
next
  case (Cons command commands)
  obtain u k where [simp]: "command = (u, k)"
    by fastforce
  let ?pu0 = "waited (took command) pu"
  obtain res pu1 where run: "fetch_profile service server (u, k) ?pu0 = Inr (res, pu1)"
    and "answered u ?pu0 pu1"
    using Cons.prems by (cases rule: fetched_cases[of service server u k ?pu0]) auto
  then have row: "only_row u (pu_storage ?pu0) (pu_storage pu1)"
    and frame: "pu_ignore_map pu1 = pu_ignore_map pu" "pu_connected pu1 = pu_connected pu"
    by (simp_all add: answered_def)
  have "same_queue (pu_ignore_map pu) (pu_storage ?pu0) (pu_storage pu1)"
    using row Cons.prems by (intro only_row_same_queue) auto
  then have "same_queue (pu_ignore_map pu) (pu_storage pu) (pu_storage pu1)"
    by (rule same_queue_trans[rotated]) simp
  moreover have "pu_now pu1 = pu_now pu + took command"
    using row by (simp add: only_row_def)
  ultimately have 1: "same_queue (pu_ignore_map pu) (pu_storage pu) (pu_storage pu1)"
      "pu_ignore_map pu1 = pu_ignore_map pu" "pu_connected pu1 = pu_connected pu"
      "pu_now pu1 = pu_now pu + took command"
    using frame by simp_all
  then have "\<forall>(u, k)\<in>set commands. u \<in> fst ` set (pu_ignore_map pu1) \<and> keys_valid u pu1"
    using Cons.prems by (auto simp: same_queue_keys_valid)
  moreover have "pu_now pu \<le> pu_now pu1"
    using assms(2) 1(4) by simp
  ultimately show ?case
    using Cons.IH[of pu1] run 1(1-3) by (fastforce intro: same_queue_trans)
qed

definition command_of :: "recipient \<Rightarrow> fetch_profile" where
  "command_of r = (the (r_uuid r), r_profile_key r)"

lemma scheduled:
  assumes "\<forall>r\<in>set rs. \<exists>u key. r_uuid r = Some u \<and> r_profile_key r = Some key \<and> length key = 32
             \<and> u \<notin> fst ` set ignored"
    and "distinct (map r_uuid rs)"
  shows "schedule_fetches time rs ignored
    = Inr (map command_of rs, rev (map (\<lambda>r. (the (r_uuid r), time + reyield_delay)) rs) @ ignored)"
  using assms
proof (induction rs arbitrary: ignored)
  case Nil
  then show ?case by simp
next
  case (Cons r rs)
  then obtain u key where r: "r_uuid r = Some u" "r_profile_key r = Some key" "length key = 32"
      "u \<notin> fst ` set ignored"
    by auto
  then have "map_of ignored u = None"
    by (simp add: map_of_eq_None_iff)
  moreover have "schedule_fetches time rs ((u, time + reyield_delay) # ignored)
      = Inr (map command_of rs,
             rev (map (\<lambda>r. (the (r_uuid r), time + reyield_delay)) rs) @ (u, time + reyield_delay) # ignored)"
    using Cons.prems r by (intro Cons.IH) (auto, force)
  ultimately show ?case
    using r by (simp add: schedule_fetch_def command_of_def)
qed

lemma not_scheduled:
  assumes "\<forall>r\<in>set rs. r_uuid r \<noteq> None \<and> r_profile_key r \<noteq> None \<and> \<not> valid_key r"
  shows "schedule_fetches time rs ignored = Inr ([], ignored)"
  using assms by (induction rs) (auto simp: schedule_fetch_def valid_key_def)

section \<open>The queue of those who are due\<close>

definition queue_of :: "profile_updater \<Rightarrow> recipient list" where
  "queue_of pu = recipients_filtered (pu_ignore_map (update_ignore_set pu)) (pu_storage pu)"

lemma set_recipients_filtered:
  "set (recipients_filtered ignored st) = {r \<in> set (recipients (db st)). due ignored st r}"
  by (simp add: recipients_filtered_def)

lemma due_known:
  assumes "due ignored st r"
  obtains u key where "r_uuid r = Some u" and "r_profile_key r = Some key" and "u \<notin> fst ` set ignored"
  using assms by (auto simp: due_def split: option.splits)

lemma filtered_uuids:
  "map r_uuid (recipients_filtered ignored st) = map Some (map (\<lambda>r. the (r_uuid r)) (recipients_filtered ignored st))"
  by (auto simp: set_recipients_filtered due_def split: option.splits)

lemma distinct_filtered_uuids:
  assumes "unique_values r_uuid (recipients (db st))"
  shows "distinct (map r_uuid (recipients_filtered ignored st))"
proof -
  have "distinct (map r_uuid (filter (due ignored st) tab))" if "unique_values r_uuid tab" for tab
    using that by (induction tab) (auto simp: due_def image_iff split: option.splits)
  then show ?thesis
    using assms by (simp add: recipients_filtered_def distinct_map)
qed

lemma unique_keys:
  assumes "unique_values r_uuid tab" and "r \<in> set tab" and "s \<in> set tab" and "r_uuid r = Some u" and "r_uuid s = Some u"
  shows "r = s"
  using assms by (induction tab) (auto split: option.splits)

lemma distinct_filtered_acis:
  "unique_values r_uuid (recipients (db st)) \<Longrightarrow> distinct (map (\<lambda>r. the (r_uuid r)) (recipients_filtered ignored st))"
  using distinct_filtered_uuids[of st ignored] by (simp add: filtered_uuids distinct_map del: map_map)

lemma filter_not_taken:
  assumes "distinct (map f xs)"
  shows "filter (\<lambda>x. f x \<notin> f ` set (take n xs)) xs = drop n xs"
proof -
  have "distinct (map f (take n xs @ drop n xs))"
    using assms by simp
  then have "f ` set (take n xs) \<inter> f ` set (drop n xs) = {}"
    by (simp del: append_take_drop_id)
  then have "filter (\<lambda>x. f x \<notin> f ` set (take n xs)) (take n xs @ drop n xs) = drop n xs"
    unfolding filter_append by (subst filter_False, simp, subst filter_True) auto
  then show ?thesis
    by simp
qed

text \<open>Ignoring a prefix of the queue leaves the rest of it.\<close>

lemma filtered_rest:
  assumes "unique_values r_uuid (recipients (db st))"
  shows "recipients_filtered (rev (map (\<lambda>r. (the (r_uuid r), t)) (take n (recipients_filtered ignored st))) @ ignored) st
    = drop n (recipients_filtered ignored st)"
proof -
  let ?q = "recipients_filtered ignored st"
  let ?new = "rev (map (\<lambda>r. (the (r_uuid r), t)) (take n ?q)) @ ignored"
  let ?P = "\<lambda>r. the (r_uuid r) \<notin> (\<lambda>r. the (r_uuid r)) ` set (take n ?q)"
  have "due ?new st = (\<lambda>r. due ignored st r \<and> ?P r)"
    by (auto simp: due_def image_Un image_image fun_eq_iff split: option.splits)
  then have "recipients_filtered ?new st = filter ?P ?q"
    by (simp add: recipients_filtered_def filter_sort conj_commute flip: filter_filter)
  also have "\<dots> = drop n ?q"
    using filter_not_taken[OF distinct_filtered_acis[OF assms]] .
  finally show ?thesis
    by simp
qed

section \<open>Wake-ups\<close>

lemma next_wake_finish:
  "pu_next_wake (wake_up_finish pu) =
     (if recipients_filtered (pu_ignore_map pu) (pu_storage pu) = [] then None else Some 0)"
  by (auto simp: wake_up_finish_def update_scheduled_wake_def compute_next_wake_def reyield_delay_def
      split: list.split)

lemma wake_up_finish_frame [simp]:
  "pu_storage (wake_up_finish pu) = pu_storage pu" "pu_ignore_map (wake_up_finish pu) = pu_ignore_map pu"
  "pu_connected (wake_up_finish pu) = pu_connected pu"
  by (simp_all add: wake_up_finish_def update_scheduled_wake_def)

lemma queue_of_fresh:
  assumes "\<forall>(u, t)\<in>set (pu_ignore_map pu). t > pu_now pu"
  shows "queue_of pu = recipients_filtered (pu_ignore_map pu) (pu_storage pu)"
proof -
  have "filter (\<lambda>(_, time). time > pu_now pu) (pu_ignore_map pu) = pu_ignore_map pu"
    using assms by (auto intro: filter_True)
  then show ?thesis
    by (simp add: queue_of_def update_ignore_set_def)
qed

lemma wake_up_start_batch:
  assumes "pu_connected pu"
    and "schedule_fetches (pu_now pu) (take 5 (queue_of pu)) (pu_ignore_map (update_ignore_set pu)) = Inr (cs, ig)"
  shows "wake_up_start pu = Inr (Some cs, pu\<lparr>pu_next_wake := None, pu_ignore_map := ig\<rparr>)"
  using assms by (simp add: wake_up_start_def update_ignore_set_def queue_of_def max_concurrent_updates_def Let_def)

text \<open>All rows have usable keys, or none.\<close>

definition rows_ok :: "profile_updater \<Rightarrow> bool" where
  "rows_ok pu \<longleftrightarrow>
     unique_values r_uuid (recipients (db (pu_storage pu))) \<and> (\<forall>r\<in>set (recipients (db (pu_storage pu))). valid_key r)"

lemma rows_ok_keys_valid: "rows_ok pu \<Longrightarrow> keys_valid u pu"
  by (simp add: rows_ok_def keys_valid_def)

lemma same_queue_rows_ok:
  assumes "same_queue ig (pu_storage pu) (pu_storage pu')" and "rows_ok pu"
  shows "rows_ok pu'"
proof -
  let ?f = "\<lambda>r. (r_uuid r, r_profile_key r)"
  let ?tab = "recipients (db (pu_storage pu))" and ?tab' = "recipients (db (pu_storage pu'))"
  have rows: "map ?f ?tab' = map ?f ?tab"
    using assms(1) by (simp add: same_queue_def)
  then have "map (fst \<circ> ?f) ?tab' = map (fst \<circ> ?f) ?tab"
    by (simp only: flip: map_map)
  then have "map r_uuid ?tab' = map r_uuid ?tab"
    by (simp add: comp_def)
  from unique_values_cong[OF this] have "unique_values r_uuid ?tab'"
    using assms(2) by (simp add: rows_ok_def)
  moreover have "?f ` set ?tab' = ?f ` set ?tab"
    using rows by (metis set_map)
  then have "\<exists>r0\<in>set ?tab. ?f r0 = ?f r" if "r \<in> set ?tab'" for r
    using imageI[OF that, of ?f] by (auto simp: image_iff)
  then have "valid_key r" if "r \<in> set ?tab'" for r
    using assms(2) that by (force simp: rows_ok_def valid_key_def)
  ultimately show ?thesis
    by (simp add: rows_ok_def)
qed

text \<open>Those who become due later come after all others.\<close>

lemma sorted_prefix:
  fixes f :: "'a \<Rightarrow> 'b :: linorder"
  assumes "sorted (map f xs)" and "\<And>x y. x \<in> set xs \<Longrightarrow> y \<in> set xs \<Longrightarrow> f x \<le> f y \<Longrightarrow> P y \<Longrightarrow> P x"
  shows "xs = filter P xs @ filter (\<lambda>x. \<not> P x) xs"
  using assms
proof (induction xs)
  case Nil
  then show ?case by simp
next
  case (Cons x xs)
  have "sorted (map f xs)"
    using Cons.prems(1) by simp
  moreover have "P x" if "x \<in> set xs" and "y \<in> set xs" and "f x \<le> f y" and "P y" for x y
    using Cons.prems(2)[of x y] that by simp
  ultimately have rest: "xs = filter P xs @ filter (\<lambda>x. \<not> P x) xs"
    by (rule Cons.IH)
  show ?case
  proof (cases "P x")
    case True
    then show ?thesis
      using rest by simp
  next
    case False
    then have "\<forall>y\<in>set xs. \<not> P y"
      using Cons.prems by auto
    then show ?thesis
      using False by (simp add: filter_empty_conv)
  qed
qed

lemma due_earlier:
  assumes "due ig (at_time t' st) x" and "due ig (at_time t st) y" and "r_last_profile_fetch x \<le> r_last_profile_fetch y"
  shows "due ig (at_time t st) x"
  using assms by (auto simp: due_def split: option.splits)

lemma due_later: "due ig (at_time t st) r \<Longrightarrow> t \<le> t' \<Longrightarrow> due ig (at_time t' st) r"
  by (auto simp: due_def split: option.splits)

lemma filtered_later:
  assumes "t \<le> t'"
  obtains late where "recipients_filtered ig (at_time t' st) = recipients_filtered ig (at_time t st) @ late"
proof -
  let ?q = "recipients_filtered ig (at_time t' st)" and ?P = "due ig (at_time t st)"
  have "?q = filter ?P ?q @ filter (\<lambda>r. \<not> ?P r) ?q"
    by (rule sorted_prefix[where f = r_last_profile_fetch])
      (auto simp: set_recipients_filtered simp: recipients_filtered_def intro: due_earlier)
  moreover have "filter ?P ?q = recipients_filtered ig (at_time t st)"
    using due_later[OF _ assms, of ig st] by (auto simp: recipients_filtered_def filter_sort intro!: arg_cong[of _ _ "sort_key _"] filter_cong)
  ultimately show thesis
    using that by metis
qed

definition ignoring :: "timestamp \<Rightarrow> recipient list \<Rightarrow> (uuid \<times> timestamp) list \<Rightarrow> (uuid \<times> timestamp) list" where
  "ignoring t rs ig = rev (map (\<lambda>r. (the (r_uuid r), t + reyield_delay)) rs) @ ig"

text \<open>One batch: the first five are asked for, and none of them is left in the queue.\<close>

lemma wake_up_batch:
  assumes "pu_connected pu" and ok: "rows_ok pu" and "\<forall>c. 0 \<le> took c"
  obtains pu' where "wake_up service server took pu = Inr (map command_of (take 5 (queue_of pu)), pu')"
    and "pu_connected pu'" and "rows_ok pu'" and "pu_now pu \<le> pu_now pu'"
    and "pu_ignore_map pu' = ignoring (pu_now pu) (take 5 (queue_of pu)) (pu_ignore_map (update_ignore_set pu))"
    and "same_queue (pu_ignore_map pu') (pu_storage pu) (pu_storage pu')"
    and "pu_next_wake pu' = (if recipients_filtered (pu_ignore_map pu') (pu_storage pu') = [] then None else Some 0)"
proof -
  let ?ig = "pu_ignore_map (update_ignore_set pu)"
  define batch where "batch = take 5 (queue_of pu)"
  define ig where "ig = ignoring (pu_now pu) batch ?ig"
  define pu1 where "pu1 = pu\<lparr>pu_next_wake := None, pu_ignore_map := ig\<rparr>"
  have uniq: "unique_values r_uuid (recipients (db (pu_storage pu)))"
    and valid: "\<forall>r\<in>set (recipients (db (pu_storage pu))). valid_key r"
    using ok by (simp_all add: rows_ok_def)
  have q: "r \<in> set (recipients (db (pu_storage pu))) \<and> due ?ig (pu_storage pu) r" if "r \<in> set batch" for r
    using that by (auto simp: batch_def queue_of_def set_recipients_filtered dest!: in_set_takeD)
  have known: "\<exists>u key. r_uuid r = Some u \<and> r_profile_key r = Some key \<and> length key = 32 \<and> u \<notin> fst ` set ?ig"
    if r: "r \<in> set batch" for r
    using due_known[OF conjunct2[OF q[OF r]]] bspec[OF valid conjunct1[OF q[OF r]]] by (fastforce simp: valid_key_def)
  have "distinct (map r_uuid batch)"
    using distinct_filtered_uuids[OF uniq] by (simp add: batch_def queue_of_def distinct_map inj_on_def)
      (metis in_set_takeD)
  then have "schedule_fetches (pu_now pu) batch ?ig = Inr (map command_of batch, ig)"
    using known unfolding ig_def ignoring_def by (intro scheduled) auto
  then have start: "wake_up_start pu = Inr (Some (map command_of batch), pu1)"
    using wake_up_start_batch[OF assms(1)] by (simp add: batch_def pu1_def)
  have "rows_ok pu1"
    using ok by (simp add: rows_ok_def pu1_def)
  then have "\<forall>(u, k)\<in>set (map command_of batch). u \<in> fst ` set (pu_ignore_map pu1) \<and> keys_valid u pu1"
    by (auto simp: command_of_def pu1_def ig_def ignoring_def image_Un image_image rows_ok_keys_valid)
  then obtain pu2 where sent: "send_commands service server took (map command_of batch) pu1 = Inr pu2"
    and same: "same_queue ig (pu_storage pu) (pu_storage pu2)" "pu_ignore_map pu2 = ig" "pu_connected pu2"
      "pu_now pu \<le> pu_now pu2"
    using sent_commands[of "map command_of batch" pu1 took service server] assms(1,3) by (auto simp: pu1_def)
  have run: "wake_up service server took pu = Inr (map command_of batch, wake_up_finish pu2)"
    using start sent by (simp add: wake_up_def)
  have ok2: "rows_ok (wake_up_finish pu2)"
    using same_queue_rows_ok[OF _ ok] same(1) by simp
  show thesis
    by (rule that[of "wake_up_finish pu2"])
      (use run ok2 same in \<open>simp_all add: batch_def ig_def next_wake_finish\<close>)
qed

section \<open>Consecutive wake-ups\<close>

text \<open>The queue as it will be at another time if nobody answers and no entry to ignore expires.\<close>

definition queue_until :: "timestamp \<Rightarrow> profile_updater \<Rightarrow> recipient list" where
  "queue_until t pu = recipients_filtered (pu_ignore_map (update_ignore_set pu)) (at_time t (pu_storage pu))"

lemma queue_until_now: "queue_until (pu_now pu) pu = queue_of pu"
  by (simp add: queue_until_def queue_of_def)

text \<open>Nothing the worker ignores now is forgotten before the given time.\<close>

definition ignored_until :: "timestamp \<Rightarrow> profile_updater \<Rightarrow> bool" where
  "ignored_until t pu \<longleftrightarrow> (\<forall>x\<in>set (pu_ignore_map pu). pu_now pu < snd x \<longrightarrow> t < snd x)"

lemma queue_until_later:
  assumes "pu_now pu \<le> t"
  obtains late where "queue_until t pu = queue_of pu @ late"
  using filtered_later[OF assms, of "pu_ignore_map (update_ignore_set pu)" "pu_storage pu"]
  by (auto simp: queue_until_def queue_of_def)

text \<open>What a batch leaves of the queue, at any later time.\<close>

lemma queue_after_batch:
  assumes ok: "rows_ok pu" and later: "pu_now pu \<le> pu_now pu'" "pu_now pu' \<le> t"
    and ig: "pu_ignore_map pu' = ignoring (pu_now pu) (take 5 (queue_of pu)) (pu_ignore_map (update_ignore_set pu))"
    and same: "same_queue (pu_ignore_map pu') (pu_storage pu) (pu_storage pu')"
    and kept: "ignored_until t pu" and soon: "t < pu_now pu + reyield_delay"
  shows "ignored_until t pu'"
    and "queue_until t pu' = drop (min 5 (length (queue_of pu))) (queue_until t pu)"
    and "recipients_filtered (pu_ignore_map pu') (pu_storage pu') = queue_of pu'"
proof -
  have entries: "t < snd x" if "x \<in> set (pu_ignore_map pu')" for x
    using that kept soon by (auto simp: ig ignoring_def update_ignore_set_def ignored_until_def)
  then show "ignored_until t pu'"
    by (simp add: ignored_until_def)
  from entries have "filter (\<lambda>(_, time). time > pu_now pu') (pu_ignore_map pu') = pu_ignore_map pu'"
    using later by (intro filter_True) fastforce
  then have fresh: "pu_ignore_map (update_ignore_set pu') = pu_ignore_map pu'"
    by (simp add: update_ignore_set_def)
  then show "recipients_filtered (pu_ignore_map pu') (pu_storage pu') = queue_of pu'"
    by (simp add: queue_of_def)
  obtain late where late: "queue_until t pu = queue_of pu @ late"
    using queue_until_later[OF order_trans[OF later]] .
  then have batch: "take 5 (queue_of pu) = take (min 5 (length (queue_of pu))) (queue_until t pu)"
    by (simp add: min_def)
  have "queue_until t pu' = recipients_filtered (pu_ignore_map pu') (at_time t (pu_storage pu))"
    using same by (simp add: queue_until_def fresh same_queue_def)
  also have "\<dots> = drop (min 5 (length (queue_of pu))) (queue_until t pu)"
    unfolding ig batch ignoring_def queue_until_def using ok
    by (intro filtered_rest) (simp add: rows_ok_def)
  finally show "queue_until t pu' = drop (min 5 (length (queue_of pu))) (queue_until t pu)" .
qed

definition asked_in_order :: "nat \<Rightarrow> profile_updater \<Rightarrow> fetch_profile list \<Rightarrow> profile_updater \<Rightarrow> bool" where
  "asked_in_order n pu cs pu' \<longleftrightarrow>
     (\<exists>m. cs = map command_of (take m (queue_until (pu_now pu') pu))
        \<and> min (5 * n) (length (queue_of pu)) \<le> m \<and> m \<le> 5 * n
        \<and> (0 < n \<longrightarrow> pu_next_wake pu' = (if length (queue_until (pu_now pu') pu) \<le> m then None else Some 0)))"

lemma asked_in_order_batch:
  assumes "pu_now pu \<le> pu_now pu'"
    and rest: "queue_of pu' = drop (min 5 (length (queue_of pu))) (queue_until (pu_now pu') pu)"
    and "pu_next_wake pu' = (if queue_of pu' = [] then None else Some 0)"
  shows "asked_in_order (Suc 0) pu (map command_of (take 5 (queue_of pu))) pu'"
proof -
  obtain late where late: "queue_until (pu_now pu') pu = queue_of pu @ late"
    using queue_until_later assms(1) by blast
  then show ?thesis
    using assms(3) unfolding asked_in_order_def rest
    by (intro exI[of _ "min 5 (length (queue_of pu))"]) (cases late; auto simp: min_def)
qed

lemma asked_in_order_done:
  assumes "pu_now pu \<le> pu_now pu'" and "asked_in_order (Suc 0) pu cs pu'" and "pu_next_wake pu' = None"
  shows "asked_in_order (Suc n) pu cs pu'"
proof -
  obtain m where m: "cs = map command_of (take m (queue_until (pu_now pu') pu))" "m \<le> 5"
      "length (queue_until (pu_now pu') pu) \<le> m"
    using assms(2,3) by (auto simp: asked_in_order_def split: if_splits)
  moreover have "length (queue_of pu) \<le> length (queue_until (pu_now pu') pu)"
    using queue_until_later[OF assms(1)] by (metis length_append le_add1)
  ultimately show ?thesis
    using assms(3) unfolding asked_in_order_def by (intro exI[of _ m]) auto
qed

lemma asked_in_order_append:
  assumes "pu_now pu \<le> pu_now pu1" and "pu_now pu1 \<le> pu_now pu'"
    and rest: "\<And>t. t \<in> {pu_now pu1, pu_now pu'} \<Longrightarrow> queue_until t pu1 = drop (min 5 (length (queue_of pu))) (queue_until t pu)"
    and "asked_in_order n pu1 cs pu'" and "0 < n"
  shows "asked_in_order (Suc n) pu (map command_of (take 5 (queue_of pu)) @ cs) pu'"
proof -
  let ?k = "min 5 (length (queue_of pu))"
  obtain m where m: "cs = map command_of (take m (queue_until (pu_now pu') pu1))"
      "min (5 * n) (length (queue_of pu1)) \<le> m" "m \<le> 5 * n"
      "pu_next_wake pu' = (if length (queue_until (pu_now pu') pu1) \<le> m then None else Some 0)"
    using assms(4,5) by (auto simp: asked_in_order_def)
  obtain late where late: "queue_until (pu_now pu') pu = queue_of pu @ late"
    using queue_until_later[OF order_trans[OF assms(1,2)]] .
  obtain late1 where "queue_until (pu_now pu1) pu = queue_of pu @ late1"
    using queue_until_later assms(1) by blast
  then have left: "length (queue_of pu) - ?k \<le> length (queue_of pu1)"
    using rest[of "pu_now pu1"] by (simp add: queue_until_now)
  have "take 5 (queue_of pu) = take ?k (queue_until (pu_now pu') pu)"
    by (simp add: late min_def)
  then have "map command_of (take 5 (queue_of pu)) @ cs = map command_of (take (?k + m) (queue_until (pu_now pu') pu))"
    by (simp add: m(1) rest take_add)
  then show ?thesis
    using m(2-4) left rest[of "pu_now pu'"] unfolding asked_in_order_def
    by (intro exI[of _ "?k + m"]) auto
qed

lemma wake_ups_queue:
  assumes "pu_connected pu" and "rows_ok pu" and took: "\<forall>c. 0 \<le> took c"
  shows "\<exists>cs pu'. wake_ups service server took n pu = Inr (cs, pu') \<and> pu_now pu \<le> pu_now pu'
    \<and> (ignored_until (pu_now pu') pu \<and> pu_now pu' < pu_now pu + reyield_delay \<longrightarrow> asked_in_order n pu cs pu')"
  using assms(1,2)
proof (induction n arbitrary: pu)
  case 0
  then show ?case
    by (simp add: asked_in_order_def)
next
  case (Suc n)
  obtain pu1 where 1: "wake_up service server took pu = Inr (map command_of (take 5 (queue_of pu)), pu1)"
      "pu_connected pu1" "rows_ok pu1" "pu_now pu \<le> pu_now pu1"
    and ig: "pu_ignore_map pu1 = ignoring (pu_now pu) (take 5 (queue_of pu)) (pu_ignore_map (update_ignore_set pu))"
    and same: "same_queue (pu_ignore_map pu1) (pu_storage pu) (pu_storage pu1)"
    and wake: "pu_next_wake pu1 = (if recipients_filtered (pu_ignore_map pu1) (pu_storage pu1) = [] then None else Some 0)"
    using wake_up_batch[OF Suc.prems took, of service server] by metis
  note after = queue_after_batch[OF Suc.prems(2) 1(4) _ ig same]
  have batch: "asked_in_order (Suc 0) pu (map command_of (take 5 (queue_of pu))) pu1"
    if "ignored_until (pu_now pu1) pu" and "pu_now pu1 < pu_now pu + reyield_delay"
    using after[OF order_refl that] wake by (intro asked_in_order_batch[OF 1(4)]) (simp_all add: queue_until_now)
  show ?case
  proof (cases "pu_next_wake pu1")
    case None
    have "asked_in_order (Suc n) pu (map command_of (take 5 (queue_of pu))) pu1"
      if "ignored_until (pu_now pu1) pu" and "pu_now pu1 < pu_now pu + reyield_delay"
      using batch[OF that] None by (rule asked_in_order_done[OF 1(4)])
    then show ?thesis
      using 1 None by simp
  next
    case (Some d)
    then have d: "d = 0"
      using wake by (simp split: if_splits)
    obtain cs pu2 where 2: "wake_ups service server took n pu1 = Inr (cs, pu2)" "pu_now pu1 \<le> pu_now pu2"
      and ord: "ignored_until (pu_now pu2) pu1 \<Longrightarrow> pu_now pu2 < pu_now pu1 + reyield_delay \<Longrightarrow> asked_in_order n pu1 cs pu2"
      using Suc.IH[OF 1(2,3)] by blast
    have "asked_in_order (Suc n) pu (map command_of (take 5 (queue_of pu)) @ cs) pu2"
      if kept: "ignored_until (pu_now pu2) pu" and soon: "pu_now pu2 < pu_now pu + reyield_delay"
    proof (cases "n = 0")
      case True
      then show ?thesis
        using 2 batch kept soon by simp
    next
      case False
      have "ignored_until (pu_now pu1) pu" "pu_now pu1 < pu_now pu + reyield_delay"
        using kept soon 2(2) by (force simp: ignored_until_def)+
      note at1 = after[OF order_refl this] and at2 = after[OF 2(2) kept soon]
      have "pu_now pu2 < pu_now pu1 + reyield_delay"
        using soon 1(4) by simp
      then show ?thesis
        using asked_in_order_append[OF 1(4) 2(2) _ ord[OF at2(1)]] at1(2) at2(2) False by blast
    qed
    then show ?thesis
      using 1 2 Some d by simp
  qed
qed

lemma wake_up_bad_keys:
  assumes "pu_connected pu" and "queue_of pu \<noteq> []"
    and bad: "\<forall>r\<in>set (take 5 (queue_of pu)). \<not> valid_key r"
  obtains pu' where "wake_up service server took pu = Inr ([], pu')" and "pu_connected pu'"
    and "pu_storage pu' = pu_storage pu" and "queue_of pu' = queue_of pu" and "pu_next_wake pu' = Some 0"
proof -
  let ?ig = "pu_ignore_map (update_ignore_set pu)"
  define pu1 where "pu1 = pu\<lparr>pu_next_wake := None, pu_ignore_map := ?ig\<rparr>"
  have "r_uuid r \<noteq> None \<and> r_profile_key r \<noteq> None \<and> \<not> valid_key r" if "r \<in> set (take 5 (queue_of pu))" for r
  proof -
    have "due ?ig (pu_storage pu) r"
      using that by (auto simp: queue_of_def set_recipients_filtered dest!: in_set_takeD)
    then show ?thesis
      using bad that by (auto elim: due_known)
  qed
  then have "wake_up_start pu = Inr (Some [], pu1)"
    using wake_up_start_batch[OF assms(1) not_scheduled] by (simp add: pu1_def)
  then have run: "wake_up service server took pu = Inr ([], wake_up_finish pu1)"
    by (simp add: wake_up_def)
  have "recipients_filtered ?ig (pu_storage pu) = queue_of pu"
    by (simp add: queue_of_def)
  then show thesis
    using that[OF run] assms(1,2)
    by (simp add: next_wake_finish pu1_def) (simp add: queue_of_def update_ignore_set_def)
qed

lemma wake_ups_bad_keys:
  assumes "pu_connected pu" and "queue_of pu \<noteq> []" and "\<forall>r\<in>set (take 5 (queue_of pu)). \<not> valid_key r"
  shows "\<exists>pu'. wake_ups service server took n pu = Inr ([], pu') \<and> pu_storage pu' = pu_storage pu
    \<and> (0 < n \<longrightarrow> pu_next_wake pu' = Some 0)"
  using assms
proof (induction n arbitrary: pu)
  case 0
  then show ?case by simp
next
  case (Suc n)
  obtain pu1 where 1: "wake_up service server took pu = Inr ([], pu1)" "pu_connected pu1"
      "pu_storage pu1 = pu_storage pu" "queue_of pu1 = queue_of pu" "pu_next_wake pu1 = Some 0"
    using wake_up_bad_keys[OF Suc.prems, of service server took] by metis
  then obtain pu2 where "wake_ups service server took n pu1 = Inr ([], pu2)" "pu_storage pu2 = pu_storage pu"
      "0 < n \<longrightarrow> pu_next_wake pu2 = Some 0"
    using Suc.IH[of pu1] Suc.prems by auto
  then show ?case
    using 1 by (cases n) auto
qed

section \<open>A worker and everybody else\<close>

text \<open>
  The state of a worker, the commands scheduled by its wake-ups that are still to be handled, and
  the profiles its wake-ups asked for so far, with the time of the wake-up.  A command is handled by
  sending a request, which the log does not show, and later its answer, in any order; a request may
  also be for somebody else (\<open>RefreshOwnProfile\<close> and the upload of the own profile send a
  \<open>FetchProfile\<close> too).  Between any two handlers the store may change in any way and time may pass.
\<close>

inductive updater_step ::
  "'p profile_service \<Rightarrow> profile_updater \<times> fetch_profile list \<times> (uuid \<times> timestamp) list \<Rightarrow>
     profile_updater \<times> fetch_profile list \<times> (uuid \<times> timestamp) list \<Rightarrow> bool" for service where
  us_wake: "wake_up_start pu = Inr (Some cs, pu') \<Longrightarrow>
    updater_step service (pu, todo, log) (pu', todo @ cs, log @ map (\<lambda>(u, _). (u, pu_now pu)) cs)"
| us_suspended: "wake_up_start pu = Inr (None, pu') \<Longrightarrow> updater_step service (pu, todo, log) (pu', todo, log)"
| us_sent: "updater_step service (pu, c # todo, log) (pu, todo, log)"
| us_answered: "handle_profile_fetched service u answer pu = Inr (res, pu') \<Longrightarrow>
    updater_step service (pu, todo, log) (pu', todo, log)"
| us_finish: "updater_step service (pu, todo, log) (wake_up_finish pu, todo, log)"
| us_avatar: "updater_step service (pu, todo, log) (avatar_fetched u pu, todo, log)"
| us_reconnected: "updater_step service (pu, todo, log) (reconnected c pu, todo, log)"
| us_others: "pu_now pu \<le> now st \<Longrightarrow> updater_step service (pu, todo, log) (pu\<lparr>pu_storage := st\<rparr>, todo, log)"

definition apart :: "uuid \<times> timestamp \<Rightarrow> uuid \<times> timestamp \<Rightarrow> bool" where
  "apart x y \<longleftrightarrow> (fst x = fst y \<longrightarrow> snd x + reyield_delay \<le> snd y)"

definition remembered :: "profile_updater \<Rightarrow> (uuid \<times> timestamp) list \<Rightarrow> bool" where
  "remembered pu log \<longleftrightarrow>
     sorted_wrt apart log
     \<and> (\<forall>(u, t)\<in>set log. pu_now pu < t + reyield_delay \<longrightarrow> (u, t + reyield_delay) \<in> set (pu_ignore_map pu))"

lemma remembered_mono:
  "remembered pu log \<Longrightarrow> pu_ignore_map pu' = pu_ignore_map pu \<Longrightarrow> pu_now pu \<le> pu_now pu' \<Longrightarrow> remembered pu' log"
  by (fastforce simp: remembered_def)

lemma remembered_answered:
  "remembered pu log \<Longrightarrow> answered u pu pu' \<Longrightarrow> remembered pu' log"
  by (erule remembered_mono) (simp_all add: answered_def only_row_def)

lemma scheduled_commands:
  assumes "schedule_fetches time rs ignored = Inr (cs, ignored')" and "\<forall>r\<in>set rs. r_profile_key r \<noteq> None"
  shows "set ignored \<subseteq> set ignored' \<and> distinct (map fst cs)
    \<and> (\<forall>(u, k)\<in>set cs. (u, time + reyield_delay) \<in> set ignored' \<and> u \<notin> fst ` set ignored)"
  using assms
proof (induction rs arbitrary: ignored cs)
  case Nil
  then show ?case by simp
next
  case (Cons r rs)
  obtain key where key: "r_profile_key r = Some key"
    using Cons.prems(2) by auto
  obtain c ig cs' where c: "schedule_fetch time r ignored = Inr (c, ig)"
    and rest: "schedule_fetches time rs ig = Inr (cs', ignored')"
    and cs: "cs = (case c of None \<Rightarrow> cs' | Some c \<Rightarrow> c # cs')"
    using Cons.prems(1) by (auto simp: rbind_eq_Inr)
  have "set ig \<subseteq> set ignored'" "distinct (map fst cs')"
      "\<forall>(u, k)\<in>set cs'. (u, time + reyield_delay) \<in> set ignored' \<and> u \<notin> fst ` set ig"
    using Cons.IH[OF rest] Cons.prems(2) by auto
  then show ?case
    using c cs key by (auto simp: schedule_fetch_def rbind_eq_Inr map_of_eq_None_iff split: if_splits) force+
qed

text \<open>Whoever is asked for was not ignored.\<close>

lemma wake_up_start_asked:
  assumes "wake_up_start pu = Inr (Some cs, pu')"
  shows "pu_storage pu' = pu_storage pu" and "distinct (map fst cs)"
    and "\<forall>x\<in>set (pu_ignore_map pu). pu_now pu < snd x \<longrightarrow> x \<in> set (pu_ignore_map pu') \<and> fst x \<notin> fst ` set cs"
    and "\<forall>(u, k)\<in>set cs. (u, pu_now pu + reyield_delay) \<in> set (pu_ignore_map pu')"
proof -
  let ?ig = "pu_ignore_map (update_ignore_set pu)"
  obtain ig where run: "schedule_fetches (pu_now pu) (take 5 (queue_of pu)) ?ig = Inr (cs, ig)"
    and pu': "pu' = pu\<lparr>pu_next_wake := None, pu_ignore_map := ig\<rparr>"
    using assms
    by (auto simp: wake_up_start_def update_ignore_set_def queue_of_def max_concurrent_updates_def Let_def
        rbind_eq_Inr split: if_splits)
  have "\<forall>r\<in>set (take 5 (queue_of pu)). r_profile_key r \<noteq> None"
    by (auto simp: queue_of_def set_recipients_filtered due_def dest!: in_set_takeD)
  note facts = scheduled_commands[OF run this]
  show "pu_storage pu' = pu_storage pu" "distinct (map fst cs)"
    using facts by (simp_all add: pu')
  show "\<forall>(u, k)\<in>set cs. (u, pu_now pu + reyield_delay) \<in> set (pu_ignore_map pu')"
    using facts by (auto simp: pu')
  have "x \<in> set ?ig" if "x \<in> set (pu_ignore_map pu)" and "pu_now pu < snd x" for x
    using that by (auto simp: update_ignore_set_def)
  moreover have "fst x \<notin> fst ` set cs" if "x \<in> set ?ig" for x
    using facts imageI[OF that, of fst] by fastforce
  ultimately show "\<forall>x\<in>set (pu_ignore_map pu). pu_now pu < snd x \<longrightarrow> x \<in> set (pu_ignore_map pu') \<and> fst x \<notin> fst ` set cs"
    using facts by (simp add: pu') blast
qed

lemma sorted_wrt_same_time:
  "distinct (map fst cs) \<Longrightarrow> sorted_wrt apart (map (\<lambda>(u, _). (u, t)) cs)"
  by (induction cs) (auto simp: apart_def image_iff)

lemma remembered_wake:
  assumes start: "wake_up_start pu = Inr (Some cs, pu')" and ok: "remembered pu asked"
  shows "remembered pu' (asked @ map (\<lambda>(u, _). (u, pu_now pu)) cs)"
proof -
  note facts = wake_up_start_asked[OF start]
  have "apart x (u, pu_now pu)" if "x \<in> set asked" and "(u, k) \<in> set cs" for x u k
  proof (cases "pu_now pu < snd x + reyield_delay")
    case True
    then have "(fst x, snd x + reyield_delay) \<in> set (pu_ignore_map pu)"
      using ok that(1) by (force simp: remembered_def)
    then have "fst x \<notin> fst ` set cs"
      using facts(3) True by force
    then show ?thesis
      using that(2) by (force simp: apart_def)
  next
    case False
    then show ?thesis
      by (simp add: apart_def)
  qed
  moreover have "sorted_wrt apart asked"
    using ok by (simp add: remembered_def)
  ultimately have "sorted_wrt apart (asked @ map (\<lambda>(u, _). (u, pu_now pu)) cs)"
    using sorted_wrt_same_time[OF facts(2)] by (auto simp: sorted_wrt_append)
  moreover have "(u, t + reyield_delay) \<in> set (pu_ignore_map pu')"
    if "(u, t) \<in> set asked" and "pu_now pu < t + reyield_delay" for u t
  proof -
    have "(u, t + reyield_delay) \<in> set (pu_ignore_map pu)"
      using ok that by (force simp: remembered_def)
    then show ?thesis
      using facts(3) that(2) by force
  qed
  ultimately show ?thesis
    using facts(1,4) by (auto simp: remembered_def)
qed

lemma remembered_start: "wake_up_start pu = Inr (None, pu') \<Longrightarrow> remembered pu asked \<Longrightarrow> remembered pu' asked"
  by (auto simp: wake_up_start_def update_ignore_set_def Let_def rbind_eq_Inr remembered_def split: if_splits)

lemma remembered_step:
  assumes "updater_step service (pu, todo, asked) (pu', todo', asked')" and "remembered pu asked"
  shows "remembered pu' asked'"
  using assms
proof (cases rule: updater_step.cases)
  case (us_answered u answer res)
  then show ?thesis
    using assms(2) remembered_answered handled_answered by blast
qed (use assms(2) in \<open>auto intro: remembered_wake remembered_start elim: remembered_mono
      simp: avatar_fetched_def reconnected_def update_scheduled_wake_def
        only_row_updated[unfolded only_row_def, THEN conjunct2]\<close>)

lemma remembered_run:
  "(updater_step service)\<^sup>*\<^sup>* x y \<Longrightarrow> remembered (fst x) (snd (snd x)) \<Longrightarrow> remembered (fst y) (snd (snd y))"
  by (induction rule: rtranclp_induct) (auto dest: remembered_step)

section \<open>Properties\<close>

text \<open>A store with recipients that have the given profile keys, and a service that answers.\<close>

fun keyed_recipients :: "nat \<Rightarrow> blob list \<Rightarrow> recipient list" where
  "keyed_recipients n [] = []"
| "keyed_recipients n (key # keys) =
     with_r_id (int n) ((new_recipient (Some n) None None)\<lparr>r_profile_key := Some key\<rparr>) # keyed_recipients (Suc n) keys"

definition keyed_updater :: "blob list \<Rightarrow> profile_updater" where
  "keyed_updater keys =
     new_profile_updater
       \<lparr> db = empty_database\<lparr>recipients := keyed_recipients 1 keys\<rparr>,
         conf = \<lparr> cfg_tel = None, cfg_aci = Some 100, cfg_pni = None, cfg_home = ''/h'' \<rparr>,
         self_recipient = None, events = [], now = 1000, files = [] \<rparr> 100 True"

definition plain_service :: "string profile_service" where
  "plain_service =
     \<lparr> unrestricted_unidentified_access = (\<lambda>_. False),
       decrypt_profile = (\<lambda>_ p. Some \<lparr> dp_name = Some (p, None), dp_about = None, dp_about_emoji = None,
                                        dp_avatar = None \<rparr>),
       name_text = fst \<rparr>"

definition known_server :: "uuid \<Rightarrow> blob option \<Rightarrow> string answer" where
  "known_server u _ = (if u = 1 then NotFoundError else if u = 2 then RateLimitExceeded None else Profile ''Jo'')"

text \<open>
  C14. Everybody is refreshed.  When all profile keys in the database have 32 bytes and the worker
  is left alone with a connection, \<open>n\<close> wake-ups never panic, whatever the server answers and however
  long each answer takes.  As long as five minutes have not passed since the first one, and nobody
  ignored at its time is let in again, they ask for the profiles from the head of the queue, each
  once: of all who were due at the start, the longest outdated first, then of those who have become
  due since, who come after them.  That makes at least as many as were due, up to five for each
  wake-up, rate limits or not; and another wake-up is scheduled, without any delay, exactly as long
  as somebody is left.  The comment in the source wants five minutes before the next batch; the
  delay is none because of the way it is computed.
\<close>

theorem due_profiles_fetched:
  assumes "pu_connected pu" and "rows_ok pu" and "\<forall>c. 0 \<le> took c"
  shows "\<exists>cs pu'. wake_ups service server took n pu = Inr (cs, pu')
    \<and> (ignored_until (pu_now pu') pu \<and> pu_now pu' < pu_now pu + reyield_delay \<longrightarrow>
        distinct (map fst cs) \<and> (\<exists>late. queue_until (pu_now pu') pu = queue_of pu @ late)
        \<and> (\<exists>m. cs = map command_of (take m (queue_until (pu_now pu') pu))
             \<and> min (5 * n) (length (queue_of pu)) \<le> m \<and> m \<le> 5 * n
             \<and> (0 < n \<longrightarrow>
                  pu_next_wake pu' = (if length (queue_until (pu_now pu') pu) \<le> m then None else Some 0))))"
proof -
  obtain cs pu' where run: "wake_ups service server took n pu = Inr (cs, pu')" "pu_now pu \<le> pu_now pu'"
    and ord: "ignored_until (pu_now pu') pu \<Longrightarrow> pu_now pu' < pu_now pu + reyield_delay \<Longrightarrow> asked_in_order n pu cs pu'"
    using wake_ups_queue[OF assms] by blast
  have "distinct (map fst (map command_of (take m (queue_until (pu_now pu') pu))))" for m
    using assms(2) distinct_filtered_acis[of "at_time (pu_now pu') (pu_storage pu)" "pu_ignore_map (update_ignore_set pu)"]
    by (simp add: rows_ok_def command_of_def comp_def queue_until_def flip: take_map)
  then show ?thesis
    using run ord queue_until_later[OF run(2)] unfolding asked_in_order_def by metis
qed

definition six_due :: profile_updater where
  "six_due = keyed_updater (replicate 6 (replicate 32 0))"

theorem due_profiles_fetched_witness:
  "\<exists>cs pu'. wake_ups plain_service known_server (\<lambda>_. 1000) 2 six_due = Inr (cs, pu')
     \<and> distinct (map fst cs) \<and> pu_now pu' = 7000
     \<and> (\<exists>m. cs = map command_of (take m (queue_until 7000 six_due)) \<and> 6 \<le> m)"
proof -
  have "pu_connected six_due" "rows_ok six_due"
    by code_simp+
  moreover have "\<forall>c :: fetch_profile. 0 \<le> (1000 :: int)"
    by simp
  ultimately have demo: "pu_connected six_due" "rows_ok six_due" "\<forall>c :: fetch_profile. 0 \<le> (1000 :: int)"
    .
  from due_profiles_fetched[OF demo, of plain_service known_server 2] obtain cs pu' where
    run: "wake_ups plain_service known_server (\<lambda>_. 1000) 2 six_due = Inr (cs, pu')"
    and ord: "ignored_until (pu_now pu') six_due \<and> pu_now pu' < pu_now six_due + reyield_delay \<longrightarrow>
        distinct (map fst cs) \<and> (\<exists>late. queue_until (pu_now pu') six_due = queue_of six_due @ late)
        \<and> (\<exists>m. cs = map command_of (take m (queue_until (pu_now pu') six_due))
             \<and> min (5 * 2) (length (queue_of six_due)) \<le> m \<and> m \<le> 5 * 2
             \<and> (0 < (2 :: nat) \<longrightarrow>
                  pu_next_wake pu' = (if length (queue_until (pu_now pu') six_due) \<le> m then None else Some 0)))"
    by (elim exE conjE) (rule that)
  have "(case wake_ups plain_service known_server (\<lambda>_. 1000) 2 six_due of
           Inl _ \<Rightarrow> False | Inr (_, pu') \<Rightarrow> pu_now pu' = 7000)"
    by code_simp
  then have time: "pu_now pu' = 7000"
    by (simp add: run)
  have "ignored_until 7000 six_due" "(7000 :: int) < pu_now six_due + reyield_delay" "length (queue_of six_due) = 6"
    by code_simp+
  then show ?thesis
    using run ord time by auto
qed

text \<open>
  Keys of the wrong length.  When the five recipients first in the queue have profile keys of
  another length than 32 bytes, no wake-up ever asks for a profile, however many others are due:
  the batch is the same every time, and the next wake-up is scheduled without any delay.
\<close>

theorem bad_keys_starve:
  assumes "pu_connected pu" and "queue_of pu \<noteq> []" and "\<forall>r\<in>set (take 5 (queue_of pu)). \<not> valid_key r"
  shows "\<exists>pu'. wake_ups service server took n pu = Inr ([], pu') \<and> pu_storage pu' = pu_storage pu
    \<and> (0 < n \<longrightarrow> pu_next_wake pu' = Some 0)"
  using assms by (rule wake_ups_bad_keys)

theorem bad_keys_starve_witness:
  "(\<exists>pu'. wake_ups plain_service known_server (\<lambda>_. 0) 10 (keyed_updater (replicate 5 [0] @ [replicate 32 0])) = Inr ([], pu'))
   \<and> map command_of (queue_of (keyed_updater (replicate 5 [0] @ [replicate 32 0]))) ! 5 = (6, Some (replicate 32 0))"
proof -
  let ?pu = "keyed_updater (replicate 5 [0] @ [replicate 32 0])"
  have "pu_connected ?pu" "queue_of ?pu \<noteq> []" "\<forall>r\<in>set (take 5 (queue_of ?pu)). \<not> valid_key r"
    by code_simp+
  from bad_keys_starve[OF this, of plain_service known_server "\<lambda>_. 0" 10]
  have "\<exists>pu'. wake_ups plain_service known_server (\<lambda>_. 0) 10 ?pu = Inr ([], pu')"
    by blast
  moreover have "map command_of (queue_of ?pu) ! 5 = (6, Some (replicate 32 0))"
    by code_simp
  ultimately show ?thesis
    by blast
qed

text \<open>
  C37. Scheduled at most every five minutes.  Whatever else happens to the store, whatever the
  server answers and in whatever order, the wake-ups of one worker that schedule the request for
  the profile of the same recipient are at least five minutes apart.  That is about the moments of
  scheduling: a request waits for the answers to those before it in the batch.  Requests that do
  not come from a wake-up are not limited, nor are those of other workers.
\<close>

theorem profile_scheduled_rarely:
  assumes "(updater_step service)\<^sup>*\<^sup>* (new_profile_updater st aci connected, [], []) (pu, todo, log)"
    and "i < j" and "j < length log" and "fst (log ! i) = fst (log ! j)"
  shows "snd (log ! i) + reyield_delay \<le> snd (log ! j)"
proof -
  have "remembered pu log"
    using remembered_run[OF assms(1)] by (simp add: remembered_def)
  then show ?thesis
    using assms(2-4) sorted_wrt_nth_less[of apart log i j] by (simp add: remembered_def apart_def)
qed

definition asked_demo :: "timestamp \<Rightarrow> profile_updater" where
  "asked_demo t =
     (let pu = keyed_updater [replicate 32 0]
      in pu\<lparr>pu_storage := (pu_storage pu)\<lparr>now := t\<rparr>, pu_ignore_map := [(1, 301000)]\<rparr>)"

theorem profile_scheduled_rarely_witness:
  "\<exists>asked. snd (asked ! 0) + reyield_delay \<le> snd (asked ! 1) \<and> asked = [(1 :: uuid, 1000), (1, 301000)]"
proof -
  let ?key = "Some (replicate 32 0) :: blob option"
  let ?start = "keyed_updater [replicate 32 0]"
  let ?again = "(asked_demo 301000)\<lparr>pu_ignore_map := [(1, 601000)]\<rparr>"
  have starts: "wake_up_start ?start = Inr (Some [(1, ?key)], asked_demo 1000)"
      "wake_up_start (asked_demo 301000) = Inr (Some [(1, ?key)], ?again)"
    by code_simp+
  have later: "asked_demo 301000 = (asked_demo 1000)\<lparr>pu_storage := pu_storage (asked_demo 301000)\<rparr>"
      "pu_now (asked_demo 1000) \<le> now (pu_storage (asked_demo 301000))"
      "pu_now ?start = 1000" "pu_now (asked_demo 301000) = 301000"
    by code_simp+
  let ?step = "updater_step plain_service"
  have "?step (?start, [], []) (asked_demo 1000, [(1, ?key)], [(1, 1000)])"
    using us_wake[OF starts(1), of plain_service "[]" "[]"] by (simp add: later(3))
  moreover have "?step (asked_demo 1000, [(1, ?key)], [(1, 1000)]) (asked_demo 301000, [(1, ?key)], [(1, 1000)])"
    using us_others[OF later(2), of plain_service "[(1, ?key)]" "[(1, 1000)]"] by (simp only: later(1)[symmetric])
  moreover have "?step (asked_demo 301000, [(1, ?key)], [(1, 1000)])
      (?again, [(1, ?key), (1, ?key)], [(1, 1000), (1, 301000)])"
    using us_wake[OF starts(2), of plain_service "[(1, ?key)]" "[(1, 1000)]"] by (simp add: later(4))
  ultimately have "?step\<^sup>*\<^sup>* (?start, [], []) (?again, [(1, ?key), (1, ?key)], [(1, 1000), (1, 301000)])"
    by (intro converse_rtranclp_into_rtranclp[OF _ converse_rtranclp_into_rtranclp[OF _ r_into_rtranclp]])
  from profile_scheduled_rarely[OF this[unfolded keyed_updater_def], of 0 1]
  show ?thesis
    by simp
qed

text \<open>
  Whoever has been answered rests.  Unless a rate limit was hit, an error concerned the own
  profile, or a profile came for somebody unknown, without key or undecryptable, the recipient is
  not due again for a day after the answer has been handled.
\<close>

theorem answered_profiles_rest:
  assumes "handle_profile_fetched service u answer pu = Inr (res, pu')" and "settles u pu answer"
    and "res \<notin> {Inl NoSuchRecipient, Inl NoProfileKey, Inl DecryptionFailed}"
    and "r \<in> set (recipients (db (pu_storage pu')))" and "r_uuid r = Some u"
    and "t < pu_now pu + last_profile_fetch_threshold"
  shows "\<not> due ignored ((pu_storage pu')\<lparr>now := t\<rparr>) r"
proof -
  have "pu_now pu' = pu_now pu"
    using handled_answered[OF assms(1)] by (simp add: answered_def only_row_def)
  then show ?thesis
    using fetched_now_not_due[OF settled_fetched_now[OF assms(1-3)] assms(4,5)] assms(6) by simp
qed

theorem answered_profiles_rest_witness:
  "\<not> due [] ((pu_storage (on_storage (mark_profile_updated 1)
        (on_storage (mark_recipient_registered (AciId 1) False) (keyed_updater [replicate 32 0]))))\<lparr>now := 86400999\<rparr>)
      ((hd (keyed_recipients 1 [replicate 32 0]))\<lparr>r_is_registered := False, r_last_profile_fetch := Some 1000\<rparr>)"
proof (rule answered_profiles_rest)
  let ?pu = "keyed_updater [replicate 32 0]"
  show "handle_profile_fetched plain_service 1 NotFoundError ?pu = Inr (Inr None,
      on_storage (mark_profile_updated 1) (on_storage (mark_recipient_registered (AciId 1) False) ?pu))"
    by code_simp
  show "settles 1 ?pu (NotFoundError :: string answer)"
    by code_simp
  show "86400999 < pu_now ?pu + last_profile_fetch_threshold"
    by code_simp
qed (simp, code_simp, code_simp)

end
