(* ===== verification/MessageExpiry.thy ===== *)
theory MessageExpiry
  imports AttachmentStore
begin

text \<open>
  The stream that tells the client when messages have expired
  (\<open>whisperfish/src/worker/message_expiry.rs\<close>), and the handlers of the client around it
  (\<open>whisperfish/src/worker/client/message_expiry.rs\<close>, \<open>whisperfish/src/worker/client.rs\<close>).

  The stream sleeps until the next deadline.  Handlers that start a timer send a note through a
  channel, upon which the stream computes its wake-up anew.  The client deletes the expired
  messages whenever the stream yields.

  Of the asynchronous runtime the model has what the stream relies on: a sleep is over when its
  time has come, a channel hands out its notes one by one, and whatever was polled without success
  wakes the task later.  The sender of the channel lives as long as the client, so the channel is
  never closed.
\<close>

section \<open>The stream\<close>

text \<open>
  \<open>es_next_wake\<close> is the end of the sleep, and whether the sleep has been polled and so will wake the
  task; \<open>es_channel\<close> counts the notes, \<open>es_receiving\<close> is whether the next note will wake the task.
\<close>

record expiry_stream =
  es_next_wake :: "(timestamp \<times> bool) option"
  es_channel :: nat
  es_receiving :: bool

definition new_expiry_stream :: expiry_stream where
  "new_expiry_stream = \<lparr> es_next_wake = None, es_channel = 0, es_receiving = False \<rparr>"

text \<open>A deadline that has passed leaves a second of sleep.\<close>

definition sleep_end :: "timestamp \<Rightarrow> timestamp \<Rightarrow> timestamp" where
  "sleep_end time deadline = time + (if deadline < time then 1000 else deadline - time)"

text \<open>
  The new sleep, and whether the task is woken at once.  Looking up the next deadline panics on a
  message whose timer is negative, and so do the operations below that come to it.
\<close>

definition update_next_wake :: "storage \<Rightarrow> expiry_stream \<Rightarrow> (bool \<times> expiry_stream) res" where
  "update_next_wake st s =
     rbind (fetch_next_expiring_message_id st) (\<lambda>next.
     Inr (case next of
            Some (_, time) \<Rightarrow> (True, s\<lparr>es_next_wake := Some (sleep_end (now st) (1000 * time), False)\<rparr>)
          | None \<Rightarrow> (False, s\<lparr>es_next_wake := None\<rparr>)))"

text \<open>A pending stream may have woken its own task.\<close>

datatype poll =
    Ready
  | Pending bool

definition poll_sleep :: "timestamp \<Rightarrow> (timestamp \<times> bool) option \<Rightarrow> bool \<times> (timestamp \<times> bool) option" where
  "poll_sleep time sleep =
     (case sleep of
        None \<Rightarrow> (False, None)
      | Some (w, _) \<Rightarrow> if w \<le> time then (True, None) else (False, Some (w, True)))"

definition poll_recv :: "expiry_stream \<Rightarrow> bool \<times> expiry_stream" where
  "poll_recv s =
     (if 0 < es_channel s then (True, s\<lparr>es_channel := es_channel s - 1\<rparr>) else (False, s\<lparr>es_receiving := True\<rparr>))"

definition poll_next :: "storage \<Rightarrow> expiry_stream \<Rightarrow> (poll \<times> expiry_stream) res" where
  "poll_next st s =
     (let (ready, sleep) = poll_sleep (now st) (es_next_wake s);
          s1 = s\<lparr>es_next_wake := sleep\<rparr>
      in if ready \<and> fetch_expired_message_ids st \<noteq> [] then Inr (Ready, s1)
         else
           (let (woken, s2) = poll_recv s1
            in if woken \<or> es_next_wake s2 = None
               then rbind (update_next_wake st s2) (\<lambda>(again, s3). Inr (Pending again, s3))
               else Inr (Pending False, s2)))"

section \<open>The handlers\<close>

definition expired_messages :: "(string \<Rightarrow> bool) \<Rightarrow> storage \<Rightarrow> storage" where
  "expired_messages allowed st = snd (delete_expired_messages allowed st)"

text \<open>A note takes the waker the receiver left.\<close>

definition notify :: "expiry_stream \<Rightarrow> expiry_stream" where
  "notify s = s\<lparr>es_channel := es_channel s + 1, es_receiving := False\<rparr>"

text \<open>
  The client has the sending end once it has connected.  Received and queued messages need none;
  starting a timer and reading panic without it, the former after it has changed the store.
\<close>

type_synonym expiry_client = "expiry_stream option \<times> storage"

definition note_created_message :: "expiry_client \<Rightarrow> expiry_client" where
  "note_created_message c = (map_option notify (fst c), snd c)"

definition handle_start_message_expiry :: "int \<Rightarrow> expiry_client \<Rightarrow> expiry_client res" where
  "handle_start_message_expiry message_id c =
     (let st = start_message_expiry message_id (snd c) in
      rbind (opt_panic ''called `Option::unwrap()` on a `None` value'' (fst c)) (\<lambda>s.
      Inr (Some (notify s), st)))"

definition handle_mark_messages_read :: "int list \<Rightarrow> expiry_client \<Rightarrow> expiry_client res" where
  "handle_mark_messages_read read c =
     rbind (opt_panic ''called `Option::unwrap()` on a `None` value'' (fst c)) (\<lambda>s.
     Inr (Some (notify s), mark_messages_read_in_ui read (snd c)))"

text \<open>
  The client's loop over the stream: as long as it yields, the expired messages are deleted and it is
  polled again.  It ends, for a stream without a sleep does not yield.
\<close>

lemma poll_next_ready: "poll_next st s = Inr (Ready, s') \<Longrightarrow> es_next_wake s \<noteq> None \<and> es_next_wake s' = None"
  by (auto simp: poll_next_def poll_sleep_def poll_recv_def Let_def split: option.splits if_splits prod.splits)

function drive :: "(string \<Rightarrow> bool) \<Rightarrow> expiry_stream \<Rightarrow> storage \<Rightarrow> (expiry_stream \<times> storage) res" where
  "drive allowed s st =
     (case poll_next st s of
        Inl e \<Rightarrow> Inl e
      | Inr (Ready, s') \<Rightarrow> drive allowed s' (expired_messages allowed st)
      | Inr (Pending _, s') \<Rightarrow> Inr (s', st))"
  by pat_completeness auto

termination drive
  by (relation "measure (\<lambda>(_, s, _). if es_next_wake s = None then 0 else 1)")
    (auto dest!: poll_next_ready)

declare drive.simps [simp del]

text \<open>When the client connects for the first time, it starts the stream.\<close>

definition start_expiry :: "(string \<Rightarrow> bool) \<Rightarrow> expiry_client \<Rightarrow> expiry_client res" where
  "start_expiry allowed c =
     (case fst c of
        Some _ \<Rightarrow> Inr c
      | None \<Rightarrow> rbind (drive allowed new_expiry_stream (snd c)) (\<lambda>(s, st). Inr (Some s, st)))"

end
