(* ===== verification/MessageExpiryProps.thy ===== *)
theory MessageExpiryProps
  imports MessageExpiry DeletionProps
begin

text \<open>
  Every message with a timer is deleted in time: the stream's sleep never outlasts the earliest
  deadline, whatever happens between two polls.
\<close>

section \<open>The earliest deadline\<close>

definition deadline :: "storage \<Rightarrow> int \<Rightarrow> bool" where
  "deadline st d \<longleftrightarrow> (\<exists>m\<in>set (messages (db st)). expires m \<and> delete_after m = Some d)"

lemma set_deadlines: "set (deadlines ms) = {(m_id m, d) |m d. m \<in> set ms \<and> delete_after m = Some d}"
  by (induction ms) (auto split: option.splits)

lemma set_with_deadline: "set (with_deadline ms) = set (deadlines ms)"
  by (simp add: with_deadline_def deadlines_def)

text \<open>A timer that runs without a deadline, which makes the look-up of the next one panic.\<close>

definition negative_timer :: "message \<Rightarrow> bool" where
  "negative_timer m \<longleftrightarrow> expires m \<and> delete_after m = None"

lemma next_panics:
  "fetch_next_expiring_message_id st = Inl e \<longleftrightarrow>
     exists_where negative_timer (messages (db st)) \<and> e = Panic ''messages by expiry timestamp''"
  by (auto simp: fetch_next_expiring_message_id_def negative_timer_def Let_def exists_where_iff)

lemma next_deadline:
  assumes "fetch_next_expiring_message_id st = Inr next"
  shows "case next of
     None \<Rightarrow> \<not> deadline st d
   | Some (_, e) \<Rightarrow> deadline st e \<and> (deadline st d \<longrightarrow> e \<le> d)"
proof (cases "with_deadline (filter expires (messages (db st)))")
  case Nil
  then have "set (deadlines (filter expires (messages (db st)))) = {}"
    by (metis list.set(1) set_with_deadline)
  with Nil assms show ?thesis
    by (auto simp: fetch_next_expiring_message_id_def deadline_def set_deadlines Let_def split: if_splits)
next
  case (Cons x xs)
  have sorted: "sorted (map snd (x # xs))"
    using Cons by (metis sorted_sort_key with_deadline_def)
  moreover have all: "set (x # xs) = {(m_id m, d) |m d. m \<in> set (messages (db st)) \<and> expires m \<and> delete_after m = Some d}"
    using set_with_deadline[of "filter expires (messages (db st))"] Cons by (auto simp: set_deadlines)
  moreover have "x \<in> set (x # xs)"
    by simp
  ultimately have "deadline st (snd x)"
    by (auto simp only: deadline_def mem_Collect_eq snd_conv)
  moreover have "snd x \<le> snd y" if "y \<in> set (x # xs)" for y
    using sorted that by auto
  then have "snd x \<le> d" if "deadline st d"
    using that all unfolding deadline_def by (metis (mono_tags, lifting) mem_Collect_eq snd_conv)
  ultimately show ?thesis
    using Cons assms by (cases x) (auto simp: fetch_next_expiring_message_id_def Let_def split: if_splits)
qed

lemma expired_deadline: "fetch_expired_message_ids st = [] \<longleftrightarrow> (\<forall>d. deadline st d \<longrightarrow> now st div 1000 < d)"
proof -
  have "fetch_expired_message_ids st = []
      \<longleftrightarrow> set (with_deadline (filter (\<lambda>m. expires m \<and> past_deadline (now st) m = Some True) (messages (db st)))) = {}"
    by (simp add: fetch_expired_message_ids_def fetch_message_ids_by_expiry_def)
  also have "\<dots> \<longleftrightarrow> (\<forall>m\<in>set (messages (db st)). \<not> (expires m \<and> past_deadline (now st) m = Some True))"
    unfolding set_with_deadline set_deadlines by (auto simp: past_deadline_def)
  also have "\<dots> \<longleftrightarrow> (\<forall>d. deadline st d \<longrightarrow> now st div 1000 < d)"
    by (auto simp: deadline_def past_deadline_def)
  finally show ?thesis .
qed

section \<open>One poll\<close>

text \<open>
  The sleep ends by every deadline, or a second after \<open>t0\<close> if that is later; without a sleep there
  is no deadline.
\<close>

definition covers :: "timestamp \<Rightarrow> storage \<Rightarrow> expiry_stream \<Rightarrow> bool" where
  "covers t0 st s \<longleftrightarrow>
     (\<forall>d. deadline st d \<longrightarrow> (\<exists>w b. es_next_wake s = Some (w, b) \<and> w \<le> max (1000 * d) (t0 + 1000)))"

lemma update_covers:
  assumes "update_next_wake st s = Inr (again, s')"
  shows "covers (now st) st s'" and "(\<forall>d. deadline st d \<longrightarrow> now st div 1000 < d) \<Longrightarrow> covers t0 st s'"
    and "es_channel s' = es_channel s"
proof -
  obtain nx where nx: "fetch_next_expiring_message_id st = Inr nx"
      "(again, s') = (case nx of
            Some (_, time) \<Rightarrow> (True, s\<lparr>es_next_wake := Some (sleep_end (now st) (1000 * time), False)\<rparr>)
          | None \<Rightarrow> (False, s\<lparr>es_next_wake := None\<rparr>))"
    using assms by (auto simp: update_next_wake_def rbind_eq_Inr)
  show "es_channel s' = es_channel s"
    using nx(2) by (auto split: option.splits)
  show "covers (now st) st s'"
    unfolding covers_def
  proof (intro allI impI)
    fix d assume "deadline st d"
    then show "\<exists>w b. es_next_wake s' = Some (w, b) \<and> w \<le> max (1000 * d) (now st + 1000)"
      using next_deadline[OF nx(1), of d] nx(2) by (auto simp: sleep_end_def split: option.splits)
  qed
  assume late: "\<forall>d. deadline st d \<longrightarrow> now st div 1000 < d"
  show "covers t0 st s'"
    unfolding covers_def
  proof (intro allI impI)
    fix d assume d: "deadline st d"
    obtain i e where head: "nx = Some (i, e)" "deadline st e" "e \<le> d"
      using next_deadline[OF nx(1), of d] d by (auto split: option.splits)
    then have "\<not> 1000 * e < now st"
      using late by force
    then show "\<exists>w b. es_next_wake s' = Some (w, b) \<and> w \<le> max (1000 * d) (t0 + 1000)"
      using head nx(2) by (auto simp: sleep_end_def)
  qed
qed

text \<open>A poll that does not yield computes the sleep anew, or leaves it and waits for it.\<close>

lemma poll_cases:
  assumes "poll_next st s = Inr (Pending again, s')"
  obtains (update) s2 where "update_next_wake st s2 = Inr (again, s')" "es_channel s2 = es_channel s - 1"
      "es_channel s \<noteq> 0 \<or> es_next_wake s = None \<or> fetch_expired_message_ids st = []"
  | (sleep) w b where "es_channel s = 0" "es_next_wake s = Some (w, b)" "now st < w" "\<not> again"
      "s' = s\<lparr>es_next_wake := Some (w, True), es_receiving := True\<rparr>"
proof -
  obtain ready sleep where sleep: "poll_sleep (now st) (es_next_wake s) = (ready, sleep)"
    by force
  let ?s1 = "s\<lparr>es_next_wake := sleep\<rparr>"
  obtain woken s2 where recv: "poll_recv ?s1 = (woken, s2)"
    by force
  have s2: "es_next_wake s2 = sleep" "woken \<longleftrightarrow> es_channel s \<noteq> 0" "es_channel s2 = es_channel s - 1"
      "\<not> woken \<Longrightarrow> s2 = ?s1\<lparr>es_receiving := True\<rparr>"
    using recv by (auto simp: poll_recv_def split: if_splits)
  have "poll_next st s = (if ready \<and> fetch_expired_message_ids st \<noteq> [] then Inr (Ready, ?s1)
      else if woken \<or> sleep = None then rbind (update_next_wake st s2) (\<lambda>(again, s3). Inr (Pending again, s3))
      else Inr (Pending False, s2))"
    using sleep recv s2(1) by (auto simp: poll_next_def Let_def split: prod.splits)
  from assms[unfolded this] have late: "ready \<Longrightarrow> fetch_expired_message_ids st = []"
    and step: "if woken \<or> sleep = None then update_next_wake st s2 = Inr (again, s') else again = False \<and> s' = s2"
    by (auto simp: rbind_eq_Inr split: if_splits)
  show thesis
  proof (cases "woken \<or> sleep = None")
    case True
    have "es_channel s \<noteq> 0 \<or> es_next_wake s = None \<or> fetch_expired_message_ids st = []"
      using True late sleep s2(2) by (auto simp: poll_sleep_def split: option.splits if_splits)
    then show thesis
      using True step s2(3) by (intro update) auto
  next
    case False
    then obtain w b where "es_next_wake s = Some (w, b)" "now st < w" "sleep = Some (w, True)"
      using \<open>poll_sleep _ _ = _\<close> by (auto simp: poll_sleep_def split: option.splits if_splits)
    then show thesis
      using False step s2(2,4) by (intro that(2)) auto
  qed
qed

lemma poll_covers:
  assumes "poll_next st s = Inr (Pending again, s')"
    and "es_channel s = 0 \<Longrightarrow> covers t0 st s \<or> fetch_expired_message_ids st = [] \<and> es_next_wake s = None"
  shows "covers (if es_channel s = 0 then t0 else now st) st s'" and "es_channel s' = es_channel s - 1"
proof -
  have "covers (if es_channel s = 0 then t0 else now st) st s' \<and> es_channel s' = es_channel s - 1"
    using assms(1)
  proof (cases rule: poll_cases)
    case (update s2)
    note covered = update_covers[OF update(1)]
    have "covers t0 st s'" if "es_channel s = 0"
    proof (cases "fetch_expired_message_ids st = []")
      case True
      then show ?thesis
        using covered(2) by (simp add: expired_deadline)
    next
      case False
      then have "\<not> deadline st d" for d
        using assms(2)[OF that] update(3) that by (auto simp: covers_def)
      then show ?thesis
        by (simp add: covers_def)
    qed
    then show ?thesis
      using covered(1,3) update(2) by auto
  next
    case (sleep w b)
    then show ?thesis
      using assms(2) by (auto simp: covers_def)
  qed
  then show "covers (if es_channel s = 0 then t0 else now st) st s'" "es_channel s' = es_channel s - 1"
    by simp_all
qed

lemma poll_ready:
  assumes "poll_next st s = Inr (Ready, s')"
  shows "es_channel s' = es_channel s" and "es_next_wake s' = None" and "fetch_expired_message_ids st \<noteq> []"
  using assms by (auto simp: poll_next_def poll_sleep_def poll_recv_def Let_def split: option.splits if_splits prod.splits)

section \<open>Driving the stream\<close>

lemma expired_messages_facts:
  shows "now (expired_messages allowed st) = now st"
    and "m \<in> set (messages (db (expired_messages allowed st))) \<Longrightarrow> m \<in> set (messages (db st)) \<and> \<not> expired (now st) m"
proof -
  obtain n st' where res: "delete_expired_messages allowed st = (n, st')"
    by force
  then show "now (expired_messages allowed st) = now st"
    using delete_expired_result(3)[OF res] by (simp add: expired_messages_def)
  show "m \<in> set (messages (db st)) \<and> \<not> expired (now st) m" if "m \<in> set (messages (db (expired_messages allowed st)))"
    using that delete_expired_result(1)[OF res] res cascade_set_contains[of m "db st" "expired (now st)"]
    by (auto simp: expired_messages_def cascade_messages_fields set_delete_where)
qed

text \<open>A stream that yields is driven by deleting once and polling once more, unless that panics.\<close>

lemma drive_cases:
  assumes "drive allowed s st = Inr (s', st')"
  obtains (pending) again where "poll_next st s = Inr (Pending again, s')" "st' = st"
  | (ready) s1 again where "poll_next st s = Inr (Ready, s1)" "poll_next (expired_messages allowed st) s1 = Inr (Pending again, s')"
      "st' = expired_messages allowed st"
proof (cases "poll_next st s")
  case (Inl e)
  then show ?thesis
    using assms by (simp add: drive.simps[of allowed s st])
next
  case (Inr r)
  obtain p s1 where r: "r = (p, s1)"
    by (cases r)
  show ?thesis
  proof (cases p)
    case Ready
    then have first: "poll_next st s = Inr (Ready, s1)"
      using Inr r by simp
    then have rest: "drive allowed s1 (expired_messages allowed st) = Inr (s', st')"
      using assms by (simp add: drive.simps[of allowed s st])
    show ?thesis
    proof (cases "poll_next (expired_messages allowed st) s1")
      case (Inl e)
      then show ?thesis
        using rest by (simp add: drive.simps[of allowed s1 "expired_messages allowed st"])
    next
      case (Inr r2)
      obtain p2 s2 where r2: "r2 = (p2, s2)"
        by (cases r2)
      have "p2 \<noteq> Ready"
        using poll_next_ready[of "expired_messages allowed st" s1 s2] poll_ready(2)[OF first] Inr r2 by auto
      then obtain again where p2: "p2 = Pending again"
        by (cases p2) auto
      then have "s' = s2" "st' = expired_messages allowed st"
        using rest Inr r2 by (simp_all add: drive.simps[of allowed s1 "expired_messages allowed st"])
      then show ?thesis
        using ready[OF first] Inr r2 p2 by blast
    qed
  next
    case (Pending again)
    then have "poll_next st s = Inr (Pending again, s1)"
      using Inr r by simp
    moreover from this have "s' = s1" "st' = st"
      using assms by (simp_all add: drive.simps[of allowed s st])
    ultimately show ?thesis
      using pending by blast
  qed
qed

lemma drive_covers:
  assumes run: "drive allowed s st = Inr (s', st')"
    and before: "es_channel s = 0 \<Longrightarrow> covers t0 st s \<or> es_next_wake s = None \<and> t0 = now st"
  shows "covers (if es_channel s = 0 then t0 else now st) st' s' \<and> es_channel s' = es_channel s - 1 \<and> now st' = now st"
  using run
proof (cases rule: drive_cases)
  case (pending again)
  show ?thesis
  proof (cases "es_channel s = 0 \<and> es_next_wake s = None \<and> t0 = now st")
    case True
    then show ?thesis
      using pending update_covers(1,3)[of st] by (cases rule: poll_cases[OF pending(1)]) auto
  next
    case False
    then show ?thesis
      using pending before poll_covers[OF pending(1), of t0] by auto
  qed
next
  case (ready s1 again)
  let ?st = "expired_messages allowed st"
  have "fetch_expired_message_ids ?st = []"
    using expired_messages_facts(2)[of _ allowed st] expired_messages_facts(1)[of allowed st]
    by (force simp: expired_deadline deadline_def expired_def past_deadline_def)
  then have "covers (if es_channel s1 = 0 then t0 else now ?st) ?st s'" "es_channel s' = es_channel s1 - 1"
    using poll_covers[OF ready(2), of t0] poll_ready(2)[OF ready(1)] by simp_all
  then show ?thesis
    using ready(3) poll_ready(1)[OF ready(1)] expired_messages_facts(1)[of allowed st] by (auto split: if_splits)
qed

text \<open>Polling a store whose timers all have a deadline does not panic, nor does deleting and polling again.\<close>

lemma poll_returns:
  assumes "\<not> exists_where negative_timer (messages (db st))"
  obtains p s' where "poll_next st s = Inr (p, s')"
proof -
  have "\<exists>r. update_next_wake st s2 = Inr r" for s2
  proof (cases "fetch_next_expiring_message_id st")
    case (Inl e)
    then show ?thesis
      using assms by (simp add: next_panics)
  qed (simp add: update_next_wake_def)
  then obtain f where f: "update_next_wake st s2 = Inr (f s2)" for s2
    by metis
  have "\<exists>r. poll_next st s = Inr r"
    by (auto simp: poll_next_def Let_def f split: prod.split)
  then show thesis
    using that by (metis surj_pair)
qed

lemma drive_returns:
  assumes none: "\<not> exists_where negative_timer (messages (db st))"
  obtains s' st' where "drive allowed s st = Inr (s', st')"
proof -
  have later: "\<not> exists_where negative_timer (messages (db (expired_messages allowed st)))"
    using none expired_messages_facts(2)[of _ allowed st] by (auto simp: exists_where_iff)
  obtain p s1 where first: "poll_next st s = Inr (p, s1)"
    using poll_returns[OF none] .
  show thesis
  proof (cases p)
    case Ready
    obtain p2 s2 where second: "poll_next (expired_messages allowed st) s1 = Inr (p2, s2)"
      using poll_returns[OF later] .
    then have "p2 \<noteq> Ready"
      using poll_next_ready[of "expired_messages allowed st" s1 s2] poll_ready(2)[of st s s1] first Ready by auto
    then show thesis
      using that first second Ready
      by (cases p2) (auto simp: drive.simps[of allowed s st] drive.simps[of allowed s1 "expired_messages allowed st"])
  next
    case (Pending again)
    then show thesis
      using that first by (simp add: drive.simps[of allowed s st])
  qed
qed

lemma drive_deletes:
  assumes "covers t0 st s" and "deadline st d" and "max (1000 * d) (t0 + 1000) \<le> now st"
    and "drive allowed s st = Inr (s', st')"
  shows "st' = expired_messages allowed st"
  using assms(4)
proof (cases rule: drive_cases)
  case (pending again)
  obtain w b where "es_next_wake s = Some (w, b)" "w \<le> now st"
    using assms by (fastforce simp: covers_def)
  moreover have "fetch_expired_message_ids st \<noteq> []"
    using assms(2,3) by (auto simp: expired_deadline intro!: exI[of _ d])
  ultimately show ?thesis
    using pending(1) by (simp add: poll_next_def poll_sleep_def)
qed simp

section \<open>Between the polls\<close>

text \<open>
  The stream is polled whenever its task is woken, which may also be for other reasons.  In between
  a handler may change the store as it likes if it sends a note; what changes the store otherwise
  starts no timer.  The last component is the time at which the last note was received.
\<close>

type_synonym expiry_world = "expiry_stream \<times> storage \<times> timestamp"

inductive expiry_step :: "(string \<Rightarrow> bool) \<Rightarrow> expiry_world \<Rightarrow> expiry_world \<Rightarrow> bool" for allowed where
  xs_others: "now st \<le> now st' \<Longrightarrow> (\<And>d. deadline st' d \<Longrightarrow> deadline st d) \<Longrightarrow>
    expiry_step allowed (s, st, t0) (s, st', t0)"
| xs_noted: "now st \<le> now st' \<Longrightarrow> expiry_step allowed (s, st, t0) (notify s, st', t0)"
| xs_polled: "drive allowed s st = Inr (s', st') \<Longrightarrow>
    expiry_step allowed (s, st, t0) (s', st', if es_channel s = 0 then t0 else now st)"

text \<open>The handlers that start timers are such steps.\<close>

lemma start_message_expiry_now: "now (start_message_expiry mid st) = now st"
  by (simp add: start_message_expiry_def emit_if_def emit_def update_messages_def Let_def)

lemma mark_read_now: "now (mark_messages_read_in_ui mids st) = now st"
  by (simp add: mark_messages_read_in_ui_def update_messages_def Let_def)

lemma handlers_note:
  shows "handle_start_message_expiry mid (Some s, st) = Inr (Some s', st') \<Longrightarrow> expiry_step allowed (s, st, t0) (s', st', t0)"
    and "handle_mark_messages_read mids (Some s, st) = Inr (Some s', st') \<Longrightarrow> expiry_step allowed (s, st, t0) (s', st', t0)"
  by (auto simp: handle_start_message_expiry_def handle_mark_messages_read_def start_message_expiry_now mark_read_now
      intro!: xs_noted)

definition expiry_ok :: "expiry_world \<Rightarrow> bool" where
  "expiry_ok w = (case w of (s, st, t0) \<Rightarrow> es_channel s = 0 \<longrightarrow> covers t0 st s)"

lemma step_covers:
  assumes "expiry_step allowed v w" and "expiry_ok v"
  shows "expiry_ok w"
  using assms
proof cases
  case (xs_others st st' s t0)
  then show ?thesis
    using assms(2) by (auto simp: expiry_ok_def covers_def)
next
  case (xs_noted st st' s t0)
  then show ?thesis
    by (simp add: expiry_ok_def notify_def)
next
  case (xs_polled s st s' st' t0)
  then show ?thesis
    using drive_covers[OF xs_polled(3), of t0] assms(2) by (auto simp: expiry_ok_def)
qed

lemma run_covers: "(expiry_step allowed)\<^sup>*\<^sup>* v w \<Longrightarrow> expiry_ok v \<Longrightarrow> expiry_ok w"
  by (induction rule: rtranclp_induct) (auto intro: step_covers)

lemma started_covers:
  assumes "start_expiry allowed (None, st0) = Inr (Some s, st)"
  shows "covers (now st0) st s"
  using assms drive_covers[of allowed new_expiry_stream st0 s st "now st0"]
  by (auto simp: start_expiry_def new_expiry_stream_def rbind_eq_Inr)

section \<open>Properties\<close>

text \<open>
  C13. Expired messages disappear.  Whatever happens since the client has connected, as long as every
  handler that starts a timer sends its note and no timer that runs is negative: when the deadline of
  a message has passed, and the last note was received a second ago or more, the next poll of the
  stream returns and deletes the message, along with all that have expired or refer to one of
  them, and no others.  Of a negative timer the look-up of the next deadline panics instead.
\<close>

theorem expired_messages_disappear:
  assumes "start_expiry allowed (None, st0) = Inr (Some s0, st1)"
    and "(expiry_step allowed)\<^sup>*\<^sup>* (s0, st1, now st0) (s, st, t0)" and "es_channel s = 0"
    and "m \<in> set (messages (db st))" and "m_message_type m = None" and "delete_after m = Some d"
    and "max (1000 * d) (t0 + 1000) \<le> now st"
    and "\<not> exists_where negative_timer (messages (db st))"
  shows "\<exists>s' st'. drive allowed s st = Inr (s', st')
    \<and> messages (db st') = delete_where (\<lambda>x. m_id x \<in> cascade_set (expired (now st)) (db st)) (messages (db st))
    \<and> m_id m \<in> cascade_set (expired (now st)) (db st)"
proof -
  have "covers t0 st s"
    using run_covers[OF assms(2)] started_covers[OF assms(1)] assms(3) by (simp add: expiry_ok_def)
  moreover have m: "expires m"
    using assms(5,6) by (auto simp: expires_def delete_after_def split: option.splits)
  then have "deadline st d"
    using assms(4,6) by (auto simp: deadline_def)
  moreover obtain s' st' where run: "drive allowed s st = Inr (s', st')"
    using drive_returns[OF assms(8)] .
  ultimately have "st' = expired_messages allowed st"
    using assms(7) by (intro drive_deletes)
  moreover have "db (expired_messages allowed st) = cascade_messages (expired (now st)) (db st)"
    using delete_expired_result(1)[of allowed st] by (metis expired_messages_def prod.collapse)
  moreover have "expired (now st) m"
    using m assms(6,7) by (auto simp: expired_def past_deadline_def)
  ultimately show ?thesis
    using run cascade_set_contains[OF assms(4)] by (simp add: cascade_messages_fields)
qed

definition waiting_demo :: "timestamp \<Rightarrow> storage" where
  "waiting_demo t = expiry_demo\<lparr>now := t\<rparr>"

theorem expired_messages_disappear_witness:
  "\<exists>s0 s' st'. start_expiry (\<lambda>_. True) (None, waiting_demo 30000) = Inr (Some s0, waiting_demo 30000)
     \<and> 1 \<in> m_id ` set (messages (db (waiting_demo 45000)))
     \<and> drive (\<lambda>_. True) s0 (waiting_demo 45000) = Inr (s', st') \<and> 1 \<notin> m_id ` set (messages (db st'))"
proof -
  let ?s = "\<lparr> es_next_wake = Some (40000, False), es_channel = 0, es_receiving = True \<rparr>"
  let ?st = "waiting_demo 45000"
  have start: "start_expiry (\<lambda>_. True) (None, waiting_demo 30000) = Inr (Some ?s, waiting_demo 30000)"
    by code_simp
  have "now (waiting_demo 30000) = 30000" "now ?st = 45000"
    by (simp_all add: waiting_demo_def)
  moreover have "deadline ?st d \<Longrightarrow> deadline (waiting_demo 30000) d" for d
    by (simp add: waiting_demo_def deadline_def)
  ultimately have run: "(expiry_step (\<lambda>_. True))\<^sup>*\<^sup>* (?s, waiting_demo 30000, now (waiting_demo 30000)) (?s, ?st, 30000)"
    using xs_others[of "waiting_demo 30000" ?st] by (intro r_into_rtranclp) simp
  let ?m = "hd (messages (db ?st))"
  have m: "?m \<in> set (messages (db ?st))" "m_message_type ?m = None" "delete_after ?m = Some 40" "m_id ?m = 1"
      "max (1000 * 40) (30000 + 1000) \<le> now ?st"
    by code_simp+
  have sound: "\<not> exists_where negative_timer (messages (db ?st))"
    by code_simp
  obtain s' st' where "drive (\<lambda>_. True) ?s ?st = Inr (s', st')"
    "messages (db st') = delete_where (\<lambda>x. m_id x \<in> cascade_set (expired (now ?st)) (db ?st)) (messages (db ?st))"
    "1 \<in> cascade_set (expired (now ?st)) (db ?st)"
    using expired_messages_disappear[OF start run _ m(1-3,5) sound] m(4) by auto
  moreover from this have "1 \<notin> m_id ` set (messages (db st'))"
    by (auto simp: set_delete_where)
  moreover have "1 \<in> m_id ` set (messages (db ?st))"
    using m(1,4) by force
  ultimately show ?thesis
    using start by blast
qed

text \<open>Starting a negative timer makes nothing expire.\<close>

lemma started_negative:
  assumes m: "m \<in> set (messages (db st))" "m_id m = mid" "m_expires_in m = Some n" "n < 0"
    and ids: "distinct_keys m_id (messages (db st))" and none: "fetch_expired_message_ids st = []"
  shows "fetch_expired_message_ids (start_message_expiry mid st) = []"
proof -
  let ?P = "\<lambda>m. m_id m = mid \<and> m_expiry_started m = None \<and> m_message_type m = None"
  let ?f = "\<lambda>m. m\<lparr>m_expiry_started := Some (now st)\<rparr>"
  let ?st = "start_message_expiry mid st"
  have ms: "messages (db ?st) = update_where ?P ?f (messages (db st))"
    by (simp add: start_message_expiry_def update_messages_def Let_def)
  have "deadline st d" if later: "deadline ?st d" for d
  proof -
    obtain x where x: "x \<in> set (messages (db st))" "expires (if ?P x then ?f x else x)"
        "delete_after (if ?P x then ?f x else x) = Some d"
      using later unfolding deadline_def ms set_update_where by blast
    have "\<not> ?P x"
    proof
      assume "?P x"
      then have "x = m"
        using distinct_keys_inj[OF ids x(1) m(1)] m(2) by simp
      then show False
        using x(3) m(3,4) \<open>?P x\<close> by (simp add: delete_after_def)
    qed
    then show ?thesis
      using x unfolding if_not_P[OF \<open>\<not> ?P x\<close>] deadline_def by blast
  qed
  moreover have "now ?st = now st"
    by (simp add: start_message_expiry_def update_messages_def Let_def)
  ultimately show ?thesis
    using none by (auto simp: expired_deadline)
qed

text \<open>
  C15. Negative timers.  A timer of a peer's, stored as a signed number of seconds, may be negative.
  Starting it on a message still sends the note; when the stream gets the note and nothing
  else has expired, the look-up of the next deadline panics, and the message is never among the
  expired ones, however late it is.
\<close>

theorem negative_timer_panics:
  assumes "m \<in> set (messages (db st))" and "m_id m = mid" and "m_message_type m = None"
    and "m_expiry_started m = None" and "m_expires_in m = Some n" and "n < 0"
    and "distinct_keys m_id (messages (db st))" and "fetch_expired_message_ids st = []"
  shows "\<exists>s1 st1. handle_start_message_expiry mid (Some s, st) = Inr (Some s1, st1)
    \<and> drive allowed s1 st1 = Inl (Panic ''messages by expiry timestamp'')
    \<and> (\<exists>m1\<in>set (messages (db st1)). m_id m1 = mid \<and> expires m1 \<and> (\<forall>t. \<not> expired t m1))"
proof -
  let ?P = "\<lambda>m. m_id m = mid \<and> m_expiry_started m = None \<and> m_message_type m = None"
  let ?f = "\<lambda>m. m\<lparr>m_expiry_started := Some (now st)\<rparr>"
  let ?st = "start_message_expiry mid st"
  have ms: "messages (db ?st) = update_where ?P ?f (messages (db st))"
    by (simp add: start_message_expiry_def update_messages_def Let_def)
  have m1: "?f m \<in> set (messages (db ?st))"
    using assms(1-4) unfolding ms set_update_where by force
  have neg: "expires (?f m)" "delete_after (?f m) = None"
    using assms(3,5,6) by (simp_all add: expires_def delete_after_def)
  have "exists_where negative_timer (messages (db ?st))"
    using m1 neg by (auto simp: exists_where_iff negative_timer_def)
  then have "fetch_next_expiring_message_id ?st = Inl (Panic ''messages by expiry timestamp'')"
    by (simp add: next_panics)
  then have panic: "update_next_wake ?st s2 = Inl (Panic ''messages by expiry timestamp'')" for s2
    by (simp add: update_next_wake_def)
  have "fetch_expired_message_ids ?st = []"
    using started_negative assms by blast
  then have "poll_next ?st (notify s) = Inl (Panic ''messages by expiry timestamp'')"
    using panic by (auto simp: poll_next_def poll_recv_def notify_def Let_def split: prod.splits)
  moreover have "\<not> expired t (?f m)" for t
    using neg(2) by (simp add: expired_def past_deadline_def)
  ultimately show ?thesis
    using m1 neg(1) assms(2)
    by (auto simp: handle_start_message_expiry_def drive.simps[of allowed "notify s"] Let_def intro!: bexI[of _ "?f m"])
qed

text \<open>A timer of \<open>2 ^ 31\<close> seconds, as it is stored.\<close>

definition negative_demo :: storage where
  "negative_demo = message_demo\<lparr>db := (db message_demo)\<lparr>
     messages := map (\<lambda>m. m\<lparr>m_expires_in := Some (i32_wrap (2 ^ 31))\<rparr>) (messages (db message_demo))\<rparr>\<rparr>"

theorem negative_timer_panics_witness:
  "\<exists>s1 st1. handle_start_message_expiry 2 (Some new_expiry_stream, negative_demo) = Inr (Some s1, st1)
     \<and> drive (\<lambda>_. True) s1 st1 = Inl (Panic ''messages by expiry timestamp'')"
proof -
  let ?m = "messages (db negative_demo) ! 1"
  have m: "?m \<in> set (messages (db negative_demo))" "m_id ?m = 2" "m_message_type ?m = None"
      "m_expiry_started ?m = None" "m_expires_in ?m = Some (- (2 ^ 31))" "- (2 ^ 31) < (0 :: int)"
      "distinct_keys m_id (messages (db negative_demo))" "fetch_expired_message_ids negative_demo = []"
    by code_simp+
  show ?thesis
    using negative_timer_panics[OF m, of new_expiry_stream "\<lambda>_. True"] by blast
qed

text \<open>
  A pending stream must have arranged to be woken.  It has, except when it has just received a note
  and nothing expires: then it waits neither for a sleep nor for the next note.
\<close>

theorem pending_arranged:
  assumes "poll_next st s = Inr (Pending again, s')"
  shows "again \<or> es_receiving s' \<and> (\<forall>w b. es_next_wake s' = Some (w, b) \<longrightarrow> b) \<or> es_channel s \<noteq> 0 \<and> es_next_wake s' = None"
  using assms
  by (auto simp: poll_next_def poll_sleep_def poll_recv_def update_next_wake_def Let_def rbind_eq_Inr split: option.splits if_splits prod.splits)

theorem note_leaves_no_waker:
  "fetch_next_expiring_message_id st = Inr None \<Longrightarrow>
   poll_next st (notify new_expiry_stream) = Inr (Pending False, new_expiry_stream)"
  by (simp add: poll_next_def poll_sleep_def poll_recv_def update_next_wake_def notify_def new_expiry_stream_def)

end
