(* ===== verification/ClientMessages.thy ===== *)
theory ClientMessages
  imports GroupStore AttachmentStore BodyRanges EarlyReceiptCache MessageExpiry SettingsStore
begin

text \<open>
  What the client does with a message it has received (\<open>whisperfish/src/worker/client.rs\<close>):
  \<open>handle_message\<close> and \<open>process_envelope\<close>, and the receipts it owes.

  The messages of the protocol are records with the fields the client looks at; the parsers of the
  service library have been applied to addresses and phone numbers.  Arguments stand for the rest of
  the libraries: converting milliseconds to a date, deriving a group from its master key, the
  encoders of body ranges, keys and times.  \<open>ctx.notify\<close> queues a message to the client itself or
  to another actor, kept in \<open>cl_notes\<close>; signals to the user interface are kept in \<open>cl_signals\<close>.  The
  attachment log is not modelled, nor are call messages: the build is the one without calls.  That
  a message came unsealed is only logged in the code.
\<close>

section \<open>Messages of the protocol\<close>

record reaction_message =
  rm_target_sent_timestamp :: "nat option"
  rm_target_author :: "uuid option"
  rm_remove :: bool
  rm_emoji :: "string option"

record group_context =
  gm_master_key :: "blob option"
  gm_revision :: nat
  gm_group_change :: bool

record data_message =
  dm_timestamp :: "nat option"
  dm_body :: "string option"
  dm_flags :: nat
  dm_profile_key :: "blob option"
  dm_reaction :: "reaction_message option"
  dm_sticker_emoji :: "string option option"
  dm_payment :: bool
  dm_group_call_update :: bool
  dm_contact :: bool
  dm_delete_timestamp :: "nat option option"
  dm_group_v2 :: "group_context option"
  dm_expire_timer :: "nat option"
  dm_expire_timer_version :: "nat option"
  dm_attachments :: "attachment_pointer list"
  dm_body_ranges :: "wire_body_range list"
  dm_quote_id :: "nat option"

record edit_message =
  em_data_message :: "data_message option"
  em_target_sent_timestamp :: "nat option"

record sent_message =
  sn_destination :: "service_id option"
  sn_destination_e164 :: "phone_number option"
  sn_message :: "data_message option"
  sn_edit_message :: "edit_message option"
  sn_expiration_start :: "nat option"
  sn_unidentified_status :: "(bool \<times> service_id option) list"

record metadata =
  md_sender :: service_id
  md_client_timestamp :: nat
  md_unidentified_sender :: bool
  md_needs_receipt :: bool
  md_server_guid :: "uuid option"

record receipt_message =
  rc_type :: "int option"
  rc_timestamps :: "nat list"

datatype receipt_type = Delivery | ReadReceipt | Viewed

text \<open>What prost makes of a missing or unknown enumeration value is the default.\<close>

definition receipt_type_of :: "int option \<Rightarrow> receipt_type" where
  "receipt_type_of ty = (if ty = Some 1 then ReadReceipt else if ty = Some 2 then Viewed else Delivery)"

section \<open>The client\<close>

datatype client_note =
    NoteRefreshProfile int
  | NoteGroupV2Update group_context session
  | NoteRequestGroupV2Info gv2_context nat
  | NoteProcessCachedReceipts nat int service_id int
  | NoteFetchAttachment int
  | NoteDeliverReceipts receipt_type "nat list" session_type
  | NoteDeliverReads "(uuid option \<times> nat) list"
  | NoteRefreshOwnProfile
  | NoteSyncRequest

datatype client_signal =
    MessageReactionReceived int int
  | CloseNotification int int
  | MessageReceived int int
  | NotifyMessage int int "string option"
  | MessageReceipt int int

record client_settings =
  cs_enable_read_receipts :: bool
  cs_enable_typing_indicators :: bool
  cs_enable_link_previews :: bool
  cs_save_attachments :: bool
  cs_notification_privacy :: string

record client =
  cl_storage :: storage
  cl_cache :: "metadata early_cache"
  cl_expiry :: "expiry_stream option"
  cl_refreshing :: "string list"
  cl_settings :: client_settings
  cl_primary :: bool
  cl_notes :: "client_note list"
  cl_signals :: "client_signal list"

record message_env =
  me_naive :: "nat \<Rightarrow> timestamp option"
  me_derive :: "blob \<Rightarrow> gv2_context"
  me_allowed :: "string \<Rightarrow> bool"
  me_uuid_string :: "nat list \<Rightarrow> utext"
  me_encode_ranges :: "body_range list \<Rightarrow> blob"
  me_hex :: "blob \<Rightarrow> string"
  me_time_text :: "timestamp \<Rightarrow> string"
  me_parse_pool :: "string \<Rightarrow> string option"
  me_master_key :: "string \<Rightarrow> blob"
  me_storage_key :: "blob \<Rightarrow> blob"
  me_key_codec :: "blob key_codec"

definition send_note :: "client_note \<Rightarrow> client \<Rightarrow> client" where
  "send_note n cl = cl\<lparr>cl_notes := cl_notes cl @ [n]\<rparr>"

definition signal :: "client_signal \<Rightarrow> client \<Rightarrow> client" where
  "signal s cl = cl\<lparr>cl_signals := cl_signals cl @ [s]\<rparr>"

abbreviation with_storage :: "storage \<Rightarrow> client \<Rightarrow> client" where
  "with_storage st cl \<equiv> cl\<lparr>cl_storage := st\<rparr>"

text \<open>Dates outside of the range of the date library make the conversion panic.\<close>

definition millis_to_naive_chrono :: "message_env \<Rightarrow> nat \<Rightarrow> timestamp res" where
  "millis_to_naive_chrono env ts = opt_panic ''called `Option::unwrap()` on a `None` value'' (me_naive env ts)"

definition opt_millis :: "message_env \<Rightarrow> nat option \<Rightarrow> timestamp option res" where
  "opt_millis env ts =
     (case ts of None \<Rightarrow> Inr None | Some t \<Rightarrow> rbind (millis_to_naive_chrono env t) (\<lambda>n. Inr (Some n)))"

definition naive_chrono_to_millis :: "timestamp \<Rightarrow> nat" where
  "naive_chrono_to_millis t = nat (t mod 2 ^ 64)"

definition data_timestamp :: "data_message \<Rightarrow> nat" where
  "data_timestamp msg = (case dm_timestamp msg of None \<Rightarrow> 0 | Some t \<Rightarrow> t)"

definition aci_of :: "service_id option \<Rightarrow> uuid option" where
  "aci_of addr = (case addr of Some (AciId u) \<Rightarrow> Some u | _ \<Rightarrow> None)"

definition pni_of :: "service_id option \<Rightarrow> uuid option" where
  "pni_of addr = (case addr of Some (PniId u) \<Rightarrow> Some u | _ \<Rightarrow> None)"

section \<open>Receipts owed\<close>

definition handle_needs_delivery_receipt :: "data_message \<Rightarrow> metadata \<Rightarrow> client \<Rightarrow> client res" where
  "handle_needs_delivery_receipt msg md cl =
     (case dm_timestamp msg of
        None \<Rightarrow> Inr cl
      | Some ts \<Rightarrow>
          rbind (opt_panic ''needs-receipt sender recipient'' (fetch_recipient (md_sender md) (cl_storage cl))) (\<lambda>r.
          Inr (send_note (NoteDeliverReceipts Delivery [ts] (DirectMessage r)) cl)))"

text \<open>The sessions come in the order of their first message; the hash map has no order.\<close>

definition sessions_of :: "message list \<Rightarrow> storage \<Rightarrow> session list res" where
  "sessions_of ms st =
     rmap (\<lambda>sid. rbind (fetch_session_by_id sid st) (opt_panic ''existing session for message''))
       (rev (remdups (rev (map m_session_id ms))))"

definition read_sync :: "message list \<Rightarrow> storage \<Rightarrow> (uuid option \<times> nat) list" where
  "read_sync ms st =
     List.map_filter (\<lambda>m. map_option (\<lambda>r. (r_uuid r, naive_chrono_to_millis (m_server_timestamp m)))
       (Option.bind (m_sender_recipient_id m) (\<lambda>i. fetch_recipient_by_id i st))) ms"

definition handle_needs_read_receipts :: "int list \<Rightarrow> bool \<Rightarrow> client \<Rightarrow> client res" where
  "handle_needs_read_receipts message_ids read_receipts_enabled cl =
     (let st = cl_storage cl;
          ms = filter (\<lambda>m. m_message_type m = None) (fetch_messages_by_ids message_ids st) in
      rbind (sessions_of ms st) (\<lambda>ss.
      let cl1 = send_note (NoteDeliverReads (read_sync ms st)) cl in
      Inr (if read_receipts_enabled
           then fold (\<lambda>s. send_note (NoteDeliverReceipts ReadReceipt
                  (map (\<lambda>m. naive_chrono_to_millis (m_server_timestamp m))
                    (filter (\<lambda>m. m_session_id m = e_id s) ms)) (e_type s))) ss cl1
           else cl1)))"

section \<open>What kind of message it is\<close>

text \<open>The type a message is inserted with, and the text if it has none of its own.\<close>

type_synonym message_kind = "message_type option \<times> string option"

text \<open>
  The time of the message itself is converted just before the reaction is saved; an error before
  that is reported first.
\<close>

definition receive_reaction :: "message_env \<Rightarrow> recipient \<Rightarrow> data_message \<Rightarrow> reaction_message \<Rightarrow> client \<Rightarrow> (bool \<times> client) res" where
  "receive_reaction env sender msg r cl =
     rbind (opt_millis env (rm_target_sent_timestamp r)) (\<lambda>target.
     let bad_time = (\<not> rm_remove r \<and> me_naive env (data_timestamp msg) = None);
         time = (case me_naive env (data_timestamp msg) of None \<Rightarrow> 0 | Some t \<Rightarrow> t)
     in (case process_reaction sender time
                \<lparr> rp_target_sent_timestamp = target, rp_target_author = rm_target_author r,
                  rp_remove = rm_remove r, rp_emoji = rm_emoji r \<rparr> (cl_storage cl) of
           Inl (Failed (Panic s)) \<Rightarrow> Inl (Panic s)
         | Inl (Failed (DbError e)) \<Rightarrow>
             if bad_time then Inl (Panic ''called `Option::unwrap()` on a `None` value'') else Inr (False, cl)
         | Inl _ \<Rightarrow> Inr (False, cl)
         | Inr (found, st) \<Rightarrow>
             if bad_time then Inl (Panic ''called `Option::unwrap()` on a `None` value'')
             else (case found of
                     None \<Rightarrow> Inr (False, with_storage st cl)
                   | Some (m, s) \<Rightarrow> Inr (True, signal (MessageReactionReceived (e_id s) (m_id m)) (with_storage st cl)))))"

text \<open>Only the sender of a message may delete it, except through another device of one's own.\<close>

definition receive_delete :: "message_env \<Rightarrow> recipient option \<Rightarrow> bool \<Rightarrow> nat option \<Rightarrow> client \<Rightarrow> (bool \<times> client) res" where
  "receive_delete env sender is_sync_sent target cl =
     rbind (opt_millis env target) (\<lambda>ts.
     case Option.bind ts (\<lambda>t. fetch_message_by_timestamp t (cl_storage cl)) of
       None \<Rightarrow> Inr (False, cl)
     | Some m \<Rightarrow>
         if is_sync_sent \<or> m_sender_recipient_id m = map_option r_id sender
         then Inr (True, signal (CloseNotification (m_session_id m) (m_id m))
                (with_storage (snd (delete_message (me_allowed env) (m_id m) (cl_storage cl))) cl))
         else Inr (False, cl))"

definition kind_of ::
  "message_env \<Rightarrow> recipient option \<Rightarrow> recipient \<Rightarrow> bool \<Rightarrow> data_message \<Rightarrow> client \<Rightarrow> (message_kind \<times> bool \<times> client) res" where
  "kind_of env sender self is_sync_sent msg cl =
     (if odd (dm_flags msg div 4) then Inr ((Some ProfileKeyUpdate, None), True, cl)
      else if odd (dm_flags msg div 2) then Inr ((Some ExpirationTimerUpdate, Some []), True, cl)
      else (case dm_reaction msg of
        Some r \<Rightarrow>
          rbind (receive_reaction env (case sender of None \<Rightarrow> self | Some s \<Rightarrow> s) msg r cl)
            (\<lambda>(valid, cl'). Inr ((None, None), valid, cl'))
      | None \<Rightarrow>
      (case dm_sticker_emoji msg of
        Some emoji \<Rightarrow>
          rbind (opt_panic ''called `Option::unwrap()` on a `None` value'' emoji)
            (\<lambda>e. Inr ((Some Sticker, Some e), True, cl))
      | None \<Rightarrow>
          if dm_payment msg then Inr ((Some Payment, Some []), True, cl)
          else if dm_group_call_update msg then Inr ((Some GroupCallUpdate, Some []), True, cl)
          else if dm_contact msg then Inr ((Some ContactMessage, Some []), True, cl)
          else (case dm_delete_timestamp msg of
                  Some target \<Rightarrow>
                    rbind (receive_delete env sender is_sync_sent target cl)
                      (\<lambda>(valid, cl'). Inr ((None, None), valid, cl'))
                | None \<Rightarrow> Inr ((None, None), True, cl)))))"

section \<open>Which session it belongs to\<close>

text \<open>
  A message to a group: a change is passed on, an unknown group is requested, and so is one that is
  behind, either by its revision or because the sender is no member, unless it has been already.
\<close>

definition group_behind :: "gv2_context \<Rightarrow> nat \<Rightarrow> recipient option \<Rightarrow> bool \<Rightarrow> session \<Rightarrow> client \<Rightarrow> bool res" where
  "group_behind g revision sender is_sync_sent s cl =
     rbind (unwrap_group_v2 (e_type s)) (\<lambda>known.
     let stale = revision > u32_of_i32 (g2_revision known);
         missing = (\<not> stale \<and> \<not> is_sync_sent
                    \<and> (case sender of
                         None \<Rightarrow> False
                       | Some r \<Rightarrow> fetch_group_v2_member (gc2_id_hex g) (r_id r) (cl_storage cl) = None))
     in Inr ((stale \<or> missing) \<and> gc2_id_hex g \<notin> set (cl_refreshing cl)))"

definition group_session ::
  "message_env \<Rightarrow> group_context \<Rightarrow> blob \<Rightarrow> recipient option \<Rightarrow> bool \<Rightarrow> message_type option \<Rightarrow> client \<Rightarrow>
     (session \<times> message_type option \<times> client) res" where
  "group_session env gc key sender is_sync_sent ty cl =
     (let g = me_derive env key;
          existed = group_v2_exists g (cl_storage cl) in
      rbind (fetch_or_insert_session_by_group_v2 g (cl_storage cl)) (\<lambda>(s, st).
      let cl1 = with_storage st cl in
      if \<not> existed then Inr (s, ty, send_note (NoteRequestGroupV2Info g (gm_revision gc)) cl1)
      else if gm_group_change gc then Inr (s, Some GroupChange, send_note (NoteGroupV2Update gc s) cl1)
      else rbind (group_behind g (gm_revision gc) sender is_sync_sent s cl1) (\<lambda>behind.
           Inr (s, ty, if behind
                       then send_note (NoteRequestGroupV2Info g (gm_revision gc))
                              (cl1\<lparr>cl_refreshing := gc2_id_hex g # cl_refreshing cl1\<rparr>)
                       else cl1))))"

definition expire_timer :: "data_message \<Rightarrow> int option" where
  "expire_timer msg = (case dm_expire_timer msg of Some v \<Rightarrow> if v > 0 then Some (int v) else None | None \<Rightarrow> None)"

definition direct_session ::
  "phone_number option \<Rightarrow> service_id option \<Rightarrow> data_message \<Rightarrow> client \<Rightarrow> (session \<times> client) res" where
  "direct_session e164 addr msg cl =
     rbind (merge_and_fetch_recipient e164 (aci_of addr) (pni_of addr) Certain (cl_storage cl)) (\<lambda>(r, st1).
     rbind (fetch_or_insert_session_by_recipient_id (r_id r) st1) (\<lambda>(s, st2).
     let st3 = snd (update_expiration_timer s (expire_timer msg) (map_option int (dm_expire_timer_version msg)) st2)
     in Inr (s\<lparr>e_expire_timer_version :=
                 i32_wrap (case dm_expire_timer_version msg of None \<Rightarrow> 0 | Some v \<Rightarrow> int v),
               e_expiring_message_timeout := expire_timer msg\<rparr>, with_storage st3 cl)))"

text \<open>\<open>None\<close> when the message is invalid.\<close>

definition message_session ::
  "message_env \<Rightarrow> phone_number option \<Rightarrow> service_id option \<Rightarrow> data_message \<Rightarrow> recipient option \<Rightarrow> bool \<Rightarrow>
     message_type option \<Rightarrow> client \<Rightarrow> ((session \<times> message_type option) option \<times> client) res" where
  "message_session env e164 addr msg sender is_sync_sent ty cl =
     (case dm_group_v2 msg of
        Some gc \<Rightarrow>
          (case gm_master_key gc of
             None \<Rightarrow> Inr (None, cl)
           | Some key \<Rightarrow>
               if length key \<noteq> 32 then Inr (None, cl)
               else rbind (group_session env gc key sender is_sync_sent ty cl)
                      (\<lambda>(s, ty', cl'). Inr (Some (s, ty'), cl')))
      | None \<Rightarrow> rbind (direct_session e164 addr msg cl) (\<lambda>(s, cl'). Inr (Some (s, ty), cl')))"

section \<open>Inserting it\<close>

text \<open>The message an edit is of, if it is there and from the same sender.\<close>

definition edited_message :: "timestamp option \<Rightarrow> recipient option \<Rightarrow> storage \<Rightarrow> message option" where
  "edited_message edit sender st =
     (case Option.bind edit (\<lambda>t. fetch_message_by_timestamp t st) of
        None \<Rightarrow> None
      | Some m \<Rightarrow> if m_sender_recipient_id m = map_option r_id sender then Some m else None)"

definition sent_unidentified :: "sent_message option \<Rightarrow> service_id option \<Rightarrow> metadata \<Rightarrow> bool" where
  "sent_unidentified sync_sent addr md =
     (case (sync_sent, addr) of
        (Some sent, Some a) \<Rightarrow> list_ex (\<lambda>(unidentified, dest). unidentified \<and> dest = Some a) (sn_unidentified_status sent)
      | _ \<Rightarrow> md_unidentified_sender md)"

definition received_message ::
  "message_env \<Rightarrow> service_id option \<Rightarrow> data_message \<Rightarrow> sent_message option \<Rightarrow> metadata \<Rightarrow> message_type option \<Rightarrow>
     string \<Rightarrow> message option \<Rightarrow> session \<Rightarrow> (new_message \<times> timestamp) res" where
  "received_message env addr msg sync_sent md ty body original s =
     (let is_sync_sent = (sync_sent \<noteq> None) in
      rbind (serialize (me_uuid_string env) (me_encode_ranges env) (dm_body_ranges msg)) (\<lambda>ranges.
      rbind (millis_to_naive_chrono env
              (if is_sync_sent \<and> md_client_timestamp md > 0 then md_client_timestamp md else data_timestamp msg)) (\<lambda>ts.
      rbind (opt_millis env (dm_quote_id msg)) (\<lambda>quote.
      rbind (opt_millis env (Option.bind sync_sent sn_expiration_start)) (\<lambda>started.
      Inr (\<lparr> nm_session_id = e_id s, nm_source_addr = addr, nm_server_guid = md_server_guid md, nm_text = body,
             nm_timestamp = ts, nm_sent = is_sync_sent, nm_received = False, nm_is_read = is_sync_sent,
             nm_flags = int (dm_flags msg), nm_outgoing = is_sync_sent,
             nm_is_unidentified = sent_unidentified sync_sent addr md, nm_quote_timestamp = quote,
             nm_expires_in = e_expiring_message_timeout s, nm_expire_timer_version = e_expire_timer_version s,
             nm_expiry_started = started, nm_story_type = StoryNone, nm_body_ranges = ranges,
             nm_message_type = ty, nm_edit = original \<rparr>, ts))))))"

fun register_attachments :: "int \<Rightarrow> attachment_pointer list \<Rightarrow> client \<Rightarrow> client res" where
  "register_attachments mid [] cl = Inr cl"
| "register_attachments mid (a # as) cl =
     rbind (register_attachment mid a (cl_storage cl)) (\<lambda>(i, st).
     register_attachments mid as
       (if cs_save_attachments (cl_settings cl) then send_note (NoteFetchAttachment i) (with_storage st cl)
        else with_storage st cl))"

text \<open>The reactions to the original are saved for its edit; errors are ignored.\<close>

fun copy_reactions :: "int \<Rightarrow> (reaction \<times> recipient) list \<Rightarrow> storage \<Rightarrow> storage" where
  "copy_reactions mid [] st = st"
| "copy_reactions mid ((x, r) # xs) st =
     copy_reactions mid xs
       (case save_reaction mid (r_id r) (x_emoji x) (x_sent_time x) st of Inl _ \<Rightarrow> st | Inr (_, st') \<Rightarrow> st')"

definition notify_message :: "message option \<Rightarrow> session \<Rightarrow> message \<Rightarrow> client \<Rightarrow> client" where
  "notify_message original s m cl =
     signal (NotifyMessage (e_id s) (m_id m) (m_text m))
       (case original of
          None \<Rightarrow> cl
        | Some o' \<Rightarrow>
            (let cl1 = signal (CloseNotification (m_session_id o') (m_id o')) cl
             in with_storage (copy_reactions (m_id m) (fetch_reactions_for_message (m_id o') (cl_storage cl1))
                               (cl_storage cl1)) cl1))"

definition insert_received ::
  "message_env \<Rightarrow> service_id option \<Rightarrow> data_message \<Rightarrow> sent_message option \<Rightarrow> metadata \<Rightarrow> timestamp option \<Rightarrow>
     recipient option \<Rightarrow> recipient \<Rightarrow> message_type option \<Rightarrow> string \<Rightarrow> session \<Rightarrow> client \<Rightarrow> client res" where
  "insert_received env addr msg sync_sent md edit sender self ty body s cl =
     (let original = edited_message edit sender (cl_storage cl) in
      rbind (received_message env addr msg sync_sent md ty body original s) (\<lambda>(nm, ts).
      rbind (create_message nm (cl_storage cl)) (\<lambda>(m, st).
      let cl1 = with_storage st cl;
          cl2 = (case addr of
                   None \<Rightarrow> cl1
                 | Some a \<Rightarrow> send_note (NoteProcessCachedReceipts (naive_chrono_to_millis ts) (m_id m) a (m_session_id m)) cl1);
          cl3 = cl2\<lparr>cl_expiry := map_option notify (cl_expiry cl2)\<rparr>
      in rbind (register_attachments (m_id m) (dm_attachments msg) cl3) (\<lambda>cl4.
         let cl5 = signal (MessageReceived (e_id s) (m_id m)) cl4
         in Inr (if sync_sent = None \<and> \<not> e_is_muted s \<and> cs_notification_privacy (cl_settings cl5) \<noteq> ''off''
                    \<and> map_option r_id sender \<noteq> Some (r_id self)
                 then notify_message original s m cl5 else cl5)))))"

section \<open>The whole of it\<close>

definition flags_i32 :: "nat \<Rightarrow> unit res" where
  "flags_i32 flags = (if flags < 2 ^ 31 then Inr () else Inl (Panic ''Message flags doesn't fit into i32''))"

text \<open>The profile key a sender shares, and a refresh of the profile if it is new.\<close>

definition receive_profile_key ::
  "phone_number option \<Rightarrow> service_id option \<Rightarrow> data_message \<Rightarrow> bool \<Rightarrow> client \<Rightarrow> client res" where
  "receive_profile_key e164 addr msg is_sync_sent cl =
     (case dm_profile_key msg of
        Some key \<Rightarrow>
          if (e164 \<noteq> None \<or> addr \<noteq> None) \<and> \<not> is_sync_sent
          then rbind (update_profile_key 32 e164 addr key Certain (cl_storage cl)) (\<lambda>((r, updated), st).
               Inr (if updated then send_note (NoteRefreshProfile (r_id r)) (with_storage st cl) else with_storage st cl))
          else Inr cl
      | None \<Rightarrow> Inr cl)"

definition message_sender ::
  "phone_number option \<Rightarrow> service_id option \<Rightarrow> storage \<Rightarrow> (recipient option \<times> storage) res" where
  "message_sender e164 addr st =
     (if e164 \<noteq> None \<or> addr \<noteq> None
      then rbind (merge_and_fetch_recipient e164 (aci_of addr) (pni_of addr) Certain st) (\<lambda>(r, st'). Inr (Some r, st'))
      else Inr (None, st))"

definition handle_message ::
  "message_env \<Rightarrow> phone_number option \<Rightarrow> service_id option \<Rightarrow> data_message \<Rightarrow> sent_message option \<Rightarrow> metadata \<Rightarrow>
     timestamp option \<Rightarrow> client \<Rightarrow> (bool \<times> client) res" where
  "handle_message env e164 addr msg sync_sent md edit cl =
     (let is_sync_sent = (sync_sent \<noteq> None) in
      rbind (fetch_self_recipient (cl_storage cl)) (\<lambda>(self_opt, st0).
      rbind (opt_panic ''self recipient'' self_opt) (\<lambda>self.
      rbind (message_sender e164 addr st0) (\<lambda>(sender, st1).
      rbind (flags_i32 (dm_flags msg)) (\<lambda>_.
      rbind (receive_profile_key e164 addr msg is_sync_sent (with_storage st1 cl)) (\<lambda>cl1.
      rbind (kind_of env sender self is_sync_sent msg cl1) (\<lambda>((ty, alt_body), valid, cl2).
      rbind (message_session env e164 addr msg sender is_sync_sent ty cl2) (\<lambda>(so, cl3).
      case so of
        None \<Rightarrow> Inr (False, cl3)
      | Some (s, ty') \<Rightarrow>
          (let alt = (if dm_attachments msg \<noteq> [] \<and> alt_body = None then Some [] else alt_body)
           in case (case dm_body msg of Some b \<Rightarrow> Some b | None \<Rightarrow> alt) of
                None \<Rightarrow> Inr (valid, cl3)
              | Some body \<Rightarrow>
                  rbind (insert_received env addr msg sync_sent md edit sender self ty' body s cl3)
                    (\<lambda>cl4. Inr (valid, cl4)))))))))))"

section \<open>Messages about messages\<close>

text \<open>A receipt goes into the cache first and is taken out where its message is there.\<close>

definition take_receipts :: "message_pointer list \<Rightarrow> client \<Rightarrow> client" where
  "take_receipts ps cl =
     fold (\<lambda>p c. signal (MessageReceipt (mp_session_id p) (mp_message_id p))
                   (c\<lparr>cl_cache := take_dropped (naive_chrono_to_millis (mp_timestamp p)) (cl_cache c)\<rparr>)) ps cl"

definition handle_receipt :: "message_env \<Rightarrow> metadata \<Rightarrow> receipt_message \<Rightarrow> client \<Rightarrow> client res" where
  "handle_receipt env md rm cl =
     rbind (rmap (millis_to_naive_chrono env) (rc_timestamps rm)) (\<lambda>timestamps.
     rbind (millis_to_naive_chrono env (md_client_timestamp md)) (\<lambda>at.
     let cl1 = cl\<lparr>cl_cache := snd (add (now (cl_storage cl)) md (rc_timestamps rm) (rc_type rm) (cl_cache cl))\<rparr> in
     (case receipt_type_of (rc_type rm) of
        Delivery \<Rightarrow>
          rbind (mark_messages_delivered (md_sender md) timestamps at (cl_storage cl1))
            (\<lambda>(ps, st). Inr (take_receipts ps (with_storage st cl1)))
      | ReadReceipt \<Rightarrow>
          if cs_enable_read_receipts (cl_settings cl1)
          then rbind (mark_messages_read (md_sender md) timestamps at (cl_storage cl1))
                 (\<lambda>(ps, st). Inr (take_receipts ps (with_storage st cl1)))
          else Inr cl1
      | Viewed \<Rightarrow> Inr cl1)))"

text \<open>The handler of \<open>ProcessCachedReceipts\<close>.\<close>

fun apply_receipts :: "message_env \<Rightarrow> metadata cached_receipt list \<Rightarrow> storage \<Rightarrow> storage res" where
  "apply_receipts env [] st = Inr st"
| "apply_receipts env (r # rs) st =
     rbind (rmap (millis_to_naive_chrono env) (cr_timestamps r)) (\<lambda>timestamps.
     rbind (case receipt_type_of (cr_type r) of
              Delivery \<Rightarrow>
                rbind (millis_to_naive_chrono env (md_client_timestamp (cr_metadata r))) (\<lambda>at.
                rbind (mark_messages_delivered (md_sender (cr_metadata r)) timestamps at st) (\<lambda>(_, st'). Inr st'))
            | ReadReceipt \<Rightarrow>
                rbind (millis_to_naive_chrono env (md_client_timestamp (cr_metadata r))) (\<lambda>at.
                rbind (mark_messages_read (md_sender (cr_metadata r)) timestamps at st) (\<lambda>(_, st'). Inr st'))
            | Viewed \<Rightarrow> Inr st) (apply_receipts env rs))"

definition process_cached_receipts :: "message_env \<Rightarrow> nat \<Rightarrow> client \<Rightarrow> client res" where
  "process_cached_receipts env ts cl =
     rbind (take_all ts (cl_cache cl)) (\<lambda>(rs, c).
     rbind (apply_receipts env rs (cl_storage cl)) (\<lambda>st. Inr (cl\<lparr>cl_cache := c, cl_storage := st\<rparr>)))"

record typing_message =
  tm_group_id :: "blob option"
  tm_started :: bool
  tm_timestamp :: "nat option"

definition typing_session :: "message_env \<Rightarrow> recipient \<Rightarrow> typing_message \<Rightarrow> storage \<Rightarrow> session option res" where
  "typing_session env r typing st =
     (case map_option (me_hex env) (tm_group_id typing) of
        Some g \<Rightarrow>
          if length g = 32 then fetch_session_by_group_v1_id g st
          else if length g = 64 then fetch_session_by_group_v2_id g st
          else Inr None
      | None \<Rightarrow> fetch_session_by_recipient_id (r_id r) st)"

definition handle_typing_message :: "message_env \<Rightarrow> service_id \<Rightarrow> typing_message \<Rightarrow> storage \<Rightarrow> storage res" where
  "handle_typing_message env sender typing st =
     (case fetch_recipient sender st of
        None \<Rightarrow> Inr st
      | Some r \<Rightarrow>
          rbind (typing_session env r typing st) (\<lambda>so.
          case so of
            None \<Rightarrow> Inr st
          | Some s \<Rightarrow>
              (let ev = (\<lambda>v. process_event ''TypingEvent'' v (RowId (r_id r))
                           [\<lparr> rel_subject = SubSessions, rel_key = RowId (e_id s) \<rparr>])
               in if tm_started typing
                  then rbind (opt_millis env (tm_timestamp typing)) (\<lambda>ts.
                       Inr (emit (ev (''Started '' @ me_time_text env (case ts of None \<Rightarrow> now st | Some t \<Rightarrow> t))) st))
                  else Inr (emit (ev ''Stopped'') st))))"

section \<open>Messages of one's own devices\<close>

datatype request_action = RequestAccept | RequestBlock | RequestBlockAndDelete | RequestBlockAndSpam | RequestOther

record configuration =
  co_read_receipts :: "bool option"
  co_typing_indicators :: "bool option"
  co_link_previews :: "bool option"

datatype sync_content =
    SyncSent sent_message
  | SyncRequest
  | SyncFetchLocalProfile
  | SyncRequestResponse "uuid option" request_action
  | SyncKeys "string option"
  | SyncBlocked "phone_number option list" "service_id option list"
  | SyncConfiguration configuration
  | SyncUnimplemented

record sync_message =
  sy_read :: "(nat option \<times> uuid option) list"
  sy_content :: "sync_content option"

fun sync_reads :: "message_env \<Rightarrow> (nat option \<times> uuid option) list \<Rightarrow> client \<Rightarrow> client res" where
  "sync_reads env [] cl = Inr cl"
| "sync_reads env ((ts, aci) # reads) cl =
     rbind (opt_millis env ts) (\<lambda>t.
     sync_reads env reads
       (case (t, aci) of
          (Some time, Some _) \<Rightarrow>
            (case mark_message_read time (cl_storage cl) of
               (None, st) \<Rightarrow> with_storage st cl
             | (Some p, st) \<Rightarrow> signal (MessageReceipt (mp_session_id p) (mp_message_id p)) (with_storage st cl))
        | _ \<Rightarrow> cl))"

definition handle_sent :: "message_env \<Rightarrow> metadata \<Rightarrow> sent_message \<Rightarrow> client \<Rightarrow> client res" where
  "handle_sent env md sent cl =
     (case sn_message sent of
        Some msg \<Rightarrow>
          rbind (handle_message env (sn_destination_e164 sent) (sn_destination sent) msg (Some sent) md None cl)
            (\<lambda>(_, cl'). Inr cl')
      | None \<Rightarrow>
          (case sn_edit_message sent of
             Some edit \<Rightarrow>
               rbind (opt_panic ''edit message'' (em_data_message edit)) (\<lambda>msg.
               rbind (opt_panic ''edit timestamp'' (em_target_sent_timestamp edit)) (\<lambda>target.
               rbind (millis_to_naive_chrono env target) (\<lambda>t.
               rbind (handle_message env (sn_destination_e164 sent) (sn_destination sent) msg (Some sent) md (Some t) cl)
                 (\<lambda>(_, cl'). Inr cl'))))
           | None \<Rightarrow> Inr cl))"

definition handle_message_request_response :: "uuid option \<Rightarrow> request_action \<Rightarrow> storage \<Rightarrow> bool \<times> storage" where
  "handle_message_request_response thread_aci response st =
     (case thread_aci of
        None \<Rightarrow> (False, st)
      | Some aci \<Rightarrow>
          (case response of
             RequestAccept \<Rightarrow> (True, mark_recipient_accepted (AciId aci) st)
           | RequestOther \<Rightarrow> (False, st)
           | _ \<Rightarrow> (True, mark_recipient_blocked_by_address (AciId aci) st)))"

text \<open>The condition is the code's: the keys are ignored by linked devices and taken by the primary one.\<close>

definition handle_keys :: "message_env \<Rightarrow> bool \<Rightarrow> string option \<Rightarrow> storage \<Rightarrow> storage" where
  "handle_keys env is_primary aep st =
     (if \<not> is_primary then st
      else case aep of
        None \<Rightarrow> st
      | Some text \<Rightarrow>
          (case me_parse_pool env text of
             None \<Rightarrow> st
           | Some pool \<Rightarrow>
               store_storage_service_key (me_key_codec env) (Some (me_storage_key env (me_master_key env pool)))
                 (store_master_key (me_key_codec env) (Some (me_master_key env pool))
                   (store_account_entropy_pool id pool st))))"

definition handle_blocked :: "phone_number option list \<Rightarrow> service_id option list \<Rightarrow> storage \<Rightarrow> storage" where
  "handle_blocked numbers acis st =
     fold mark_recipient_blocked_by_address (List.map_filter id acis)
       (fold mark_recipient_blocked_by_e164 (List.map_filter id numbers) st)"

definition set_if_some :: "bool option \<Rightarrow> (bool \<Rightarrow> client_settings \<Rightarrow> client_settings) \<Rightarrow> client_settings \<Rightarrow> client_settings" where
  "set_if_some value put cs = (case value of None \<Rightarrow> cs | Some v \<Rightarrow> put v cs)"

text \<open>Link previews are set to the value for read receipts, as in the code.\<close>

definition handle_configuration :: "configuration \<Rightarrow> client_settings \<Rightarrow> client_settings" where
  "handle_configuration c cs =
     set_if_some (co_read_receipts c) (\<lambda>v s. s\<lparr>cs_enable_link_previews := v\<rparr>)
       (set_if_some (co_typing_indicators c) (\<lambda>v s. s\<lparr>cs_enable_typing_indicators := v\<rparr>)
         (set_if_some (co_read_receipts c) (\<lambda>v s. s\<lparr>cs_enable_read_receipts := v\<rparr>) cs))"

definition handle_sync_content :: "message_env \<Rightarrow> metadata \<Rightarrow> sync_content \<Rightarrow> client \<Rightarrow> client res" where
  "handle_sync_content env md content cl =
     (case content of
        SyncSent sent \<Rightarrow> handle_sent env md sent cl
      | SyncRequest \<Rightarrow> Inr (send_note NoteSyncRequest cl)
      | SyncFetchLocalProfile \<Rightarrow> Inr (send_note NoteRefreshOwnProfile cl)
      | SyncRequestResponse aci response \<Rightarrow>
          Inr (with_storage (snd (handle_message_request_response aci response (cl_storage cl))) cl)
      | SyncKeys aep \<Rightarrow> Inr (with_storage (handle_keys env (cl_primary cl) aep (cl_storage cl)) cl)
      | SyncBlocked numbers acis \<Rightarrow> Inr (with_storage (handle_blocked numbers acis (cl_storage cl)) cl)
      | SyncConfiguration c \<Rightarrow> Inr (cl\<lparr>cl_settings := handle_configuration c (cl_settings cl)\<rparr>)
      | SyncUnimplemented \<Rightarrow> Inr cl)"

section \<open>Everything that comes\<close>

datatype content_body =
    DataContent data_message
  | EditContent edit_message
  | SyncContent sync_message
  | TypingContent typing_message
  | ReceiptContent receipt_message
  | IgnoredContent

definition acknowledge :: "bool \<Rightarrow> data_message \<Rightarrow> metadata \<Rightarrow> client \<Rightarrow> client res" where
  "acknowledge valid msg md cl =
     (if valid \<and> md_needs_receipt md then handle_needs_delivery_receipt msg md cl else Inr cl)"

definition process_envelope :: "message_env \<Rightarrow> content_body \<Rightarrow> metadata \<Rightarrow> client \<Rightarrow> client res" where
  "process_envelope env body md cl =
     (case body of
        DataContent msg \<Rightarrow>
          rbind (handle_message env None (Some (md_sender md)) msg None md None cl)
            (\<lambda>(valid, cl'). acknowledge valid msg md cl')
      | EditContent edit \<Rightarrow>
          rbind (opt_panic ''edit message contains data'' (em_data_message edit)) (\<lambda>msg.
          rbind (opt_panic ''edit message contains timestamp'' (em_target_sent_timestamp edit)) (\<lambda>target.
          rbind (millis_to_naive_chrono env target) (\<lambda>t.
          rbind (handle_message env None (Some (md_sender md)) msg None md (Some t) cl)
            (\<lambda>(valid, cl'). acknowledge valid msg md cl'))))
      | SyncContent sync \<Rightarrow>
          rbind (sync_reads env (sy_read sync) cl) (\<lambda>cl'.
          case sy_content sync of None \<Rightarrow> Inr cl' | Some content \<Rightarrow> handle_sync_content env md content cl')
      | TypingContent typing \<Rightarrow>
          if cs_enable_typing_indicators (cl_settings cl)
          then rbind (handle_typing_message env (md_sender md) typing (cl_storage cl)) (\<lambda>st. Inr (with_storage st cl))
          else Inr cl
      | ReceiptContent rm \<Rightarrow> handle_receipt env md rm cl
      | IgnoredContent \<Rightarrow> Inr cl)"

end
