(* ===== verification/ClientMessageFacts.thy ===== *)
theory ClientMessageFacts
  imports ClientMessages GroupRefreshProps MessageProps
begin

text \<open>
  Facts about handling a message of a known sender: which steps leave which tables alone, and what
  a plain message does.
\<close>

section \<open>A known sender\<close>

text \<open>The sender is known by ACI and somebody else; the own recipient is cached.\<close>

definition known :: "int \<Rightarrow> uuid \<Rightarrow> storage \<Rightarrow> bool" where
  "known i u st \<longleftrightarrow>
     recipients_wf (recipients (db st)) \<and> distinct_keys m_id (messages (db st)) \<and> self_recipient st \<noteq> None \<and> cfg_aci (conf st) \<noteq> Some u
     \<and> (\<exists>r\<in>set (recipients (db st)). r_id r = i \<and> r_uuid r = Some u)"

lemma known_row:
  assumes "known i u st"
  obtains r where "r \<in> set (recipients (db st))" and "r_id r = i" and "r_uuid r = Some u"
    and "merge_and_fetch_recipient_inner (db st) None (Some u) None trust False = Inr ((i, False), db st)"
    and "fetch_recipient_by_id i st = Some r" and "fetch_recipient (AciId u) st = Some r"
proof -
  obtain r where r: "recipients_wf (recipients (db st))" "r \<in> set (recipients (db st))" "r_id r = i" "r_uuid r = Some u"
    using assms by (auto simp: known_def)
  then have found: "first_where (\<lambda>r. r_uuid r = Some u) (recipients (db st)) = Some r"
    by (simp add: first_where_unique_value recipients_wfD)
  then have "find_by r_uuid (Some u) (db st) = Some r"
    by simp
  then have "merge_and_fetch_recipient_inner (db st) None (Some u) None trust False = Inr ((i, False), db st)"
    using r(3) by (simp add: merge_and_fetch_recipient_inner_def Let_def found_recipients_def List.map_filter_simps
        fetch_separate_recipients_def common_recipient_def by_all_def criteria_count_def del: find_by_Some)
  moreover have "fetch_recipient_by_id i st = Some r"
    using r by (metis fetch_by_id_row recipient_row_in)
  moreover have "fetch_recipient (AciId u) st = Some r"
  proof -
    have "has_service_id (AciId u) = (\<lambda>r. r_uuid r = Some u)"
      by (simp add: fun_eq_iff has_service_id_def)
    then show ?thesis
      using found by (simp add: fetch_recipient_def)
  qed
  ultimately show thesis
    using that r by blast
qed

lemma merge_known:
  assumes "known i u st" and "merge_and_fetch_recipient None (Some u) None trust st = Inr (r, st')"
  shows "st' = st" and "r \<in> set (recipients (db st))" and "r_id r = i" and "r_uuid r = Some u"
proof -
  obtain x where x: "x \<in> set (recipients (db st))" "r_id x = i" "r_uuid x = Some u"
    and "merge_and_fetch_recipient_inner (db st) None (Some u) None trust False = Inr ((i, False), db st)"
    and "fetch_recipient_by_id i st = Some x"
    using known_row[OF assms(1)] by metis
  then have "st' = st \<and> r = x"
    using assms(2)
    by (auto simp: merge_and_fetch_recipient_def merge_in_transaction_def transaction_def expect_db_def emit_if_def
        split: if_splits)
  then show "st' = st" and "r \<in> set (recipients (db st))" and "r_id r = i" and "r_uuid r = Some u"
    using x by auto
qed

lemma merge_known_total:
  assumes "known i u st" and "foreign_keys_ok (db st)"
  obtains r where "merge_and_fetch_recipient None (Some u) None trust st = Inr (r, st)" and "r_id r = i"
proof -
  obtain x where "merge_and_fetch_recipient_inner (db st) None (Some u) None trust False = Inr ((i, False), db st)"
    and "fetch_recipient_by_id i st = Some x" and "r_id x = i"
    using known_row[OF assms(1)] by metis
  then have "merge_and_fetch_recipient None (Some u) None trust st = Inr (x, st)"
    using assms(2)
    by (simp add: merge_and_fetch_recipient_def merge_in_transaction_def transaction_def expect_db_def emit_if_def)
  then show thesis
    using that \<open>r_id x = i\<close> by blast
qed

lemma fetch_self_known: "known i u st \<Longrightarrow> fetch_self_recipient st = Inr (self_recipient st, st)"
  by (auto simp: known_def fetch_self_recipient_def)

text \<open>The sender stays known and the messages stay the same.\<close>

definition same_for :: "int \<Rightarrow> uuid \<Rightarrow> storage \<Rightarrow> storage \<Rightarrow> bool" where
  "same_for i u st st' \<longleftrightarrow> known i u st' \<and> messages (db st') = messages (db st)"

lemma known_frame:
  assumes "known i u st" and "recipients (db st') = recipients (db st)" and "self_recipient st' = self_recipient st"
    and "conf st' = conf st" and "messages (db st') = messages (db st)"
  shows "known i u st'"
  using assms by (simp add: known_def)

lemma known_update_recipients:
  assumes "known i u st" and "recipients (db st') = update_where P f (recipients (db st))"
    and "\<And>r. r_id (f r) = r_id r \<and> r_uuid (f r) = r_uuid r \<and> r_username (f r) = r_username r \<and> r_e164 (f r) = r_e164 r"
    and "self_recipient st' \<noteq> None" and "conf st' = conf st"
    and "messages (db st') = messages (db st)"
  shows "known i u st'"
proof -
  have "recipients_wf (recipients (db st'))"
    using assms(1-3) by (auto simp: known_def recipients_wf_def unique_values_frame distinct_keys_update)
  moreover obtain r where "r \<in> set (recipients (db st))" "r_id r = i" "r_uuid r = Some u"
    using assms(1) by (auto simp: known_def)
  then have "(if P r then f r else r) \<in> set (recipients (db st'))" "r_id (if P r then f r else r) = i"
      "r_uuid (if P r then f r else r) = Some u"
    using assms(2,3) by (auto simp: set_update_where)
  ultimately show ?thesis
    using assms(1,4,5,6) unfolding known_def
    by - (intro conjI bexI[of _ "if P r then f r else r"]; (assumption | simp))
qed

lemma same_for_refl: "known i u st \<Longrightarrow> same_for i u st st"
  by (simp add: same_for_def)


section \<open>The steps leave the messages alone\<close>

lemma profile_key_known:
  assumes "known i u st" and "update_profile_key 32 None (Some (AciId u)) key Certain st = Inr (x, st')"
  shows "same_for i u st st'"
proof -
  obtain r where m: "merge_and_fetch_recipient None (Some u) None Certain st = Inr (r, st)" and r: "r_uuid r = Some u"
    using assms(2) merge_known[OF assms(1)]
    by (fastforce simp: update_profile_key_def merge_and_fetch_recipient_by_address_def rbind_eq_Inr split: prod.splits)
  have own: "cfg_aci (conf st) \<noteq> Some u" "self_recipient st \<noteq> None"
    using assms(1) by (simp_all add: known_def)
  have written: "same_for i u st (write_profile_key r key st)"
    unfolding same_for_def
    by (intro conjI known_update_recipients[OF assms(1), of _
          "\<lambda>x. r_id x = r_id r \<and> (r_profile_key x \<noteq> Some key \<or> r_unidentified_access_mode x \<noteq> UAUnknown)"
          "\<lambda>x. x\<lparr>r_profile_key := Some key, r_unidentified_access_mode := UAUnknown\<rparr>"])
      (use own r in \<open>auto simp: write_profile_key_def Let_def invalidate_if_def update_recipients_def observe_recipient_def emit_def\<close>)
  have refresh: "same_for i u st (refresh_access_mode r st)"
    unfolding same_for_def
    by (intro conjI known_update_recipients[OF assms(1), of _
          "\<lambda>x. r_unidentified_access_mode r = UADisabled \<and> r_id x = r_id r \<and> r_unidentified_access_mode x \<noteq> UAUnknown"
          "\<lambda>x. x\<lparr>r_unidentified_access_mode := UAUnknown\<rparr>"])
      (use own in \<open>auto simp: refresh_access_mode_def update_recipients_def\<close>)
  show ?thesis
    using assms(2) m r own written refresh fetch_self_known[OF assms(1)] same_for_refl[OF assms(1)]
    by (auto simp: update_profile_key_def merge_and_fetch_recipient_by_address_def Let_def rbind_eq_Inr invalidate_if_def
        split: if_splits)
qed

lemma same_for_frame:
  assumes "known i u st" and "recipients (db st') = recipients (db st)" and "self_recipient st' = self_recipient st"
    and "conf st' = conf st" and "messages (db st') = messages (db st)"
  shows "same_for i u st st'"
  using assms by (simp add: same_for_def known_def)

lemma self_id_known: "known i u st \<Longrightarrow> fetch_self_recipient_id st = Inr (a, st') \<Longrightarrow> st' = st"
  by (auto simp: fetch_self_recipient_id_def known_def)

lemma process_reaction_steps:
  assumes "process_reaction sender t rp st = Inr (x, st')"
  obtains m a st1 where "reaction_author_id m st = Inr (a, st1)"
    and "st' = st1 \<or> (\<exists>y. remove_reaction (m_id m) (r_id sender) st1 = (y, st'))
         \<or> (\<exists>y emoji. save_reaction (m_id m) (r_id sender) emoji t st1 = Inr (y, st'))"
  using assms by (auto simp: process_reaction_def ebind_eq_Inr lift_error_def split: if_splits sum.splits) blast+

lemma author_known:
  "known i u st \<Longrightarrow> reaction_author_id m st = Inr (a, st1) \<Longrightarrow> st1 = st"
  using self_id_known[of i u st]
  by (auto simp: reaction_author_id_def ebind_eq_Inr lift_error_def ok_or_def split: if_splits sum.splits option.splits)

lemma reaction_known:
  assumes "known i u st" and "process_reaction sender t rp st = Inr (x, st')"
  shows "same_for i u st st'"
proof -
  obtain m a st1 where author: "reaction_author_id m st = Inr (a, st1)"
    and rest: "st' = st1 \<or> (\<exists>y. remove_reaction (m_id m) (r_id sender) st1 = (y, st'))
         \<or> (\<exists>y emoji. save_reaction (m_id m) (r_id sender) emoji t st1 = Inr (y, st'))"
    by (rule process_reaction_steps[OF assms(2)])
  show ?thesis
    using rest author_known[OF assms(1) author] same_for_refl[OF assms(1)]
    by (auto simp: remove_reaction_def save_reaction_def Let_def split: if_splits intro!: same_for_frame[OF assms(1)])
qed

lemma copy_reactions_known: "known i u st \<Longrightarrow> same_for i u st (copy_reactions mid xs st)"
proof (induction xs arbitrary: st)
  case (Cons p xs)
  obtain x r where p: "p = (x, r)" by fastforce
  let ?st = "case save_reaction mid (r_id r) (x_emoji x) (x_sent_time x) st of Inl _ \<Rightarrow> st | Inr (_, st') \<Rightarrow> st'"
  have "same_for i u st ?st"
    using Cons.prems by (auto simp: save_reaction_def Let_def same_for_refl intro!: same_for_frame)
  then show ?case
    using Cons.IH[of ?st] by (auto simp: p same_for_def)
qed (simp add: same_for_refl)

lemma session_frames:
  "insert_session msg s st = Inr (x, st') \<Longrightarrow> known i u st \<Longrightarrow> same_for i u st st'"
  "fetch_or_insert_session_by_recipient_id j st = Inr (y, st') \<Longrightarrow> known i u st \<Longrightarrow> same_for i u st st'"
  "fetch_or_insert_session_by_group_v2 g st = Inr (y, st') \<Longrightarrow> known i u st \<Longrightarrow> same_for i u st st'"
  by (auto simp: fetch_or_insert_session_by_recipient_id_def fetch_or_insert_session_by_group_v2_def
      insert_dm_session_def insert_v2_session_def migrate_session_to_v2_def insert_session_def Let_def rbind_eq_Inr
      split: if_splits option.splits dest!: expect_session_state intro!: same_for_frame)

section \<open>What a sender can change\<close>

text \<open>
  The messages of one edit series, the original and its revisions, are from one sender, and what a
  revision names exists.
\<close>

definition series_by_one :: "message list \<Rightarrow> bool" where
  "series_by_one ms \<longleftrightarrow>
     list_all (\<lambda>m. opt_has_key m_id (m_original_message_id m) ms) ms
     \<and> list_all (\<lambda>e. list_all (\<lambda>m. in_edit_series e m \<longrightarrow> m_sender_recipient_id m = m_sender_recipient_id e) ms) ms"

text \<open>What the sender does keeps this, and the messages of others as they are.\<close>

definition intact :: "int \<Rightarrow> uuid \<Rightarrow> storage \<Rightarrow> storage \<Rightarrow> bool" where
  "intact i u st st' \<longleftrightarrow> known i u st'
     \<and> (series_by_one (messages (db st)) \<longrightarrow>
          series_by_one (messages (db st'))
          \<and> (\<forall>m\<in>set (messages (db st)). m_sender_recipient_id m \<noteq> Some i \<longrightarrow> m \<in> set (messages (db st'))))"

lemma same_for_intact: "same_for i u st st' \<Longrightarrow> intact i u st st'"
  by (auto simp: intact_def same_for_def)

lemma intact_trans: "intact i u st st1 \<Longrightarrow> intact i u st1 st2 \<Longrightarrow> intact i u st st2"
  unfolding intact_def by blast

lemma intact_same: "intact i u st st1 \<Longrightarrow> same_for i u st1 st2 \<Longrightarrow> intact i u st st2"
  using intact_trans same_for_intact by blast

lemma series_by_oneD:
  assumes "series_by_one ms" and "m \<in> set ms"
  shows "m_original_message_id m = Some j \<Longrightarrow> has_key m_id j ms"
    and "e \<in> set ms \<Longrightarrow> in_edit_series e m \<Longrightarrow> m_sender_recipient_id m = m_sender_recipient_id e"
  using assms by (auto simp: series_by_one_def list_all_iff opt_has_key_def)

lemma keys_update_where: "(\<And>r. key (f r) = key r) \<Longrightarrow> key ` set (update_where P f tab) = key ` set tab"
  unfolding set_update_where image_image by (rule image_cong) simp_all

lemma has_key_update: "(\<And>r. key (f r) = key r) \<Longrightarrow> has_key key k (update_where P f tab) = has_key key k tab"
  using keys_update_where[of key f P tab] by (simp add: has_key_iff)

lemma series_by_one_updateI:
  fixes P f
  defines "g \<equiv> \<lambda>m. if P m then f m else m"
  assumes "\<And>m. m \<in> set ms \<Longrightarrow> opt_has_key m_id (m_original_message_id (g m)) ms" and "\<And>m. m_id (g m) = m_id m"
    and "\<And>m x. m \<in> set ms \<Longrightarrow> x \<in> set ms \<Longrightarrow> in_edit_series (g x) (g m)
           \<Longrightarrow> m_sender_recipient_id (g m) = m_sender_recipient_id (g x)"
  shows "series_by_one (update_where P f ms)"
proof -
  have table: "set (update_where P f ms) = g ` set ms"
    by (simp add: set_update_where g_def)
  have "opt_has_key m_id ko (update_where P f ms) = opt_has_key m_id ko ms" for ko
    using assms(3) by (simp add: opt_has_key_def has_key_iff table image_image split: option.split)
  then show ?thesis
    using assms(2,4) by (auto simp: series_by_one_def list_all_iff table)
qed

text \<open>Changing what is no link between messages keeps the series.\<close>

lemma series_by_one_update:
  assumes sound: "series_by_one ms"
    and f: "\<And>m. m_id (f m) = m_id m" "\<And>m. m_original_message_id (f m) = m_original_message_id m"
      "\<And>m. m_sender_recipient_id (f m) = m_sender_recipient_id m"
  shows "series_by_one (update_where P f ms)"
proof (rule series_by_one_updateI)
  let ?g = "\<lambda>m. if P m then f m else m"
  have same: "m_id (?g m) = m_id m" "m_original_message_id (?g m) = m_original_message_id m"
      "m_sender_recipient_id (?g m) = m_sender_recipient_id m" for m
    using f by simp_all
  show "m_id (?g m) = m_id m" for m
    by (rule same)
  show "opt_has_key m_id (m_original_message_id (?g m)) ms" if "m \<in> set ms" for m
    using sound that unfolding same by (simp add: series_by_one_def list_all_iff)
  show "m_sender_recipient_id (?g m) = m_sender_recipient_id (?g x)"
    if "m \<in> set ms" "x \<in> set ms" "in_edit_series (?g x) (?g m)" for m x
    using series_by_oneD(2)[OF sound that(1,2)] that(3) unfolding same in_edit_series_def original_message_id_def by blast
qed

text \<open>A new message of a sender joins his own series.\<close>

lemma series_by_one_append:
  assumes sound: "series_by_one ms" and fresh: "\<And>m. m \<in> set ms \<Longrightarrow> m_id m \<noteq> m_id n"
    and ids: "distinct_keys m_id ms" and "m_sender_recipient_id n = a"
    and new: "m_original_message_id n = None
      \<or> (\<exists>e\<in>set ms. m_original_message_id n = Some (m_id e) \<and> m_sender_recipient_id e = a)"
  shows "series_by_one (ms @ [n])"
proof -
  have old: "opt_has_key m_id (m_original_message_id m) (ms @ [n])" if "m \<in> set ms" for m
    using sound that by (auto simp: series_by_one_def list_all_iff opt_has_key_def has_key_iff split: option.splits)
  have own: "opt_has_key m_id (m_original_message_id n) (ms @ [n])"
    using new by (auto simp: opt_has_key_def has_key_iff)
  have later: "m_sender_recipient_id m = a" if m: "m \<in> set ms" "in_edit_series n m" for m
  proof -
    have "\<not> m_original_message_id m = Some (m_id n)"
      using series_by_oneD(1)[OF sound m(1), of "m_id n"] fresh unfolding has_key_iff by (metis image_iff)
    then obtain e where e: "e \<in> set ms" "m_original_message_id n = Some (m_id e)" "m_sender_recipient_id e = a"
      using new m fresh[OF m(1)] by (auto simp: in_edit_series_def original_message_id_def)
    then consider "m_id m = m_id e" | "m_original_message_id m = Some (m_id e)"
      using m(2) by (auto simp: in_edit_series_def original_message_id_def)
    then show ?thesis
    proof cases
      case 1
      then show ?thesis
        using distinct_keys_inj[OF ids m(1) e(1)] e(3) by simp
    next
      case 2
      then have "in_edit_series m e"
        by (simp add: in_edit_series_def original_message_id_def)
      then show ?thesis
        using series_by_oneD(2)[OF sound e(1) m(1)] e(3) by simp
    qed
  qed
  have earlier: "m_sender_recipient_id m = a" if m: "m \<in> set ms" "in_edit_series m n" for m
  proof -
    have "original_message_id m \<noteq> m_id n"
      using series_by_oneD(1)[OF sound m(1), of "m_id n"] fresh[OF m(1)] fresh unfolding has_key_iff original_message_id_def
      by (cases "m_original_message_id m") (auto dest!: fresh)
    then obtain e where e: "e \<in> set ms" "m_id e = original_message_id m" "m_sender_recipient_id e = a"
      using new m(2) by (auto simp: in_edit_series_def)
    then show ?thesis
      using series_by_oneD(2)[OF sound e(1) m(1)] by (simp add: in_edit_series_def)
  qed
  show ?thesis
    using sound old own later earlier assms(4) unfolding series_by_one_def list_all_iff
    by (auto simp: ball_Un)
qed

text \<open>Linking a series leaves the other messages alone.\<close>

lemma series_by_one_link:
  assumes sound: "series_by_one ms" and e: "e \<in> set ms" and ids: "distinct_keys m_id ms"
  shows "series_by_one (update_where (in_edit_series e)
           (\<lambda>m. m\<lparr>m_original_message_id := Some (original_message_id e), m_latest_revision_id := l\<rparr>) ms)"
proof -
  let ?f = "\<lambda>m. m\<lparr>m_original_message_id := Some (original_message_id e), m_latest_revision_id := l\<rparr>"
  let ?g = "\<lambda>m. if in_edit_series e m then ?f m else m"
  have orig: "has_key m_id (original_message_id e) ms"
    using series_by_oneD(1)[OF sound e] e by (auto simp: original_message_id_def has_key_iff split: option.splits)
  show ?thesis
  proof (rule series_by_one_updateI)
    show "m_id (?g m) = m_id m" for m
      by simp
    show "opt_has_key m_id (m_original_message_id (?g m)) ms" if "m \<in> set ms" for m
      using orig sound that by (auto simp: series_by_one_def list_all_iff opt_has_key_def)
    fix m x assume m: "m \<in> set ms" and x: "x \<in> set ms" and s: "in_edit_series (?g x) (?g m)"
    have "m_sender_recipient_id m = m_sender_recipient_id x"
    proof (cases "in_edit_series e x")
      case True
      then have "in_edit_series e m"
        using s by (auto simp: in_edit_series_def original_message_id_def split: if_splits option.splits)
      then show ?thesis
        using series_by_oneD(2)[OF sound m e] series_by_oneD(2)[OF sound x e True] by simp
    next
      case False
      then have "original_message_id x \<noteq> original_message_id e"
        by (auto simp: in_edit_series_def original_message_id_def split: option.splits)
      then have "in_edit_series x m"
        using s False by (auto simp: in_edit_series_def split: if_splits)
      then show ?thesis
        using series_by_oneD(2)[OF sound m x] by simp
    qed
    then show "m_sender_recipient_id (?g m) = m_sender_recipient_id (?g x)"
      by simp
  qed
qed

lemma client_storage [simp]:
  "cl_storage (send_note n cl) = cl_storage cl" "cl_storage (signal s cl) = cl_storage cl"
  by (simp_all add: send_note_def signal_def)

lemma intact_messages:
  assumes "known i u st" and "recipients (db st') = recipients (db st)" and "self_recipient st' = self_recipient st"
    and "conf st' = conf st" and "distinct_keys m_id (messages (db st'))"
    and "series_by_one (messages (db st)) \<Longrightarrow> series_by_one (messages (db st'))"
    and "\<And>m. series_by_one (messages (db st)) \<Longrightarrow> m \<in> set (messages (db st)) \<Longrightarrow> m_sender_recipient_id m \<noteq> Some i \<Longrightarrow>
           m \<in> set (messages (db st'))"
  shows "intact i u st st'"
  using assms by (simp add: intact_def known_def)

lemma delete_attachments_frame:
  "delete_attachments allowed mid as st = (n, st') \<Longrightarrow>
     messages (db st') = messages (db st) \<and> recipients (db st') = recipients (db st)
     \<and> self_recipient st' = self_recipient st \<and> conf st' = conf st"
proof (induction as arbitrary: st st' n)
  case (Cons a as)
  obtain removed st1 where one: "delete_attachment allowed mid a st = (removed, st1)" by fastforce
  obtain k st2 where rest: "delete_attachments allowed mid as st1 = (k, st2)" by fastforce
  have "messages (db st1) = messages (db st) \<and> recipients (db st1) = recipients (db st)
      \<and> self_recipient st1 = self_recipient st \<and> conf st1 = conf st"
    using one by (auto simp: delete_attachment_def Let_def split: if_splits option.splits)
  then show ?case
    using Cons.IH[OF rest] Cons.prems one rest by simp
qed simp

lemma delete_frame:
  assumes "fetch_message_by_id mid st = Some m"
  shows "messages (db (snd (delete_message allowed mid st))) = update_where (\<lambda>x. m_id x = mid)
           (\<lambda>x. x\<lparr>m_is_remote_deleted := True, m_text := None, m_message_ranges := None\<rparr>) (messages (db st))"
    and "recipients (db (snd (delete_message allowed mid st))) = recipients (db st)"
    and "self_recipient (snd (delete_message allowed mid st)) = self_recipient st"
    and "conf (snd (delete_message allowed mid st)) = conf st"
proof -
  obtain n st2 where att: "delete_attachments_for_message allowed mid (update_messages (\<lambda>x. m_id x = mid)
      (\<lambda>x. x\<lparr>m_is_remote_deleted := True, m_text := None, m_message_ranges := None\<rparr>) st) = (n, st2)"
    by fastforce
  then show "messages (db (snd (delete_message allowed mid st))) = update_where (\<lambda>x. m_id x = mid)
           (\<lambda>x. x\<lparr>m_is_remote_deleted := True, m_text := None, m_message_ranges := None\<rparr>) (messages (db st))"
    and "recipients (db (snd (delete_message allowed mid st))) = recipients (db st)"
    and "self_recipient (snd (delete_message allowed mid st)) = self_recipient st"
    and "conf (snd (delete_message allowed mid st)) = conf st"
    using delete_attachments_frame[OF att[unfolded delete_attachments_for_message_def]] assms
    by (simp_all add: delete_message_def Let_def update_messages_def)
qed

lemma delete_message_intact:
  assumes "known i u st" and "fetch_message_by_id mid st = Some m" and "m_sender_recipient_id m = Some i"
  shows "intact i u st (snd (delete_message allowed mid st))"
proof (rule intact_messages[OF assms(1) delete_frame(2-4)[OF assms(2)]])
  note ms = delete_frame(1)[OF assms(2), of allowed]
  have ids: "distinct_keys m_id (messages (db st))"
    using assms(1) by (simp add: known_def)
  then show "distinct_keys m_id (messages (db (snd (delete_message allowed mid st))))"
    by (auto simp: ms intro: distinct_keys_update)
  have m: "m \<in> set (messages (db st))" "m_id m = mid"
    using assms(2) by (auto simp: fetch_message_by_id_def dest: first_where_SomeD)
  show "series_by_one (messages (db st)) \<Longrightarrow> series_by_one (messages (db (snd (delete_message allowed mid st))))"
    unfolding ms by (rule series_by_one_update) simp_all
  show "x \<in> set (messages (db (snd (delete_message allowed mid st))))"
    if x: "x \<in> set (messages (db st))" "m_sender_recipient_id x \<noteq> Some i" for x
  proof -
    have "m_id x \<noteq> mid"
      using distinct_keys_inj[OF ids x(1) m(1)] x(2) assms(3) m(2) by auto
    then show ?thesis
      using x(1) by (auto simp: ms set_update_where)
  qed
qed

lemma archived_known: "known i u st \<Longrightarrow> same_for i u st (mark_session_archived sid b st)"
  by (rule same_for_frame)
    (auto simp: mark_session_archived_def update_session_if_def update_sessions_def emit_if_def Let_def)

lemma timer_known: "known i u st \<Longrightarrow> same_for i u st (snd (update_expiration_timer s t v st))"
  by (rule same_for_frame) (auto simp: update_expiration_timer_def update_sessions_def Let_def)

lemma emit_known: "known i u st \<Longrightarrow> same_for i u st (emit ev st)" "known i u st \<Longrightarrow> same_for i u st (emit_all evs st)"
  by (rule same_for_frame; simp)+

lemma intact_known: "intact i u st st' \<Longrightarrow> known i u st'"
  by (simp add: intact_def)

text \<open>A message of the sender, which may be an edit of a message of his.\<close>

definition own_message :: "int \<Rightarrow> new_message \<Rightarrow> storage \<Rightarrow> bool" where
  "own_message i nm st \<longleftrightarrow> m_sender_recipient_id (new_row nm st) = Some i
     \<and> (case nm_edit nm of None \<Rightarrow> True
        | Some e \<Rightarrow> e \<in> set (messages (db st)) \<and> m_sender_recipient_id e = Some i)"

lemma insert_message_intact:
  assumes known: "known i u st" and own: "own_message i nm st" and run: "insert_message (new_row nm st) st = Inr (latest, st1)"
  shows "intact i u st st1"
proof (rule intact_messages[OF known])
  note res = insert_message_result[OF run]
  have ids: "distinct_keys m_id (messages (db st))"
    using known by (simp add: known_def)
  then show "distinct_keys m_id (messages (db st1))"
    using res msg.distinct_insert[of "messages (db st)" "new_row nm st"] by (simp add: insert_row_def)
  show "series_by_one (messages (db st1))" if sound: "series_by_one (messages (db st))"
  proof -
    have "m_id m \<noteq> m_id latest" if "m \<in> set (messages (db st))" for m
      using next_rowid_fresh[OF that, of m_id] res by simp
    moreover have "m_sender_recipient_id latest = Some i"
      using res own by (simp add: own_message_def)
    moreover have "m_original_message_id latest = None
        \<or> (\<exists>e\<in>set (messages (db st)). m_original_message_id latest = Some (m_id e) \<and> m_sender_recipient_id e = Some i)"
      using res own by (auto simp: own_message_def latest_fields split: option.splits)
    ultimately show ?thesis
      using series_by_one_append[OF sound _ ids] res by simp
  qed
  show "x \<in> set (messages (db st1))" if "x \<in> set (messages (db st))" for x
    using that by (simp add: res)
qed (use insert_message_result[OF run] in simp_all)

lemma link_edits_intact:
  assumes known: "known i u st" and e: "e \<in> set (messages (db st))" "m_sender_recipient_id e = Some i"
    and run: "link_edits e latest sid st = Inr st'"
  shows "intact i u st st'"
proof (rule intact_messages[OF known])
  note ms = link_edits_result[OF run, THEN conjunct1]
  have ids: "distinct_keys m_id (messages (db st))"
    using known by (simp add: known_def)
  then show "distinct_keys m_id (messages (db st'))"
    by (auto simp: ms intro: distinct_keys_update)
  show "series_by_one (messages (db st'))" if "series_by_one (messages (db st))"
    unfolding ms using that e(1) ids by (rule series_by_one_link)
  show "x \<in> set (messages (db st'))"
    if sound: "series_by_one (messages (db st))" and x: "x \<in> set (messages (db st))" "m_sender_recipient_id x \<noteq> Some i" for x
  proof -
    have "\<not> in_edit_series e x"
      using series_by_oneD(2)[OF sound x(1) e(1)] e(2) x(2) by auto
    then show ?thesis
      using x(1) by (auto simp: ms set_update_where)
  qed
qed (use run in \<open>auto simp: link_edits_def update_messages_def Let_def split: if_splits\<close>)

lemma create_message_intact:
  assumes known: "known i u st" and own: "own_message i nm st" and run: "create_message nm st = Inr (m, st')"
  shows "intact i u st st'"
proof -
  let ?ev = "with_relation SubSessions (RowId (nm_session_id nm)) (observe_insert SubMessages (RowId (m_id m)))"
  obtain st1 st3 so where ins: "insert_message (new_row nm st) st = Inr (m, st1)"
    and link: "(case nm_edit nm of None \<Rightarrow> Inr (emit ?ev st1)
                | Some e \<Rightarrow> link_edits e m (nm_session_id nm) (emit ?ev st1)) = Inr st3"
    and "fetch_session_by_id (nm_session_id nm) st3 = Inr so" and "st' = (case so of None \<Rightarrow> st3 | Some s \<Rightarrow>
        if e_is_muted s \<and> \<not> e_is_archived s then mark_session_archived (e_id s) False st3 else st3)"
    using run by (auto simp: create_message_def rbind_eq_Inr Let_def)
  then have st': "st' = st3 \<or> (\<exists>sid. st' = mark_session_archived sid False st3)"
    by (auto split: option.splits if_splits)
  have one: "intact i u st (emit ?ev st1)"
    using insert_message_intact[OF known own ins] by (meson emit_known(1) intact_known intact_same)
  have "intact i u st st3"
  proof (cases "nm_edit nm")
    case None
    then show ?thesis
      using link one by simp
  next
    case (Some e)
    then have "e \<in> set (messages (db (emit ?ev st1)))" "m_sender_recipient_id e = Some i"
      using own insert_message_result[OF ins] by (simp_all add: own_message_def)
    then show ?thesis
      using link Some link_edits_intact[OF intact_known[OF one]] intact_trans[OF one] by simp
  qed
  then show ?thesis
    using st' by (auto intro: intact_same archived_known intact_known)
qed

lemma register_attachments_intact:
  assumes "known i u (cl_storage cl)" and "register_attachments mid as cl = Inr cl'"
  shows "same_for i u (cl_storage cl) (cl_storage cl')"
  using assms
proof (induction as arbitrary: cl)
  case Nil
  then show ?case by (simp add: same_for_refl)
next
  case (Cons a as)
  obtain j st where reg: "register_attachment mid a (cl_storage cl) = Inr (j, st)"
    using Cons.prems(2) by (auto simp: rbind_eq_Inr)
  let ?cl = "if cs_save_attachments (cl_settings cl) then send_note (NoteFetchAttachment j) (with_storage st cl)
             else with_storage st cl"
  have st: "cl_storage ?cl = st" and run: "register_attachments mid as ?cl = Inr cl'"
    using Cons.prems(2) reg by (auto split: if_splits)
  have "same_for i u (cl_storage cl) st"
    using reg Cons.prems(1)
    by (auto simp: register_attachment_def insert_attachment_def Let_def split: if_splits intro!: same_for_frame)
  then show ?case
    using Cons.IH[OF _ run] by (simp add: st same_for_def)
qed

lemma notify_message_intact:
  "known i u (cl_storage cl) \<Longrightarrow> same_for i u (cl_storage cl) (cl_storage (notify_message original s m cl))"
  by (auto simp: notify_message_def Let_def same_for_refl copy_reactions_known split: option.split)

section \<open>The whole handler\<close>

lemma message_sender_known:
  assumes "known i u st" and "message_sender None (Some (AciId u)) st = Inr (sender, st')"
  shows "st' = st" and "map_option r_id sender = Some i"
  using assms merge_known[OF assms(1)]
  by (auto simp: message_sender_def aci_of_def pni_of_def rbind_eq_Inr)

lemma receive_profile_key_known:
  assumes "known i u (cl_storage cl)" and "receive_profile_key None (Some (AciId u)) msg b cl = Inr cl'"
  shows "same_for i u (cl_storage cl) (cl_storage cl')"
  using assms(2) profile_key_known[OF assms(1)] same_for_refl[OF assms(1)]
  by (auto simp: receive_profile_key_def rbind_eq_Inr split: option.splits if_splits)

lemma receive_reaction_steps:
  assumes "receive_reaction env s msg r cl = Inr (b, cl')"
  shows "cl' = cl \<or> (\<exists>t rp x. process_reaction s t rp (cl_storage cl) = Inr (x, cl_storage cl'))"
proof -
  let ?t = "case me_naive env (data_timestamp msg) of None \<Rightarrow> 0 | Some t \<Rightarrow> t"
  let ?rp = "\<lambda>target. \<lparr> rp_target_sent_timestamp = target, rp_target_author = rm_target_author r,
    rp_remove = rm_remove r, rp_emoji = rm_emoji r \<rparr>"
  obtain target where target: "opt_millis env (rm_target_sent_timestamp r) = Inr target"
    using assms by (auto simp: receive_reaction_def rbind_eq_Inr)
  have "cl' = cl \<or> (\<exists>x. process_reaction s ?t (?rp target) (cl_storage cl) = Inr (x, cl_storage cl'))"
  proof (cases "process_reaction s ?t (?rp target) (cl_storage cl)")
    case (Inl e)
    then show ?thesis
      using assms target
      by (cases e) (auto simp: receive_reaction_def Let_def split: store_error.splits if_splits)
  next
    case (Inr p)
    then show ?thesis
      using assms target
      by (auto simp: receive_reaction_def Let_def split: prod.splits option.splits if_splits)
  qed
  then show ?thesis by blast
qed

lemma receive_reaction_known:
  assumes "known i u (cl_storage cl)" and "receive_reaction env s msg r cl = Inr (b, cl')"
  shows "same_for i u (cl_storage cl) (cl_storage cl')"
  using receive_reaction_steps[OF assms(2)] reaction_known[OF assms(1)] same_for_refl[OF assms(1)] by blast

lemma receive_delete_intact:
  assumes "known i u (cl_storage cl)" and "map_option r_id sender = Some i"
    and "receive_delete env sender False ts cl = Inr (b, cl')"
  shows "intact i u (cl_storage cl) (cl_storage cl')"
proof -
  have ids: "distinct_keys m_id (messages (db (cl_storage cl)))"
    using assms(1) by (simp add: known_def)
  have "intact i u (cl_storage cl) (snd (delete_message a (m_id m) (cl_storage cl)))"
    if "fetch_message_by_timestamp t (cl_storage cl) = Some m" "m_sender_recipient_id m = Some i" for a m t
  proof -
    have "m \<in> set (messages (db (cl_storage cl)))"
      using that(1) by (auto simp: fetch_message_by_timestamp_def dest: first_where_SomeD)
    then have "fetch_message_by_id (m_id m) (cl_storage cl) = Some m"
      using ids by (simp add: fetch_message_by_id_def first_where_unique)
    then show ?thesis
      using delete_message_intact[OF assms(1)] that(2) by blast
  qed
  then show ?thesis
    using assms(2,3) same_for_intact[OF same_for_refl[OF assms(1)]]
    by (auto simp: receive_delete_def rbind_eq_Inr bind_eq_Some_conv split: option.splits if_splits Option.bind_splits)
qed

lemma kind_of_intact:
  assumes "known i u (cl_storage cl)" and "map_option r_id sender = Some i"
    and "kind_of env sender self False msg cl = Inr (k, v, cl')"
  shows "intact i u (cl_storage cl) (cl_storage cl')"
  using assms(3) receive_delete_intact[OF assms(1,2)] same_for_intact[OF receive_reaction_known[OF assms(1)]]
    same_for_intact[OF same_for_refl[OF assms(1)]]
  by (auto simp: kind_of_def rbind_eq_Inr split: option.splits if_splits)

lemma message_session_known:
  assumes "known i u (cl_storage cl)"
    and "message_session env None (Some (AciId u)) msg sender b ty cl = Inr (x, cl')"
  shows "same_for i u (cl_storage cl) (cl_storage cl')"
proof -
  have group: "same_for i u (cl_storage cl) (cl_storage cl')"
    if "group_session env gc key sender b ty cl = Inr (s, t, cl')" for gc key s t
    using that session_frames(3)[OF _ assms(1)]
    by (fastforce simp: group_session_def rbind_eq_Inr Let_def split: if_splits)
  have direct: "same_for i u (cl_storage cl) (cl_storage cl')"
    if run: "direct_session None (Some (AciId u)) msg cl = Inr (s, cl')" for s
  proof -
    obtain r st1 s' st2 where m: "merge_and_fetch_recipient None (Some u) None Certain (cl_storage cl) = Inr (r, st1)"
      and session: "fetch_or_insert_session_by_recipient_id (r_id r) st1 = Inr (s', st2)"
      and cl': "cl_storage cl' = snd (update_expiration_timer s' (expire_timer msg)
                  (map_option int (dm_expire_timer_version msg)) st2)"
      using run by (auto simp: direct_session_def aci_of_def pni_of_def rbind_eq_Inr Let_def)
    have "same_for i u (cl_storage cl) st2"
      using session_frames(2) assms(1) session merge_known(1)[OF assms(1) m] by blast
    then show ?thesis
      using timer_known unfolding cl' by (auto simp: same_for_def)
  qed
  show ?thesis
    using assms(2) group direct same_for_refl[OF assms(1)]
    by (auto simp: message_session_def rbind_eq_Inr split: option.splits if_splits)
qed

lemma insert_received_steps:
  assumes "insert_received env addr msg ss md edit sender self ty body s cl = Inr cl'"
  obtains nm m cl3 cl4 where "create_message nm (cl_storage cl) = Inr (m, cl_storage cl3)"
    and "nm_source_addr nm = addr" and "nm_edit nm = edited_message edit sender (cl_storage cl)"
    and "register_attachments (m_id m) (dm_attachments msg) cl3 = Inr cl4"
    and "cl_storage cl' = cl_storage cl4
         \<or> ss = None \<and> cl_storage cl' = cl_storage (notify_message (edited_message edit sender (cl_storage cl)) s m
                                  (signal (MessageReceived (e_id s) (m_id m)) cl4))"
proof -
  let ?cl2 = "\<lambda>m st ts. case addr of None \<Rightarrow> with_storage st cl
      | Some a \<Rightarrow> send_note (NoteProcessCachedReceipts (naive_chrono_to_millis ts) (m_id m) a (m_session_id m))
          (with_storage st cl)"
  obtain nm ts m st cl4 where made: "create_message nm (cl_storage cl) = Inr (m, st)"
    and fields: "nm_source_addr nm = addr" "nm_edit nm = edited_message edit sender (cl_storage cl)"
    and atts: "register_attachments (m_id m) (dm_attachments msg)
        ((?cl2 m st ts)\<lparr>cl_expiry := map_option notify (cl_expiry (?cl2 m st ts))\<rparr>) = Inr cl4"
    and "cl_storage cl' = cl_storage cl4
         \<or> ss = None \<and> cl_storage cl' = cl_storage (notify_message (edited_message edit sender (cl_storage cl)) s m
                                  (signal (MessageReceived (e_id s) (m_id m)) cl4))"
    using assms by (auto simp: insert_received_def received_message_def rbind_eq_Inr Let_def split: if_splits)
  moreover have "cl_storage ((?cl2 m st ts)\<lparr>cl_expiry := map_option notify (cl_expiry (?cl2 m st ts))\<rparr>) = st"
    by (simp split: option.split)
  ultimately show thesis
    using that by metis
qed

lemma insert_received_intact:
  assumes "known i u (cl_storage cl)"
    and "insert_received env (Some (AciId u)) msg ss md edit sender self ty body s cl = Inr cl'"
    and who: "map_option r_id sender = Some i"
  shows "intact i u (cl_storage cl) (cl_storage cl')"
proof -
  let ?o = "edited_message edit sender (cl_storage cl)"
  obtain nm m cl3 cl4 where made: "create_message nm (cl_storage cl) = Inr (m, cl_storage cl3)"
    and fields: "nm_source_addr nm = Some (AciId u)" "nm_edit nm = ?o"
    and atts: "register_attachments (m_id m) (dm_attachments msg) cl3 = Inr cl4"
    and cl': "cl_storage cl' = cl_storage cl4
              \<or> ss = None \<and> cl_storage cl' = cl_storage (notify_message ?o s m (signal (MessageReceived (e_id s) (m_id m)) cl4))"
    by (rule insert_received_steps[OF assms(2)])
  obtain r where "fetch_recipient (AciId u) (cl_storage cl) = Some r" "r_id r = i"
    using known_row[OF assms(1)] by metis
  moreover have "e \<in> set (messages (db (cl_storage cl))) \<and> m_sender_recipient_id e = Some i" if "?o = Some e" for e
    using that who
    by (auto simp: edited_message_def fetch_message_by_timestamp_def bind_eq_Some_conv
        split: option.splits if_splits dest!: first_where_SomeD)
  ultimately have "own_message i nm (cl_storage cl)"
    using fields by (auto simp: own_message_def new_row_def split: option.split)
  then have one: "intact i u (cl_storage cl) (cl_storage cl3)"
    using create_message_intact[OF assms(1) _ made] by blast
  then have two: "intact i u (cl_storage cl) (cl_storage cl4)"
    using register_attachments_intact[OF _ atts] intact_same intact_known by blast
  then show ?thesis
    using cl' notify_message_intact[of i u "signal (MessageReceived (e_id s) (m_id m)) cl4" ?o s m] intact_same intact_known
    by auto
qed

lemma handle_message_steps:
  assumes "known i u (cl_storage cl)" and "handle_message env None (Some (AciId u)) msg ss md edit cl = Inr (v, cl')"
  obtains self sender st1 cl1 ty alt v1 cl2 so cl3 where
    "message_sender None (Some (AciId u)) (cl_storage cl) = Inr (sender, st1)"
    and "receive_profile_key None (Some (AciId u)) msg (ss \<noteq> None) (with_storage st1 cl) = Inr cl1"
    and "kind_of env sender self (ss \<noteq> None) msg cl1 = Inr ((ty, alt), v1, cl2)"
    and "message_session env None (Some (AciId u)) msg sender (ss \<noteq> None) ty cl2 = Inr (so, cl3)"
    and "cl' = cl3
         \<or> (\<exists>ty' body s. insert_received env (Some (AciId u)) msg ss md edit sender self ty' body s cl3 = Inr cl')"
proof -
  obtain self sender st1 cl1 ty alt v1 cl2 so cl3 where
    steps: "message_sender None (Some (AciId u)) (cl_storage cl) = Inr (sender, st1)"
      "receive_profile_key None (Some (AciId u)) msg (ss \<noteq> None) (with_storage st1 cl) = Inr cl1"
      "kind_of env sender self (ss \<noteq> None) msg cl1 = Inr ((ty, alt), v1, cl2)"
      "message_session env None (Some (AciId u)) msg sender (ss \<noteq> None) ty cl2 = Inr (so, cl3)"
    and last: "(case so of None \<Rightarrow> Inr (False, cl3)
        | Some (s, ty') \<Rightarrow>
            (case (case dm_body msg of Some b \<Rightarrow> Some b
                   | None \<Rightarrow> if dm_attachments msg \<noteq> [] \<and> alt = None then Some [] else alt) of
                None \<Rightarrow> Inr (v1, cl3)
              | Some body \<Rightarrow>
                  rbind (insert_received env (Some (AciId u)) msg ss md edit sender self ty' body s cl3)
                    (\<lambda>cl4. Inr (v1, cl4)))) = Inr (v, cl')"
    using assms(2) fetch_self_known[OF assms(1)] unfolding handle_message_def Let_def
    by (auto simp: rbind_eq_Inr simp del: if_split not_None_eq not_Some_eq)
  moreover have "cl' = cl3
      \<or> (\<exists>ty' body s. insert_received env (Some (AciId u)) msg ss md edit sender self ty' body s cl3 = Inr cl')"
    using last by (auto simp: rbind_eq_Inr split: option.splits)
  ultimately show thesis
    using that by blast
qed

lemma handle_message_intact:
  assumes "known i u (cl_storage cl)"
    and "handle_message env None (Some (AciId u)) msg None md edit cl = Inr (v, cl')"
  shows "intact i u (cl_storage cl) (cl_storage cl')"
proof -
  let ?st = "cl_storage cl"
  obtain self sender st1 cl1 ty alt v1 cl2 so cl3 where
    sender: "message_sender None (Some (AciId u)) ?st = Inr (sender, st1)"
    and key: "receive_profile_key None (Some (AciId u)) msg (None \<noteq> (None :: sent_message option)) (with_storage st1 cl) = Inr cl1"
    and kind: "kind_of env sender self (None \<noteq> (None :: sent_message option)) msg cl1 = Inr ((ty, alt), v1, cl2)"
    and session: "message_session env None (Some (AciId u)) msg sender (None \<noteq> (None :: sent_message option)) ty cl2 = Inr (so, cl3)"
    and rest: "cl' = cl3
         \<or> (\<exists>ty' body s. insert_received env (Some (AciId u)) msg None md edit sender self ty' body s cl3 = Inr cl')"
    by (rule handle_message_steps[OF assms])
  note who = message_sender_known[OF assms(1) sender]
  have k1: "same_for i u ?st (cl_storage cl1)"
    using receive_profile_key_known[OF _ key] assms(1) who(1) by simp
  then have k2: "intact i u ?st (cl_storage cl2)"
    using kind_of_intact[OF _ who(2) kind[simplified]] intact_trans same_for_intact[OF k1] by (auto simp: same_for_def)
  then have k3: "intact i u ?st (cl_storage cl3)"
    using message_session_known[OF intact_known[OF k2] session] intact_same by blast
  show ?thesis
    using rest k3 intact_trans[OF k3 insert_received_intact[OF intact_known[OF k3] _ who(2)]] by auto
qed

lemma acknowledge_storage: "acknowledge v msg md cl = Inr cl' \<Longrightarrow> cl_storage cl' = cl_storage cl"
  by (auto simp: acknowledge_def handle_needs_delivery_receipt_def rbind_eq_Inr split: if_splits option.splits)

lemma typing_same: "known i u st \<Longrightarrow> handle_typing_message env sender typing st = Inr st' \<Longrightarrow> same_for i u st st'"
proof (cases "fetch_recipient sender st")
  case None
  then show "known i u st \<Longrightarrow> handle_typing_message env sender typing st = Inr st' \<Longrightarrow> same_for i u st st'"
    by (simp add: handle_typing_message_def same_for_refl)
next
  case (Some r)
  assume st: "known i u st" and run: "handle_typing_message env sender typing st = Inr st'"
  then obtain so where so: "typing_session env r typing st = Inr so"
    using Some by (auto simp: handle_typing_message_def rbind_eq_Inr)
  show "same_for i u st st'"
    using st run Some so
    by (cases so; cases "tm_started typing")
      (auto simp: handle_typing_message_def rbind_eq_Inr Let_def same_for_refl emit_known(1))
qed

section \<open>A plain message\<close>

definition plain :: "string \<Rightarrow> nat \<Rightarrow> data_message \<Rightarrow> bool" where
  "plain b t msg \<longleftrightarrow>
     dm_timestamp msg = Some t \<and> dm_body msg = Some b \<and> dm_flags msg = 0 \<and> dm_profile_key msg = None
     \<and> dm_reaction msg = None \<and> dm_sticker_emoji msg = None \<and> \<not> dm_payment msg \<and> \<not> dm_group_call_update msg
     \<and> \<not> dm_contact msg \<and> dm_delete_timestamp msg = None \<and> dm_group_v2 msg = None
     \<and> dm_attachments msg = [] \<and> dm_body_ranges msg = [] \<and> dm_quote_id msg = None"

lemma create_message_total:
  assumes "sessions_wf (db st)" and "has_key s_id (nm_session_id nm) (sessions (db st))" and "nm_edit nm = None"
    and "nm_source_addr nm = Some a" and "fetch_recipient a st = Some r"
  shows "\<exists>m st'. create_message nm st = Inr (m, st') \<and> m = with_m_id (next_rowid m_id (messages (db st))) (new_row nm st)
           \<and> messages (db st') = messages (db st) @ [m]"
proof -
  let ?m = "with_m_id (next_rowid m_id (messages (db st))) (new_row nm st)"
  let ?st1 = "st\<lparr>db := (db st)\<lparr>messages := insert_row m_id with_m_id (new_row nm st) (messages (db st))\<rparr>\<rparr>"
  have row: "m_session_id (new_row nm st) = nm_session_id nm" "m_sender_recipient_id (new_row nm st) = Some (r_id r)"
    "m_original_message_id (new_row nm st) = None"
    using assms(3-5) by (simp_all add: new_row_def)
  have "has_key r_id (r_id r) (recipients (db st))"
    using assms(5) by (auto simp: fetch_recipient_def has_key_iff dest: first_where_SomeD)
  then have ins: "insert_message (new_row nm st) st = Inr (?m, ?st1)"
    using assms(2) row by (simp add: insert_message_def Let_def opt_has_key_def)
  have "sessions_wf (db ?st1)"
    by (rule sessions_wf_tables[OF assms(1)]) simp_all
  then obtain so where "fetch_session_by_id (nm_session_id nm) (emit (with_relation SubSessions (RowId (nm_session_id nm))
      (observe_insert SubMessages (RowId (m_id ?m)))) ?st1) = Inr so"
    using fetch_session_where_total unfolding fetch_session_by_id_def by (metis emit_frame(1))
  then show ?thesis
    using assms(3) ins
    by (auto simp: create_message_def Let_def insert_row_def mark_session_archived_def update_session_if_def
        update_sessions_def split: option.split)
qed

lemma timer_keys: "s_id ` set (sessions (db (snd (update_expiration_timer s t v st)))) = s_id ` set (sessions (db st))"
  by (simp add: update_expiration_timer_def update_sessions_def Let_def keys_update_where)

lemma handle_plain:
  assumes known: "known i u (cl_storage cl)" and fk: "foreign_keys_ok (db (cl_storage cl))"
    and wf: "sessions_wf (db (cl_storage cl))"
    and session: "fetch_session_by_recipient_id i (cl_storage cl) = Inr (Some s)"
    and msg: "plain b t msg"
    and time: "me_naive env (if ss \<noteq> None \<and> md_client_timestamp md > 0 then md_client_timestamp md else t) = Some n"
    and started: "Option.bind ss sn_expiration_start = None"
  shows "\<exists>m cl'. handle_message env None (Some (AciId u)) msg ss md None cl = Inr (True, cl')
     \<and> known i u (cl_storage cl') \<and> messages (db (cl_storage cl')) = messages (db (cl_storage cl)) @ [m]
     \<and> m_text m = Some b \<and> m_sender_recipient_id m = Some i \<and> m_session_id m = e_id s \<and> m_server_timestamp m = n
     \<and> m_is_outbound m = (ss \<noteq> None) \<and> m_is_read m = (ss \<noteq> None) \<and> m_is_remote_deleted m = False
     \<and> m_expires_in m = map_option i32_wrap (expire_timer msg)
     \<and> cl_notes cl' = cl_notes cl @ [NoteProcessCachedReceipts (naive_chrono_to_millis n) (m_id m) (AciId u) (e_id s)]
     \<and> cl_signals cl' = cl_signals cl @ MessageReceived (e_id s) (m_id m) #
          (if ss = None \<and> \<not> e_is_muted s \<and> cs_notification_privacy (cl_settings cl) \<noteq> ''off''
              \<and> map_option r_id (self_recipient (cl_storage cl)) \<noteq> Some i
           then [NotifyMessage (e_id s) (m_id m) (Some b)] else [])"
proof -
  let ?st = "cl_storage cl"
  obtain self where self: "self_recipient ?st = Some self"
    using known by (auto simp: known_def)
  obtain r where m: "merge_and_fetch_recipient None (Some u) None Certain ?st = Inr (r, ?st)" and r: "r_id r = i"
    using merge_known_total[OF known fk] by metis
  define st3 where "st3 = snd (update_expiration_timer s (expire_timer msg) (map_option int (dm_expire_timer_version msg)) ?st)"
  have st3: "known i u st3" "messages (db st3) = messages (db ?st)"
    using timer_known[OF known] by (simp_all add: st3_def same_for_def)
  obtain s' where s': "direct_session None (Some (AciId u)) msg cl = Inr (s', with_storage st3 cl)"
    "e_id s' = e_id s" "e_is_muted s' = e_is_muted s" "e_expiring_message_timeout s' = expire_timer msg"
    using m r session
    by (simp add: direct_session_def aci_of_def pni_of_def fetch_or_insert_session_by_recipient_id_def st3_def)
  obtain nm where nm: "received_message env (Some (AciId u)) msg ss md None b None s' = Inr (nm, n)"
    and fields: "nm_session_id nm = e_id s" "nm_edit nm = None" "nm_source_addr nm = Some (AciId u)" "nm_text nm = b"
      "nm_timestamp nm = n" "nm_outgoing nm = (ss \<noteq> None)" "nm_is_read nm = (ss \<noteq> None)"
      "nm_expires_in nm = expire_timer msg"
    using msg time started s'(2,4)
    by (auto simp: received_message_def plain_def serialize_def opt_millis_def millis_to_naive_chrono_def
        data_timestamp_def Let_def split: if_splits)
  have wf3: "sessions_wf (db st3)"
    unfolding st3_def by (rule sessions_wf_timer[OF wf])
  have "\<exists>x\<in>set (sessions (db st3)). s_id x = e_id s"
  proof -
    have "\<exists>x\<in>set (sessions (db ?st)). s_id x = e_id s"
      using fetch_session_where_row session unfolding fetch_session_by_recipient_id_def by metis
    then show ?thesis
      using timer_keys[of s "expire_timer msg" "map_option int (dm_expire_timer_version msg)" ?st]
      unfolding st3_def by (metis image_iff)
  qed
  then have key: "has_key s_id (nm_session_id nm) (sessions (db st3))"
    unfolding has_key_iff fields by (metis image_eqI)
  obtain x where x: "fetch_recipient (AciId u) st3 = Some x" "r_id x = i"
    using known_row[OF st3(1)] by metis
  obtain m' st4 where made: "create_message nm st3 = Inr (m', st4)"
    and m': "m' = with_m_id (next_rowid m_id (messages (db st3))) (new_row nm st3)"
    and ms: "messages (db st4) = messages (db st3) @ [m']"
    using create_message_total[OF wf3 key fields(2,3) x(1)] by blast
  have known4: "known i u st4"
    using create_message_intact[OF st3(1) _ made] fields(2,3) x by (auto simp: own_message_def new_row_def intro: intact_known)
  have row: "m_text m' = Some b" "m_sender_recipient_id m' = Some i" "m_session_id m' = e_id s"
    "m_server_timestamp m' = n" "m_is_outbound m' = (ss \<noteq> None)" "m_is_read m' = (ss \<noteq> None)"
    "m_is_remote_deleted m' = False" "m_expires_in m' = map_option i32_wrap (expire_timer msg)"
    using fields x by (simp_all add: m' new_row_def default_message_def)
  let ?cl = "(send_note (NoteProcessCachedReceipts (naive_chrono_to_millis n) (m_id m') (AciId u) (e_id s))
      (with_storage st4 cl))\<lparr>cl_expiry := map_option notify (cl_expiry cl)\<rparr>"
  let ?cl' = "if ss = None \<and> \<not> e_is_muted s \<and> cs_notification_privacy (cl_settings cl) \<noteq> ''off'' \<and> Some i \<noteq> Some (r_id self)
      then notify_message None s' m' (signal (MessageReceived (e_id s) (m_id m')) ?cl)
      else signal (MessageReceived (e_id s) (m_id m')) ?cl"
  have ins: "insert_received env (Some (AciId u)) msg ss md None (Some r) self None b s' (with_storage st3 cl) = Inr ?cl'"
    using nm made s' row r msg
    by (simp add: insert_received_def edited_message_def plain_def Let_def send_note_def signal_def)
  have "handle_message env None (Some (AciId u)) msg ss md None cl = Inr (True, ?cl')"
    using ins msg m self s'(1) fetch_self_known[OF known]
    by (simp add: handle_message_def message_sender_def aci_of_def pni_of_def flags_i32_def receive_profile_key_def
        kind_of_def message_session_def plain_def Let_def)
  then show ?thesis
    using known4 ms row st3(2) s'(2) self
    by (auto simp: notify_message_def send_note_def signal_def)
qed

section \<open>Reactions\<close>

definition others_same :: "int \<Rightarrow> storage \<Rightarrow> storage \<Rightarrow> bool" where
  "others_same i st st' \<longleftrightarrow> filter (\<lambda>x. x_author x \<noteq> i) (reactions (db st')) = filter (\<lambda>x. x_author x \<noteq> i) (reactions (db st))"

lemma others_same_refl: "reactions (db st') = reactions (db st) \<Longrightarrow> others_same i st st'"
  by (simp add: others_same_def)

lemma filter_update_other:
  "(\<And>r. P r \<Longrightarrow> \<not> Q r \<and> \<not> Q (f r)) \<Longrightarrow> filter Q (update_where P f tab) = filter Q tab"
  by (induction tab) auto

lemma filter_delete_other: "(\<And>r. P r \<Longrightarrow> \<not> Q r) \<Longrightarrow> filter Q (delete_where P tab) = filter Q tab"
  by (induction tab) auto

lemma process_reaction_others:
  assumes "known j u st" and "process_reaction sender t rp st = Inr (x, st')"
  shows "others_same (r_id sender) st st'"
proof -
  obtain m a st1 where author: "reaction_author_id m st = Inr (a, st1)"
    and rest: "st' = st1 \<or> (\<exists>y. remove_reaction (m_id m) (r_id sender) st1 = (y, st'))
         \<or> (\<exists>y emoji. save_reaction (m_id m) (r_id sender) emoji t st1 = Inr (y, st'))"
    by (rule process_reaction_steps[OF assms(2)])
  have "st1 = st"
    using author author_known[OF assms(1)] by blast
  then show ?thesis
    using rest
    by (auto simp: remove_reaction_def save_reaction_def Let_def others_same_def insert_row_def
        split: if_splits intro!: filter_delete_other filter_update_other)
qed

lemma session_reactions:
  "insert_session msg s st = Inr (x, st') \<Longrightarrow> reactions (db st') = reactions (db st)"
  "fetch_or_insert_session_by_recipient_id j st = Inr (y, st') \<Longrightarrow> reactions (db st') = reactions (db st)"
  "fetch_or_insert_session_by_group_v2 g st = Inr (y, st') \<Longrightarrow> reactions (db st') = reactions (db st)"
  by (auto simp: fetch_or_insert_session_by_recipient_id_def fetch_or_insert_session_by_group_v2_def
      insert_dm_session_def insert_v2_session_def migrate_session_to_v2_def insert_session_def Let_def rbind_eq_Inr
      split: if_splits option.splits dest!: expect_session_state)

lemma create_message_reactions:
  "create_message nm st = Inr (m, st') \<Longrightarrow> reactions (db st') = reactions (db st)"
  by (auto simp: create_message_def insert_message_def link_edits_def mark_session_archived_def update_session_if_def
      update_sessions_def update_messages_def rbind_eq_Inr Let_def split: option.splits if_splits)

lemma register_attachments_reactions:
  "register_attachments mid as cl = Inr cl' \<Longrightarrow> reactions (db (cl_storage cl')) = reactions (db (cl_storage cl))"
proof (induction as arbitrary: cl)
  case (Cons a as)
  obtain j st where reg: "register_attachment mid a (cl_storage cl) = Inr (j, st)"
    using Cons.prems by (auto simp: rbind_eq_Inr)
  then have "reactions (db st) = reactions (db (cl_storage cl))"
    by (auto simp: register_attachment_def insert_attachment_def Let_def split: if_splits)
  then show ?case
    using Cons.prems reg Cons.IH by (fastforce split: if_splits)
qed simp


lemma message_session_reactions:
  assumes "known i u (cl_storage cl)" and "message_session env None (Some (AciId u)) msg sender b ty cl = Inr (x, cl')"
  shows "reactions (db (cl_storage cl')) = reactions (db (cl_storage cl))"
proof -
  have group: "reactions (db (cl_storage cl')) = reactions (db (cl_storage cl))"
    if "group_session env gc key sender b ty cl = Inr (s, t, cl')" for gc key s t
    using that session_reactions(3)
    by (fastforce simp: group_session_def rbind_eq_Inr Let_def split: if_splits)
  have direct: "reactions (db (cl_storage cl')) = reactions (db (cl_storage cl))"
    if "direct_session None (Some (AciId u)) msg cl = Inr (s, cl')" for s
    using that session_reactions(2) merge_known(1)[OF assms(1)]
    by (fastforce simp: direct_session_def aci_of_def pni_of_def rbind_eq_Inr Let_def update_expiration_timer_def
        update_sessions_def split: if_splits)
  show ?thesis
    using assms(2) group direct by (auto simp: message_session_def rbind_eq_Inr split: option.splits if_splits)
qed

lemma insert_received_reactions:
  assumes "insert_received env addr msg (Some sent) md edit sender self ty body s cl = Inr cl'"
  shows "reactions (db (cl_storage cl')) = reactions (db (cl_storage cl))"
proof -
  obtain nm m cl3 cl4 where "create_message nm (cl_storage cl) = Inr (m, cl_storage cl3)"
    and "register_attachments (m_id m) (dm_attachments msg) cl3 = Inr cl4" and "cl_storage cl' = cl_storage cl4"
    using insert_received_steps[OF assms] by (metis option.distinct(1))
  then show ?thesis
    using create_message_reactions register_attachments_reactions by metis
qed


lemma receive_reaction_others:
  assumes "known i u (cl_storage cl)" and "receive_reaction env s msg r cl = Inr (b, cl')"
  shows "others_same (r_id s) (cl_storage cl) (cl_storage cl')"
  using receive_reaction_steps[OF assms(2)] process_reaction_others[OF assms(1)] by (auto simp: others_same_refl)

end
