(* ===== verification/ClientMessageProps.thy ===== *)
theory ClientMessageProps
  imports ClientMessageFacts
begin

text \<open>
  What messages that come can and cannot do to the store.
\<close>

section \<open>Properties\<close>

text \<open>
  C4. Nobody changes the messages of others.  Whatever data, edit, typing or ignored content comes
  from a person the user knows, other than the user - receipts, and what one's own devices send in
  that person's name, are not among it - every message that is not from that person stays the very
  row it was, its text, its links to revisions and its flags included: his edits and deletions work
  on his own messages only.  For this the messages of an edit series have to be from one sender,
  and so they still are afterwards, and the sender stays known.
\<close>

theorem foreign_content_intact:
  assumes "known i u (cl_storage cl)" and "md_sender md = AciId u"
    and "series_by_one (messages (db (cl_storage cl)))"
    and "\<And>sync. body \<noteq> SyncContent sync" and "\<And>rm. body \<noteq> ReceiptContent rm"
    and "process_envelope env body md cl = Inr cl'"
  shows "known i u (cl_storage cl') \<and> series_by_one (messages (db (cl_storage cl')))
         \<and> (\<forall>m\<in>set (messages (db (cl_storage cl))). m_sender_recipient_id m \<noteq> Some i \<longrightarrow>
              m \<in> set (messages (db (cl_storage cl'))))"
proof -
  have message: "intact i u (cl_storage cl) (cl_storage cl')"
    if run: "handle_message env None (Some (AciId u)) msg None md edit cl = Inr (v, cl1)"
      and ack: "acknowledge v msg md cl1 = Inr cl'" for msg edit v cl1
    using handle_message_intact[OF assms(1) run] acknowledge_storage[OF ack] by simp
  have "intact i u (cl_storage cl) (cl_storage cl')"
  proof (cases body)
    case (DataContent msg)
    then show ?thesis
      using assms(2,6) message by (auto simp: process_envelope_def rbind_eq_Inr)
  next
    case (EditContent edit)
    then show ?thesis
      using assms(2,6) message by (auto simp: process_envelope_def rbind_eq_Inr)
  next
    case (TypingContent typing)
    then show ?thesis
      using assms(6) same_for_intact[OF typing_same[OF assms(1)]] same_for_intact[OF same_for_refl[OF assms(1)]]
      by (auto simp: process_envelope_def rbind_eq_Inr split: if_splits)
  next
    case IgnoredContent
    then show ?thesis
      using assms(6) same_for_intact[OF same_for_refl[OF assms(1)]] by (auto simp: process_envelope_def)
  qed (use assms(4,5) in auto)
  then show ?thesis
    using assms(3) by (simp add: intact_def)
qed

definition env_demo :: message_env where
  "env_demo = \<lparr> me_naive = (\<lambda>t. if t < 1000 then Some (int t) else None),
     me_derive = (\<lambda>key. \<lparr> gc2_id_hex = ''g'', gc2_master_key_hex = ''k'' \<rparr>),
     me_allowed = (\<lambda>p. True), me_uuid_string = (\<lambda>ns. []), me_encode_ranges = (\<lambda>rs. []), me_hex = (\<lambda>b. []),
     me_time_text = (\<lambda>t. []), me_parse_pool = (\<lambda>s. None), me_master_key = (\<lambda>s. []), me_storage_key = (\<lambda>b. b),
     me_key_codec = \<lparr> encode_key = (\<lambda>b. []), decode_key = (\<lambda>s. None) \<rparr> \<rparr>"

definition blank_data :: data_message where
  "blank_data = \<lparr> dm_timestamp = Some 50, dm_body = None, dm_flags = 0, dm_profile_key = None, dm_reaction = None,
     dm_sticker_emoji = None, dm_payment = False, dm_group_call_update = False, dm_contact = False,
     dm_delete_timestamp = None, dm_group_v2 = None, dm_expire_timer = None, dm_expire_timer_version = None,
     dm_attachments = [], dm_body_ranges = [], dm_quote_id = None \<rparr>"

text \<open>The peer 8 in a conversation with the user, whose own recipient is known.\<close>

definition client_demo :: client where
  "client_demo = \<lparr> cl_storage = message_demo\<lparr>self_recipient := Some (with_r_id 1 (new_recipient (Some 7) None (Some ''+1'')))\<rparr>,
     cl_cache = new_cache, cl_expiry = None, cl_refreshing = [],
     cl_settings = \<lparr> cs_enable_read_receipts = True, cs_enable_typing_indicators = True, cs_enable_link_previews = False,
       cs_save_attachments = True, cs_notification_privacy = ''complete'' \<rparr>,
     cl_primary = True, cl_notes = [], cl_signals = [] \<rparr>"

definition from_peer :: metadata where
  "from_peer = \<lparr> md_sender = AciId 8, md_client_timestamp = 50, md_unidentified_sender = True, md_needs_receipt = True,
     md_server_guid = None \<rparr>"

definition result_of :: "client res \<Rightarrow> client" where
  "result_of r = (case r of Inl _ \<Rightarrow> client_demo | Inr cl \<Rightarrow> cl)"

definition deleted_demo :: client where
  "deleted_demo = result_of (process_envelope env_demo (DataContent (blank_data\<lparr>dm_delete_timestamp := Some (Some 20)\<rparr>))
     from_peer client_demo)"

theorem foreign_content_intact_witness:
  "default_message\<lparr>m_id := 2, m_session_id := 1, m_is_outbound := True,
                    m_text := Some ''two'', m_server_timestamp := 20\<rparr>
   \<in> set (messages (db (cl_storage deleted_demo)))"
proof -
  let ?msg = "blank_data\<lparr>dm_delete_timestamp := Some (Some 20)\<rparr>"
  let ?peer = "with_r_id 2 (new_recipient (Some 8) None (Some ''+2''))"
  let ?me = "with_r_id 1 (new_recipient (Some 7) None (Some ''+1''))"
  let ?st = "cl_storage client_demo"
  have known: "known 2 8 ?st"
    unfolding known_def by code_simp
  have self: "fetch_self_recipient ?st = Inr (Some ?me, ?st)"
    by code_simp
  have sender: "message_sender None (Some (AciId 8)) ?st = Inr (Some ?peer, ?st)"
    by code_simp
  have delete: "receive_delete env_demo (Some ?peer) False (Some 20) client_demo = Inr (False, client_demo)"
    by code_simp
  obtain s cl where session: "direct_session None (Some (AciId 8)) ?msg client_demo = Inr (s, cl)"
  proof -
    have "case direct_session None (Some (AciId 8)) ?msg client_demo of Inl _ \<Rightarrow> False | Inr _ \<Rightarrow> True"
      by code_simp
    then show thesis
      using that by (auto split: sum.splits)
  qed
  have run: "process_envelope env_demo (DataContent ?msg) from_peer client_demo = Inr cl"
    using session
    by (simp add: process_envelope_def handle_message_def self sender delete flags_i32_def kind_of_def message_session_def
        receive_profile_key_def acknowledge_def blank_data_def from_peer_def)
  then have "deleted_demo = cl"
    by (simp add: deleted_demo_def result_of_def)
  moreover have "series_by_one (messages (db ?st))"
    by code_simp
  ultimately show ?thesis
    using foreign_content_intact[OF known _ _ _ _ run]
    by (auto simp: from_peer_def client_demo_def message_demo_def default_message_def)
qed

text \<open>
  C5. A plain message arrives.  A text from a known sender is appended to the conversation with
  him, unread and with the timer it states; its receipts are looked for, the sender gets a delivery
  receipt, and the user is notified unless the conversation is muted or notifications are off.
\<close>

theorem plain_message_received:
  assumes "known i u (cl_storage cl)" and "foreign_keys_ok (db (cl_storage cl))" and "sessions_wf (db (cl_storage cl))"
    and "fetch_session_by_recipient_id i (cl_storage cl) = Inr (Some s)"
    and "plain b t msg" and "me_naive env t = Some n" and "md_sender md = AciId u" and "md_needs_receipt md"
  shows "\<exists>m peer cl'. process_envelope env (DataContent msg) md cl = Inr cl'
     \<and> messages (db (cl_storage cl')) = messages (db (cl_storage cl)) @ [m]
     \<and> m_text m = Some b \<and> m_sender_recipient_id m = Some i \<and> m_session_id m = e_id s \<and> m_server_timestamp m = n
     \<and> \<not> m_is_outbound m \<and> \<not> m_is_read m \<and> m_expires_in m = map_option i32_wrap (expire_timer msg)
     \<and> r_id peer = i
     \<and> cl_notes cl' = cl_notes cl @ [NoteProcessCachedReceipts (naive_chrono_to_millis n) (m_id m) (AciId u) (e_id s),
                                    NoteDeliverReceipts Delivery [t] (DirectMessage peer)]
     \<and> cl_signals cl' = cl_signals cl @ MessageReceived (e_id s) (m_id m) #
          (if \<not> e_is_muted s \<and> cs_notification_privacy (cl_settings cl) \<noteq> ''off''
              \<and> map_option r_id (self_recipient (cl_storage cl)) \<noteq> Some i
           then [NotifyMessage (e_id s) (m_id m) (Some b)] else [])"
proof -
  obtain m cl1 where run: "handle_message env None (Some (AciId u)) msg None md None cl = Inr (True, cl1)"
    and known1: "known i u (cl_storage cl1)"
    and res: "messages (db (cl_storage cl1)) = messages (db (cl_storage cl)) @ [m]"
      "m_text m = Some b" "m_sender_recipient_id m = Some i" "m_session_id m = e_id s" "m_server_timestamp m = n"
      "\<not> m_is_outbound m" "\<not> m_is_read m" "m_expires_in m = map_option i32_wrap (expire_timer msg)"
      "cl_notes cl1 = cl_notes cl @ [NoteProcessCachedReceipts (naive_chrono_to_millis n) (m_id m) (AciId u) (e_id s)]"
      "cl_signals cl1 = cl_signals cl @ MessageReceived (e_id s) (m_id m) #
          (if \<not> e_is_muted s \<and> cs_notification_privacy (cl_settings cl) \<noteq> ''off''
              \<and> map_option r_id (self_recipient (cl_storage cl)) \<noteq> Some i
           then [NotifyMessage (e_id s) (m_id m) (Some b)] else [])"
    using handle_plain[OF assms(1-5), of env None md n] assms(6) by auto
  obtain peer where "fetch_recipient (AciId u) (cl_storage cl1) = Some peer" "r_id peer = i"
    using known_row[OF known1] by metis
  then show ?thesis
    using assms(5,7,8) run res
    by (auto simp: process_envelope_def acknowledge_def handle_needs_delivery_receipt_def plain_def send_note_def)
qed

theorem plain_message_received_witness:
  "\<exists>cl' m. process_envelope env_demo (DataContent (blank_data\<lparr>dm_body := Some ''hi''\<rparr>)) from_peer client_demo = Inr cl'
     \<and> messages (db (cl_storage cl')) = messages (db message_demo) @ [m] \<and> m_text m = Some ''hi''
     \<and> cl_signals cl' = [MessageReceived 1 (m_id m), NotifyMessage 1 (m_id m) (Some ''hi'')]"
proof -
  let ?msg = "blank_data\<lparr>dm_body := Some ''hi''\<rparr>"
  have demo: "known 2 8 (cl_storage client_demo)" "foreign_keys_ok (db (cl_storage client_demo))"
      "sessions_wf (db (cl_storage client_demo))"
    unfolding known_def by code_simp+
  obtain s where s: "fetch_session_by_recipient_id 2 (cl_storage client_demo) = Inr (Some s)" "e_id s = 1" "\<not> e_is_muted s"
  proof -
    have "case fetch_session_by_recipient_id 2 (cl_storage client_demo) of
        Inr (Some s) \<Rightarrow> e_id s = 1 \<and> \<not> e_is_muted s | _ \<Rightarrow> False"
      by code_simp
    then show thesis
      using that by (auto split: sum.splits option.splits)
  qed
  have "plain ''hi'' 50 ?msg"
    by (simp add: plain_def blank_data_def)
  then show ?thesis
    using plain_message_received[OF demo s(1), of "''hi''" 50 ?msg env_demo 50 from_peer] s(2,3)
    by (auto simp: env_demo_def from_peer_def client_demo_def)
qed

text \<open>
  C17. What one's other device has sent can be deleted by its receiver.  A message sent from a
  linked device to a peer is saved with the peer as its sender; when the peer, whose own messages
  these appear to be, asks for its deletion, the text is gone here.
\<close>

theorem linked_message_deleted_by_peer:
  assumes "known i u (cl_storage cl)" and "foreign_keys_ok (db (cl_storage cl))" and "sessions_wf (db (cl_storage cl))"
    and "fetch_session_by_recipient_id i (cl_storage cl) = Inr (Some s)"
    and "sn_message sent = Some msg" and "plain b t msg" and "sn_destination sent = Some (AciId u)"
    and "sn_destination_e164 sent = None" and "sn_expiration_start sent = None"
    and "me_naive env (if md_client_timestamp md > 0 then md_client_timestamp md else t) = Some n"
    and "\<forall>m\<in>set (messages (db (cl_storage cl))). m_server_timestamp m \<noteq> n"
    and "me_naive env target = Some n"
  shows "\<exists>m cl1 cl2. process_envelope env (SyncContent \<lparr> sy_read = [], sy_content = Some (SyncSent sent) \<rparr>) md cl = Inr cl1
     \<and> messages (db (cl_storage cl1)) = messages (db (cl_storage cl)) @ [m]
     \<and> m_is_outbound m \<and> m_text m = Some b \<and> m_sender_recipient_id m = Some i
     \<and> (\<forall>peer. r_id peer = i \<longrightarrow> receive_delete env (Some peer) False (Some target) cl1 = Inr (True, cl2))
     \<and> messages (db (cl_storage cl2)) = messages (db (cl_storage cl))
          @ [m\<lparr>m_is_remote_deleted := True, m_text := None, m_message_ranges := None\<rparr>]"
proof -
  let ?st = "cl_storage cl"
  let ?f = "\<lambda>x. x\<lparr>m_is_remote_deleted := True, m_text := None, m_message_ranges := None\<rparr>"
  obtain m cl1 where run: "handle_message env None (Some (AciId u)) msg (Some sent) md None cl = Inr (True, cl1)"
    and known1: "known i u (cl_storage cl1)" and ms: "messages (db (cl_storage cl1)) = messages (db ?st) @ [m]"
    and m: "m_text m = Some b" "m_sender_recipient_id m = Some i" "m_server_timestamp m = n" "m_is_outbound m"
    using handle_plain[OF assms(1-4,6), of env "Some sent" md n] assms(9,10) by auto
  have sent: "process_envelope env (SyncContent \<lparr> sy_read = [], sy_content = Some (SyncSent sent) \<rparr>) md cl = Inr cl1"
    using run assms(5,7,8) by (simp add: process_envelope_def handle_sync_content_def handle_sent_def)
  have ids: "distinct_keys m_id (messages (db ?st) @ [m])"
    using known1 ms by (simp add: known_def)
  have found: "fetch_message_by_timestamp n (cl_storage cl1) = Some m"
  proof -
    have "first_where (\<lambda>m. m_server_timestamp m = n) (messages (db ?st)) = None"
      using assms(11) by (simp add: first_where_None)
    then show ?thesis
      using m(3) by (simp add: fetch_message_by_timestamp_def ms first_where_append)
  qed
  have byid: "fetch_message_by_id (m_id m) (cl_storage cl1) = Some m"
    using ids by (simp add: fetch_message_by_id_def ms first_where_unique)
  have others: "m_id x \<noteq> m_id m" if "x \<in> set (messages (db ?st))" for x
    using ids that by (simp add: distinct_keys_def) (metis image_eqI)
  let ?st2 = "snd (delete_message (me_allowed env) (m_id m) (cl_storage cl1))"
  have "messages (db ?st2) = update_where (\<lambda>x. m_id x = m_id m) ?f (messages (db ?st) @ [m])"
    using delete_frame(1)[OF byid] by (simp add: ms)
  also have "\<dots> = messages (db ?st) @ [?f m]"
    using others by (simp add: update_where_append update_where_False)
  finally have gone: "messages (db ?st2) = messages (db ?st) @ [?f m]" .
  have "receive_delete env (Some peer) False (Some target) cl1
      = Inr (True, signal (CloseNotification (m_session_id m) (m_id m)) (with_storage ?st2 cl1))" if "r_id peer = i" for peer
    using that found m(2) assms(12) by (simp add: receive_delete_def opt_millis_def millis_to_naive_chrono_def)
  then show ?thesis
    using sent ms m gone by (intro exI[of _ m] exI[of _ cl1]
        exI[of _ "signal (CloseNotification (m_session_id m) (m_id m)) (with_storage ?st2 cl1)"]) simp
qed


definition sent_demo :: sent_message where
  "sent_demo = \<lparr> sn_destination = Some (AciId 8), sn_destination_e164 = None,
     sn_message = Some (blank_data\<lparr>dm_body := Some ''hi''\<rparr>), sn_edit_message = None,
     sn_expiration_start = None, sn_unidentified_status = [] \<rparr>"

definition from_own_device :: metadata where
  "from_own_device = from_peer\<lparr>md_sender := AciId 7\<rparr>"

lemma client_demo_ok:
  "known 2 8 (cl_storage client_demo)" "foreign_keys_ok (db (cl_storage client_demo))"
  "sessions_wf (db (cl_storage client_demo))"
  unfolding known_def by code_simp+

lemma client_demo_session:
  obtains s where "fetch_session_by_recipient_id 2 (cl_storage client_demo) = Inr (Some s)" "e_id s = 1" "\<not> e_is_muted s"
proof -
  have "case fetch_session_by_recipient_id 2 (cl_storage client_demo) of
      Inr (Some s) \<Rightarrow> e_id s = 1 \<and> \<not> e_is_muted s | _ \<Rightarrow> False"
    by code_simp
  then show thesis
    using that by (auto split: sum.splits option.splits)
qed

theorem linked_message_deleted_by_peer_witness:
  "\<exists>m cl1 cl2. process_envelope env_demo (SyncContent \<lparr> sy_read = [], sy_content = Some (SyncSent sent_demo) \<rparr>)
        from_own_device client_demo = Inr cl1
     \<and> receive_delete env_demo (Some (with_r_id 2 (new_recipient (Some 8) None None))) False (Some 50) cl1 = Inr (True, cl2)
     \<and> messages (db (cl_storage cl2)) = messages (db message_demo) @ [m] \<and> m_is_outbound m \<and> m_text m = None"
proof -
  obtain s where s: "fetch_session_by_recipient_id 2 (cl_storage client_demo) = Inr (Some s)"
    using client_demo_session by metis
  have "plain ''hi'' 50 (blank_data\<lparr>dm_body := Some ''hi''\<rparr>)"
    by (simp add: plain_def blank_data_def)
  moreover have "\<forall>m\<in>set (messages (db (cl_storage client_demo))). m_server_timestamp m \<noteq> 50"
    by code_simp
  ultimately obtain m cl1 cl2 where
    "process_envelope env_demo (SyncContent \<lparr> sy_read = [], sy_content = Some (SyncSent sent_demo) \<rparr>)
        from_own_device client_demo = Inr cl1"
    and "m_is_outbound m"
    and "\<forall>peer. r_id peer = 2 \<longrightarrow> receive_delete env_demo (Some peer) False (Some 50) cl1 = Inr (True, cl2)"
    and "messages (db (cl_storage cl2)) = messages (db (cl_storage client_demo))
          @ [m\<lparr>m_is_remote_deleted := True, m_text := None, m_message_ranges := None\<rparr>]"
    using linked_message_deleted_by_peer[OF client_demo_ok s, of sent_demo "blank_data\<lparr>dm_body := Some ''hi''\<rparr>" "''hi''" 50
        env_demo from_own_device 50 50]
    by (auto simp: sent_demo_def from_own_device_def from_peer_def env_demo_def)
  then show ?thesis
    by (intro exI[of _ "m\<lparr>m_is_remote_deleted := True, m_text := None, m_message_ranges := None\<rparr>"] exI[of _ cl1] exI[of _ cl2])
      (simp add: client_demo_def)
qed

text \<open>
  C39. A message that stops the client.  Flags of 2 to the 31 or more, or a sticker
  without an emoji, make the handler of a message from a known sender panic; so does an edit
  without a message, without a time, or with a time that no date can hold.
\<close>

definition panics :: "client res \<Rightarrow> bool" where
  "panics r = (case r of Inl (Panic _) \<Rightarrow> True | _ \<Rightarrow> False)"

theorem malformed_messages_panic:
  assumes "known i u (cl_storage cl)" and "foreign_keys_ok (db (cl_storage cl))" and "md_sender md = AciId u"
    and "dm_flags msg \<ge> 2 ^ 31
         \<or> (dm_flags msg = 0 \<and> dm_profile_key msg = None \<and> dm_reaction msg = None \<and> dm_sticker_emoji msg = Some None)"
    and "em_data_message edit = None \<or> em_target_sent_timestamp edit = None
         \<or> Option.bind (em_target_sent_timestamp edit) (me_naive env) = None"
  shows "panics (process_envelope env (DataContent msg) md cl)
         \<and> panics (process_envelope env (EditContent edit) md cl)"
proof
  let ?st = "cl_storage cl"
  obtain self where self: "fetch_self_recipient ?st = Inr (Some self, ?st)"
    using fetch_self_known[OF assms(1)] assms(1) by (auto simp: known_def)
  obtain r where m: "merge_and_fetch_recipient None (Some u) None Certain ?st = Inr (r, ?st)"
    using merge_known_total[OF assms(1,2)] by metis
  note start = self m assms(3) process_envelope_def handle_message_def message_sender_def aci_of_def pni_of_def flags_i32_def
  show "panics (process_envelope env (DataContent msg) md cl)"
    using assms(4) by (auto simp: start receive_profile_key_def kind_of_def panics_def)
  show "panics (process_envelope env (EditContent edit) md cl)"
    using assms(5)
    by (cases "em_data_message edit"; cases "em_target_sent_timestamp edit")
      (simp_all add: process_envelope_def millis_to_naive_chrono_def panics_def)
qed

theorem malformed_messages_panic_witness:
  "panics (process_envelope env_demo (DataContent (blank_data\<lparr>dm_sticker_emoji := Some None\<rparr>)) from_peer client_demo)
   \<and> panics (process_envelope env_demo
        (EditContent \<lparr> em_data_message = Some blank_data, em_target_sent_timestamp = Some 1000 \<rparr>) from_peer client_demo)"
  using malformed_messages_panic[OF client_demo_ok(1,2), of from_peer "blank_data\<lparr>dm_sticker_emoji := Some None\<rparr>"
      "\<lparr> em_data_message = Some blank_data, em_target_sent_timestamp = Some 1000 \<rparr>" env_demo]
  by (simp add: from_peer_def blank_data_def env_demo_def)

text \<open>
  C38. One's own reactions are lost.  When a linked device reports a reaction of one's own in a
  conversation with a peer, the store records it for the peer: no reaction of anybody else is
  added, changed or removed.
\<close>

theorem own_reaction_misattributed:
  assumes "known i u (cl_storage cl)" and "sn_message sent = Some msg" and "dm_flags msg = 0"
    and "dm_reaction msg = Some r" and "sn_destination sent = Some (AciId u)" and "sn_destination_e164 sent = None"
    and "process_envelope env (SyncContent \<lparr> sy_read = [], sy_content = Some (SyncSent sent) \<rparr>) md cl = Inr cl'"
  shows "filter (\<lambda>x. x_author x \<noteq> i) (reactions (db (cl_storage cl')))
         = filter (\<lambda>x. x_author x \<noteq> i) (reactions (db (cl_storage cl)))"
proof -
  let ?st = "cl_storage cl"
  obtain v where run: "handle_message env None (Some (AciId u)) msg (Some sent) md None cl = Inr (v, cl')"
    using assms(2,5-7) by (auto simp: process_envelope_def handle_sync_content_def handle_sent_def rbind_eq_Inr)
  obtain self sender st1 cl1 ty alt v1 cl2 so cl3 where
    sender: "message_sender None (Some (AciId u)) ?st = Inr (sender, st1)"
    and key: "receive_profile_key None (Some (AciId u)) msg (Some sent \<noteq> None) (with_storage st1 cl) = Inr cl1"
    and kind: "kind_of env sender self (Some sent \<noteq> None) msg cl1 = Inr ((ty, alt), v1, cl2)"
    and session: "message_session env None (Some (AciId u)) msg sender (Some sent \<noteq> None) ty cl2 = Inr (so, cl3)"
    and rest: "cl' = cl3
         \<or> (\<exists>ty' body s. insert_received env (Some (AciId u)) msg (Some sent) md None sender self ty' body s cl3 = Inr cl')"
    by (rule handle_message_steps[OF assms(1) run])
  obtain peer where peer: "sender = Some peer" "r_id peer = i" and "st1 = ?st"
    using message_sender_known[OF assms(1) sender] by auto
  then have "cl_storage cl1 = ?st"
    using key by (auto simp: receive_profile_key_def split: option.splits)
  moreover have "receive_reaction env peer msg r cl1 = Inr (v1, cl2)"
    using kind assms(3,4) peer(1) by (auto simp: kind_of_def rbind_eq_Inr)
  ultimately have "others_same i ?st (cl_storage cl2)" "known i u (cl_storage cl2)"
    using receive_reaction_others receive_reaction_known peer(2) assms(1) by (metis same_for_def)+
  then show ?thesis
    using message_session_reactions[OF _ session] rest insert_received_reactions by (auto simp: others_same_def)
qed

definition reacted_demo_message :: data_message where
  "reacted_demo_message = blank_data\<lparr>dm_reaction := Some \<lparr> rm_target_sent_timestamp = Some 10,
     rm_target_author = Some 8, rm_remove = False, rm_emoji = Some ''!'' \<rparr>\<rparr>"

definition own_reaction_demo :: client where
  "own_reaction_demo = result_of (process_envelope env_demo
     (SyncContent \<lparr> sy_read = [], sy_content = Some (SyncSent (sent_demo\<lparr>sn_message := Some reacted_demo_message\<rparr>)) \<rparr>)
     from_own_device client_demo)"

definition saved_reaction_demo :: client where
  "saved_reaction_demo =
     (case receive_reaction env_demo (with_r_id 2 (new_recipient (Some 8) None (Some ''+2''))) reacted_demo_message
             (the (dm_reaction reacted_demo_message)) client_demo of
        Inr (True, cl) \<Rightarrow> cl | _ \<Rightarrow> client_demo)"

theorem own_reaction_misattributed_witness:
  "filter (\<lambda>x. x_author x \<noteq> 2) (reactions (db (cl_storage own_reaction_demo))) = []
   \<and> map x_emoji (filter (\<lambda>x. x_author x = 2) (reactions (db (cl_storage own_reaction_demo)))) = [''!'']"
proof -
  let ?peer = "with_r_id 2 (new_recipient (Some 8) None (Some ''+2''))"
  let ?me = "with_r_id 1 (new_recipient (Some 7) None (Some ''+1''))"
  let ?st = "cl_storage client_demo"
  let ?sent = "sent_demo\<lparr>sn_message := Some reacted_demo_message\<rparr>"
  let ?body = "SyncContent \<lparr> sy_read = [], sy_content = Some (SyncSent ?sent) \<rparr>"
  have self: "fetch_self_recipient ?st = Inr (Some ?me, ?st)"
    by code_simp
  have sender: "message_sender None (Some (AciId 8)) ?st = Inr (Some ?peer, ?st)"
    by code_simp
  have reaction: "receive_reaction env_demo ?peer reacted_demo_message (the (dm_reaction reacted_demo_message)) client_demo
      = Inr (True, saved_reaction_demo)"
  proof -
    have "case receive_reaction env_demo ?peer reacted_demo_message (the (dm_reaction reacted_demo_message)) client_demo of
        Inr (True, cl) \<Rightarrow> True | _ \<Rightarrow> False"
      by code_simp
    then show ?thesis
      by (auto simp: saved_reaction_demo_def split: sum.splits bool.splits)
  qed
  obtain s cl where session: "direct_session None (Some (AciId 8)) reacted_demo_message saved_reaction_demo = Inr (s, cl)"
    and saved: "map x_emoji (filter (\<lambda>x. x_author x = 2) (reactions (db (cl_storage cl)))) = [''!'']"
  proof -
    have "case direct_session None (Some (AciId 8)) reacted_demo_message saved_reaction_demo of
        Inl _ \<Rightarrow> False
      | Inr (_, cl) \<Rightarrow> map x_emoji (filter (\<lambda>x. x_author x = 2) (reactions (db (cl_storage cl)))) = [''!'']"
      by code_simp
    then show thesis
      using that by (auto split: sum.splits)
  qed
  have "handle_message env_demo None (Some (AciId 8)) reacted_demo_message (Some ?sent) from_own_device None client_demo
      = Inr (True, cl)"
    using session reaction
    by (simp add: handle_message_def self sender flags_i32_def kind_of_def message_session_def receive_profile_key_def
        reacted_demo_message_def blank_data_def)
  then have run: "process_envelope env_demo ?body from_own_device client_demo = Inr cl"
    by (simp add: process_envelope_def handle_sync_content_def handle_sent_def sent_demo_def)
  then have demo: "own_reaction_demo = cl"
    by (simp add: own_reaction_demo_def result_of_def)
  have "dm_flags reacted_demo_message = 0" "\<exists>r. dm_reaction reacted_demo_message = Some r"
    by (simp_all add: reacted_demo_message_def blank_data_def)
  then have "filter (\<lambda>x. x_author x \<noteq> 2) (reactions (db (cl_storage cl)))
      = filter (\<lambda>x. x_author x \<noteq> 2) (reactions (db ?st))"
    using own_reaction_misattributed[OF client_demo_ok(1) _ _ _ _ _ run] by (auto simp: sent_demo_def)
  moreover have "reactions (db ?st) = []"
    by code_simp
  ultimately show ?thesis
    using saved by (simp add: demo)
qed

end
