(* ===== verification/TypingView.thy ===== *)
theory TypingView
  imports ClientMessages "HOL-Library.AList"
begin

text \<open>
  Who is typing (\<open>whisperfish/src/model/typing.rs\<close>): the model of one conversation, which keeps the
  names with the time they expire at, and the sweeps it sends to itself.

  The entries are an association list, of which only the pairs of key and value matter.  Times are
  milliseconds of the monotonic clock, but for the time a sender states and \<open>now_utc\<close>, which are of the
  wall clock.  \<open>do_send\<close> and \<open>notify_later\<close> are the list of times at which a sweep is to be handled,
  and the handler of a sweep that is due may run at any moment from then on.
\<close>

definition typing_expiry :: int where
  "typing_expiry = 5000"

datatype typing_event = TypingStarted timestamp | TypingStopped

definition e164_or_address :: "(uuid \<Rightarrow> string) \<Rightarrow> recipient \<Rightarrow> string res" where
  "e164_or_address uuid_text r =
     (case (r_e164 r, r_uuid r, r_pni r) of
        (Some e, _, _) \<Rightarrow> Inr e
      | (None, Some u, _) \<Rightarrow> Inr (uuid_text u)
      | (None, None, Some p) \<Rightarrow> Inr (''PNI:'' @ uuid_text p)
      | (None, None, None) \<Rightarrow> Inl (Panic ''either e164, aci or pni''))"

definition typer_display_name :: "(uuid \<Rightarrow> string) \<Rightarrow> recipient \<Rightarrow> string res" where
  "typer_display_name uuid_text r =
     (case r_username r of
        Some n \<Rightarrow> Inr n
      | None \<Rightarrow> (case r_profile_given_name r of Some n \<Rightarrow> Inr n | None \<Rightarrow> e164_or_address uuid_text r))"

record typing_model =
  ty_session_id :: int
  ty_state :: "(int \<times> string \<times> int) list"
  ty_armed :: "int option"

definition typing_names :: "typing_model \<Rightarrow> string list" where
  "typing_names m = map (\<lambda>(_, name, _). name) (ty_state m)"

text \<open>Whether the names have changed, and the model.\<close>

definition set_session_id :: "int \<Rightarrow> typing_model \<Rightarrow> bool \<times> typing_model" where
  "set_session_id sid m =
     (if ty_session_id m = sid then (False, m)
      else (ty_state m \<noteq> [], m\<lparr>ty_session_id := sid, ty_state := [], ty_armed := None\<rparr>))"

definition insert_typer :: "int \<Rightarrow> string \<Rightarrow> int \<Rightarrow> typing_model \<Rightarrow> bool \<times> typing_model" where
  "insert_typer rid name until m =
     (map_option fst (map_of (ty_state m) rid) \<noteq> Some name,
      m\<lparr>ty_state := AList.update rid (name, until) (ty_state m)\<rparr>)"

definition sweep_expired :: "int \<Rightarrow> typing_model \<Rightarrow> bool \<times> typing_model" where
  "sweep_expired time m =
     (let kept = filter (\<lambda>(_, _, until). until > time) (ty_state m)
      in (length kept \<noteq> length (ty_state m), m\<lparr>ty_state := kept\<rparr>))"

definition earliest_expiry :: "typing_model \<Rightarrow> int option" where
  "earliest_expiry m =
     (case map (\<lambda>(_, _, until). until) (ty_state m) of [] \<Rightarrow> None | e # es \<Rightarrow> Some (fold min es e))"

text \<open>Whether a sweep is sent at once.\<close>

definition maybe_rearm :: "typing_model \<Rightarrow> bool \<times> typing_model" where
  "maybe_rearm m =
     (case (earliest_expiry m, ty_armed m) of
        (Some _, None) \<Rightarrow> (True, m)
      | (Some e, Some a) \<Rightarrow> (e < a, m)
      | (None, _) \<Rightarrow> (False, m\<lparr>ty_armed := None\<rparr>))"

text \<open>
  The events of the conversation: whether the names have changed, whether a sweep is sent at once,
  and the model.
\<close>

definition observe_typing ::
  "(uuid \<Rightarrow> string) \<Rightarrow> timestamp \<Rightarrow> int \<Rightarrow> storage \<Rightarrow> primary_key \<Rightarrow> typing_event option \<Rightarrow> typing_model \<Rightarrow>
     (bool \<times> bool \<times> typing_model) res" where
  "observe_typing uuid_text now_utc now_instant st key payload m =
     (case (Observer.as_i32 key, payload) of
        (Some rid, Some (TypingStarted sent_at)) \<Rightarrow>
          (let expiry = sent_at + typing_expiry in
           if expiry \<le> now_utc then Inr (False, False, m)
           else
             rbind (case fetch_recipient_by_id rid st of None \<Rightarrow> Inr [] | Some r \<Rightarrow> typer_display_name uuid_text r) (\<lambda>name.
             let (changed, m1) = insert_typer rid name (now_instant + (expiry - now_utc)) m;
                 (sweep, m2) = maybe_rearm m1
             in Inr (changed, sweep, m2)))
      | (Some rid, Some TypingStopped) \<Rightarrow>
          (let changed = (map_of (ty_state m) rid \<noteq> None);
               m1 = m\<lparr>ty_state := AList.delete rid (ty_state m)\<rparr>;
               (sweep, m2) = (if changed then maybe_rearm m1 else (False, m1))
           in Inr (changed, sweep, m2))
      | _ \<Rightarrow> Inr (False, False, m))"

definition typing_interests :: "typing_model \<Rightarrow> interest list" where
  "typing_interests m =
     (if ty_session_id m \<ge> 0
      then [whole_table_with_relation (ProcessSubject ''TypingEvent'') SubSessions (RowId (ty_session_id m))] else [])"

text \<open>The handler of a sweep: whether the names have changed, and the sweep sent to itself.\<close>

definition typing_sweep :: "int \<Rightarrow> typing_model \<Rightarrow> bool \<times> int option \<times> typing_model" where
  "typing_sweep time m =
     (let (changed, m1) = sweep_expired time m in
      case earliest_expiry m1 of
        Some e \<Rightarrow> if ty_armed m1 \<noteq> Some e then (changed, Some (max e time), m1\<lparr>ty_armed := Some e\<rparr>) else (changed, None, m1)
      | None \<Rightarrow> (changed, None, if ty_armed m1 \<noteq> None then m1\<lparr>ty_armed := None\<rparr> else m1))"

section \<open>The model in time\<close>

record typing_world =
  tw_model :: typing_model
  tw_pending :: "int list"
  tw_now :: int

definition new_typing_world :: "int \<Rightarrow> typing_world" where
  "new_typing_world time =
     \<lparr> tw_model = \<lparr> ty_session_id = 0, ty_state = [], ty_armed = None \<rparr>, tw_pending = [], tw_now = time \<rparr>"

inductive typing_step :: "typing_world \<Rightarrow> typing_world \<Rightarrow> bool" where
  tw_event: "observe_typing uuid_text now_utc (tw_now w) st key payload (tw_model w) = Inr (changed, sweep, m) \<Longrightarrow>
    typing_step w (w\<lparr>tw_model := m, tw_pending := (if sweep then [tw_now w] else []) @ tw_pending w\<rparr>)"
| tw_sweep: "t \<in> set (tw_pending w) \<Longrightarrow> t \<le> tw_now w \<Longrightarrow> typing_sweep (tw_now w) (tw_model w) = (changed, later, m) \<Longrightarrow>
    typing_step w (w\<lparr>tw_model := m,
      tw_pending := (case later of None \<Rightarrow> [] | Some e \<Rightarrow> [e]) @ remove1 t (tw_pending w)\<rparr>)"
| tw_session: "set_session_id sid (tw_model w) = (changed, m) \<Longrightarrow> typing_step w (w\<lparr>tw_model := m\<rparr>)"
| tw_tick: "time \<ge> tw_now w \<Longrightarrow> typing_step w (w\<lparr>tw_now := time\<rparr>)"

lemmas typing_steps = tw_event tw_sweep tw_session tw_tick

end
