(* ===== verification/TypingProps.thy ===== *)
theory TypingProps
  imports TypingView ClientMessageProps
begin

text \<open>
  Nobody is shown typing for longer than announced, and the events reach the conversation they are
  about.
\<close>

lemma earliest_None: "earliest_expiry m = None \<longleftrightarrow> ty_state m = []"
  by (auto simp: earliest_expiry_def split: list.split)

lemma fold_min_le: "fold min es (e::int) \<le> e \<and> (\<forall>x\<in>set es. fold min es e \<le> x) \<and> fold min es e \<in> insert e (set es)"
proof (induction es arbitrary: e)
  case (Cons a es)
  from Cons.IH[of "min a e"] show ?case
    by (auto simp: min_def split: if_splits)
qed simp

lemma earliest_Some:
  assumes "earliest_expiry m = Some e"
  shows "(\<forall>p\<in>set (ty_state m). e \<le> snd (snd p)) \<and> (\<exists>p\<in>set (ty_state m). snd (snd p) = e)"
proof -
  obtain p ps where p: "ty_state m = p # ps"
    using assms by (cases "ty_state m") (auto simp: earliest_expiry_def)
  have e: "e = fold min (map (\<lambda>(_, _, until). until) ps) (snd (snd p))"
    using assms by (auto simp: earliest_expiry_def p split: prod.splits)
  have "e \<le> snd (snd p) \<and> (\<forall>x\<in>set ps. e \<le> snd (snd x)) \<and> (e = snd (snd p) \<or> e \<in> (\<lambda>q. snd (snd q)) ` set ps)"
    using fold_min_le[of "map (\<lambda>(_, _, until). until) ps" "snd (snd p)"] unfolding e by (simp add: split_beta)
  then show ?thesis
    unfolding p by auto
qed

text \<open>While anybody is shown, a sweep is due or one is armed for the first to expire.\<close>

definition swept_in_time :: "typing_world \<Rightarrow> bool" where
  "swept_in_time w \<longleftrightarrow>
     (ty_state (tw_model w) = [] \<longrightarrow> ty_armed (tw_model w) = None)
     \<and> (\<forall>a. ty_armed (tw_model w) = Some a \<longrightarrow> a \<in> set (tw_pending w))
     \<and> (ty_state (tw_model w) \<noteq> [] \<longrightarrow> (\<exists>t\<in>set (tw_pending w). t \<le> tw_now w)
          \<or> (\<exists>a. ty_armed (tw_model w) = Some a \<and> (\<forall>p\<in>set (ty_state (tw_model w)). a \<le> snd (snd p))))"

lemma maybe_rearm_swept:
  assumes "maybe_rearm m = (sweep, m')" and "\<And>a. ty_armed m = Some a \<Longrightarrow> a \<in> set (tw_pending w)"
  shows "swept_in_time (w\<lparr>tw_model := m', tw_pending := (if sweep then [tw_now w] else []) @ tw_pending w\<rparr>)"
proof (cases "earliest_expiry m")
  case None
  then show ?thesis
    using assms(1) earliest_None[of m] by (auto simp: maybe_rearm_def swept_in_time_def)
next
  case (Some e)
  then have ne: "ty_state m \<noteq> []"
    using earliest_None[of m] by auto
  show ?thesis
  proof (cases "ty_armed m")
    case None
    then show ?thesis
      using Some assms ne by (auto simp: maybe_rearm_def swept_in_time_def)
  next
    case (Some a)
    then show ?thesis
      using \<open>earliest_expiry m = Some e\<close> assms ne earliest_Some[of m e]
      by (fastforce simp: maybe_rearm_def swept_in_time_def)
  qed
qed

lemma observe_typing_cases:
  assumes "observe_typing uuid_text now_utc time st key payload m0 = Inr (changed, sweep, m)"
  shows "m = m0 \<and> \<not> sweep \<or> (\<exists>m1. maybe_rearm m1 = (sweep, m) \<and> ty_armed m1 = ty_armed m0)"
proof (cases "Observer.as_i32 key")
  case None
  then show ?thesis using assms by (simp add: observe_typing_def)
next
  case rid: (Some rid)
  consider (none) "payload = None" | (started) at where "payload = Some (TypingStarted at)"
    | (stopped) "payload = Some TypingStopped"
    by (metis option.exhaust typing_event.exhaust)
  then show ?thesis
  proof cases
    case none
    then show ?thesis using assms rid by (simp add: observe_typing_def)
  next
    case (started at)
    show ?thesis
    proof (cases "at + typing_expiry \<le> now_utc")
      case False
      then obtain name where "maybe_rearm (snd (insert_typer rid name (time + (at + typing_expiry - now_utc)) m0)) = (sweep, m)"
        using assms rid started by (auto simp: observe_typing_def Let_def rbind_eq_Inr split_beta)
      then show ?thesis
        by (intro disjI2 exI conjI) (assumption, simp add: insert_typer_def)
    qed (use assms rid started in \<open>simp add: observe_typing_def\<close>)
  next
    case stopped
    let ?m1 = "m0\<lparr>ty_state := AList.delete rid (ty_state m0)\<rparr>"
    show ?thesis
    proof (cases "map_of (ty_state m0) rid")
      case None
      then have "?m1 = m0"
        by (simp add: map_of_eq_None_iff)
      then show ?thesis
        using None assms rid stopped by (simp add: observe_typing_def Let_def)
    next
      case (Some p)
      then have "maybe_rearm ?m1 = (sweep, m)"
        using assms rid stopped by (auto simp: observe_typing_def Let_def split: prod.splits)
      then show ?thesis
        by (intro disjI2 exI conjI) (assumption, simp)
    qed
  qed
qed

lemma event_swept:
  assumes w: "swept_in_time w"
    and run: "observe_typing uuid_text now_utc (tw_now w) st key payload (tw_model w) = Inr (changed, sweep, m)"
  shows "swept_in_time (w\<lparr>tw_model := m, tw_pending := (if sweep then [tw_now w] else []) @ tw_pending w\<rparr>)"
  using observe_typing_cases[OF run]
proof
  assume "m = tw_model w \<and> \<not> sweep"
  then show ?thesis using w by simp
next
  assume "\<exists>m1. maybe_rearm m1 = (sweep, m) \<and> ty_armed m1 = ty_armed (tw_model w)"
  then show ?thesis
    using w maybe_rearm_swept by (metis swept_in_time_def)
qed

lemma sweep_swept:
  assumes w: "swept_in_time w" and t: "t \<in> set (tw_pending w)" "t \<le> tw_now w"
    and run: "typing_sweep (tw_now w) (tw_model w) = (changed, later, m)"
  shows "swept_in_time (w\<lparr>tw_model := m,
      tw_pending := (case later of None \<Rightarrow> [] | Some e \<Rightarrow> [e]) @ remove1 t (tw_pending w)\<rparr>)"
proof -
  let ?m = "(tw_model w)\<lparr>ty_state := filter (\<lambda>(_, _, until). until > tw_now w) (ty_state (tw_model w))\<rparr>"
  show ?thesis
  proof (cases "earliest_expiry ?m")
    case None
    then have "ty_state ?m = []"
      using earliest_None[of ?m] by blast
    then show ?thesis
      using run None by (auto simp: typing_sweep_def sweep_expired_def Let_def swept_in_time_def split: if_splits)
  next
    case (Some e)
    have e: "\<forall>p\<in>set (ty_state ?m). e \<le> snd (snd p)" "tw_now w < e" "ty_state ?m \<noteq> []"
      using earliest_Some[OF Some] earliest_None[of ?m] Some by auto
    show ?thesis
    proof (cases "ty_armed (tw_model w) = Some e")
      case True
      then have "later = None" "m = ?m"
        using run Some by (auto simp: typing_sweep_def sweep_expired_def Let_def)
      moreover have "e \<in> set (remove1 t (tw_pending w))"
        using w True t(2) e(2) by (auto simp: swept_in_time_def)
      ultimately show ?thesis
        using True e by (auto simp: swept_in_time_def)
    next
      case False
      then have "later = Some e" "m = ?m\<lparr>ty_armed := Some e\<rparr>"
        using run Some e(2) by (auto simp: typing_sweep_def sweep_expired_def Let_def)
      then show ?thesis
        using e by (auto simp: swept_in_time_def)
    qed
  qed
qed

lemma typing_step_swept: "typing_step w w' \<Longrightarrow> swept_in_time w \<Longrightarrow> swept_in_time w'"
proof (induction rule: typing_step.induct)
  case (tw_event uuid_text now_utc w st key payload changed sweep m)
  then show ?case by (rule event_swept[rotated])
next
  case (tw_sweep t w changed later m)
  then show ?case using sweep_swept by blast
next
  case (tw_session sid w changed m)
  then show ?case by (auto simp: set_session_id_def swept_in_time_def split: if_splits)
next
  case (tw_tick w time)
  then show ?case by (fastforce simp: swept_in_time_def)
qed

text \<open>
  C16. Typing ends.  Whatever typing events come, whenever the conversation is changed and however
  late the sweeps run: once every sweep that is due has run, each name on screen expires in the
  future, and a sweep is waiting that comes no later than the first of them.
\<close>

theorem typing_names_expire:
  assumes "typing_step\<^sup>*\<^sup>* (new_typing_world time) w" and "\<forall>t\<in>set (tw_pending w). tw_now w < t"
  shows "\<forall>(rid, name, until)\<in>set (ty_state (tw_model w)).
           tw_now w < until \<and> (\<exists>t\<in>set (tw_pending w). t \<le> until)"
proof -
  have "swept_in_time w"
    using assms(1)
  proof (induction rule: rtranclp_induct)
    case base
    then show ?case by (simp add: swept_in_time_def new_typing_world_def)
  qed (rule typing_step_swept)
  then show ?thesis
    using assms(2) by (fastforce simp: swept_in_time_def)
qed

text \<open>A peer starts typing, and the sweep sent at once has armed the one in five seconds.\<close>

definition typing_demo :: typing_world where
  "typing_demo = \<lparr> tw_model = \<lparr> ty_session_id = 0, ty_state = [(2, ''+2'', 5000)], ty_armed = Some 5000 \<rparr>,
     tw_pending = [5000], tw_now = 0 \<rparr>"

lemma typing_demo_reached: "typing_step\<^sup>*\<^sup>* (new_typing_world 0) typing_demo"
proof -
  let ?m = "\<lparr> ty_session_id = 0, ty_state = [(2, ''+2'', 5000)], ty_armed = None \<rparr>"
  let ?w = "(new_typing_world 0)\<lparr>tw_model := ?m, tw_pending := (if True then [0] else []) @ []\<rparr>"
  have "observe_typing (\<lambda>u. []) 0 0 message_demo (RowId 2) (Some (TypingStarted 0)) (tw_model (new_typing_world 0))
      = Inr (True, True, ?m)"
    by code_simp
  then have "typing_step (new_typing_world 0) ?w"
    using tw_event[of "\<lambda>u. []" 0 "new_typing_world 0" message_demo "RowId 2" "Some (TypingStarted 0)" True True ?m]
    by (simp add: new_typing_world_def)
  moreover have "typing_step ?w typing_demo"
  proof -
    have "typing_sweep 0 ?m = (False, Some 5000, ?m\<lparr>ty_armed := Some 5000\<rparr>)"
      by code_simp
    then show ?thesis
      using tw_sweep[of 0 ?w False "Some 5000" "?m\<lparr>ty_armed := Some 5000\<rparr>"]
      by (simp add: new_typing_world_def typing_demo_def)
  qed
  ultimately show ?thesis
    by auto
qed

theorem typing_names_expire_witness:
  "typing_names (tw_model typing_demo) = [''+2''] \<and> tw_now typing_demo < 5000"
proof -
  have "\<forall>t\<in>set (tw_pending typing_demo). tw_now typing_demo < t"
    by (simp add: typing_demo_def)
  then have "\<forall>(rid, name, until)\<in>set (ty_state (tw_model typing_demo)). tw_now typing_demo < until"
    using typing_names_expire[OF typing_demo_reached] by blast
  then show ?thesis
    by (simp add: typing_demo_def typing_names_def)
qed

text \<open>
  Typing events reach their conversation.  When a message that somebody has started or stopped
  typing is handled and its conversation is known, one event is sent; the model of this
  conversation asks for it and the model of no other one does.
\<close>

theorem typing_reaches_conversation:
  assumes "fetch_recipient sender st = Some r" and "typing_session env r typing st = Inr (Some s)" and "e_id s \<ge> 0"
    and "handle_typing_message env sender typing st = Inr st'"
  shows "\<exists>ev. events st' = events st @ [ev] \<and> db st' = db st \<and> ev_key ev = RowId (r_id r)
     \<and> (\<forall>m. list_ex (\<lambda>i. is_interesting i ev) (typing_interests m) = (ty_session_id m = e_id s))"
proof -
  obtain v where "st' = emit (process_event ''TypingEvent'' v (RowId (r_id r))
      [\<lparr> rel_subject = SubSessions, rel_key = RowId (e_id s) \<rparr>]) st"
    using assms by (cases "tm_started typing") (auto simp: handle_typing_message_def rbind_eq_Inr Let_def)
  then show ?thesis
    using assms(3) by (auto simp: emit_def process_event_def typing_interests_def whole_table_with_relation_def)
qed

theorem typing_reaches_conversation_witness:
  "\<exists>ev st'. handle_typing_message env_demo (AciId 8) \<lparr> tm_group_id = None, tm_started = False, tm_timestamp = None \<rparr> message_demo
        = Inr st' \<and> events st' = [ev] \<and> ev_key ev = RowId 2"
proof -
  let ?typing = "\<lparr> tm_group_id = None, tm_started = False, tm_timestamp = None \<rparr>"
  let ?r = "with_r_id 2 (new_recipient (Some 8) None (Some ''+2''))"
  have found: "fetch_recipient (AciId 8) message_demo = Some ?r"
    by code_simp
  obtain s where s: "typing_session env_demo ?r ?typing message_demo = Inr (Some s)" "e_id s \<ge> 0"
  proof -
    have "case typing_session env_demo ?r ?typing message_demo of Inr (Some s) \<Rightarrow> e_id s \<ge> 0 | _ \<Rightarrow> False"
      by code_simp
    then show thesis
      using that by (auto split: sum.splits option.splits)
  qed
  obtain st' where run: "handle_typing_message env_demo (AciId 8) ?typing message_demo = Inr st'"
    using found s(1) by (simp add: handle_typing_message_def)
  have "events message_demo = []" "r_id ?r = 2"
    by (simp_all add: message_demo_def)
  then show ?thesis
    using typing_reaches_conversation[OF found s run] run by auto
qed

text \<open>A sender whose clock is ahead, or says so, is shown typing for that much longer.\<close>

lemma typing_from_the_future:
  assumes "Observer.as_i32 key = Some rid" and "d > 0"
    and "observe_typing uuid_text now_utc time st key (Some (TypingStarted (now_utc + d))) m = Inr (changed, sweep, m')"
  shows "\<exists>name. (rid, name, time + d + typing_expiry) \<in> set (ty_state m')"
proof -
  obtain name where "maybe_rearm (snd (insert_typer rid name (time + (d + typing_expiry)) m)) = (sweep, m')"
    using assms by (auto simp: observe_typing_def Let_def rbind_eq_Inr split_beta typing_expiry_def algebra_simps)
  then have "ty_state m' = AList.update rid (name, time + d + typing_expiry) (ty_state m)"
    by (auto simp: maybe_rearm_def insert_typer_def add.assoc split: option.splits)
  moreover have "map_of (AList.update rid (name, time + d + typing_expiry) (ty_state m)) rid = Some (name, time + d + typing_expiry)"
    by (simp add: update_conv)
  ultimately show ?thesis
    by (metis map_of_SomeD)
qed

end
