(* ===== verification/RowDisplay.thy ===== *)
theory RowDisplay
  imports SessionView GroupStore ProtocolStore
begin

text \<open>
  What the rows show of themselves (\<open>store/orm.rs\<close>): the section of a conversation in the list, the
  ticks of its last message; and the remaining lookups of groups and numbers of pre-keys (\<open>store.rs\<close>).

  The calendar is an argument: \<open>weekday\<close> numbers the days from Monday 1 to Sunday 7 and \<open>month\<close> the
  months from 1, both of a time in UTC; \<open>today\<close> is the last midnight of the local time zone.
\<close>

section \<open>Conversations\<close>

text \<open>Durations are truncated to whole seconds, hours and days.\<close>

definition section_of :: "(timestamp \<Rightarrow> nat) \<Rightarrow> (timestamp \<Rightarrow> nat) \<Rightarrow> timestamp \<Rightarrow> timestamp \<Rightarrow> string" where
  "section_of weekday month today t =
     (let diff = today - t in
      if diff < 1000 then ''today''
      else if diff div 3600000 \<le> 24 then ''yesterday''
      else if diff div 86400000 \<le> 7
      then [''d0'', ''d1'', ''d2'', ''d3'', ''d4'', ''d5'', ''d6''] ! (weekday t mod 7)
      else if diff div 86400000 \<le> 365
      then [''m0'', ''m1'', ''m2'', ''m3'', ''m4'', ''m5'', ''m6'', ''m7'', ''m8'', ''m9'', ''m10'', ''m11''] ! (month t - 1)
      else ''older'')"

definition session_section :: "(timestamp \<Rightarrow> nat) \<Rightarrow> (timestamp \<Rightarrow> nat) \<Rightarrow> timestamp \<Rightarrow> augmented_session \<Rightarrow> string" where
  "session_section weekday month today x =
     (if e_is_pinned (as_inner x) then ''pinned''
      else (case as_last_message x of
              None \<Rightarrow> ''never''
            | Some am \<Rightarrow> section_of weekday month today (m_server_timestamp (am_inner am))))"

definition session_delivered :: "augmented_session \<Rightarrow> nat" where
  "session_delivered x = (case as_last_message x of None \<Rightarrow> 0 | Some am \<Rightarrow> rc_delivered (am_receipt_counts am))"

definition session_read :: "augmented_session \<Rightarrow> nat" where
  "session_read x =
     (case as_last_message x of
        None \<Rightarrow> 0
      | Some am \<Rightarrow> if m_message_type (am_inner am) \<noteq> None \<and> m_is_read (am_inner am) then 1
                  else rc_read (am_receipt_counts am))"

definition session_viewed :: "augmented_session \<Rightarrow> nat" where
  "session_viewed x = (case as_last_message x of None \<Rightarrow> 0 | Some am \<Rightarrow> rc_viewed (am_receipt_counts am))"

definition message_sent :: "augmented_message \<Rightarrow> bool" where
  "message_sent am = (m_sent_timestamp (am_inner am) \<noteq> None)"

definition message_queued :: "augmented_message \<Rightarrow> bool" where
  "message_queued am =
     (m_is_outbound (am_inner am) \<and> m_sent_timestamp (am_inner am) = None \<and> \<not> m_sending_has_failed (am_inner am))"

section \<open>Groups and pre-keys\<close>

definition fetch_group_by_group_v1_id :: "string \<Rightarrow> storage \<Rightarrow> group_v1 option" where
  "fetch_group_by_group_v1_id i st = first_where (\<lambda>g. g1_id g = i) (group_v1s (db st))"

definition fetch_group_by_group_v2_id :: "string \<Rightarrow> storage \<Rightarrow> group_v2 option" where
  "fetch_group_by_group_v2_id i st = first_where (\<lambda>g. g2_id g = i) (group_v2s (db st))"

definition fetch_group_members_by_group_v1_id :: "string \<Rightarrow> storage \<Rightarrow> (group_v1_member \<times> recipient) list" where
  "fetch_group_members_by_group_v1_id gid st =
     List.map_filter (\<lambda>m. map_option (Pair m) (fetch_recipient_by_id (gm1_recipient_id m) st))
       (filter (\<lambda>m. gm1_group_v1_id m = gid) (group_v1_members (db st)))"

definition get_prekey_counts :: "protocol_store \<Rightarrow> nat \<times> nat" where
  "get_prekey_counts ps =
     (count_where (\<lambda>k. pk_identity k = Aci) (prekeys ps), count_where (\<lambda>k. pk_identity k = Pni) (prekeys ps))"

definition get_kyber_prekey_counts :: "protocol_store \<Rightarrow> nat \<times> nat" where
  "get_kyber_prekey_counts ps =
     (count_where (\<lambda>k. kp_identity k = Aci) (kyber_prekeys ps),
      count_where (\<lambda>k. kp_identity k = Pni \<and> \<not> kp_is_last_resort k) (kyber_prekeys ps))"

section \<open>Facts\<close>

text \<open>Later messages come in the same kind of section or an earlier one of the list.\<close>

definition section_rank :: "timestamp \<Rightarrow> timestamp \<Rightarrow> nat" where
  "section_rank today t =
     (if today - t < 1000 then 0 else if (today - t) div 3600000 \<le> 24 then 1
      else if (today - t) div 86400000 \<le> 7 then 2 else if (today - t) div 86400000 \<le> 365 then 3 else 4)"

lemma section_rank_mono: "t' \<le> t \<Longrightarrow> section_rank today t \<le> section_rank today t'"
proof -
  assume "t' \<le> t"
  then have "(today - t) div 3600000 \<le> (today - t') div 3600000" "(today - t) div 86400000 \<le> (today - t') div 86400000"
    by (intro zdiv_mono1; simp)+
  then show ?thesis
    using \<open>t' \<le> t\<close> by (auto simp: section_rank_def)
qed

text \<open>
  The hours are truncated, so the last hour of the day before yesterday counts as yesterday; and a
  month of the last year is labelled like the same month of this year.
\<close>

lemma hour_before_yesterday:
  assumes "24 * 3600000 < today - t" and "today - t < 25 * 3600000"
  shows "section_of weekday month today t = ''yesterday''"
proof -
  have "(today - t) div 3600000 \<le> 24"
    using assms zdiv_mono1[of "today - t" "25 * 3600000 - 1" 3600000] by simp
  then show ?thesis
    using assms by (simp add: section_of_def Let_def)
qed

lemma section_of_month:
  assumes "8 \<le> (today - t) div 86400000" and "(today - t) div 86400000 \<le> 365"
  shows "section_of weekday month today t
    = [''m0'', ''m1'', ''m2'', ''m3'', ''m4'', ''m5'', ''m6'', ''m7'', ''m8'', ''m9'', ''m10'', ''m11''] ! (month t - 1)"
proof -
  have "\<not> today - t < 1000" "\<not> (today - t) div 3600000 \<le> 24"
  proof -
    have "(today - t) div 86400000 * 86400000 + (today - t) mod 86400000 = today - t" "0 \<le> (today - t) mod 86400000"
      by simp_all
    then have days: "8 * 86400000 \<le> today - t"
      using assms(1) by linarith
    then show "\<not> today - t < 1000"
      by simp
    show "\<not> (today - t) div 3600000 \<le> 24"
      using zdiv_mono1[OF days, of 3600000] by simp
  qed
  then show ?thesis
    using assms by (simp add: section_of_def Let_def)
qed

lemma same_month_last_year:
  assumes "(today - t) div 86400000 = 10" and "(today - t') div 86400000 = 360" and "month t = month t'"
  shows "section_of weekday month today t = section_of weekday month today t'"
  using assms by (simp add: section_of_month)

lemma kyber_counts_differ:
  "kp_is_last_resort k \<Longrightarrow> kp_identity k = Aci \<Longrightarrow>
     fst (get_kyber_prekey_counts (ps\<lparr>kyber_prekeys := k # kyber_prekeys ps\<rparr>)) = Suc (fst (get_kyber_prekey_counts ps))"
  "kp_is_last_resort k \<Longrightarrow> kp_identity k = Pni \<Longrightarrow>
     snd (get_kyber_prekey_counts (ps\<lparr>kyber_prekeys := k # kyber_prekeys ps\<rparr>)) = snd (get_kyber_prekey_counts ps)"
  by (simp_all add: get_kyber_prekey_counts_def)

end
