(* ===== verification/EmojiPattern.thy ===== *)
theory EmojiPattern
  imports Main
begin

text \<open>
  The pattern that recognises an emoji (\<open>re\<close> in \<open>qml/js/emoji.js\<close>) as a regular expression over
  UTF-16 code units, and its matching: \<open>match_re\<close> gives the texts that remain after a match at
  the start of a text, in the order in which a backtracking matcher tries them, so that the first
  is the match of JavaScript.
\<close>

section \<open>Regular expressions\<close>

datatype regex =
    Lit "nat list"
  | Class "(nat \<times> nat) list"
  | Seq "regex list"
  | Alt "regex list"
  | Opt regex
  | Not_ahead regex

fun match_class :: "(nat \<times> nat) list \<Rightarrow> nat list \<Rightarrow> nat list list" where
  "match_class ranges [] = []"
| "match_class ranges (c # cs) = (if list_ex (\<lambda>(a, b). a \<le> c \<and> c \<le> b) ranges then [cs] else [])"

fun match_re :: "regex \<Rightarrow> nat list \<Rightarrow> nat list list" where
  "match_re (Lit us) s = (if take (length us) s = us then [drop (length us) s] else [])"
| "match_re (Class ranges) s = match_class ranges s"
| "match_re (Seq rs) s = fold (\<lambda>r ss. concat (map (match_re r) ss)) rs [s]"
| "match_re (Alt rs) s = concat (map (\<lambda>r. match_re r s) rs)"
| "match_re (Opt r) s = match_re r s @ [s]"
| "match_re (Not_ahead r) s = (if match_re r s = [] then [s] else [])"

section \<open>The pattern\<close>

definition re_sequences_1 :: "regex list" where
  "re_sequences_1 =
     [Seq [Lit [0xd83d, 0xdc68, 0xd83c, 0xdffb, 0x200d, 0x2764, 0xfe0f, 0x200d, 0xd83d, 0xdc8b,
     0x200d, 0xd83d, 0xdc68, 0xd83c], Class [(0xdffb, 0xdfff)]], Seq [Lit [0xd83d, 0xdc68, 0xd83c,
     0xdffc, 0x200d, 0x2764, 0xfe0f, 0x200d, 0xd83d, 0xdc8b, 0x200d, 0xd83d, 0xdc68, 0xd83c], Class
     [(0xdffb, 0xdfff)]], Seq [Lit [0xd83d, 0xdc68, 0xd83c, 0xdffd, 0x200d, 0x2764, 0xfe0f, 0x200d,
     0xd83d, 0xdc8b, 0x200d, 0xd83d, 0xdc68, 0xd83c], Class [(0xdffb, 0xdfff)]], Seq [Lit [0xd83d,
     0xdc68, 0xd83c, 0xdffe, 0x200d, 0x2764, 0xfe0f, 0x200d, 0xd83d, 0xdc8b, 0x200d, 0xd83d,
     0xdc68, 0xd83c], Class [(0xdffb, 0xdfff)]], Seq [Lit [0xd83d, 0xdc68, 0xd83c, 0xdfff, 0x200d,
     0x2764, 0xfe0f, 0x200d, 0xd83d, 0xdc8b, 0x200d, 0xd83d, 0xdc68, 0xd83c], Class [(0xdffb,
     0xdfff)]], Seq [Lit [0xd83d, 0xdc69, 0xd83c, 0xdffb, 0x200d, 0x2764, 0xfe0f, 0x200d, 0xd83d,
     0xdc8b, 0x200d, 0xd83d, 0xdc68, 0xd83c], Class [(0xdffb, 0xdfff)]], Seq [Lit [0xd83d, 0xdc69,
     0xd83c, 0xdffb, 0x200d, 0x2764, 0xfe0f, 0x200d, 0xd83d, 0xdc8b, 0x200d, 0xd83d, 0xdc69,
     0xd83c], Class [(0xdffb, 0xdfff)]], Seq [Lit [0xd83d, 0xdc69, 0xd83c, 0xdffc, 0x200d, 0x2764,
     0xfe0f, 0x200d, 0xd83d, 0xdc8b, 0x200d, 0xd83d, 0xdc68, 0xd83c], Class [(0xdffb, 0xdfff)]],
     Seq [Lit [0xd83d, 0xdc69, 0xd83c, 0xdffc, 0x200d, 0x2764, 0xfe0f, 0x200d, 0xd83d, 0xdc8b,
     0x200d, 0xd83d, 0xdc69, 0xd83c], Class [(0xdffb, 0xdfff)]], Seq [Lit [0xd83d, 0xdc69, 0xd83c,
     0xdffd, 0x200d, 0x2764, 0xfe0f, 0x200d, 0xd83d, 0xdc8b, 0x200d, 0xd83d, 0xdc68, 0xd83c], Class
     [(0xdffb, 0xdfff)]], Seq [Lit [0xd83d, 0xdc69, 0xd83c, 0xdffd, 0x200d, 0x2764, 0xfe0f, 0x200d,
     0xd83d, 0xdc8b, 0x200d, 0xd83d, 0xdc69, 0xd83c], Class [(0xdffb, 0xdfff)]], Seq [Lit [0xd83d,
     0xdc69, 0xd83c, 0xdffe, 0x200d, 0x2764, 0xfe0f, 0x200d, 0xd83d, 0xdc8b, 0x200d, 0xd83d,
     0xdc68, 0xd83c], Class [(0xdffb, 0xdfff)]], Seq [Lit [0xd83d, 0xdc69, 0xd83c, 0xdffe, 0x200d,
     0x2764, 0xfe0f, 0x200d, 0xd83d, 0xdc8b, 0x200d, 0xd83d, 0xdc69, 0xd83c], Class [(0xdffb,
     0xdfff)]], Seq [Lit [0xd83d, 0xdc69, 0xd83c, 0xdfff, 0x200d, 0x2764, 0xfe0f, 0x200d, 0xd83d,
     0xdc8b, 0x200d, 0xd83d, 0xdc68, 0xd83c], Class [(0xdffb, 0xdfff)]], Seq [Lit [0xd83d, 0xdc69,
     0xd83c, 0xdfff, 0x200d, 0x2764, 0xfe0f, 0x200d, 0xd83d, 0xdc8b, 0x200d, 0xd83d, 0xdc69,
     0xd83c], Class [(0xdffb, 0xdfff)]], Seq [Lit [0xd83e, 0xddd1, 0xd83c, 0xdffb, 0x200d, 0x2764,
     0xfe0f, 0x200d, 0xd83d, 0xdc8b, 0x200d, 0xd83e, 0xddd1, 0xd83c], Class [(0xdffc, 0xdfff)]],
     Seq [Lit [0xd83e, 0xddd1, 0xd83c, 0xdffc, 0x200d, 0x2764, 0xfe0f, 0x200d, 0xd83d, 0xdc8b,
     0x200d, 0xd83e, 0xddd1, 0xd83c], Class [(0xdffb, 0xdffb), (0xdffd, 0xdfff)]], Seq [Lit
     [0xd83e, 0xddd1, 0xd83c, 0xdffd, 0x200d, 0x2764, 0xfe0f, 0x200d, 0xd83d, 0xdc8b, 0x200d,
     0xd83e, 0xddd1, 0xd83c], Class [(0xdffb, 0xdffb), (0xdffc, 0xdffc), (0xdffe, 0xdffe), (0xdfff,
     0xdfff)]], Seq [Lit [0xd83e, 0xddd1, 0xd83c, 0xdffe, 0x200d, 0x2764, 0xfe0f, 0x200d, 0xd83d,
     0xdc8b, 0x200d, 0xd83e, 0xddd1, 0xd83c], Class [(0xdffb, 0xdffd), (0xdfff, 0xdfff)]], Seq [Lit
     [0xd83e, 0xddd1, 0xd83c, 0xdfff, 0x200d, 0x2764, 0xfe0f, 0x200d, 0xd83d, 0xdc8b, 0x200d,
     0xd83e, 0xddd1, 0xd83c], Class [(0xdffb, 0xdffe)]], Seq [Lit [0xd83d, 0xdc68, 0xd83c, 0xdffb,
     0x200d, 0x2764, 0xfe0f, 0x200d, 0xd83d, 0xdc68, 0xd83c], Class [(0xdffb, 0xdfff)]], Seq [Lit
     [0xd83d, 0xdc68, 0xd83c, 0xdffb, 0x200d, 0xd83d, 0xdc30, 0x200d, 0xd83d, 0xdc68, 0xd83c],
     Class [(0xdffc, 0xdfff)]], Seq [Lit [0xd83d, 0xdc68, 0xd83c, 0xdffb, 0x200d, 0xd83e, 0xdd1d,
     0x200d, 0xd83d, 0xdc68, 0xd83c], Class [(0xdffc, 0xdfff)]], Seq [Lit [0xd83d, 0xdc68, 0xd83c,
     0xdffb, 0x200d, 0xd83e, 0xdeef, 0x200d, 0xd83d, 0xdc68, 0xd83c], Class [(0xdffc, 0xdfff)]],
     Seq [Lit [0xd83d, 0xdc68, 0xd83c, 0xdffc, 0x200d, 0x2764, 0xfe0f, 0x200d, 0xd83d, 0xdc68,
     0xd83c], Class [(0xdffb, 0xdfff)]], Seq [Lit [0xd83d, 0xdc68, 0xd83c, 0xdffc, 0x200d, 0xd83d,
     0xdc30, 0x200d, 0xd83d, 0xdc68, 0xd83c], Class [(0xdffb, 0xdffb), (0xdffd, 0xdfff)]], Seq [Lit
     [0xd83d, 0xdc68, 0xd83c, 0xdffc, 0x200d, 0xd83e, 0xdd1d, 0x200d, 0xd83d, 0xdc68, 0xd83c],
     Class [(0xdffb, 0xdffb), (0xdffd, 0xdfff)]], Seq [Lit [0xd83d, 0xdc68, 0xd83c, 0xdffc, 0x200d,
     0xd83e, 0xdeef, 0x200d, 0xd83d, 0xdc68, 0xd83c], Class [(0xdffb, 0xdffb), (0xdffd, 0xdfff)]],
     Seq [Lit [0xd83d, 0xdc68, 0xd83c, 0xdffd, 0x200d, 0x2764, 0xfe0f, 0x200d, 0xd83d, 0xdc68,
     0xd83c], Class [(0xdffb, 0xdfff)]], Seq [Lit [0xd83d, 0xdc68, 0xd83c, 0xdffd, 0x200d, 0xd83d,
     0xdc30, 0x200d, 0xd83d, 0xdc68, 0xd83c], Class [(0xdffb, 0xdffb), (0xdffc, 0xdffc), (0xdffe,
     0xdffe), (0xdfff, 0xdfff)]], Seq [Lit [0xd83d, 0xdc68, 0xd83c, 0xdffd, 0x200d, 0xd83e, 0xdd1d,
     0x200d, 0xd83d, 0xdc68, 0xd83c], Class [(0xdffb, 0xdffb), (0xdffc, 0xdffc), (0xdffe, 0xdffe),
     (0xdfff, 0xdfff)]], Seq [Lit [0xd83d, 0xdc68, 0xd83c, 0xdffd, 0x200d, 0xd83e, 0xdeef, 0x200d,
     0xd83d, 0xdc68, 0xd83c], Class [(0xdffb, 0xdffb), (0xdffc, 0xdffc), (0xdffe, 0xdffe), (0xdfff,
     0xdfff)]], Seq [Lit [0xd83d, 0xdc68, 0xd83c, 0xdffe, 0x200d, 0x2764, 0xfe0f, 0x200d, 0xd83d,
     0xdc68, 0xd83c], Class [(0xdffb, 0xdfff)]]]"

definition re_sequences_2 :: "regex list" where
  "re_sequences_2 =
     [Seq [Lit [0xd83d, 0xdc68, 0xd83c, 0xdffe, 0x200d, 0xd83d, 0xdc30, 0x200d, 0xd83d, 0xdc68,
     0xd83c], Class [(0xdffb, 0xdffd), (0xdfff, 0xdfff)]], Seq [Lit [0xd83d, 0xdc68, 0xd83c,
     0xdffe, 0x200d, 0xd83e, 0xdd1d, 0x200d, 0xd83d, 0xdc68, 0xd83c], Class [(0xdffb, 0xdffd),
     (0xdfff, 0xdfff)]], Seq [Lit [0xd83d, 0xdc68, 0xd83c, 0xdffe, 0x200d, 0xd83e, 0xdeef, 0x200d,
     0xd83d, 0xdc68, 0xd83c], Class [(0xdffb, 0xdffd), (0xdfff, 0xdfff)]], Seq [Lit [0xd83d,
     0xdc68, 0xd83c, 0xdfff, 0x200d, 0x2764, 0xfe0f, 0x200d, 0xd83d, 0xdc68, 0xd83c], Class
     [(0xdffb, 0xdfff)]], Seq [Lit [0xd83d, 0xdc68, 0xd83c, 0xdfff, 0x200d, 0xd83d, 0xdc30, 0x200d,
     0xd83d, 0xdc68, 0xd83c], Class [(0xdffb, 0xdffe)]], Seq [Lit [0xd83d, 0xdc68, 0xd83c, 0xdfff,
     0x200d, 0xd83e, 0xdd1d, 0x200d, 0xd83d, 0xdc68, 0xd83c], Class [(0xdffb, 0xdffe)]], Seq [Lit
     [0xd83d, 0xdc68, 0xd83c, 0xdfff, 0x200d, 0xd83e, 0xdeef, 0x200d, 0xd83d, 0xdc68, 0xd83c],
     Class [(0xdffb, 0xdffe)]], Seq [Lit [0xd83d, 0xdc69, 0xd83c, 0xdffb, 0x200d, 0x2764, 0xfe0f,
     0x200d, 0xd83d, 0xdc68, 0xd83c], Class [(0xdffb, 0xdfff)]], Seq [Lit [0xd83d, 0xdc69, 0xd83c,
     0xdffb, 0x200d, 0x2764, 0xfe0f, 0x200d, 0xd83d, 0xdc69, 0xd83c], Class [(0xdffb, 0xdfff)]],
     Seq [Lit [0xd83d, 0xdc69, 0xd83c, 0xdffb, 0x200d, 0xd83d, 0xdc30, 0x200d, 0xd83d, 0xdc69,
     0xd83c], Class [(0xdffc, 0xdfff)]], Seq [Lit [0xd83d, 0xdc69, 0xd83c, 0xdffb, 0x200d, 0xd83e,
     0xdd1d, 0x200d, 0xd83d, 0xdc68, 0xd83c], Class [(0xdffc, 0xdfff)]], Seq [Lit [0xd83d, 0xdc69,
     0xd83c, 0xdffb, 0x200d, 0xd83e, 0xdd1d, 0x200d, 0xd83d, 0xdc69, 0xd83c], Class [(0xdffc,
     0xdfff)]], Seq [Lit [0xd83d, 0xdc69, 0xd83c, 0xdffb, 0x200d, 0xd83e, 0xdeef, 0x200d, 0xd83d,
     0xdc69, 0xd83c], Class [(0xdffc, 0xdfff)]], Seq [Lit [0xd83d, 0xdc69, 0xd83c, 0xdffc, 0x200d,
     0x2764, 0xfe0f, 0x200d, 0xd83d, 0xdc68, 0xd83c], Class [(0xdffb, 0xdfff)]], Seq [Lit [0xd83d,
     0xdc69, 0xd83c, 0xdffc, 0x200d, 0x2764, 0xfe0f, 0x200d, 0xd83d, 0xdc69, 0xd83c], Class
     [(0xdffb, 0xdfff)]], Seq [Lit [0xd83d, 0xdc69, 0xd83c, 0xdffc, 0x200d, 0xd83d, 0xdc30, 0x200d,
     0xd83d, 0xdc69, 0xd83c], Class [(0xdffb, 0xdffb), (0xdffd, 0xdfff)]], Seq [Lit [0xd83d,
     0xdc69, 0xd83c, 0xdffc, 0x200d, 0xd83e, 0xdd1d, 0x200d, 0xd83d, 0xdc68, 0xd83c], Class
     [(0xdffb, 0xdffb), (0xdffd, 0xdfff)]], Seq [Lit [0xd83d, 0xdc69, 0xd83c, 0xdffc, 0x200d,
     0xd83e, 0xdd1d, 0x200d, 0xd83d, 0xdc69, 0xd83c], Class [(0xdffb, 0xdffb), (0xdffd, 0xdfff)]],
     Seq [Lit [0xd83d, 0xdc69, 0xd83c, 0xdffc, 0x200d, 0xd83e, 0xdeef, 0x200d, 0xd83d, 0xdc69,
     0xd83c], Class [(0xdffb, 0xdffb), (0xdffd, 0xdfff)]], Seq [Lit [0xd83d, 0xdc69, 0xd83c,
     0xdffd, 0x200d, 0x2764, 0xfe0f, 0x200d, 0xd83d, 0xdc68, 0xd83c], Class [(0xdffb, 0xdfff)]],
     Seq [Lit [0xd83d, 0xdc69, 0xd83c, 0xdffd, 0x200d, 0x2764, 0xfe0f, 0x200d, 0xd83d, 0xdc69,
     0xd83c], Class [(0xdffb, 0xdfff)]], Seq [Lit [0xd83d, 0xdc69, 0xd83c, 0xdffd, 0x200d, 0xd83d,
     0xdc30, 0x200d, 0xd83d, 0xdc69, 0xd83c], Class [(0xdffb, 0xdffb), (0xdffc, 0xdffc), (0xdffe,
     0xdffe), (0xdfff, 0xdfff)]], Seq [Lit [0xd83d, 0xdc69, 0xd83c, 0xdffd, 0x200d, 0xd83e, 0xdd1d,
     0x200d, 0xd83d, 0xdc68, 0xd83c], Class [(0xdffb, 0xdffb), (0xdffc, 0xdffc), (0xdffe, 0xdffe),
     (0xdfff, 0xdfff)]], Seq [Lit [0xd83d, 0xdc69, 0xd83c, 0xdffd, 0x200d, 0xd83e, 0xdd1d, 0x200d,
     0xd83d, 0xdc69, 0xd83c], Class [(0xdffb, 0xdffb), (0xdffc, 0xdffc), (0xdffe, 0xdffe), (0xdfff,
     0xdfff)]], Seq [Lit [0xd83d, 0xdc69, 0xd83c, 0xdffd, 0x200d, 0xd83e, 0xdeef, 0x200d, 0xd83d,
     0xdc69, 0xd83c], Class [(0xdffb, 0xdffb), (0xdffc, 0xdffc), (0xdffe, 0xdffe), (0xdfff,
     0xdfff)]], Seq [Lit [0xd83d, 0xdc69, 0xd83c, 0xdffe, 0x200d, 0x2764, 0xfe0f, 0x200d, 0xd83d,
     0xdc68, 0xd83c], Class [(0xdffb, 0xdfff)]], Seq [Lit [0xd83d, 0xdc69, 0xd83c, 0xdffe, 0x200d,
     0x2764, 0xfe0f, 0x200d, 0xd83d, 0xdc69, 0xd83c], Class [(0xdffb, 0xdfff)]], Seq [Lit [0xd83d,
     0xdc69, 0xd83c, 0xdffe, 0x200d, 0xd83d, 0xdc30, 0x200d, 0xd83d, 0xdc69, 0xd83c], Class
     [(0xdffb, 0xdffd), (0xdfff, 0xdfff)]], Seq [Lit [0xd83d, 0xdc69, 0xd83c, 0xdffe, 0x200d,
     0xd83e, 0xdd1d, 0x200d, 0xd83d, 0xdc68, 0xd83c], Class [(0xdffb, 0xdffd), (0xdfff, 0xdfff)]],
     Seq [Lit [0xd83d, 0xdc69, 0xd83c, 0xdffe, 0x200d, 0xd83e, 0xdd1d, 0x200d, 0xd83d, 0xdc69,
     0xd83c], Class [(0xdffb, 0xdffd), (0xdfff, 0xdfff)]], Seq [Lit [0xd83d, 0xdc69, 0xd83c,
     0xdffe, 0x200d, 0xd83e, 0xdeef, 0x200d, 0xd83d, 0xdc69, 0xd83c], Class [(0xdffb, 0xdffd),
     (0xdfff, 0xdfff)]], Seq [Lit [0xd83d, 0xdc69, 0xd83c, 0xdfff, 0x200d, 0x2764, 0xfe0f, 0x200d,
     0xd83d, 0xdc68, 0xd83c], Class [(0xdffb, 0xdfff)]], Seq [Lit [0xd83d, 0xdc69, 0xd83c, 0xdfff,
     0x200d, 0x2764, 0xfe0f, 0x200d, 0xd83d, 0xdc69, 0xd83c], Class [(0xdffb, 0xdfff)]], Seq [Lit
     [0xd83d, 0xdc69, 0xd83c, 0xdfff, 0x200d, 0xd83d, 0xdc30, 0x200d, 0xd83d, 0xdc69, 0xd83c],
     Class [(0xdffb, 0xdffe)]], Seq [Lit [0xd83d, 0xdc69, 0xd83c, 0xdfff, 0x200d, 0xd83e, 0xdd1d,
     0x200d, 0xd83d, 0xdc68, 0xd83c], Class [(0xdffb, 0xdffe)]], Seq [Lit [0xd83d, 0xdc69, 0xd83c,
     0xdfff, 0x200d, 0xd83e, 0xdd1d, 0x200d, 0xd83d, 0xdc69, 0xd83c], Class [(0xdffb, 0xdffe)]]]"

definition re_sequences_3 :: "regex list" where
  "re_sequences_3 =
     [Seq [Lit [0xd83d, 0xdc69, 0xd83c, 0xdfff, 0x200d, 0xd83e, 0xdeef, 0x200d, 0xd83d, 0xdc69,
     0xd83c], Class [(0xdffb, 0xdffe)]], Seq [Lit [0xd83e, 0xddd1, 0xd83c, 0xdffb, 0x200d, 0x2764,
     0xfe0f, 0x200d, 0xd83e, 0xddd1, 0xd83c], Class [(0xdffc, 0xdfff)]], Seq [Lit [0xd83e, 0xddd1,
     0xd83c, 0xdffb, 0x200d, 0xd83d, 0xdc30, 0x200d, 0xd83e, 0xddd1, 0xd83c], Class [(0xdffc,
     0xdfff)]], Seq [Lit [0xd83e, 0xddd1, 0xd83c, 0xdffb, 0x200d, 0xd83e, 0xdd1d, 0x200d, 0xd83e,
     0xddd1, 0xd83c], Class [(0xdffb, 0xdfff)]], Seq [Lit [0xd83e, 0xddd1, 0xd83c, 0xdffb, 0x200d,
     0xd83e, 0xdeef, 0x200d, 0xd83e, 0xddd1, 0xd83c], Class [(0xdffc, 0xdfff)]], Seq [Lit [0xd83e,
     0xddd1, 0xd83c, 0xdffc, 0x200d, 0x2764, 0xfe0f, 0x200d, 0xd83e, 0xddd1, 0xd83c], Class
     [(0xdffb, 0xdffb), (0xdffd, 0xdfff)]], Seq [Lit [0xd83e, 0xddd1, 0xd83c, 0xdffc, 0x200d,
     0xd83d, 0xdc30, 0x200d, 0xd83e, 0xddd1, 0xd83c], Class [(0xdffb, 0xdffb), (0xdffd, 0xdfff)]],
     Seq [Lit [0xd83e, 0xddd1, 0xd83c, 0xdffc, 0x200d, 0xd83e, 0xdd1d, 0x200d, 0xd83e, 0xddd1,
     0xd83c], Class [(0xdffb, 0xdfff)]], Seq [Lit [0xd83e, 0xddd1, 0xd83c, 0xdffc, 0x200d, 0xd83e,
     0xdeef, 0x200d, 0xd83e, 0xddd1, 0xd83c], Class [(0xdffb, 0xdffb), (0xdffd, 0xdfff)]], Seq [Lit
     [0xd83e, 0xddd1, 0xd83c, 0xdffd, 0x200d, 0x2764, 0xfe0f, 0x200d, 0xd83e, 0xddd1, 0xd83c],
     Class [(0xdffb, 0xdffb), (0xdffc, 0xdffc), (0xdffe, 0xdffe), (0xdfff, 0xdfff)]], Seq [Lit
     [0xd83e, 0xddd1, 0xd83c, 0xdffd, 0x200d, 0xd83d, 0xdc30, 0x200d, 0xd83e, 0xddd1, 0xd83c],
     Class [(0xdffb, 0xdffb), (0xdffc, 0xdffc), (0xdffe, 0xdffe), (0xdfff, 0xdfff)]], Seq [Lit
     [0xd83e, 0xddd1, 0xd83c, 0xdffd, 0x200d, 0xd83e, 0xdd1d, 0x200d, 0xd83e, 0xddd1, 0xd83c],
     Class [(0xdffb, 0xdfff)]], Seq [Lit [0xd83e, 0xddd1, 0xd83c, 0xdffd, 0x200d, 0xd83e, 0xdeef,
     0x200d, 0xd83e, 0xddd1, 0xd83c], Class [(0xdffb, 0xdffb), (0xdffc, 0xdffc), (0xdffe, 0xdffe),
     (0xdfff, 0xdfff)]], Seq [Lit [0xd83e, 0xddd1, 0xd83c, 0xdffe, 0x200d, 0x2764, 0xfe0f, 0x200d,
     0xd83e, 0xddd1, 0xd83c], Class [(0xdffb, 0xdffd), (0xdfff, 0xdfff)]], Seq [Lit [0xd83e,
     0xddd1, 0xd83c, 0xdffe, 0x200d, 0xd83d, 0xdc30, 0x200d, 0xd83e, 0xddd1, 0xd83c], Class
     [(0xdffb, 0xdffd), (0xdfff, 0xdfff)]], Seq [Lit [0xd83e, 0xddd1, 0xd83c, 0xdffe, 0x200d,
     0xd83e, 0xdd1d, 0x200d, 0xd83e, 0xddd1, 0xd83c], Class [(0xdffb, 0xdfff)]], Seq [Lit [0xd83e,
     0xddd1, 0xd83c, 0xdffe, 0x200d, 0xd83e, 0xdeef, 0x200d, 0xd83e, 0xddd1, 0xd83c], Class
     [(0xdffb, 0xdffd), (0xdfff, 0xdfff)]], Seq [Lit [0xd83e, 0xddd1, 0xd83c, 0xdfff, 0x200d,
     0x2764, 0xfe0f, 0x200d, 0xd83e, 0xddd1, 0xd83c], Class [(0xdffb, 0xdffe)]], Seq [Lit [0xd83e,
     0xddd1, 0xd83c, 0xdfff, 0x200d, 0xd83d, 0xdc30, 0x200d, 0xd83e, 0xddd1, 0xd83c], Class
     [(0xdffb, 0xdffe)]], Seq [Lit [0xd83e, 0xddd1, 0xd83c, 0xdfff, 0x200d, 0xd83e, 0xdd1d, 0x200d,
     0xd83e, 0xddd1, 0xd83c], Class [(0xdffb, 0xdfff)]], Seq [Lit [0xd83e, 0xddd1, 0xd83c, 0xdfff,
     0x200d, 0xd83e, 0xdeef, 0x200d, 0xd83e, 0xddd1, 0xd83c], Class [(0xdffb, 0xdffe)]], Lit
     [0xd83d, 0xdc68, 0x200d, 0x2764, 0xfe0f, 0x200d, 0xd83d, 0xdc8b, 0x200d, 0xd83d, 0xdc68], Seq
     [Lit [0xd83d, 0xdc69, 0x200d, 0x2764, 0xfe0f, 0x200d, 0xd83d, 0xdc8b, 0x200d, 0xd83d], Class
     [(0xdc68, 0xdc68), (0xdc69, 0xdc69)]], Seq [Lit [0xd83e, 0xdef1, 0xd83c, 0xdffb, 0x200d,
     0xd83e, 0xdef2, 0xd83c], Class [(0xdffc, 0xdfff)]], Seq [Lit [0xd83e, 0xdef1, 0xd83c, 0xdffc,
     0x200d, 0xd83e, 0xdef2, 0xd83c], Class [(0xdffb, 0xdffb), (0xdffd, 0xdfff)]], Seq [Lit
     [0xd83e, 0xdef1, 0xd83c, 0xdffd, 0x200d, 0xd83e, 0xdef2, 0xd83c], Class [(0xdffb, 0xdffb),
     (0xdffc, 0xdffc), (0xdffe, 0xdffe), (0xdfff, 0xdfff)]], Seq [Lit [0xd83e, 0xdef1, 0xd83c,
     0xdffe, 0x200d, 0xd83e, 0xdef2, 0xd83c], Class [(0xdffb, 0xdffd), (0xdfff, 0xdfff)]], Seq [Lit
     [0xd83e, 0xdef1, 0xd83c, 0xdfff, 0x200d, 0xd83e, 0xdef2, 0xd83c], Class [(0xdffb, 0xdffe)]],
     Lit [0xd83d, 0xdc68, 0x200d, 0x2764, 0xfe0f, 0x200d, 0xd83d, 0xdc68], Seq [Lit [0xd83d,
     0xdc69, 0x200d, 0x2764, 0xfe0f, 0x200d, 0xd83d], Class [(0xdc68, 0xdc68), (0xdc69, 0xdc69)]],
     Lit [0xd83e, 0xddd1, 0x200d, 0xd83e, 0xdd1d, 0x200d, 0xd83e, 0xddd1], Lit [0xd83d, 0xdc6f,
     0xd83c, 0xdffb, 0x200d, 0x2640, 0xfe0f], Lit [0xd83d, 0xdc6f, 0xd83c, 0xdffb, 0x200d, 0x2642,
     0xfe0f], Lit [0xd83d, 0xdc6f, 0xd83c, 0xdffc, 0x200d, 0x2640, 0xfe0f], Lit [0xd83d, 0xdc6f,
     0xd83c, 0xdffc, 0x200d, 0x2642, 0xfe0f], Lit [0xd83d, 0xdc6f, 0xd83c, 0xdffd, 0x200d, 0x2640,
     0xfe0f], Lit [0xd83d, 0xdc6f, 0xd83c, 0xdffd, 0x200d, 0x2642, 0xfe0f], Lit [0xd83d, 0xdc6f,
     0xd83c, 0xdffe, 0x200d, 0x2640, 0xfe0f], Lit [0xd83d, 0xdc6f, 0xd83c, 0xdffe, 0x200d, 0x2642,
     0xfe0f], Lit [0xd83d, 0xdc6f, 0xd83c, 0xdfff, 0x200d, 0x2640, 0xfe0f], Lit [0xd83d, 0xdc6f,
     0xd83c, 0xdfff, 0x200d, 0x2642, 0xfe0f], Lit [0xd83e, 0xdd3c, 0xd83c, 0xdffb, 0x200d, 0x2640,
     0xfe0f], Lit [0xd83e, 0xdd3c, 0xd83c, 0xdffb, 0x200d, 0x2642, 0xfe0f], Lit [0xd83e, 0xdd3c,
     0xd83c, 0xdffc, 0x200d, 0x2640, 0xfe0f], Lit [0xd83e, 0xdd3c, 0xd83c, 0xdffc, 0x200d, 0x2642,
     0xfe0f], Lit [0xd83e, 0xdd3c, 0xd83c, 0xdffd, 0x200d, 0x2640, 0xfe0f], Lit [0xd83e, 0xdd3c,
     0xd83c, 0xdffd, 0x200d, 0x2642, 0xfe0f], Lit [0xd83e, 0xdd3c, 0xd83c, 0xdffe, 0x200d, 0x2640,
     0xfe0f]]"

definition re_sequences_4 :: "regex list" where
  "re_sequences_4 =
     [Lit [0xd83e, 0xdd3c, 0xd83c, 0xdffe, 0x200d, 0x2642, 0xfe0f], Lit [0xd83e, 0xdd3c, 0xd83c,
     0xdfff, 0x200d, 0x2640, 0xfe0f], Lit [0xd83e, 0xdd3c, 0xd83c, 0xdfff, 0x200d, 0x2642, 0xfe0f],
     Lit [0xd83d, 0xdc6f, 0x200d, 0x2640, 0xfe0f], Lit [0xd83d, 0xdc6f, 0x200d, 0x2642, 0xfe0f],
     Lit [0xd83e, 0xdd3c, 0x200d, 0x2640, 0xfe0f], Lit [0xd83e, 0xdd3c, 0x200d, 0x2642, 0xfe0f],
     Seq [Lit [0xd83d, 0xdc6b, 0xd83c], Class [(0xdffb, 0xdfff)]], Seq [Lit [0xd83d, 0xdc6c,
     0xd83c], Class [(0xdffb, 0xdfff)]], Seq [Lit [0xd83d, 0xdc6d, 0xd83c], Class [(0xdffb,
     0xdfff)]], Seq [Lit [0xd83d, 0xdc6f, 0xd83c], Class [(0xdffb, 0xdfff)]], Seq [Lit [0xd83d,
     0xdc8f, 0xd83c], Class [(0xdffb, 0xdfff)]], Seq [Lit [0xd83d, 0xdc91, 0xd83c], Class [(0xdffb,
     0xdfff)]], Seq [Lit [0xd83e, 0xdd1d, 0xd83c], Class [(0xdffb, 0xdfff)]], Seq [Lit [0xd83e,
     0xdd3c, 0xd83c], Class [(0xdffb, 0xdfff)]], Seq [Lit [0xd83d], Class [(0xdc6b, 0xdc6d),
     (0xdc6f, 0xdc6f), (0xdc8f, 0xdc8f), (0xdc91, 0xdc91)]], Seq [Lit [0xd83e], Class [(0xdd1d,
     0xdd1d), (0xdd3c, 0xdd3c)]]]"

definition re :: regex where
  "re =
     Alt [Alt (re_sequences_1 @ re_sequences_2 @ re_sequences_3 @ re_sequences_4),
     Seq [Alt [Seq [Lit [0xd83d], Class [(0xdc68, 0xdc68), (0xdc69, 0xdc69)]], Lit [0xd83e,
     0xddd1]], Opt (Seq [Lit [0xd83c], Class [(0xdffb, 0xdfff)]]), Lit [0x200d], Alt [Lit [0x2695,
     0xfe0f], Lit [0x2696, 0xfe0f], Lit [0x2708, 0xfe0f], Seq [Lit [0xd83c], Class [(0xdf3e,
     0xdf3e), (0xdf73, 0xdf73), (0xdf7c, 0xdf7c), (0xdf84, 0xdf84), (0xdf93, 0xdf93), (0xdfa4,
     0xdfa4), (0xdfa8, 0xdfa8), (0xdfeb, 0xdfeb), (0xdfed, 0xdfed)]], Seq [Lit [0xd83d], Class
     [(0xdcbb, 0xdcbb), (0xdcbc, 0xdcbc), (0xdd27, 0xdd27), (0xdd2c, 0xdd2c), (0xde80, 0xde80),
     (0xde92, 0xde92)]], Seq [Lit [0xd83e], Class [(0xddaf, 0xddb3), (0xddbc, 0xddbc), (0xddbd,
     0xddbd), (0xde70, 0xde70)]]], Opt (Lit [0x200d, 0x27a1, 0xfe0f])], Seq [Alt [Seq [Lit
     [0xd83c], Class [(0xdfcb, 0xdfcb), (0xdfcc, 0xdfcc)]], Seq [Lit [0xd83d], Class [(0xdd74,
     0xdd74), (0xdd75, 0xdd75)]], Lit [0x26f9]], Seq [Alt [Seq [Lit [0xd83c], Class [(0xdffb,
     0xdfff)]], Lit [0xfe0f]], Lit [0x200d], Class [(0x2640, 0x2640), (0x2642, 0x2642)], Lit
     [0xfe0f], Opt (Lit [0x200d, 0x27a1, 0xfe0f])]], Seq [Alt [Seq [Lit [0xd83c], Class [(0xdfc3,
     0xdfc3), (0xdfc4, 0xdfc4), (0xdfca, 0xdfca)]], Seq [Lit [0xd83d], Class [(0xdc6e, 0xdc6e),
     (0xdc70, 0xdc70), (0xdc71, 0xdc71), (0xdc73, 0xdc73), (0xdc77, 0xdc77), (0xdc81, 0xdc81),
     (0xdc82, 0xdc82), (0xdc86, 0xdc86), (0xdc87, 0xdc87), (0xde45, 0xde47), (0xde4b, 0xde4b),
     (0xde4d, 0xde4d), (0xde4e, 0xde4e), (0xdea3, 0xdea3), (0xdeb4, 0xdeb6)]], Seq [Lit [0xd83e],
     Class [(0xdd26, 0xdd26), (0xdd35, 0xdd35), (0xdd37, 0xdd39), (0xdd3d, 0xdd3d), (0xdd3e,
     0xdd3e), (0xddb8, 0xddb8), (0xddb9, 0xddb9), (0xddcd, 0xddcf), (0xddd4, 0xddd4), (0xddd6,
     0xdddd)]]], Opt (Seq [Lit [0xd83c], Class [(0xdffb, 0xdfff)]]), Lit [0x200d], Class [(0x2640,
     0x2640), (0x2642, 0x2642)], Lit [0xfe0f], Opt (Lit [0x200d, 0x27a1, 0xfe0f])], Alt [Lit
     [0xd83d, 0xdc68, 0x200d, 0xd83d, 0xdc68, 0x200d, 0xd83d, 0xdc66, 0x200d, 0xd83d, 0xdc66], Seq
     [Lit [0xd83d, 0xdc68, 0x200d, 0xd83d, 0xdc68, 0x200d, 0xd83d, 0xdc67, 0x200d, 0xd83d], Class
     [(0xdc66, 0xdc66), (0xdc67, 0xdc67)]], Lit [0xd83d, 0xdc68, 0x200d, 0xd83d, 0xdc69, 0x200d,
     0xd83d, 0xdc66, 0x200d, 0xd83d, 0xdc66], Seq [Lit [0xd83d, 0xdc68, 0x200d, 0xd83d, 0xdc69,
     0x200d, 0xd83d, 0xdc67, 0x200d, 0xd83d], Class [(0xdc66, 0xdc66), (0xdc67, 0xdc67)]], Lit
     [0xd83d, 0xdc69, 0x200d, 0xd83d, 0xdc69, 0x200d, 0xd83d, 0xdc66, 0x200d, 0xd83d, 0xdc66], Seq
     [Lit [0xd83d, 0xdc69, 0x200d, 0xd83d, 0xdc69, 0x200d, 0xd83d, 0xdc67, 0x200d, 0xd83d], Class
     [(0xdc66, 0xdc66), (0xdc67, 0xdc67)]], Lit [0xd83e, 0xddd1, 0x200d, 0xd83e, 0xddd1, 0x200d,
     0xd83e, 0xddd2, 0x200d, 0xd83e, 0xddd2], Lit [0xd83d, 0xdc68, 0x200d, 0xd83d, 0xdc66, 0x200d,
     0xd83d, 0xdc66], Seq [Lit [0xd83d, 0xdc68, 0x200d, 0xd83d, 0xdc67, 0x200d, 0xd83d], Class
     [(0xdc66, 0xdc66), (0xdc67, 0xdc67)]], Seq [Lit [0xd83d, 0xdc68, 0x200d, 0xd83d, 0xdc68,
     0x200d, 0xd83d], Class [(0xdc66, 0xdc66), (0xdc67, 0xdc67)]], Seq [Lit [0xd83d, 0xdc68,
     0x200d, 0xd83d, 0xdc69, 0x200d, 0xd83d], Class [(0xdc66, 0xdc66), (0xdc67, 0xdc67)]], Lit
     [0xd83d, 0xdc69, 0x200d, 0xd83d, 0xdc66, 0x200d, 0xd83d, 0xdc66], Seq [Lit [0xd83d, 0xdc69,
     0x200d, 0xd83d, 0xdc67, 0x200d, 0xd83d], Class [(0xdc66, 0xdc66), (0xdc67, 0xdc67)]], Seq [Lit
     [0xd83d, 0xdc69, 0x200d, 0xd83d, 0xdc69, 0x200d, 0xd83d], Class [(0xdc66, 0xdc66), (0xdc67,
     0xdc67)]], Lit [0xd83e, 0xddd1, 0x200d, 0xd83e, 0xddd1, 0x200d, 0xd83e, 0xddd2], Lit [0xd83e,
     0xddd1, 0x200d, 0xd83e, 0xddd2, 0x200d, 0xd83e, 0xddd2], Lit [0xd83d, 0xdc41, 0xfe0f, 0x200d,
     0xd83d, 0xdde8, 0xfe0f], Lit [0xd83c, 0xdff3, 0xfe0f, 0x200d, 0x26a7, 0xfe0f], Lit [0xd83c,
     0xdff3, 0xfe0f, 0x200d, 0xd83c, 0xdf08], Lit [0xd83d, 0xde36, 0x200d, 0xd83c, 0xdf2b, 0xfe0f],
     Lit [0x26d3, 0xfe0f, 0x200d, 0xd83d, 0xdca5], Lit [0x2764, 0xfe0f, 0x200d, 0xd83d, 0xdd25],
     Lit [0x2764, 0xfe0f, 0x200d, 0xd83e, 0xde79], Lit [0xd83c, 0xdf44, 0x200d, 0xd83d, 0xdfeb],
     Lit [0xd83c, 0xdf4b, 0x200d, 0xd83d, 0xdfe9], Lit [0xd83c, 0xdff4, 0x200d, 0x2620, 0xfe0f],
     Lit [0xd83d, 0xdc15, 0x200d, 0xd83e, 0xddba], Lit [0xd83d, 0xdc26, 0x200d, 0xd83d, 0xdd25],
     Lit [0xd83d, 0xdc3b, 0x200d, 0x2744, 0xfe0f], Seq [Lit [0xd83d, 0xdc68, 0x200d, 0xd83d], Class
     [(0xdc66, 0xdc66), (0xdc67, 0xdc67)]], Seq [Lit [0xd83d, 0xdc69, 0x200d, 0xd83d], Class
     [(0xdc66, 0xdc66), (0xdc67, 0xdc67)]], Lit [0xd83d, 0xde2e, 0x200d, 0xd83d, 0xdca8], Lit
     [0xd83d, 0xde35, 0x200d, 0xd83d, 0xdcab], Lit [0xd83d, 0xde42, 0x200d, 0x2194, 0xfe0f], Lit
     [0xd83d, 0xde42, 0x200d, 0x2195, 0xfe0f], Lit [0xd83e, 0xddd1, 0x200d, 0xd83e, 0xddd2], Lit
     [0xd83e, 0xddde, 0x200d, 0x2640, 0xfe0f], Lit [0xd83e, 0xddde, 0x200d, 0x2642, 0xfe0f], Lit
     [0xd83e, 0xdddf, 0x200d, 0x2640, 0xfe0f], Lit [0xd83e, 0xdddf, 0x200d, 0x2642, 0xfe0f], Lit
     [0xd83d, 0xdc08, 0x200d, 0x2b1b], Lit [0xd83d, 0xdc26, 0x200d, 0x2b1b]], Seq [Class [(0x23,
     0x23), (0x2a, 0x2a), (0x30, 0x39)], Opt (Lit [0xfe0f]), Lit [0x20e3]], Seq [Alt [Seq [Lit
     [0xd83c], Class [(0xdd70, 0xdd70), (0xdd71, 0xdd71), (0xdd7e, 0xdd7e), (0xdd7f, 0xdd7f),
     (0xde02, 0xde02), (0xde37, 0xde37), (0xdf21, 0xdf21), (0xdf24, 0xdf2c), (0xdf36, 0xdf36),
     (0xdf7d, 0xdf7d), (0xdf96, 0xdf96), (0xdf97, 0xdf97), (0xdf99, 0xdf9b), (0xdf9e, 0xdf9e),
     (0xdf9f, 0xdf9f), (0xdfcd, 0xdfcd), (0xdfce, 0xdfce), (0xdfd4, 0xdfdf), (0xdff3, 0xdff3),
     (0xdff5, 0xdff5), (0xdff7, 0xdff7)]], Seq [Lit [0xd83d], Class [(0xdc3f, 0xdc3f), (0xdc41,
     0xdc41), (0xdcfd, 0xdcfd), (0xdd49, 0xdd49), (0xdd4a, 0xdd4a), (0xdd6f, 0xdd6f), (0xdd70,
     0xdd70), (0xdd73, 0xdd73), (0xdd76, 0xdd79), (0xdd87, 0xdd87), (0xdd8a, 0xdd8d), (0xdda5,
     0xdda5), (0xdda8, 0xdda8), (0xddb1, 0xddb1), (0xddb2, 0xddb2), (0xddbc, 0xddbc), (0xddc2,
     0xddc4), (0xddd1, 0xddd3), (0xdddc, 0xddde), (0xdde1, 0xdde1), (0xdde3, 0xdde3), (0xdde8,
     0xdde8), (0xddef, 0xddef), (0xddf3, 0xddf3), (0xddfa, 0xddfa), (0xdecb, 0xdecb), (0xdecd,
     0xdecf), (0xdee0, 0xdee5), (0xdee9, 0xdee9), (0xdef0, 0xdef0), (0xdef3, 0xdef3)]], Class
     [(0xa9, 0xa9), (0xae, 0xae), (0x203c, 0x203c), (0x2049, 0x2049), (0x2122, 0x2122), (0x2139,
     0x2139), (0x2194, 0x2199), (0x21a9, 0x21a9), (0x21aa, 0x21aa), (0x2328, 0x2328), (0x23cf,
     0x23cf), (0x23ed, 0x23ef), (0x23f1, 0x23f1), (0x23f2, 0x23f2), (0x23f8, 0x23fa), (0x24c2,
     0x24c2), (0x25aa, 0x25aa), (0x25ab, 0x25ab), (0x25b6, 0x25b6), (0x25c0, 0x25c0), (0x25fb,
     0x25fb), (0x25fc, 0x25fc), (0x2600, 0x2604), (0x260e, 0x260e), (0x2611, 0x2611), (0x2618,
     0x2618), (0x2620, 0x2620), (0x2622, 0x2622), (0x2623, 0x2623), (0x2626, 0x2626), (0x262a,
     0x262a), (0x262e, 0x262e), (0x262f, 0x262f), (0x2638, 0x263a), (0x2640, 0x2640), (0x2642,
     0x2642), (0x265f, 0x265f), (0x2660, 0x2660), (0x2663, 0x2663), (0x2665, 0x2665), (0x2666,
     0x2666), (0x2668, 0x2668), (0x267b, 0x267b), (0x267e, 0x267e), (0x2692, 0x2692), (0x2694,
     0x2697), (0x2699, 0x2699), (0x269b, 0x269b), (0x269c, 0x269c), (0x26a0, 0x26a0), (0x26a7,
     0x26a7), (0x26b0, 0x26b0), (0x26b1, 0x26b1), (0x26c8, 0x26c8), (0x26cf, 0x26cf), (0x26d1,
     0x26d1), (0x26d3, 0x26d3), (0x26e9, 0x26e9), (0x26f0, 0x26f0), (0x26f1, 0x26f1), (0x26f4,
     0x26f4), (0x26f8, 0x26f8), (0x2702, 0x2702), (0x2708, 0x2708), (0x2709, 0x2709), (0x270f,
     0x270f), (0x2712, 0x2712), (0x2714, 0x2714), (0x2716, 0x2716), (0x271d, 0x271d), (0x2721,
     0x2721), (0x2733, 0x2733), (0x2734, 0x2734), (0x2744, 0x2744), (0x2747, 0x2747), (0x2763,
     0x2763), (0x27a1, 0x27a1), (0x2934, 0x2934), (0x2935, 0x2935), (0x2b05, 0x2b07), (0x3030,
     0x3030), (0x303d, 0x303d), (0x3297, 0x3297), (0x3299, 0x3299)]], Lit [0xfe0f]], Seq [Alt [Seq
     [Lit [0xd83c], Class [(0xdc04, 0xdc04), (0xde1a, 0xde1a), (0xde2f, 0xde2f)]], Class [(0x231a,
     0x231a), (0x231b, 0x231b), (0x25fd, 0x25fd), (0x25fe, 0x25fe), (0x2614, 0x2614), (0x2615,
     0x2615), (0x2648, 0x2653), (0x267f, 0x267f), (0x2693, 0x2693), (0x26a1, 0x26a1), (0x26aa,
     0x26aa), (0x26ab, 0x26ab), (0x26bd, 0x26bd), (0x26be, 0x26be), (0x26c4, 0x26c4), (0x26c5,
     0x26c5), (0x26d4, 0x26d4), (0x26ea, 0x26ea), (0x26f2, 0x26f2), (0x26f3, 0x26f3), (0x26f5,
     0x26f5), (0x26fa, 0x26fa), (0x26fd, 0x26fd), (0x2757, 0x2757), (0x2764, 0x2764), (0x2b1b,
     0x2b1b), (0x2b1c, 0x2b1c), (0x2b50, 0x2b50), (0x2b55, 0x2b55)]], Alt [Lit [0xfe0f], Not_ahead
     (Lit [0xfe0e])]], Seq [Alt [Seq [Lit [0xd83e, 0xdef0], Alt [Lit [0xfe0f], Not_ahead (Lit
     [0xfe0e])]], Seq [Alt [Lit [0xd83c, 0xdfc3], Lit [0xd83d, 0xdeb6], Lit [0xd83e, 0xddce]], Opt
     (Seq [Lit [0xd83c], Class [(0xdffb, 0xdfff)]]), Opt (Lit [0x200d, 0x27a1, 0xfe0f])], Alt [Seq
     [Lit [0xd83c], Class [(0xdf85, 0xdf85), (0xdfc2, 0xdfc2), (0xdfc4, 0xdfc4), (0xdfc7, 0xdfc7),
     (0xdfca, 0xdfca)]], Seq [Lit [0xd83d], Class [(0xdc42, 0xdc42), (0xdc43, 0xdc43), (0xdc46,
     0xdc50), (0xdc66, 0xdc69), (0xdc6e, 0xdc6e), (0xdc70, 0xdc78), (0xdc7c, 0xdc7c), (0xdc81,
     0xdc83), (0xdc85, 0xdc87), (0xdcaa, 0xdcaa), (0xdd7a, 0xdd7a), (0xdd95, 0xdd95), (0xdd96,
     0xdd96), (0xde45, 0xde47), (0xde4b, 0xde4f), (0xdea3, 0xdea3), (0xdeb4, 0xdeb4), (0xdeb5,
     0xdeb5), (0xdec0, 0xdec0), (0xdecc, 0xdecc)]], Seq [Lit [0xd83e], Class [(0xdd0c, 0xdd0c),
     (0xdd0f, 0xdd0f), (0xdd18, 0xdd1c), (0xdd1e, 0xdd1e), (0xdd1f, 0xdd1f), (0xdd26, 0xdd26),
     (0xdd30, 0xdd39), (0xdd3d, 0xdd3d), (0xdd3e, 0xdd3e), (0xdd77, 0xdd77), (0xddb5, 0xddb5),
     (0xddb6, 0xddb6), (0xddb8, 0xddb8), (0xddb9, 0xddb9), (0xddbb, 0xddbb), (0xddcd, 0xddcd),
     (0xddcf, 0xddcf), (0xddd1, 0xdddd), (0xdec3, 0xdec5), (0xdef1, 0xdef8)]], Class [(0x270a,
     0x270a), (0x270b, 0x270b)]]], Opt (Seq [Lit [0xd83c], Class [(0xdffb, 0xdfff)]])], Alt [Lit
     [0xd83c, 0xdff4, 0xdb40, 0xdc67, 0xdb40, 0xdc62, 0xdb40, 0xdc65, 0xdb40, 0xdc6e, 0xdb40,
     0xdc67, 0xdb40, 0xdc7f], Lit [0xd83c, 0xdff4, 0xdb40, 0xdc67, 0xdb40, 0xdc62, 0xdb40, 0xdc73,
     0xdb40, 0xdc63, 0xdb40, 0xdc74, 0xdb40, 0xdc7f], Lit [0xd83c, 0xdff4, 0xdb40, 0xdc67, 0xdb40,
     0xdc62, 0xdb40, 0xdc77, 0xdb40, 0xdc6c, 0xdb40, 0xdc73, 0xdb40, 0xdc7f], Seq [Lit [0xd83c,
     0xdde6, 0xd83c], Class [(0xdde8, 0xddec), (0xddee, 0xddee), (0xddf1, 0xddf1), (0xddf2,
     0xddf2), (0xddf4, 0xddf4), (0xddf6, 0xddfa), (0xddfc, 0xddfc), (0xddfd, 0xddfd), (0xddff,
     0xddff)]], Seq [Lit [0xd83c, 0xdde7, 0xd83c], Class [(0xdde6, 0xdde6), (0xdde7, 0xdde7),
     (0xdde9, 0xddef), (0xddf1, 0xddf4), (0xddf6, 0xddf9), (0xddfb, 0xddfb), (0xddfc, 0xddfc),
     (0xddfe, 0xddfe), (0xddff, 0xddff)]], Seq [Lit [0xd83c, 0xdde8, 0xd83c], Class [(0xdde6,
     0xdde6), (0xdde8, 0xdde8), (0xdde9, 0xdde9), (0xddeb, 0xddee), (0xddf0, 0xddf7), (0xddfa,
     0xddff)]], Seq [Lit [0xd83c, 0xdde9, 0xd83c], Class [(0xddea, 0xddea), (0xddec, 0xddec),
     (0xddef, 0xddef), (0xddf0, 0xddf0), (0xddf2, 0xddf2), (0xddf4, 0xddf4), (0xddff, 0xddff)]],
     Seq [Lit [0xd83c, 0xddea, 0xd83c], Class [(0xdde6, 0xdde6), (0xdde8, 0xdde8), (0xddea,
     0xddea), (0xddec, 0xddec), (0xdded, 0xdded), (0xddf7, 0xddfa)]], Seq [Lit [0xd83c, 0xddeb,
     0xd83c], Class [(0xddee, 0xddf0), (0xddf2, 0xddf2), (0xddf4, 0xddf4), (0xddf7, 0xddf7)]], Seq
     [Lit [0xd83c, 0xddec, 0xd83c], Class [(0xdde6, 0xdde6), (0xdde7, 0xdde7), (0xdde9, 0xddee),
     (0xddf1, 0xddf3), (0xddf5, 0xddfa), (0xddfc, 0xddfc), (0xddfe, 0xddfe)]], Seq [Lit [0xd83c,
     0xdded, 0xd83c], Class [(0xddf0, 0xddf0), (0xddf2, 0xddf2), (0xddf3, 0xddf3), (0xddf7,
     0xddf7), (0xddf9, 0xddf9), (0xddfa, 0xddfa)]], Seq [Lit [0xd83c, 0xddee, 0xd83c], Class
     [(0xdde8, 0xddea), (0xddf1, 0xddf4), (0xddf6, 0xddf9)]], Seq [Lit [0xd83c, 0xddef, 0xd83c],
     Class [(0xddea, 0xddea), (0xddf2, 0xddf2), (0xddf4, 0xddf4), (0xddf5, 0xddf5)]], Seq [Lit
     [0xd83c, 0xddf0, 0xd83c], Class [(0xddea, 0xddea), (0xddec, 0xddee), (0xddf2, 0xddf2),
     (0xddf3, 0xddf3), (0xddf5, 0xddf5), (0xddf7, 0xddf7), (0xddfc, 0xddfc), (0xddfe, 0xddfe),
     (0xddff, 0xddff)]], Seq [Lit [0xd83c, 0xddf1, 0xd83c], Class [(0xdde6, 0xdde8), (0xddee,
     0xddee), (0xddf0, 0xddf0), (0xddf7, 0xddfb), (0xddfe, 0xddfe)]], Seq [Lit [0xd83c, 0xddf2,
     0xd83c], Class [(0xdde6, 0xdde6), (0xdde8, 0xdded), (0xddf0, 0xddff)]], Seq [Lit [0xd83c,
     0xddf3, 0xd83c], Class [(0xdde6, 0xdde6), (0xdde8, 0xdde8), (0xddea, 0xddec), (0xddee,
     0xddee), (0xddf1, 0xddf1), (0xddf4, 0xddf4), (0xddf5, 0xddf5), (0xddf7, 0xddf7), (0xddfa,
     0xddfa), (0xddff, 0xddff)]], Lit [0xd83c, 0xddf4, 0xd83c, 0xddf2], Seq [Lit [0xd83c, 0xddf5,
     0xd83c], Class [(0xdde6, 0xdde6), (0xddea, 0xdded), (0xddf0, 0xddf3), (0xddf7, 0xddf9),
     (0xddfc, 0xddfc), (0xddfe, 0xddfe)]], Lit [0xd83c, 0xddf6, 0xd83c, 0xdde6], Seq [Lit [0xd83c,
     0xddf7, 0xd83c], Class [(0xddea, 0xddea), (0xddf4, 0xddf4), (0xddf8, 0xddf8), (0xddfa,
     0xddfa), (0xddfc, 0xddfc)]], Seq [Lit [0xd83c, 0xddf8, 0xd83c], Class [(0xdde6, 0xddea),
     (0xddec, 0xddf4), (0xddf7, 0xddf9), (0xddfb, 0xddfb), (0xddfd, 0xddff)]], Seq [Lit [0xd83c,
     0xddf9, 0xd83c], Class [(0xdde6, 0xdde6), (0xdde8, 0xdde8), (0xdde9, 0xdde9), (0xddeb,
     0xdded), (0xddef, 0xddf4), (0xddf7, 0xddf7), (0xddf9, 0xddf9), (0xddfb, 0xddfb), (0xddfc,
     0xddfc), (0xddff, 0xddff)]], Seq [Lit [0xd83c, 0xddfa, 0xd83c], Class [(0xdde6, 0xdde6),
     (0xddec, 0xddec), (0xddf2, 0xddf2), (0xddf3, 0xddf3), (0xddf8, 0xddf8), (0xddfe, 0xddfe),
     (0xddff, 0xddff)]], Seq [Lit [0xd83c, 0xddfb, 0xd83c], Class [(0xdde6, 0xdde6), (0xdde8,
     0xdde8), (0xddea, 0xddea), (0xddec, 0xddec), (0xddee, 0xddee), (0xddf3, 0xddf3), (0xddfa,
     0xddfa)]], Seq [Lit [0xd83c, 0xddfc, 0xd83c], Class [(0xddeb, 0xddeb), (0xddf8, 0xddf8)]], Lit
     [0xd83c, 0xddfd, 0xd83c, 0xddf0], Seq [Lit [0xd83c, 0xddfe, 0xd83c], Class [(0xddea, 0xddea),
     (0xddf9, 0xddf9)]], Seq [Lit [0xd83c, 0xddff, 0xd83c], Class [(0xdde6, 0xdde6), (0xddf2,
     0xddf2), (0xddfc, 0xddfc)]], Seq [Lit [0xd83c], Class [(0xdccf, 0xdccf), (0xdd8e, 0xdd8e),
     (0xdd91, 0xdd9a), (0xdde6, 0xddff), (0xde01, 0xde01), (0xde32, 0xde36), (0xde38, 0xde3a),
     (0xde50, 0xde50), (0xde51, 0xde51), (0xdf00, 0xdf20), (0xdf2d, 0xdf35), (0xdf37, 0xdf7c),
     (0xdf7e, 0xdf84), (0xdf86, 0xdf93), (0xdfa0, 0xdfc1), (0xdfc5, 0xdfc5), (0xdfc6, 0xdfc6),
     (0xdfc8, 0xdfc8), (0xdfc9, 0xdfc9), (0xdfcf, 0xdfd3), (0xdfe0, 0xdff0), (0xdff4, 0xdff4),
     (0xdff8, 0xdfff)]], Seq [Lit [0xd83d], Class [(0xdc00, 0xdc3e), (0xdc40, 0xdc40), (0xdc44,
     0xdc44), (0xdc45, 0xdc45), (0xdc51, 0xdc65), (0xdc6a, 0xdc6a), (0xdc79, 0xdc7b), (0xdc7d,
     0xdc80), (0xdc84, 0xdc84), (0xdc88, 0xdc8e), (0xdc90, 0xdc90), (0xdc92, 0xdca9), (0xdcab,
     0xdcfc), (0xdcff, 0xdd3d), (0xdd4b, 0xdd4e), (0xdd50, 0xdd67), (0xdda4, 0xdda4), (0xddfb,
     0xde44), (0xde48, 0xde4a), (0xde80, 0xdea2), (0xdea4, 0xdeb3), (0xdeb7, 0xdebf), (0xdec1,
     0xdec5), (0xded0, 0xded2), (0xded5, 0xded8), (0xdedc, 0xdedf), (0xdeeb, 0xdeeb), (0xdeec,
     0xdeec), (0xdef4, 0xdefc), (0xdfe0, 0xdfeb), (0xdff0, 0xdff0)]], Seq [Lit [0xd83e], Class
     [(0xdd0d, 0xdd0d), (0xdd0e, 0xdd0e), (0xdd10, 0xdd17), (0xdd20, 0xdd25), (0xdd27, 0xdd2f),
     (0xdd3a, 0xdd3a), (0xdd3f, 0xdd45), (0xdd47, 0xdd76), (0xdd78, 0xddb4), (0xddb7, 0xddb7),
     (0xddba, 0xddba), (0xddbc, 0xddcc), (0xddd0, 0xddd0), (0xddde, 0xddff), (0xde70, 0xde7c),
     (0xde80, 0xde8a), (0xde8e, 0xdec2), (0xdec6, 0xdec6), (0xdec8, 0xdec8), (0xdecd, 0xdedc),
     (0xdedf, 0xdeea), (0xdeef, 0xdeef)]], Class [(0x23e9, 0x23ec), (0x23f0, 0x23f0), (0x23f3,
     0x23f3), (0x26ce, 0x26ce), (0x2705, 0x2705), (0x2728, 0x2728), (0x274c, 0x274c), (0x274e,
     0x274e), (0x2753, 0x2755), (0x2795, 0x2797), (0x27b0, 0x27b0), (0x27bf, 0x27bf), (0xe50a,
     0xe50a)]], Lit [0xfe0f]]"

text \<open>The length of the match at the start of a text, 0 if there is none.\<close>

definition re_at :: "nat list \<Rightarrow> nat" where
  "re_at s = (case match_re re s of [] \<Rightarrow> 0 | rest # _ \<Rightarrow> length s - length rest)"

section \<open>A match takes at least one code unit\<close>

fun nullable :: "regex \<Rightarrow> bool" where
  "nullable (Lit us) = (us = [])"
| "nullable (Class ranges) = False"
| "nullable (Seq rs) = list_all nullable rs"
| "nullable (Alt rs) = list_ex nullable rs"
| "nullable (Opt r) = True"
| "nullable (Not_ahead r) = True"

lemma match_class_shorter: "t \<in> set (match_class ranges s) \<Longrightarrow> length t < length s"
  by (cases s) (auto split: if_splits)

lemma seq_shorter:
  assumes "\<And>r s t. r \<in> set rs \<Longrightarrow> t \<in> set (match_re r s) \<Longrightarrow>
             length t \<le> length s \<and> (\<not> nullable r \<longrightarrow> length t < length s)"
  shows "t \<in> set (fold (\<lambda>r ss. concat (map (match_re r) ss)) rs ss) \<Longrightarrow>
           \<exists>s\<in>set ss. length t \<le> length s \<and> (\<not> list_all nullable rs \<longrightarrow> length t < length s)"
  using assms
proof (induction rs arbitrary: ss)
  case Nil
  then show ?case by auto
next
  case (Cons r rs)
  obtain u where u: "u \<in> set (concat (map (match_re r) ss))" "length t \<le> length u"
    "\<not> list_all nullable rs \<longrightarrow> length t < length u"
    using Cons.IH[of "concat (map (match_re r) ss)"] Cons.prems by fastforce
  then obtain s where s: "s \<in> set ss" "u \<in> set (match_re r s)"
    by auto
  then have "length u \<le> length s \<and> (\<not> nullable r \<longrightarrow> length u < length s)"
    by (intro Cons.prems(2)) simp_all
  then show ?case
    using u s by (intro bexI[of _ s]) auto
qed

lemma match_shorter:
  "t \<in> set (match_re r s) \<Longrightarrow> length t \<le> length s \<and> (\<not> nullable r \<longrightarrow> length t < length s)"
proof (induction r arbitrary: s t)
  case (Lit us)
  then have "t = drop (length us) s" "take (length us) s = us"
    by (auto split: if_splits)
  then have "length t = length s - length us" "length us \<le> length s"
    by (auto dest: arg_cong[where f = length])
  moreover have "us \<noteq> [] \<longrightarrow> 0 < length us"
    by simp
  ultimately show ?case
    unfolding nullable.simps by linarith
next
  case (Class ranges)
  then show ?case using match_class_shorter by fastforce
next
  case (Seq rs)
  then show ?case using seq_shorter[of rs t "[s]"] by simp
next
  case (Alt rs)
  then show ?case by (fastforce simp: list_ex_iff)
next
  case (Opt r)
  then show ?case by auto
next
  case (Not_ahead r)
  then show ?case by (auto split: if_splits)
qed

text \<open>
  C27. Emoji matches.  Wherever the pattern matches it takes at least one code unit, so the
  replacement of a text always advances.
\<close>

theorem emoji_match_nonempty:
  "list_all (\<lambda>rest. length rest < length s) (match_re re s)"
proof -
  have "\<not> nullable re"
    by (simp add: re_def re_sequences_1_def re_sequences_2_def re_sequences_3_def re_sequences_4_def)
  then show ?thesis
    using match_shorter by (auto simp: list_all_iff)
qed

end
