(* ===== verification/Emoji.thy ===== *)
theory Emoji
  imports Main
begin

text \<open>
  The emoji replacement of the user interface (\<open>qml/js/emoji.js\<close>).

  A JavaScript string is the list of its UTF-16 code units.  The large pattern \<open>re\<close> that
  recognises an emoji is a parameter \<open>emoji_at\<close>: the length of the match at the start of a text,
  0 where there is none.  What the runtime answers to requests for a file and how it resolves a
  URL are parameters as well.  Sizes are whole numbers of pixels; the factor 1.15 is applied with
  the rounding of double precision.
\<close>

section \<open>JavaScript strings and numbers\<close>

type_synonym js_string = "nat list"

definition js :: "string \<Rightarrow> js_string" where
  "js s = map of_char s"

definition js_char :: "char \<Rightarrow> nat" where
  "js_char c = of_char c"

function digits :: "nat \<Rightarrow> nat \<Rightarrow> nat list" where
  "digits base n = (if base < 2 \<or> n < base then [n] else digits base (n div base) @ [n mod base])"
  by auto

termination
  by (relation "measure snd") (auto intro: div_less_dividend)

declare digits.simps [simp del]

definition digit_char :: "nat \<Rightarrow> nat" where
  "digit_char d = (if d < 10 then 48 + d else 87 + d)"

definition to_string :: "nat \<Rightarrow> nat \<Rightarrow> js_string" where
  "to_string base n = map digit_char (digits base n)"

fun join :: "js_string \<Rightarrow> js_string list \<Rightarrow> js_string" where
  "join sep [] = []"
| "join sep [x] = x"
| "join sep (x # y # ys) = x @ sep @ join sep (y # ys)"

text \<open>
  \<open>Math.round(1.15 * size)\<close>: the double nearest to 1.15 is \<open>5179139571476070 / 2 ^ 52\<close>; the
  product is rounded to 53 bits, ties to even, and then to an integer, ties upwards.
\<close>

fun bit_count :: "nat \<Rightarrow> nat" where
  "bit_count n = (if n = 0 then 0 else Suc (bit_count (n div 2)))"

declare bit_count.simps [simp del]

definition round_half_even :: "nat \<Rightarrow> nat \<Rightarrow> nat" where
  "round_half_even n d =
     (let q = n div d; r = n mod d in
      if d < 2 * r \<or> (2 * r = d \<and> odd q) then q + 1 else q)"

definition times_115 :: "nat \<Rightarrow> nat" where
  "times_115 px =
     (let p = 5179139571476070 * px; k = 2 ^ (bit_count p - 53) in round_half_even p k * k)"

definition rounded_115 :: "nat \<Rightarrow> nat" where
  "rounded_115 px = (times_115 px + 2 ^ 51) div 2 ^ 52"

section \<open>Styles\<close>

datatype style_type = Raster | Vector | System

record style =
  st_name :: js_string
  st_key :: js_string
  st_versions :: "js_string list"
  st_ext :: js_string
  st_type :: style_type
  st_url :: js_string
  st_license :: js_string

definition mk_style ::
  "string \<Rightarrow> string \<Rightarrow> string list \<Rightarrow> string \<Rightarrow> style_type \<Rightarrow> string \<Rightarrow> string \<Rightarrow> style" where
  "mk_style n k vs e t u l =
     \<lparr> st_name = js n, st_key = js k, st_versions = map js vs, st_ext = js e, st_type = t,
       st_url = js u, st_license = js l \<rparr>"

definition Style :: "(string \<times> style) list" where
  "Style =
     [(''openmoji'', mk_style ''OpenMoji'' ''openmoji''
         [''17.0.0'', ''16.0.0'', ''15.1.0'', ''15.0.0'', ''14.0.0'', ''13.1.0'', ''13.0.0'']
         ''svg'' Vector ''https://github.com/hfg-gmuend/openmoji/releases/'' ''CC-BY-SA 4.0''),
      (''twemoji'', mk_style ''Twemoji'' ''twemoji''
         [''17.0.3'', ''16.0.1'', ''15.1.0'', ''14.0.2'', ''13.0.1'']
         ''svg'' Vector ''https://github.com/jdecked/twemoji/releases'' ''CC-BY-SA 4.0''),
      (''microsoft-3D-fluent'', mk_style ''Microsoft (glossy)'' ''microsoft-3D-fluent''
         [''fluent-16.0'', ''fluent-15.1'']
         ''png'' Raster ''https://emojipedia.org/microsoft-3D-fluent'' ''proprietary''),
      (''google'', mk_style ''Google Noto'' ''google''
         [''17.0'', ''16.0'', ''15.1'', ''15.0'', ''android-12l'']
         ''png'' Raster ''https://emojipedia.org/google'' ''OpenFontLicense''),
      (''whatsapp'', mk_style ''WhatsApp'' ''whatsapp''
         [''2.26.22.71'', ''2.25.1.75'', ''2.24.2.76'', ''2.23.2.72'', ''2.22.8.79'', ''2.21.23.23'',
          ''2.21.16.20'', ''2.21.11.17'', ''2.20.206.24'']
         ''png'' Raster ''https://emojipedia.org/whatsapp'' ''proprietary''),
      (''apple'', mk_style ''Apple'' ''apple''
         [''ios-26.4'', ''ios-18.4'', ''ios-17.4'', ''ios-16.4'', ''ios-15.4'', ''ios-14.6'',
          ''ios-14.5'', ''ios-14.2'']
         ''png'' Raster ''https://emojipedia.org/apple'' ''proprietary''),
      (''system'', mk_style ''System'' [] [] [] System [] [])]"

definition rasterSizes :: "nat list" where
  "rasterSizes = [144, 72]"

record style_path =
  sp_found :: bool
  sp_path :: js_string
  sp_uptodate :: bool

record raster_entry =
  re_source :: nat
  re_effective :: nat
  re_path :: js_string

record emoji_state =
  dataBaseDirectory :: js_string
  emojiSubDirectory :: js_string
  pathErrorShown :: bool
  rasterSizesCache :: "js_string \<Rightarrow> raster_entry option"
  styleStatusCache :: "js_string \<Rightarrow> style_path option"

definition initial_state :: emoji_state where
  "initial_state =
     \<lparr> dataBaseDirectory = [], emojiSubDirectory = js ''sailor-emoji'', pathErrorShown = False,
       rasterSizesCache = (\<lambda>_. None), styleStatusCache = (\<lambda>_. None) \<rparr>"

definition flushCaches :: "emoji_state \<Rightarrow> emoji_state" where
  "flushCaches st = st\<lparr>rasterSizesCache := (\<lambda>_. None), styleStatusCache := (\<lambda>_. None)\<rparr>"

definition not_found :: style_path where
  "not_found = \<lparr> sp_found = False, sp_path = [], sp_uptodate = True \<rparr>"

definition size_suffix :: "nat option \<Rightarrow> js_string" where
  "size_suffix px = (case px of None \<Rightarrow> js ''null'' | Some n \<Rightarrow> to_string 10 n)"

text \<open>The path of a version of a style, and whether its heart can be fetched.\<close>

definition strip_file :: "js_string \<Rightarrow> js_string" where
  "strip_file path = (if take 7 path = js ''file://'' then drop 7 path else path)"

definition version_path ::
  "(js_string \<Rightarrow> js_string) \<Rightarrow> emoji_state \<Rightarrow> style \<Rightarrow> nat option \<Rightarrow> js_string \<Rightarrow> js_string" where
  "version_path resolvedUrl st s rasterSize v =
     (let basePath = dataBaseDirectory st @ js ''/'' @ emojiSubDirectory st @ js ''/'' @ st_key s in
      strip_file (resolvedUrl
        (if st_type s = Raster then basePath @ js ''/'' @ v @ js ''/'' @ size_suffix rasterSize
         else basePath @ js ''/'' @ v)))"

fun find_version ::
  "(js_string \<Rightarrow> bool) \<Rightarrow> (js_string \<Rightarrow> js_string) \<Rightarrow> js_string \<Rightarrow> nat \<Rightarrow> js_string list
     \<Rightarrow> style_path option" where
  "find_version fetchable path_of ext i [] = None"
| "find_version fetchable path_of ext i (v # vs) =
     (if fetchable (path_of v @ js ''/2764.'' @ ext)
      then Some \<lparr> sp_found = True, sp_path = path_of v, sp_uptodate = (i = 0) \<rparr>
      else find_version fetchable path_of ext (Suc i) vs)"

definition getStylePath ::
  "(js_string \<Rightarrow> bool) \<Rightarrow> (js_string \<Rightarrow> js_string) \<Rightarrow> style \<Rightarrow> nat option \<Rightarrow> bool \<Rightarrow> emoji_state
     \<Rightarrow> style_path \<times> emoji_state" where
  "getStylePath fetchable resolvedUrl s rasterSize noCache st =
     (let cacheKey = st_key s @ js ''-'' @ size_suffix rasterSize in
      case (if noCache then None else styleStatusCache st cacheKey) of
        Some cached \<Rightarrow> (cached, st)
      | None \<Rightarrow>
          if st_type s = System
          then (not_found,
                st\<lparr>styleStatusCache := (styleStatusCache st)(js ''undefined'' \<mapsto> not_found)\<rparr>)
          else
            (case find_version fetchable (version_path resolvedUrl st s rasterSize) (st_ext s) 0 (st_versions s) of
               Some found \<Rightarrow> (found, st\<lparr>styleStatusCache := (styleStatusCache st)(cacheKey \<mapsto> found)\<rparr>)
             | None \<Rightarrow> (not_found, st\<lparr>pathErrorShown := True\<rparr>)))"

fun check_sizes ::
  "(js_string \<Rightarrow> bool) \<Rightarrow> (js_string \<Rightarrow> js_string) \<Rightarrow> style \<Rightarrow> bool \<Rightarrow> nat option list \<Rightarrow> emoji_state
     \<Rightarrow> (nat \<times> bool) \<times> emoji_state" where
  "check_sizes fetchable resolvedUrl s noCache [] st = ((0, False), st)"
| "check_sizes fetchable resolvedUrl s noCache (px # sizes) st =
     (let (p, st1) = getStylePath fetchable resolvedUrl s px noCache st;
          ((missing, outdated), st2) = check_sizes fetchable resolvedUrl s noCache sizes st1
      in (if \<not> sp_found p then (Suc missing, outdated)
          else (missing, outdated \<or> \<not> sp_uptodate p), st2))"

definition isInstalled ::
  "(js_string \<Rightarrow> bool) \<Rightarrow> (js_string \<Rightarrow> js_string) \<Rightarrow> style \<Rightarrow> bool \<Rightarrow> emoji_state
     \<Rightarrow> int \<times> emoji_state" where
  "isInstalled fetchable resolvedUrl s noCache st =
     (if st_type s = System then (0, st)
      else
        (let expectedSizes = (if st_type s = Raster then map Some rasterSizes else [None]);
             ((missing, outdated), st') = check_sizes fetchable resolvedUrl s noCache expectedSizes st
         in (if missing = length expectedSizes then - 1
             else if missing > 0 then (if outdated then 3 else 1)
             else if outdated then 2 else 0, st')))"

section \<open>Parse settings\<close>

record parse_settings =
  ps_use_system :: bool
  ps_style_path :: js_string
  ps_effective_size :: nat

text \<open>The last of the sizes that is large enough; \<open>None\<close> is the initial \<open>-1\<close>.\<close>

definition source_size :: "nat \<Rightarrow> nat option" where
  "source_size effective =
     fold (\<lambda>r acc. if r \<ge> effective then Some r else acc) rasterSizes None"

definition raster_choice :: "nat \<Rightarrow> nat \<times> nat" where
  "raster_choice wanted =
     (let effective = (if wanted > hd rasterSizes then hd rasterSizes else wanted);
          source = (case source_size effective of None \<Rightarrow> last rasterSizes | Some r \<Rightarrow> r)
      in (source, if effective > source then source else effective))"

definition wanted_size :: "style \<Rightarrow> nat \<Rightarrow> nat \<Rightarrow> bool \<Rightarrow> nat" where
  "wanted_size s px maxRasterSize noGrow =
     (if st_type s = Raster \<and> maxRasterSize > 0 then maxRasterSize
      else if noGrow then px else rounded_115 px)"

definition getParseSettings ::
  "(js_string \<Rightarrow> bool) \<Rightarrow> (js_string \<Rightarrow> js_string) \<Rightarrow> style \<Rightarrow> nat \<Rightarrow> nat \<Rightarrow> bool \<Rightarrow> bool
     \<Rightarrow> emoji_state \<Rightarrow> parse_settings \<times> emoji_state" where
  "getParseSettings fetchable resolvedUrl s px maxRasterSize noGrow noCache st =
     (let wanted = wanted_size s px maxRasterSize noGrow;
          settings = (\<lambda>path effective.
            \<lparr> ps_use_system = (st_type s = System \<or> path = []), ps_style_path = path,
              ps_effective_size = effective \<rparr>)
      in case st_type s of
           Raster \<Rightarrow>
             (let cacheKey = st_key s @ js ''-'' @ to_string 10 wanted in
              case (if noCache then None else rasterSizesCache st cacheKey) of
                Some cached \<Rightarrow> (settings (re_path cached) (re_effective cached), st)
              | None \<Rightarrow>
                  (let (source, effective) = raster_choice wanted;
                       (p, st1) = getStylePath fetchable resolvedUrl s (Some source) noCache st
                   in (settings (sp_path p) effective,
                       st1\<lparr>rasterSizesCache := (rasterSizesCache st1)
                             (cacheKey \<mapsto> \<lparr> re_source = source, re_effective = effective,
                                             re_path = sp_path p \<rparr>)\<rparr>)))
         | System \<Rightarrow> (settings [] wanted, st)
         | Vector \<Rightarrow>
             (let (p, st1) = getStylePath fetchable resolvedUrl s None noCache st
              in (settings (sp_path p) wanted, st1)))"

section \<open>Replacing\<close>

definition UFE0F :: nat where
  "UFE0F = 65039"

definition U200D :: nat where
  "U200D = 8205"

text \<open>
  \<open>String.replace\<close> with a global pattern: the pieces of the text, plain code units and matches.
\<close>

datatype piece = Plain nat | Match js_string

function pieces :: "(js_string \<Rightarrow> nat) \<Rightarrow> js_string \<Rightarrow> piece list" where
  "pieces emoji_at [] = []"
| "pieces emoji_at (c # cs) =
     (let n = emoji_at (c # cs) in
      if n = 0 then Plain c # pieces emoji_at cs
      else Match (take n (c # cs)) # pieces emoji_at (drop (n - 1) cs))"
  by pat_completeness auto

termination
  by (relation "measure (\<lambda>(_, s). length s)") auto

definition replace :: "(js_string \<Rightarrow> nat) \<Rightarrow> (js_string \<Rightarrow> js_string) \<Rightarrow> js_string \<Rightarrow> js_string" where
  "replace emoji_at callback s =
     concat (map (\<lambda>p. case p of Plain c \<Rightarrow> [c] | Match m \<Rightarrow> callback m) (pieces emoji_at s))"

text \<open>\<open>p\<close> is a pending lead surrogate, 0 when there is none.\<close>

fun code_points :: "nat \<Rightarrow> js_string \<Rightarrow> nat list" where
  "code_points p [] = []"
| "code_points p (c # cs) =
     (if p \<noteq> 0
      then (65536 + (p - 55296) * 1024 + c - 56320) # code_points 0 cs
      else if 55296 \<le> c \<and> c \<le> 56319 then code_points c cs
      else c # code_points 0 cs)"

definition toCodePoint :: "js_string \<Rightarrow> js_string" where
  "toCodePoint s = join (js ''-'') (map (to_string 16) (code_points 0 s))"

definition grabTheRightIcon :: "js_string \<Rightarrow> js_string" where
  "grabTheRightIcon rawText =
     toCodePoint (if U200D \<notin> set rawText then filter (\<lambda>c. c \<noteq> UFE0F) rawText else rawText)"

record parse_options =
  po_callback :: "js_string \<Rightarrow> js_string option"
  po_size :: nat
  po_include_plain :: bool
  po_as_markup :: bool

record parsed =
  emojiCount :: nat
  plainCount :: nat
  parsed_text :: js_string

definition markup :: "js_string \<Rightarrow> nat \<Rightarrow> js_string" where
  "markup src px =
     js ''<img src='' @ [34] @ src @ [34] @ js '' align='' @ [34] @ js ''middle'' @ [34]
     @ js '' width='' @ [34] @ to_string 10 px @ [34] @ js '' height='' @ [34] @ to_string 10 px
     @ [34] @ js ''/>''"

definition replacement :: "parse_options \<Rightarrow> js_string \<Rightarrow> js_string" where
  "replacement opts rawText =
     (let iconId = grabTheRightIcon rawText in
      case po_callback opts iconId of
        None \<Rightarrow> (if po_include_plain opts then rawText else [])
      | Some src \<Rightarrow>
          if iconId \<noteq> [] \<and> src \<noteq> []
          then (if po_as_markup opts then markup src (po_size opts) else src)
          else (if po_include_plain opts then rawText else []))"

definition is_match :: "piece \<Rightarrow> bool" where
  "is_match p = (case p of Plain _ \<Rightarrow> False | Match _ \<Rightarrow> True)"

definition parseString :: "(js_string \<Rightarrow> nat) \<Rightarrow> js_string \<Rightarrow> parse_options \<Rightarrow> parsed" where
  "parseString emoji_at str opts =
     \<lparr> emojiCount = length (filter is_match (pieces emoji_at str)),
       plainCount = length (replace emoji_at (\<lambda>_. []) str),
       parsed_text = replace emoji_at (replacement opts) str \<rparr>"

definition parse ::
  "(js_string \<Rightarrow> nat) \<Rightarrow> (js_string \<Rightarrow> bool) \<Rightarrow> (js_string \<Rightarrow> js_string) \<Rightarrow> js_string \<Rightarrow> nat
     \<Rightarrow> style option \<Rightarrow> bool \<Rightarrow> nat \<Rightarrow> bool \<Rightarrow> bool \<Rightarrow> emoji_state \<Rightarrow> parsed option \<times> emoji_state" where
  "parse emoji_at fetchable resolvedUrl what px so noGrow maxRasterSize includePlain asMarkup st =
     (case so of
        None \<Rightarrow> (None, st)
      | Some s \<Rightarrow>
          (let (settings, st1) = getParseSettings fetchable resolvedUrl s px maxRasterSize noGrow False st;
               opts = \<lparr> po_callback = (\<lambda>icon.
                          if ps_use_system settings then None
                          else Some (ps_style_path settings @ js ''/'' @ icon @ js ''.'' @ st_ext s)),
                        po_size = ps_effective_size settings, po_include_plain = includePlain,
                        po_as_markup = asMarkup \<rparr>
           in (Some (parseString emoji_at what opts), st1)))"

definition parseAsMarkup ::
  "(js_string \<Rightarrow> nat) \<Rightarrow> (js_string \<Rightarrow> bool) \<Rightarrow> (js_string \<Rightarrow> js_string) \<Rightarrow> js_string \<Rightarrow> nat
     \<Rightarrow> style option \<Rightarrow> bool \<Rightarrow> nat \<Rightarrow> emoji_state \<Rightarrow> parsed option \<times> emoji_state" where
  "parseAsMarkup emoji_at fetchable resolvedUrl what px so noGrow maxRasterSize st =
     parse emoji_at fetchable resolvedUrl what px so noGrow maxRasterSize True True st"

definition parseSingleUrl ::
  "(js_string \<Rightarrow> nat) \<Rightarrow> (js_string \<Rightarrow> bool) \<Rightarrow> (js_string \<Rightarrow> js_string) \<Rightarrow> js_string \<Rightarrow> nat
     \<Rightarrow> style option \<Rightarrow> bool \<Rightarrow> nat \<Rightarrow> emoji_state \<Rightarrow> parsed option \<times> emoji_state" where
  "parseSingleUrl emoji_at fetchable resolvedUrl what px so noGrow maxRasterSize st =
     parse emoji_at fetchable resolvedUrl what px so noGrow maxRasterSize False False st"

end
