(* ===== verification/EmojiProps.thy ===== *)
theory EmojiProps
  imports Emoji
begin

text \<open>
  Facts about the emoji replacement: the file names of the icons tell the emojis apart, a text is
  only ever changed where it has an emoji, raster images are never scaled up, and the caches do
  not change any answer.
\<close>

section \<open>Numbers as text\<close>

fun from_digits :: "nat \<Rightarrow> nat list \<Rightarrow> nat \<Rightarrow> nat" where
  "from_digits base [] acc = acc"
| "from_digits base (d # ds) acc = from_digits base ds (acc * base + d)"

lemma from_digits_append: "from_digits base (ds @ es) acc = from_digits base es (from_digits base ds acc)"
  by (induction ds arbitrary: acc) simp_all

lemma from_digits_digits: "2 \<le> base \<Longrightarrow> from_digits base (digits base n) 0 = n"
proof (induction base n rule: digits.induct)
  case (1 base n)
  show ?case
  proof (cases "n < base")
    case True
    then show ?thesis by (simp add: digits.simps[of base n])
  next
    case False
    then have "from_digits base (digits base (n div base)) 0 = n div base"
      using 1 by simp
    then show ?thesis
      using False 1(2) by (simp add: digits.simps[of base n] from_digits_append)
  qed
qed

lemma digits_bound: "2 \<le> base \<Longrightarrow> d \<in> set (digits base n) \<Longrightarrow> d < base"
proof (induction base n rule: digits.induct)
  case (1 base n)
  show ?case
  proof (cases "n < base")
    case True
    then show ?thesis using 1 by (simp add: digits.simps[of base n])
  next
    case False
    have "d \<in> set (digits base (n div base)) \<or> d = n mod base"
      using 1(2,3) False by (auto simp: digits.simps[of base n])
    then show ?thesis
      using 1(1)[of] 1(2) False by (auto simp: mod_less_divisor)
  qed
qed

lemma digits_nonempty: "digits base n \<noteq> []"
  by (subst digits.simps) simp

lemma digit_char_inj: "d < 36 \<Longrightarrow> e < 36 \<Longrightarrow> digit_char d = digit_char e \<Longrightarrow> d = e"
  by (auto simp: digit_char_def split: if_splits)

lemma to_string_inj:
  assumes "2 \<le> base" and "base \<le> 36" and "to_string base m = to_string base n"
  shows "m = n"
proof -
  have "inj_on digit_char (set (digits base m) \<union> set (digits base n))"
  proof (rule inj_onI)
    fix d e
    assume "d \<in> set (digits base m) \<union> set (digits base n)" "e \<in> set (digits base m) \<union> set (digits base n)"
      and eq: "digit_char d = digit_char e"
    then have "d < 36" "e < 36"
      using digits_bound[OF assms(1)] assms(2) by fastforce+
    then show "d = e"
      using eq by (rule digit_char_inj)
  qed
  then have "digits base m = digits base n"
    using assms(3) unfolding to_string_def by (rule map_inj_on[rotated])
  then show ?thesis
    using from_digits_digits[OF assms(1)] by metis
qed

lemma to_string_no_dash: "45 \<notin> set (to_string base n)"
  by (auto simp: to_string_def digit_char_def split: if_splits)

lemma to_string_nonempty: "to_string base n \<noteq> []"
  by (simp add: to_string_def digits_nonempty)

section \<open>Code points\<close>

definition utf16 :: "nat \<Rightarrow> js_string" where
  "utf16 cp = (if cp < 65536 then [cp]
               else [55296 + (cp - 65536) div 1024, 56320 + (cp - 65536) mod 1024])"

definition valid_cp :: "nat \<Rightarrow> bool" where
  "valid_cp cp = (cp < 1114112 \<and> \<not> (55296 \<le> cp \<and> cp \<le> 57343))"

lemma code_points_utf16:
  assumes "valid_cp cp"
  shows "code_points 0 (utf16 cp @ s) = cp # code_points 0 s"
proof (cases "cp < 65536")
  case True
  then show ?thesis using assms by (auto simp: utf16_def valid_cp_def)
next
  case False
  let ?hi = "55296 + (cp - 65536) div 1024"
  let ?lo = "56320 + (cp - 65536) mod 1024"
  have "cp - 65536 < 1024 * 1024"
    using assms False by (simp add: valid_cp_def)
  then have hi: "(cp - 65536) div 1024 < 1024"
    by (simp add: less_mult_imp_div_less)
  have eq: "65536 + (?hi - 55296) * 1024 + ?lo - 56320 = 65536 + ((cp - 65536) div 1024 * 1024 + (cp - 65536) mod 1024)"
    by simp
  also have "\<dots> = cp"
    using False by (simp only: div_mult_mod_eq)
  finally have "65536 + (?hi - 55296) * 1024 + ?lo - 56320 = cp" .
  moreover have "?hi \<noteq> 0" "55296 \<le> ?hi \<and> ?hi \<le> 56319"
    using hi by simp_all
  ultimately show ?thesis
    using False by (simp only: utf16_def if_False append_Cons append_Nil code_points.simps if_True simp_thms)
qed

lemma code_points_encode:
  "list_all valid_cp cps \<Longrightarrow> code_points 0 (concat (map utf16 cps)) = cps"
  by (induction cps) (simp_all add: code_points_utf16)

lemma join_Cons: "xs \<noteq> [] \<Longrightarrow> join sep (x # xs) = x @ sep @ join sep xs"
  by (cases xs) simp_all

lemma takeWhile_dash: "d \<notin> set x \<Longrightarrow> takeWhile (\<lambda>c. c \<noteq> d) (x @ d # r) = x \<and> takeWhile (\<lambda>c. c \<noteq> d) x = x"
  by (induction x) auto

lemma join_inj:
  assumes "\<forall>x\<in>set xs. d \<notin> set x \<and> x \<noteq> []" and "\<forall>y\<in>set ys. d \<notin> set y \<and> y \<noteq> []"
    and "join [d] xs = join [d] ys"
  shows "xs = ys"
  using assms
proof (induction xs arbitrary: ys)
  case Nil
  then show ?case
    by (cases ys; cases "tl ys") auto
next
  case (Cons x xs)
  have jx: "join [d] (x # xs) = x @ (if xs = [] then [] else d # join [d] xs)"
    by (cases xs) simp_all
  then obtain y ys' where ys: "ys = y # ys'"
    using Cons.prems by (cases ys) auto
  have jy: "join [d] (y # ys') = y @ (if ys' = [] then [] else d # join [d] ys')"
    by (cases ys') simp_all
  have eq: "x @ (if xs = [] then [] else d # join [d] xs) = y @ (if ys' = [] then [] else d # join [d] ys')"
    using Cons.prems(3) jx jy ys by simp
  have dash: "d \<notin> set x" "d \<notin> set y"
    using Cons.prems ys by auto
  have "takeWhile (\<lambda>c. c \<noteq> d) (x @ (if xs = [] then [] else d # join [d] xs)) = x"
    "takeWhile (\<lambda>c. c \<noteq> d) (y @ (if ys' = [] then [] else d # join [d] ys')) = y"
    using takeWhile_dash[OF dash(1)] takeWhile_dash[OF dash(2)] by simp_all
  then have "x = y"
    using eq by simp
  then have rest: "(if xs = [] then [] else d # join [d] xs) = (if ys' = [] then [] else d # join [d] ys')"
    using eq by simp
  then have "join [d] xs = join [d] ys'"
    by (simp split: if_splits)
  then have "xs = ys'"
    using Cons.prems(1,2) ys by (intro Cons.IH) simp_all
  then show ?case
    using \<open>x = y\<close> ys by simp
qed

lemma js_dash: "js ''-'' = [45]"
  by code_simp

section \<open>Pieces of a text\<close>

definition piece_text :: "piece \<Rightarrow> js_string" where
  "piece_text p = (case p of Plain c \<Rightarrow> [c] | Match m \<Rightarrow> m)"

lemma pieces_cover: "concat (map piece_text (pieces emoji_at s)) = s"
proof (induction emoji_at s rule: pieces.induct)
  case (1 emoji_at)
  then show ?case by simp
next
  case (2 emoji_at c cs)
  show ?case
  proof (cases "emoji_at (c # cs) = 0")
    case True
    then show ?thesis using 2(1) by (simp add: piece_text_def)
  next
    case False
    then obtain k where k: "emoji_at (c # cs) = Suc k"
      using not0_implies_Suc by blast
    then show ?thesis
      using 2(2) False by (simp add: piece_text_def)
  qed
qed

lemma replace_same: "replace emoji_at (\<lambda>m. m) s = s"
  using pieces_cover[of emoji_at s] by (simp add: replace_def piece_text_def[abs_def])

lemma plain_count: "length (replace emoji_at (\<lambda>_. []) s) = length (filter (\<lambda>p. \<not> is_match p) (pieces emoji_at s))"
proof -
  have "length (concat (map (\<lambda>p. case p of Plain c \<Rightarrow> [c] | Match m \<Rightarrow> []) ps)) = length (filter (\<lambda>p. \<not> is_match p) ps)"
    for ps by (induction ps) (auto simp: is_match_def split: piece.splits)
  then show ?thesis by (simp add: replace_def)
qed

section \<open>The caches\<close>

definition cache_key :: "style \<Rightarrow> js_string \<Rightarrow> js_string" where
  "cache_key s suffix = st_key s @ js ''-'' @ suffix"

lemma last_dash:
  assumes "a @ d # x = b @ d # y" and "d \<notin> set x" and "d \<notin> set y"
  shows "a = b \<and> x = y"
proof -
  have "rev x @ d # rev a = rev y @ d # rev b"
    using arg_cong[OF assms(1), of rev] by simp
  moreover have "takeWhile (\<lambda>c. c \<noteq> d) (rev x @ d # rev a) = rev x"
    "takeWhile (\<lambda>c. c \<noteq> d) (rev y @ d # rev b) = rev y"
    using takeWhile_dash[of d "rev x"] takeWhile_dash[of d "rev y"] assms(2,3) by simp_all
  ultimately have "rev x = rev y"
    by simp
  then show ?thesis
    using assms(1) by simp
qed

lemma size_suffix_no_dash: "45 \<notin> set (size_suffix px)"
proof (cases px)
  case None
  have "45 \<notin> set (js ''null'')" by code_simp
  then show ?thesis using None by (simp add: size_suffix_def)
next
  case (Some n)
  then show ?thesis using to_string_no_dash by (simp add: size_suffix_def)
qed

lemma to_string_not_null: "to_string 10 n \<noteq> js ''null''"
proof
  assume null: "to_string 10 n = js ''null''"
  have "js ''null'' = [110, 117, 108, 108]"
    by code_simp
  then have mem: "110 \<in> set (to_string 10 n)"
    by (simp add: null)
  have "c < 58" if "c \<in> set (to_string 10 n)" for c
    using that digits_bound[of 10] by (force simp: to_string_def digit_char_def)
  from this[OF mem] show False
    by simp
qed

lemma size_suffix_inj: "size_suffix a = size_suffix b \<Longrightarrow> a = b"
  using to_string_not_null to_string_inj[of 10] by (auto simp: size_suffix_def split: option.splits)

lemma cache_key_inj:
  assumes "cache_key s a = cache_key t b" and "45 \<notin> set a" and "45 \<notin> set b"
  shows "st_key s = st_key t \<and> a = b"
  using assms last_dash[of "st_key s" 45 a "st_key t" b] by (simp add: cache_key_def js_dash)

lemma cache_key_not_undefined: "cache_key s a \<noteq> js ''undefined''"
proof
  assume "cache_key s a = js ''undefined''"
  moreover have "45 \<in> set (cache_key s a)"
    by (simp add: cache_key_def js_dash)
  moreover have "45 \<notin> set (js ''undefined'')"
    by code_simp
  ultimately show False by simp
qed

definition expected_path ::
  "(js_string \<Rightarrow> bool) \<Rightarrow> (js_string \<Rightarrow> js_string) \<Rightarrow> emoji_state \<Rightarrow> style \<Rightarrow> nat option \<Rightarrow> style_path" where
  "expected_path f r st s px =
     (if st_type s = System then not_found
      else (case find_version f (version_path r st s px) (st_ext s) 0 (st_versions s) of
              None \<Rightarrow> not_found | Some p \<Rightarrow> p))"

definition expected_entry ::
  "(js_string \<Rightarrow> bool) \<Rightarrow> (js_string \<Rightarrow> js_string) \<Rightarrow> emoji_state \<Rightarrow> style \<Rightarrow> nat \<Rightarrow> raster_entry" where
  "expected_entry f r st s wanted =
     (let (source, effective) = raster_choice wanted in
      \<lparr> re_source = source, re_effective = effective,
        re_path = sp_path (expected_path f r st s (Some source)) \<rparr>)"

definition caches_ok ::
  "(js_string \<Rightarrow> bool) \<Rightarrow> (js_string \<Rightarrow> js_string) \<Rightarrow> style list \<Rightarrow> emoji_state \<Rightarrow> bool" where
  "caches_ok f r styles st \<longleftrightarrow>
     (\<forall>s\<in>set styles. \<forall>px p. styleStatusCache st (cache_key s (size_suffix px)) = Some p \<longrightarrow>
         p = expected_path f r st s px)
     \<and> (\<forall>s\<in>set styles. \<forall>w e. rasterSizesCache st (cache_key s (to_string 10 w)) = Some e \<longrightarrow>
         e = expected_entry f r st s w)"

definition same_dirs :: "emoji_state \<Rightarrow> emoji_state \<Rightarrow> bool" where
  "same_dirs st st' = (dataBaseDirectory st' = dataBaseDirectory st \<and> emojiSubDirectory st' = emojiSubDirectory st)"

lemma expected_same:
  assumes "same_dirs st st'"
  shows "expected_path f r st' = expected_path f r st" and "expected_entry f r st' = expected_entry f r st"
proof -
  have "version_path r st' = version_path r st"
    using assms by (simp add: version_path_def same_dirs_def fun_eq_iff)
  then show "expected_path f r st' = expected_path f r st"
    by (intro ext) (simp only: expected_path_def)
  then show "expected_entry f r st' = expected_entry f r st"
    by (simp add: expected_entry_def fun_eq_iff)
qed

lemma getStylePath_ok:
  assumes ok: "caches_ok f r styles st" and keys: "distinct (map st_key styles)" and s: "s \<in> set styles"
  shows "fst (getStylePath f r s px nc st) = expected_path f r st s px
         \<and> caches_ok f r styles (snd (getStylePath f r s px nc st))
         \<and> same_dirs st (snd (getStylePath f r s px nc st))
         \<and> rasterSizesCache (snd (getStylePath f r s px nc st)) = rasterSizesCache st"
proof -
  let ?key = "cache_key s (size_suffix px)"
  have put: "caches_ok f r styles (st\<lparr>styleStatusCache := (styleStatusCache st)(k \<mapsto> p)\<rparr>)"
    if k: "k = js ''undefined'' \<or> (k = ?key \<and> p = expected_path f r st s px)" for k p
  proof -
    let ?st' = "st\<lparr>styleStatusCache := (styleStatusCache st)(k \<mapsto> p)\<rparr>"
    have "same_dirs st ?st'"
      by (simp add: same_dirs_def)
    note ex = expected_same[OF this, of f r]
    have "t = s \<and> qx = px" if "t \<in> set styles" "cache_key t (size_suffix qx) = ?key" for t qx
      using cache_key_inj[OF that(2) size_suffix_no_dash size_suffix_no_dash] that(1) s keys size_suffix_inj
      by (auto simp: distinct_map inj_on_def)
    then show ?thesis
      using ok k cache_key_not_undefined unfolding caches_ok_def ex by (auto split: if_splits) 
  qed
  show ?thesis
  proof (cases "if nc then None else styleStatusCache st ?key")
    case (Some p)
    then have "p = expected_path f r st s px"
      using ok s by (auto simp: caches_ok_def split: if_splits)
    then show ?thesis
      using Some ok by (simp add: getStylePath_def cache_key_def[symmetric] same_dirs_def)
  next
    case None
    let ?found = "find_version f (version_path r st s px) (st_ext s) 0 (st_versions s)"
    have run: "getStylePath f r s px nc st =
        (if st_type s = System
         then (not_found, st\<lparr>styleStatusCache := (styleStatusCache st)(js ''undefined'' \<mapsto> not_found)\<rparr>)
         else (case ?found of
                 Some p \<Rightarrow> (p, st\<lparr>styleStatusCache := (styleStatusCache st)(?key \<mapsto> p)\<rparr>)
               | None \<Rightarrow> (not_found, st\<lparr>pathErrorShown := True\<rparr>)))"
      unfolding getStylePath_def Let_def cache_key_def[symmetric] None by simp
    have "same_dirs st (st\<lparr>pathErrorShown := True\<rparr>)"
      by (simp add: same_dirs_def)
    then have shown: "caches_ok f r styles (st\<lparr>pathErrorShown := True\<rparr>)"
      using ok unfolding caches_ok_def by (simp add: expected_same)
    consider (sys) "st_type s = System" | (none) "st_type s \<noteq> System" "?found = None"
      | (some) p where "st_type s \<noteq> System" "?found = Some p"
      by blast
    then show ?thesis
    proof cases
      case sys
      then show ?thesis
        using put[of "js ''undefined''" not_found] by (simp add: run expected_path_def same_dirs_def)
    next
      case none
      then show ?thesis
        using shown by (simp add: run expected_path_def same_dirs_def)
    next
      case (some p)
      then have "p = expected_path f r st s px"
        by (simp add: expected_path_def)
      then show ?thesis
        using some put[of ?key p] by (simp add: run same_dirs_def)
    qed
  qed
qed

lemma same_dirs_trans: "same_dirs a b \<Longrightarrow> same_dirs b c \<Longrightarrow> same_dirs a c"
  by (simp add: same_dirs_def)

lemma same_dirs_refl: "same_dirs a a"
  by (simp add: same_dirs_def)

definition expected_settings ::
  "(js_string \<Rightarrow> bool) \<Rightarrow> (js_string \<Rightarrow> js_string) \<Rightarrow> emoji_state \<Rightarrow> style \<Rightarrow> nat \<Rightarrow> parse_settings" where
  "expected_settings f r st s wanted =
     (let path = (case st_type s of Raster \<Rightarrow> re_path (expected_entry f r st s wanted)
                    | System \<Rightarrow> [] | Vector \<Rightarrow> sp_path (expected_path f r st s None));
          effective = (case st_type s of Raster \<Rightarrow> re_effective (expected_entry f r st s wanted) | _ \<Rightarrow> wanted)
      in \<lparr> ps_use_system = (st_type s = System \<or> path = []), ps_style_path = path,
           ps_effective_size = effective \<rparr>)"

lemma getParseSettings_ok:
  assumes ok: "caches_ok f r styles st" and keys: "distinct (map st_key styles)" and s: "s \<in> set styles"
  shows "fst (getParseSettings f r s px m ng nc st) = expected_settings f r st s (wanted_size s px m ng)
         \<and> caches_ok f r styles (snd (getParseSettings f r s px m ng nc st))
         \<and> same_dirs st (snd (getParseSettings f r s px m ng nc st))"
proof (cases "st_type s")
  case Raster
  let ?w = "wanted_size s px m ng"
  let ?key = "cache_key s (to_string 10 ?w)"
  show ?thesis
  proof (cases "if nc then None else rasterSizesCache st ?key")
    case (Some e)
    then have "e = expected_entry f r st s ?w"
      using ok s by (auto simp: caches_ok_def split: if_splits)
    then show ?thesis
      using Some Raster ok
      by (simp add: getParseSettings_def cache_key_def[symmetric] expected_settings_def same_dirs_def Let_def)
  next
    case None
    obtain source effective where choice: "raster_choice ?w = (source, effective)"
      by (meson surj_pair)
    obtain p st1 where path: "getStylePath f r s (Some source) nc st = (p, st1)"
      by (meson surj_pair)
    note res = getStylePath_ok[OF ok keys s, of "Some source" nc, unfolded path, simplified]
    let ?e = "\<lparr> re_source = source, re_effective = effective, re_path = sp_path p \<rparr>"
    let ?st' = "st1\<lparr>rasterSizesCache := (rasterSizesCache st1)(?key \<mapsto> ?e)\<rparr>"
    have run: "getParseSettings f r s px m ng nc st
        = (\<lparr> ps_use_system = (sp_path p = []), ps_style_path = sp_path p, ps_effective_size = effective \<rparr>, ?st')"
      unfolding getParseSettings_def Let_def cache_key_def[symmetric] None by (simp add: Raster choice path)
    have e: "?e = expected_entry f r st s ?w"
      by (simp add: expected_entry_def choice res)
    have same: "same_dirs st ?st'" "same_dirs st st1"
      using res by (simp_all add: same_dirs_def)
    note ex = expected_same[OF same(1), of f r] expected_same[OF same(2), of f r]
    have "t = s \<and> w = ?w" if "t \<in> set styles" "cache_key t (to_string 10 w) = ?key" for t w
      using cache_key_inj[OF that(2) to_string_no_dash to_string_no_dash] that(1) s keys to_string_inj[of 10 w]
      by (auto simp: distinct_map inj_on_def)
    then have "caches_ok f r styles ?st'"
      using res e unfolding caches_ok_def ex by (auto split: if_splits)
    then show ?thesis
      using same(1) e by (simp add: run expected_settings_def Raster expected_entry_def choice Let_def)
  qed
next
  case System
  then show ?thesis
    using ok by (simp add: getParseSettings_def expected_settings_def same_dirs_def Let_def)
next
  case Vector
  then show ?thesis
    using getStylePath_ok[OF ok keys s, of None nc]
    by (auto simp: getParseSettings_def expected_settings_def Let_def split: prod.splits)
qed

lemma check_sizes_ok:
  assumes keys: "distinct (map st_key styles)" and s: "s \<in> set styles"
  shows "caches_ok f r styles st \<Longrightarrow>
     fst (check_sizes f r s nc pxs st)
       = (length (filter (\<lambda>px. \<not> sp_found (expected_path f r st s px)) pxs),
          list_ex (\<lambda>px. sp_found (expected_path f r st s px) \<and> \<not> sp_uptodate (expected_path f r st s px)) pxs)
     \<and> caches_ok f r styles (snd (check_sizes f r s nc pxs st))
     \<and> same_dirs st (snd (check_sizes f r s nc pxs st))"
proof (induction pxs arbitrary: st)
  case Nil
  then show ?case by (simp add: same_dirs_refl)
next
  case (Cons px pxs)
  obtain p st1 where path: "getStylePath f r s px nc st = (p, st1)"
    by (meson surj_pair)
  note res = getStylePath_ok[OF Cons.prems keys s, of px nc, unfolded path, simplified]
  have same: "same_dirs st st1"
    using res by simp
  have "fst (check_sizes f r s nc pxs st1)
       = (length (filter (\<lambda>px. \<not> sp_found (expected_path f r st s px)) pxs),
          list_ex (\<lambda>px. sp_found (expected_path f r st s px) \<and> \<not> sp_uptodate (expected_path f r st s px)) pxs)
     \<and> caches_ok f r styles (snd (check_sizes f r s nc pxs st1))
     \<and> same_dirs st1 (snd (check_sizes f r s nc pxs st1))"
    using Cons.IH[of st1] res expected_same(1)[OF same, of f r] by simp
  then show ?case
    using path res same_dirs_trans[OF same] by (auto simp: Let_def split: prod.splits)
qed

text \<open>The operations the user interface performs, in any order.\<close>

inductive emoji_step ::
  "(js_string \<Rightarrow> nat) \<Rightarrow> (js_string \<Rightarrow> bool) \<Rightarrow> (js_string \<Rightarrow> js_string) \<Rightarrow> style list
     \<Rightarrow> emoji_state \<Rightarrow> emoji_state \<Rightarrow> bool"
  for m f r styles where
  es_flush: "emoji_step m f r styles st (flushCaches st)"
| es_installed: "s \<in> set styles \<Longrightarrow> emoji_step m f r styles st (snd (isInstalled f r s nc st))"
| es_parse: "s \<in> set styles \<Longrightarrow>
     emoji_step m f r styles st (snd (parse m f r what px (Some s) ng mx plain mark st))"

lemma isInstalled_ok:
  assumes "caches_ok f r styles st" and "distinct (map st_key styles)" and "s \<in> set styles"
  shows "caches_ok f r styles (snd (isInstalled f r s nc st)) \<and> same_dirs st (snd (isInstalled f r s nc st))"
  using check_sizes_ok[OF assms(2,3,1), of nc "if st_type s = Raster then map Some rasterSizes else [None]"] assms(1)
  by (auto simp: isInstalled_def same_dirs_refl Let_def split: prod.splits)

lemma parse_ok:
  assumes "caches_ok f r styles st" and "distinct (map st_key styles)" and "s \<in> set styles"
  shows "caches_ok f r styles (snd (parse m f r what px (Some s) ng mx plain mark st))
         \<and> same_dirs st (snd (parse m f r what px (Some s) ng mx plain mark st))"
  using getParseSettings_ok[OF assms, of px mx ng False]
  by (auto simp: parse_def Let_def split: prod.splits)

lemma emoji_steps_ok:
  assumes "(emoji_step m f r styles)\<^sup>*\<^sup>* st st'" and "caches_ok f r styles st" and keys: "distinct (map st_key styles)"
  shows "caches_ok f r styles st' \<and> same_dirs st st'"
  using assms(1,2)
proof (induction rule: rtranclp_induct)
  case base
  then show ?case by (simp add: same_dirs_refl)
next
  case (step st1 st2)
  then have ok: "caches_ok f r styles st1" "same_dirs st st1"
    by simp_all
  have "caches_ok f r styles st2 \<and> same_dirs st1 st2"
    using step(2)
  proof cases
    case es_flush
    then show ?thesis by (simp add: flushCaches_def caches_ok_def same_dirs_def)
  next
    case es_installed
    then show ?thesis using isInstalled_ok[OF ok(1) keys] by simp
  next
    case es_parse
    then show ?thesis using parse_ok[OF ok(1) keys] by simp
  qed
  then show ?case
    using ok same_dirs_trans by blast
qed

section \<open>Properties\<close>

text \<open>
  The code points that make up the name of the icon: the variation selector is left out unless the
  sequence is joined.
\<close>

definition icon_code_points :: "nat list \<Rightarrow> nat list" where
  "icon_code_points cps = (if U200D \<in> set cps then cps else filter (\<lambda>cp. cp \<noteq> UFE0F) cps)"

lemma utf16_low:
  assumes "valid_cp cp" and "u < 55296 \<or> 57343 < u" and "u < 65536"
  shows "u \<in> set (utf16 cp) \<longleftrightarrow> cp = u"
proof (cases "cp < 65536")
  case True
  then show ?thesis
    by (auto simp: utf16_def)
next
  case False
  define k where "k = cp - 65536"
  have "k < 1048576"
    using assms(1) False by (simp add: valid_cp_def k_def)
  then have "k div 1024 < 1024" "k mod 1024 < 1024"
    by (simp_all add: less_mult_imp_div_less)
  moreover have "utf16 cp = [55296 + k div 1024, 56320 + k mod 1024]"
    using False by (simp add: utf16_def k_def)
  ultimately show ?thesis
    using assms(2,3) False by auto
qed

lemma filter_utf16:
  "valid_cp cp \<Longrightarrow> filter (\<lambda>u. u \<noteq> UFE0F) (utf16 cp) = (if cp = UFE0F then [] else utf16 cp)"
  using utf16_low[of cp UFE0F] by (auto simp: UFE0F_def utf16_def filter_id_conv)

lemma icon_name:
  assumes "list_all valid_cp cps"
  shows "grabTheRightIcon (concat (map utf16 cps)) = join (js ''-'') (map (to_string 16) (icon_code_points cps))"
proof -
  have joined: "U200D \<in> set (concat (map utf16 cps)) \<longleftrightarrow> U200D \<in> set cps"
    using assms utf16_low[of _ U200D] by (auto simp: list_all_iff U200D_def)
  have "filter (\<lambda>c. c \<noteq> UFE0F) (concat (map utf16 cps)) = concat (map utf16 (filter (\<lambda>cp. cp \<noteq> UFE0F) cps))"
    using assms by (induction cps) (simp_all add: filter_utf16)
  then have "(if U200D \<notin> set (concat (map utf16 cps)) then filter (\<lambda>c. c \<noteq> UFE0F) (concat (map utf16 cps))
      else concat (map utf16 cps)) = concat (map utf16 (icon_code_points cps))"
    using joined by (simp add: icon_code_points_def)
  moreover have "list_all valid_cp (icon_code_points cps)"
    using assms by (auto simp: icon_code_points_def list_all_iff)
  ultimately show ?thesis
    by (simp add: grabTheRightIcon_def toCodePoint_def code_points_encode)
qed

text \<open>
  C19. Icons tell emojis apart.  The name of the icon of a sequence of code points is their
  hexadecimal numbers in order, without the variation selector U+FE0F unless a joiner U+200D
  occurs; and two sequences of valid code points have the same icon exactly when they are the same
  up to those selectors.
\<close>

theorem icon_names_tell_apart:
  assumes "list_all valid_cp cps" and "list_all valid_cp cps'"
  shows "grabTheRightIcon (concat (map utf16 cps)) = join (js ''-'') (map (to_string 16) (icon_code_points cps))
         \<and> (grabTheRightIcon (concat (map utf16 cps)) = grabTheRightIcon (concat (map utf16 cps'))
              \<longleftrightarrow> icon_code_points cps = icon_code_points cps')"
proof -
  have parts: "\<forall>x\<in>set (map (to_string 16) xs). 45 \<notin> set x \<and> x \<noteq> []" for xs
    using to_string_no_dash to_string_nonempty by simp
  have "inj (to_string 16)"
    using to_string_inj[of 16] by (auto intro!: injI)
  then have "xs = ys" if "join [45] (map (to_string 16) xs) = join [45] (map (to_string 16) ys)" for xs ys
    using join_inj[OF parts parts that] by (simp add: inj_map_eq_map)
  then show ?thesis
    using icon_name[OF assms(1)] icon_name[OF assms(2)] by (auto simp: js_dash)
qed

text \<open>A red heart has one icon with and without the selector; the technologist another than the laptop.\<close>

theorem icon_names_tell_apart_witness:
  "grabTheRightIcon (concat (map utf16 [10084, 65039])) = grabTheRightIcon (concat (map utf16 [10084]))
   \<and> grabTheRightIcon (concat (map utf16 [128104, 8205, 128187])) = js ''1f468-200d-1f4bb''
   \<and> grabTheRightIcon (concat (map utf16 [128104, 8205, 128187])) \<noteq> grabTheRightIcon (concat (map utf16 [128187]))"
proof -
  have valid: "list_all valid_cp [128104, 8205, 128187]" "list_all valid_cp [128187]"
      "list_all valid_cp [10084, 65039]" "list_all valid_cp [10084]"
    by (simp_all add: valid_cp_def)
  have cps: "icon_code_points [128104, 8205, 128187] = [128104, 8205, 128187]" "icon_code_points [128187] = [128187]"
      "icon_code_points [10084, 65039] = icon_code_points [10084]"
    by (simp_all add: icon_code_points_def U200D_def UFE0F_def)
  have "js ''1f468-200d-1f4bb'' = [49, 102, 52, 54, 56, 45, 50, 48, 48, 100, 45, 49, 102, 52, 98, 98]"
    by code_simp
  then have "join (js ''-'') (map (to_string 16) [128104, 8205, 128187]) = js ''1f468-200d-1f4bb''"
    by (simp add: to_string_def digits.simps digit_char_def js_dash)
  moreover have "[128104::nat, 8205, 128187] \<noteq> [128187]"
    by simp
  ultimately show ?thesis
    using icon_names_tell_apart[OF valid(1,2)] conjunct2[OF icon_names_tell_apart[OF valid(3,4)]] unfolding cps
    by (metis (no_types))
qed

text \<open>
  The system font.  With the style of the system font, or one that is not installed, marking
  up a text returns it unchanged; its emojis are counted all the same, and the rest of its code
  units are the plain ones.
\<close>

theorem system_font_unchanged:
  assumes "ps_use_system (fst (getParseSettings f r s px mx ng False st))"
  shows "\<exists>res. fst (parseAsMarkup emoji_at f r what px (Some s) ng mx st) = Some res
           \<and> parsed_text res = what
           \<and> emojiCount res = length (filter is_match (pieces emoji_at what))
           \<and> plainCount res + sum_list (map (length \<circ> piece_text) (filter is_match (pieces emoji_at what)))
               = length what"
proof -
  have "replacement \<lparr> po_callback = \<lambda>icon. None, po_size = n, po_include_plain = True, po_as_markup = True \<rparr>
      = (\<lambda>m. m)" for n
    by (simp add: replacement_def fun_eq_iff)
  then have replaced: "replace emoji_at (replacement \<lparr> po_callback = \<lambda>icon. None, po_size = n,
      po_include_plain = True, po_as_markup = True \<rparr>) what = what" for n
    by (simp add: replace_same)
  have "length (filter (\<lambda>p. \<not> is_match p) ps) + sum_list (map (length \<circ> piece_text) (filter is_match ps))
      = length (concat (map piece_text ps))" for ps
    by (induction ps) (auto simp: is_match_def piece_text_def split: piece.splits)
  then have "plainCount (parseString emoji_at what opts)
      + sum_list (map (length \<circ> piece_text) (filter is_match (pieces emoji_at what))) = length what" for opts
    by (simp add: parseString_def plain_count pieces_cover)
  note counts = this
  obtain settings st1 where "getParseSettings f r s px mx ng False st = (settings, st1)"
    by (meson surj_pair)
  then have "fst (parseAsMarkup emoji_at f r what px (Some s) ng mx st)
      = Some (parseString emoji_at what \<lparr> po_callback = \<lambda>icon. None, po_size = ps_effective_size settings,
                po_include_plain = True, po_as_markup = True \<rparr>)"
    using assms by (simp add: parseAsMarkup_def parse_def)
  moreover have "parsed_text (parseString emoji_at what \<lparr> po_callback = \<lambda>icon. None,
      po_size = ps_effective_size settings, po_include_plain = True, po_as_markup = True \<rparr>) = what"
    by (simp add: parseString_def replaced)
  moreover have "emojiCount (parseString emoji_at what opts) = length (filter is_match (pieces emoji_at what))" for opts
    by (simp add: parseString_def)
  ultimately show ?thesis
    using counts by blast
qed

definition heart_at :: "js_string \<Rightarrow> nat" where
  "heart_at s = (if take 2 s = [10084, 65039] then 2 else if take 1 s = [10084] then 1 else 0)"

theorem system_font_unchanged_witness:
  "\<exists>res. fst (parseAsMarkup heart_at (\<lambda>_. False) (\<lambda>p. p) [65, 10084, 65039, 66] 20
             (Some (snd (Style ! 0))) False 0 initial_state) = Some res
         \<and> parsed_text res = [65, 10084, 65039, 66] \<and> emojiCount res = 1"
proof -
  have none: "find_version (\<lambda>_. False) g e i vs = None" for g e i vs
    by (induction vs arbitrary: i) simp_all
  have "ps_use_system (fst (getParseSettings (\<lambda>_. False) (\<lambda>p. p) (snd (Style ! 0)) 20 0 False False initial_state))"
    by (simp add: getParseSettings_def getStylePath_def none Let_def Style_def mk_style_def initial_state_def
        not_found_def)
  then obtain res where "fst (parseAsMarkup heart_at (\<lambda>_. False) (\<lambda>p. p) [65, 10084, 65039, 66] 20
             (Some (snd (Style ! 0))) False 0 initial_state) = Some res"
    "parsed_text res = [65, 10084, 65039, 66]"
    "emojiCount res = length (filter is_match (pieces heart_at [65, 10084, 65039, 66]))"
    using system_font_unchanged by blast
  moreover have "length (filter is_match (pieces heart_at [65, 10084, 65039, 66])) = 1"
    by (simp add: heart_at_def is_match_def)
  ultimately show ?thesis
    by (intro exI[of _ res]) simp
qed

text \<open>
  Raster images are never scaled up.  The source is one of the two sizes, at least as large
  as the size it is shown in and the smallest such; the size it is shown in is the one that was
  asked for, up to the largest source.
\<close>

theorem raster_never_scaled_up:
  assumes "raster_choice wanted = (source, effective)"
  shows "source \<in> set rasterSizes \<and> effective \<le> source \<and> effective = min wanted 144
         \<and> (\<forall>r\<in>set rasterSizes. effective \<le> r \<longrightarrow> source \<le> r)"
  using assms
  by (auto simp: raster_choice_def source_size_def rasterSizes_def Let_def split: if_splits)

theorem raster_never_scaled_up_witness: "fst (raster_choice 60) = 72 \<and> snd (raster_choice 200) \<le> 144"
proof -
  have "raster_choice 60 = (72, 60)" "raster_choice 200 = (144, 144)"
    by code_simp+
  then show ?thesis
    using raster_never_scaled_up[of 200 144 144] raster_never_scaled_up[of 60 72 60] by simp
qed

text \<open>
  C20. The caches are transparent.  As long as the installed files stay the same, after any
  sequence of operations on styles with different keys the parse settings are those a fresh look
  at the files gives, the cache flushed and bypassed.
\<close>

theorem caches_transparent:
  assumes "distinct (map st_key styles)" and "s \<in> set styles"
    and "(emoji_step m f r styles)\<^sup>*\<^sup>* (flushCaches st0) st"
  shows "fst (getParseSettings f r s px mx ng nc st)
           = fst (getParseSettings f r s px mx ng True (flushCaches st0))"
proof -
  have start: "caches_ok f r styles (flushCaches st0)"
    by (simp add: caches_ok_def flushCaches_def)
  have ok: "caches_ok f r styles st" "same_dirs (flushCaches st0) st"
    using emoji_steps_ok[OF assms(3) start assms(1)] by simp_all
  have "expected_settings f r st = expected_settings f r (flushCaches st0)"
    by (intro ext) (simp only: expected_settings_def expected_same[OF ok(2)])
  then show ?thesis
    using getParseSettings_ok[OF ok(1) assms(1,2)] getParseSettings_ok[OF start assms(1,2)] by metis
qed

theorem caches_transparent_witness:
  "fst (getParseSettings (\<lambda>_. True) (\<lambda>p. p) (snd (Style ! 3)) 20 0 False False
          (snd (isInstalled (\<lambda>_. True) (\<lambda>p. p) (snd (Style ! 3)) False (flushCaches initial_state))))
     = fst (getParseSettings (\<lambda>_. True) (\<lambda>p. p) (snd (Style ! 3)) 20 0 False True (flushCaches initial_state))"
proof -
  let ?styles = "map snd Style"
  have "distinct (map st_key ?styles)"
    by code_simp
  moreover have "snd (Style ! 3) \<in> set ?styles"
    by (simp add: Style_def)
  moreover have "(emoji_step heart_at (\<lambda>_. True) (\<lambda>p. p) ?styles)\<^sup>*\<^sup>* (flushCaches initial_state)
      (snd (isInstalled (\<lambda>_. True) (\<lambda>p. p) (snd (Style ! 3)) False (flushCaches initial_state)))"
    using calculation by (intro r_into_rtranclp es_installed)
  ultimately show ?thesis
    by (rule caches_transparent)
qed

end
