(* ===== verification/Countries.thy ===== *)
theory Countries
  imports "HOL-Library.List_Lexorder" "HOL-Library.Char_ord" "HOL-Library.Product_Lexorder"
    "HOL-Library.Multiset"
begin

text \<open>
  The country tables of the registration and settings pages (\<open>qml/js/countries.js\<close>,
  \<open>qml/js/countries_iso_only.js\<close>), and how the second is generated from the first
  (\<open>qml/js/countries.js.md\<close>).  Texts are their UTF-8 bytes.
\<close>

section \<open>The tables\<close>

record calling_code =
  cc_name :: string
  cc_iso :: string
  cc_prefix :: string

definition cc :: "string \<Rightarrow> string \<Rightarrow> string \<Rightarrow> calling_code" where
  "cc n i p = \<lparr> cc_name = n, cc_iso = i, cc_prefix = p \<rparr>"

definition calling_codes_1 :: "calling_code list" where
  "calling_codes_1 =
     [cc ''Afghanistan'' ''AF'' ''+93'',
      cc ([CHR 0xC3, CHR 0x85] @ ''land Islands'') ''AX'' ''+358 18'',
      cc ''Albania'' ''AL'' ''+355'', cc ''Algeria'' ''DZ'' ''+213'',
      cc ''American Samoa'' ''AS'' ''+1 684'', cc ''Andorra'' ''AD'' ''+376'',
      cc ''Angola'' ''AO'' ''+244'', cc ''Anguilla'' ''AI'' ''+1 264'',
      cc ''Antigua and Barbuda'' ''AG'' ''+1 268'', cc ''Argentina'' ''AR'' ''+54'',
      cc ''Armenia'' ''AM'' ''+374'', cc ''Aruba'' ''AW'' ''+297'', cc ''Ascension'' ''SH'' ''+247'',
      cc ''Australia'' ''AU'' ''+61'', cc ''Australian Antarctic Territory'' ''AQ'' ''+672 1'',
      cc ''Australian External Territories'' [] ''+672'', cc ''Austria'' ''AT'' ''+43'',
      cc ''Azerbaijan'' ''AZ'' ''+994'', cc ''Bahamas'' ''BS'' ''+1 242'',
      cc ''Bahrain'' ''BH'' ''+973'', cc ''Bangladesh'' ''BD'' ''+880'',
      cc ''Barbados'' ''BB'' ''+1 246'', cc ''Barbuda'' ''AG'' ''+1 268'',
      cc ''Belarus'' ''BY'' ''+375'', cc ''Belgium'' ''BE'' ''+32'', cc ''Belize'' ''BZ'' ''+501'',
      cc ''Benin'' ''BJ'' ''+229'', cc ''Bermuda'' ''BM'' ''+1 441'', cc ''Bhutan'' ''BT'' ''+975'',
      cc ''Bolivia'' ''BO'' ''+591'', cc ''Bonaire'' ''BQ'' ''+599 7'',
      cc ''Bosnia and Herzegovina'' ''BA'' ''+387'', cc ''Botswana'' ''BW'' ''+267'',
      cc ''Brazil'' ''BR'' ''+55'', cc ''British Indian Ocean Territory'' ''IO'' ''+246'',
      cc ''Brunei Darussalam'' ''BN'' ''+673'', cc ''Bulgaria'' ''BG'' ''+359'',
      cc ''Burkina Faso'' ''BF'' ''+226'', cc ''Burundi'' ''BI'' ''+257'',
      cc ''Cambodia'' ''KH'' ''+855'', cc ''Cameroon'' ''CM'' ''+237'', cc ''Canada'' ''CA'' ''+1'',
      cc ''Cape Verde'' ''CV'' ''+238'', cc ''Caribbean Netherlands'' [] ''+599 3'',
      cc ''Caribbean Netherlands'' [] ''+599 4'', cc ''Caribbean Netherlands'' [] ''+599 7'',
      cc ''Cayman Islands'' ''KY'' ''+1 345'', cc ''Central African Republic'' ''CF'' ''+236'',
      cc ''Chad'' ''TD'' ''+235'', cc ''Chatham Island (New Zealand)'' ''NZ'' ''+64'',
      cc ''Chile'' ''CL'' ''+56'', cc ''China'' ''CN'' ''+86'',
      cc ''Christmas Island'' ''CX'' ''+61 89164'',
      cc ''Cocos (Keeling) Islands'' ''CC'' ''+61 89162'', cc ''Colombia'' ''CO'' ''+57'',
      cc ''Comoros'' ''KM'' ''+269'', cc ''Congo (Democratic Republic of the)'' ''CD'' ''+243'',
      cc ''Congo'' ''CG'' ''+242'', cc ''Cook Islands'' ''CK'' ''+682'',
      cc ''Costa Rica'' ''CR'' ''+506'',
      cc (''C'' @ [CHR 0xC3, CHR 0xB4] @ ''te d'' @ [CHR 0x27] @ ''Ivoire'') ''CI'' ''+225'',
      cc ''Croatia'' ''HR'' ''+385'', cc ''Cuba'' ''CU'' ''+53'',
      cc (''Cura'' @ [CHR 0xC3, CHR 0xA7] @ ''ao'') ''CW'' ''+599 9'', cc ''Cyprus'' ''CY'' ''+357'',
      cc ''Czech Republic'' ''CZ'' ''+420'', cc ''Denmark'' ''DK'' ''+45'',
      cc ''Diego Garcia'' [] ''+246'', cc ''Djibouti'' ''DJ'' ''+253'',
      cc ''Dominica'' ''DM'' ''+1 767'', cc ''Dominican Republic'' ''DO'' ''+1 809'',
      cc ''Dominican Republic'' ''DO'' ''+1 829'', cc ''Dominican Republic'' ''DO'' ''+1 849'',
      cc ''Easter Island'' ''CL'' ''+56'', cc ''Ecuador'' ''EC'' ''+593'',
      cc ''Egypt'' ''EG'' ''+20'', cc ''El Salvador'' ''SV'' ''+503'',
      cc ''Equatorial Guinea'' ''GQ'' ''+240'', cc ''Eritrea'' ''ER'' ''+291'',
      cc ''Estonia'' ''EE'' ''+372'', cc ''eSwatini'' ''SZ'' ''+268'',
      cc ''Ethiopia'' ''ET'' ''+251'', cc ''Falkland Islands (Malvinas)'' ''FK'' ''+500'',
      cc ''Faroe Islands'' ''FO'' ''+298'', cc ''Fiji'' ''FJ'' ''+679'',
      cc ''Finland'' ''FI'' ''+358'', cc ''France'' ''FR'' ''+33'',
      cc ''French Antilles'' [] ''+596'', cc ''French Guiana'' ''GF'' ''+594'',
      cc ''French Polynesia'' ''PF'' ''+689'', cc ''Gabon'' ''GA'' ''+241'',
      cc ''Gambia'' ''GM'' ''+220'', cc ''Georgia'' ''GE'' ''+995'', cc ''Germany'' ''DE'' ''+49'',
      cc ''Ghana'' ''GH'' ''+233'', cc ''Gibraltar'' ''GI'' ''+350'', cc ''Greece'' ''GR'' ''+30'',
      cc ''Greenland'' ''GL'' ''+299'', cc ''Grenada'' ''GD'' ''+1 473'',
      cc ''Guadeloupe'' ''GP'' ''+590'', cc ''Guam'' ''GU'' ''+1 671'',
      cc ''Guatemala'' ''GT'' ''+502'', cc ''Guernsey'' ''GG'' ''+44 1481'',
      cc ''Guernsey'' ''GG'' ''+44 7781'', cc ''Guernsey'' ''GG'' ''+44 7839'',
      cc ''Guernsey'' ''GG'' ''+44 7911'', cc ''Guinea-Bissau'' ''GW'' ''+245'',
      cc ''Guinea'' ''GN'' ''+224'', cc ''Guyana'' ''GY'' ''+592'', cc ''Haiti'' ''HT'' ''+509'',
      cc ''Honduras'' ''HN'' ''+504'', cc ''Hong Kong'' ''HK'' ''+852'',
      cc ''Hungary'' ''HU'' ''+36'', cc ''Iceland'' ''IS'' ''+354'', cc ''India'' ''IN'' ''+91'',
      cc ''Indonesia'' ''ID'' ''+62'', cc ''Iran'' ''IR'' ''+98'', cc ''Iraq'' ''IQ'' ''+964'',
      cc ''Ireland'' ''IE'' ''+353'', cc ''Isle of Man'' ''IM'' ''+44 1624'',
      cc ''Isle of Man'' ''IM'' ''+44 7524'', cc ''Isle of Man'' ''IM'' ''+44 7624'',
      cc ''Isle of Man'' ''IM'' ''+44 7924'', cc ''Israel'' ''IL'' ''+972'',
      cc ''Italy'' ''IT'' ''+39'', cc ''Jamaica'' ''JM'' ''+1 876'',
      cc ''Jan Mayen'' ''SJ'' ''+47 79'', cc ''Japan'' ''JP'' ''+81'',
      cc ''Jersey'' ''JE'' ''+44 1534'', cc ''Jordan'' ''JO'' ''+962'',
      cc ''Kazakhstan'' ''KZ'' ''+7 6'', cc ''Kazakhstan'' ''KZ'' ''+7 7'',
      cc ''Kenya'' ''KE'' ''+254'', cc ''Kiribati'' ''KI'' ''+686'',
      cc ''Korea (North)'' ''KP'' ''+850'', cc ''Korea (South)'' ''KR'' ''+82'',
      cc ''Kosovo'' ''XK'' ''+383'', cc ''Kuwait'' ''KW'' ''+965'',
      cc ''Kyrgyzstan'' ''KG'' ''+996'', cc ''Laos'' ''LA'' ''+856'', cc ''Latvia'' ''LV'' ''+371'']"

definition calling_codes_2 :: "calling_code list" where
  "calling_codes_2 =
     [cc ''Lebanon'' ''LB'' ''+961'', cc ''Lesotho'' ''LS'' ''+266'', cc ''Liberia'' ''LR'' ''+231'',
      cc ''Libya'' ''LY'' ''+218'', cc ''Liechtenstein'' ''LI'' ''+423'',
      cc ''Lithuania'' ''LT'' ''+370'', cc ''Luxembourg'' ''LU'' ''+352'',
      cc ''Macau (Macao)'' ''MO'' ''+853'', cc ''Madagascar'' ''MG'' ''+261'',
      cc ''Malawi'' ''MW'' ''+265'', cc ''Malaysia'' ''MY'' ''+60'', cc ''Maldives'' ''MV'' ''+960'',
      cc ''Mali'' ''ML'' ''+223'', cc ''Malta'' ''MT'' ''+356'',
      cc ''Marshall Islands'' ''MH'' ''+692'', cc ''Martinique'' ''MQ'' ''+596'',
      cc ''Mauritania'' ''MR'' ''+222'', cc ''Mauritius'' ''MU'' ''+230'',
      cc ''Mayotte'' ''YT'' ''+262 269'', cc ''Mayotte'' ''YT'' ''+262 639'',
      cc ''Mexico'' ''MX'' ''+52'', cc ''Micronesia (Federated States of)'' ''FM'' ''+691'',
      cc ''Midway Island (USA)'' ''US'' ''+1 808'', cc ''Moldova'' ''MD'' ''+373'',
      cc ''Monaco'' ''MC'' ''+377'', cc ''Mongolia'' ''MN'' ''+976'',
      cc ''Montenegro'' ''ME'' ''+382'', cc ''Montserrat'' ''MS'' ''+1 664'',
      cc ''Morocco'' ''MA'' ''+212'', cc ''Mozambique'' ''MZ'' ''+258'',
      cc ''Myanmar'' ''MM'' ''+95'', cc ''Nagorno-Karabakh'' ''AZ'' ''+374 47'',
      cc ''Nagorno-Karabakh'' ''AZ'' ''+374 97'', cc ''Namibia'' ''NA'' ''+264'',
      cc ''Nauru'' ''NR'' ''+674'', cc ''Nepal'' ''NP'' ''+977'', cc ''Netherlands'' ''NL'' ''+31'',
      cc ''Nevis'' ''KN'' ''+1 869'', cc ''New Caledonia'' ''NC'' ''+687'',
      cc ''New Zealand'' ''NZ'' ''+64'', cc ''Nicaragua'' ''NI'' ''+505'',
      cc ''Nigeria'' ''NG'' ''+234'', cc ''Niger'' ''NE'' ''+227'', cc ''Niue'' ''NU'' ''+683'',
      cc ''Norfolk Island'' ''NF'' ''+672 3'', cc ''Northern Cyprus'' ''CY'' ''+90 392'',
      cc ''Northern Ireland'' ''GB'' ''+44 28'', cc ''Northern Mariana Islands'' ''MP'' ''+1 670'',
      cc ''North Macedonia'' ''MK'' ''+389'', cc ''Norway'' ''NO'' ''+47'',
      cc ''Oman'' ''OM'' ''+968'', cc ''Pakistan'' ''PK'' ''+92'', cc ''Palau'' ''PW'' ''+680'',
      cc ''Palestine (State of)'' ''PS'' ''+970'', cc ''Panama'' ''PA'' ''+507'',
      cc ''Papua New Guinea'' ''PG'' ''+675'', cc ''Paraguay'' ''PY'' ''+595'',
      cc ''Peru'' ''PE'' ''+51'', cc ''Philippines'' ''PH'' ''+63'',
      cc ''Pitcairn Islands'' ''PN'' ''+64'', cc ''Poland'' ''PL'' ''+48'',
      cc ''Portugal'' ''PT'' ''+351'', cc ''Puerto Rico'' ''PR'' ''+1 787'',
      cc ''Puerto Rico'' ''PR'' ''+1 939'', cc ''Qatar'' ''QA'' ''+974'',
      cc (''R'' @ [CHR 0xC3, CHR 0xA9] @ ''union'') ''RE'' ''+262'', cc ''Romania'' ''RO'' ''+40'',
      cc ''Russia'' ''RU'' ''+7'', cc ''Rwanda'' ''RW'' ''+250'', cc ''Saba'' ''BQ'' ''+599 4'',
      cc (''Saint Barth'' @ [CHR 0xC3, CHR 0xA9] @ ''lemy'') ''BL'' ''+590'',
      cc ''Saint Helena'' ''SH'' ''+290'', cc ''Saint Kitts and Nevis'' ''KN'' ''+1 869'',
      cc ''Saint Lucia'' ''LC'' ''+1 758'', cc ''Saint Martin (France)'' ''MF'' ''+590'',
      cc ''Saint Pierre and Miquelon'' ''PM'' ''+508'',
      cc ''Saint Vincent and the Grenadines'' ''VC'' ''+1 784'', cc ''Samoa'' ''WS'' ''+685'',
      cc ''San Marino'' ''SM'' ''+378'',
      cc (''S'' @ [CHR 0xC3, CHR 0xA3] @ ''o Tom'' @ [CHR 0xC3, CHR 0xA9] @ '' and Pr'' @ [CHR 0xC3, CHR 0xAD] @ ''ncipe'') ''ST'' ''+239'',
      cc ''Saudi Arabia'' ''SA'' ''+966'', cc ''Senegal'' ''SN'' ''+221'',
      cc ''Serbia'' ''RS'' ''+381'', cc ''Seychelles'' ''SC'' ''+248'',
      cc ''Sierra Leone'' ''SL'' ''+232'', cc ''Singapore'' ''SG'' ''+65'',
      cc ''Sint Eustatius'' ''BQ'' ''+599 3'', cc ''Sint Maarten (Netherlands)'' ''SX'' ''+1 721'',
      cc ''Slovakia'' ''SK'' ''+421'', cc ''Slovenia'' ''SI'' ''+386'',
      cc ''Solomon Islands'' ''SB'' ''+677'', cc ''Somalia'' ''SO'' ''+252'',
      cc ''South Africa'' ''ZA'' ''+27'',
      cc ''South Georgia and the South Sandwich Islands'' ''GS'' ''+500'',
      cc ''South Ossetia'' ''GE'' ''+995 34'', cc ''South Sudan'' ''SS'' ''+211'',
      cc ''Spain'' ''ES'' ''+34'', cc ''Sri Lanka'' ''LK'' ''+94'', cc ''Sudan'' ''SD'' ''+249'',
      cc ''Suriname'' ''SR'' ''+597'', cc ''Svalbard'' ''SJ'' ''+47 79'',
      cc ''Sweden'' ''SE'' ''+46'', cc ''Switzerland'' ''CH'' ''+41'', cc ''Syria'' ''SY'' ''+963'',
      cc ''Taiwan'' ''SJ'' ''+886'', cc ''Tajikistan'' ''TJ'' ''+992'',
      cc ''Tanzania'' ''TZ'' ''+255'', cc ''Thailand'' ''TH'' ''+66'',
      cc ''Timor-Leste'' ''TL'' ''+670'', cc ''Togo'' ''TG'' ''+228'',
      cc ''Tokelau'' ''TK'' ''+690'', cc ''Tonga'' ''TO'' ''+676'',
      cc ''Transnistria'' ''MD'' ''+373 2'', cc ''Transnistria'' ''MD'' ''+373 5'',
      cc ''Trinidad and Tobago'' ''TT'' ''+1 868'', cc ''Tristan da Cunha'' ''SH'' ''+290 8'',
      cc ''Tunisia'' ''TN'' ''+216'', cc ''Turkey'' ''TR'' ''+90'',
      cc ''Turkmenistan'' ''TM'' ''+993'', cc ''Turks and Caicos Islands'' ''TC'' ''+1 649'',
      cc ''Tuvalu'' ''TV'' ''+688'', cc ''Uganda'' ''UG'' ''+256'', cc ''Ukraine'' ''UA'' ''+380'',
      cc ''United Arab Emirates'' ''AE'' ''+971'', cc ''United Kingdom'' ''GB'' ''+44'',
      cc ''United States'' ''US'' ''+1'', cc ''Uruguay'' ''UY'' ''+598'',
      cc ''Uzbekistan'' ''UZ'' ''+998'', cc ''Vanuatu'' ''VU'' ''+678'',
      cc ''Vatican City State (Holy See)'' ''VA'' ''+379'',
      cc ''Vatican City State (Holy See)'' ''VA'' ''+39 06 698'', cc ''Venezuela'' ''VE'' ''+58'',
      cc ''Vietnam'' ''VN'' ''+84'', cc ''Virgin Islands (British)'' ''VG'' ''+1 284'',
      cc ''Virgin Islands (US)'' ''VI'' ''+1 340'', cc ''Wake Island (USA)'' ''US'' ''+1 808'',
      cc ''Wallis and Futuna'' ''WF'' ''+681'', cc ''Yemen'' ''YE'' ''+967'',
      cc ''Zambia'' ''ZM'' ''+260'', cc ''Zanzibar'' ''TZ'' ''+255 24'',
      cc ''Zimbabwe'' ''ZW'' ''+263'']"

definition iso_countries_1 :: "(string \<times> string) list" where
  "iso_countries_1 =
     [(''AD'', ''Andorra''), (''AE'', ''United Arab Emirates''), (''AF'', ''Afghanistan''),
      (''AG'', ''Antigua and Barbuda, Barbuda''), (''AI'', ''Anguilla''), (''AL'', ''Albania''),
      (''AM'', ''Armenia''), (''AO'', ''Angola''), (''AQ'', ''Australian Antarctic Territory''),
      (''AR'', ''Argentina''), (''AS'', ''American Samoa''), (''AT'', ''Austria''),
      (''AU'', ''Australia''), (''AW'', ''Aruba''),
      (''AX'', ([CHR 0xC3, CHR 0x85] @ ''land Islands'')),
      (''AZ'', ''Azerbaijan, Nagorno-Karabakh''), (''BA'', ''Bosnia and Herzegovina''),
      (''BB'', ''Barbados''), (''BD'', ''Bangladesh''), (''BE'', ''Belgium''),
      (''BF'', ''Burkina Faso''), (''BG'', ''Bulgaria''), (''BH'', ''Bahrain''),
      (''BI'', ''Burundi''), (''BJ'', ''Benin''),
      (''BL'', (''Saint Barth'' @ [CHR 0xC3, CHR 0xA9] @ ''lemy'')), (''BM'', ''Bermuda''),
      (''BN'', ''Brunei Darussalam''), (''BO'', ''Bolivia''),
      (''BQ'', ''Bonaire, Saba, Sint Eustatius''), (''BR'', ''Brazil''), (''BS'', ''Bahamas''),
      (''BT'', ''Bhutan''), (''BW'', ''Botswana''), (''BY'', ''Belarus''), (''BZ'', ''Belize''),
      (''CA'', ''Canada''), (''CC'', ''Cocos (Keeling) Islands''),
      (''CD'', ''Congo (Democratic Republic of the)''), (''CF'', ''Central African Republic''),
      (''CG'', ''Congo''), (''CH'', ''Switzerland''),
      (''CI'', (''C'' @ [CHR 0xC3, CHR 0xB4] @ ''te d'' @ [CHR 0x27] @ ''Ivoire'')),
      (''CK'', ''Cook Islands''), (''CL'', ''Chile, Easter Island''), (''CM'', ''Cameroon''),
      (''CN'', ''China''), (''CO'', ''Colombia''), (''CR'', ''Costa Rica''), (''CU'', ''Cuba''),
      (''CV'', ''Cape Verde''), (''CW'', (''Cura'' @ [CHR 0xC3, CHR 0xA7] @ ''ao'')),
      (''CX'', ''Christmas Island''), (''CY'', ''Cyprus, Northern Cyprus''),
      (''CZ'', ''Czech Republic''), (''DE'', ''Germany''), (''DJ'', ''Djibouti''),
      (''DK'', ''Denmark''), (''DM'', ''Dominica''), (''DO'', ''Dominican Republic''),
      (''DZ'', ''Algeria''), (''EC'', ''Ecuador''), (''EE'', ''Estonia''), (''EG'', ''Egypt''),
      (''ER'', ''Eritrea''), (''ES'', ''Spain''), (''ET'', ''Ethiopia''), (''FI'', ''Finland''),
      (''FJ'', ''Fiji''), (''FK'', ''Falkland Islands (Malvinas)''),
      (''FM'', ''Micronesia (Federated States of)''), (''FO'', ''Faroe Islands''),
      (''FR'', ''France''), (''GA'', ''Gabon''), (''GB'', ''Northern Ireland, United Kingdom''),
      (''GD'', ''Grenada''), (''GE'', ''Georgia, South Ossetia''), (''GF'', ''French Guiana''),
      (''GG'', ''Guernsey''), (''GH'', ''Ghana''), (''GI'', ''Gibraltar''), (''GL'', ''Greenland''),
      (''GM'', ''Gambia''), (''GN'', ''Guinea''), (''GP'', ''Guadeloupe''),
      (''GQ'', ''Equatorial Guinea''), (''GR'', ''Greece''),
      (''GS'', ''South Georgia and the South Sandwich Islands''), (''GT'', ''Guatemala''),
      (''GU'', ''Guam''), (''GW'', ''Guinea-Bissau''), (''GY'', ''Guyana''), (''HK'', ''Hong Kong''),
      (''HN'', ''Honduras''), (''HR'', ''Croatia''), (''HT'', ''Haiti''), (''HU'', ''Hungary''),
      (''ID'', ''Indonesia''), (''IE'', ''Ireland''), (''IL'', ''Israel''),
      (''IM'', ''Isle of Man''), (''IN'', ''India''), (''IO'', ''British Indian Ocean Territory''),
      (''IQ'', ''Iraq''), (''IR'', ''Iran''), (''IS'', ''Iceland''), (''IT'', ''Italy''),
      (''JE'', ''Jersey''), (''JM'', ''Jamaica''), (''JO'', ''Jordan''), (''JP'', ''Japan''),
      (''KE'', ''Kenya''), (''KG'', ''Kyrgyzstan''), (''KH'', ''Cambodia''), (''KI'', ''Kiribati''),
      (''KM'', ''Comoros''), (''KN'', ''Nevis, Saint Kitts and Nevis''), (''KP'', ''Korea (North)''),
      (''KR'', ''Korea (South)''), (''KW'', ''Kuwait''), (''KY'', ''Cayman Islands''),
      (''KZ'', ''Kazakhstan'')]"

definition iso_countries_2 :: "(string \<times> string) list" where
  "iso_countries_2 =
     [(''LA'', ''Laos''), (''LB'', ''Lebanon''), (''LC'', ''Saint Lucia''),
      (''LI'', ''Liechtenstein''), (''LK'', ''Sri Lanka''), (''LR'', ''Liberia''),
      (''LS'', ''Lesotho''), (''LT'', ''Lithuania''), (''LU'', ''Luxembourg''), (''LV'', ''Latvia''),
      (''LY'', ''Libya''), (''MA'', ''Morocco''), (''MC'', ''Monaco''),
      (''MD'', ''Moldova, Transnistria''), (''ME'', ''Montenegro''),
      (''MF'', ''Saint Martin (France)''), (''MG'', ''Madagascar''), (''MH'', ''Marshall Islands''),
      (''MK'', ''North Macedonia''), (''ML'', ''Mali''), (''MM'', ''Myanmar''),
      (''MN'', ''Mongolia''), (''MO'', ''Macau (Macao)''), (''MP'', ''Northern Mariana Islands''),
      (''MQ'', ''Martinique''), (''MR'', ''Mauritania''), (''MS'', ''Montserrat''),
      (''MT'', ''Malta''), (''MU'', ''Mauritius''), (''MV'', ''Maldives''), (''MW'', ''Malawi''),
      (''MX'', ''Mexico''), (''MY'', ''Malaysia''), (''MZ'', ''Mozambique''), (''NA'', ''Namibia''),
      (''NC'', ''New Caledonia''), (''NE'', ''Niger''), (''NF'', ''Norfolk Island''),
      (''NG'', ''Nigeria''), (''NI'', ''Nicaragua''), (''NL'', ''Netherlands''),
      (''NO'', ''Norway''), (''NP'', ''Nepal''), (''NR'', ''Nauru''), (''NU'', ''Niue''),
      (''NZ'', ''Chatham Island (New Zealand), New Zealand''), (''OM'', ''Oman''),
      (''PA'', ''Panama''), (''PE'', ''Peru''), (''PF'', ''French Polynesia''),
      (''PG'', ''Papua New Guinea''), (''PH'', ''Philippines''), (''PK'', ''Pakistan''),
      (''PL'', ''Poland''), (''PM'', ''Saint Pierre and Miquelon''), (''PN'', ''Pitcairn Islands''),
      (''PR'', ''Puerto Rico''), (''PS'', ''Palestine (State of)''), (''PT'', ''Portugal''),
      (''PW'', ''Palau''), (''PY'', ''Paraguay''), (''QA'', ''Qatar''),
      (''RE'', (''R'' @ [CHR 0xC3, CHR 0xA9] @ ''union'')), (''RO'', ''Romania''),
      (''RS'', ''Serbia''), (''RU'', ''Russia''), (''RW'', ''Rwanda''), (''SA'', ''Saudi Arabia''),
      (''SB'', ''Solomon Islands''), (''SC'', ''Seychelles''), (''SD'', ''Sudan''),
      (''SE'', ''Sweden''), (''SG'', ''Singapore''),
      (''SH'', ''Ascension, Saint Helena, Tristan da Cunha''), (''SI'', ''Slovenia''),
      (''SJ'', ''Jan Mayen, Svalbard, Taiwan''), (''SK'', ''Slovakia''), (''SL'', ''Sierra Leone''),
      (''SM'', ''San Marino''), (''SN'', ''Senegal''), (''SO'', ''Somalia''), (''SR'', ''Suriname''),
      (''SS'', ''South Sudan''),
      (''ST'', (''S'' @ [CHR 0xC3, CHR 0xA3] @ ''o Tom'' @ [CHR 0xC3, CHR 0xA9] @ '' and Pr'' @ [CHR 0xC3, CHR 0xAD] @ ''ncipe'')),
      (''SV'', ''El Salvador''), (''SX'', ''Sint Maarten (Netherlands)''), (''SY'', ''Syria''),
      (''SZ'', ''eSwatini''), (''TC'', ''Turks and Caicos Islands''), (''TD'', ''Chad''),
      (''TG'', ''Togo''), (''TH'', ''Thailand''), (''TJ'', ''Tajikistan''), (''TK'', ''Tokelau''),
      (''TL'', ''Timor-Leste''), (''TM'', ''Turkmenistan''), (''TN'', ''Tunisia''),
      (''TO'', ''Tonga''), (''TR'', ''Turkey''), (''TT'', ''Trinidad and Tobago''),
      (''TV'', ''Tuvalu''), (''TZ'', ''Tanzania, Zanzibar''), (''UA'', ''Ukraine''),
      (''UG'', ''Uganda''), (''US'', ''Midway Island (USA), United States, Wake Island (USA)''),
      (''UY'', ''Uruguay''), (''UZ'', ''Uzbekistan''), (''VA'', ''Vatican City State (Holy See)''),
      (''VC'', ''Saint Vincent and the Grenadines''), (''VE'', ''Venezuela''),
      (''VG'', ''Virgin Islands (British)''), (''VI'', ''Virgin Islands (US)''),
      (''VN'', ''Vietnam''), (''VU'', ''Vanuatu''), (''WF'', ''Wallis and Futuna''),
      (''WS'', ''Samoa''), (''XK'', ''Kosovo''), (''YE'', ''Yemen''), (''YT'', ''Mayotte''),
      (''ZA'', ''South Africa''), (''ZM'', ''Zambia''), (''ZW'', ''Zimbabwe'')]"

definition calling_codes :: "calling_code list" where
  "calling_codes = calling_codes_1 @ calling_codes_2"

definition iso_countries :: "(string \<times> string) list" where
  "iso_countries = iso_countries_1 @ iso_countries_2"

section \<open>Generating the second table\<close>

text \<open>
  The conversion: the names per ISO code, each once and in order, joined; entries without an ISO
  code are left out, and the result is in the order of the codes.
\<close>

fun group_names :: "(string \<times> string) list \<Rightarrow> (string \<times> string) list" where
  "group_names [] = []"
| "group_names ((i, n) # rest) =
     (case group_names rest of
        [] \<Rightarrow> [(i, n)]
      | (j, ns) # gs \<Rightarrow> if i = j then (i, n @ '', '' @ ns) # gs else (i, n) # (j, ns) # gs)"

definition iso_only :: "calling_code list \<Rightarrow> (string \<times> string) list" where
  "iso_only cs =
     group_names (remdups_adj (sort (map (\<lambda>c. (cc_iso c, cc_name c)) (filter (\<lambda>c. cc_iso c \<noteq> []) cs))))"

text \<open>A calling code is a plus sign, then digits with single spaces between them.\<close>

definition digit :: "char \<Rightarrow> bool" where
  "digit c = (c \<in> set ''0123456789'')"

fun spaced_digits :: "string \<Rightarrow> bool" where
  "spaced_digits [] = False"
| "spaced_digits [c] = digit c"
| "spaced_digits (c # d # cs) =
     (digit c \<and> (if d = CHR '' '' then spaced_digits cs else spaced_digits (d # cs)))"

definition valid_code :: "string \<Rightarrow> bool" where
  "valid_code p = (case p of [] \<Rightarrow> False | c # cs \<Rightarrow> c = CHR ''+'' \<and> spaced_digits cs)"

section \<open>Sorting by merging\<close>

fun merge :: "('a::linorder) list \<Rightarrow> 'a list \<Rightarrow> 'a list" where
  "merge [] ys = ys"
| "merge xs [] = xs"
| "merge (x # xs) (y # ys) = (if x \<le> y then x # merge xs (y # ys) else y # merge (x # xs) ys)"

fun merge_pairs :: "('a::linorder) list list \<Rightarrow> 'a list list" where
  "merge_pairs (x # y # zs) = merge x y # merge_pairs zs"
| "merge_pairs zs = zs"

lemma length_merge_pairs: "length (merge_pairs zs) \<le> length zs"
  by (induction zs rule: merge_pairs.induct) auto

function merge_lists :: "('a::linorder) list list \<Rightarrow> 'a list" where
  "merge_lists [] = []"
| "merge_lists [x] = x"
| "merge_lists (x # y # zs) = merge_lists (merge_pairs (x # y # zs))"
  by pat_completeness auto
termination
  by (relation "measure length") (auto simp: less_Suc_eq_le length_merge_pairs)

lemma mset_merge: "mset (merge xs ys) = mset xs + mset ys"
  by (induction xs ys rule: merge.induct) auto

lemma set_merge: "set (merge xs ys) = set xs \<union> set ys"
  by (induction xs ys rule: merge.induct) auto

lemma sorted_merge: "sorted xs \<Longrightarrow> sorted ys \<Longrightarrow> sorted (merge xs ys)"
  by (induction xs ys rule: merge.induct) (auto simp: set_merge)

lemma mset_merge_pairs: "mset (concat (merge_pairs zs)) = mset (concat zs)"
  by (induction zs rule: merge_pairs.induct) (auto simp: mset_merge)

lemma sorted_merge_pairs: "list_all sorted zs \<Longrightarrow> list_all sorted (merge_pairs zs)"
  by (induction zs rule: merge_pairs.induct) (auto simp: sorted_merge)

lemma merge_lists_props:
  "mset (merge_lists zs) = mset (concat zs) \<and> (list_all sorted zs \<longrightarrow> sorted (merge_lists zs))"
proof (induction zs rule: merge_lists.induct)
  case (3 x y zs)
  then show ?case
    using mset_merge_pairs[of "x # y # zs"] sorted_merge_pairs[of "x # y # zs"] by simp
qed auto

lemma sort_merges: "sort xs = merge_lists (map (\<lambda>x. [x]) xs)"
  using merge_lists_props[of "map (\<lambda>x. [x]) xs"]
  by (intro properties_for_sort) (auto simp: list_all_iff comp_def)

text \<open>
  The country tables agree.  The table of ISO codes is what the documented conversion makes
  of the table of calling codes, so it has every ISO code once, in order, with all its names; and
  every entry of the latter has a calling code.
\<close>

theorem country_tables_agree:
  "iso_countries = iso_only calling_codes \<and> list_all (\<lambda>c. valid_code (cc_prefix c)) calling_codes"
proof
  show "iso_countries = iso_only calling_codes"
    unfolding iso_only_def sort_merges by code_simp
  show "list_all (\<lambda>c. valid_code (cc_prefix c)) calling_codes"
    by code_simp
qed

end
