(* ===== verification/Captcha.thy ===== *)
theory Captcha
  imports Main
begin

text \<open>
  The frame script that takes the result of the captcha page back to the application
  (\<open>qml/pages/captchaframescript.js\<close>), the part of the registration that accepts it
  (\<open>whisperfish/src/worker/client.rs\<close>), and the test for playlists (\<open>qml/js/attachment.js\<close>).

  What the script reads of the page is a record: its address, what \<open>grecaptcha.enterprise\<close> answers,
  if \<open>grecaptcha\<close> and its member are there, and the attribute of the first hCaptcha frame, if
  there is one.  The handler runs once for every change of the attributes of the body.
\<close>

section \<open>Playlists\<close>

definition ends_with :: "string \<Rightarrow> string \<Rightarrow> bool" where
  "ends_with suffix s = (drop (length s - length suffix) s = suffix)"

definition isPlaylist :: "string \<Rightarrow> bool" where
  "isPlaylist filename =
     (ends_with ''.m3u'' filename \<or> ends_with ''.m3u8'' filename \<or> ends_with ''.pls'' filename
      \<or> ends_with ''.asx'' filename \<or> ends_with ''.wpl'' filename \<or> ends_with ''.cue'' filename)"

section \<open>The captcha\<close>

record captcha_page =
  cp_href :: string
  cp_grecaptcha :: "string option option"
  cp_hcaptcha :: "string option"

record captcha_state =
  wf_cp_done :: bool
  wf_result :: "string option"
  captcha_done :: "string list"

definition captcha_loaded :: captcha_state where
  "captcha_loaded = \<lparr> wf_cp_done = False, wf_result = None, captcha_done = [] \<rparr>"

fun str_includes :: "string \<Rightarrow> string \<Rightarrow> bool" where
  "str_includes [] t = (t = [])"
| "str_includes (c # s) t = (take (length t) (c # s) = t \<or> str_includes s t)"

text \<open>The scheme, the site key and the token the page offers; without a token they are empty.\<close>

definition captcha_parts :: "string option \<Rightarrow> string option \<Rightarrow> string \<times> string \<times> string" where
  "captcha_parts enterprise hcaptcha =
     (case enterprise of
        Some response \<Rightarrow>
          (''signal-recaptcha-v2'', ''6LfBXs0bAAAAAAjkDyyI1Lk5gBAUWfhI_bIyox5W'', response)
      | None \<Rightarrow>
          (case hcaptcha of
             Some response \<Rightarrow> (''signal-hcaptcha'', ''5fad97ac-7d06-4e44-b18a-b950b20148ff'', response)
           | None \<Rightarrow> ([], [], [])))"

definition captcha_action :: "string \<Rightarrow> string" where
  "captcha_action href = (if str_includes href ''registration'' then ''registration'' else ''challenge'')"

definition captcha_link :: "string \<Rightarrow> string \<Rightarrow> string \<Rightarrow> string \<Rightarrow> string" where
  "captcha_link scheme sitekey action token =
     ''signalcaptcha://'' @ scheme @ ''.'' @ sitekey @ ''.'' @ action @ ''.'' @ token"

text \<open>
  Without \<open>grecaptcha\<close> the handler throws before it has changed anything.  The event it
  dispatches is handled at once by the listener, which sends the result on.
\<close>

definition wf_cp_handler :: "captcha_page \<Rightarrow> captcha_state \<Rightarrow> captcha_state" where
  "wf_cp_handler p st =
     (if wf_cp_done st then st
      else
        (case cp_grecaptcha p of
           None \<Rightarrow> st
         | Some enterprise \<Rightarrow>
             (let action = captcha_action (cp_href p);
                  (scheme, sitekey, token) = captcha_parts enterprise (cp_hcaptcha p)
              in if token = [] then st
                 else
                   (let result = captcha_link scheme sitekey action token
                    in st\<lparr>wf_cp_done := True, wf_result := Some result,
                          captcha_done := captcha_done st @ [result]\<rparr>))))"

text \<open>What \<open>submit_proof_captcha\<close> hands to the service of such a link.\<close>

definition strip_captcha :: "string \<Rightarrow> string" where
  "strip_captcha response =
     (if take 16 response = ''signalcaptcha://'' then drop 16 response else response)"

section \<open>The result of a page\<close>

definition page_link :: "captcha_page \<Rightarrow> string option" where
  "page_link p =
     (case cp_grecaptcha p of
        None \<Rightarrow> None
      | Some enterprise \<Rightarrow>
          (let (scheme, sitekey, token) = captcha_parts enterprise (cp_hcaptcha p)
           in if token = [] then None
              else Some (captcha_link scheme sitekey (captcha_action (cp_href p)) token)))"

lemma handler_done: "wf_cp_done st \<Longrightarrow> fold wf_cp_handler ps st = st"
  by (induction ps) (simp_all add: wf_cp_handler_def)

lemma handler_step:
  "\<not> wf_cp_done st \<Longrightarrow> wf_cp_handler p st =
     (case page_link p of None \<Rightarrow> st
      | Some link \<Rightarrow> st\<lparr>wf_cp_done := True, wf_result := Some link, captcha_done := captcha_done st @ [link]\<rparr>)"
  by (simp add: wf_cp_handler_def page_link_def Let_def split: option.splits prod.splits)

lemma handler_fold:
  "\<not> wf_cp_done st \<Longrightarrow> fold wf_cp_handler ps st =
     (case List.map_filter page_link ps of [] \<Rightarrow> st
      | link # _ \<Rightarrow> st\<lparr>wf_cp_done := True, wf_result := Some link, captcha_done := captcha_done st @ [link]\<rparr>)"
  by (induction ps arbitrary: st)
    (auto simp: List.map_filter_simps handler_step handler_done split: option.splits)

section \<open>Properties\<close>

text \<open>
  C28. The captcha is reported once.  Whatever the page goes through, the application is sent the
  link of the first moment there is a token, and no other; stripped of its scheme a link is the
  provider, the site key, the action and the token, joined by dots.
\<close>

theorem captcha_reported_once:
  "captcha_done (fold wf_cp_handler ps captcha_loaded) = take 1 (List.map_filter page_link ps)
   \<and> wf_result (fold wf_cp_handler ps captcha_loaded)
       = (case List.map_filter page_link ps of [] \<Rightarrow> None | link # _ \<Rightarrow> Some link)
   \<and> strip_captcha (captcha_link scheme sitekey action token)
       = scheme @ ''.'' @ sitekey @ ''.'' @ action @ ''.'' @ token"
proof -
  have "\<not> wf_cp_done captcha_loaded"
    by (simp add: captcha_loaded_def)
  then show ?thesis
    by (simp add: handler_fold captcha_loaded_def strip_captcha_def captcha_link_def split: list.splits)
qed

end
