(* ===== verification/Spec2Isabelle.thy ===== *)
theory Spec2Isabelle
  imports MergeMoves RecipientEvents SessionFacts Paths MessageProps DeletionProps EarlyReceiptProps BodyRangeProps
    ProtocolProps GroupProps GroupRefreshProps AugmentedProps MessageViewProps SessionViewProps CallLogProps SettingsStore
    ProfileRefreshProps MessageExpiryProps ClientMessageProps TypingProps RowDisplay
    EmojiPattern EmojiProps Countries Captcha
begin

text \<open>
  Whisperfish, a Signal client for Sailfish OS: a verification development.

  \<^bold>\<open>The program.\<close>  The client has four layers.  The \<^emph>\<open>store\<close> (\<open>whisperfish-store\<close>) keeps
  recipients, sessions, messages, receipts, reactions and attachments in an SQLite database and
  reports every change to observers.  The \<^emph>\<open>workers\<close> (\<open>whisperfish/src/worker\<close>) talk to the
  service through libraries and call the store.  The \<^emph>\<open>models\<close> (\<open>whisperfish/src/model\<close>) keep
  what is on screen, event by event, and the \<^emph>\<open>user interface\<close> (\<open>qml/\<close>) shows it; its own logic
  is a few scripts: replacing emojis by images, the tables of countries, and the script that takes
  the result of a captcha back to the application.

  \<^bold>\<open>How the code is modelled.\<close>  A table is the list of its rows in rowid order, a row is a record
  with the fields of the struct, an id is an \<open>int\<close>, a time an \<open>int\<close> of milliseconds (the expiry
  queue works in seconds, as its SQL does, and gives a negative timer no deadline).  A statement becomes one of the list operations of
  \<open>Prelude\<close>; a constraint the statement can violate becomes an error of the result type
  \<open>store_error + 'a\<close>, and so does every \<open>unwrap\<close>, \<open>expect\<close> and assertion (\<open>Panic\<close>).  Failures
  of the disk or of SQLite itself are outside of the model.  A Rust string is the list of its
  bytes, a JavaScript string the list of its UTF-16 code units.  What belongs to other programs
  is an argument: the regular expression of the paths that may be deleted, the length of a
  profile key, which files can be fetched, how the page resolves a URL.  Where a value is an
  integer that wraps around in the code the model wraps around (\<open>i32_wrap\<close>).

  \<^bold>\<open>The theories.\<close>
  \<^item> \<open>Prelude\<close>: list-backed tables, results, the locale \<open>rowid_table\<close> of tables with a rowid.
  \<^item> \<open>Orm\<close>: rows and enumerations (\<open>store/orm.rs\<close>).
  \<^item> \<open>Observer\<close>: events, interests, subscriptions and their delivery (\<open>store/observer.rs\<close>,
    \<open>store/observer/diesel.rs\<close>, \<open>whisperfish/src/store.rs\<close>); the locale \<open>event_sink\<close> is what
    the operations of the store need of the observer.
  \<^item> \<open>Database\<close>, \<open>Cascade\<close>: the state (\<open>database\<close> for the tables, \<open>storage\<close> with the events
    sent so far, the clock, the files and the cached self recipient), the constraints of the
    schema, and the cascades of deletions with a fuel of the number of messages: each round of
    the cascade that is not the last one finds another message, so it is enough (\<open>cascade_closed\<close>).
  \<^item> \<open>RecipientMerge\<close>, \<open>MergeMoves\<close>: identifying a recipient by ACI, PNI and phone number, and
    merging the ones that turn out to be the same (\<open>store/recipient_merge.rs\<close>).
  \<^item> \<open>RecipientStore\<close>, \<open>RecipientEvents\<close>: the recipients of the store, profiles and profile keys,
    flags, the cached self recipient, and which changes are reported.
  \<^item> \<open>SessionStore\<close>, \<open>SessionFacts\<close>: sessions, direct ones and those of groups of both kinds, the
    migration between the two, the expiration timer.
  \<^item> \<open>MessageStore\<close>, \<open>ReceiptStore\<close>, \<open>AttachmentStore\<close>, with \<open>MessageFacts\<close>, \<open>MessageProps\<close> and
    \<open>DeletionProps\<close>: messages, edits, reactions, receipts, the expiry queue, the search,
    attachments and deletion (\<open>store.rs\<close>).
  \<^item> \<open>Paths\<close>: paths relative to the home directory (\<open>lib.rs\<close>).
  \<^item> \<open>GroupStore\<close>, \<open>GroupProps\<close>: groups, their members and who is invited, asking to join or banned
    (\<open>store.rs\<close>); the step relation \<open>group_step\<close> has one rule for each of the operations.
  \<^item> \<open>GroupChanges\<close>, \<open>GroupChangeProps\<close>: the handler of group change messages
    (\<open>worker/client/groupv2.rs\<close>), which calls the operations of \<open>GroupStore\<close>, \<open>SessionStore\<close> and
    \<open>MessageStore\<close>; its soundness is that of \<open>group_step\<close>, change by change.
  \<^item> \<open>GroupRefresh\<close>, \<open>GroupRefreshProps\<close>: what is written when a group has been fetched.  The contract
    is \<open>member_entries\<close>, the abstract set of members with role and label: after a refresh it is
    the one of the server.
  \<^item> \<open>ProtocolStore\<close>, \<open>ProtocolProps\<close>: pre-keys, protocol sessions, identity keys and sender keys
    (\<open>store/protocol_store.rs\<close>).  The locale \<open>keyed_store\<close> is the contract of a store under keys
    (lookup, put, remove); it is interpreted on the pre-keys, the Kyber pre-keys, the sessions
    and the identity keys of the model.
  \<^item> \<open>BodyRanges\<close>, \<open>BodyRangeProps\<close>: the styles, links and mentions of a message, stored, sent and
    rendered (\<open>store/body_ranges.rs\<close>); strings there are lists of Unicode scalar values, and the
    choice of a binary search among equal elements is the argument \<open>pick\<close>.
  \<^item> \<open>EarlyReceiptCache\<close>, \<open>EarlyReceiptProps\<close>: receipts that come before their message
    (\<open>worker/client/early_receipt_cache.rs\<close>).
  \<^item> \<open>AugmentedQueries\<close>, \<open>AugmentedProps\<close>: the joined rows on screen, fetched one at a time or a session
    at once (\<open>store.rs\<close>), and when the two agree.
  \<^item> \<open>MessageView\<close>, \<open>SessionView\<close>, with \<open>MessageViewProps\<close> and \<open>SessionViewProps\<close>: the messages of a
    conversation and the list of conversations, as the events of the store change them
    (\<open>model/messages.rs\<close>, \<open>model/sessions.rs\<close>), and what views subscribe to
    (\<open>store/observer/orm_interests.rs\<close>).  The abstract specification of a list is what loading it
    again gives: handling the events about all changed rows, in any order, reaches it.  The lists
    are descending in a key, and a descending list is determined by its elements.
  \<^item> \<open>RowDisplay\<close>: the sections of the list of conversations and the ticks (\<open>store/orm.rs\<close>).
  \<^item> \<open>CallLog\<close>, \<open>CallLogProps\<close>: calls in the store (\<open>store/calls.rs\<close>).
  \<^item> \<open>SettingsStore\<close>: the settings and the keys in them (\<open>store.rs\<close>, \<open>store/protocol_store.rs\<close>), another
    interpretation of \<open>keyed_store\<close>.
  \<^item> \<open>ProfileRefresh\<close>, \<open>ProfileRefreshProps\<close>: the worker that fetches profiles
    (\<open>worker/profile_refresh.rs\<close>), as functions of its state and as the step relation \<open>updater_step\<close>,
    in which the clock advances and others change the store between two steps.  In a batch
    (\<open>wake_up\<close>) each answer takes the time it is given, and consecutive wake-ups (\<open>wake_ups\<close>) come
    with the delay the worker computes.
  \<^item> \<open>MessageExpiry\<close>, \<open>MessageExpiryProps\<close>: the stream that sleeps until the next message expires
    (\<open>worker/message_expiry.rs\<close>) and the handlers around it, with the step relation \<open>expiry_step\<close>;
    what a negative timer does to it.
  \<^item> \<open>ClientMessages\<close>, \<open>ClientMessageFacts\<close>, \<open>ClientMessageProps\<close>: what the client does with a
    message it has received (\<open>worker/client.rs\<close>), composed of the operations of the store, the
    early receipt cache and the expiry stream.  Parsed protocol messages are records; what the
    client queues to itself and signals to the user interface are lists of its state \<open>client\<close>.
    \<open>intact\<close> is the relation between the stores before and after that every step for a known
    sender keeps, as long as each edit series is from one sender: nobody else's messages change.
  \<^item> \<open>TypingView\<close>, \<open>TypingProps\<close>: who is typing (\<open>model/typing.rs\<close>), with the step relation
    \<open>typing_step\<close>, in which the clock advances and due sweeps run at any moment.
  \<^item> \<open>Emoji\<close>, \<open>EmojiPattern\<close>, \<open>EmojiProps\<close>: the emoji replacement (\<open>qml/js/emoji.js\<close>).
  \<^item> \<open>Countries\<close>: the tables of countries (\<open>qml/js/countries.js\<close>, \<open>qml/js/countries_iso_only.js\<close>).
  \<^item> \<open>Captcha\<close>: the script of the captcha page and \<open>qml/js/attachment.js\<close>.

  \<^bold>\<open>Not modelled.\<close>  The rest of the client worker (sending, attachments on the network, linking of
  devices, the storage service), the audio and video of calls, the other Qt models, the
  signals of the modelled ones and the QML pages are asynchronous glue around libraries; the
  translations are texts.  Opening and
  encrypting the database and the one-time migrations are file and cryptography library calls.
\<close>

end
